(* ===== verification/Cad_Prelude.thy ===== *)
theory Cad_Prelude
  imports Main "HOL-Library.Word"
begin

text \<open>
  What every component shares: Python exceptions as values, a result type for code that only
  reads, a state-and-exception type for code that also writes (the state reached so far survives
  a raise, as it does in Python), the combinators of both with their Hoare-style rules, the
  fixed-format string patterns of the wire identifiers, and lemmas on lists and maps.
\<close>

section \<open>Exceptions and results\<close>

datatype exn =
    ValidationError string
  | ValueError string
  | TypeError string
  | AssertionError
  | GatewayError string
  | RepositoryError string
  | WorkerIngressError string
  | WorkerAuthenticationError
  | ControlRepositoryError string
  | WorkerRouteFailure nat string
  | RouteConfigurationError string
  | AttentionRequired string
  | LocalReferenceError string
  | AutoCADUnavailable string
  | AutoCADTimeout
  | FileNotFound string
  | SystemCallError string
  | RuntimeError string
  | WorkerTransportError string
  | WorkerCryptoError string
  | WorkerCliError string
  | DatabaseError string
  | IntegrityError string
  | OtherException string

type_synonym 'a res = "exn + 'a"

type_synonym pytext = "nat list"

text \<open>
  pydantic's ValidationError and the local LocalReferenceError are subclasses of ValueError, so a
  handler for (TypeError, ValueError) catches all four. The gateway's own errors, AutoCAD's and
  TranslationAttentionRequired, the worker's transport, key and command line errors are
  RuntimeErrors; FileNotFoundError is an OSError (SystemCallError). DatabaseError and IntegrityError are sqlite3's.
\<close>

fun is_value_or_type_error :: "exn \<Rightarrow> bool" where
  "is_value_or_type_error (ValidationError c) = True"
| "is_value_or_type_error (ValueError c) = True"
| "is_value_or_type_error (TypeError c) = True"
| "is_value_or_type_error (LocalReferenceError c) = True"
| "is_value_or_type_error e = False"

definition bindR :: "'a res \<Rightarrow> ('a \<Rightarrow> 'b res) \<Rightarrow> 'b res" where
  "bindR m f = (case m of Inl e \<Rightarrow> Inl e | Inr x \<Rightarrow> f x)"

definition ensure :: "bool \<Rightarrow> exn \<Rightarrow> unit res" where
  "ensure ok e = (if ok then Inr () else Inl e)"

definition catchR :: "'a res \<Rightarrow> (exn \<Rightarrow> 'a res) \<Rightarrow> 'a res" where
  "catchR m h = (case m of Inl e \<Rightarrow> h e | Inr x \<Rightarrow> Inr x)"

fun is_ok :: "'a res \<Rightarrow> bool" where
  "is_ok (Inl e) = False"
| "is_ok (Inr x) = True"

lemma bindR_simps [simp]:
  "bindR (Inl e) f = Inl e" "bindR (Inr x) f = f x"
  by (simp_all add: bindR_def)

lemma bindR_eq_Inr [simp]: "bindR m f = Inr y \<longleftrightarrow> (\<exists>x. m = Inr x \<and> f x = Inr y)"
  by (cases m) auto

lemma ensure_simps [simp]:
  "ensure True e = Inr ()" "ensure False e = Inl e"
  by (simp_all add: ensure_def)

lemma ensure_eq_Inr [simp]: "ensure b e = Inr u \<longleftrightarrow> b"
  by (simp add: ensure_def)

lemma ensure_eq_Inl [simp]: "ensure b e = Inl e' \<longleftrightarrow> \<not> b \<and> e' = e"
  by (auto simp add: ensure_def)

lemma catchR_simps [simp]:
  "catchR (Inl e) h = h e" "catchR (Inr x) h = Inr x"
  by (simp_all add: catchR_def)

lemma is_ok_iff: "is_ok m \<longleftrightarrow> (\<exists>x. m = Inr x)"
  by (cases m) auto

lemma res_unit_cases: "(m :: unit res) = Inr () \<longleftrightarrow> is_ok m"
  by (cases m) auto

section \<open>State with exceptions\<close>

type_synonym ('s, 'a) py = "'s \<Rightarrow> 'a res \<times> 's"

definition ret :: "'a \<Rightarrow> ('s, 'a) py" where
  "ret x = (\<lambda>s. (Inr x, s))"

definition raise :: "exn \<Rightarrow> ('s, 'a) py" where
  "raise e = (\<lambda>s. (Inl e, s))"

definition liftR :: "'a res \<Rightarrow> ('s, 'a) py" where
  "liftR r = (\<lambda>s. (r, s))"

definition bindS :: "('s, 'a) py \<Rightarrow> ('a \<Rightarrow> ('s, 'b) py) \<Rightarrow> ('s, 'b) py" where
  "bindS m f = (\<lambda>s. case m s of (Inl e, s') \<Rightarrow> (Inl e, s') | (Inr x, s') \<Rightarrow> f x s')"

definition catchS :: "('s, 'a) py \<Rightarrow> (exn \<Rightarrow> ('s, 'a) py) \<Rightarrow> ('s, 'a) py" where
  "catchS m h = (\<lambda>s. case m s of (Inl e, s') \<Rightarrow> h e s' | (Inr x, s') \<Rightarrow> (Inr x, s'))"

definition guardS :: "bool \<Rightarrow> exn \<Rightarrow> ('s, unit) py" where
  "guardS ok e = liftR (ensure ok e)"

lemma ret_apply [simp]: "ret x s = (Inr x, s)"
  by (simp add: ret_def)

lemma raise_apply [simp]: "raise e s = (Inl e, s)"
  by (simp add: raise_def)

lemma liftR_apply [simp]: "liftR r s = (r, s)"
  by (simp add: liftR_def)

lemma guardS_apply [simp]: "guardS b e s = (ensure b e, s)"
  by (simp add: guardS_def)

lemma bindS_Inr: "m s = (Inr x, s') \<Longrightarrow> bindS m f s = f x s'"
  by (simp add: bindS_def)

lemma bindS_Inl: "m s = (Inl e, s') \<Longrightarrow> bindS m f s = (Inl e, s')"
  by (simp add: bindS_def)

lemma bindS_ret [simp]: "bindS (ret x) f = f x"
  by (simp add: bindS_def fun_eq_iff)

lemma bindS_raise [simp]: "bindS (raise e) f = raise e"
  by (simp add: bindS_def fun_eq_iff)

lemma bindS_liftR: "bindS (liftR r) f s = (case r of Inl e \<Rightarrow> (Inl e, s) | Inr x \<Rightarrow> f x s)"
  by (simp add: bindS_def split: sum.splits)

lemma bindS_guardS: "bindS (guardS b e) f s = (if b then f () s else (Inl e, s))"
  by (simp add: bindS_def)

lemma bindS_eq_Inr:
  "bindS m f s = (Inr y, t) \<longleftrightarrow> (\<exists>x s'. m s = (Inr x, s') \<and> f x s' = (Inr y, t))"
  by (auto simp add: bindS_def split: prod.splits sum.splits)

lemma bindS_eq_Inl:
  "bindS m f s = (Inl e, t) \<longleftrightarrow>
     m s = (Inl e, t) \<or> (\<exists>x s'. m s = (Inr x, s') \<and> f x s' = (Inl e, t))"
  by (auto simp add: bindS_def split: prod.splits sum.splits)

lemma catchS_raise_eq_Inr [simp]: "catchS m (\<lambda>e. raise (f e)) s = (Inr y, t) \<longleftrightarrow> m s = (Inr y, t)"
  by (auto simp add: catchS_def split: prod.splits sum.splits)

lemma bindS_cong_state: "snd (bindS m f s) = (case m s of (Inl e, s') \<Rightarrow> s' | (Inr x, s') \<Rightarrow> snd (f x s'))"
  by (simp add: bindS_def split: prod.splits sum.splits)

text \<open>
  keeps P m: from a state with P, m ends in a state with P, whether it returns or
  raises. The rules below carry an invariant through a composed operation.
\<close>

definition keeps :: "('s \<Rightarrow> bool) \<Rightarrow> ('s, 'a) py \<Rightarrow> bool" where
  "keeps P m \<longleftrightarrow> (\<forall>s. P s \<longrightarrow> P (snd (m s)))"

named_theorems keeps_rules \<open>invariant rules of composed operations\<close>

lemma keepsI: "(\<And>s. P s \<Longrightarrow> P (snd (m s))) \<Longrightarrow> keeps P m"
  by (simp add: keeps_def)

lemma keepsD: "keeps P m \<Longrightarrow> P s \<Longrightarrow> P (snd (m s))"
  by (simp add: keeps_def)

lemma keeps_ret [keeps_rules]: "keeps P (ret x)"
  by (simp add: keeps_def)

lemma keeps_raise [keeps_rules]: "keeps P (raise e)"
  by (simp add: keeps_def)

lemma keeps_liftR [keeps_rules]: "keeps P (liftR r)"
  by (simp add: keeps_def)

lemma keeps_guardS [keeps_rules]: "keeps P (guardS b e)"
  by (simp add: keeps_def)

lemma keeps_bindS [keeps_rules]:
  assumes "keeps P m" and "\<And>x. keeps P (f x)"
  shows "keeps P (bindS m f)"
proof (rule keepsI)
  fix s assume "P s"
  with assms(1) have "P (snd (m s))" by (rule keepsD)
  with assms(2) show "P (snd (bindS m f s))"
    by (cases "m s") (auto simp add: bindS_def keeps_def split: sum.splits)
qed

lemma keeps_catchS [keeps_rules]:
  assumes "keeps P m" and "\<And>e. keeps P (h e)"
  shows "keeps P (catchS m h)"
proof (rule keepsI)
  fix s assume "P s"
  with assms(1) have "P (snd (m s))" by (rule keepsD)
  with assms(2) show "P (snd (catchS m h s))"
    by (cases "m s") (auto simp add: catchS_def keeps_def split: sum.splits)
qed

lemma keeps_if [keeps_rules]: "keeps P m \<Longrightarrow> keeps P n \<Longrightarrow> keeps P (if b then m else n)"
  by simp

lemma keeps_option [keeps_rules]:
  "keeps P m \<Longrightarrow> (\<And>x. keeps P (f x)) \<Longrightarrow> keeps P (case v of None \<Rightarrow> m | Some x \<Rightarrow> f x)"
  by (cases v) simp_all

text \<open>A read-only operation: the state is never changed.\<close>

definition pure_op :: "('s, 'a) py \<Rightarrow> bool" where
  "pure_op m \<longleftrightarrow> (\<forall>s. snd (m s) = s)"

lemma pure_opD [simp]: "pure_op m \<Longrightarrow> snd (m s) = s"
  by (simp add: pure_op_def)

section \<open>Datetimes and clocks\<close>

text \<open>
  A datetime is its UTC instant in microseconds. What a clock callable returns may be naive
  (no usable tzinfo); the services test for that before they use it.
\<close>

type_synonym instant = int

datatype py_datetime = Naive int | Aware instant

definition seconds :: "int \<Rightarrow> int" where
  "seconds n = n * 1000000"

lemma seconds_mono [simp]: "seconds a \<le> seconds b \<longleftrightarrow> a \<le> b" "seconds a < seconds b \<longleftrightarrow> a < b"
  by (simp_all add: seconds_def)

lemma seconds_pos [simp]: "0 < seconds n \<longleftrightarrow> 0 < n" "0 \<le> seconds n \<longleftrightarrow> 0 \<le> n"
  by (auto simp add: seconds_def)

section \<open>Fixed-format string patterns\<close>

definition is_lower_hex :: "char \<Rightarrow> bool" where
  "is_lower_hex c \<longleftrightarrow> List.member ''0123456789abcdef'' c"

definition is_digit :: "char \<Rightarrow> bool" where
  "is_digit c \<longleftrightarrow> List.member ''0123456789'' c"

definition is_lower :: "char \<Rightarrow> bool" where
  "is_lower c \<longleftrightarrow> List.member ''abcdefghijklmnopqrstuvwxyz'' c"

definition is_upper :: "char \<Rightarrow> bool" where
  "is_upper c \<longleftrightarrow> List.member ''ABCDEFGHIJKLMNOPQRSTUVWXYZ'' c"

text \<open>A pattern that is a sequence of character classes, matched against the whole string.\<close>

definition match_classes :: "(char \<Rightarrow> bool) list \<Rightarrow> string \<Rightarrow> bool" where
  "match_classes ps s \<longleftrightarrow> list_all2 (\<lambda>p c. p c) ps s"

definition uuid_classes :: "string \<Rightarrow> (char \<Rightarrow> bool) list" where
  "uuid_classes versions =
     replicate 8 is_lower_hex @ [\<lambda>c. c = CHR ''-''] @ replicate 4 is_lower_hex @ [\<lambda>c. c = CHR ''-''] @
     [List.member versions] @ replicate 3 is_lower_hex @ [\<lambda>c. c = CHR ''-''] @
     [List.member ''89ab''] @ replicate 3 is_lower_hex @ [\<lambda>c. c = CHR ''-''] @ replicate 12 is_lower_hex"

definition opaque_id :: "string \<Rightarrow> string \<Rightarrow> string \<Rightarrow> bool" where
  "opaque_id prefix versions s =
     match_classes (map (\<lambda>k c. c = k) (prefix @ ''_'') @ uuid_classes versions) s"

text \<open>An id with a version 4 UUID is an id with any version.\<close>

lemma all2_weaker: "list_all2 (\<lambda>q p. \<forall>c. p c \<longrightarrow> q c) ps qs \<Longrightarrow> match_classes qs s \<Longrightarrow> match_classes ps s"
  unfolding match_classes_def by (rule list_all2_trans [of "\<lambda>q p. \<forall>c. p c \<longrightarrow> q c" "\<lambda>p. p"]) auto

lemma opaque_id_any: "opaque_id pre ''4'' s \<Longrightarrow> opaque_id pre ''12345'' s"
  unfolding opaque_id_def
  by (erule all2_weaker[rotated], unfold uuid_classes_def, intro list_all2_appendI list_all2_refl)
    (simp_all add: List.member_iff)

definition sha256_hex :: "string \<Rightarrow> bool" where
  "sha256_hex s \<longleftrightarrow> length s = 64 \<and> list_all is_lower_hex s"

definition plan_id_pattern :: "string \<Rightarrow> bool" where
  "plan_id_pattern s \<longleftrightarrow> take 7 s = ''sha256:'' \<and> sha256_hex (drop 7 s)"

definition safe_code :: "string \<Rightarrow> bool" where
  "safe_code s \<longleftrightarrow> (case s of [] \<Rightarrow> False
     | c # cs \<Rightarrow> is_lower c \<and> length cs \<le> 63 \<and> list_all (\<lambda>d. is_lower d \<or> is_digit d \<or> d = CHR ''_'') cs)"

definition url_safe_char :: "char \<Rightarrow> bool" where
  "url_safe_char c \<longleftrightarrow> is_lower c \<or> is_upper c \<or> is_digit c \<or> c = CHR ''_'' \<or> c = CHR ''-''"

definition nonce_pattern :: "string \<Rightarrow> bool" where
  "nonce_pattern s \<longleftrightarrow> 22 \<le> length s \<and> length s \<le> 86 \<and> list_all url_safe_char s"

definition signature_pattern :: "string \<Rightarrow> bool" where
  "signature_pattern s \<longleftrightarrow> length s = 86 \<and> list_all url_safe_char s"

text \<open>A list comprehension whose items may raise.\<close>

fun collect :: "('a \<Rightarrow> 'b res) \<Rightarrow> 'a list \<Rightarrow> 'b list res" where
  "collect f [] = Inr []"
| "collect f (x # xs) = bindR (f x) (\<lambda>y. bindR (collect f xs) (\<lambda>ys. Inr (y # ys)))"

section \<open>Lists and maps\<close>

lemma distinct_length_set: "length xs \<noteq> length (remdups xs) \<longleftrightarrow> \<not> distinct xs"
  by (metis distinct_card distinct_remdups length_remdups_card_conv remdups_id_iff_distinct
      set_remdups card_distinct)

lemma case_option_False_iff:
  "(case v of None \<Rightarrow> False | Some x \<Rightarrow> P x) \<longleftrightarrow> (\<exists>x. v = Some x \<and> P x)"
  by (cases v) auto

lemma map_upd_Some_iff: "(m(k \<mapsto> v)) x = Some y \<longleftrightarrow> (if x = k then y = v else m x = Some y)"
  by auto

end
