(* ===== verification/Translation_Protocol.thy ===== *)
theory Translation_Protocol
  imports Cad_Prelude
begin

text \<open>
  packages/protocol/src/cadplot_protocol/translation_protocol.py: the closed translation
  messages, their field constraints as predicates, and require_matching_result, the check that
  a worker's response answers the request it was given. Free text is a list of code points;
  identifiers and hashes are ASCII strings.
\<close>

section \<open>Requests\<close>

datatype source_language = LangTr | LangEn | LangOther | LangUncertain

record remote_decision =
  dec_span_id :: string
  dec_source :: pytext
  dec_source_language :: source_language
  dec_target :: pytext

datatype translation_request =
    ScanTexts (scan_inventory: "string option") (scan_offset: int) (scan_limit: int)
  | SubmitReview (rev_inventory: string) (rev_expected: "string option")
      (rev_decisions: "remote_decision list")
  | PlanTranslation (pt_inventory: string) (pt_review: string) (pt_offset: int) (pt_limit: int)
  | ApplyTranslation (at_inventory: string) (at_review: string) (at_approved_plan: string)
      (at_plan_operation: string)

datatype translation_operation = OpScan | OpReview | OpPlan | OpApply

fun request_operation :: "translation_request \<Rightarrow> translation_operation" where
  "request_operation (ScanTexts ivt off lim) = OpScan"
| "request_operation (SubmitReview ivt ex ds) = OpReview"
| "request_operation (PlanTranslation ivt rvw off lim) = OpPlan"
| "request_operation (ApplyTranslation ivt rvw plan oper) = OpApply"

fun request_inventory :: "translation_request \<Rightarrow> string option" where
  "request_inventory (ScanTexts ivt off lim) = ivt"
| "request_inventory (SubmitReview ivt ex ds) = Some ivt"
| "request_inventory (PlanTranslation ivt rvw off lim) = Some ivt"
| "request_inventory (ApplyTranslation ivt rvw plan oper) = Some ivt"

section \<open>Responses\<close>

record text_span =
  span_id :: string
  span_text :: pytext
  span_normalized :: pytext

record text_record =
  rec_id :: string
  rec_kind :: string
  rec_block :: pytext
  rec_layer :: pytext
  rec_raw :: pytext
  rec_spans :: "text_span list"
  rec_writable :: bool

record text_change =
  chg_record_id :: string
  chg_before :: pytext
  chg_after :: pytext

record scan_result =
  sr_inventory :: string
  sr_total_records :: int
  sr_total_review_spans :: int
  sr_offset :: int
  sr_next_offset :: "int option"
  sr_records :: "text_record list"
  sr_blocker_count :: int
  sr_blocker_codes :: "string list"

record review_result =
  rr_inventory :: string
  rr_review :: string
  rr_reviewed_spans :: int

record plan_result =
  pr_inventory :: string
  pr_review :: string
  pr_plan :: string
  pr_ready :: bool
  pr_changed_records :: int
  pr_reviewed_spans :: int
  pr_offset :: int
  pr_next_offset :: "int option"
  pr_changes :: "text_change list"
  pr_blocker_count :: int
  pr_blocker_codes :: "string list"

text \<open>The Literal[True] and Literal[False] evidence fields of ApplyResult have one value each.\<close>

record apply_result =
  ar_inventory :: string
  ar_review :: string
  ar_plan :: string
  ar_output_id :: string
  ar_output_sha256 :: string
  ar_changed_records :: int

datatype translation_response =
    ScanResponse scan_result
  | ReviewResponse review_result
  | PlanResponse plan_result
  | ApplyResponse apply_result

fun response_operation :: "translation_response \<Rightarrow> translation_operation" where
  "response_operation (ScanResponse r) = OpScan"
| "response_operation (ReviewResponse r) = OpReview"
| "response_operation (PlanResponse r) = OpPlan"
| "response_operation (ApplyResponse r) = OpApply"

fun response_inventory :: "translation_response \<Rightarrow> string" where
  "response_inventory (ScanResponse r) = sr_inventory r"
| "response_inventory (ReviewResponse r) = rr_inventory r"
| "response_inventory (PlanResponse r) = pr_inventory r"
| "response_inventory (ApplyResponse r) = ar_inventory r"

section \<open>Field constraints\<close>

definition hash_id :: "string \<Rightarrow> bool" where
  "hash_id s = plan_id_pattern s"

definition opaque_drawing :: "string \<Rightarrow> bool" where
  "opaque_drawing s = opaque_id ''drw'' ''4'' s"

definition opaque_operation :: "string \<Rightarrow> bool" where
  "opaque_operation s = opaque_id ''op'' ''4'' s"

definition identifier_char :: "char \<Rightarrow> bool" where
  "identifier_char c \<longleftrightarrow> url_safe_char c \<or> c = CHR '':'' \<or> c = CHR ''.''"

definition identifier_pattern :: "string \<Rightarrow> bool" where
  "identifier_pattern s \<longleftrightarrow> 1 \<le> length s \<and> length s \<le> 100 \<and> list_all identifier_char s"

definition count_field :: "int \<Rightarrow> bool" where
  "count_field n \<longleftrightarrow> 0 \<le> n \<and> n \<le> 100000"

definition text_field :: "pytext \<Rightarrow> bool" where
  "text_field t \<longleftrightarrow> length t \<le> 32000"

definition valid_decision :: "remote_decision \<Rightarrow> bool" where
  "valid_decision d \<longleftrightarrow> identifier_pattern (dec_span_id d)
     \<and> 1 \<le> length (dec_source d) \<and> length (dec_source d) \<le> 32000
     \<and> 1 \<le> length (dec_target d) \<and> length (dec_target d) \<le> 32000"

fun valid_request :: "translation_request \<Rightarrow> bool" where
  "valid_request (ScanTexts ivt off lim) \<longleftrightarrow>
     (case ivt of None \<Rightarrow> True | Some i \<Rightarrow> hash_id i) \<and> count_field off \<and> 1 \<le> lim \<and> lim \<le> 100"
| "valid_request (SubmitReview ivt ex ds) \<longleftrightarrow>
     hash_id ivt \<and> (case ex of None \<Rightarrow> True | Some e \<Rightarrow> hash_id e)
     \<and> 1 \<le> length ds \<and> length ds \<le> 100 \<and> list_all valid_decision ds"
| "valid_request (PlanTranslation ivt rvw off lim) \<longleftrightarrow>
     hash_id ivt \<and> hash_id rvw \<and> count_field off \<and> 1 \<le> lim \<and> lim \<le> 100"
| "valid_request (ApplyTranslation ivt rvw plan oper) \<longleftrightarrow>
     hash_id ivt \<and> hash_id rvw \<and> hash_id plan \<and> opaque_operation oper"

definition valid_span :: "text_span \<Rightarrow> bool" where
  "valid_span s \<longleftrightarrow> identifier_pattern (span_id s) \<and> text_field (span_text s) \<and> text_field (span_normalized s)"

definition valid_text_record :: "text_record \<Rightarrow> bool" where
  "valid_text_record r \<longleftrightarrow> identifier_pattern (rec_id r) \<and> identifier_pattern (rec_kind r)
     \<and> length (rec_block r) \<le> 255 \<and> length (rec_layer r) \<le> 255 \<and> text_field (rec_raw r)
     \<and> length (rec_spans r) \<le> 32000 \<and> list_all valid_span (rec_spans r)"

definition valid_change :: "text_change \<Rightarrow> bool" where
  "valid_change c \<longleftrightarrow> identifier_pattern (chg_record_id c) \<and> text_field (chg_before c) \<and> text_field (chg_after c)"

definition valid_next_offset :: "int option \<Rightarrow> bool" where
  "valid_next_offset v = (case v of None \<Rightarrow> True | Some n \<Rightarrow> count_field n)"

definition valid_codes :: "nat \<Rightarrow> string list \<Rightarrow> bool" where
  "valid_codes n cs \<longleftrightarrow> length cs \<le> n \<and> list_all safe_code cs"

fun valid_response :: "translation_response \<Rightarrow> bool" where
  "valid_response (ScanResponse r) \<longleftrightarrow>
     hash_id (sr_inventory r) \<and> count_field (sr_total_records r)
     \<and> 0 \<le> sr_total_review_spans r \<and> sr_total_review_spans r \<le> 1000000
     \<and> count_field (sr_offset r) \<and> valid_next_offset (sr_next_offset r)
     \<and> length (sr_records r) \<le> 100 \<and> list_all valid_text_record (sr_records r)
     \<and> count_field (sr_blocker_count r) \<and> valid_codes 100 (sr_blocker_codes r)"
| "valid_response (ReviewResponse r) \<longleftrightarrow>
     hash_id (rr_inventory r) \<and> hash_id (rr_review r) \<and> count_field (rr_reviewed_spans r)"
| "valid_response (PlanResponse r) \<longleftrightarrow>
     hash_id (pr_inventory r) \<and> hash_id (pr_review r) \<and> hash_id (pr_plan r)
     \<and> count_field (pr_changed_records r) \<and> count_field (pr_reviewed_spans r)
     \<and> count_field (pr_offset r) \<and> valid_next_offset (pr_next_offset r)
     \<and> length (pr_changes r) \<le> 100 \<and> list_all valid_change (pr_changes r)
     \<and> count_field (pr_blocker_count r) \<and> valid_codes 100 (pr_blocker_codes r)"
| "valid_response (ApplyResponse r) \<longleftrightarrow>
     hash_id (ar_inventory r) \<and> hash_id (ar_review r) \<and> hash_id (ar_plan r)
     \<and> take 12 (ar_output_id r) = ''translation-'' \<and> length (ar_output_id r) = 44
     \<and> list_all is_lower_hex (drop 12 (ar_output_id r))
     \<and> sha256_hex (ar_output_sha256 r) \<and> count_field (ar_changed_records r)"

section \<open>require_matching_result\<close>

text \<open>
  The attribute reads the code makes only for the classes that have them: offset of a scan or
  a plan, review_id of a plan or an application, plan_id of an application. After the operation
  check the response is of the matching class, so each read finds its attribute.
\<close>

definition offsets_differ :: "translation_request \<Rightarrow> translation_response \<Rightarrow> bool" where
  "offsets_differ req resp = (case (req, resp) of
     (ScanTexts _ off _, ScanResponse r) \<Rightarrow> off \<noteq> sr_offset r
   | (PlanTranslation _ _ off _, PlanResponse r) \<Rightarrow> off \<noteq> pr_offset r
   | _ \<Rightarrow> False)"

definition reviews_differ :: "translation_request \<Rightarrow> translation_response \<Rightarrow> bool" where
  "reviews_differ req resp = (case (req, resp) of
     (PlanTranslation _ rvw _ _, PlanResponse r) \<Rightarrow> rvw \<noteq> pr_review r
   | (ApplyTranslation _ rvw _ _, ApplyResponse r) \<Rightarrow> rvw \<noteq> ar_review r
   | _ \<Rightarrow> False)"

definition plans_differ :: "translation_request \<Rightarrow> translation_response \<Rightarrow> bool" where
  "plans_differ req resp = (case (req, resp) of
     (ApplyTranslation _ _ plan _, ApplyResponse r) \<Rightarrow> plan \<noteq> ar_plan r
   | _ \<Rightarrow> False)"

definition require_matching_result :: "translation_request \<Rightarrow> translation_response \<Rightarrow> unit res" where
  "require_matching_result req resp =
     (if request_operation req \<noteq> response_operation resp
      then Inl (ValueError ''translation_operation_mismatch'')
      else if request_inventory req \<noteq> None \<and> request_inventory req \<noteq> Some (response_inventory resp)
      then Inl (ValueError ''translation_inventory_mismatch'')
      else if offsets_differ req resp then Inl (ValueError ''translation_page_mismatch'')
      else if reviews_differ req resp then Inl (ValueError ''translation_review_mismatch'')
      else if plans_differ req resp then Inl (ValueError ''translation_plan_mismatch'')
      else Inr ())"

text \<open>What a response that answers a request is, class by class.\<close>

fun answers :: "translation_request \<Rightarrow> translation_response \<Rightarrow> bool" where
  "answers (ScanTexts ivt off lim) (ScanResponse r) \<longleftrightarrow>
     (\<forall>i. ivt = Some i \<longrightarrow> sr_inventory r = i) \<and> sr_offset r = off"
| "answers (SubmitReview ivt ex ds) (ReviewResponse r) \<longleftrightarrow> rr_inventory r = ivt"
| "answers (PlanTranslation ivt rvw off lim) (PlanResponse r) \<longleftrightarrow>
     pr_inventory r = ivt \<and> pr_offset r = off \<and> pr_review r = rvw"
| "answers (ApplyTranslation ivt rvw plan oper) (ApplyResponse r) \<longleftrightarrow>
     ar_inventory r = ivt \<and> ar_review r = rvw \<and> ar_plan r = plan"
| "answers req resp \<longleftrightarrow> False"

lemma matching_result_answers: "require_matching_result req resp = Inr () \<longleftrightarrow> answers req resp"
  by (cases req; cases resp)
    (auto simp add: require_matching_result_def offsets_differ_def reviews_differ_def plans_differ_def)

lemma matching_result_value_error:
  "require_matching_result req resp = Inl e \<Longrightarrow> is_value_or_type_error e"
  by (auto simp add: require_matching_result_def split: if_splits)

lemma answers_apply:
  "answers (ApplyTranslation ivt rvw plan oper) resp \<longleftrightarrow>
     (\<exists>r. resp = ApplyResponse r \<and> ar_inventory r = ivt \<and> ar_review r = rvw \<and> ar_plan r = plan)"
  by (cases resp) auto

end
