(* ===== verification/Gateway_Models.thy ===== *)
theory Gateway_Models
  imports Translation_Protocol
begin

text \<open>
  services/gateway/cadplot_gateway/models.py: the closed gateway DTOs, their field constraints,
  and the model validator of OperationRecord, which fixes the shape of a record in each state
  of the operation lifecycle. Datetimes are UTC instants in microseconds (require_aware_utc
  normalises them when a record is built).
\<close>

section \<open>Identifiers\<close>

definition tenant_id_ok :: "string \<Rightarrow> bool" where "tenant_id_ok s = opaque_id ''tnt'' ''12345'' s"

definition subject_id_ok :: "string \<Rightarrow> bool" where "subject_id_ok s = opaque_id ''usr'' ''12345'' s"

definition client_id_ok :: "string \<Rightarrow> bool" where "client_id_ok s = opaque_id ''cli'' ''12345'' s"

definition workstation_id_ok :: "string \<Rightarrow> bool" where "workstation_id_ok s = opaque_id ''ws'' ''12345'' s"

definition project_id_ok :: "string \<Rightarrow> bool" where "project_id_ok s = opaque_id ''prj'' ''12345'' s"

definition drawing_id_ok :: "string \<Rightarrow> bool" where "drawing_id_ok s = opaque_id ''drw'' ''12345'' s"

definition operation_id_ok :: "string \<Rightarrow> bool" where "operation_id_ok s = opaque_id ''op'' ''12345'' s"

definition idempotency_key_ok :: "string \<Rightarrow> bool" where "idempotency_key_ok s = opaque_id ''idem'' ''12345'' s"

definition safe_display_name :: "pytext \<Rightarrow> bool" where
  "safe_display_name t \<longleftrightarrow> 1 \<le> length t \<and> length t \<le> 128
     \<and> list_all (\<lambda>c. c \<noteq> 92 \<and> c \<noteq> 47 \<and> c \<noteq> 58 \<and> 32 \<le> c \<and> c \<noteq> 127) t"

text \<open>
  str_strip_whitespace of StrictModel, on the characters a code can hold.
\<close>

definition is_space :: "char \<Rightarrow> bool" where
  "is_space c \<longleftrightarrow> List.member [CHR 0x09, CHR 0x0A, CHR 0x0B, CHR 0x0C, CHR 0x0D, CHR '' '', CHR 0x85, CHR 0xA0] c"

definition str_strip :: "string \<Rightarrow> string" where
  "str_strip s = rev (dropWhile is_space (rev (dropWhile is_space s)))"

section \<open>Principals and workers\<close>

datatype scope = TRANSLATE | READ | STAGE | PUBLISH | CANCEL

record principal_context =
  p_tenant :: string
  p_subject :: string
  p_client :: string
  p_scopes :: "scope list"

record worker_context =
  w_tenant :: string
  w_ws :: string

section \<open>Tasks and results\<close>

datatype task_command =
  CmdTranslation | CmdValidateEnvironment | CmdListProjects | CmdScanDrawings
  | CmdInspectDrawing | CmdCreatePublishPlan

datatype read_task =
    ValidateEnvironmentTask string
  | ListProjectsTask string
  | ScanDrawingsTask string bool int
  | InspectDrawingTask string
  | CreatePublishPlanTask string
  | TranslationTask string translation_request

fun command_of :: "read_task \<Rightarrow> task_command" where
  "command_of (ValidateEnvironmentTask w) = CmdValidateEnvironment"
| "command_of (ListProjectsTask w) = CmdListProjects"
| "command_of (ScanDrawingsTask p r l) = CmdScanDrawings"
| "command_of (InspectDrawingTask d) = CmdInspectDrawing"
| "command_of (CreatePublishPlanTask d) = CmdCreatePublishPlan"
| "command_of (TranslationTask d r) = CmdTranslation"

fun valid_task :: "read_task \<Rightarrow> bool" where
  "valid_task (ValidateEnvironmentTask w) = workstation_id_ok w"
| "valid_task (ListProjectsTask w) = workstation_id_ok w"
| "valid_task (ScanDrawingsTask p r l) = (project_id_ok p \<and> 1 \<le> l \<and> l \<le> 100)"
| "valid_task (InspectDrawingTask d) = drawing_id_ok d"
| "valid_task (CreatePublishPlanTask d) = drawing_id_ok d"
| "valid_task (TranslationTask d r) = (drawing_id_ok d \<and> valid_request r)"

datatype task_result =
    ValidateEnvironmentResult bool "string list"
  | ListProjectsResult "string list"
  | ScanDrawingsResult string "string list" bool
  | InspectDrawingResult string int int "string list"
  | CreatePublishPlanResult string string bool int "string list"
  | TranslationTaskResult string translation_response

fun result_command :: "task_result \<Rightarrow> task_command" where
  "result_command (ValidateEnvironmentResult r ws) = CmdValidateEnvironment"
| "result_command (ListProjectsResult ps) = CmdListProjects"
| "result_command (ScanDrawingsResult p ds t) = CmdScanDrawings"
| "result_command (InspectDrawingResult d l n ws) = CmdInspectDrawing"
| "result_command (CreatePublishPlanResult d p r n ws) = CmdCreatePublishPlan"
| "result_command (TranslationTaskResult d r) = CmdTranslation"

definition count_10k :: "int \<Rightarrow> bool" where
  "count_10k n \<longleftrightarrow> 0 \<le> n \<and> n \<le> 10000"

fun valid_result :: "task_result \<Rightarrow> bool" where
  "valid_result (ValidateEnvironmentResult r ws) = valid_codes 50 ws"
| "valid_result (ListProjectsResult ps) = (length ps \<le> 100 \<and> list_all project_id_ok ps)"
| "valid_result (ScanDrawingsResult p ds t) =
     (project_id_ok p \<and> length ds \<le> 100 \<and> list_all drawing_id_ok ds)"
| "valid_result (InspectDrawingResult d l n ws) =
     (drawing_id_ok d \<and> count_10k l \<and> count_10k n \<and> valid_codes 100 ws)"
| "valid_result (CreatePublishPlanResult d p r n ws) =
     (drawing_id_ok d \<and> plan_id_pattern p \<and> count_10k n \<and> valid_codes 100 ws)"
| "valid_result (TranslationTaskResult d r) = (drawing_id_ok d \<and> valid_response r)"

section \<open>Catalog rows\<close>

record workstation_record =
  ws_id :: string
  ws_tenant :: string
  ws_owner :: string
  ws_name :: pytext
  ws_enabled :: bool
  ws_online :: bool

record project_record =
  prj_id :: string
  prj_tenant :: string
  prj_owner :: string
  prj_ws :: string
  prj_name :: pytext
  prj_enabled :: bool

record drawing_record =
  drw_id :: string
  drw_tenant :: string
  drw_owner :: string
  drw_ws :: string
  drw_prj :: string
  drw_name :: pytext
  drw_enabled :: bool

definition valid_project_record :: "project_record \<Rightarrow> bool" where
  "valid_project_record p \<longleftrightarrow> project_id_ok (prj_id p) \<and> tenant_id_ok (prj_tenant p)
     \<and> subject_id_ok (prj_owner p) \<and> workstation_id_ok (prj_ws p) \<and> safe_display_name (prj_name p)"

definition valid_drawing_record :: "drawing_record \<Rightarrow> bool" where
  "valid_drawing_record d \<longleftrightarrow> drawing_id_ok (drw_id d) \<and> tenant_id_ok (drw_tenant d)
     \<and> subject_id_ok (drw_owner d) \<and> workstation_id_ok (drw_ws d) \<and> project_id_ok (drw_prj d)
     \<and> safe_display_name (drw_name d)"

section \<open>Operation records\<close>

datatype operation_state =
  CREATED | LEASED | RUNNING | SUCCEEDED | FAILED | EXPIRED | ATTENTION_REQUIRED

record operation_record =
  o_id :: string
  o_tenant :: string
  o_owner :: string
  o_client :: string
  o_ws :: string
  o_idem :: string
  o_fingerprint :: string
  o_task :: read_task
  o_state :: operation_state
  o_created :: instant
  o_expires :: instant
  o_lease :: "instant option"
  o_started :: "instant option"
  o_completed :: "instant option"
  o_result :: "task_result option"
  o_error :: "string option"

definition none :: "'a option \<Rightarrow> bool" where
  "none v = (case v of None \<Rightarrow> True | Some _ \<Rightarrow> False)"

lemma none_iff [simp]: "none v \<longleftrightarrow> v = None"
  by (simp add: none_def split: option.splits)

text \<open>The deadline checks of validate_state_shape, in the code's order.\<close>

definition validate_deadlines :: "operation_record \<Rightarrow> unit res" where
  "validate_deadlines r =
     (if o_expires r \<le> o_created r then Inl (ValueError ''operation_expiry_must_follow_creation'')
      else if (case o_lease r of None \<Rightarrow> False
               | Some l \<Rightarrow> \<not> (o_created r < l \<and> l \<le> o_expires r))
      then Inl (ValueError ''operation_lease_outside_deadline'')
      else if (case o_started r of None \<Rightarrow> False
               | Some t \<Rightarrow> \<not> (o_created r \<le> t \<and> t < o_expires r))
      then Inl (ValueError ''operation_start_outside_deadline'')
      else (case o_completed r of None \<Rightarrow> Inr ()
            | Some c \<Rightarrow>
                if c < o_created r then Inl (ValueError ''operation_completion_before_creation'')
                else if (case o_started r of None \<Rightarrow> False | Some t \<Rightarrow> c < t)
                then Inl (ValueError ''operation_completion_before_start'')
                else Inr ()))"

text \<open>The per-state part: which transition data each state must and must not carry.\<close>

definition validate_state_data :: "operation_record \<Rightarrow> unit res" where
  "validate_state_data r = (case o_state r of
     CREATED \<Rightarrow>
       ensure (none (o_lease r) \<and> none (o_started r) \<and> none (o_completed r)
               \<and> none (o_result r) \<and> none (o_error r))
         (ValueError ''created_operation_has_transition_data'')
   | LEASED \<Rightarrow>
       ensure (\<not> (none (o_lease r) \<or> \<not> none (o_started r) \<or> \<not> none (o_completed r)
                  \<or> \<not> none (o_result r) \<or> \<not> none (o_error r)))
         (ValueError ''leased_operation_shape_invalid'')
   | RUNNING \<Rightarrow>
       ensure (\<not> (none (o_started r) \<or> \<not> none (o_lease r) \<or> \<not> none (o_completed r)
                  \<or> \<not> none (o_result r) \<or> \<not> none (o_error r)))
         (ValueError ''running_operation_shape_invalid'')
   | SUCCEEDED \<Rightarrow>
       (if none (o_started r) \<or> none (o_completed r) \<or> \<not> none (o_error r) \<or> \<not> none (o_lease r)
        then Inl (ValueError ''succeeded_operation_shape_invalid'')
        else (case o_result r of
                None \<Rightarrow> Inl (ValueError ''succeeded_operation_shape_invalid'')
              | Some res \<Rightarrow> ensure (result_command res = command_of (o_task r))
                  (ValueError ''operation_result_command_mismatch'')))
   | _ \<Rightarrow>
       (case o_completed r of
          None \<Rightarrow> Inl (ValueError ''terminal_operation_shape_invalid'')
        | Some c \<Rightarrow>
            if none (o_error r) \<or> \<not> none (o_result r) \<or> \<not> none (o_lease r)
            then Inl (ValueError ''terminal_operation_shape_invalid'')
            else if o_state r = FAILED \<and> none (o_started r)
            then Inl (ValueError ''failed_operation_was_never_started'')
            else if o_state r = EXPIRED \<and> c < o_expires r
            then Inl (ValueError ''operation_expired_before_deadline'')
            else Inr ()))"

definition validate_state_shape :: "operation_record \<Rightarrow> unit res" where
  "validate_state_shape r = bindR (validate_deadlines r) (\<lambda>_. validate_state_data r)"

definition operation_fields_ok :: "operation_record \<Rightarrow> bool" where
  "operation_fields_ok r \<longleftrightarrow> operation_id_ok (o_id r) \<and> tenant_id_ok (o_tenant r)
     \<and> subject_id_ok (o_owner r) \<and> client_id_ok (o_client r) \<and> workstation_id_ok (o_ws r)
     \<and> idempotency_key_ok (o_idem r) \<and> sha256_hex (o_fingerprint r) \<and> valid_task (o_task r)
     \<and> (case o_result r of None \<Rightarrow> True | Some v \<Rightarrow> valid_result v)
     \<and> (case o_error r of None \<Rightarrow> True | Some c \<Rightarrow> safe_code c)"

text \<open>
  OperationRecord.model_validate: fields first (strings stripped; only the error code can arrive
  with surrounding white space, the others come from validated instances), then the model
  validator; pydantic reports either failure as a ValidationError.
\<close>

definition model_validate :: "operation_record \<Rightarrow> operation_record res" where
  "model_validate r0 =
     (let r = r0\<lparr>o_error := map_option str_strip (o_error r0)\<rparr> in
      if \<not> operation_fields_ok r then Inl (ValidationError ''operation_record_fields'')
      else (case validate_state_shape r of
              Inl (ValueError c) \<Rightarrow> Inl (ValidationError c)
            | Inl e \<Rightarrow> Inl e
            | Inr _ \<Rightarrow> Inr r))"


section \<open>The declarative shape of a record\<close>

text \<open>
  One predicate per state: what a record in that state looks like, independent of the order in
  which the validator tests it.
\<close>

definition deadlines_hold :: "operation_record \<Rightarrow> bool" where
  "deadlines_hold r \<longleftrightarrow> o_created r < o_expires r
     \<and> (\<forall>l. o_lease r = Some l \<longrightarrow> o_created r < l \<and> l \<le> o_expires r)
     \<and> (\<forall>t. o_started r = Some t \<longrightarrow> o_created r \<le> t \<and> t < o_expires r)
     \<and> (\<forall>c. o_completed r = Some c \<longrightarrow> o_created r \<le> c)
     \<and> (\<forall>c t. o_completed r = Some c \<longrightarrow> o_started r = Some t \<longrightarrow> t \<le> c)"

definition state_data_holds :: "operation_record \<Rightarrow> bool" where
  "state_data_holds r \<longleftrightarrow> (case o_state r of
     CREATED \<Rightarrow> o_lease r = None \<and> o_started r = None \<and> o_completed r = None
       \<and> o_result r = None \<and> o_error r = None
   | LEASED \<Rightarrow> o_lease r \<noteq> None \<and> o_started r = None \<and> o_completed r = None
       \<and> o_result r = None \<and> o_error r = None
   | RUNNING \<Rightarrow> o_lease r = None \<and> o_started r \<noteq> None \<and> o_completed r = None
       \<and> o_result r = None \<and> o_error r = None
   | SUCCEEDED \<Rightarrow> o_lease r = None \<and> o_started r \<noteq> None \<and> o_completed r \<noteq> None \<and> o_error r = None
       \<and> (\<exists>v. o_result r = Some v \<and> result_command v = command_of (o_task r))
   | FAILED \<Rightarrow> o_lease r = None \<and> o_started r \<noteq> None \<and> o_completed r \<noteq> None \<and> o_result r = None
       \<and> o_error r \<noteq> None
   | EXPIRED \<Rightarrow> o_lease r = None \<and> o_result r = None \<and> o_error r \<noteq> None
       \<and> (\<exists>c. o_completed r = Some c \<and> o_expires r \<le> c)
   | ATTENTION_REQUIRED \<Rightarrow> o_lease r = None \<and> o_completed r \<noteq> None \<and> o_result r = None
       \<and> o_error r \<noteq> None)"

definition op_wf :: "operation_record \<Rightarrow> bool" where
  "op_wf r \<longleftrightarrow> operation_fields_ok r \<and> deadlines_hold r \<and> state_data_holds r"

lemma validate_deadlines_iff: "validate_deadlines r = Inr () \<longleftrightarrow> deadlines_hold r"
  by (cases "o_lease r"; cases "o_started r"; cases "o_completed r")
    (auto simp add: validate_deadlines_def deadlines_hold_def)

lemma validate_state_data_iff: "validate_state_data r = Inr () \<longleftrightarrow> state_data_holds r"
  by (cases "o_state r"; cases "o_completed r"; cases "o_result r")
    (auto simp add: validate_state_data_def state_data_holds_def)

lemma validate_state_shape_iff:
  "validate_state_shape r = Inr () \<longleftrightarrow> deadlines_hold r \<and> state_data_holds r"
  by (auto simp add: validate_state_shape_def validate_deadlines_iff validate_state_data_iff)

lemma validate_state_shape_ok: "validate_state_shape r = Inr u \<longleftrightarrow> deadlines_hold r \<and> state_data_holds r"
  using validate_state_shape_iff by simp

lemma validate_deadlines_error:
  "validate_deadlines r = Inl e \<Longrightarrow> \<exists>c. e = ValueError c"
  by (auto simp add: validate_deadlines_def split: if_splits option.splits)

lemma validate_state_data_error:
  "validate_state_data r = Inl e \<Longrightarrow> \<exists>c. e = ValueError c"
  by (auto simp add: validate_state_data_def split: if_splits option.splits operation_state.splits)

lemma validate_state_shape_error:
  "validate_state_shape r = Inl e \<Longrightarrow> \<exists>c. e = ValueError c"
  unfolding validate_state_shape_def bindR_def
  by (auto dest: validate_deadlines_error validate_state_data_error split: sum.splits)

lemma model_validate_error:
  "model_validate r = Inl e \<Longrightarrow> \<exists>c. e = ValidationError c"
  by (auto simp add: model_validate_def Let_def dest!: validate_state_shape_error
      split: if_splits sum.splits exn.splits)

subsection \<open>Stripping leaves a safe code alone\<close>

lemma dropWhile_all_false: "list_all (\<lambda>c. \<not> P c) s \<Longrightarrow> dropWhile P s = s"
  by (cases s) auto

lemma str_strip_no_space: "list_all (\<lambda>c. \<not> is_space c) s \<Longrightarrow> str_strip s = s"
  by (simp add: str_strip_def dropWhile_all_false list_all_iff)

lemma space_not_code_char: "is_space c \<Longrightarrow> \<not> is_lower c \<and> \<not> is_digit c \<and> c \<noteq> CHR ''_''"
  by (auto simp add: is_space_def is_lower_def is_digit_def)

lemma safe_code_strip [simp]: "safe_code s \<Longrightarrow> str_strip s = s"
  by (rule str_strip_no_space)
    (auto simp add: safe_code_def list_all_iff dest!: space_not_code_char split: list.splits)

lemma strip_error_id [simp]: "operation_fields_ok r \<Longrightarrow> map_option str_strip (o_error r) = o_error r"
  by (cases "o_error r") (auto simp add: operation_fields_ok_def)

lemma model_validate_wf: "model_validate r = Inr r' \<Longrightarrow> op_wf r'"
  by (auto simp add: model_validate_def Let_def op_wf_def validate_state_shape_ok
      split: if_splits sum.splits exn.splits)

text \<open>A well-formed record is a fixed point of the re-validation every transition performs.\<close>

lemma op_wf_model_validate: "op_wf r \<Longrightarrow> model_validate r = Inr r"
proof -
  assume wf: "op_wf r"
  then have "validate_state_shape r = Inr ()" by (simp add: op_wf_def validate_state_shape_iff)
  with wf show ?thesis by (simp add: model_validate_def Let_def op_wf_def)
qed

section \<open>Views\<close>

record operation_view =
  v_id :: string
  v_ws :: string
  v_task :: read_task
  v_state :: operation_state
  v_created :: instant
  v_expires :: instant
  v_lease :: "instant option"
  v_started :: "instant option"
  v_completed :: "instant option"
  v_result :: "task_result option"
  v_error :: "string option"

definition view_of :: "operation_record \<Rightarrow> operation_view" where
  "view_of r = \<lparr>v_id = o_id r, v_ws = o_ws r, v_task = o_task r, v_state = o_state r,
     v_created = o_created r, v_expires = o_expires r, v_lease = o_lease r,
     v_started = o_started r, v_completed = o_completed r, v_result = o_result r,
     v_error = o_error r\<rparr>"

record worker_lease =
  l_id :: string
  l_ws :: string
  l_idem :: string
  l_task :: read_task
  l_expires :: instant

definition lease_of :: "operation_record \<Rightarrow> worker_lease res" where
  "lease_of r = (case o_lease r of
     None \<Rightarrow> Inl (ValueError ''operation_is_not_leased'')
   | Some l \<Rightarrow>
       (if o_state r \<noteq> LEASED then Inl (ValueError ''operation_is_not_leased'')
        else Inr \<lparr>l_id = o_id r, l_ws = o_ws r, l_idem = o_idem r, l_task = o_task r,
                   l_expires = l\<rparr>))"

lemma view_of_sel [simp]:
  "v_id (view_of r) = o_id r" "v_ws (view_of r) = o_ws r" "v_task (view_of r) = o_task r"
  "v_state (view_of r) = o_state r" "v_created (view_of r) = o_created r"
  "v_expires (view_of r) = o_expires r" "v_lease (view_of r) = o_lease r"
  "v_started (view_of r) = o_started r" "v_completed (view_of r) = o_completed r"
  "v_result (view_of r) = o_result r" "v_error (view_of r) = o_error r"
  by (simp_all add: view_of_def)

section \<open>The lifecycle\<close>

text \<open>
  The edges the service and the repositories may take. The four states on the right of
  terminal have no way out.
\<close>

inductive lifecycle_edge :: "operation_state \<Rightarrow> operation_state \<Rightarrow> bool" where
  lease: "lifecycle_edge CREATED LEASED"
| expire_created: "lifecycle_edge CREATED EXPIRED"
| start: "lifecycle_edge LEASED RUNNING"
| lease_lost: "lifecycle_edge LEASED ATTENTION_REQUIRED"
| succeed: "lifecycle_edge RUNNING SUCCEEDED"
| fail: "lifecycle_edge RUNNING FAILED"
| attention: "lifecycle_edge RUNNING ATTENTION_REQUIRED"
| expire_running: "lifecycle_edge RUNNING EXPIRED"

definition terminal :: "operation_state \<Rightarrow> bool" where
  "terminal st \<longleftrightarrow> List.member [SUCCEEDED, FAILED, EXPIRED, ATTENTION_REQUIRED] st"

lemma terminal_no_edge: "terminal st \<Longrightarrow> \<not> lifecycle_edge st st'"
  by (auto simp add: terminal_def elim: lifecycle_edge.cases)

inductive_simps lifecycle_from_created: "lifecycle_edge CREATED st"

inductive_simps lifecycle_from_leased: "lifecycle_edge LEASED st"

inductive_simps lifecycle_from_running: "lifecycle_edge RUNNING st"

text \<open>What no transition touches: the identity of an operation.\<close>

definition same_identity :: "operation_record \<Rightarrow> operation_record \<Rightarrow> bool" where
  "same_identity r r' \<longleftrightarrow> o_id r' = o_id r \<and> o_tenant r' = o_tenant r \<and> o_owner r' = o_owner r
     \<and> o_client r' = o_client r \<and> o_ws r' = o_ws r \<and> o_idem r' = o_idem r
     \<and> o_fingerprint r' = o_fingerprint r \<and> o_task r' = o_task r \<and> o_created r' = o_created r
     \<and> o_expires r' = o_expires r"

lemma same_identity_refl [simp]: "same_identity r r"
  by (simp add: same_identity_def)

lemma same_identity_trans: "same_identity a b \<Longrightarrow> same_identity b c \<Longrightarrow> same_identity a c"
  by (simp add: same_identity_def)

text \<open>A record evolves to another: same identity, and no step or one or more lifecycle edges.\<close>

definition evolves :: "operation_record \<Rightarrow> operation_record \<Rightarrow> bool" where
  "evolves r r' \<longleftrightarrow> r' = r \<or> (same_identity r r' \<and> lifecycle_edge\<^sup>+\<^sup>+ (o_state r) (o_state r'))"

lemma evolves_refl [simp]: "evolves r r"
  by (simp add: evolves_def)

lemma evolves_trans: "evolves a b \<Longrightarrow> evolves b c \<Longrightarrow> evolves a c"
  unfolding evolves_def by (auto intro: same_identity_trans tranclp_trans)

lemma evolves_edge: "same_identity r r' \<Longrightarrow> lifecycle_edge (o_state r) (o_state r') \<Longrightarrow> evolves r r'"
  by (auto simp add: evolves_def)

lemma evolves_identity: "evolves r r' \<Longrightarrow> same_identity r r'"
  by (auto simp add: evolves_def)

lemma evolves_terminal:
  assumes "evolves r r'" and "terminal (o_state r)"
  shows "r' = r"
  using assms terminal_no_edge by (auto simp add: evolves_def dest: tranclpD)

end
