(* ===== verification/Gateway_Repository.thy ===== *)
theory Gateway_Repository
  imports Gateway_Models "HOL-Library.AList" "HOL-Library.Char_ord" "HOL-Library.List_Lexorder"
    "HOL-Library.Product_Lexorder"
begin

text \<open>
  services/gateway/cadplot_gateway/repositories.py: the CatalogRepository and
  OperationRepository protocols as records of operations, and InMemoryGatewayRepository, the
  reference repository whose state transitions the gateway relies on. A Python dict is an
  association list in insertion order, updated with AList.update (an existing key keeps its
  place, a new one goes last). The RLock makes each method one atomic step.
\<close>

text \<open>Dict lookups stay lookups: they are never rewritten to membership of the item list.\<close>

declare map_of_eq_Some_iff [simp del]

declare Some_eq_map_of_iff [simp del]

lemma map_of_update [simp]: "map_of (AList.update k v xs) = (map_of xs)(k \<mapsto> v)"
  by (rule update_conv')

section \<open>Outcomes and protocols\<close>

datatype create_status = CreateCreated | CreateExisting | CreateConflict

datatype transition_status =
  TransUpdated | TransNotFound | TransInvalidState | TransLeaseExpired | TransOperationExpired

datatype create_outcome =
  CreateOutcome (co_status: create_status) (co_operation: operation_record)

datatype transition_outcome =
  TransitionOutcome (to_status: transition_status) (to_operation: "operation_record option")

record 's catalog_repository =
  c_upsert_workstation :: "workstation_record \<Rightarrow> ('s, workstation_record) py"
  c_upsert_project :: "project_record \<Rightarrow> ('s, project_record) py"
  c_upsert_drawing :: "drawing_record \<Rightarrow> ('s, drawing_record) py"
  c_list_workstations :: "string \<Rightarrow> string \<Rightarrow> ('s, workstation_record list) py"
  c_get_workstation :: "string \<Rightarrow> ('s, workstation_record option) py"
  c_list_projects :: "string \<Rightarrow> string \<Rightarrow> string option \<Rightarrow> ('s, project_record list) py"
  c_get_project :: "string \<Rightarrow> ('s, project_record option) py"
  c_get_drawing :: "string \<Rightarrow> ('s, drawing_record option) py"

record 's operation_repository =
  r_create_or_get :: "operation_record \<Rightarrow> ('s, create_outcome) py"
  r_get :: "string \<Rightarrow> ('s, operation_record option) py"
  r_refresh :: "string \<Rightarrow> instant \<Rightarrow> ('s, operation_record option) py"
  r_lease_next :: "string \<Rightarrow> string \<Rightarrow> string \<Rightarrow> instant \<Rightarrow> instant \<Rightarrow> ('s, operation_record option) py"
  r_start :: "string \<Rightarrow> string \<Rightarrow> string \<Rightarrow> instant \<Rightarrow> ('s, transition_outcome) py"
  r_finish :: "string \<Rightarrow> string \<Rightarrow> string \<Rightarrow> instant \<Rightarrow> operation_state \<Rightarrow> task_result option
    \<Rightarrow> string option \<Rightarrow> ('s, transition_outcome) py"
  r_apply_success :: "string \<Rightarrow> string \<Rightarrow> string \<Rightarrow> instant \<Rightarrow> task_result \<Rightarrow> project_record list
    \<Rightarrow> drawing_record list \<Rightarrow> ('s, transition_outcome) py"

section \<open>The in-memory store\<close>

type_synonym idempotency_index = "((string \<times> string \<times> string \<times> string) \<times> string) list"

record gateway_repo =
  g_workstations :: "(string \<times> workstation_record) list"
  g_projects :: "(string \<times> project_record) list"
  g_drawings :: "(string \<times> drawing_record) list"
  g_operations :: "(string \<times> operation_record) list"
  g_idempotency :: idempotency_index

definition empty_repo :: gateway_repo where
  "empty_repo = \<lparr>g_workstations = [], g_projects = [], g_drawings = [], g_operations = [],
     g_idempotency = []\<rparr>"

abbreviation find_ws :: "gateway_repo \<Rightarrow> string \<rightharpoonup> workstation_record" where
  "find_ws s \<equiv> map_of (g_workstations s)"

abbreviation find_prj :: "gateway_repo \<Rightarrow> string \<rightharpoonup> project_record" where
  "find_prj s \<equiv> map_of (g_projects s)"

abbreviation find_drw :: "gateway_repo \<Rightarrow> string \<rightharpoonup> drawing_record" where
  "find_drw s \<equiv> map_of (g_drawings s)"

abbreviation find_op :: "gateway_repo \<Rightarrow> string \<rightharpoonup> operation_record" where
  "find_op s \<equiv> map_of (g_operations s)"

definition put_ws :: "string \<Rightarrow> workstation_record \<Rightarrow> gateway_repo \<Rightarrow> gateway_repo" where
  "put_ws k v s = s\<lparr>g_workstations := AList.update k v (g_workstations s)\<rparr>"

definition put_prj :: "project_record \<Rightarrow> gateway_repo \<Rightarrow> gateway_repo" where
  "put_prj v s = s\<lparr>g_projects := AList.update (prj_id v) v (g_projects s)\<rparr>"

definition put_drw :: "drawing_record \<Rightarrow> gateway_repo \<Rightarrow> gateway_repo" where
  "put_drw v s = s\<lparr>g_drawings := AList.update (drw_id v) v (g_drawings s)\<rparr>"

definition put_op :: "string \<Rightarrow> operation_record \<Rightarrow> gateway_repo \<Rightarrow> gateway_repo" where
  "put_op k v s = s\<lparr>g_operations := AList.update k v (g_operations s)\<rparr>"

section \<open>Catalog operations\<close>

definition add_workstation :: "workstation_record \<Rightarrow> (gateway_repo, unit) py" where
  "add_workstation w s =
     (case find_ws s (ws_id w) of
        Some _ \<Rightarrow> (Inl (ValueError ''duplicate_workstation''), s)
      | None \<Rightarrow> (Inr (), put_ws (ws_id w) w s))"

definition upsert_workstation :: "workstation_record \<Rightarrow> (gateway_repo, workstation_record) py" where
  "upsert_workstation w s =
     (if (case find_ws s (ws_id w) of None \<Rightarrow> False
          | Some old \<Rightarrow> ws_tenant old \<noteq> ws_tenant w \<or> ws_owner old \<noteq> ws_owner w)
      then (Inl (ValueError ''workstation_owner_mismatch''), s)
      else (Inr w, put_ws (ws_id w) w s))"

definition add_project :: "project_record \<Rightarrow> (gateway_repo, unit) py" where
  "add_project p s =
     (case find_prj s (prj_id p) of
        Some _ \<Rightarrow> (Inl (ValueError ''duplicate_project''), s)
      | None \<Rightarrow>
         (if (case find_ws s (prj_ws p) of None \<Rightarrow> True
              | Some w \<Rightarrow> ws_tenant w \<noteq> prj_tenant p \<or> ws_owner w \<noteq> prj_owner p)
          then (Inl (ValueError ''project_owner_mismatch''), s)
          else (Inr (), put_prj p s)))"

definition upsert_project :: "project_record \<Rightarrow> (gateway_repo, project_record) py" where
  "upsert_project p s =
     (if (case find_ws s (prj_ws p) of None \<Rightarrow> True
          | Some w \<Rightarrow> ws_tenant w \<noteq> prj_tenant p \<or> ws_owner w \<noteq> prj_owner p)
         \<or> (case find_prj s (prj_id p) of None \<Rightarrow> False
            | Some old \<Rightarrow> prj_tenant old \<noteq> prj_tenant p \<or> prj_owner old \<noteq> prj_owner p
                \<or> prj_ws old \<noteq> prj_ws p)
      then (Inl (ValueError ''project_owner_mismatch''), s)
      else (Inr p, put_prj p s))"

definition add_drawing :: "drawing_record \<Rightarrow> (gateway_repo, unit) py" where
  "add_drawing d s =
     (case find_drw s (drw_id d) of
        Some _ \<Rightarrow> (Inl (ValueError ''duplicate_drawing''), s)
      | None \<Rightarrow>
         (if (case find_prj s (drw_prj d) of None \<Rightarrow> True
              | Some p \<Rightarrow> prj_tenant p \<noteq> drw_tenant d \<or> prj_owner p \<noteq> drw_owner d
                  \<or> prj_ws p \<noteq> drw_ws d)
          then (Inl (ValueError ''drawing_owner_mismatch''), s)
          else (Inr (), put_drw d s)))"

definition upsert_drawing :: "drawing_record \<Rightarrow> (gateway_repo, drawing_record) py" where
  "upsert_drawing d s =
     (if (case find_prj s (drw_prj d) of None \<Rightarrow> True
          | Some p \<Rightarrow> prj_tenant p \<noteq> drw_tenant d \<or> prj_owner p \<noteq> drw_owner d
              \<or> prj_ws p \<noteq> drw_ws d)
         \<or> (case find_drw s (drw_id d) of None \<Rightarrow> False
            | Some old \<Rightarrow> drw_tenant old \<noteq> drw_tenant d \<or> drw_owner old \<noteq> drw_owner d
                \<or> drw_ws old \<noteq> drw_ws d \<or> drw_prj old \<noteq> drw_prj d)
      then (Inl (ValueError ''drawing_owner_mismatch''), s)
      else (Inr d, put_drw d s))"

definition set_workstation_online :: "string \<Rightarrow> bool \<Rightarrow> (gateway_repo, unit) py" where
  "set_workstation_online k online s =
     (case find_ws s k of
        None \<Rightarrow> (Inl (ValueError ''workstation_not_found''), s)
      | Some w \<Rightarrow> (Inr (), put_ws k (w\<lparr>ws_online := online\<rparr>) s))"

definition list_workstations :: "string \<Rightarrow> string \<Rightarrow> (gateway_repo, workstation_record list) py" where
  "list_workstations tenant owner s =
     (Inr (sort_key ws_id
        (filter (\<lambda>w. ws_enabled w \<and> ws_tenant w = tenant \<and> ws_owner w = owner)
          (map snd (g_workstations s)))), s)"

definition get_workstation :: "string \<Rightarrow> (gateway_repo, workstation_record option) py" where
  "get_workstation k s = (Inr (find_ws s k), s)"

definition list_projects ::
  "string \<Rightarrow> string \<Rightarrow> string option \<Rightarrow> (gateway_repo, project_record list) py" where
  "list_projects tenant owner ws s =
     (Inr (sort_key prj_id
        (filter (\<lambda>p. prj_enabled p \<and> prj_tenant p = tenant \<and> prj_owner p = owner
            \<and> (case ws of None \<Rightarrow> True | Some w \<Rightarrow> prj_ws p = w))
          (map snd (g_projects s)))), s)"

definition get_project :: "string \<Rightarrow> (gateway_repo, project_record option) py" where
  "get_project k s = (Inr (find_prj s k), s)"

definition get_drawing :: "string \<Rightarrow> (gateway_repo, drawing_record option) py" where
  "get_drawing k s = (Inr (find_drw s k), s)"

section \<open>Record transitions\<close>

definition expire :: "operation_record \<Rightarrow> instant \<Rightarrow> operation_record res" where
  "expire r now = model_validate (r\<lparr>o_state := EXPIRED, o_lease := None, o_completed := Some now,
     o_error := Some ''operation_expired''\<rparr>)"

definition attention_required :: "operation_record \<Rightarrow> instant \<Rightarrow> operation_record res" where
  "attention_required r now = model_validate (r\<lparr>o_state := ATTENTION_REQUIRED, o_lease := None,
     o_completed := Some now, o_error := Some ''lease_expired''\<rparr>)"

fun is_translation_apply :: "read_task \<Rightarrow> bool" where
  "is_translation_apply (TranslationTask d (ApplyTranslation ivt rvw plan oper)) = True"
| "is_translation_apply t = False"

definition refresh_due :: "operation_record \<Rightarrow> instant \<Rightarrow> operation_record res" where
  "refresh_due r now =
     (if o_state r = CREATED \<and> o_expires r \<le> now then expire r now
      else if o_state r = LEASED \<and> (case o_lease r of None \<Rightarrow> False | Some l \<Rightarrow> l \<le> now)
      then attention_required r now
      else if o_state r = RUNNING \<and> o_expires r \<le> now
      then (if is_translation_apply (o_task r)
            then model_validate (r\<lparr>o_state := ATTENTION_REQUIRED, o_completed := Some now,
                   o_error := Some ''translation_attention_required''\<rparr>)
            else expire r now)
      else Inr r)"

definition worker_owns :: "operation_record \<Rightarrow> string \<Rightarrow> string \<Rightarrow> bool" where
  "worker_owns r tenant ws \<longleftrightarrow> o_tenant r = tenant \<and> o_ws r = ws"

section \<open>Operation methods\<close>

definition idem_key :: "operation_record \<Rightarrow> string \<times> string \<times> string \<times> string" where
  "idem_key r = (o_tenant r, o_owner r, o_client r, o_idem r)"

definition create_or_get_operation :: "operation_record \<Rightarrow> (gateway_repo, create_outcome) py" where
  "create_or_get_operation r s =
     (case map_of (g_idempotency s) (idem_key r) of
        Some existing_id \<Rightarrow>
          (case find_op s existing_id of
             None \<Rightarrow> (Inl (OtherException ''KeyError''), s)
           | Some existing \<Rightarrow>
               (if o_fingerprint existing = o_fingerprint r
                then (Inr (CreateOutcome CreateExisting existing), s)
                else (Inr (CreateOutcome CreateConflict existing), s)))
      | None \<Rightarrow>
          (Inr (CreateOutcome CreateCreated r),
           (put_op (o_id r) r s)
             \<lparr>g_idempotency := AList.update (idem_key r) (o_id r) (g_idempotency s)\<rparr>))"

definition get_operation :: "string \<Rightarrow> (gateway_repo, operation_record option) py" where
  "get_operation k s = (Inr (find_op s k), s)"

definition refresh_operation :: "string \<Rightarrow> instant \<Rightarrow> (gateway_repo, operation_record option) py" where
  "refresh_operation k now s =
     (case find_op s k of
        None \<Rightarrow> (Inr None, s)
      | Some r \<Rightarrow>
          (case refresh_due r now of
             Inl e \<Rightarrow> (Inl e, s)
           | Inr r' \<Rightarrow> (Inr (Some r'), put_op k r' s)))"

text \<open>
  The first loop of lease_next_operation: every operation of the workstation is refreshed in
  the order of the dict, active operations are noted and the owner's queued ones collected.
\<close>

fun refresh_loop :: "string \<Rightarrow> string \<Rightarrow> string \<Rightarrow> instant \<Rightarrow> (string \<times> operation_record) list
    \<Rightarrow> bool \<Rightarrow> operation_record list \<Rightarrow> (gateway_repo, bool \<times> operation_record list) py" where
  "refresh_loop tenant ws owner now [] active eligible s = (Inr (active, eligible), s)"
| "refresh_loop tenant ws owner now ((k, r) # items) active eligible s =
     (if o_tenant r \<noteq> tenant \<or> o_ws r \<noteq> ws
      then refresh_loop tenant ws owner now items active eligible s
      else (case refresh_due r now of
              Inl e \<Rightarrow> (Inl e, s)
            | Inr r' \<Rightarrow>
                (let s' = put_op k r' s in
                 if o_state r' = LEASED \<or> o_state r' = RUNNING
                 then refresh_loop tenant ws owner now items True eligible s'
                 else if o_owner r' = owner \<and> o_state r' = CREATED
                 then refresh_loop tenant ws owner now items active (eligible @ [r']) s'
                 else refresh_loop tenant ws owner now items active eligible s')))"

text \<open>Python's min with a key: the first element with the least key.\<close>

fun min_by :: "('a \<Rightarrow> 'k::linorder) \<Rightarrow> 'a \<Rightarrow> 'a list \<Rightarrow> 'a" where
  "min_by f best [] = best"
| "min_by f best (x # xs) = (if f x < f best then min_by f x xs else min_by f best xs)"

definition queue_key :: "operation_record \<Rightarrow> instant \<times> string" where
  "queue_key r = (o_created r, o_id r)"

definition lease_next_operation ::
  "string \<Rightarrow> string \<Rightarrow> string \<Rightarrow> instant \<Rightarrow> instant \<Rightarrow> (gateway_repo, operation_record option) py" where
  "lease_next_operation tenant ws owner now lease_expires_at s =
     bindS (refresh_loop tenant ws owner now (g_operations s) False [])
       (\<lambda>(active, eligible) s'.
          if active then (Inr None, s')
          else (case eligible of
            [] \<Rightarrow> (Inr None, s')
          | e # es \<Rightarrow>
              (let selected = min_by queue_key e es;
                   effective = min lease_expires_at (o_expires selected) in
               if effective \<le> now
               then (case expire selected now of
                       Inl x \<Rightarrow> (Inl x, s')
                     | Inr r' \<Rightarrow> (Inr None, put_op (o_id selected) r' s'))
               else (case model_validate (selected\<lparr>o_state := LEASED, o_lease := Some effective\<rparr>) of
                       Inl x \<Rightarrow> (Inl x, s')
                     | Inr r' \<Rightarrow> (Inr (Some r'), put_op (o_id selected) r' s'))))) s"

definition start_operation ::
  "string \<Rightarrow> string \<Rightarrow> string \<Rightarrow> instant \<Rightarrow> (gateway_repo, transition_outcome) py" where
  "start_operation k tenant ws now s =
     (case find_op s k of
        None \<Rightarrow> (Inr (TransitionOutcome TransNotFound None), s)
      | Some r \<Rightarrow>
          (if \<not> worker_owns r tenant ws then (Inr (TransitionOutcome TransNotFound None), s)
           else if o_state r = LEASED \<and> (case o_lease r of None \<Rightarrow> False | Some l \<Rightarrow> l \<le> now)
           then (case attention_required r now of
                   Inl e \<Rightarrow> (Inl e, s)
                 | Inr r' \<Rightarrow> (Inr (TransitionOutcome TransLeaseExpired (Some r')), put_op k r' s))
           else if o_state r \<noteq> LEASED then (Inr (TransitionOutcome TransInvalidState (Some r)), s)
           else (case model_validate (r\<lparr>o_state := RUNNING, o_lease := None, o_started := Some now\<rparr>) of
                   Inl e \<Rightarrow> (Inl e, s)
                 | Inr r' \<Rightarrow> (Inr (TransitionOutcome TransUpdated (Some r')), put_op k r' s))))"

text \<open>
  finish_operation and apply_worker_success first refresh the record; the code compares the
  refreshed record with the stored one by identity, and a refresh that transitions always
  changes the state, so the model compares them by equality.
\<close>

definition finish_operation ::
  "string \<Rightarrow> string \<Rightarrow> string \<Rightarrow> instant \<Rightarrow> operation_state \<Rightarrow> task_result option \<Rightarrow> string option
    \<Rightarrow> (gateway_repo, transition_outcome) py" where
  "finish_operation k tenant ws now st result error_code s =
     (if \<not> (st = SUCCEEDED \<or> st = FAILED \<or> st = ATTENTION_REQUIRED)
      then (Inl (ValueError ''invalid_terminal_state''), s)
      else (case find_op s k of
        None \<Rightarrow> (Inr (TransitionOutcome TransNotFound None), s)
      | Some r0 \<Rightarrow>
         (if \<not> worker_owns r0 tenant ws then (Inr (TransitionOutcome TransNotFound None), s)
          else (case refresh_due r0 now of
            Inl e \<Rightarrow> (Inl e, s)
          | Inr r \<Rightarrow>
             (let s' = (if r \<noteq> r0 then put_op k r s else s) in
              if r \<noteq> r0 \<and> o_state r = EXPIRED
              then (Inr (TransitionOutcome TransOperationExpired (Some r)), s')
              else if o_state r \<noteq> RUNNING then (Inr (TransitionOutcome TransInvalidState (Some r)), s')
              else (case model_validate (r\<lparr>o_state := st, o_completed := Some now,
                           o_result := result, o_error := error_code\<rparr>) of
                      Inl e \<Rightarrow> (Inl e, s')
                    | Inr r' \<Rightarrow> (Inr (TransitionOutcome TransUpdated (Some r')), put_op k r' s')))))))"


section \<open>Applying a worker's catalog rows\<close>

definition no_duplicates :: "string list \<Rightarrow> bool" where
  "no_duplicates ids \<longleftrightarrow> length ids = length (remdups ids)"

definition catalog_payload_ok ::
  "operation_record \<Rightarrow> task_result \<Rightarrow> project_record list \<Rightarrow> drawing_record list \<Rightarrow> bool" where
  "catalog_payload_ok oper result projects drawings = (case result of
     ListProjectsResult ids \<Rightarrow>
       (case o_task oper of
          ListProjectsTask w \<Rightarrow> w = o_ws oper \<and> drawings = []
            \<and> no_duplicates (map prj_id projects)
            \<and> map prj_id (filter prj_enabled projects) = ids
        | _ \<Rightarrow> False)
   | ScanDrawingsResult pid ids truncated \<Rightarrow>
       (case o_task oper of
          ScanDrawingsTask task_pid recursive limit \<Rightarrow> task_pid = pid \<and> projects = []
            \<and> no_duplicates (map drw_id drawings)
            \<and> map drw_id drawings = ids
            \<and> list_all (\<lambda>d. drw_prj d = pid) drawings
        | _ \<Rightarrow> False)
   | _ \<Rightarrow> projects = [] \<and> drawings = [])"

definition project_row_ok :: "operation_record \<Rightarrow> gateway_repo \<Rightarrow> project_record \<Rightarrow> bool" where
  "project_row_ok oper s p \<longleftrightarrow>
     (case find_ws s (prj_ws p) of None \<Rightarrow> False
      | Some w \<Rightarrow> prj_tenant p = o_tenant oper \<and> prj_owner p = o_owner oper \<and> prj_ws p = o_ws oper
          \<and> ws_tenant w = prj_tenant p \<and> ws_owner w = prj_owner p)
     \<and> (case find_prj s (prj_id p) of None \<Rightarrow> True
        | Some old \<Rightarrow> prj_tenant old = prj_tenant p \<and> prj_owner old = prj_owner p
            \<and> prj_ws old = prj_ws p)"

definition put_projects :: "project_record list \<Rightarrow> gateway_repo \<Rightarrow> gateway_repo" where
  "put_projects ps s = fold put_prj ps s"

definition put_drawings :: "drawing_record list \<Rightarrow> gateway_repo \<Rightarrow> gateway_repo" where
  "put_drawings ds s = fold put_drw ds s"

text \<open>
  project_view is the dict the stored projects would become with the new rows written over
  them; the drawing rows are checked against it.
\<close>

definition drawing_row_ok ::
  "operation_record \<Rightarrow> gateway_repo \<Rightarrow> project_record list \<Rightarrow> drawing_record \<Rightarrow> bool" where
  "drawing_row_ok oper s projects d \<longleftrightarrow>
     (case find_prj (put_projects projects s) (drw_prj d) of None \<Rightarrow> False
      | Some p \<Rightarrow> prj_enabled p \<and> drw_tenant d = o_tenant oper \<and> drw_owner d = o_owner oper
          \<and> drw_ws d = o_ws oper \<and> prj_tenant p = drw_tenant d \<and> prj_owner p = drw_owner d
          \<and> prj_ws p = drw_ws d)
     \<and> (case find_drw s (drw_id d) of None \<Rightarrow> True
        | Some old \<Rightarrow> drw_tenant old = drw_tenant d \<and> drw_owner old = drw_owner d
            \<and> drw_ws old = drw_ws d \<and> drw_prj old = drw_prj d)"

definition validate_worker_catalog_application ::
  "operation_record \<Rightarrow> task_result \<Rightarrow> project_record list \<Rightarrow> drawing_record list \<Rightarrow> gateway_repo \<Rightarrow> unit res" where
  "validate_worker_catalog_application oper result projects drawings s =
     (if result_command result \<noteq> command_of (o_task oper)
      then Inl (ValueError ''result_task_mismatch'')
      else if \<not> catalog_payload_ok oper result projects drawings
      then Inl (ValueError ''invalid_catalog_payload'')
      else if \<not> list_all (project_row_ok oper s) projects
      then Inl (ValueError ''project_owner_mismatch'')
      else if \<not> list_all (drawing_row_ok oper s projects) drawings
      then Inl (ValueError ''drawing_owner_mismatch'')
      else Inr ())"

definition apply_worker_success ::
  "string \<Rightarrow> string \<Rightarrow> string \<Rightarrow> instant \<Rightarrow> task_result \<Rightarrow> project_record list \<Rightarrow> drawing_record list
    \<Rightarrow> (gateway_repo, transition_outcome) py" where
  "apply_worker_success k tenant ws now result projects drawings s =
     (case find_op s k of
        None \<Rightarrow> (Inr (TransitionOutcome TransNotFound None), s)
      | Some r0 \<Rightarrow>
         (if \<not> worker_owns r0 tenant ws then (Inr (TransitionOutcome TransNotFound None), s)
          else (case refresh_due r0 now of
            Inl e \<Rightarrow> (Inl e, s)
          | Inr r \<Rightarrow>
             (let s' = (if r \<noteq> r0 then put_op k r s else s) in
              if r \<noteq> r0 \<and> o_state r = EXPIRED
              then (Inr (TransitionOutcome TransOperationExpired (Some r)), s')
              else if o_state r = SUCCEEDED
              then (if o_result r = Some result
                    then (Inr (TransitionOutcome TransUpdated (Some r)), s')
                    else (Inr (TransitionOutcome TransInvalidState (Some r)), s'))
              else if o_state r \<noteq> RUNNING
              then (Inr (TransitionOutcome TransInvalidState (Some r)), s')
              else (case validate_worker_catalog_application r result projects drawings s' of
                Inl e \<Rightarrow> (Inl e, s')
              | Inr _ \<Rightarrow>
                 (let s'' = put_drawings drawings (put_projects projects s') in
                  case model_validate (r\<lparr>o_state := SUCCEEDED, o_completed := Some now,
                         o_result := Some result, o_error := None\<rparr>) of
                    Inl e \<Rightarrow> (Inl e, s'')
                  | Inr r' \<Rightarrow> (Inr (TransitionOutcome TransUpdated (Some r')), put_op k r' s'')))))))"

section \<open>The protocols the store provides\<close>

definition memory_catalog :: "gateway_repo catalog_repository" where
  "memory_catalog = \<lparr>c_upsert_workstation = upsert_workstation, c_upsert_project = upsert_project,
     c_upsert_drawing = upsert_drawing, c_list_workstations = list_workstations,
     c_get_workstation = get_workstation, c_list_projects = list_projects,
     c_get_project = get_project, c_get_drawing = get_drawing\<rparr>"

definition memory_operations :: "gateway_repo operation_repository" where
  "memory_operations = \<lparr>r_create_or_get = create_or_get_operation, r_get = get_operation,
     r_refresh = refresh_operation, r_lease_next = lease_next_operation, r_start = start_operation,
     r_finish = finish_operation, r_apply_success = apply_worker_success\<rparr>"

lemma memory_catalog_sel [simp]:
  "c_get_workstation memory_catalog = get_workstation" "c_get_project memory_catalog = get_project"
  "c_get_drawing memory_catalog = get_drawing" "c_list_projects memory_catalog = list_projects"
  "c_list_workstations memory_catalog = list_workstations"
  "c_upsert_workstation memory_catalog = upsert_workstation"
  "c_upsert_project memory_catalog = upsert_project" "c_upsert_drawing memory_catalog = upsert_drawing"
  by (simp_all add: memory_catalog_def)

lemma memory_operations_sel [simp]:
  "r_create_or_get memory_operations = create_or_get_operation" "r_get memory_operations = get_operation"
  "r_refresh memory_operations = refresh_operation" "r_lease_next memory_operations = lease_next_operation"
  "r_start memory_operations = start_operation" "r_finish memory_operations = finish_operation"
  "r_apply_success memory_operations = apply_worker_success"
  by (simp_all add: memory_operations_def)

end
