(* ===== verification/Json_Canonical.thy ===== *)
theory Json_Canonical
  imports Cad_Prelude "HOL-Library.Char_ord" "HOL-Library.List_Lexorder"
begin

text \<open>
  json.dumps with sort\_keys=True, separators=(",", ":") and the default ensure\_ascii=True, as
  GatewayService.\_enqueue uses it to fingerprint a request: JSON values, the serializer, and the
  proof that its output determines the value, for text without surrogate code points (which a
  pydantic str cannot hold).
\<close>

section \<open>Values and their text\<close>

datatype json = JNull | JBool bool | JInt int | JStr pytext | JArr "json list" | JObj "(string \<times> json) list"

definition jstr :: "string \<Rightarrow> json" where
  "jstr s = JStr (map of_char s)"

definition hex_digits :: string where
  "hex_digits = ''0123456789abcdef''"

definition digit_char :: "nat \<Rightarrow> char" where
  "digit_char n = hex_digits ! (n mod 16)"

fun dec_nat :: "nat \<Rightarrow> string" where
  "dec_nat n = (if n < 10 then [digit_char n] else dec_nat (n div 10) @ [digit_char (n mod 10)])"

declare dec_nat.simps [simp del]

definition dec_int :: "int \<Rightarrow> string" where
  "dec_int i = (if i < 0 then CHR ''-'' # dec_nat (nat (- i)) else dec_nat (nat i))"

definition hex4 :: "nat \<Rightarrow> string" where
  "hex4 n = [digit_char (n div 4096), digit_char (n div 256), digit_char (n div 16), digit_char n]"

definition short_escape :: "nat \<Rightarrow> char option" where
  "short_escape c = (if c = 34 then Some (CHR 0x22) else if c = 92 then Some (CHR 0x5C)
     else if c = 10 then Some (CHR ''n'') else if c = 13 then Some (CHR ''r'')
     else if c = 9 then Some (CHR ''t'') else if c = 12 then Some (CHR ''f'')
     else if c = 8 then Some (CHR ''b'') else None)"

definition escape :: "nat \<Rightarrow> string" where
  "escape c = (case short_escape c of
     Some e \<Rightarrow> [CHR 0x5C, e]
   | None \<Rightarrow>
       if 32 \<le> c \<and> c \<le> 126 then [char_of c]
       else if c < 65536 then [CHR 0x5C, CHR ''u''] @ hex4 c
       else [CHR 0x5C, CHR ''u''] @ hex4 (55296 + (c - 65536) div 1024)
          @ [CHR 0x5C, CHR ''u''] @ hex4 (56320 + (c - 65536) mod 1024))"

definition quoted :: "pytext \<Rightarrow> string" where
  "quoted t = [CHR 0x22] @ concat (map escape t) @ [CHR 0x22]"

fun dumps :: "json \<Rightarrow> string"
  and dumps_items :: "json list \<Rightarrow> string"
  and dumps_members :: "(string \<times> json) list \<Rightarrow> string" where
  "dumps JNull = ''null''"
| "dumps (JBool b) = (if b then ''true'' else ''false'')"
| "dumps (JInt i) = dec_int i"
| "dumps (JStr t) = quoted t"
| "dumps (JArr xs) = ''['' @ dumps_items xs @ '']''"
| "dumps (JObj kvs) = ''{'' @ dumps_members kvs @ ''}''"
| "dumps_items [] = []"
| "dumps_items [x] = dumps x"
| "dumps_items (x # y # ys) = dumps x @ '','' @ dumps_items (y # ys)"
| "dumps_members [] = []"
| "dumps_members [(k, v)] = quoted (map of_char k) @ '':'' @ dumps v"
| "dumps_members ((k, v) # m # ms) = quoted (map of_char k) @ '':'' @ dumps v @ '','' @ dumps_members (m # ms)"

text \<open>sort\_keys: at every level the members go in the order of their keys.\<close>

fun sorted_json :: "json \<Rightarrow> json" where
  "sorted_json (JArr xs) = JArr (map sorted_json xs)"
| "sorted_json (JObj kvs) = JObj (sort_key fst (map (\<lambda>(k, v). (k, sorted_json v)) kvs))"
| "sorted_json j = j"

definition canonical_json :: "json \<Rightarrow> string" where
  "canonical_json j = dumps (sorted_json j)"

section \<open>The text determines the value\<close>

definition scalar :: "nat \<Rightarrow> bool" where
  "scalar c \<longleftrightarrow> c < 55296 \<or> 57343 < c \<and> c < 1114112"

fun json_ok :: "json \<Rightarrow> bool" where
  "json_ok (JStr t) = list_all scalar t"
| "json_ok (JArr xs) = list_all json_ok xs"
| "json_ok (JObj kvs) = list_all (\<lambda>(k, v). json_ok v) kvs"
| "json_ok j = True"

lemma hex_digits_facts: "distinct hex_digits" "length hex_digits = 16"
  by code_simp+

lemma digit_char_inj: "digit_char m = digit_char n \<longleftrightarrow> m mod 16 = n mod 16"
  using nth_eq_iff_index_eq[OF hex_digits_facts(1), of "m mod 16" "n mod 16"]
  by (simp add: digit_char_def hex_digits_facts(2))

lemma digit_char_lt10: "n < 10 \<Longrightarrow> is_digit (digit_char n)"
proof -
  have "list_all (\<lambda>n. is_digit (digit_char n)) [0..<10]" by code_simp
  then show "n < 10 \<Longrightarrow> is_digit (digit_char n)" by (simp add: list_all_iff del: upt_Suc)
qed

lemma hex_step: "a mod 16 = b mod 16 \<Longrightarrow> a div 16 = b div 16 \<Longrightarrow> a = (b::nat)"
  by (metis div_mult_mod_eq)

lemma hex4_inj:
  assumes "hex4 m = hex4 n" and "m < 65536" and "n < 65536"
  shows "m = n"
proof -
  have d: "k div 256 div 16 = k div 4096" "k div 16 div 16 = k div 256" for k :: nat
    by (simp_all add: div_mult2_eq[symmetric])
  from assms(1) have e: "m div 4096 mod 16 = n div 4096 mod 16" "m div 256 mod 16 = n div 256 mod 16"
    "m div 16 mod 16 = n div 16 mod 16" "m mod 16 = n mod 16"
    by (simp_all add: hex4_def digit_char_inj)
  from assms(2,3) have "m div 4096 < 16" "n div 4096 < 16" by simp_all
  with e(1) have "m div 256 div 16 = n div 256 div 16" by (simp add: d)
  with e(2) have "m div 16 div 16 = n div 16 div 16" unfolding d(2) by (rule hex_step)
  with e(3) have "m div 16 = n div 16" by (rule hex_step)
  with e(4) show ?thesis by (rule hex_step)
qed

lemma length_hex4 [simp]: "length (hex4 n) = 4"
  by (simp add: hex4_def)

lemma short_escape_inj: "short_escape c = Some e \<Longrightarrow> short_escape d = Some e \<Longrightarrow> c = d"
  by (auto simp add: short_escape_def split: if_splits)

lemma short_escape_not_u: "short_escape c \<noteq> Some CHR ''u''"
  by (simp add: short_escape_def)

lemma escape_plain: "short_escape c = None \<Longrightarrow> 32 \<le> c \<Longrightarrow> c \<le> 126 \<Longrightarrow> escape c = [char_of c]"
  by (simp add: escape_def)

lemma char_of_eq_small: "c < 256 \<Longrightarrow> d < 256 \<Longrightarrow> char_of c = (char_of d :: char) \<longleftrightarrow> c = (d::nat)"
  using char_of_eq_iff[of c "char_of d"] by simp

lemma char_of_special:
  "32 \<le> c \<Longrightarrow> c \<le> 126 \<Longrightarrow> char_of c = CHR 0x5C \<longleftrightarrow> c = (92::nat)"
  "32 \<le> c \<Longrightarrow> c \<le> 126 \<Longrightarrow> char_of c = CHR 0x22 \<longleftrightarrow> c = (34::nat)"
proof -
  have "CHR 0x5C = char_of (92::nat)" "CHR 0x22 = char_of (34::nat)" by code_simp+
  then show "32 \<le> c \<Longrightarrow> c \<le> 126 \<Longrightarrow> char_of c = CHR 0x5C \<longleftrightarrow> c = (92::nat)"
    "32 \<le> c \<Longrightarrow> c \<le> 126 \<Longrightarrow> char_of c = CHR 0x22 \<longleftrightarrow> c = (34::nat)"
    using char_of_eq_small[of c 92] char_of_eq_small[of c 34] by simp_all
qed

text \<open>The three shapes of an escaped character, told apart by its first two characters.\<close>

lemma escape_cases:
  obtains (short) e where "short_escape c = Some e" "escape c = [CHR 0x5C, e]"
  | (plain) "escape c = [char_of c]" "char_of c \<noteq> CHR 0x5C" "char_of c \<noteq> CHR 0x22" "c < 256"
  | (bmp) "escape c = [CHR 0x5C, CHR ''u''] @ hex4 c" "c < 65536"
  | (astral) "escape c = [CHR 0x5C, CHR ''u''] @ hex4 (55296 + (c - 65536) div 1024)
          @ [CHR 0x5C, CHR ''u''] @ hex4 (56320 + (c - 65536) mod 1024)" "65536 \<le> c"
proof (cases "short_escape c")
  case None
  show ?thesis
  proof (cases "32 \<le> c \<and> c \<le> 126")
    case True
    with None have "c \<noteq> 92" "c \<noteq> 34" by (auto simp add: short_escape_def)
    with True None show ?thesis by (intro plain) (simp_all add: escape_plain char_of_special)
  next
    case False
    then have e: "escape c = (if c < 65536 then [CHR 0x5C, CHR ''u''] @ hex4 c
      else [CHR 0x5C, CHR ''u''] @ hex4 (55296 + (c - 65536) div 1024)
          @ [CHR 0x5C, CHR ''u''] @ hex4 (56320 + (c - 65536) mod 1024))"
      using None by (simp only: escape_def option.case if_False)
    show ?thesis
    proof (cases "c < 65536")
      case True
      with e show ?thesis by (intro bmp) simp_all
    next
      case False
      with e show ?thesis by (intro astral) simp_all
    qed
  qed
qed (auto intro: short simp add: escape_def)

lemma high_surrogate: "scalar k \<Longrightarrow> 55296 + (k - 65536) div 1024 < 57344"
  by (auto simp add: scalar_def)

lemma low_surrogate: "56320 + (k - 65536) mod 1024 < (65536::nat)"
  using mod_less_divisor[of 1024 "k - 65536"] by linarith

lemma escape_prefix:
  assumes "escape c @ x = escape d @ y" and "scalar c" and "scalar d"
  shows "c = d \<and> x = y"
  using assms(1)
proof (cases c rule: escape_cases; cases d rule: escape_cases)
  fix e e'
  assume "short_escape c = Some e" "escape c = [CHR 0x5C, e]" "short_escape d = Some e'" "escape d = [CHR 0x5C, e']"
  with assms(1) show ?thesis by (auto dest: short_escape_inj)
next
  assume "escape c = [char_of c]" "c < 256" "escape d = [char_of d]" "d < 256"
  with assms(1) show ?thesis by (simp add: char_of_eq_small)
next
  assume e: "escape c = [CHR 0x5C, CHR ''u''] @ hex4 c" "c < 65536"
    "escape d = [CHR 0x5C, CHR ''u''] @ hex4 d" "d < 65536"
  from assms(1) have "hex4 c = hex4 d" "x = y" unfolding e(1,3) by simp_all
  with e(2,4) show ?thesis by (blast intro: hex4_inj)
next
  assume e: "escape c = [CHR 0x5C, CHR ''u''] @ hex4 c" "c < 65536"
    "escape d = [CHR 0x5C, CHR ''u''] @ hex4 (55296 + (d - 65536) div 1024)
          @ [CHR 0x5C, CHR ''u''] @ hex4 (56320 + (d - 65536) mod 1024)" "65536 \<le> d"
  from assms(1) have "hex4 c = hex4 (55296 + (d - 65536) div 1024)" unfolding e(1,3) by simp
  then have "c = 55296 + (d - 65536) div 1024" using e(2) high_surrogate[OF assms(3)] by (intro hex4_inj) auto
  with high_surrogate[OF assms(3)] assms(2) show ?thesis by (simp add: scalar_def)
next
  assume e: "escape d = [CHR 0x5C, CHR ''u''] @ hex4 d" "d < 65536"
    "escape c = [CHR 0x5C, CHR ''u''] @ hex4 (55296 + (c - 65536) div 1024)
          @ [CHR 0x5C, CHR ''u''] @ hex4 (56320 + (c - 65536) mod 1024)" "65536 \<le> c"
  from assms(1) have "hex4 d = hex4 (55296 + (c - 65536) div 1024)" unfolding e(1,3) by simp
  then have "d = 55296 + (c - 65536) div 1024" using e(2) high_surrogate[OF assms(2)] by (intro hex4_inj) auto
  with high_surrogate[OF assms(2)] assms(3) show ?thesis by (simp add: scalar_def)
next
  assume e: "escape c = [CHR 0x5C, CHR ''u''] @ hex4 (55296 + (c - 65536) div 1024)
          @ [CHR 0x5C, CHR ''u''] @ hex4 (56320 + (c - 65536) mod 1024)" "65536 \<le> c"
    "escape d = [CHR 0x5C, CHR ''u''] @ hex4 (55296 + (d - 65536) div 1024)
          @ [CHR 0x5C, CHR ''u''] @ hex4 (56320 + (d - 65536) mod 1024)" "65536 \<le> d"
  from assms(1) have h: "hex4 (55296 + (c - 65536) div 1024) = hex4 (55296 + (d - 65536) div 1024)"
    "hex4 (56320 + (c - 65536) mod 1024) = hex4 (56320 + (d - 65536) mod 1024)" "x = y"
    unfolding e(1,3) by simp_all
  have "55296 + (c - 65536) div 1024 = 55296 + (d - 65536) div 1024"
    using high_surrogate[OF assms(2)] high_surrogate[OF assms(3)] by (intro hex4_inj[OF h(1)]) auto
  moreover have "56320 + (c - 65536) mod 1024 = 56320 + (d - 65536) mod 1024"
    using low_surrogate[of c] low_surrogate[of d] by (intro hex4_inj[OF h(2)]) auto
  ultimately have "c - 65536 = d - 65536" by (metis add_left_cancel div_mult_mod_eq)
  with e(2,4) h(3) show ?thesis by simp
qed (use short_escape_not_u in \<open>auto simp add: hex4_def\<close>)

lemma escape_not_quote: "escape c @ x \<noteq> CHR 0x22 # y"
  by (cases c rule: escape_cases) auto

lemma quoted_body:
  assumes "concat (map escape t) @ CHR 0x22 # x = concat (map escape u) @ CHR 0x22 # y"
    and "list_all scalar t" and "list_all scalar u"
  shows "t = u \<and> x = y"
  using assms
proof (induction t arbitrary: u)
  case Nil
  then show ?case by (cases u) (auto dest: escape_not_quote[THEN notE, OF sym])
next
  case (Cons c t)
  show ?case
  proof (cases u)
    case Nil
    with Cons.prems(1) show ?thesis by (auto dest: escape_not_quote[THEN notE])
  next
    case (Cons d u')
    with Cons.prems have "c = d \<and> concat (map escape t) @ CHR 0x22 # x = concat (map escape u') @ CHR 0x22 # y"
      by (intro escape_prefix) auto
    with Cons.IH[of u'] Cons.prems(2,3) Cons show ?thesis by simp
  qed
qed

lemma quoted_prefix:
  assumes "quoted t @ x = quoted u @ y" and "list_all scalar t" and "list_all scalar u"
  shows "t = u \<and> x = y"
  using assms quoted_body[of t x u y] by (simp add: quoted_def)


section \<open>Numbers\<close>

lemma dec_nat_digits: "list_all is_digit (dec_nat n) \<and> dec_nat n \<noteq> []"
proof (induction n rule: dec_nat.induct)
  case (1 n)
  then show ?case by (subst (1 2) dec_nat.simps) (auto simp add: digit_char_lt10)
qed

lemma dec_nat_inj: "dec_nat m = dec_nat n \<Longrightarrow> m = n"
proof (induction m arbitrary: n rule: dec_nat.induct)
  case (1 m)
  have digit: "digit_char a = digit_char b \<Longrightarrow> a < 10 \<Longrightarrow> b < 10 \<Longrightarrow> a = b" for a b
    by (simp add: digit_char_inj)
  have ne: "dec_nat k \<noteq> []" for k using dec_nat_digits by blast
  show ?case
  proof (cases "m < 10"; cases "n < 10")
    assume "m < 10" "n < 10"
    with 1(2) show ?thesis by (auto simp add: dec_nat.simps[of m] dec_nat.simps[of n] intro: digit)
  next
    assume l: "\<not> m < 10" "\<not> n < 10"
    with 1(2) have "dec_nat (m div 10) = dec_nat (n div 10)" "digit_char (m mod 10) = digit_char (n mod 10)"
      by (simp_all add: dec_nat.simps[of m] dec_nat.simps[of n])
    with 1(1)[OF l(1), of "n div 10"] digit[of "m mod 10" "n mod 10"] have "m div 10 = n div 10" "m mod 10 = n mod 10"
      by simp_all
    then show ?thesis by (metis div_mult_mod_eq)
  qed (use 1(2) ne ne[symmetric] in \<open>simp_all add: dec_nat.simps[of m] dec_nat.simps[of n]\<close>)
qed

definition stops :: "string \<Rightarrow> bool" where
  "stops x \<longleftrightarrow> (case x of [] \<Rightarrow> True | c # _ \<Rightarrow> \<not> is_digit c)"

lemma stops_simps [simp]: "stops []" "stops (c # x) \<longleftrightarrow> \<not> is_digit c"
  by (simp_all add: stops_def)

lemma digits_prefix:
  assumes "list_all is_digit a" and "list_all is_digit b" and "a @ x = b @ y" and "stops x" and "stops y"
  shows "a = b \<and> x = y"
  using assms
proof (induction a arbitrary: b)
  case Nil
  then show ?case by (cases b) auto
next
  case (Cons d a)
  then show ?case by (cases b) auto
qed

lemma not_digit_minus [simp]: "\<not> is_digit CHR ''-''"
  by (simp add: is_digit_def)

lemma dec_int_prefix:
  assumes "dec_int i @ x = dec_int j @ y" and "stops x" and "stops y"
  shows "i = j \<and> x = y"
proof -
  have digits: "list_all is_digit (dec_nat n)" "hd (dec_nat n) \<noteq> CHR ''-''" "dec_nat n \<noteq> []" for n
    using dec_nat_digits[of n] by (cases "dec_nat n"; auto)+
  have clash: "CHR ''-'' # u \<noteq> dec_nat n @ v" for u n v
    using digits(2,3)[of n] by (cases "dec_nat n") auto
  have same: "m = n \<and> x = y" if "dec_nat m @ x = dec_nat n @ y" for m n
    using digits_prefix[OF digits(1) digits(1) that assms(2,3)] dec_nat_inj by blast
  show ?thesis
  proof (cases "i < 0"; cases "j < 0")
    assume s: "i < 0" "j < 0"
    with assms(1) have "dec_nat (nat (- i)) @ x = dec_nat (nat (- j)) @ y" by (simp add: dec_int_def)
    from same[OF this] s show ?thesis by linarith
  next
    assume s: "\<not> i < 0" "\<not> j < 0"
    with assms(1) have "dec_nat (nat i) @ x = dec_nat (nat j) @ y" by (simp add: dec_int_def)
    from same[OF this] s show ?thesis by linarith
  next
    assume s: "i < 0" "\<not> j < 0"
    with assms(1) have "CHR ''-'' # dec_nat (nat (- i)) @ x = dec_nat (nat j) @ y" by (simp add: dec_int_def)
    with clash show ?thesis by blast
  next
    assume s: "\<not> i < 0" "j < 0"
    with assms(1) have "CHR ''-'' # dec_nat (nat (- j)) @ y = dec_nat (nat i) @ x" by (simp add: dec_int_def)
    with clash show ?thesis by blast
  qed
qed

section \<open>Injectivity\<close>

fun kind :: "json \<Rightarrow> nat" where
  "kind JNull = 0"
| "kind (JBool b) = (if b then 1 else 2)"
| "kind (JInt i) = 3"
| "kind (JStr t) = 4"
| "kind (JArr xs) = 5"
| "kind (JObj kvs) = 6"

definition head_kind :: "char \<Rightarrow> nat" where
  "head_kind c = (if c = CHR ''n'' then 0 else if c = CHR ''t'' then 1 else if c = CHR ''f'' then 2
     else if is_digit c \<or> c = CHR ''-'' then 3 else if c = CHR 0x22 then 4 else if c = CHR ''['' then 5
     else if c = CHR ''{'' then 6 else 7)"

lemma dumps_head: "\<exists>c w. dumps j = c # w \<and> head_kind c = kind j"
proof (cases j)
  case (JInt i)
  have "\<exists>c w. dec_nat n = c # w \<and> is_digit c" for n
    using dec_nat_digits[of n] by (cases "dec_nat n") auto
  moreover have "is_digit c \<Longrightarrow> head_kind c = 3" for c by (auto simp add: head_kind_def is_digit_def)
  ultimately show ?thesis
    using JInt by (cases "i < 0") (simp add: dec_int_def head_kind_def, simp add: dec_int_def, blast)
qed (auto simp add: head_kind_def is_digit_def quoted_def)

lemma dumps_same_kind: "dumps i @ x = dumps j @ y \<Longrightarrow> kind i = kind j"
  using dumps_head[of i] dumps_head[of j] by auto

lemma dumps_no_close:
  "dumps i @ x \<noteq> CHR '']'' # y" "dumps i @ x \<noteq> CHR '','' # y"
proof -
  have "kind i < 7" by (cases i) auto
  with dumps_head[of i] show "dumps i @ x \<noteq> CHR '']'' # y" "dumps i @ x \<noteq> CHR '','' # y"
    by (auto simp add: head_kind_def is_digit_def)
qed

lemma key_scalar: "list_all scalar (map of_char k)"
proof -
  have "scalar (of_char c)" for c using nat_of_char_less_256[of c] unfolding scalar_def by linarith
  then show ?thesis by (simp add: list_all_iff)
qed

lemma key_inj: "map of_char k = (map of_char l :: nat list) \<longleftrightarrow> k = l"
  using inj_map_eq_map[of "of_char :: char \<Rightarrow> nat" k l] by (auto simp add: inj_def)


lemma key_prefix:
  "quoted (map of_char k) @ x = quoted (map of_char l) @ y \<Longrightarrow> k = l \<and> x = y"
  using quoted_prefix[OF _ key_scalar key_scalar] key_inj by blast

lemma value_ends [simp]: "\<not> is_digit CHR '']''" "\<not> is_digit CHR '',''" "\<not> is_digit CHR ''}''"
  by (simp_all add: is_digit_def)

lemma items_head: "dumps_items xs @ CHR '']'' # x = CHR '']'' # y \<Longrightarrow> xs = []"
  using dumps_no_close(1) by (cases xs rule: dumps_items.cases) auto

lemma dumps_prefix_gen:
  "\<forall>j' x y. dumps j @ x = dumps j' @ y \<longrightarrow> stops x \<longrightarrow> stops y \<longrightarrow> json_ok j \<longrightarrow> json_ok j' \<longrightarrow> j = j' \<and> x = y"
  "\<forall>ys x y. dumps_items xs @ CHR '']'' # x = dumps_items ys @ CHR '']'' # y \<longrightarrow> list_all json_ok xs
     \<longrightarrow> list_all json_ok ys \<longrightarrow> xs = ys \<and> x = y"
  "\<forall>ms x y. dumps_members kvs @ CHR ''}'' # x = dumps_members ms @ CHR ''}'' # y
     \<longrightarrow> list_all (\<lambda>(k, v). json_ok v) kvs \<longrightarrow> list_all (\<lambda>(k, v). json_ok v) ms \<longrightarrow> kvs = ms \<and> x = y"
proof (induction j and xs and kvs rule: dumps_dumps_items_dumps_members.induct)
  case 1
  show ?case
  proof (intro allI impI)
    fix j' x y assume "dumps JNull @ x = dumps j' @ y"
    with dumps_same_kind[OF this] show "JNull = j' \<and> x = y" by (cases j') (auto split: if_splits)
  qed
next
  case (2 b)
  show ?case
  proof (intro allI impI)
    fix j' x y assume "dumps (JBool b) @ x = dumps j' @ y"
    with dumps_same_kind[OF this] show "JBool b = j' \<and> x = y" by (cases j') (auto split: if_splits)
  qed
next
  case (3 i)
  show ?case
  proof (intro allI impI)
    fix j' x y assume "dumps (JInt i) @ x = dumps j' @ y" "stops x" "stops y"
    with dumps_same_kind[OF this(1)] show "JInt i = j' \<and> x = y"
      by (cases j') (auto dest: dec_int_prefix split: if_splits)
  qed
next
  case (4 t)
  show ?case
  proof (intro allI impI)
    fix j' x y assume "dumps (JStr t) @ x = dumps j' @ y" "json_ok (JStr t)" "json_ok j'"
    with dumps_same_kind[OF this(1)] show "JStr t = j' \<and> x = y"
      by (cases j') (auto dest: quoted_prefix split: if_splits)
  qed
next
  case (5 xs)
  show ?case
  proof (intro allI impI)
    fix j' x y assume a: "dumps (JArr xs) @ x = dumps j' @ y" "json_ok (JArr xs)" "json_ok j'"
    from dumps_same_kind[OF a(1)] obtain ys where j': "j' = JArr ys" by (cases j') (auto split: if_splits)
    with a 5 show "JArr xs = j' \<and> x = y" by simp
  qed
next
  case (6 kvs)
  show ?case
  proof (intro allI impI)
    fix j' x y assume a: "dumps (JObj kvs) @ x = dumps j' @ y" "json_ok (JObj kvs)" "json_ok j'"
    from dumps_same_kind[OF a(1)] obtain ms where j': "j' = JObj ms" by (cases j') (auto split: if_splits)
    with a 6 show "JObj kvs = j' \<and> x = y" by simp
  qed
next
  case 7
  show ?case
  proof (intro allI impI)
    fix ys x y assume "dumps_items [] @ CHR '']'' # x = dumps_items ys @ CHR '']'' # y"
    with items_head[of ys y x] show "[] = ys \<and> x = y" by simp
  qed
next
  case (8 z)
  show ?case
  proof (intro allI impI)
    fix ys x y
    assume a: "dumps_items [z] @ CHR '']'' # x = dumps_items ys @ CHR '']'' # y" "list_all json_ok [z]" "list_all json_ok ys"
    have P: "dumps z @ u = dumps w @ v \<Longrightarrow> stops u \<Longrightarrow> stops v \<Longrightarrow> json_ok w \<Longrightarrow> z = w \<and> u = v" for w u v
      using 8 a(2) by simp
    show "[z] = ys \<and> x = y"
    proof (cases ys)
      case Nil
      with a(1) dumps_no_close(1)[of z "CHR '']'' # x" y] show ?thesis by simp
    next
      case (Cons w ws)
      show ?thesis
      proof (cases ws)
        case Nil
        with Cons a P[of "CHR '']'' # x" w "CHR '']'' # y"] show ?thesis by simp
      next
        case (Cons w' ws')
        with \<open>ys = w # ws\<close> a P[of "CHR '']'' # x" w "CHR '','' # dumps_items ws @ CHR '']'' # y"] show ?thesis by simp
      qed
    qed
  qed
next
  case (9 z z' zs)
  show ?case
  proof (intro allI impI)
    fix ys x y
    assume a: "dumps_items (z # z' # zs) @ CHR '']'' # x = dumps_items ys @ CHR '']'' # y"
      "list_all json_ok (z # z' # zs)" "list_all json_ok ys"
    let ?u = "dumps_items (z' # zs) @ CHR '']'' # x"
    have l: "dumps z @ CHR '','' # ?u = dumps_items ys @ CHR '']'' # y" using a(1) by simp
    have P: "dumps z @ u = dumps w @ v \<Longrightarrow> stops u \<Longrightarrow> stops v \<Longrightarrow> json_ok w \<Longrightarrow> z = w \<and> u = v" for w u v
      using 9(1) a(2) by simp
    show "z # z' # zs = ys \<and> x = y"
    proof (cases ys)
      case Nil
      with l dumps_no_close(1)[of z "CHR '','' # ?u" y] show ?thesis by simp
    next
      case (Cons w ws)
      show ?thesis
      proof (cases ws)
        case Nil
        with Cons a(3) l P[of "CHR '','' # ?u" w "CHR '']'' # y"] show ?thesis by simp
      next
        case c: (Cons w' ws')
        with Cons a(3) l P[of "CHR '','' # ?u" w "CHR '','' # dumps_items ws @ CHR '']'' # y"]
        have "z = w" "?u = dumps_items ws @ CHR '']'' # y" by simp_all
        with 9(2) a(2,3) Cons show ?thesis by simp
      qed
    qed
  qed
next
  case 10
  show ?case
  proof (intro allI impI)
    fix ms x y
    assume "dumps_members [] @ CHR ''}'' # x = dumps_members ms @ CHR ''}'' # y"
    then show "[] = ms \<and> x = y" by (cases ms rule: dumps_members.cases) (auto simp add: quoted_def)
  qed
next
  case (11 k v)
  show ?case
  proof (intro allI impI)
    fix ms x y
    assume a: "dumps_members [(k, v)] @ CHR ''}'' # x = dumps_members ms @ CHR ''}'' # y"
      "list_all (\<lambda>(k, v). json_ok v) [(k, v)]" "list_all (\<lambda>(k, v). json_ok v) ms"
    have P: "dumps v @ u = dumps w @ t \<Longrightarrow> stops u \<Longrightarrow> stops t \<Longrightarrow> json_ok w \<Longrightarrow> v = w \<and> u = t" for w u t
      using 11 a(2) by simp
    show "[(k, v)] = ms \<and> x = y"
    proof (cases ms)
      case Nil
      with a(1) show ?thesis by (simp add: quoted_def)
    next
      case (Cons m ms')
      obtain l w where m: "m = (l, w)" by force
      show ?thesis
      proof (cases ms')
        case Nil
        with a Cons m have "k = l" "dumps v @ CHR ''}'' # x = dumps w @ CHR ''}'' # y" by (auto dest: key_prefix)
        with P[of "CHR ''}'' # x" w "CHR ''}'' # y"] a(3) Cons m Nil show ?thesis by simp
      next
        case c: (Cons n ms'')
        with a Cons m have "dumps v @ CHR ''}'' # x = dumps w @ CHR '','' # dumps_members ms' @ CHR ''}'' # y"
          by (auto dest: key_prefix)
        with P[of "CHR ''}'' # x" w] a(3) Cons m show ?thesis by fastforce
      qed
    qed
  qed
next
  case (12 k v m kvs)
  show ?case
  proof (intro allI impI)
    fix ms x y
    assume a: "dumps_members ((k, v) # m # kvs) @ CHR ''}'' # x = dumps_members ms @ CHR ''}'' # y"
      "list_all (\<lambda>(k, v). json_ok v) ((k, v) # m # kvs)" "list_all (\<lambda>(k, v). json_ok v) ms"
    let ?u = "dumps_members (m # kvs) @ CHR ''}'' # x"
    have lhs: "quoted (map of_char k) @ CHR '':'' # dumps v @ CHR '','' # ?u = dumps_members ms @ CHR ''}'' # y"
      using a(1) by simp
    have P: "dumps v @ u = dumps w @ t \<Longrightarrow> stops u \<Longrightarrow> stops t \<Longrightarrow> json_ok w \<Longrightarrow> v = w \<and> u = t" for w u t
      using 12(1) a(2) by simp
    show "(k, v) # m # kvs = ms \<and> x = y"
    proof (cases ms)
      case Nil
      with lhs show ?thesis by (simp add: quoted_def)
    next
      case (Cons n ms')
      obtain l w where n: "n = (l, w)" by force
      show ?thesis
      proof (cases ms')
        case Nil
        with lhs Cons n have "dumps v @ CHR '','' # ?u = dumps w @ CHR ''}'' # y" by (auto dest!: key_prefix)
        with P[of "CHR '','' # ?u" w "CHR ''}'' # y"] a(3) Cons n show ?thesis by simp
      next
        case c: (Cons n' ms'')
        with lhs Cons n have e: "k = l" "dumps v @ CHR '','' # ?u = dumps w @ CHR '','' # dumps_members ms' @ CHR ''}'' # y"
          by (auto dest!: key_prefix)
        with P[of "CHR '','' # ?u" w] a(3) Cons n have "v = w" "?u = dumps_members ms' @ CHR ''}'' # y"
          by fastforce+
        with 12(2) a(2,3) Cons n e(1) show ?thesis by simp
      qed
    qed
  qed
qed

lemma dumps_inj: "dumps i = dumps j \<Longrightarrow> json_ok i \<Longrightarrow> json_ok j \<Longrightarrow> i = j"
  using dumps_prefix_gen(1)[of i] by (auto dest!: spec[of _ j] spec[of _ "[]"])


section \<open>Sorted objects\<close>

text \<open>
  An object whose keys are distinct is, for its lookups, the same object after sorting; so two
  objects with the same canonical text have the same members.
\<close>

lemma map_of_sort: "distinct (map fst kvs) \<Longrightarrow> map_of (sort_key fst kvs) = map_of kvs"
proof -
  assume d: "distinct (map fst kvs)"
  then have "distinct (map fst (sort_key fst kvs))" by (simp add: distinct_map)
  with d show ?thesis by (intro ext) (metis map_of_SomeD map_of_is_SomeI not_None_eq set_sort)
qed

lemma sorted_json_ok [simp]: "json_ok (sorted_json j) = json_ok j"
  by (induction j rule: sorted_json.induct) (auto simp add: list_all_iff split: prod.splits)

lemma canonical_json_inj:
  assumes "canonical_json i = canonical_json j" and "json_ok i" and "json_ok j"
  shows "sorted_json i = sorted_json j"
  using assms unfolding canonical_json_def by (intro dumps_inj) simp_all

lemma sorted_object_lookup:
  assumes "sorted_json (JObj kvs) = sorted_json (JObj ms)" and "distinct (map fst kvs)" and "distinct (map fst ms)"
  shows "map_option sorted_json (map_of kvs k) = map_option sorted_json (map_of ms k)"
proof -
  have d: "distinct (map fst (map (\<lambda>(k, v). (k, f v)) xs)) = distinct (map fst xs)" for f :: "json \<Rightarrow> json" and xs :: "(string \<times> json) list"
    by (simp add: case_prod_beta comp_def)
  have m: "map_of (map (\<lambda>(k, v). (k, f v)) xs) k = map_option f (map_of xs k)" for f :: "json \<Rightarrow> json" and xs :: "(string \<times> json) list"
    by (simp add: map_of_map)
  from assms(1) have "map_of (sort_key fst (map (\<lambda>(k, v). (k, sorted_json v)) kvs)) k
      = map_of (sort_key fst (map (\<lambda>(k, v). (k, sorted_json v)) ms)) k" by simp
  then show ?thesis using assms(2,3) by (simp only: map_of_sort d m)
qed

end
