(* ===== verification/Gateway_Service.thy ===== *)
theory Gateway_Service
  imports Gateway_Repository Json_Canonical
begin

text \<open>
  services/gateway/cadplot\_gateway/service.py: GatewayService over any catalog and operation
  repository. A method takes the clock readings it makes and the uuid it draws as arguments, in
  the order the code makes them. SHA-256 and the length of pydantic's own JSON text are parameters
  of the service record; the canonical JSON that is hashed is computed.
\<close>

section \<open>The service and its clock\<close>

record 's gateway_service =
  sv_catalog :: "'s catalog_repository"
  sv_operations :: "'s operation_repository"
  sv_ttl :: int
  sv_sha256 :: "string \<Rightarrow> nat list"
  sv_request_size :: "string \<Rightarrow> string \<Rightarrow> translation_request \<Rightarrow> int"

text \<open>The constructor's check of operation\_ttl\_seconds.\<close>

definition gateway_service_init ::
  "'s catalog_repository \<Rightarrow> 's operation_repository \<Rightarrow> int \<Rightarrow> (string \<Rightarrow> nat list)
    \<Rightarrow> (string \<Rightarrow> string \<Rightarrow> translation_request \<Rightarrow> int) \<Rightarrow> 's gateway_service res" where
  "gateway_service_init catalog operations ttl sha req_size =
     (if 30 \<le> ttl \<and> ttl \<le> 24 * 60 * 60
      then Inr \<lparr>sv_catalog = catalog, sv_operations = operations, sv_ttl = ttl, sv_sha256 = sha,
                 sv_request_size = req_size\<rparr>
      else Inl (GatewayError ''invalid_operation_ttl''))"

definition utc_now :: "py_datetime \<Rightarrow> instant res" where
  "utc_now clk = (case clk of Naive _ \<Rightarrow> Inl (GatewayError ''clock_invalid'') | Aware t \<Rightarrow> Inr t)"

definition require_scope :: "principal_context \<Rightarrow> scope \<Rightarrow> unit res" where
  "require_scope p sc = ensure (List.member (p_scopes p) sc) (GatewayError ''forbidden'')"

definition safe_worker_error_codes :: "string list" where
  "safe_worker_error_codes = [''autocad_unavailable'', ''drawing_changed'', ''drawing_not_found'',
     ''inspection_failed'', ''operation_timeout'', ''plan_blocked'', ''unsupported_runtime'',
     ''worker_disconnected'', ''worker_failure'', ''translation_disabled'',
     ''translation_attention_required'']"

definition sanitize_worker_error :: "string \<Rightarrow> string" where
  "sanitize_worker_error c =
     (if List.member safe_worker_error_codes c then c else ''worker_failure'')"

section \<open>Authorisation\<close>

definition require_workstation ::
  "'s gateway_service \<Rightarrow> principal_context \<Rightarrow> string \<Rightarrow> bool \<Rightarrow> ('s, workstation_record) py" where
  "require_workstation sv p k online_required =
     bindS (c_get_workstation (sv_catalog sv) k)
       (\<lambda>record. case record of
          None \<Rightarrow> raise (GatewayError ''not_found'')
        | Some w \<Rightarrow>
            if \<not> ws_enabled w \<or> ws_tenant w \<noteq> p_tenant p \<or> ws_owner w \<noteq> p_subject p
            then raise (GatewayError ''not_found'')
            else if online_required \<and> \<not> ws_online w then raise (GatewayError ''workstation_offline'')
            else ret w)"

definition require_project ::
  "'s gateway_service \<Rightarrow> principal_context \<Rightarrow> string \<Rightarrow> bool
    \<Rightarrow> ('s, project_record \<times> workstation_record) py" where
  "require_project sv p k online_required =
     bindS (c_get_project (sv_catalog sv) k)
       (\<lambda>record. case record of
          None \<Rightarrow> raise (GatewayError ''not_found'')
        | Some pr \<Rightarrow>
            if \<not> prj_enabled pr \<or> prj_tenant pr \<noteq> p_tenant p \<or> prj_owner pr \<noteq> p_subject p
            then raise (GatewayError ''not_found'')
            else bindS (require_workstation sv p (prj_ws pr) online_required) (\<lambda>w. ret (pr, w)))"

definition require_drawing ::
  "'s gateway_service \<Rightarrow> principal_context \<Rightarrow> string \<Rightarrow> bool
    \<Rightarrow> ('s, drawing_record \<times> workstation_record) py" where
  "require_drawing sv p k online_required =
     bindS (c_get_drawing (sv_catalog sv) k)
       (\<lambda>record. case record of
          None \<Rightarrow> raise (GatewayError ''not_found'')
        | Some d \<Rightarrow>
            if \<not> drw_enabled d \<or> drw_tenant d \<noteq> p_tenant p \<or> drw_owner d \<noteq> p_subject p
            then raise (GatewayError ''not_found'')
            else bindS (require_project sv p (drw_prj d) online_required)
              (\<lambda>(pr, w). if drw_ws d \<noteq> prj_ws pr then raise (GatewayError ''not_found'')
                         else ret (d, w)))"

definition require_worker_workstation ::
  "'s gateway_service \<Rightarrow> worker_context \<Rightarrow> bool \<Rightarrow> ('s, workstation_record) py" where
  "require_worker_workstation sv worker online_required =
     bindS (c_get_workstation (sv_catalog sv) (w_ws worker))
       (\<lambda>record. case record of
          None \<Rightarrow> raise (GatewayError ''not_found'')
        | Some w \<Rightarrow>
            if \<not> ws_enabled w \<or> ws_tenant w \<noteq> w_tenant worker then raise (GatewayError ''not_found'')
            else if online_required \<and> \<not> ws_online w then raise (GatewayError ''workstation_offline'')
            else ret w)"

definition require_worker_operation ::
  "'s gateway_service \<Rightarrow> worker_context \<Rightarrow> string \<Rightarrow> ('s, operation_record) py" where
  "require_worker_operation sv worker k =
     bindS (r_get (sv_operations sv) k)
       (\<lambda>record. case record of
          None \<Rightarrow> raise (GatewayError ''not_found'')
        | Some r \<Rightarrow>
            if o_tenant r \<noteq> w_tenant worker \<or> o_ws r \<noteq> w_ws worker
            then raise (GatewayError ''not_found'') else ret r)"

definition require_operation_owner ::
  "principal_context \<Rightarrow> operation_record option \<Rightarrow> operation_record res" where
  "require_operation_owner p record = (case record of
     None \<Rightarrow> Inl (GatewayError ''not_found'')
   | Some r \<Rightarrow>
       if o_tenant r \<noteq> p_tenant p \<or> o_owner r \<noteq> p_subject p \<or> o_client r \<noteq> p_client p
       then Inl (GatewayError ''not_found'') else Inr r)"

section \<open>Listing\<close>

definition gw_list_workstations ::
  "'s gateway_service \<Rightarrow> principal_context \<Rightarrow> ('s, (string \<times> pytext \<times> bool) list) py" where
  "gw_list_workstations sv p =
     bindS (liftR (require_scope p READ)) (\<lambda>_.
     bindS (c_list_workstations (sv_catalog sv) (p_tenant p) (p_subject p)) (\<lambda>records.
     ret (map (\<lambda>w. (ws_id w, ws_name w, ws_online w)) records)))"

definition gw_list_projects ::
  "'s gateway_service \<Rightarrow> principal_context \<Rightarrow> string option
    \<Rightarrow> ('s, (string \<times> string \<times> pytext) list) py" where
  "gw_list_projects sv p ws =
     bindS (liftR (require_scope p READ)) (\<lambda>_.
     bindS (case ws of
              None \<Rightarrow> ret None
            | Some k \<Rightarrow> bindS (require_workstation sv p k False) (\<lambda>w. ret (Some (ws_id w)))) (\<lambda>selected.
     bindS (c_list_projects (sv_catalog sv) (p_tenant p) (p_subject p) selected) (\<lambda>records.
     ret (map (\<lambda>q. (prj_id q, prj_ws q, prj_name q)) records))))"

section \<open>Fingerprints and approval keys\<close>

definition source_language_code :: "source_language \<Rightarrow> string" where
  "source_language_code l = (case l of LangTr \<Rightarrow> ''tr'' | LangEn \<Rightarrow> ''en'' | LangOther \<Rightarrow> ''other''
     | LangUncertain \<Rightarrow> ''uncertain'')"

definition json_option :: "('a \<Rightarrow> json) \<Rightarrow> 'a option \<Rightarrow> json" where
  "json_option f v = (case v of None \<Rightarrow> JNull | Some x \<Rightarrow> f x)"

definition decision_json :: "remote_decision \<Rightarrow> json" where
  "decision_json d = JObj [(''span_id'', jstr (dec_span_id d)), (''source'', JStr (dec_source d)),
     (''source_language'', jstr (source_language_code (dec_source_language d))),
     (''target'', JStr (dec_target d))]"

fun request_json :: "translation_request \<Rightarrow> json" where
  "request_json (ScanTexts ivt off lim) = JObj [(''operation'', jstr ''scan''),
     (''inventory_id'', json_option jstr ivt), (''offset'', JInt off), (''limit'', JInt lim)]"
| "request_json (SubmitReview ivt ex ds) = JObj [(''operation'', jstr ''review''),
     (''inventory_id'', jstr ivt), (''expected_review_id'', json_option jstr ex),
     (''decisions'', JArr (map decision_json ds))]"
| "request_json (PlanTranslation ivt rvw off lim) = JObj [(''operation'', jstr ''plan''),
     (''inventory_id'', jstr ivt), (''review_id'', jstr rvw), (''offset'', JInt off), (''limit'', JInt lim)]"
| "request_json (ApplyTranslation ivt rvw plan oper) = JObj [(''operation'', jstr ''apply''),
     (''inventory_id'', jstr ivt), (''review_id'', jstr rvw), (''approved_plan_id'', jstr plan),
     (''plan_operation_id'', jstr oper)]"

fun task_json :: "read_task \<Rightarrow> json" where
  "task_json (ValidateEnvironmentTask w) =
     JObj [(''command'', jstr ''validate_environment''), (''workstation_id'', jstr w)]"
| "task_json (ListProjectsTask w) =
     JObj [(''command'', jstr ''list_projects''), (''workstation_id'', jstr w)]"
| "task_json (ScanDrawingsTask p r l) =
     JObj [(''command'', jstr ''scan_drawings''), (''project_id'', jstr p), (''recursive'', JBool r),
       (''limit'', JInt l)]"
| "task_json (InspectDrawingTask d) =
     JObj [(''command'', jstr ''inspect_drawing''), (''drawing_id'', jstr d)]"
| "task_json (CreatePublishPlanTask d) =
     JObj [(''command'', jstr ''create_publish_plan''), (''drawing_id'', jstr d)]"
| "task_json (TranslationTask d r) =
     JObj [(''command'', jstr ''translation''), (''drawing_id'', jstr d), (''request'', request_json r)]"

definition fingerprint_text :: "string \<Rightarrow> read_task \<Rightarrow> string" where
  "fingerprint_text ws task =
     canonical_json (JObj [(''workstation_id'', jstr ws), (''task'', task_json task)])"

definition hex2 :: "nat \<Rightarrow> string" where
  "hex2 b = [digit_char (b div 16), digit_char b]"

definition hexdigest :: "nat list \<Rightarrow> string" where
  "hexdigest bs = concat (map hex2 bs)"

text \<open>
  uuid.UUID(bytes=..., version=4): the version nibble of byte 6 and the two variant bits of byte 8
  are overwritten, then the 16 bytes are written as 8-4-4-4-12 hex digits.
\<close>

definition uuid4_bytes :: "nat list \<Rightarrow> nat list" where
  "uuid4_bytes bs = bs[6 := bs ! 6 mod 16 + 64, 8 := bs ! 8 mod 64 + 128]"

definition uuid_text :: "nat list \<Rightarrow> string" where
  "uuid_text bs = hexdigest (take 4 bs) @ ''-'' @ hexdigest (take 2 (drop 4 bs)) @ ''-''
     @ hexdigest (take 2 (drop 6 bs)) @ ''-'' @ hexdigest (take 2 (drop 8 bs)) @ ''-''
     @ hexdigest (take 6 (drop 10 bs))"

definition approval_key :: "'s gateway_service \<Rightarrow> string \<Rightarrow> string \<Rightarrow> string" where
  "approval_key sv drawing plan =
     ''idem_'' @ uuid_text (uuid4_bytes (take 16 (sv_sha256 sv (drawing @ '':'' @ plan))))"

section \<open>Enqueueing\<close>

definition enqueue_error :: "exn \<Rightarrow> exn" where
  "enqueue_error e = (case e of
     RepositoryError c \<Rightarrow> GatewayError (if c = ''active_operation_limit'' then c else ''repository_unavailable'')
   | _ \<Rightarrow> e)"

definition new_operation ::
  "'s gateway_service \<Rightarrow> principal_context \<Rightarrow> workstation_record \<Rightarrow> string \<Rightarrow> read_task \<Rightarrow> instant
    \<Rightarrow> string \<Rightarrow> operation_record" where
  "new_operation sv p w key task now op_id =
     \<lparr>o_id = op_id, o_tenant = p_tenant p, o_owner = p_subject p, o_client = p_client p,
      o_ws = ws_id w, o_idem = key,
      o_fingerprint = hexdigest (sv_sha256 sv (fingerprint_text (ws_id w) task)), o_task = task,
      o_state = CREATED, o_created = now, o_expires = now + seconds (sv_ttl sv), o_lease = None,
      o_started = None, o_completed = None, o_result = None, o_error = None\<rparr>"

definition gw_enqueue ::
  "'s gateway_service \<Rightarrow> principal_context \<Rightarrow> workstation_record \<Rightarrow> string \<Rightarrow> read_task
    \<Rightarrow> py_datetime \<Rightarrow> string \<Rightarrow> ('s, operation_view) py" where
  "gw_enqueue sv p w key task clk op_id =
     bindS (liftR (utc_now clk)) (\<lambda>now.
     bindS (liftR (model_validate (new_operation sv p w key task now op_id))) (\<lambda>oper.
     bindS (catchS (r_create_or_get (sv_operations sv) oper) (\<lambda>e. raise (enqueue_error e))) (\<lambda>outcome.
     if co_status outcome = CreateConflict then raise (GatewayError ''idempotency_conflict'')
     else ret (view_of (co_operation outcome)))))"

definition enqueue_validate_environment ::
  "'s gateway_service \<Rightarrow> principal_context \<Rightarrow> string \<Rightarrow> string \<Rightarrow> py_datetime \<Rightarrow> string
    \<Rightarrow> ('s, operation_view) py" where
  "enqueue_validate_environment sv p key ws clk op_id =
     bindS (liftR (require_scope p READ)) (\<lambda>_.
     bindS (require_workstation sv p ws True) (\<lambda>w.
     gw_enqueue sv p w key (ValidateEnvironmentTask (ws_id w)) clk op_id))"

definition enqueue_list_projects ::
  "'s gateway_service \<Rightarrow> principal_context \<Rightarrow> string \<Rightarrow> string \<Rightarrow> py_datetime \<Rightarrow> string
    \<Rightarrow> ('s, operation_view) py" where
  "enqueue_list_projects sv p key ws clk op_id =
     bindS (liftR (require_scope p READ)) (\<lambda>_.
     bindS (require_workstation sv p ws True) (\<lambda>w.
     gw_enqueue sv p w key (ListProjectsTask (ws_id w)) clk op_id))"

definition enqueue_scan_drawings ::
  "'s gateway_service \<Rightarrow> principal_context \<Rightarrow> string \<Rightarrow> string \<Rightarrow> bool \<Rightarrow> int \<Rightarrow> py_datetime \<Rightarrow> string
    \<Rightarrow> ('s, operation_view) py" where
  "enqueue_scan_drawings sv p key prj recursive limit clk op_id =
     bindS (liftR (require_scope p READ)) (\<lambda>_.
     bindS (require_project sv p prj True) (\<lambda>(pr, w).
     gw_enqueue sv p w key (ScanDrawingsTask (prj_id pr) recursive limit) clk op_id))"

definition enqueue_inspect_drawing ::
  "'s gateway_service \<Rightarrow> principal_context \<Rightarrow> string \<Rightarrow> string \<Rightarrow> py_datetime \<Rightarrow> string
    \<Rightarrow> ('s, operation_view) py" where
  "enqueue_inspect_drawing sv p key drw clk op_id =
     bindS (liftR (require_scope p READ)) (\<lambda>_.
     bindS (require_drawing sv p drw True) (\<lambda>(d, w).
     gw_enqueue sv p w key (InspectDrawingTask (drw_id d)) clk op_id))"

definition enqueue_create_publish_plan ::
  "'s gateway_service \<Rightarrow> principal_context \<Rightarrow> string \<Rightarrow> string \<Rightarrow> py_datetime \<Rightarrow> string
    \<Rightarrow> ('s, operation_view) py" where
  "enqueue_create_publish_plan sv p key drw clk op_id =
     bindS (liftR (require_scope p READ)) (\<lambda>_.
     bindS (require_drawing sv p drw True) (\<lambda>(d, w).
     gw_enqueue sv p w key (CreatePublishPlanTask (drw_id d)) clk op_id))"

text \<open>
  The or-chain of the approval check, left to right: the clock is read only when the plan
  operation exists and has succeeded.
\<close>

definition approved_plan ::
  "operation_record \<Rightarrow> drawing_record \<Rightarrow> workstation_record \<Rightarrow> py_datetime \<Rightarrow> plan_result res" where
  "approved_plan record d w clk =
     (let refused = Inl (GatewayError ''translation_approval_invalid'') in
      if o_state record \<noteq> SUCCEEDED then refused
      else bindR (utc_now clk) (\<lambda>now.
        if o_expires record \<le> now \<or> o_ws record \<noteq> ws_id w then refused
        else (case o_result record of
           Some (TranslationTaskResult drw (PlanResponse plan)) \<Rightarrow>
             if drw \<noteq> drw_id d then refused else Inr plan
         | _ \<Rightarrow> refused)))"

definition approval_matches :: "plan_result \<Rightarrow> translation_request \<Rightarrow> bool" where
  "approval_matches plan req = (case req of
     ApplyTranslation ivt rvw approved oper \<Rightarrow>
       pr_ready plan \<and> pr_changed_records plan \<noteq> 0 \<and> pr_plan plan = approved
       \<and> pr_inventory plan = ivt \<and> pr_review plan = rvw
   | _ \<Rightarrow> False)"

definition enqueue_translation ::
  "'s gateway_service \<Rightarrow> principal_context \<Rightarrow> string \<Rightarrow> string \<Rightarrow> translation_request
    \<Rightarrow> py_datetime \<Rightarrow> py_datetime \<Rightarrow> string \<Rightarrow> ('s, operation_view) py" where
  "enqueue_translation sv p key drw req clk1 clk2 op_id =
     bindS (liftR (require_scope p TRANSLATE)) (\<lambda>_.
     bindS (liftR (require_scope p READ)) (\<lambda>_.
     bindS (guardS (sv_request_size sv key drw req \<le> 200 * 1024)
              (GatewayError ''translation_batch_too_large'')) (\<lambda>_.
     bindS (require_drawing sv p drw True) (\<lambda>(d, w).
     case req of
       ApplyTranslation ivt rvw approved oper \<Rightarrow>
         bindS (r_get (sv_operations sv) oper) (\<lambda>found.
         bindS (liftR (require_operation_owner p found)) (\<lambda>record.
         bindS (liftR (approved_plan record d w clk1)) (\<lambda>plan.
         bindS (guardS (approval_matches plan req) (GatewayError ''translation_approval_invalid'')) (\<lambda>_.
         gw_enqueue sv p w (approval_key sv (drw_id d) approved)
           (TranslationTask (drw_id d) req) clk2 op_id))))
     | _ \<Rightarrow> gw_enqueue sv p w key (TranslationTask (drw_id d) req) clk2 op_id))))"


definition gw_get_operation ::
  "'s gateway_service \<Rightarrow> principal_context \<Rightarrow> string \<Rightarrow> py_datetime \<Rightarrow> ('s, operation_view) py" where
  "gw_get_operation sv p k clk =
     bindS (liftR (require_scope p READ)) (\<lambda>_.
     bindS (r_get (sv_operations sv) k) (\<lambda>found.
     bindS (liftR (require_operation_owner p found)) (\<lambda>record.
     bindS (liftR (if command_of (o_task record) = CmdTranslation then require_scope p TRANSLATE else Inr ())) (\<lambda>_.
     bindS (liftR (utc_now clk)) (\<lambda>now.
     bindS (r_refresh (sv_operations sv) k now) (\<lambda>refreshed.
     bindS (liftR (require_operation_owner p refreshed)) (\<lambda>r.
     ret (view_of r))))))))"

section \<open>Worker transitions\<close>

definition transition_view :: "transition_outcome \<Rightarrow> operation_view res" where
  "transition_view outcome =
     (if to_status outcome = TransNotFound then Inl (GatewayError ''not_found'')
      else if to_status outcome = TransLeaseExpired then Inl (GatewayError ''lease_expired'')
      else if to_status outcome = TransOperationExpired then Inl (GatewayError ''operation_expired'')
      else if to_status outcome \<noteq> TransUpdated then Inl (GatewayError ''invalid_state'')
      else (case to_operation outcome of
              None \<Rightarrow> Inl (GatewayError ''invalid_state'')
            | Some r \<Rightarrow> Inr (view_of r)))"

definition gw_worker_lease ::
  "'s gateway_service \<Rightarrow> worker_context \<Rightarrow> string \<Rightarrow> int \<Rightarrow> py_datetime \<Rightarrow> ('s, worker_lease option) py" where
  "gw_worker_lease sv worker owner lease_seconds clk =
     bindS (guardS (5 \<le> lease_seconds \<and> lease_seconds \<le> 5 * 60) (GatewayError ''invalid_lease'')) (\<lambda>_.
     bindS (require_worker_workstation sv worker True) (\<lambda>w.
     bindS (guardS (ws_owner w = owner) (GatewayError ''not_found'')) (\<lambda>_.
     bindS (liftR (utc_now clk)) (\<lambda>now.
     bindS (r_lease_next (sv_operations sv) (w_tenant worker) (w_ws worker) owner now
              (now + seconds lease_seconds)) (\<lambda>record.
     case record of None \<Rightarrow> ret None
       | Some r \<Rightarrow> bindS (liftR (lease_of r)) (\<lambda>l. ret (Some l)))))))"

definition gw_worker_start ::
  "'s gateway_service \<Rightarrow> worker_context \<Rightarrow> string \<Rightarrow> py_datetime \<Rightarrow> ('s, operation_view) py" where
  "gw_worker_start sv worker k clk =
     bindS (require_worker_workstation sv worker False) (\<lambda>_.
     bindS (liftR (utc_now clk)) (\<lambda>now.
     bindS (r_start (sv_operations sv) k (w_tenant worker) (w_ws worker) now) (\<lambda>outcome.
     liftR (transition_view outcome))))"

text \<open>RESULT\_ADAPTER.validate\_python re-validates the instance; both its errors become invalid\_result.\<close>

definition validate_result :: "task_result \<Rightarrow> task_result res" where
  "validate_result v = (if valid_result v then Inr v else Inl (GatewayError ''invalid_result''))"

fun bind_each :: "('a \<Rightarrow> ('s, unit) py) \<Rightarrow> 'a list \<Rightarrow> ('s, unit) py" where
  "bind_each f [] = ret ()"
| "bind_each f (x # xs) = bindS (f x) (\<lambda>_. bind_each f xs)"

definition check_result_project :: "'s gateway_service \<Rightarrow> operation_record \<Rightarrow> string \<Rightarrow> ('s, unit) py" where
  "check_result_project sv oper k =
     bindS (c_get_project (sv_catalog sv) k) (\<lambda>found.
     guardS (case found of None \<Rightarrow> False
        | Some q \<Rightarrow> prj_enabled q \<and> prj_tenant q = o_tenant oper \<and> prj_owner q = o_owner oper
            \<and> prj_ws q = o_ws oper) (GatewayError ''invalid_result''))"

definition check_result_drawing ::
  "'s gateway_service \<Rightarrow> operation_record \<Rightarrow> string \<Rightarrow> string \<Rightarrow> ('s, unit) py" where
  "check_result_drawing sv oper project k =
     bindS (c_get_drawing (sv_catalog sv) k) (\<lambda>found.
     guardS (case found of None \<Rightarrow> False
        | Some d \<Rightarrow> drw_enabled d \<and> drw_tenant d = o_tenant oper \<and> drw_owner d = o_owner oper
            \<and> drw_ws d = o_ws oper \<and> drw_prj d = project) (GatewayError ''invalid_result''))"

definition validate_result_binding ::
  "'s gateway_service \<Rightarrow> operation_record \<Rightarrow> task_result \<Rightarrow> ('s, unit) py" where
  "validate_result_binding sv oper result =
     (let refuse = raise (GatewayError ''invalid_result'') in
      if result_command result \<noteq> command_of (o_task oper) then refuse
      else (case result of
         ListProjectsResult ids \<Rightarrow> bind_each (check_result_project sv oper) ids
       | ScanDrawingsResult prj ids truncated \<Rightarrow>
           (case o_task oper of
              ScanDrawingsTask task_prj rc lim \<Rightarrow>
                (if prj \<noteq> task_prj then refuse else bind_each (check_result_drawing sv oper task_prj) ids)
            | _ \<Rightarrow> refuse)
       | InspectDrawingResult d l n ws \<Rightarrow>
           (case o_task oper of InspectDrawingTask td \<Rightarrow> (if d \<noteq> td then refuse else ret ()) | _ \<Rightarrow> refuse)
       | CreatePublishPlanResult d pl rd n ws \<Rightarrow>
           (case o_task oper of CreatePublishPlanTask td \<Rightarrow> (if d \<noteq> td then refuse else ret ()) | _ \<Rightarrow> refuse)
       | TranslationTaskResult d resp \<Rightarrow>
           (case o_task oper of
              TranslationTask td req \<Rightarrow>
                (if d \<noteq> td then refuse
                 else (case require_matching_result req resp of
                         Inl e \<Rightarrow> (if is_value_or_type_error e then refuse else raise e)
                       | Inr _ \<Rightarrow> ret ()))
            | _ \<Rightarrow> refuse)
       | ValidateEnvironmentResult rd ws \<Rightarrow> ret ()))"

definition validate_preapplication_result_binding ::
  "'s gateway_service \<Rightarrow> operation_record \<Rightarrow> task_result \<Rightarrow> ('s, unit) py" where
  "validate_preapplication_result_binding sv oper result =
     (let refuse = raise (GatewayError ''invalid_result'') in
      if result_command result \<noteq> command_of (o_task oper) then refuse
      else (case result of
         ListProjectsResult ids \<Rightarrow>
           (case o_task oper of ListProjectsTask w \<Rightarrow> (if w \<noteq> o_ws oper then refuse else ret ()) | _ \<Rightarrow> refuse)
       | ScanDrawingsResult prj ids truncated \<Rightarrow>
           (case o_task oper of
              ScanDrawingsTask tp rc lim \<Rightarrow> (if prj \<noteq> tp then refuse else ret ()) | _ \<Rightarrow> refuse)
       | _ \<Rightarrow> validate_result_binding sv oper result))"

definition row_owner_ok :: "operation_record \<Rightarrow> string \<times> string \<times> string \<Rightarrow> bool" where
  "row_owner_ok oper row \<longleftrightarrow> row = (o_tenant oper, o_owner oper, o_ws oper)"

definition validate_worker_application ::
  "'s gateway_service \<Rightarrow> operation_record \<Rightarrow> task_result \<Rightarrow> project_record list \<Rightarrow> drawing_record list
    \<Rightarrow> ('s, unit) py" where
  "validate_worker_application sv oper result projects drawings =
     (let refuse = raise (GatewayError ''invalid_result'') in
      if \<not> list_all (row_owner_ok oper) (map (\<lambda>p. (prj_tenant p, prj_owner p, prj_ws p)) projects
             @ map (\<lambda>d. (drw_tenant d, drw_owner d, drw_ws d)) drawings) then refuse
      else (case result of
         ListProjectsResult ids \<Rightarrow>
           (case o_task oper of
              ListProjectsTask w \<Rightarrow>
                (if w \<noteq> o_ws oper \<or> drawings \<noteq> [] \<or> \<not> no_duplicates (map prj_id projects)
                   \<or> map prj_id (filter prj_enabled projects) \<noteq> ids then refuse else ret ())
            | _ \<Rightarrow> refuse)
       | ScanDrawingsResult prj ids truncated \<Rightarrow>
           (case o_task oper of
              ScanDrawingsTask tp rc lim \<Rightarrow>
                (if prj \<noteq> tp \<or> projects \<noteq> [] \<or> \<not> no_duplicates (map drw_id drawings)
                   \<or> map drw_id drawings \<noteq> ids \<or> \<not> list_all (\<lambda>d. drw_prj d = prj) drawings
                 then refuse else ret ())
            | _ \<Rightarrow> refuse)
       | _ \<Rightarrow> (if projects \<noteq> [] \<or> drawings \<noteq> [] then refuse else validate_result_binding sv oper result)))"

text \<open>
  The two needs\_application queries tell running work from the exact retry of a finished
  operation; complete, apply and fail change the store.
\<close>

definition worker_result_needs_application ::
  "'s gateway_service \<Rightarrow> worker_context \<Rightarrow> string \<Rightarrow> task_result \<Rightarrow> ('s, bool) py" where
  "worker_result_needs_application sv worker k result =
     bindS (require_worker_workstation sv worker False) (\<lambda>_.
     bindS (require_worker_operation sv worker k) (\<lambda>oper.
     bindS (liftR (validate_result result)) (\<lambda>v.
     if o_state oper = SUCCEEDED
     then (if o_result oper = Some v then ret False else raise (GatewayError ''invalid_state''))
     else if o_state oper \<noteq> RUNNING then raise (GatewayError ''invalid_state'')
     else bindS (validate_preapplication_result_binding sv oper v) (\<lambda>_. ret True))))"

definition failure_code :: "operation_record \<Rightarrow> string \<Rightarrow> bool \<Rightarrow> string" where
  "failure_code oper error_code attention =
     (if attention
      then (if command_of (o_task oper) = CmdTranslation then ''translation_attention_required'' else ''worker_failure'')
      else sanitize_worker_error error_code)"

definition failure_target :: "bool \<Rightarrow> operation_state" where
  "failure_target attention = (if attention then ATTENTION_REQUIRED else FAILED)"

definition worker_failure_needs_application ::
  "'s gateway_service \<Rightarrow> worker_context \<Rightarrow> string \<Rightarrow> string \<Rightarrow> bool \<Rightarrow> ('s, bool) py" where
  "worker_failure_needs_application sv worker k error_code attention =
     bindS (require_worker_workstation sv worker False) (\<lambda>_.
     bindS (require_worker_operation sv worker k) (\<lambda>oper.
     if o_state oper = failure_target attention
     then (if o_error oper = Some (failure_code oper error_code attention) then ret False
           else raise (GatewayError ''invalid_state''))
     else if o_state oper \<noteq> RUNNING then raise (GatewayError ''invalid_state'')
     else ret True))"

definition is_catalog_result :: "task_result \<Rightarrow> bool" where
  "is_catalog_result v \<longleftrightarrow> result_command v = CmdListProjects \<or> result_command v = CmdScanDrawings"

definition gw_worker_complete ::
  "'s gateway_service \<Rightarrow> worker_context \<Rightarrow> string \<Rightarrow> task_result \<Rightarrow> py_datetime \<Rightarrow> ('s, operation_view) py" where
  "gw_worker_complete sv worker k result clk =
     bindS (require_worker_workstation sv worker False) (\<lambda>_.
     bindS (require_worker_operation sv worker k) (\<lambda>oper.
     bindS (liftR (validate_result result)) (\<lambda>v.
     bindS (guardS (\<not> is_catalog_result v) (GatewayError ''invalid_result'')) (\<lambda>_.
     bindS (validate_result_binding sv oper v) (\<lambda>_.
     if o_state oper = SUCCEEDED
     then (if o_result oper = Some v then ret (view_of oper) else raise (GatewayError ''invalid_state''))
     else bindS (liftR (utc_now clk)) (\<lambda>now.
          bindS (r_finish (sv_operations sv) k (w_tenant worker) (w_ws worker) now SUCCEEDED (Some v) None)
            (\<lambda>outcome. liftR (transition_view outcome))))))))"

definition apply_error :: "exn \<Rightarrow> exn" where
  "apply_error e = (case e of
     RepositoryError c \<Rightarrow>
       GatewayError (if List.member [''catalog_conflict'', ''invalid_record'', ''invalid_terminal_payload''] c
         then ''invalid_result'' else if c = ''invalid_terminal_state'' then ''invalid_state''
         else ''catalog_sync_failed'')
   | _ \<Rightarrow> if is_value_or_type_error e then GatewayError ''invalid_result'' else e)"

definition gw_worker_apply_success ::
  "'s gateway_service \<Rightarrow> worker_context \<Rightarrow> string \<Rightarrow> task_result \<Rightarrow> project_record list \<Rightarrow> drawing_record list
    \<Rightarrow> py_datetime \<Rightarrow> ('s, operation_view) py" where
  "gw_worker_apply_success sv worker k result projects drawings clk =
     bindS (require_worker_workstation sv worker False) (\<lambda>w.
     bindS (require_worker_operation sv worker k) (\<lambda>oper.
     bindS (guardS (ws_owner w = o_owner oper) (GatewayError ''not_found'')) (\<lambda>_.
     bindS (liftR (validate_result result)) (\<lambda>v.
     bindS (validate_worker_application sv oper v projects drawings) (\<lambda>_.
     bindS (catchS (bindS (liftR (utc_now clk)) (\<lambda>now.
              r_apply_success (sv_operations sv) k (w_tenant worker) (w_ws worker) now v projects drawings))
             (\<lambda>e. raise (apply_error e))) (\<lambda>outcome.
     liftR (transition_view outcome)))))))"

definition gw_worker_fail ::
  "'s gateway_service \<Rightarrow> worker_context \<Rightarrow> string \<Rightarrow> string \<Rightarrow> bool \<Rightarrow> py_datetime \<Rightarrow> ('s, operation_view) py" where
  "gw_worker_fail sv worker k error_code attention clk =
     bindS (require_worker_workstation sv worker False) (\<lambda>_.
     bindS (require_worker_operation sv worker k) (\<lambda>oper.
     if o_state oper = failure_target attention
     then (if o_error oper = Some (failure_code oper error_code attention) then ret (view_of oper)
           else raise (GatewayError ''invalid_state''))
     else bindS (liftR (utc_now clk)) (\<lambda>now.
          bindS (r_finish (sv_operations sv) k (w_tenant worker) (w_ws worker) now (failure_target attention)
                   None (Some (failure_code oper error_code attention)))
            (\<lambda>outcome. liftR (transition_view outcome)))))"

end
