(* ===== verification/Repository_Invariant.thy ===== *)
theory Repository_Invariant
  imports Gateway_Repository
begin

text \<open>
  The invariant of the in-memory store and its preservation by every method: each stored
  operation is well-formed and filed under its own id, the idempotency index and the operations
  determine each other, a workstation has at most one active operation, and the catalog rows
  agree with their parents on tenant, owner and workstation.
\<close>

section \<open>Refreshing a well-formed record never fails\<close>

definition expired_record :: "operation_record \<Rightarrow> instant \<Rightarrow> operation_record" where
  "expired_record r now = r\<lparr>o_state := EXPIRED, o_lease := None, o_completed := Some now,
     o_error := Some ''operation_expired''\<rparr>"

definition lost_record :: "operation_record \<Rightarrow> instant \<Rightarrow> operation_record" where
  "lost_record r now = r\<lparr>o_state := ATTENTION_REQUIRED, o_lease := None,
     o_completed := Some now, o_error := Some ''lease_expired''\<rparr>"

definition uncertain_record :: "operation_record \<Rightarrow> instant \<Rightarrow> operation_record" where
  "uncertain_record r now = r\<lparr>o_state := ATTENTION_REQUIRED, o_completed := Some now,
     o_error := Some ''translation_attention_required''\<rparr>"

definition refreshed :: "operation_record \<Rightarrow> instant \<Rightarrow> operation_record" where
  "refreshed r now =
     (if o_state r = CREATED \<and> o_expires r \<le> now then expired_record r now
      else if o_state r = LEASED \<and> (\<exists>l. o_lease r = Some l \<and> l \<le> now) then lost_record r now
      else if o_state r = RUNNING \<and> o_expires r \<le> now
      then (if is_translation_apply (o_task r) then uncertain_record r now else expired_record r now)
      else r)"

lemma closed_states [simp]:
  "o_state (expired_record r now) = EXPIRED" "o_state (lost_record r now) = ATTENTION_REQUIRED"
  "o_state (uncertain_record r now) = ATTENTION_REQUIRED"
  by (simp_all add: expired_record_def lost_record_def uncertain_record_def)

lemma closed_identity [simp]:
  "same_identity r (expired_record r now)" "same_identity r (lost_record r now)"
  "same_identity r (uncertain_record r now)"
  by (simp_all add: expired_record_def lost_record_def uncertain_record_def same_identity_def)

lemma codes_are_safe [simp]:
  "safe_code ''operation_expired''" "safe_code ''lease_expired''"
  "safe_code ''translation_attention_required''"
  by (simp_all add: safe_code_def is_lower_def is_digit_def)

lemma op_wfD:
  assumes "op_wf r"
  shows "operation_fields_ok r" "deadlines_hold r" "state_data_holds r" "o_created r < o_expires r"
  using assms by (auto simp add: op_wf_def deadlines_hold_def)

lemma expired_record_wf:
  assumes "op_wf r" and "o_state r = CREATED \<or> o_state r = RUNNING" and "o_expires r \<le> now"
  shows "op_wf (expired_record r now)"
  using assms
  by (auto simp add: op_wf_def expired_record_def operation_fields_ok_def deadlines_hold_def
      state_data_holds_def)

lemma lost_record_wf:
  assumes "op_wf r" and "o_state r = LEASED" and "o_lease r = Some l" and "l \<le> now"
  shows "op_wf (lost_record r now)"
  using assms
  by (auto simp add: op_wf_def lost_record_def operation_fields_ok_def deadlines_hold_def
      state_data_holds_def)

lemma uncertain_record_wf:
  assumes "op_wf r" and "o_state r = RUNNING" and "o_expires r \<le> now"
  shows "op_wf (uncertain_record r now)"
  using assms
  by (auto simp add: op_wf_def uncertain_record_def operation_fields_ok_def deadlines_hold_def
      state_data_holds_def)

lemma refreshed_wf: "op_wf r \<Longrightarrow> op_wf (refreshed r now)"
  by (auto simp add: refreshed_def expired_record_wf lost_record_wf uncertain_record_wf)

lemma expire_eq: "op_wf (expired_record r now) \<Longrightarrow> expire r now = Inr (expired_record r now)"
  by (simp add: expire_def expired_record_def op_wf_model_validate)

lemma attention_required_eq:
  "op_wf (lost_record r now) \<Longrightarrow> attention_required r now = Inr (lost_record r now)"
  by (simp add: attention_required_def lost_record_def op_wf_model_validate)

lemma uncertain_eq:
  "op_wf (uncertain_record r now) \<Longrightarrow>
   model_validate (r\<lparr>o_state := ATTENTION_REQUIRED, o_completed := Some now,
     o_error := Some ''translation_attention_required''\<rparr>) = Inr (uncertain_record r now)"
  by (simp add: uncertain_record_def op_wf_model_validate)

lemma refresh_due_eq:
  assumes "op_wf r"
  shows "refresh_due r now = Inr (refreshed r now)"
proof -
  have "expire r now = Inr (expired_record r now)"
    if "o_state r = CREATED \<or> o_state r = RUNNING" "o_expires r \<le> now"
    using assms that by (intro expire_eq expired_record_wf) auto
  moreover have "attention_required r now = Inr (lost_record r now)"
    if "o_state r = LEASED" "o_lease r = Some l" "l \<le> now" for l
    using assms that by (intro attention_required_eq lost_record_wf) auto
  moreover note uncertain_eq[OF uncertain_record_wf, OF assms]
  ultimately show ?thesis
    unfolding refresh_due_def refreshed_def by (auto split: option.splits)
qed

definition active :: "operation_record \<Rightarrow> bool" where
  "active r \<longleftrightarrow> o_state r = LEASED \<or> o_state r = RUNNING"

lemma refreshed_evolves: "evolves r (refreshed r now)"
  by (simp add: refreshed_def evolves_edge lifecycle_edge.simps)

lemma refreshed_identity [simp]: "same_identity r (refreshed r now)"
  by (simp add: refreshed_def)

lemma refreshed_sel [simp]:
  "o_id (refreshed r now) = o_id r" "o_tenant (refreshed r now) = o_tenant r"
  "o_owner (refreshed r now) = o_owner r" "o_ws (refreshed r now) = o_ws r"
  "o_task (refreshed r now) = o_task r" "o_created (refreshed r now) = o_created r"
  "o_expires (refreshed r now) = o_expires r" "idem_key (refreshed r now) = idem_key r"
  "o_client (refreshed r now) = o_client r" "o_fingerprint (refreshed r now) = o_fingerprint r"
  using refreshed_identity[of r now] by (simp_all add: same_identity_def idem_key_def)

lemma refreshed_active: "active (refreshed r now) \<Longrightarrow> active r"
  by (simp add: refreshed_def active_def split: if_splits)

lemma refreshed_running:
  "o_state (refreshed r now) = RUNNING \<Longrightarrow> refreshed r now = r \<and> o_state r = RUNNING \<and> now < o_expires r"
  unfolding refreshed_def by (simp split: if_splits)

lemma refreshed_created:
  "o_state (refreshed r now) = CREATED \<Longrightarrow> refreshed r now = r \<and> o_state r = CREATED \<and> now < o_expires r"
  unfolding refreshed_def by (simp split: if_splits)

lemma refreshed_leased:
  "o_state (refreshed r now) = LEASED \<Longrightarrow> refreshed r now = r \<and> o_state r = LEASED"
  unfolding refreshed_def by (auto split: if_splits)

lemma refreshed_terminal: "terminal (o_state r) \<Longrightarrow> refreshed r now = r"
  unfolding refreshed_def terminal_def by auto

lemma refreshed_changes_state: "refreshed r now \<noteq> r \<Longrightarrow> o_state (refreshed r now) \<noteq> o_state r"
  unfolding refreshed_def by (simp split: if_splits)

section \<open>The invariant\<close>

definition ops_wf :: "gateway_repo \<Rightarrow> bool" where
  "ops_wf s \<longleftrightarrow> distinct (map fst (g_operations s))
     \<and> (\<forall>(k, r) \<in> set (g_operations s). o_id r = k \<and> op_wf r)"

definition idem_wf :: "gateway_repo \<Rightarrow> bool" where
  "idem_wf s \<longleftrightarrow> distinct (map fst (g_idempotency s))
     \<and> (\<forall>(k, r) \<in> set (g_operations s). map_of (g_idempotency s) (idem_key r) = Some k)
     \<and> (\<forall>(key, k) \<in> set (g_idempotency s).
          (case find_op s k of None \<Rightarrow> False | Some r \<Rightarrow> idem_key r = key))"

definition active_wf :: "gateway_repo \<Rightarrow> bool" where
  "active_wf s \<longleftrightarrow> (\<forall>(k, r) \<in> set (g_operations s). \<forall>(k', r') \<in> set (g_operations s).
     active r \<and> active r' \<and> o_tenant r = o_tenant r' \<and> o_ws r = o_ws r' \<longrightarrow> k = k')"

definition catalog_wf :: "gateway_repo \<Rightarrow> bool" where
  "catalog_wf s \<longleftrightarrow> distinct (map fst (g_workstations s)) \<and> distinct (map fst (g_projects s))
     \<and> distinct (map fst (g_drawings s))
     \<and> (\<forall>(k, w) \<in> set (g_workstations s). ws_id w = k)
     \<and> (\<forall>(k, p) \<in> set (g_projects s). prj_id p = k
          \<and> (case find_ws s (prj_ws p) of None \<Rightarrow> False
             | Some w \<Rightarrow> ws_tenant w = prj_tenant p \<and> ws_owner w = prj_owner p))
     \<and> (\<forall>(k, d) \<in> set (g_drawings s). drw_id d = k
          \<and> (case find_prj s (drw_prj d) of None \<Rightarrow> False
             | Some p \<Rightarrow> prj_tenant p = drw_tenant d \<and> prj_owner p = drw_owner d
                 \<and> prj_ws p = drw_ws d))"

definition repo_wf :: "gateway_repo \<Rightarrow> bool" where
  "repo_wf s \<longleftrightarrow> ops_wf s \<and> idem_wf s \<and> active_wf s \<and> catalog_wf s"

text \<open>With distinct keys, quantifying over the items of a dict is quantifying over its lookups.\<close>

lemma distinct_items:
  assumes "distinct (map fst xs)"
  shows "(\<forall>(k, v) \<in> set xs. P k v) \<longleftrightarrow> (\<forall>k v. map_of xs k = Some v \<longrightarrow> P k v)"
  using assms by (auto simp add: map_of_eq_Some_iff)

lemma ops_wf_iff: "ops_wf s \<longleftrightarrow> distinct (map fst (g_operations s))
     \<and> (\<forall>k r. find_op s k = Some r \<longrightarrow> o_id r = k \<and> op_wf r)"
  by (cases "distinct (map fst (g_operations s))") (simp_all add: ops_wf_def distinct_items)

lemma idem_wf_iff:
  assumes "distinct (map fst (g_operations s))"
  shows "idem_wf s \<longleftrightarrow> distinct (map fst (g_idempotency s))
     \<and> (\<forall>k r. find_op s k = Some r \<longrightarrow> map_of (g_idempotency s) (idem_key r) = Some k)
     \<and> (\<forall>key k. map_of (g_idempotency s) key = Some k \<longrightarrow> (\<exists>r. find_op s k = Some r \<and> idem_key r = key))"
proof (cases "distinct (map fst (g_idempotency s))")
  case True
  with assms show ?thesis by (simp only: idem_wf_def distinct_items case_option_False_iff)
next
  case False
  then show ?thesis by (simp add: idem_wf_def)
qed

lemma active_wf_iff: "distinct (map fst (g_operations s)) \<Longrightarrow>
   active_wf s \<longleftrightarrow> (\<forall>k r k' r'. find_op s k = Some r \<longrightarrow> find_op s k' = Some r' \<longrightarrow>
     active r \<longrightarrow> active r' \<longrightarrow> o_tenant r = o_tenant r' \<longrightarrow> o_ws r = o_ws r' \<longrightarrow> k = k')"
  unfolding active_wf_def by (simp add: distinct_items) blast

definition child_of_ws :: "gateway_repo \<Rightarrow> project_record \<Rightarrow> bool" where
  "child_of_ws s p \<longleftrightarrow> (\<exists>w. find_ws s (prj_ws p) = Some w \<and> ws_tenant w = prj_tenant p
     \<and> ws_owner w = prj_owner p)"

definition child_of_prj :: "gateway_repo \<Rightarrow> drawing_record \<Rightarrow> bool" where
  "child_of_prj s d \<longleftrightarrow> (\<exists>p. find_prj s (drw_prj d) = Some p \<and> prj_tenant p = drw_tenant d
     \<and> prj_owner p = drw_owner d \<and> prj_ws p = drw_ws d)"

lemma catalog_wf_iff: "catalog_wf s \<longleftrightarrow>
     distinct (map fst (g_workstations s)) \<and> distinct (map fst (g_projects s))
     \<and> distinct (map fst (g_drawings s))
     \<and> (\<forall>k w. find_ws s k = Some w \<longrightarrow> ws_id w = k)
     \<and> (\<forall>k p. find_prj s k = Some p \<longrightarrow> prj_id p = k \<and> child_of_ws s p)
     \<and> (\<forall>k d. find_drw s k = Some d \<longrightarrow> drw_id d = k \<and> child_of_prj s d)"
proof (cases "distinct (map fst (g_workstations s)) \<and> distinct (map fst (g_projects s))
    \<and> distinct (map fst (g_drawings s))")
  case True
  then show ?thesis
    by (simp only: catalog_wf_def distinct_items child_of_ws_def child_of_prj_def case_option_False_iff)
next
  case False
  then show ?thesis by (auto simp add: catalog_wf_def)
qed

lemma repo_wf_op:
  assumes "repo_wf s" and "find_op s k = Some r"
  shows "o_id r = k" "op_wf r"
  using assms by (auto simp add: repo_wf_def ops_wf_iff)

lemma repo_wf_one_active:
  assumes "repo_wf s" and "find_op s k = Some r" and "find_op s k' = Some r'"
    and "active r" and "active r'" and "o_tenant r = o_tenant r'" and "o_ws r = o_ws r'"
  shows "k = k'"
  using assms by (auto simp add: repo_wf_def ops_wf_iff active_wf_iff)

lemma repo_wf_idem:
  assumes "repo_wf s"
  shows "find_op s k = Some r \<Longrightarrow> map_of (g_idempotency s) (idem_key r) = Some k"
    and "map_of (g_idempotency s) key = Some k \<Longrightarrow> \<exists>r. find_op s k = Some r \<and> idem_key r = key"
proof -
  have "distinct (map fst (g_operations s))" and i: "idem_wf s"
    using assms by (simp_all add: repo_wf_def ops_wf_def)
  note j = i[unfolded idem_wf_iff[OF this(1)]]
  from j show "find_op s k = Some r \<Longrightarrow> map_of (g_idempotency s) (idem_key r) = Some k" by blast
  from j show "map_of (g_idempotency s) key = Some k \<Longrightarrow> \<exists>r. find_op s k = Some r \<and> idem_key r = key" by blast
qed

lemma repo_wf_empty: "repo_wf empty_repo"
  by (simp add: repo_wf_def ops_wf_def idem_wf_def active_wf_def catalog_wf_def empty_repo_def)

section \<open>Writing one record\<close>

lemma put_op_sel [simp]:
  "g_operations (put_op k r s) = AList.update k r (g_operations s)"
  "g_workstations (put_op k r s) = g_workstations s" "g_projects (put_op k r s) = g_projects s"
  "g_drawings (put_op k r s) = g_drawings s" "g_idempotency (put_op k r s) = g_idempotency s"
  by (simp_all add: put_op_def)

lemma find_op_put [simp]: "find_op (put_op k r s) = (find_op s)(k \<mapsto> r)"
  by simp

lemma put_same: "find_op s k = Some r \<Longrightarrow> distinct (map fst (g_operations s)) \<Longrightarrow> put_op k r s = s"
  by (simp add: put_op_def update_triv)

text \<open>
  The one lemma behind every transition: writing back an evolved, well-formed record keeps the
  invariant, if it becomes active only when nothing else at its workstation is.
\<close>

lemma repo_wf_evolve:
  assumes wf: "repo_wf s" and old: "find_op s k = Some r" and ev: "evolves r r'" and wf': "op_wf r'"
    and excl: "active r' \<Longrightarrow> active r \<or> (\<forall>k2 r2. find_op s k2 = Some r2 \<longrightarrow> active r2 \<longrightarrow>
        o_tenant r2 = o_tenant r \<longrightarrow> o_ws r2 = o_ws r \<longrightarrow> False)"
  shows "repo_wf (put_op k r' s)"
proof -
  have d: "distinct (map fst (g_operations s))" using wf by (simp add: repo_wf_def ops_wf_def)
  then have d': "distinct (map fst (g_operations (put_op k r' s)))" by (simp add: distinct_update)
  have id: "same_identity r r'" using ev by (rule evolves_identity)
  then have key: "idem_key r' = idem_key r" by (simp add: same_identity_def idem_key_def)
  have "ops_wf (put_op k r' s)"
    using wf wf' id old d' by (auto simp add: repo_wf_def ops_wf_iff same_identity_def)
  moreover have "idem_wf (put_op k r' s)"
    using wf d old key unfolding repo_wf_def idem_wf_iff[OF d'] idem_wf_iff[OF d]
    by (simp del: split_paired_All) (metis option.inject)
  moreover have "active_wf (put_op k r' s)"
    using wf old id excl unfolding repo_wf_def active_wf_iff[OF d'] active_wf_iff[OF d]
    by (clarsimp simp add: same_identity_def split: if_splits) (metis (no_types, lifting))
  moreover have "catalog_wf (put_op k r' s)"
    using wf by (simp add: repo_wf_def catalog_wf_def)
  ultimately show ?thesis by (simp add: repo_wf_def)
qed

lemma repo_wf_evolve_keep:
  assumes "repo_wf s" and "find_op s k = Some r" and "evolves r r'" and "op_wf r'"
    and "active r' \<Longrightarrow> active r"
  shows "repo_wf (put_op k r' s)"
  using assms by (intro repo_wf_evolve) auto

lemma repo_wf_refreshed:
  assumes "repo_wf s" and "find_op s k = Some r"
  shows "repo_wf (put_op k (refreshed r now) s)"
  using assms(1,2) refreshed_evolves refreshed_wf[OF repo_wf_op(2)[OF assms]]
    refreshed_active
  by (rule repo_wf_evolve_keep)

end
