(* ===== verification/Repository_Correctness.thy ===== *)
theory Repository_Correctness
  imports Repository_Invariant
begin

text \<open>
  Every method of the in-memory repository keeps the invariant and moves each stored operation
  only along the lifecycle; and what each method returns, branch by branch.
\<close>

section \<open>Steps of the store\<close>

definition ops_evolve :: "gateway_repo \<Rightarrow> gateway_repo \<Rightarrow> bool" where
  "ops_evolve s t \<longleftrightarrow> (\<forall>k r. find_op s k = Some r \<longrightarrow> (\<exists>r'. find_op t k = Some r' \<and> evolves r r'))"

definition good_step :: "gateway_repo \<Rightarrow> gateway_repo \<Rightarrow> bool" where
  "good_step s t \<longleftrightarrow> (repo_wf s \<longrightarrow> repo_wf t \<and> ops_evolve s t)"

named_theorems good_steps \<open>one-step facts of the store\<close>

lemma ops_evolve_refl [simp]: "ops_evolve s s"
  by (auto simp add: ops_evolve_def)

lemma ops_evolve_trans: "ops_evolve s t \<Longrightarrow> ops_evolve t u \<Longrightarrow> ops_evolve s u"
  unfolding ops_evolve_def by (meson evolves_trans)

lemma good_step_refl [simp]: "good_step s s"
  by (simp add: good_step_def)

lemma good_step_trans: "good_step s t \<Longrightarrow> good_step t u \<Longrightarrow> good_step s u"
  unfolding good_step_def by (blast intro: ops_evolve_trans)

lemma ops_evolve_put: "find_op s k = Some r \<Longrightarrow> evolves r r' \<Longrightarrow> ops_evolve s (put_op k r' s)"
  by (auto simp add: ops_evolve_def)

text \<open>A validated update whose state follows an edge and whose identity is untouched.\<close>

lemma model_validate_result:
  "model_validate r0 = Inr r \<Longrightarrow> r = r0\<lparr>o_error := map_option str_strip (o_error r0)\<rparr> \<and> op_wf r"
  using model_validate_wf[of r0 r]
  by (auto simp add: model_validate_def Let_def split: if_splits sum.splits exn.splits)

lemma good_step_put:
  assumes "find_op s k = Some r" and "model_validate r0 = Inr r'"
    and "same_identity r r0" and "lifecycle_edge (o_state r) (o_state r0)"
    and "active r0 \<Longrightarrow> active r \<or> (\<forall>k2 r2. find_op s k2 = Some r2 \<longrightarrow> active r2 \<longrightarrow>
        o_tenant r2 = o_tenant r \<longrightarrow> o_ws r2 = o_ws r \<longrightarrow> False)"
  shows "good_step s (put_op k r' s)"
proof -
  from assms(2) have r': "r' = r0\<lparr>o_error := map_option str_strip (o_error r0)\<rparr>" and wf': "op_wf r'"
    by (auto dest: model_validate_result)
  have ev: "evolves r r'"
    using assms(3,4) by (intro evolves_edge) (simp_all add: r' same_identity_def)
  have "active r' = active r0" by (simp add: r' active_def)
  then show ?thesis
    using assms(1,5) ev wf' unfolding good_step_def
    by (intro impI conjI ops_evolve_put repo_wf_evolve) auto
qed

lemma good_step_refreshed:
  "find_op s k = Some r \<Longrightarrow> good_step s (put_op k (refreshed r now) s)"
  unfolding good_step_def using refreshed_evolves repo_wf_refreshed by (blast intro: ops_evolve_put)

section \<open>refresh, start, finish\<close>

lemma refresh_operation_step [good_steps]: "repo_wf s \<Longrightarrow> good_step s (snd (refresh_operation k now s))"
  by (auto simp add: refresh_operation_def refresh_due_eq repo_wf_op good_step_refreshed
      split: option.splits)

lemma start_operation_step [good_steps]:
  assumes "repo_wf s"
  shows "good_step s (snd (start_operation k tenant ws now s))"
proof (cases "find_op s k")
  case None
  then show ?thesis by (simp add: start_operation_def)
next
  case (Some r)
  have "good_step s (put_op k r' s)" if "attention_required r now = Inr r'" "o_state r = LEASED" for r'
    using that(2)
    by (rule_tac good_step_put[OF Some that(1)[unfolded attention_required_def]]) (auto simp add: same_identity_def lifecycle_edge.simps active_def)
  moreover have "good_step s (put_op k r' s)"
    if "model_validate (r\<lparr>o_state := RUNNING, o_lease := None, o_started := Some now\<rparr>) = Inr r'"
      "o_state r = LEASED" for r'
    using that(2)
    by (rule_tac good_step_put[OF Some that(1)]) (auto simp add: same_identity_def lifecycle_edge.simps active_def)
  ultimately show ?thesis using Some by (auto simp add: start_operation_def split: sum.splits)
qed

text \<open>The refresh that finish_operation and apply_worker_success begin with.\<close>

definition settle :: "string \<Rightarrow> operation_record \<Rightarrow> instant \<Rightarrow> gateway_repo \<Rightarrow> gateway_repo" where
  "settle k r now s = (if refreshed r now \<noteq> r then put_op k (refreshed r now) s else s)"

lemma settle_step: "find_op s k = Some r \<Longrightarrow> good_step s (settle k r now s)"
  by (simp add: settle_def good_step_refreshed)

lemma settle_find: "find_op s k = Some r \<Longrightarrow> find_op (settle k r now s) k = Some (refreshed r now)"
  by (simp add: settle_def)

lemma settle_running: "o_state (refreshed r now) = RUNNING \<Longrightarrow> settle k r now s = s"
  by (auto simp add: settle_def dest: refreshed_running)

lemma finish_put_step:
  assumes "find_op s k = Some r" and "o_state r = RUNNING"
    and "st = SUCCEEDED \<or> st = FAILED \<or> st = ATTENTION_REQUIRED"
    and "model_validate (r\<lparr>o_state := st, o_completed := c, o_result := v, o_error := e\<rparr>) = Inr r'"
  shows "good_step s (put_op k r' s)"
  using assms(2,3)
  by (rule_tac good_step_put[OF assms(1,4)]) (auto simp add: same_identity_def lifecycle_edge.simps active_def)

lemma finish_operation_step [good_steps]:
  assumes wf: "repo_wf s"
  shows "good_step s (snd (finish_operation k tenant ws now st result err s))"
proof (cases "find_op s k")
  case None
  then show ?thesis by (simp add: finish_operation_def)
next
  case (Some r)
  note due = refresh_due_eq[OF repo_wf_op(2)[OF wf Some], of now]
  have final: "good_step s (put_op k r' s)"
    if "o_state (refreshed r now) = RUNNING" "st = SUCCEEDED \<or> st = FAILED \<or> st = ATTENTION_REQUIRED"
      "model_validate (refreshed r now\<lparr>o_state := st, o_completed := Some now, o_result := result,
         o_error := err\<rparr>) = Inr r'" for r'
    using finish_put_step[OF Some _ that(2)] that(1,3) by (auto dest: refreshed_running)
  show ?thesis
    using Some due final settle_step[OF Some, of now] settle_running[of r now k s]
    by (auto simp add: finish_operation_def settle_def Let_def split: sum.splits if_splits)
qed

section \<open>lease\_next\_operation\<close>

definition at_workstation :: "string \<Rightarrow> string \<Rightarrow> operation_record \<Rightarrow> bool" where
  "at_workstation tenant ws r \<longleftrightarrow> o_tenant r = tenant \<and> o_ws r = ws"

lemma refreshed_at_workstation [simp]: "at_workstation tenant ws (refreshed r now) = at_workstation tenant ws r"
  by (simp add: at_workstation_def)

definition waiting :: "string \<Rightarrow> string \<Rightarrow> string \<Rightarrow> instant \<Rightarrow> operation_record \<Rightarrow> bool" where
  "waiting tenant ws owner now r \<longleftrightarrow> at_workstation tenant ws r \<and> o_owner r = owner
     \<and> o_state r = CREATED \<and> now < o_expires r"

lemma refreshed_waiting:
  "at_workstation tenant ws r \<and> o_owner (refreshed r now) = owner \<and> o_state (refreshed r now) = CREATED
     \<longleftrightarrow> waiting tenant ws owner now r"
proof -
  have "refreshed r now = r" if "o_state r = CREATED" "now < o_expires r"
    using that by (simp add: refreshed_def)
  then show ?thesis unfolding waiting_def using refreshed_created[of r now] by (metis refreshed_sel(3))
qed

definition refresh_item :: "string \<Rightarrow> string \<Rightarrow> instant \<Rightarrow> operation_record \<Rightarrow> operation_record" where
  "refresh_item tenant ws now r = (if at_workstation tenant ws r then refreshed r now else r)"

text \<open>
  The loop writes back the refreshed record of every item, so its end state is known lookup by
  lookup, and what it collects is known from the records it started with.
\<close>

lemma refresh_loop_spec:
  assumes "repo_wf s" and "distinct (map fst items)"
    and "\<And>k r. (k, r) \<in> set items \<Longrightarrow> find_op s k = Some r"
  shows "\<exists>s'. refresh_loop tenant ws owner now items act elig s =
      (Inr (act \<or> (\<exists>(k, r) \<in> set items. at_workstation tenant ws r \<and> active (refreshed r now)),
            elig @ filter (waiting tenant ws owner now) (map snd items)), s')
    \<and> good_step s s' \<and> repo_wf s'
    \<and> (\<forall>k. find_op s' k = map_option (\<lambda>r. if k \<in> fst ` set items then refresh_item tenant ws now r else r) (find_op s k))"
  using assms
proof (induction items arbitrary: act elig s)
  case Nil
  have "map_option (\<lambda>r. r) v = v" for v :: "operation_record option" by (cases v) auto
  with Nil show ?case by simp
next
  case (Cons item items)
  obtain k r where item: "item = (k, r)" by force
  have found: "find_op s k = Some r" and k: "k \<notin> fst ` set items"
    using Cons.prems(2,3) by (auto simp add: item)
  have rest: "find_op s k2 = Some r2" "k2 \<noteq> k" if "(k2, r2) \<in> set items" for k2 r2
    using that Cons.prems(3) k by (auto simp add: item rev_image_eqI)
  show ?case
  proof (cases "at_workstation tenant ws r")
    case False
    from Cons.IH[of s act elig] Cons.prems(1,2) rest obtain s' where s':
      "refresh_loop tenant ws owner now items act elig s =
        (Inr (act \<or> (\<exists>(k, r) \<in> set items. at_workstation tenant ws r \<and> active (refreshed r now)),
            elig @ filter (waiting tenant ws owner now) (map snd items)), s')"
      "good_step s s'" "repo_wf s'"
      "\<And>k2. find_op s' k2 = map_option (\<lambda>r. if k2 \<in> fst ` set items then refresh_item tenant ws now r else r) (find_op s k2)"
      by (auto simp add: item)
    have "refresh_loop tenant ws owner now (item # items) act elig s =
        refresh_loop tenant ws owner now items act elig s"
      using False by (auto simp add: item at_workstation_def)
    moreover have "\<not> waiting tenant ws owner now r" using False by (simp add: waiting_def)
    moreover have "find_op s' k2 = map_option (\<lambda>r. if k2 \<in> fst ` set (item # items)
        then refresh_item tenant ws now r else r) (find_op s k2)" for k2
      using s'(4)[of k2] False found by (cases "k2 = k") (simp_all add: item refresh_item_def)
    ultimately show ?thesis using s'(1-3) False by (intro exI[of _ s']) (simp add: item)
  next
    case True
    let ?s = "put_op k (refreshed r now) s"
    have wf: "repo_wf ?s" and step: "good_step s ?s"
      using repo_wf_refreshed[OF Cons.prems(1) found] good_step_refreshed[OF found] by auto
    have due: "refresh_due r now = Inr (refreshed r now)"
      using repo_wf_op(2)[OF Cons.prems(1) found] by (rule refresh_due_eq)
    define act' where "act' = (act \<or> active (refreshed r now))"
    define elig' where "elig' = (if waiting tenant ws owner now r then elig @ [r] else elig)"
    have unroll: "refresh_loop tenant ws owner now ((k, r) # items) act elig s =
        refresh_loop tenant ws owner now items act' elig' ?s"
    proof -
      have w: "waiting tenant ws owner now r \<longleftrightarrow> o_owner (refreshed r now) = owner \<and> o_state (refreshed r now) = CREATED"
        using True refreshed_waiting[of tenant ws r now owner] by simp
      have e: "refreshed r now = r" if "o_state (refreshed r now) = CREATED"
        using that refreshed_created by blast
      from True have t: "o_tenant r = tenant" "o_ws r = ws" by (auto simp add: at_workstation_def)
      show ?thesis using t due e
        unfolding act'_def elig'_def w active_def by (cases "o_state (refreshed r now)") auto
    qed
    from Cons.IH[of ?s act' elig'] wf Cons.prems(2) rest obtain s' where s':
      "refresh_loop tenant ws owner now items act' elig' ?s =
        (Inr (act' \<or> (\<exists>(k, r) \<in> set items. at_workstation tenant ws r \<and> active (refreshed r now)),
            elig' @ filter (waiting tenant ws owner now) (map snd items)), s')"
      "good_step ?s s'" "repo_wf s'"
      "\<And>k2. find_op s' k2 = map_option (\<lambda>r. if k2 \<in> fst ` set items then refresh_item tenant ws now r else r) (find_op ?s k2)"
      by (auto simp add: item)
    have "find_op s' k2 = map_option (\<lambda>r. if k2 \<in> fst ` set (item # items)
        then refresh_item tenant ws now r else r) (find_op s k2)" for k2
      using s'(4)[of k2] True found k by (cases "k2 = k") (simp_all add: item refresh_item_def)
    moreover have "refresh_loop tenant ws owner now (item # items) act elig s =
      (Inr (act \<or> (\<exists>(k, r) \<in> set (item # items). at_workstation tenant ws r \<and> active (refreshed r now)),
            elig @ filter (waiting tenant ws owner now) (map snd (item # items))), s')"
      using s'(1) True unfolding item unroll by (simp add: act'_def elig'_def)
    ultimately show ?thesis
      using s'(3) good_step_trans[OF step s'(2)] by (intro exI[of _ s']) simp
  qed
qed

lemma map_of_item: "distinct (map fst xs) \<Longrightarrow> (k, v) \<in> set xs \<Longrightarrow> map_of xs k = Some v"
  by (simp add: map_of_eq_Some_iff)

lemma item_map_of: "map_of xs k = Some v \<Longrightarrow> (k, v) \<in> set xs"
  by (rule map_of_SomeD)

lemma distinct_items_ex:
  assumes "distinct (map fst xs)"
  shows "(\<exists>(k, v) \<in> set xs. P k v) \<longleftrightarrow> (\<exists>k v. map_of xs k = Some v \<and> P k v)"
  using assms by (auto simp add: map_of_eq_Some_iff)

definition busy :: "string \<Rightarrow> string \<Rightarrow> instant \<Rightarrow> gateway_repo \<Rightarrow> bool" where
  "busy tenant ws now s \<longleftrightarrow>
     (\<exists>k r. find_op s k = Some r \<and> at_workstation tenant ws r \<and> active (refreshed r now))"

lemma refresh_all_spec:
  assumes wf: "repo_wf s"
  obtains s' where
    "refresh_loop tenant ws owner now (g_operations s) False [] s =
      (Inr (busy tenant ws now s, filter (waiting tenant ws owner now) (map snd (g_operations s))), s')"
    "good_step s s'" "repo_wf s'"
    "\<And>k. find_op s' k = map_option (refresh_item tenant ws now) (find_op s k)"
proof -
  have d: "distinct (map fst (g_operations s))" using wf by (simp add: repo_wf_def ops_wf_def)
  from refresh_loop_spec[OF wf d map_of_item[OF d], of tenant ws owner now False "[]"]
  obtain s' where s': "refresh_loop tenant ws owner now (g_operations s) False [] s =
      (Inr (\<exists>(k, r) \<in> set (g_operations s). at_workstation tenant ws r \<and> active (refreshed r now),
            filter (waiting tenant ws owner now) (map snd (g_operations s))), s')"
    "good_step s s'" "repo_wf s'"
    "\<forall>k. find_op s' k = map_option (\<lambda>r. if k \<in> fst ` set (g_operations s)
        then refresh_item tenant ws now r else r) (find_op s k)" by auto
  have b: "(\<exists>(k, r) \<in> set (g_operations s). at_workstation tenant ws r \<and> active (refreshed r now)) =
      busy tenant ws now s"
    unfolding busy_def distinct_items_ex[OF d] ..
  have "find_op s' k = map_option (refresh_item tenant ws now) (find_op s k)" for k
    using s'(4) item_map_of[of "g_operations s" k] by (cases "find_op s k") (auto simp add: rev_image_eqI)
  with s'(1-3) b show ?thesis by (intro that) auto
qed

lemma min_by_in: "min_by f best xs \<in> set (best # xs)"
  by (induction f best xs rule: min_by.induct) auto

lemma min_by_le: "y \<in> set (best # xs) \<Longrightarrow> f (min_by f best xs) \<le> f y"
proof (induction f best xs arbitrary: y rule: min_by.induct)
  case (1 f best)
  then show ?case by simp
next
  case (2 f best x xs)
  show ?case
  proof (cases "f x < f best")
    case True
    with 2(1)[OF True, of y] 2(1)[OF True, of x] 2(3) show ?thesis by auto
  next
    case False
    with 2(2)[OF False, of y] 2(2)[OF False, of best] 2(3) show ?thesis by auto
  qed
qed

definition next_queued :: "string \<Rightarrow> string \<Rightarrow> string \<Rightarrow> instant \<Rightarrow> gateway_repo \<Rightarrow> operation_record \<Rightarrow> bool" where
  "next_queued tenant ws owner now s r \<longleftrightarrow> find_op s (o_id r) = Some r \<and> waiting tenant ws owner now r
     \<and> (\<forall>k q. find_op s k = Some q \<longrightarrow> waiting tenant ws owner now q \<longrightarrow> queue_key r \<le> queue_key q)"


text \<open>The record a queued operation becomes when it is handed out.\<close>

definition leased_record :: "operation_record \<Rightarrow> instant \<Rightarrow> operation_record" where
  "leased_record r lease_at = r\<lparr>o_state := LEASED, o_lease := Some (min lease_at (o_expires r))\<rparr>"

lemma leased_record_sel [simp]:
  "o_state (leased_record r l) = LEASED" "o_id (leased_record r l) = o_id r"
  "o_lease (leased_record r l) = Some (min l (o_expires r))" "same_identity r (leased_record r l)"
  by (simp_all add: leased_record_def same_identity_def)

lemma leased_record_valid:
  assumes "op_wf r" and "o_state r = CREATED"
  shows "model_validate (leased_record r l) =
     (if o_created r < l then Inr (leased_record r l)
      else Inl (ValidationError ''operation_lease_outside_deadline''))"
proof (cases "o_created r < l")
  case True
  with assms have "op_wf (leased_record r l)"
    by (auto simp add: leased_record_def op_wf_def operation_fields_ok_def deadlines_hold_def
        state_data_holds_def)
  with True show ?thesis by (simp add: op_wf_model_validate)
next
  case False
  with assms show ?thesis
    by (auto simp add: leased_record_def model_validate_def op_wf_def operation_fields_ok_def
        validate_state_shape_def validate_deadlines_def deadlines_hold_def)
qed

lemma expire_early:
  assumes "op_wf r" and "o_state r = CREATED" and "o_created r \<le> now" and "now < o_expires r"
  shows "expire r now = Inl (ValidationError ''operation_expired_before_deadline'')"
  using assms
  by (auto simp add: expire_def model_validate_def op_wf_def operation_fields_ok_def Let_def
      validate_state_shape_def validate_deadlines_def validate_state_data_def deadlines_hold_def
      state_data_holds_def)

lemma expire_early_error:
  assumes "op_wf r" and "o_state r = CREATED" and "now < o_expires r"
  shows "\<exists>c. expire r now = Inl (ValidationError c)"
proof (cases "expire r now")
  case (Inl e)
  then show ?thesis unfolding expire_def by (auto dest: model_validate_error)
next
  case (Inr r')
  then have "r' = expired_record r now" "op_wf r'"
    by (auto simp add: expire_def expired_record_def dest: model_validate_result)
  then have "o_expires r \<le> now"
    by (simp add: op_wf_def state_data_holds_def) (simp add: expired_record_def)
  with assms(3) show ?thesis by simp
qed

text \<open>What lease_next_operation does after its loop, on the store the loop leaves.\<close>

definition lease_result ::
  "string \<Rightarrow> string \<Rightarrow> string \<Rightarrow> instant \<Rightarrow> instant \<Rightarrow> gateway_repo \<Rightarrow> gateway_repo
    \<Rightarrow> operation_record option res \<times> gateway_repo" where
  "lease_result tenant ws owner now lease_at s s1 =
     (if busy tenant ws now s then (Inr None, s1)
      else (case filter (waiting tenant ws owner now) (map snd (g_operations s)) of
         [] \<Rightarrow> (Inr None, s1)
       | e # es \<Rightarrow>
          (let r = min_by queue_key e es in
           if lease_at \<le> now
           then (case expire r now of Inl x \<Rightarrow> (Inl x, s1)
                 | Inr r' \<Rightarrow> (Inr None, put_op (o_id r) r' s1))
           else if o_created r < lease_at
           then (Inr (Some (leased_record r lease_at)), put_op (o_id r) (leased_record r lease_at) s1)
           else (Inl (ValidationError ''operation_lease_outside_deadline''), s1))))"

lemma eligible_iff:
  assumes "repo_wf s"
  shows "q \<in> set (filter (waiting tenant ws owner now) (map snd (g_operations s))) \<longleftrightarrow>
     find_op s (o_id q) = Some q \<and> waiting tenant ws owner now q"
proof -
  have d: "distinct (map fst (g_operations s))" using assms by (simp add: repo_wf_def ops_wf_def)
  have "q \<in> snd ` set (g_operations s) \<longleftrightarrow> (\<exists>k v. map_of (g_operations s) k = Some v \<and> q = v)"
    unfolding distinct_items_ex[OF d, symmetric] by force
  with repo_wf_op(1)[OF assms] show ?thesis by auto
qed

lemma lease_next_result:
  assumes wf: "repo_wf s"
  obtains s1 where "lease_next_operation tenant ws owner now lease_at s =
      lease_result tenant ws owner now lease_at s s1"
    "good_step s s1" "repo_wf s1"
    "\<And>k. find_op s1 k = map_option (refresh_item tenant ws now) (find_op s k)"
proof -
  from refresh_all_spec[OF wf] obtain s1 where loop:
    "refresh_loop tenant ws owner now (g_operations s) False [] s =
      (Inr (busy tenant ws now s, filter (waiting tenant ws owner now) (map snd (g_operations s))), s1)"
    and s1: "good_step s s1" "repo_wf s1"
    "\<And>k. find_op s1 k = map_option (refresh_item tenant ws now) (find_op s k)" by metis
  have "lease_next_operation tenant ws owner now lease_at s = lease_result tenant ws owner now lease_at s s1"
  proof (cases "filter (waiting tenant ws owner now) (map snd (g_operations s))")
    case Nil
    with loop show ?thesis
      by (simp add: lease_next_operation_def lease_result_def bindS_def)
  next
    case (Cons e es)
    define r where "r = min_by queue_key e es"
    have "r \<in> set (filter (waiting tenant ws owner now) (map snd (g_operations s)))"
      unfolding Cons r_def by (rule min_by_in)
    then have r: "find_op s (o_id r) = Some r" "waiting tenant ws owner now r" by (simp_all only: eligible_iff[OF wf])
    then have rc: "op_wf r" "o_state r = CREATED" "now < o_expires r"
      using repo_wf_op(2)[OF wf] by (auto simp add: waiting_def)
    have "min lease_at (o_expires r) \<le> now \<longleftrightarrow> lease_at \<le> now" using rc(3) by (simp add: min_le_iff_disj)
    with loop Cons leased_record_valid[OF rc(1,2), of lease_at] show ?thesis
      by (simp add: lease_next_operation_def lease_result_def bindS_def r_def[symmetric] Let_def
          leased_record_def[symmetric] split: sum.splits)
  qed
  from this s1 show ?thesis by (rule that)
qed

end
