(* ===== verification/Repository_Steps.thy ===== *)
theory Repository_Steps
  imports Repository_Correctness
begin

text \<open>
  The remaining methods of the in-memory repository: handing out a lease, creating an operation,
  applying a worker's success and the catalog writes; then the store as a transition system,
  whose reachable states satisfy the invariant, and the properties of the store.
\<close>

section \<open>Handing out a lease\<close>

lemma not_busy_store:
  assumes "\<not> busy tenant ws now s"
    and "\<And>k. find_op s1 k = map_option (refresh_item tenant ws now) (find_op s k)"
    and "find_op s1 k = Some r" and "o_tenant r = tenant" and "o_ws r = ws"
  shows "\<not> active r"
proof -
  from assms(2)[of k] assms(3) obtain q where q: "find_op s k = Some q" "r = refresh_item tenant ws now q"
    by (cases "find_op s k") auto
  with assms(4,5) have "at_workstation tenant ws q"
    by (auto simp add: refresh_item_def at_workstation_def split: if_splits)
  with q assms(1) show ?thesis by (auto simp add: busy_def refresh_item_def)
qed

lemma waiting_refreshed_id: "waiting tenant ws owner now r \<Longrightarrow> refresh_item tenant ws now r = r"
  by (simp add: waiting_def refresh_item_def refreshed_def)

lemma first_queued:
  assumes wf: "repo_wf s"
    and el: "filter (waiting tenant ws owner now) (map snd (g_operations s)) = e # es"
  shows "next_queued tenant ws owner now s (min_by queue_key e es)"
proof -
  have "min_by queue_key e es \<in> set (filter (waiting tenant ws owner now) (map snd (g_operations s)))"
    unfolding el by (rule min_by_in)
  then have m: "find_op s (o_id (min_by queue_key e es)) = Some (min_by queue_key e es)"
    "waiting tenant ws owner now (min_by queue_key e es)"
    by (simp_all only: eligible_iff[OF wf])
  have "queue_key (min_by queue_key e es) \<le> queue_key q"
    if "find_op s k = Some q" "waiting tenant ws owner now q" for k q
  proof (rule min_by_le)
    have "find_op s (o_id q) = Some q" using that(1) repo_wf_op(1)[OF wf that(1)] by simp
    with that(2) show "q \<in> set (e # es)" by (simp only: el[symmetric] eligible_iff[OF wf])
  qed
  with m show ?thesis by (auto simp add: next_queued_def)
qed

lemma no_queue:
  assumes wf: "repo_wf s"
    and "filter (waiting tenant ws owner now) (map snd (g_operations s)) = []"
    and "find_op s k = Some q"
  shows "\<not> waiting tenant ws owner now q"
proof -
  have "find_op s (o_id q) = Some q" using assms(3) repo_wf_op(1)[OF wf assms(3)] by simp
  with assms(2) show ?thesis using eligible_iff[OF wf, of q tenant ws owner now] by simp
qed

text \<open>The three ways a lease request can end, on the refreshed store.\<close>

lemma lease_next_cases:
  assumes wf: "repo_wf s"
  obtains (no_task) s1 where
      "lease_next_operation tenant ws owner now lease_at s = (Inr None, s1)"
      "busy tenant ws now s \<or> (\<forall>k q. find_op s k = Some q \<longrightarrow> \<not> waiting tenant ws owner now q)"
      "good_step s s1" "\<And>k. find_op s1 k = map_option (refresh_item tenant ws now) (find_op s k)"
  | (refused) s1 c r where
      "lease_next_operation tenant ws owner now lease_at s = (Inl (ValidationError c), s1)"
      "\<not> busy tenant ws now s" "next_queued tenant ws owner now s r"
      "lease_at \<le> now \<or> lease_at \<le> o_created r"
      "good_step s s1" "\<And>k. find_op s1 k = map_option (refresh_item tenant ws now) (find_op s k)"
  | (leased) s1 r where
      "lease_next_operation tenant ws owner now lease_at s =
         (Inr (Some (leased_record r lease_at)), put_op (o_id r) (leased_record r lease_at) s1)"
      "\<not> busy tenant ws now s" "next_queued tenant ws owner now s r" "now < lease_at" "o_created r < lease_at"
      "good_step s s1" "repo_wf s1" "\<And>k. find_op s1 k = map_option (refresh_item tenant ws now) (find_op s k)"
proof -
  from lease_next_result[OF wf] obtain s1 where res:
    "lease_next_operation tenant ws owner now lease_at s = lease_result tenant ws owner now lease_at s s1"
    and s1: "good_step s s1" "repo_wf s1"
    "\<And>k. find_op s1 k = map_option (refresh_item tenant ws now) (find_op s k)" by blast
  show ?thesis
  proof (cases "busy tenant ws now s")
    case True
    with res have "lease_next_operation tenant ws owner now lease_at s = (Inr None, s1)"
      by (simp add: lease_result_def)
    from no_task[OF this disjI1[OF True] s1(1,3)] show ?thesis .
  next
    case idle: False
    show ?thesis
    proof (cases "filter (waiting tenant ws owner now) (map snd (g_operations s))")
      case Nil
      with res idle have "lease_next_operation tenant ws owner now lease_at s = (Inr None, s1)"
        by (simp add: lease_result_def)
      from no_task[OF this _ s1(1,3)] no_queue[OF wf Nil] show ?thesis by blast
    next
      case (Cons e es)
      define r where "r = min_by queue_key e es"
      have nq: "next_queued tenant ws owner now s r" unfolding r_def by (rule first_queued[OF wf Cons])
      then have rc: "op_wf r" "o_state r = CREATED" "now < o_expires r"
        using repo_wf_op(2)[OF wf] by (auto simp add: next_queued_def waiting_def)
      from expire_early_error[OF rc] obtain c where "expire r now = Inl (ValidationError c)" ..
      with res idle Cons have out: "lease_next_operation tenant ws owner now lease_at s =
          (if lease_at \<le> now then (Inl (ValidationError c), s1)
           else if o_created r < lease_at
           then (Inr (Some (leased_record r lease_at)), put_op (o_id r) (leased_record r lease_at) s1)
           else (Inl (ValidationError ''operation_lease_outside_deadline''), s1))"
        by (simp add: lease_result_def r_def[symmetric])
      show ?thesis
      proof (cases "now < lease_at \<and> o_created r < lease_at")
        case True
        with out idle nq s1 show ?thesis by (auto intro: leased)
      next
        case False
        then obtain c' where "lease_next_operation tenant ws owner now lease_at s = (Inl (ValidationError c'), s1)"
          using out by (cases "lease_at \<le> now") auto
        moreover have "lease_at \<le> now \<or> lease_at \<le> o_created r" using False by auto
        ultimately show ?thesis by (rule refused[OF _ idle nq _ s1(1,3)])
      qed
    qed
  qed
qed

lemma lease_put_step:
  assumes s1: "repo_wf s1" and idle: "\<not> busy tenant ws now s" and nq: "next_queued tenant ws owner now s r"
    and lk: "\<And>k. find_op s1 k = map_option (refresh_item tenant ws now) (find_op s k)"
    and wf: "repo_wf s" and t: "o_created r < lease_at"
  shows "good_step s1 (put_op (o_id r) (leased_record r lease_at) s1)"
proof -
  from nq have r: "find_op s (o_id r) = Some r" "waiting tenant ws owner now r" by (simp_all add: next_queued_def)
  have here: "find_op s1 (o_id r) = Some r" using lk[of "o_id r"] r by (simp add: waiting_refreshed_id)
  have v: "model_validate (leased_record r lease_at) = Inr (leased_record r lease_at)"
    using leased_record_valid[OF repo_wf_op(2)[OF wf r(1)], of lease_at] r(2) t by (simp add: waiting_def)
  show ?thesis
    using r(2) not_busy_store[OF idle lk] by (intro good_step_put[OF here v])
      (auto simp add: waiting_def at_workstation_def lifecycle_edge.simps)
qed

lemma lease_next_operation_step [good_steps]:
  assumes wf: "repo_wf s"
  shows "good_step s (snd (lease_next_operation tenant ws owner now lease_at s))"
  by (rule lease_next_cases[OF wf, of tenant ws owner now lease_at])
    (auto intro: good_step_trans lease_put_step wf)

section \<open>Creating an operation\<close>

lemma repo_wf_create:
  assumes wf: "repo_wf s" and new: "op_wf r" "\<not> active r" "find_op s (o_id r) = None"
    and free: "map_of (g_idempotency s) (idem_key r) = None"
  shows "repo_wf ((put_op (o_id r) r s)\<lparr>g_idempotency := AList.update (idem_key r) (o_id r) (g_idempotency s)\<rparr>)"
    (is "repo_wf ?t")
proof -
  have d: "distinct (map fst (g_operations s))" using wf by (simp add: repo_wf_def ops_wf_def)
  then have d': "distinct (map fst (g_operations ?t))" by (simp add: distinct_update)
  have "ops_wf ?t" using wf new(1) d' by (auto simp add: repo_wf_def ops_wf_iff)
  moreover have "idem_wf ?t"
    using wf d new(3) free unfolding repo_wf_def idem_wf_iff[OF d'] idem_wf_iff[OF d]
    by (simp add: distinct_update del: split_paired_All) (metis option.distinct(1))
  moreover have "active_wf ?t"
    using wf new(2) unfolding repo_wf_def active_wf_iff[OF d'] active_wf_iff[OF d]
    by (auto split: if_splits)
  moreover have "catalog_wf ?t" using wf by (simp add: repo_wf_def catalog_wf_def)
  ultimately show ?thesis by (simp add: repo_wf_def)
qed

lemma create_or_get_operation_step [good_steps]:
  assumes "op_wf r" and "o_state r = CREATED" and "find_op s (o_id r) = None"
  shows "good_step s (snd (create_or_get_operation r s))"
  using assms repo_wf_create[of s r]
  by (auto simp add: create_or_get_operation_def good_step_def active_def ops_evolve_def
      split: option.splits)

section \<open>Catalog rows\<close>

lemma put_sel [simp]:
  "g_operations (put_ws k w s) = g_operations s" "g_idempotency (put_ws k w s) = g_idempotency s"
  "g_operations (put_prj p s) = g_operations s" "g_idempotency (put_prj p s) = g_idempotency s"
  "g_operations (put_drw d s) = g_operations s" "g_idempotency (put_drw d s) = g_idempotency s"
  "g_workstations (put_ws k w s) = AList.update k w (g_workstations s)"
  "g_projects (put_ws k w s) = g_projects s" "g_drawings (put_ws k w s) = g_drawings s"
  "g_workstations (put_prj p s) = g_workstations s" "g_drawings (put_prj p s) = g_drawings s"
  "g_projects (put_prj p s) = AList.update (prj_id p) p (g_projects s)"
  "g_workstations (put_drw d s) = g_workstations s" "g_projects (put_drw d s) = g_projects s"
  "g_drawings (put_drw d s) = AList.update (drw_id d) d (g_drawings s)"
  by (simp_all add: put_ws_def put_prj_def put_drw_def)

lemma good_step_catalog:
  assumes "g_operations t = g_operations s" and "g_idempotency t = g_idempotency s"
    and "catalog_wf s \<Longrightarrow> catalog_wf t"
  shows "good_step s t"
  using assms
  by (auto simp add: good_step_def repo_wf_def ops_wf_def idem_wf_def active_wf_def ops_evolve_def)

definition same_place :: "project_record \<Rightarrow> project_record \<Rightarrow> bool" where
  "same_place p q \<longleftrightarrow> prj_tenant p = prj_tenant q \<and> prj_owner p = prj_owner q \<and> prj_ws p = prj_ws q"

lemma child_of_ws_put_ws:
  assumes "child_of_ws s p"
    and "\<And>old. find_ws s k = Some old \<Longrightarrow> ws_tenant old = ws_tenant w \<and> ws_owner old = ws_owner w"
  shows "child_of_ws (put_ws k w s) p"
  using assms(1) assms(2) by (cases "prj_ws p = k") (fastforce simp add: child_of_ws_def)+

lemma child_of_prj_put_prj:
  assumes "child_of_prj s d" and "\<And>old. find_prj s (prj_id p) = Some old \<Longrightarrow> same_place old p"
  shows "child_of_prj (put_prj p s) d"
  using assms(1) assms(2)
  by (cases "drw_prj d = prj_id p") (fastforce simp add: child_of_prj_def same_place_def)+

lemma child_other [simp]:
  "child_of_prj (put_ws k w s) d = child_of_prj s d" "child_of_ws (put_prj p s) q = child_of_ws s q"
  "child_of_ws (put_drw d s) q = child_of_ws s q" "child_of_prj (put_drw d s) d2 = child_of_prj s d2"
  by (simp_all add: child_of_ws_def child_of_prj_def)

lemma catalog_wf_put_ws:
  assumes "catalog_wf s" and "ws_id w = k"
    and "\<And>old. find_ws s k = Some old \<Longrightarrow> ws_tenant old = ws_tenant w \<and> ws_owner old = ws_owner w"
  shows "catalog_wf (put_ws k w s)"
  using assms(1,2) child_of_ws_put_ws[OF _ assms(3), of s]
  by (simp add: catalog_wf_iff distinct_update)

lemma catalog_wf_put_prj:
  assumes "catalog_wf s" and "child_of_ws s p"
    and "\<And>old. find_prj s (prj_id p) = Some old \<Longrightarrow> same_place old p"
  shows "catalog_wf (put_prj p s)"
  using assms(1,2) child_of_prj_put_prj[OF _ assms(3), of s]
  by (simp add: catalog_wf_iff distinct_update)

lemma catalog_wf_put_drw:
  assumes "catalog_wf s" and "child_of_prj s d"
  shows "catalog_wf (put_drw d s)"
  using assms by (simp add: catalog_wf_iff distinct_update)

lemma add_workstation_step [good_steps]: "good_step s (snd (add_workstation w s))"
  by (auto simp add: add_workstation_def split: option.splits
      intro!: good_step_catalog catalog_wf_put_ws)

lemma upsert_workstation_step [good_steps]: "good_step s (snd (upsert_workstation w s))"
  by (auto simp add: upsert_workstation_def split: option.splits
      intro!: good_step_catalog catalog_wf_put_ws)

lemma set_workstation_online_step [good_steps]: "good_step s (snd (set_workstation_online k b s))"
  by (auto simp add: set_workstation_online_def catalog_wf_iff split: option.splits
      intro!: good_step_catalog catalog_wf_put_ws)

lemma add_project_step [good_steps]: "good_step s (snd (add_project p s))"
  by (auto simp add: add_project_def child_of_ws_def split: option.splits
      intro!: good_step_catalog catalog_wf_put_prj)

lemma upsert_project_step [good_steps]: "good_step s (snd (upsert_project p s))"
  by (auto simp add: upsert_project_def child_of_ws_def same_place_def split: option.splits
      intro!: good_step_catalog catalog_wf_put_prj)

lemma add_drawing_step [good_steps]: "good_step s (snd (add_drawing d s))"
  by (auto simp add: add_drawing_def child_of_prj_def split: option.splits
      intro!: good_step_catalog catalog_wf_put_drw)

lemma upsert_drawing_step [good_steps]: "good_step s (snd (upsert_drawing d s))"
  by (auto simp add: upsert_drawing_def child_of_prj_def split: option.splits
      intro!: good_step_catalog catalog_wf_put_drw)

section \<open>Applying a worker's success\<close>

lemma put_projects_sel [simp]:
  "g_operations (put_projects ps s) = g_operations s" "g_idempotency (put_projects ps s) = g_idempotency s"
  "g_workstations (put_projects ps s) = g_workstations s" "g_drawings (put_projects ps s) = g_drawings s"
  unfolding put_projects_def by (induction ps arbitrary: s) auto

lemma put_drawings_sel [simp]:
  "g_operations (put_drawings ds s) = g_operations s" "g_idempotency (put_drawings ds s) = g_idempotency s"
  "g_workstations (put_drawings ds s) = g_workstations s" "g_projects (put_drawings ds s) = g_projects s"
  unfolding put_drawings_def by (induction ds arbitrary: s) auto

lemma project_row_okD:
  assumes "project_row_ok oper s p"
  shows "child_of_ws s p" "find_prj s (prj_id p) = Some old \<Longrightarrow> same_place old p"
    "prj_tenant p = o_tenant oper" "prj_owner p = o_owner oper" "prj_ws p = o_ws oper"
  using assms by (auto simp add: project_row_ok_def child_of_ws_def same_place_def split: option.splits)

lemma project_row_ok_put:
  assumes "project_row_ok oper s p" and "project_row_ok oper s q"
  shows "project_row_ok oper (put_prj p s) q"
  using assms(2) project_row_okD(3-5)[OF assms(1)] project_row_okD(3-5)[OF assms(2)]
  by (simp add: project_row_ok_def)

lemma put_projects_wf:
  assumes "catalog_wf s" and "list_all (project_row_ok oper s) ps"
  shows "catalog_wf (put_projects ps s)"
  using assms
proof (induction ps arbitrary: s)
  case (Cons p ps)
  then have p: "project_row_ok oper s p" and rest: "list_all (project_row_ok oper s) ps" by simp_all
  from rest have "list_all (project_row_ok oper (put_prj p s)) ps"
    by (auto simp add: list_all_iff intro: project_row_ok_put[OF p])
  with Cons.IH[OF catalog_wf_put_prj[OF Cons.prems(1) project_row_okD(1,2)[OF p]]]
  show ?case by (simp add: put_projects_def)
qed (simp add: put_projects_def)

lemma put_drawings_wf:
  assumes "catalog_wf s" and "list_all (child_of_prj s) ds"
  shows "catalog_wf (put_drawings ds s)"
  using assms
proof (induction ds arbitrary: s)
  case (Cons d ds)
  then have d: "child_of_prj s d" "list_all (child_of_prj (put_drw d s)) ds" by (simp_all add: list_all_iff)
  show ?case using Cons.IH[OF catalog_wf_put_drw[OF Cons.prems(1) d(1)] d(2)]
    by (simp add: put_drawings_def)
qed (simp add: put_drawings_def)

lemma drawing_row_okD:
  "drawing_row_ok oper s ps d \<Longrightarrow> child_of_prj (put_projects ps s) d"
  by (auto simp add: drawing_row_ok_def child_of_prj_def split: option.splits)

lemma validated_application:
  assumes "validate_worker_catalog_application oper result ps ds s = Inr u"
  shows "result_command result = command_of (o_task oper)" "catalog_payload_ok oper result ps ds"
    "list_all (project_row_ok oper s) ps" "list_all (drawing_row_ok oper s ps) ds"
  using assms by (simp_all add: validate_worker_catalog_application_def split: if_splits)

lemma apply_rows_step:
  assumes "validate_worker_catalog_application oper result ps ds s = Inr u"
  shows "good_step s (put_drawings ds (put_projects ps s))"
proof (rule good_step_catalog)
  assume "catalog_wf s"
  with validated_application(3)[OF assms] have "catalog_wf (put_projects ps s)" by (rule_tac put_projects_wf)
  with validated_application(4)[OF assms] show "catalog_wf (put_drawings ds (put_projects ps s))"
    by (intro put_drawings_wf) (auto simp add: list_all_iff intro: drawing_row_okD)
qed simp_all

lemma apply_worker_success_step [good_steps]:
  assumes wf: "repo_wf s"
  shows "good_step s (snd (apply_worker_success k tenant ws now result ps ds s))"
proof (cases "find_op s k")
  case None
  then show ?thesis by (simp add: apply_worker_success_def)
next
  case (Some r)
  note due = refresh_due_eq[OF repo_wf_op(2)[OF wf Some], of now]
  let ?t = "put_drawings ds (put_projects ps s)"
  have final: "good_step s (put_op k r' ?t)"
    if "o_state (refreshed r now) = RUNNING"
      "validate_worker_catalog_application (refreshed r now) result ps ds s = Inr u"
      "model_validate (refreshed r now\<lparr>o_state := SUCCEEDED, o_completed := Some now,
         o_result := Some result, o_error := None\<rparr>) = Inr r'" for r' u
  proof -
    have r: "refreshed r now = r" "o_state r = RUNNING" using that(1) by (auto dest: refreshed_running)
    have "find_op ?t k = Some r" using Some by simp
    from finish_put_step[OF this r(2) _ that(3)[unfolded r(1)]] have "good_step ?t (put_op k r' ?t)" by simp
    with apply_rows_step[OF that(2)] show ?thesis by (rule good_step_trans)
  qed
  show ?thesis
    using Some due final settle_step[OF Some, of now] settle_running[of r now k s] apply_rows_step
    by (auto simp add: apply_worker_success_def settle_def Let_def split: sum.splits if_splits)
qed

section \<open>The store as a transition system\<close>

text \<open>
  One step is one method call. Clock readings are arbitrary: no property below needs the clock
  to be monotone. A created record is one OperationRecord accepts, new and in state CREATED, as
  GatewayService.create_read_operation builds it.
\<close>

inductive repo_step :: "gateway_repo \<Rightarrow> gateway_repo \<Rightarrow> bool" where
  st_add_workstation: "repo_step s (snd (add_workstation w s))"
| st_upsert_workstation: "repo_step s (snd (upsert_workstation w s))"
| st_online: "repo_step s (snd (set_workstation_online k b s))"
| st_add_project: "repo_step s (snd (add_project p s))"
| st_upsert_project: "repo_step s (snd (upsert_project p s))"
| st_add_drawing: "repo_step s (snd (add_drawing d s))"
| st_upsert_drawing: "repo_step s (snd (upsert_drawing d s))"
| st_create: "model_validate r = Inr r \<Longrightarrow> o_state r = CREATED \<Longrightarrow> find_op s (o_id r) = None
    \<Longrightarrow> repo_step s (snd (create_or_get_operation r s))"
| st_refresh: "repo_step s (snd (refresh_operation k now s))"
| st_lease: "repo_step s (snd (lease_next_operation tenant ws owner now lease_at s))"
| st_start: "repo_step s (snd (start_operation k tenant ws now s))"
| st_finish: "repo_step s (snd (finish_operation k tenant ws now st result err s))"
| st_apply: "repo_step s (snd (apply_worker_success k tenant ws now result ps ds s))"

definition reachable :: "gateway_repo \<Rightarrow> bool" where
  "reachable s \<longleftrightarrow> repo_step\<^sup>*\<^sup>* empty_repo s"

lemma repo_step_good: "repo_step s t \<Longrightarrow> repo_wf s \<Longrightarrow> good_step s t"
  by (induction rule: repo_step.induct) (simp_all add: good_steps model_validate_wf)

lemma repo_steps_good: "repo_step\<^sup>*\<^sup>* s t \<Longrightarrow> repo_wf s \<Longrightarrow> good_step s t"
proof (induction rule: rtranclp_induct)
  case (step t u)
  then have "repo_wf t" by (simp add: good_step_def)
  with step show ?case by (blast intro: good_step_trans repo_step_good)
qed simp

lemma reachable_wf: "reachable s \<Longrightarrow> repo_wf s"
  unfolding reachable_def using repo_steps_good[OF _ repo_wf_empty] repo_wf_empty
  by (auto simp add: good_step_def)

end
