(* ===== verification/Repository_Properties.thy ===== *)
theory Repository_Properties
  imports Repository_Steps
begin

text \<open>
  The properties of the operation store, over the states its methods can reach. The sample
  identifiers and records are the inputs of the witnesses.
\<close>

section \<open>Sample records and stores\<close>

definition uuid_tail :: "char \<Rightarrow> string" where
  "uuid_tail c = replicate 8 c @ ''-'' @ replicate 4 c @ ''-4'' @ replicate 3 c @ ''-8'' @ replicate 3 c
     @ ''-'' @ replicate 12 c"

definition tid :: string where "tid = ''tnt_'' @ uuid_tail CHR ''a''"

definition wid :: string where "wid = ''ws_'' @ uuid_tail CHR ''a''"

definition uid :: string where "uid = ''usr_'' @ uuid_tail CHR ''a''"

definition oid :: "char \<Rightarrow> string" where "oid c = ''op_'' @ uuid_tail c"

definition sample_workstation :: workstation_record where
  "sample_workstation = \<lparr>ws_id = wid, ws_tenant = tid, ws_owner = uid, ws_name = [65],
     ws_enabled = True, ws_online = True\<rparr>"

definition sample_project :: "char \<Rightarrow> project_record" where
  "sample_project c = \<lparr>prj_id = ''prj_'' @ uuid_tail c, prj_tenant = tid, prj_owner = uid, prj_ws = wid,
     prj_name = [65], prj_enabled = True\<rparr>"

definition sample_drawing :: "char \<Rightarrow> char \<Rightarrow> drawing_record" where
  "sample_drawing c p = \<lparr>drw_id = ''drw_'' @ uuid_tail c, drw_tenant = tid, drw_owner = uid, drw_ws = wid,
     drw_prj = ''prj_'' @ uuid_tail p, drw_name = [65], drw_enabled = True\<rparr>"

definition sample_operation :: "char \<Rightarrow> instant \<Rightarrow> operation_record" where
  "sample_operation c t = \<lparr>o_id = oid c, o_tenant = tid, o_owner = uid,
     o_client = ''cli_'' @ uuid_tail CHR ''a'', o_ws = wid, o_idem = ''idem_'' @ uuid_tail c,
     o_fingerprint = replicate 64 CHR ''0'', o_task = ListProjectsTask wid,
     o_state = CREATED, o_created = t, o_expires = t + 60, o_lease = None, o_started = None,
     o_completed = None, o_result = None, o_error = None\<rparr>"

text \<open>Two queued operations, the later one created first; then one leased, and started.\<close>

definition queued_store :: gateway_repo where
  "queued_store = snd (create_or_get_operation (sample_operation CHR ''b'' 0)
     (snd (create_or_get_operation (sample_operation CHR ''c'' 5)
       (snd (add_workstation sample_workstation empty_repo)))))"

definition leased_store :: gateway_repo where
  "leased_store = snd (lease_next_operation tid wid uid 10 30 queued_store)"

definition running_store :: gateway_repo where
  "running_store = snd (start_operation (oid CHR ''b'') tid wid 12 leased_store)"

definition catalog_store :: gateway_repo where
  "catalog_store = snd (add_drawing (sample_drawing CHR ''d'' CHR ''d'')
     (snd (add_project (sample_project CHR ''d'') (snd (add_workstation sample_workstation empty_repo)))))"

lemma reachable_empty: "reachable empty_repo"
  by (simp add: reachable_def)

lemma reachable_step: "reachable s \<Longrightarrow> repo_step s t \<Longrightarrow> reachable t"
  unfolding reachable_def by (rule rtranclp.rtrancl_into_rtrancl)

lemma sample_valid:
  "model_validate (sample_operation CHR ''b'' 0) = Inr (sample_operation CHR ''b'' 0)"
  "model_validate (sample_operation CHR ''c'' 5) = Inr (sample_operation CHR ''c'' 5)"
  by code_simp+

lemma sample_created [simp]: "o_state (sample_operation c t) = CREATED"
  by (simp add: sample_operation_def)

lemma sample_new:
  "find_op (snd (add_workstation sample_workstation empty_repo)) (o_id (sample_operation CHR ''c'' 5)) = None"
  "find_op (snd (create_or_get_operation (sample_operation CHR ''c'' 5)
     (snd (add_workstation sample_workstation empty_repo)))) (o_id (sample_operation CHR ''b'' 0)) = None"
  by code_simp+

lemma reachable_queued: "reachable queued_store"
  unfolding queued_store_def
  by (rule reachable_step[OF reachable_step[OF reachable_step[OF reachable_empty st_add_workstation]
        st_create[OF sample_valid(2) _ sample_new(1)]] st_create[OF sample_valid(1) _ sample_new(2)]]) simp_all

lemma reachable_leased: "reachable leased_store"
  unfolding leased_store_def by (rule reachable_step[OF reachable_queued st_lease])

lemma reachable_running: "reachable running_store"
  unfolding running_store_def by (rule reachable_step[OF reachable_leased st_start])

lemma reachable_catalog: "reachable catalog_store"
  unfolding catalog_store_def
  by (rule reachable_step[OF reachable_step[OF reachable_step[OF reachable_empty st_add_workstation]
        st_add_project] st_add_drawing])

section \<open>Invariants of every reachable store\<close>

text \<open>
  In every reachable store a workstation of a tenant has at most one operation that is
  leased or running.
\<close>

theorem one_active_operation:
  assumes "reachable s"
    and "find_op s k = Some r" and "o_state r = LEASED \<or> o_state r = RUNNING"
    and "find_op s k' = Some r'" and "o_state r' = LEASED \<or> o_state r' = RUNNING"
    and "o_tenant r = o_tenant r'" and "o_ws r = o_ws r'"
  shows "k = k'"
  using repo_wf_one_active[OF reachable_wf[OF assms(1)]] assms(2-) by (simp add: active_def)

theorem one_active_operation_witness:
  "the (find_op leased_store (oid CHR ''b'')) = leased_record (sample_operation CHR ''b'' 0) 30
   \<and> oid CHR ''b'' = oid CHR ''b''"
proof -
  have f: "find_op leased_store (oid CHR ''b'') = Some (leased_record (sample_operation CHR ''b'' 0) 30)"
    by code_simp
  from one_active_operation[OF reachable_leased f _ f] have "oid CHR ''b'' = oid CHR ''b''" by simp
  with f show ?thesis by simp
qed

text \<open>
  Every stored operation is filed under its own id and passes OperationRecord's validator
  unchanged, so no method ever stores a record the model would refuse.
\<close>

theorem stored_operations_valid:
  assumes "reachable s" and "find_op s k = Some r"
  shows "o_id r = k \<and> model_validate r = Inr r"
  using repo_wf_op[OF reachable_wf[OF assms(1)] assms(2)] by (simp add: op_wf_model_validate)

theorem stored_operations_valid_witness:
  "\<exists>r. find_op running_store (oid CHR ''b'') = Some r \<and> o_state r = RUNNING \<and> model_validate r = Inr r"
proof -
  have "\<not> none (find_op running_store (oid CHR ''b''))
      \<and> o_state (the (find_op running_store (oid CHR ''b''))) = RUNNING" by code_simp
  then obtain r where r: "find_op running_store (oid CHR ''b'') = Some r" "o_state r = RUNNING" by auto
  with stored_operations_valid[OF reachable_running r(1)] show ?thesis by blast
qed

text \<open>
  C28: Whatever methods run, a stored operation keeps its identity (id, owner, task, fingerprint,
  deadlines), moves only along the edges of the lifecycle, and a terminal one never changes again.
\<close>

theorem lifecycle_only_forward:
  assumes "reachable s" and "repo_step\<^sup>*\<^sup>* s t" and "find_op s k = Some r"
  shows "\<exists>r'. find_op t k = Some r' \<and> same_identity r r'
    \<and> (r' = r \<or> lifecycle_edge\<^sup>+\<^sup>+ (o_state r) (o_state r')) \<and> (terminal (o_state r) \<longrightarrow> r' = r)"
proof -
  have "ops_evolve s t"
    using repo_steps_good[OF assms(2)] reachable_wf[OF assms(1)] by (simp add: good_step_def)
  then obtain r' where r': "find_op t k = Some r'" "evolves r r'" using assms(3) by (auto simp add: ops_evolve_def)
  then show ?thesis using evolves_identity[OF r'(2)] evolves_terminal[OF r'(2)] by (auto simp add: evolves_def)
qed

theorem lifecycle_only_forward_witness:
  "\<exists>r'. find_op running_store (oid CHR ''b'') = Some r'
     \<and> same_identity (leased_record (sample_operation CHR ''b'' 0) 30) r'"
proof -
  have f: "find_op leased_store (oid CHR ''b'') = Some (leased_record (sample_operation CHR ''b'' 0) 30)"
    by code_simp
  have "repo_step\<^sup>*\<^sup>* leased_store running_store"
    unfolding running_store_def by (intro r_into_rtranclp st_start)
  from lifecycle_only_forward[OF reachable_leased this f] show ?thesis by blast
qed

text \<open>
  In every reachable store a drawing's project and a project's workstation are stored, and
  the rows agree on tenant, owner and workstation.
\<close>

theorem catalog_rows_consistent:
  assumes "reachable s" and "find_drw s k = Some d"
  shows "\<exists>p w. find_prj s (drw_prj d) = Some p \<and> find_ws s (prj_ws p) = Some w \<and> drw_id d = k
    \<and> prj_tenant p = drw_tenant d \<and> prj_owner p = drw_owner d \<and> prj_ws p = drw_ws d
    \<and> ws_tenant w = drw_tenant d \<and> ws_owner w = drw_owner d \<and> ws_id w = drw_ws d"
proof -
  have "catalog_wf s" using reachable_wf[OF assms(1)] by (simp add: repo_wf_def)
  then have rows: "drw_id d = k" "child_of_prj s d" "\<And>k p. find_prj s k = Some p \<Longrightarrow> child_of_ws s p"
    "\<And>k w. find_ws s k = Some w \<Longrightarrow> ws_id w = k"
    using assms(2) by (simp_all add: catalog_wf_iff)
  from rows(2) obtain p where p: "find_prj s (drw_prj d) = Some p" "prj_tenant p = drw_tenant d"
    "prj_owner p = drw_owner d" "prj_ws p = drw_ws d" by (auto simp add: child_of_prj_def)
  from rows(3)[OF p(1)] obtain w where "find_ws s (prj_ws p) = Some w" "ws_tenant w = prj_tenant p"
    "ws_owner w = prj_owner p" by (auto simp add: child_of_ws_def)
  with p rows(1) rows(4)[of "prj_ws p" w] show ?thesis by simp
qed

theorem catalog_rows_consistent_witness:
  "\<exists>w. find_ws catalog_store wid = Some w \<and> ws_owner w = uid"
proof -
  have "find_drw catalog_store (''drw_'' @ uuid_tail CHR ''d'') = Some (sample_drawing CHR ''d'' CHR ''d'')"
    by code_simp
  from catalog_rows_consistent[OF reachable_catalog this] show ?thesis by (auto simp add: sample_drawing_def)
qed

section \<open>Creating\<close>

text \<open>
  Creating is idempotent: once a create has stored or found an operation, any later create with
  the same tenant, owner, client and idempotency key leaves the store alone and returns that same
  operation, as existing when the request fingerprint agrees and as a conflict when it does not.
\<close>

theorem idempotent_create:
  assumes s: "reachable s" and new: "model_validate r = Inr r" "o_state r = CREATED" "find_op s (o_id r) = None"
    and first: "create_or_get_operation r s = (Inr (CreateOutcome st oper), t)"
    and later: "repo_step\<^sup>*\<^sup>* t u" and key: "idem_key q = idem_key r"
  shows "\<exists>oper'. same_identity oper oper' \<and> create_or_get_operation q u =
     (Inr (CreateOutcome (if o_fingerprint oper = o_fingerprint q then CreateExisting else CreateConflict) oper'), u)"
proof -
  have st: "repo_step s t" using st_create[OF new] first by simp
  then have t: "reachable t" using s by (rule_tac reachable_step)
  have u: "reachable u" using t later unfolding reachable_def by simp
  have found: "find_op t (o_id oper) = Some oper \<and> idem_key oper = idem_key r"
  proof (cases "map_of (g_idempotency s) (idem_key r)")
    case None
    with first show ?thesis by (auto simp add: create_or_get_operation_def)
  next
    case (Some k)
    have "\<exists>r'. find_op s k = Some r' \<and> idem_key r' = idem_key r"
      by (rule repo_wf_idem(2)[OF reachable_wf[OF s] Some])
    with Some first repo_wf_op(1)[OF reachable_wf[OF s]] show ?thesis
      by (auto simp add: create_or_get_operation_def split: if_splits)
  qed
  have "ops_evolve t u" using repo_steps_good[OF later] reachable_wf[OF t] by (simp add: good_step_def)
  with found obtain oper' where o': "find_op u (o_id oper) = Some oper'" "evolves oper oper'"
    by (auto simp add: ops_evolve_def)
  have id: "same_identity oper oper'" using o'(2) by (rule evolves_identity)
  have "map_of (g_idempotency u) (idem_key oper') = Some (o_id oper)"
    by (rule repo_wf_idem(1)[OF reachable_wf[OF u] o'(1)])
  moreover have "idem_key oper' = idem_key q" using id found key by (simp add: same_identity_def idem_key_def)
  moreover have "o_fingerprint oper' = o_fingerprint oper" using id by (simp add: same_identity_def)
  ultimately have "create_or_get_operation q u =
     (Inr (CreateOutcome (if o_fingerprint oper = o_fingerprint q then CreateExisting else CreateConflict) oper'), u)"
    using o'(1) by (simp add: create_or_get_operation_def)
  with id show ?thesis by blast
qed

theorem idempotent_create_witness:
  "\<exists>oper'. create_or_get_operation (sample_operation CHR ''c'' 7) (snd (create_or_get_operation
     (sample_operation CHR ''c'' 5) (snd (add_workstation sample_workstation empty_repo)))) =
     (Inr (CreateOutcome CreateExisting oper'), snd (create_or_get_operation
     (sample_operation CHR ''c'' 5) (snd (add_workstation sample_workstation empty_repo))))"
proof -
  let ?s = "snd (add_workstation sample_workstation empty_repo)"
  let ?r = "sample_operation CHR ''c'' 5"
  have "create_or_get_operation ?r ?s = (Inr (CreateOutcome CreateCreated ?r), snd (create_or_get_operation ?r ?s))"
    by code_simp
  from idempotent_create[OF reachable_step[OF reachable_empty st_add_workstation] sample_valid(2) _ sample_new(1)
      this rtranclp.rtrancl_refl, of "sample_operation CHR ''c'' 7"]
  show ?thesis by (auto simp add: idem_key_def sample_operation_def)
qed

section \<open>Leasing\<close>

text \<open>
  A lease that is handed out goes to the queued operation of that owner and workstation with
  the least creation time and id; its lease ends at the requested time or at the operation's
  deadline, whichever is earlier, it is the only active operation of its workstation, and it is
  stored as returned.
\<close>

theorem lease_is_first_in_queue:
  assumes s: "reachable s"
    and out: "lease_next_operation tenant ws owner now lease_at s = (Inr (Some r'), t)"
  shows "\<exists>r. next_queued tenant ws owner now s r \<and> r' = leased_record r lease_at \<and> now < lease_at
    \<and> find_op t (o_id r) = Some r'
    \<and> (\<forall>k q. find_op t k = Some q \<longrightarrow> at_workstation tenant ws q \<longrightarrow> active q \<longrightarrow> k = o_id r)"
proof (rule lease_next_cases[OF reachable_wf[OF s], of tenant ws owner now lease_at])
  fix s1 r
  assume l: "lease_next_operation tenant ws owner now lease_at s =
      (Inr (Some (leased_record r lease_at)), put_op (o_id r) (leased_record r lease_at) s1)"
    and nq: "next_queued tenant ws owner now s r" and "now < lease_at"
  have w: "waiting tenant ws owner now r" using nq by (simp add: next_queued_def)
  have t: "t = put_op (o_id r) r' s1" "r' = leased_record r lease_at" using l out by simp_all
  have wf: "repo_wf t"
    using lease_next_operation_step[OF reachable_wf[OF s]] out reachable_wf[OF s] by (metis good_step_def snd_conv)
  have here: "find_op t (o_id r) = Some r'" by (simp add: t(1))
  have "k = o_id r" if q: "find_op t k = Some q" "at_workstation tenant ws q" "active q" for k q
    using repo_wf_one_active[OF wf q(1) here] q(2,3) w t(2)
    by (simp add: at_workstation_def waiting_def active_def leased_record_def)
  with nq t(2) here \<open>now < lease_at\<close> show ?thesis by blast
qed (use out in simp_all)

theorem lease_is_first_in_queue_witness:
  "\<exists>r. next_queued tid wid uid 10 queued_store r \<and> leased_record (sample_operation CHR ''b'' 0) 30 = leased_record r 30"
proof -
  have "lease_next_operation tid wid uid 10 30 queued_store =
    (Inr (Some (leased_record (sample_operation CHR ''b'' 0) 30)), leased_store)" by code_simp
  from lease_is_first_in_queue[OF reachable_queued this] show ?thesis by blast
qed

text \<open>
  A workstation with no active operation and a queued one always gets a lease, as long as the lease
  lasts beyond the clock and no operation was created in the clock's future.
\<close>

theorem lease_progress:
  assumes s: "reachable s" and idle: "\<not> busy tenant ws now s"
    and queued: "find_op s k = Some q" "waiting tenant ws owner now q"
    and clock: "now < lease_at" "\<And>k r. find_op s k = Some r \<Longrightarrow> o_created r \<le> now"
  shows "\<exists>r t. lease_next_operation tenant ws owner now lease_at s = (Inr (Some (leased_record r lease_at)), t)"
proof (rule lease_next_cases[OF reachable_wf[OF s], of tenant ws owner now lease_at])
  fix s1 c r
  assume "next_queued tenant ws owner now s r" "lease_at \<le> now \<or> lease_at \<le> o_created r"
  with clock(1) clock(2)[of "o_id r" r] show ?thesis by (simp add: next_queued_def)
qed (use idle queued in blast)+

text \<open>
  The branch of lease_next_operation for a lease that would end at or before the clock never
  expires the operation it selected, although it calls \_expire: the operation's own deadline is
  still ahead, so the record is refused and the call raises a ValidationError.
\<close>

theorem short_lease_is_an_error:
  assumes s: "reachable s" and idle: "\<not> busy tenant ws now s"
    and queued: "find_op s k = Some q" "waiting tenant ws owner now q" and short: "lease_at \<le> now"
  shows "\<exists>c t. lease_next_operation tenant ws owner now lease_at s = (Inl (ValidationError c), t)"
proof (rule lease_next_cases[OF reachable_wf[OF s], of tenant ws owner now lease_at])
  fix s1 r
  assume "now < lease_at"
  with short show ?thesis by simp
qed (use idle queued in blast)+

lemma queued_store_items:
  "g_operations queued_store = [(oid CHR ''c'', sample_operation CHR ''c'' 5), (oid CHR ''b'', sample_operation CHR ''b'' 0)]"
  by code_simp

lemma queued_store_idle: "\<not> busy tid wid now queued_store"
  using refreshed_active[of _ now]
  by (auto simp add: busy_def queued_store_items active_def split: if_splits) (metis operation_state.distinct sample_created)+

lemma queued_store_waiting:
  "find_op queued_store (oid CHR ''b'') = Some (sample_operation CHR ''b'' 0)"
  "waiting tid wid uid 10 (sample_operation CHR ''b'' 0)"
  by code_simp+

theorem lease_progress_witness:
  "\<exists>r t. lease_next_operation tid wid uid 10 30 queued_store = (Inr (Some (leased_record r 30)), t)"
  by (rule lease_progress[OF reachable_queued queued_store_idle queued_store_waiting])
    (auto simp add: queued_store_items sample_operation_def split: if_splits)

theorem short_lease_is_an_error_witness:
  "\<exists>c t. lease_next_operation tid wid uid 10 10 queued_store = (Inl (ValidationError c), t)"
  by (rule short_lease_is_an_error[OF reachable_queued queued_store_idle queued_store_waiting]) simp

section \<open>Starting, finishing and applying\<close>

definition running_record :: "operation_record \<Rightarrow> instant \<Rightarrow> operation_record" where
  "running_record r now = r\<lparr>o_state := RUNNING, o_lease := None, o_started := Some now\<rparr>"

lemma running_record_valid:
  assumes "op_wf r" and "o_state r = LEASED" and "o_lease r = Some l" and "now < l"
  shows "model_validate (running_record r now) = (if o_created r \<le> now then Inr (running_record r now)
     else Inl (ValidationError ''operation_start_outside_deadline''))"
proof (cases "o_created r \<le> now")
  case True
  with assms have "op_wf (running_record r now)"
    by (auto simp add: op_wf_def running_record_def operation_fields_ok_def deadlines_hold_def state_data_holds_def)
  with True show ?thesis by (simp add: op_wf_model_validate)
next
  case False
  with assms show ?thesis
    by (auto simp add: running_record_def model_validate_def op_wf_def operation_fields_ok_def
        validate_state_shape_def validate_deadlines_def deadlines_hold_def)
qed

lemma lease_iff_leased: "op_wf r \<Longrightarrow> o_state r = LEASED \<longleftrightarrow> o_lease r \<noteq> None"
  by (cases "o_state r") (auto simp add: op_wf_def state_data_holds_def)

lemma start_operation_result:
  assumes wf: "op_wf r" and r: "find_op s k = Some r" and own: "o_tenant r = tenant" "o_ws r = ws"
  shows "start_operation k tenant ws now s = (case o_lease r of
      None \<Rightarrow> (Inr (TransitionOutcome TransInvalidState (Some r)), s)
    | Some l \<Rightarrow>
        if l \<le> now
        then (Inr (TransitionOutcome TransLeaseExpired (Some (lost_record r now))), put_op k (lost_record r now) s)
        else if o_created r \<le> now
        then (Inr (TransitionOutcome TransUpdated (Some (running_record r now))), put_op k (running_record r now) s)
        else (Inl (ValidationError ''operation_start_outside_deadline''), s))"
proof -
  show ?thesis
  proof (cases "o_lease r")
    case None
    with lease_iff_leased[OF wf] r own show ?thesis by (simp add: start_operation_def worker_owns_def)
  next
    case (Some l)
    then have st: "o_state r = LEASED" using lease_iff_leased[OF wf] by simp
    have lapsed: "attention_required r now = Inr (lost_record r now)" if "l \<le> now"
      using attention_required_eq[OF lost_record_wf[OF wf st Some that]] .
    show ?thesis using Some st r own lapsed running_record_valid[OF wf st Some, of now]
      by (simp add: start_operation_def worker_owns_def running_record_def[symmetric])
  qed
qed

text \<open>
  Starting an operation of the worker succeeds exactly while its lease is live: with no lease it
  is refused and nothing changes, a lapsed lease sends the operation to ATTENTION\_REQUIRED, a live
  one to RUNNING, and a clock before the operation's creation raises and changes nothing.
\<close>

theorem start_is_fenced:
  assumes s: "reachable s" and r: "find_op s k = Some r" and own: "o_tenant r = tenant" "o_ws r = ws"
  shows "start_operation k tenant ws now s = (case o_lease r of
      None \<Rightarrow> (Inr (TransitionOutcome TransInvalidState (Some r)), s)
    | Some l \<Rightarrow>
        if l \<le> now
        then (Inr (TransitionOutcome TransLeaseExpired (Some (lost_record r now))), put_op k (lost_record r now) s)
        else if o_created r \<le> now
        then (Inr (TransitionOutcome TransUpdated (Some (running_record r now))), put_op k (running_record r now) s)
        else (Inl (ValidationError ''operation_start_outside_deadline''), s))"
  using start_operation_result[OF repo_wf_op(2)[OF reachable_wf[OF s] r] r own] .

theorem start_is_fenced_witness:
  "start_operation (oid CHR ''b'') tid wid 30 leased_store =
     (let r = lost_record (leased_record (sample_operation CHR ''b'' 0) 30) 30 in
      (Inr (TransitionOutcome TransLeaseExpired (Some r)), put_op (oid CHR ''b'') r leased_store))"
proof -
  have f: "find_op leased_store (oid CHR ''b'') = Some (leased_record (sample_operation CHR ''b'' 0) 30)"
    by code_simp
  have o: "o_tenant (leased_record (sample_operation CHR ''b'' 0) 30) = tid"
    "o_ws (leased_record (sample_operation CHR ''b'' 0) 30) = wid"
    "o_lease (leased_record (sample_operation CHR ''b'' 0) 30) = Some 30"
    by (simp_all add: leased_record_def sample_operation_def)
  show ?thesis using start_is_fenced[OF reachable_leased f o(1,2), of 30] o(3) by (simp add: Let_def)
qed

text \<open>
  To a worker of another tenant or workstation an operation does not exist: start, finish
  and apply answer not\_found and leave the store untouched, whatever state the operation is in.
\<close>

theorem foreign_worker_sees_nothing:
  assumes "find_op s k = None \<or> (\<exists>r. find_op s k = Some r \<and> (o_tenant r \<noteq> tenant \<or> o_ws r \<noteq> ws))"
    and "st = SUCCEEDED \<or> st = FAILED \<or> st = ATTENTION_REQUIRED"
  shows "start_operation k tenant ws now s = (Inr (TransitionOutcome TransNotFound None), s)
    \<and> finish_operation k tenant ws now st result err s = (Inr (TransitionOutcome TransNotFound None), s)
    \<and> apply_worker_success k tenant ws now res ps ds s = (Inr (TransitionOutcome TransNotFound None), s)"
  using assms
  by (auto simp add: start_operation_def finish_operation_def apply_worker_success_def worker_owns_def)

theorem foreign_worker_sees_nothing_witness:
  "start_operation (oid CHR ''b'') tid (oid CHR ''a'') 20 leased_store =
     (Inr (TransitionOutcome TransNotFound None), leased_store)"
proof -
  have f: "find_op leased_store (oid CHR ''b'') = Some (leased_record (sample_operation CHR ''b'' 0) 30)"
    by code_simp
  have "o_ws (leased_record (sample_operation CHR ''b'' 0) 30) \<noteq> oid CHR ''a''" by code_simp
  with f foreign_worker_sees_nothing[of leased_store "oid CHR ''b''" tid "oid CHR ''a''" FAILED]
  show ?thesis by blast
qed

lemma finish_operation_updated:
  assumes s: "repo_wf s"
    and out: "finish_operation k tenant ws now st result err s = (Inr (TransitionOutcome TransUpdated v), t)"
  shows "\<exists>r r'. find_op s k = Some r \<and> o_tenant r = tenant \<and> o_ws r = ws \<and> o_state r = RUNNING
    \<and> now < o_expires r \<and> v = Some r' \<and> find_op t k = Some r'
    \<and> r' = r\<lparr>o_state := st, o_completed := Some now, o_result := result, o_error := map_option str_strip err\<rparr>
    \<and> (st = SUCCEEDED \<longrightarrow> err = None \<and> (\<exists>w. result = Some w \<and> result_command w = command_of (o_task r)))
    \<and> (st \<noteq> SUCCEEDED \<longrightarrow> result = None \<and> err \<noteq> None)"
proof -
  from out obtain r where r: "find_op s k = Some r" "o_tenant r = tenant" "o_ws r = ws"
    by (auto simp add: finish_operation_def worker_owns_def split: if_splits option.splits)
  have wf: "op_wf r" using repo_wf_op(2)[OF s r(1)] .
  from out r refresh_due_eq[OF wf, of now] have run: "o_state (refreshed r now) = RUNNING"
    by (auto simp add: finish_operation_def worker_owns_def Let_def split: if_splits)
  then have q: "refreshed r now = r" "o_state r = RUNNING" "now < o_expires r" using refreshed_running by blast+
  from out r q refresh_due_eq[OF wf, of now] obtain r' where r':
    "model_validate (r\<lparr>o_state := st, o_completed := Some now, o_result := result, o_error := err\<rparr>) = Inr r'"
    "v = Some r'" "t = put_op k r' s" "st = SUCCEEDED \<or> st = FAILED \<or> st = ATTENTION_REQUIRED"
    by (auto simp add: finish_operation_def worker_owns_def Let_def split: if_splits sum.splits)
  note val = model_validate_result[OF r'(1)]
  have shape: "state_data_holds r'" using val unfolding op_wf_def by blast
  have rec: "r' = r\<lparr>o_state := st, o_completed := Some now, o_result := result, o_error := map_option str_strip err\<rparr>"
    using val by simp
  have data: "(st = SUCCEEDED \<longrightarrow> err = None \<and> (\<exists>w. result = Some w \<and> result_command w = command_of (o_task r)))
    \<and> (st \<noteq> SUCCEEDED \<longrightarrow> result = None \<and> err \<noteq> None)"
    using shape r'(4) unfolding rec state_data_holds_def by auto
  show ?thesis using r q r'(2,3) rec data by simp
qed

text \<open>
  A worker's outcome is recorded only for an operation that is running, before its deadline: the
  stored record is the old one with the outcome written in, a success carries a result of the
  task's own command and no error, any other outcome an error code and no result.
\<close>

theorem finish_in_time:
  assumes s: "reachable s"
    and out: "finish_operation k tenant ws now st result err s = (Inr (TransitionOutcome TransUpdated v), t)"
  shows "\<exists>r r'. find_op s k = Some r \<and> o_tenant r = tenant \<and> o_ws r = ws \<and> o_state r = RUNNING
    \<and> now < o_expires r \<and> v = Some r' \<and> find_op t k = Some r'
    \<and> r' = r\<lparr>o_state := st, o_completed := Some now, o_result := result, o_error := map_option str_strip err\<rparr>
    \<and> (st = SUCCEEDED \<longrightarrow> err = None \<and> (\<exists>w. result = Some w \<and> result_command w = command_of (o_task r)))
    \<and> (st \<noteq> SUCCEEDED \<longrightarrow> result = None \<and> err \<noteq> None)"
  by (rule finish_operation_updated[OF reachable_wf[OF s] out])

text \<open>A record of the worker's failure, on the sample store.\<close>

theorem finish_in_time_witness:
  "\<exists>r. find_op (snd (finish_operation (oid CHR ''b'') tid wid 20 FAILED None (Some ''x'') running_store)) (oid CHR ''b'')
     = Some r \<and> o_state r = FAILED \<and> o_error r = Some ''x''"
proof -
  let ?f = "finish_operation (oid CHR ''b'') tid wid 20 FAILED None (Some ''x'') running_store"
  have "(case fst ?f of Inr (TransitionOutcome TransUpdated v) \<Rightarrow> True | _ \<Rightarrow> False)" by code_simp
  then obtain v where "?f = (Inr (TransitionOutcome TransUpdated v), snd ?f)"
    by (cases ?f) (auto split: sum.splits transition_outcome.splits transition_status.splits)
  from finish_in_time[OF reachable_running this] obtain r r' where
    "find_op (snd ?f) (oid CHR ''b'') = Some r'" and
    "r' = r\<lparr>o_state := FAILED, o_completed := Some 20, o_result := None, o_error := map_option str_strip (Some ''x'')\<rparr>"
    by blast
  then show ?thesis by (simp add: str_strip_def is_space_def)
qed


text \<open>
  Once the deadline of a running operation has passed no outcome is recorded any more: the
  worker's answer is refused, and the operation is EXPIRED, or ATTENTION\_REQUIRED when it may
  have written a translation to the drawing.
\<close>

theorem late_outcome_is_refused:
  assumes s: "reachable s" and r: "find_op s k = Some r" "o_tenant r = tenant" "o_ws r = ws"
    and run: "o_state r = RUNNING" and late: "o_expires r \<le> now"
    and st: "st = SUCCEEDED \<or> st = FAILED \<or> st = ATTENTION_REQUIRED"
  shows "let r' = (if is_translation_apply (o_task r) then uncertain_record r now else expired_record r now);
      answer = (Inr (TransitionOutcome (if is_translation_apply (o_task r) then TransInvalidState
        else TransOperationExpired) (Some r')), put_op k r' s)
    in finish_operation k tenant ws now st result err s = answer
      \<and> apply_worker_success k tenant ws now res ps ds s = answer"
proof -
  define r' where "r' = (if is_translation_apply (o_task r) then uncertain_record r now else expired_record r now)"
  have due: "refresh_due r now = Inr r'"
    using refresh_due_eq[OF repo_wf_op(2)[OF reachable_wf[OF s] r(1)], of now] run late
    by (simp add: refreshed_def r'_def)
  have st': "o_state r' = (if is_translation_apply (o_task r) then ATTENTION_REQUIRED else EXPIRED)"
    by (simp add: r'_def)
  have "o_state r' \<noteq> o_state r" unfolding st' run by simp
  then have r': "r' \<noteq> r" by blast
  show ?thesis unfolding r'_def[symmetric]
    using due r' st' r st by (auto simp add: finish_operation_def apply_worker_success_def worker_owns_def Let_def)
qed

theorem late_outcome_is_refused_witness:
  "\<exists>t. finish_operation (oid CHR ''b'') tid wid 60 SUCCEEDED (Some (ListProjectsResult [])) None running_store
     = (Inr (TransitionOutcome TransOperationExpired (Some (expired_record
         (running_record (leased_record (sample_operation CHR ''b'' 0) 30) 12) 60))), t)"
proof -
  let ?r = "running_record (leased_record (sample_operation CHR ''b'' 0) 30) 12"
  have f: "find_op running_store (oid CHR ''b'') = Some ?r" by code_simp
  have o: "o_tenant ?r = tid" "o_ws ?r = wid" "o_state ?r = RUNNING" "o_expires ?r \<le> 60"
    "\<not> is_translation_apply (o_task ?r)"
    by (simp_all add: running_record_def leased_record_def sample_operation_def)
  show ?thesis
    using late_outcome_is_refused[OF reachable_running f o(1-4), of SUCCEEDED] o(5) by (simp add: Let_def)
qed

lemma put_projects_new:
  "find_prj (put_projects ps s) k = Some p \<Longrightarrow> find_prj s k = Some p \<or> p \<in> set ps"
  unfolding put_projects_def by (induction ps arbitrary: s) (fastforce split: if_splits)+

lemma put_drawings_new:
  "find_drw (put_drawings ds s) k = Some d \<Longrightarrow> find_drw s k = Some d \<or> d \<in> set ds"
  unfolding put_drawings_def by (induction ds arbitrary: s) (fastforce split: if_splits)+

lemma drawing_row_ok_owner:
  assumes "drawing_row_ok oper s ps d"
  shows "drw_tenant d = o_tenant oper" "drw_owner d = o_owner oper" "drw_ws d = o_ws oper"
  using assms by (simp_all add: drawing_row_ok_def split: option.splits)

lemma apply_worker_success_updated:
  assumes wf: "repo_wf s"
    and out: "apply_worker_success k tenant ws now result ps ds s = (Inr (TransitionOutcome TransUpdated v), t)"
    and r: "find_op s k = Some r" and fresh: "o_state r \<noteq> SUCCEEDED"
  obtains r' u where "o_tenant r = tenant" "o_ws r = ws" "o_state r = RUNNING" "now < o_expires r" "v = Some r'"
    "validate_worker_catalog_application r result ps ds s = Inr u"
    "r' = r\<lparr>o_state := SUCCEEDED, o_completed := Some now, o_result := Some result, o_error := None\<rparr>"
    "t = put_op k r' (put_drawings ds (put_projects ps s))"
proof -
  from out r have own: "o_tenant r = tenant" "o_ws r = ws"
    by (auto simp add: apply_worker_success_def worker_owns_def split: if_splits)
  note due = refresh_due_eq[OF repo_wf_op(2)[OF wf r], of now]
  have "o_state (refreshed r now) = SUCCEEDED \<Longrightarrow> o_state r = SUCCEEDED"
    by (auto simp add: refreshed_def split: if_splits)
  with out r own due fresh have run: "o_state (refreshed r now) = RUNNING"
    by (auto simp add: apply_worker_success_def worker_owns_def Let_def split: if_splits)
  then have q: "refreshed r now = r" "o_state r = RUNNING" "now < o_expires r" using refreshed_running by blast+
  from out r own q due obtain u r' where r':
    "validate_worker_catalog_application r result ps ds s = Inr u"
    "model_validate (r\<lparr>o_state := SUCCEEDED, o_completed := Some now, o_result := Some result, o_error := None\<rparr>) = Inr r'"
    "v = Some r'" "t = put_op k r' (put_drawings ds (put_projects ps s))"
    by (auto simp add: apply_worker_success_def worker_owns_def Let_def split: if_splits sum.splits)
  have "r' = r\<lparr>o_state := SUCCEEDED, o_completed := Some now, o_result := Some result, o_error := None\<rparr>"
    using model_validate_result[OF r'(2)] by simp
  from own q(2,3) r'(3,1) this r'(4) show ?thesis by (rule that)
qed

text \<open>
  C35: A worker's success is applied only to an operation running before its deadline, with a
  result for the task's command; then the operation is stored as SUCCEEDED with that result, and
  every catalog row the call wrote belongs to the operation's own tenant, owner and workstation.
\<close>

theorem apply_binds_rows:
  assumes s: "reachable s"
    and out: "apply_worker_success k tenant ws now result ps ds s = (Inr (TransitionOutcome TransUpdated v), t)"
    and r: "find_op s k = Some r" and fresh: "o_state r \<noteq> SUCCEEDED"
  shows "o_tenant r = tenant \<and> o_ws r = ws \<and> o_state r = RUNNING \<and> now < o_expires r
    \<and> result_command result = command_of (o_task r)
    \<and> find_op t k = Some (r\<lparr>o_state := SUCCEEDED, o_completed := Some now, o_result := Some result, o_error := None\<rparr>)
    \<and> (\<forall>i p. find_prj t i = Some p \<longrightarrow> find_prj s i = Some p
        \<or> prj_tenant p = tenant \<and> prj_owner p = o_owner r \<and> prj_ws p = ws)
    \<and> (\<forall>i d. find_drw t i = Some d \<longrightarrow> find_drw s i = Some d
        \<or> drw_tenant d = tenant \<and> drw_owner d = o_owner r \<and> drw_ws d = ws)"
proof (rule apply_worker_success_updated[OF reachable_wf[OF s] out r fresh])
  fix r' u
  assume own: "o_tenant r = tenant" "o_ws r = ws" "o_state r = RUNNING" "now < o_expires r"
    and u: "validate_worker_catalog_application r result ps ds s = Inr u"
    and r': "r' = r\<lparr>o_state := SUCCEEDED, o_completed := Some now, o_result := Some result, o_error := None\<rparr>"
    and t: "t = put_op k r' (put_drawings ds (put_projects ps s))"
  note val = validated_application[OF u]
  have "find_prj s i = Some p \<or> prj_tenant p = tenant \<and> prj_owner p = o_owner r \<and> prj_ws p = ws"
    if "find_prj t i = Some p" for i p
    using that put_projects_new[of ps s i p] val(3) own project_row_okD(3-5)[of r s p]
    by (auto simp add: t list_all_iff)
  moreover have "find_drw s i = Some d \<or> drw_tenant d = tenant \<and> drw_owner d = o_owner r \<and> drw_ws d = ws"
    if "find_drw t i = Some d" for i d
  proof -
    have "find_drw s i = Some d \<or> d \<in> set ds" using that put_drawings_new[of ds "put_projects ps s" i d] by (simp add: t)
    then show ?thesis using val(4) own drawing_row_ok_owner[of r s ps d] by (auto simp add: list_all_iff)
  qed
  ultimately show ?thesis using own val(1) by (simp add: t r')
qed

lemma running_store_op: "find_op running_store (oid CHR ''b'') =
    Some (running_record (leased_record (sample_operation CHR ''b'' 0) 30) 12)"
  by code_simp

definition applied_store :: gateway_repo where
  "applied_store = snd (apply_worker_success (oid CHR ''b'') tid wid 20 (ListProjectsResult [''prj_'' @ uuid_tail CHR ''d''])
     [sample_project CHR ''d''] [] running_store)"

lemma applied_store_result:
  "\<exists>v. apply_worker_success (oid CHR ''b'') tid wid 20 (ListProjectsResult [''prj_'' @ uuid_tail CHR ''d''])
     [sample_project CHR ''d''] [] running_store = (Inr (TransitionOutcome TransUpdated v), applied_store)"
proof -
  let ?f = "apply_worker_success (oid CHR ''b'') tid wid 20 (ListProjectsResult [''prj_'' @ uuid_tail CHR ''d''])
     [sample_project CHR ''d''] [] running_store"
  have "(case fst ?f of Inr (TransitionOutcome TransUpdated v) \<Rightarrow> True | _ \<Rightarrow> False)" by code_simp
  then show ?thesis unfolding applied_store_def
    by (cases ?f) (auto split: sum.splits transition_outcome.splits transition_status.splits)
qed

theorem apply_binds_rows_witness:
  "\<exists>r. find_op applied_store (oid CHR ''b'') = Some r \<and> o_state r = SUCCEEDED"
proof -
  obtain v where v: "apply_worker_success (oid CHR ''b'') tid wid 20 (ListProjectsResult [''prj_'' @ uuid_tail CHR ''d''])
     [sample_project CHR ''d''] [] running_store = (Inr (TransitionOutcome TransUpdated v), applied_store)"
    using applied_store_result by blast
  show ?thesis using apply_binds_rows[OF reachable_running v running_store_op] by (simp add: running_record_def)
qed

text \<open>
  Delivering the same success again, at any later time and with any rows, is answered as
  updated and changes nothing; a different result for the finished operation is refused.
\<close>

theorem apply_is_replayable:
  assumes s: "reachable s"
    and out: "apply_worker_success k tenant ws now result ps ds s = (Inr (TransitionOutcome TransUpdated v), t)"
    and later: "repo_step\<^sup>*\<^sup>* t u"
  shows "\<exists>r. apply_worker_success k tenant ws now' result' ps' ds' u =
     (Inr (TransitionOutcome (if result' = result then TransUpdated else TransInvalidState) (Some r)), u)"
proof -
  from out obtain r where r: "find_op s k = Some r"
    by (cases "find_op s k") (auto simp add: apply_worker_success_def)
  have wft: "repo_wf t" and ev: "ops_evolve s t"
    using apply_worker_success_step[OF reachable_wf[OF s]] out reachable_wf[OF s]
    by (metis good_step_def snd_conv)+
  have fin: "\<exists>q. find_op t k = Some q \<and> o_state q = SUCCEEDED \<and> o_result q = Some result \<and> o_tenant q = tenant \<and> o_ws q = ws"
  proof (cases "o_state r = SUCCEEDED")
    case True
    then have "refresh_due r now = Inr r" by (simp add: refresh_due_def)
    with True out r have "t = s" "o_tenant r = tenant" "o_ws r = ws" "o_result r = Some result"
      by (auto simp add: apply_worker_success_def worker_owns_def Let_def split: if_splits)
    with r True show ?thesis by simp
  next
    case False
    show ?thesis by (rule apply_worker_success_updated[OF reachable_wf[OF s] out r False]) simp
  qed
  then obtain q where q: "find_op t k = Some q" "o_state q = SUCCEEDED" "o_result q = Some result"
    "o_tenant q = tenant" "o_ws q = ws" by blast
  have "ops_evolve t u" using repo_steps_good[OF later wft] wft by (simp add: good_step_def)
  with q(1,2) have u: "find_op u k = Some q"
    using evolves_terminal[of q] by (auto simp add: ops_evolve_def terminal_def)
  have "refresh_due q now' = Inr q" using q(2) by (simp add: refresh_due_def)
  with u q show ?thesis by (auto simp add: apply_worker_success_def worker_owns_def Let_def)
qed

theorem apply_is_replayable_witness:
  "\<exists>r. apply_worker_success (oid CHR ''b'') tid wid 99 (ListProjectsResult []) [] [] applied_store =
     (Inr (TransitionOutcome TransInvalidState (Some r)), applied_store)"
proof -
  obtain v where v: "apply_worker_success (oid CHR ''b'') tid wid 20 (ListProjectsResult [''prj_'' @ uuid_tail CHR ''d''])
     [sample_project CHR ''d''] [] running_store = (Inr (TransitionOutcome TransUpdated v), applied_store)"
    using applied_store_result by blast
  from apply_is_replayable[OF reachable_running v rtranclp.rtrancl_refl, of 99 "ListProjectsResult []" "[]" "[]"]
  show ?thesis by simp
qed

text \<open>
  Applying is not atomic when the clock has stepped back behind the operation's start: the
  completed record is refused by the validator after the rows are written, so the call raises and
  the rows stay while the operation is still running.
\<close>

theorem apply_is_not_atomic:
  assumes s: "reachable s" and r: "find_op s k = Some r" "o_state r = RUNNING" "o_started r = Some b" "now < b"
    and ok: "validate_worker_catalog_application r result ps ds s = Inr ()"
  shows "\<exists>c. apply_worker_success k (o_tenant r) (o_ws r) now result ps ds s =
     (Inl (ValidationError c), put_drawings ds (put_projects ps s))"
proof -
  have wf: "op_wf r" using repo_wf_op(2)[OF reachable_wf[OF s] r(1)] .
  then have "now < o_expires r" using r(3,4) by (auto simp add: op_wf_def deadlines_hold_def)
  then have due: "refresh_due r now = Inr r" using r(2) by (simp add: refresh_due_def)
  let ?r = "r\<lparr>o_state := SUCCEEDED, o_completed := Some now, o_result := Some result, o_error := None\<rparr>"
  have "\<not> deadlines_hold ?r" using r(3,4) by (auto simp add: deadlines_hold_def)
  then have "model_validate ?r \<noteq> Inr q" for q using model_validate_result[of ?r q] by (auto simp add: op_wf_def)
  then obtain e where "model_validate ?r = Inl e" by (cases "model_validate ?r") auto
  moreover from this obtain c where "e = ValidationError c" by (auto dest: model_validate_error)
  ultimately show ?thesis using r(1,2) due ok by (simp add: apply_worker_success_def worker_owns_def Let_def)
qed

theorem apply_is_not_atomic_witness:
  "\<exists>c. apply_worker_success (oid CHR ''b'') tid wid 11 (ListProjectsResult [''prj_'' @ uuid_tail CHR ''d''])
     [sample_project CHR ''d''] [] running_store = (Inl (ValidationError c),
       put_drawings [] (put_projects [sample_project CHR ''d''] running_store))"
proof -
  let ?r = "running_record (leased_record (sample_operation CHR ''b'' 0) 30) 12"
  have "validate_worker_catalog_application ?r (ListProjectsResult [''prj_'' @ uuid_tail CHR ''d''])
     [sample_project CHR ''d''] [] running_store = Inr ()" by code_simp
  from apply_is_not_atomic[OF reachable_running running_store_op _ _ _ this, of 12 11]
  show ?thesis by (simp add: running_record_def leased_record_def sample_operation_def)
qed

end
