(* ===== verification/Service_Contract.thy ===== *)
theory Service_Contract
  imports Gateway_Service Repository_Properties
begin

text \<open>
  What GatewayService relies on: the laws of a catalog, of an operation store and of both
  together, as locales, with the service lemmas proved inside them, and their interpretation on
  the in-memory repository.
\<close>

declare map_of_eq_Some_iff [simp del]

declare Some_eq_map_of_iff [simp del]

section \<open>Contracts\<close>

locale catalog_contract =
  fixes C :: "'s catalog_repository"
    and fw :: "'s \<Rightarrow> string \<Rightarrow> workstation_record option"
    and fp :: "'s \<Rightarrow> string \<Rightarrow> project_record option"
    and fd :: "'s \<Rightarrow> string \<Rightarrow> drawing_record option"
  assumes get_ws: "c_get_workstation C k s = (Inr (fw s k), s)"
    and get_prj: "c_get_project C k s = (Inr (fp s k), s)"
    and get_drw: "c_get_drawing C k s = (Inr (fd s k), s)"

locale operation_contract =
  fixes Ops :: "'s operation_repository"
    and fo :: "'s \<Rightarrow> string \<Rightarrow> operation_record option"
    and ok :: "'s \<Rightarrow> bool"
  assumes get_op: "r_get Ops k s = (Inr (fo s k), s)"
    and create: "ok s \<Longrightarrow> r_create_or_get Ops r s = (Inr (CreateOutcome st x), t) \<Longrightarrow>
      idem_key x = idem_key r \<and> fo t (o_id x) = Some x
      \<and> (st \<noteq> CreateConflict \<longrightarrow> o_fingerprint x = o_fingerprint r)"
    and refresh: "ok s \<Longrightarrow> r_refresh Ops k now s = (Inr v, t) \<Longrightarrow>
      v = map_option (\<lambda>r. refreshed r now) (fo s k) \<and> fo t k = v"
    and lease: "ok s \<Longrightarrow> r_lease_next Ops tenant ws owner now lease_at s = (Inr (Some x), t) \<Longrightarrow>
      \<exists>r. fo s (o_id r) = Some r \<and> x = leased_record r lease_at \<and> waiting tenant ws owner now r
        \<and> now < lease_at \<and> fo t (o_id x) = Some x"
    and start: "ok s \<Longrightarrow> r_start Ops k tenant ws now s = (Inr (TransitionOutcome TransUpdated v), t) \<Longrightarrow>
      \<exists>r l. fo s k = Some r \<and> o_tenant r = tenant \<and> o_ws r = ws \<and> o_lease r = Some l \<and> now < l
        \<and> v = Some (running_record r now) \<and> fo t k = v"
    and finish: "ok s \<Longrightarrow> r_finish Ops k tenant ws now ost res err s = (Inr (TransitionOutcome TransUpdated v), t) \<Longrightarrow>
      \<exists>r r'. fo s k = Some r \<and> o_state r = RUNNING \<and> now < o_expires r \<and> v = Some r' \<and> fo t k = Some r'
        \<and> same_identity r r' \<and> o_state r' = ost \<and> o_result r' = res"
    and apply_success: "ok s \<Longrightarrow>
      r_apply_success Ops k tenant ws now rv ps ds s = (Inr (TransitionOutcome TransUpdated v), t) \<Longrightarrow>
      \<exists>r r'. fo s k = Some r \<and> v = Some r' \<and> fo t k = Some r' \<and> same_identity r r'
        \<and> o_state r' = SUCCEEDED \<and> o_result r' = Some rv
        \<and> result_command rv = command_of (o_task r)"

locale service_contract = catalog_contract C fw fp fd + operation_contract Ops fo ok
  for C :: "'s catalog_repository" and fw fp fd and Ops :: "'s operation_repository" and fo ok +
  fixes sv :: "'s gateway_service"
  assumes uses_catalog: "sv_catalog sv = C"
    and uses_operations: "sv_operations sv = Ops"
begin

lemma require_workstation_ok:
  "require_workstation sv p k online s = (Inr w, t) \<longleftrightarrow> t = s \<and> fw s k = Some w \<and> ws_enabled w
     \<and> ws_tenant w = p_tenant p \<and> ws_owner w = p_subject p \<and> (online \<longrightarrow> ws_online w)"
  by (auto simp add: require_workstation_def uses_catalog bindS_eq_Inr get_ws split: option.splits if_splits)

lemma require_project_ok:
  "require_project sv p k online s = (Inr (q, w), t) \<longleftrightarrow> fp s k = Some q \<and> prj_enabled q
     \<and> prj_tenant q = p_tenant p \<and> prj_owner q = p_subject p
     \<and> require_workstation sv p (prj_ws q) online s = (Inr w, t)"
  by (auto simp add: require_project_def uses_catalog bindS_eq_Inr get_prj split: option.splits if_splits)

lemma require_drawing_ok:
  "require_drawing sv p k online s = (Inr (d, w), t) \<longleftrightarrow> fd s k = Some d \<and> drw_enabled d
     \<and> drw_tenant d = p_tenant p \<and> drw_owner d = p_subject p
     \<and> (\<exists>q. require_project sv p (drw_prj d) online s = (Inr (q, w), t) \<and> drw_ws d = prj_ws q)"
  by (auto simp add: require_drawing_def uses_catalog bindS_eq_Inr get_drw split: option.splits if_splits prod.splits)

lemma require_worker_workstation_ok:
  "require_worker_workstation sv worker online s = (Inr w, t) \<longleftrightarrow> t = s \<and> fw s (w_ws worker) = Some w
     \<and> ws_enabled w \<and> ws_tenant w = w_tenant worker \<and> (online \<longrightarrow> ws_online w)"
  by (auto simp add: require_worker_workstation_def uses_catalog bindS_eq_Inr get_ws split: option.splits if_splits)

lemma require_worker_operation_ok:
  "require_worker_operation sv worker k s = (Inr r, t) \<longleftrightarrow> t = s \<and> fo s k = Some r
     \<and> o_tenant r = w_tenant worker \<and> o_ws r = w_ws worker"
  by (auto simp add: require_worker_operation_def uses_operations bindS_eq_Inr get_op split: option.splits if_splits)

lemma enqueue_ok:
  assumes "ok s" and "gw_enqueue sv p w key task clk op_id s = (Inr v, t)"
  shows "\<exists>x. v = view_of x \<and> fo t (o_id x) = Some x
    \<and> idem_key x = (p_tenant p, p_subject p, p_client p, key)
    \<and> o_fingerprint x = hexdigest (sv_sha256 sv (fingerprint_text (ws_id w) task))"
proof -
  from assms(2) obtain now r out where o: "model_validate (new_operation sv p w key task now op_id) = Inr r"
    "r_create_or_get Ops r s = (Inr out, t)" "co_status out \<noteq> CreateConflict" "v = view_of (co_operation out)"
    by (auto simp add: gw_enqueue_def bindS_eq_Inr uses_operations catchS_def split: if_splits prod.splits sum.splits)
  obtain st x where out: "out = CreateOutcome st x" by (cases out)
  note r = model_validate_result[OF o(1)]
  from create[OF assms(1) o(2)[unfolded out]] o(3,4) out r show ?thesis
    by (auto simp add: idem_key_def new_operation_def)
qed

lemma get_operation_ok:
  assumes "ok s" and "gw_get_operation sv p k clk s = (Inr v, t)"
  shows "\<exists>r now. clk = Aware now \<and> fo s k = Some r \<and> o_tenant r = p_tenant p \<and> o_owner r = p_subject p
    \<and> o_client r = p_client p \<and> List.member (p_scopes p) READ
    \<and> (command_of (o_task r) = CmdTranslation \<longrightarrow> List.member (p_scopes p) TRANSLATE)
    \<and> v = view_of (refreshed r now) \<and> fo t k = Some (refreshed r now)"
proof -
  from assms(2) obtain r now w u where g: "List.member (p_scopes p) READ" "fo s k = Some r"
    "o_tenant r = p_tenant p" "o_owner r = p_subject p" "o_client r = p_client p" "clk = Aware now"
    "command_of (o_task r) = CmdTranslation \<longrightarrow> List.member (p_scopes p) TRANSLATE"
    "r_refresh Ops k now s = (Inr w, t)" "w = Some u" "v = view_of u"
    by (auto simp add: gw_get_operation_def bindS_eq_Inr uses_operations get_op require_scope_def
        require_operation_owner_def utc_now_def split: if_splits option.splits py_datetime.splits)
  with refresh[OF assms(1) g(8)] show ?thesis by auto
qed

lemma worker_lease_ok:
  assumes "ok s" and "gw_worker_lease sv worker owner n clk s = (Inr (Some l), t)"
  shows "\<exists>w now r. clk = Aware now \<and> fw s (w_ws worker) = Some w \<and> ws_enabled w \<and> ws_online w
    \<and> ws_tenant w = w_tenant worker \<and> ws_owner w = owner
    \<and> waiting (w_tenant worker) (w_ws worker) owner now r \<and> fo s (o_id r) = Some r
    \<and> l_id l = o_id r \<and> l_task l = o_task r \<and> l_idem l = o_idem r \<and> l_ws l = w_ws worker
    \<and> now < l_expires l \<and> l_expires l \<le> now + seconds n \<and> l_expires l \<le> o_expires r \<and> 5 \<le> n \<and> n \<le> 300"
proof -
  from assms(2) obtain w now x where g: "5 \<le> n" "n \<le> 300" "fw s (w_ws worker) = Some w" "ws_enabled w"
    "ws_online w" "ws_tenant w = w_tenant worker" "ws_owner w = owner" "clk = Aware now"
    "r_lease_next Ops (w_tenant worker) (w_ws worker) owner now (now + seconds n) s = (Inr (Some x), t)"
    "lease_of x = Inr l"
    by (auto simp add: gw_worker_lease_def bindS_eq_Inr uses_operations require_worker_workstation_ok
        utc_now_def split: if_splits option.splits py_datetime.splits)
  from lease[OF assms(1) g(9)] obtain r where r: "fo s (o_id r) = Some r" "x = leased_record r (now + seconds n)"
    "waiting (w_tenant worker) (w_ws worker) owner now r" by blast
  from g(10) r(2) have l: "l = \<lparr>l_id = o_id r, l_ws = o_ws r, l_idem = o_idem r, l_task = o_task r,
      l_expires = min (now + seconds n) (o_expires r)\<rparr>"
    by (simp add: lease_of_def leased_record_def)
  have "0 < seconds n" using g(1) by simp
  with g r l show ?thesis by (auto simp add: waiting_def at_workstation_def)
qed

text \<open>Reading the catalog item by item changes nothing, so a binding check returns where it started.\<close>

lemma check_pure: "snd (check_result_project sv oper k s) = s" "snd (check_result_drawing sv oper q k s) = s"
  by (simp_all add: check_result_project_def check_result_drawing_def bindS_def uses_catalog get_prj get_drw)

lemma bind_each_pure: "(\<And>x. snd (f x s) = s) \<Longrightarrow> snd (bind_each f xs s) = s"
proof (induction xs)
  case (Cons x xs)
  with Cons.prems[of x] show ?case by (cases "f x s") (auto simp add: bindS_def split: sum.splits)
qed simp

lemma binding_pure: "snd (validate_result_binding sv oper v s) = s"
  by (simp add: validate_result_binding_def Let_def bind_each_pure check_pure
      split: task_result.splits read_task.splits sum.splits)

lemma application_pure: "snd (validate_worker_application sv oper v ps ds s) = s"
  by (simp add: validate_worker_application_def Let_def binding_pure
      split: task_result.splits read_task.splits)

end

section \<open>The in-memory repository keeps the contracts\<close>

definition mem_service ::
  "int \<Rightarrow> (string \<Rightarrow> nat list) \<Rightarrow> (string \<Rightarrow> string \<Rightarrow> translation_request \<Rightarrow> int) \<Rightarrow> gateway_repo gateway_service" where
  "mem_service ttl sha req_size = \<lparr>sv_catalog = memory_catalog, sv_operations = memory_operations,
     sv_ttl = ttl, sv_sha256 = sha, sv_request_size = req_size\<rparr>"

lemma mem_service_sel [simp]:
  "sv_catalog (mem_service ttl sha req_size) = memory_catalog"
  "sv_operations (mem_service ttl sha req_size) = memory_operations"
  "sv_ttl (mem_service ttl sha req_size) = ttl" "sv_sha256 (mem_service ttl sha req_size) = sha"
  by (simp_all add: mem_service_def)


lemma memory_create:
  assumes wf: "repo_wf s" and "create_or_get_operation r s = (Inr (CreateOutcome st x), t)"
  shows "idem_key x = idem_key r \<and> find_op t (o_id x) = Some x \<and> (st \<noteq> CreateConflict \<longrightarrow> o_fingerprint x = o_fingerprint r)"
proof (cases "map_of (g_idempotency s) (idem_key r)")
  case None
  with assms(2) show ?thesis by (auto simp add: create_or_get_operation_def)
next
  case (Some k)
  from repo_wf_idem(2)[OF wf Some] obtain q where q: "find_op s k = Some q" "idem_key q = idem_key r" by blast
  with assms(2) Some repo_wf_op(1)[OF wf q(1)] show ?thesis
    by (auto simp add: create_or_get_operation_def split: if_splits)
qed

lemma memory_refresh:
  assumes "repo_wf s" and "refresh_operation k now s = (Inr v, t)"
  shows "v = map_option (\<lambda>r. refreshed r now) (find_op s k) \<and> find_op t k = v"
proof (cases "find_op s k")
  case (Some r)
  with assms(2) refresh_due_eq[OF repo_wf_op(2)[OF assms(1) Some], of now] show ?thesis
    by (auto simp add: refresh_operation_def)
qed (use assms(2) in \<open>auto simp add: refresh_operation_def\<close>)

lemma memory_lease:
  assumes wf: "repo_wf s"
    and "lease_next_operation tenant ws owner now lease_at s = (Inr (Some x), t)"
  shows "\<exists>r. find_op s (o_id r) = Some r \<and> x = leased_record r lease_at \<and> waiting tenant ws owner now r
    \<and> now < lease_at \<and> find_op t (o_id x) = Some x"
  by (rule lease_next_cases[OF wf, of tenant ws owner now lease_at])
    (use assms(2) in \<open>auto simp add: next_queued_def\<close>)

lemma memory_start:
  assumes wf: "repo_wf s"
    and out: "start_operation k tenant ws now s = (Inr (TransitionOutcome TransUpdated v), t)"
  shows "\<exists>r l. find_op s k = Some r \<and> o_tenant r = tenant \<and> o_ws r = ws \<and> o_lease r = Some l \<and> now < l
    \<and> v = Some (running_record r now) \<and> find_op t k = v"
proof -
  from out obtain r where r: "find_op s k = Some r" "o_tenant r = tenant" "o_ws r = ws"
    by (auto simp add: start_operation_def worker_owns_def split: if_splits option.splits)
  from start_operation_result[OF repo_wf_op(2)[OF wf r(1)] r, of now] out r show ?thesis
    by (auto split: option.splits if_splits)
qed

lemma memory_finish:
  assumes wf: "repo_wf s"
    and out: "finish_operation k tenant ws now ost res err s = (Inr (TransitionOutcome TransUpdated v), t)"
  shows "\<exists>r r'. find_op s k = Some r \<and> o_state r = RUNNING \<and> now < o_expires r \<and> v = Some r' \<and> find_op t k = Some r'
    \<and> same_identity r r' \<and> o_state r' = ost \<and> o_result r' = res"
  using finish_operation_updated[OF wf out] by (auto simp add: same_identity_def)

lemma memory_apply:
  assumes wf: "repo_wf s"
    and out: "apply_worker_success k tenant ws now rv ps ds s = (Inr (TransitionOutcome TransUpdated v), t)"
  shows "\<exists>r r'. find_op s k = Some r \<and> v = Some r' \<and> find_op t k = Some r' \<and> same_identity r r'
    \<and> o_state r' = SUCCEEDED \<and> o_result r' = Some rv \<and> result_command rv = command_of (o_task r)"
proof -
  from out obtain r where r: "find_op s k = Some r"
    by (cases "find_op s k") (auto simp add: apply_worker_success_def)
  show ?thesis
  proof (cases "o_state r = SUCCEEDED")
    case True
    have sh: "state_data_holds r" using repo_wf_op(2)[OF wf r] by (simp add: op_wf_def)
    have "refresh_due r now = Inr r" using True by (simp add: refresh_due_def)
    with True out r have "t = s" "v = Some r" "o_result r = Some rv"
      by (auto simp add: apply_worker_success_def worker_owns_def Let_def split: if_splits)
    with r True sh show ?thesis by (simp add: state_data_holds_def)
  next
    case False
    show ?thesis
      by (rule apply_worker_success_updated[OF wf out r False])
        (use r in \<open>auto simp add: same_identity_def dest: validated_application(1)\<close>)
  qed
qed

interpretation mem: service_contract memory_catalog find_ws find_prj find_drw memory_operations find_op repo_wf
  "mem_service ttl sha req_size" for ttl sha req_size
  by (unfold_locales, unfold memory_catalog_sel memory_operations_sel mem_service_sel)
    (rule refl | (simp only: get_workstation_def get_project_def get_drawing_def get_operation_def; fail)
      | erule (1) memory_create memory_refresh memory_lease memory_start memory_finish memory_apply)+

end
