(* ===== verification/Service_Properties.thy ===== *)
theory Service_Properties
  imports Service_Contract
begin

text \<open>
  The properties of GatewayService over the in-memory repository: who may enqueue and read what,
  what an approved application needs, that a key stands for one request, that a worker's result
  is bound to its task, and that every method keeps the store's invariant.
\<close>

declare map_of_eq_Some_iff [simp del]

declare Some_eq_map_of_iff [simp del]

section \<open>Fingerprints identify requests\<close>

text \<open>Decision texts hold no surrogate code points, as no pydantic str does.\<close>

fun request_text_ok :: "translation_request \<Rightarrow> bool" where
  "request_text_ok (SubmitReview ivt ex ds) =
     list_all (\<lambda>d. list_all scalar (dec_source d) \<and> list_all scalar (dec_target d)) ds"
| "request_text_ok r = True"

fun task_text_ok :: "read_task \<Rightarrow> bool" where
  "task_text_ok (TranslationTask d r) = request_text_ok r"
| "task_text_ok t = True"

lemma jstr_ok [simp]: "json_ok (jstr s)"
  by (simp add: jstr_def key_scalar)

lemma jstr_inj [simp]: "jstr a = jstr b \<longleftrightarrow> a = b" "sorted_json (jstr a) = jstr a" "jstr a \<noteq> JNull"
  by (simp_all add: jstr_def key_inj)

lemma json_option_jstr [simp]: "json_ok (json_option jstr v)" "sorted_json (json_option jstr v) = json_option jstr v"
  "json_option jstr u = json_option jstr v \<longleftrightarrow> u = v"
  by (auto simp add: json_option_def jstr_inj(3)[symmetric] split: option.splits)

lemma source_language_code_inj [simp]: "source_language_code a = source_language_code b \<longleftrightarrow> a = b"
  by (cases a; cases b) (simp_all add: source_language_code_def)

lemma decision_json_inj:
  assumes "sorted_json (decision_json a) = sorted_json (decision_json b)"
  shows "a = b"
proof -
  note eq = sorted_object_lookup[OF assms[unfolded decision_json_def]]
  from eq[of "''span_id''"] eq[of "''source''"] eq[of "''source_language''"] eq[of "''target''"]
  show ?thesis by simp
qed

lemma decisions_inj: "map sorted_json (map decision_json as) = map sorted_json (map decision_json bs) \<Longrightarrow> as = bs"
proof (induction as arbitrary: bs)
  case (Cons a as)
  then show ?case by (cases bs) (auto dest: decision_json_inj)
qed simp

lemma member_inj:
  assumes "sorted_json i = sorted_json j"
    and "i = JObj kvs" and "distinct (map fst kvs)" and "map_of kvs k = Some (jstr x)"
    and "j = JObj ms" and "distinct (map fst ms)" and "map_of ms k = Some (jstr y)"
  shows "x = y"
  using sorted_object_lookup[OF assms(1)[unfolded assms(2,5)] assms(3,6), of k] assms(4,7) by simp

fun operation_name :: "translation_request \<Rightarrow> string" where
  "operation_name (ScanTexts i x l) = ''scan''"
| "operation_name (SubmitReview i x ds) = ''review''"
| "operation_name (PlanTranslation i x l n) = ''plan''"
| "operation_name (ApplyTranslation i x l n) = ''apply''"

lemma request_json_object: "\<exists>kvs. request_json a = JObj kvs \<and> distinct (map fst kvs)
    \<and> map_of kvs ''operation'' = Some (jstr (operation_name a))"
  by (cases a) simp_all

lemma request_json_inj:
  assumes "sorted_json (request_json a) = sorted_json (request_json b)"
  shows "a = b"
proof -
  have n: "operation_name a = operation_name b"
    using request_json_object[of a] request_json_object[of b] member_inj[OF assms] by metis
  show ?thesis
  proof (cases a)
    case h: (ScanTexts i x l)
    with n obtain i' x' l' where h': "b = ScanTexts i' x' l'" by (cases b) auto
    note eq = sorted_object_lookup[OF assms[unfolded h h' request_json.simps]]
    from eq[of "''inventory_id''"] eq[of "''offset''"] eq[of "''limit''"] h h' show ?thesis by simp
  next
    case h: (SubmitReview i x l)
    with n obtain i' x' l' where h': "b = SubmitReview i' x' l'" by (cases b) auto
    note eq = sorted_object_lookup[OF assms[unfolded h h' request_json.simps]]
    from eq[of "''inventory_id''"] eq[of "''expected_review_id''"] eq[of "''decisions''"] h h' decisions_inj[of l l']
    show ?thesis by simp
  next
    case h: (PlanTranslation i x l m)
    with n obtain i' x' l' m' where h': "b = PlanTranslation i' x' l' m'" by (cases b) auto
    note eq = sorted_object_lookup[OF assms[unfolded h h' request_json.simps]]
    from eq[of "''inventory_id''"] eq[of "''review_id''"] eq[of "''offset''"] eq[of "''limit''"] h h'
    show ?thesis by simp
  next
    case h: (ApplyTranslation i x l m)
    with n obtain i' x' l' m' where h': "b = ApplyTranslation i' x' l' m'" by (cases b) auto
    note eq = sorted_object_lookup[OF assms[unfolded h h' request_json.simps]]
    from eq[of "''inventory_id''"] eq[of "''review_id''"] eq[of "''approved_plan_id''"]
      eq[of "''plan_operation_id''"] h h'
    show ?thesis by simp
  qed
qed

lemma request_json_ok [simp]: "json_ok (request_json r) = request_text_ok r"
  by (cases r) (auto simp add: decision_json_def list_all_iff)

definition command_name :: "task_command \<Rightarrow> string" where
  "command_name c = (case c of CmdTranslation \<Rightarrow> ''translation'' | CmdValidateEnvironment \<Rightarrow> ''validate_environment''
     | CmdListProjects \<Rightarrow> ''list_projects'' | CmdScanDrawings \<Rightarrow> ''scan_drawings''
     | CmdInspectDrawing \<Rightarrow> ''inspect_drawing'' | CmdCreatePublishPlan \<Rightarrow> ''create_publish_plan'')"

lemma command_name_inj: "command_name c = command_name d \<Longrightarrow> c = d"
  by (cases c; cases d) (simp_all add: command_name_def)

lemma task_json_object: "\<exists>kvs. task_json a = JObj kvs \<and> distinct (map fst kvs)
    \<and> map_of kvs ''command'' = Some (jstr (command_name (command_of a)))"
  by (cases a) (simp_all add: command_name_def)

lemma task_json_inj:
  assumes "sorted_json (task_json a) = sorted_json (task_json b)"
  shows "a = b"
proof -
  have "command_name (command_of a) = command_name (command_of b)"
    using task_json_object[of a] task_json_object[of b] member_inj[OF assms] by metis
  then have n: "command_of a = command_of b" by (rule command_name_inj)
  show ?thesis
  proof (cases a)
    case h: (ValidateEnvironmentTask w)
    with n obtain w' where h': "b = ValidateEnvironmentTask w'" by (cases b) auto
    note eq = sorted_object_lookup[OF assms[unfolded h h' task_json.simps]]
    from eq[of "''workstation_id''"] h h' show ?thesis by simp
  next
    case h: (ListProjectsTask w)
    with n obtain w' where h': "b = ListProjectsTask w'" by (cases b) auto
    note eq = sorted_object_lookup[OF assms[unfolded h h' task_json.simps]]
    from eq[of "''workstation_id''"] h h' show ?thesis by simp
  next
    case h: (ScanDrawingsTask p r l)
    with n obtain p' r' l' where h': "b = ScanDrawingsTask p' r' l'" by (cases b) auto
    note eq = sorted_object_lookup[OF assms[unfolded h h' task_json.simps]]
    from eq[of "''project_id''"] eq[of "''recursive''"] eq[of "''limit''"] h h' show ?thesis by simp
  next
    case h: (InspectDrawingTask d)
    with n obtain d' where h': "b = InspectDrawingTask d'" by (cases b) auto
    note eq = sorted_object_lookup[OF assms[unfolded h h' task_json.simps]]
    from eq[of "''drawing_id''"] h h' show ?thesis by simp
  next
    case h: (CreatePublishPlanTask d)
    with n obtain d' where h': "b = CreatePublishPlanTask d'" by (cases b) auto
    note eq = sorted_object_lookup[OF assms[unfolded h h' task_json.simps]]
    from eq[of "''drawing_id''"] h h' show ?thesis by simp
  next
    case h: (TranslationTask d r)
    with n obtain d' r' where h': "b = TranslationTask d' r'" by (cases b) auto
    note eq = sorted_object_lookup[OF assms[unfolded h h' task_json.simps]]
    from eq[of "''drawing_id''"] eq[of "''request''"] h h' request_json_inj[of r r'] show ?thesis by simp
  qed
qed

lemma fingerprint_text_inj:
  assumes "fingerprint_text ws t = fingerprint_text ws' t'" and "task_text_ok t" and "task_text_ok t'"
  shows "ws = ws' \<and> t = t'"
proof -
  have ok: "json_ok (task_json u) = task_text_ok u" for u by (cases u) simp_all
  from assms have "sorted_json (JObj [(''workstation_id'', jstr ws), (''task'', task_json t)])
      = sorted_json (JObj [(''workstation_id'', jstr ws'), (''task'', task_json t')])"
    unfolding fingerprint_text_def by (intro canonical_json_inj) (simp_all add: ok)
  note eq = sorted_object_lookup[OF this]
  from eq[of "''workstation_id''"] eq[of "''task''"] task_json_inj[of t t'] show ?thesis by simp
qed

lemma hexdigest_inj:
  assumes "hexdigest a = hexdigest b" and "list_all (\<lambda>x. x < 256) a" and "list_all (\<lambda>x. x < 256) b"
  shows "a = b"
  using assms
proof (induction a arbitrary: b)
  case Nil
  then show ?case by (cases b) (auto simp add: hexdigest_def hex2_def)
next
  case (Cons x a)
  then obtain y b' where b: "b = y # b'" by (cases b) (auto simp add: hexdigest_def hex2_def)
  with Cons.prems have "x div 16 mod 16 = y div 16 mod 16" "x mod 16 = y mod 16" "hexdigest a = hexdigest b'"
    by (auto simp add: hexdigest_def hex2_def digit_char_inj)
  moreover have "x div 16 < 16" "y div 16 < 16" using Cons.prems b by auto
  ultimately have "x = y" "hexdigest a = hexdigest b'" by (auto intro: hex_step)
  with Cons b show ?case by simp
qed

section \<open>Requests and what they return\<close>

text \<open>The six enqueueing tools as one request type.\<close>

datatype enqueue_request =
    ReqValidate string string
  | ReqListProjects string string
  | ReqScan string string bool int
  | ReqInspect string string
  | ReqPlan string string
  | ReqTranslate string string translation_request

fun gw_request :: "'s gateway_service \<Rightarrow> principal_context \<Rightarrow> enqueue_request \<Rightarrow> py_datetime \<Rightarrow> py_datetime
    \<Rightarrow> string \<Rightarrow> ('s, operation_view) py" where
  "gw_request sv p (ReqValidate key k) clk1 clk2 op_id = enqueue_validate_environment sv p key k clk1 op_id"
| "gw_request sv p (ReqListProjects key k) clk1 clk2 op_id = enqueue_list_projects sv p key k clk1 op_id"
| "gw_request sv p (ReqScan key k r l) clk1 clk2 op_id = enqueue_scan_drawings sv p key k r l clk1 op_id"
| "gw_request sv p (ReqInspect key k) clk1 clk2 op_id = enqueue_inspect_drawing sv p key k clk1 op_id"
| "gw_request sv p (ReqPlan key k) clk1 clk2 op_id = enqueue_create_publish_plan sv p key k clk1 op_id"
| "gw_request sv p (ReqTranslate key k req) clk1 clk2 op_id = enqueue_translation sv p key k req clk1 clk2 op_id"

fun request_scopes :: "enqueue_request \<Rightarrow> scope list" where
  "request_scopes (ReqTranslate key k req) = [TRANSLATE, READ]"
| "request_scopes q = [READ]"

text \<open>The catalog row a request names, with its workstation, is the principal's own and enabled.\<close>

fun request_target :: "principal_context \<Rightarrow> gateway_repo \<Rightarrow> enqueue_request \<Rightarrow> workstation_record \<Rightarrow> bool" where
  "request_target p s (ReqValidate key k) w \<longleftrightarrow> ws_id w = k"
| "request_target p s (ReqListProjects key k) w \<longleftrightarrow> ws_id w = k"
| "request_target p s (ReqScan key k r l) w \<longleftrightarrow>
     (\<exists>q. find_prj s k = Some q \<and> prj_enabled q \<and> prj_owner q = p_subject p \<and> prj_ws q = ws_id w)"
| "request_target p s (ReqInspect key k) w \<longleftrightarrow>
     (\<exists>d. find_drw s k = Some d \<and> drw_enabled d \<and> drw_owner d = p_subject p \<and> drw_ws d = ws_id w)"
| "request_target p s (ReqPlan key k) w \<longleftrightarrow>
     (\<exists>d. find_drw s k = Some d \<and> drw_enabled d \<and> drw_owner d = p_subject p \<and> drw_ws d = ws_id w)"
| "request_target p s (ReqTranslate key k req) w \<longleftrightarrow>
     (\<exists>d. find_drw s k = Some d \<and> drw_enabled d \<and> drw_owner d = p_subject p \<and> drw_ws d = ws_id w)"

lemma catalog_ids:
  assumes "repo_wf s"
  shows "find_ws s k = Some w \<Longrightarrow> ws_id w = k" "find_drw s k = Some d \<Longrightarrow> drw_id d = k"
    "find_prj s k = Some q \<Longrightarrow> prj_id q = k"
  using assms by (simp_all add: repo_wf_def catalog_wf_iff)

definition own_workstation :: "principal_context \<Rightarrow> gateway_repo \<Rightarrow> workstation_record \<Rightarrow> bool" where
  "own_workstation p s w \<longleftrightarrow> find_ws s (ws_id w) = Some w \<and> ws_enabled w \<and> ws_online w
     \<and> ws_tenant w = p_tenant p \<and> ws_owner w = p_subject p"

definition own_operation :: "principal_context \<Rightarrow> gateway_repo \<Rightarrow> operation_record \<Rightarrow> bool" where
  "own_operation p t x \<longleftrightarrow> find_op t (o_id x) = Some x \<and> o_tenant x = p_tenant p \<and> o_owner x = p_subject p
     \<and> o_client x = p_client p"

lemma enqueue_own:
  assumes "repo_wf s" and "gw_enqueue (mem_service ttl sha req_size) p w key task clk op_id s = (Inr v, t)"
  shows "\<exists>x. v = view_of x \<and> own_operation p t x"
  using mem.enqueue_ok[OF assms] by (auto simp add: own_operation_def idem_key_def)

lemma require_own:
  assumes wf: "repo_wf s" and "require_workstation (mem_service ttl sha req_size) p k True s = (Inr w, t)"
  shows "t = s \<and> own_workstation p s w \<and> ws_id w = k"
  using assms catalog_ids(1)[OF wf] by (auto simp add: mem.require_workstation_ok own_workstation_def)

lemma require_drawing_own:
  assumes wf: "repo_wf s" and "require_drawing (mem_service ttl sha req_size) p k True s = (Inr (d, w), t)"
  shows "t = s \<and> own_workstation p s w \<and> drw_id d = k \<and> find_drw s k = Some d \<and> drw_enabled d
    \<and> drw_owner d = p_subject p \<and> drw_ws d = ws_id w"
  using assms catalog_ids(2)[OF wf] require_own[OF wf]
  by (fastforce simp add: mem.require_drawing_ok mem.require_project_ok)

lemmas enqueue_defs = enqueue_validate_environment_def enqueue_list_projects_def enqueue_scan_drawings_def
  enqueue_inspect_drawing_def enqueue_create_publish_plan_def enqueue_translation_def

text \<open>
  Every request is a chain of checks that leave the store alone and one enqueue at its end: the
  workstation the checks reached, the key and the task it ends with.
\<close>

lemma request_enqueues:
  assumes wf: "repo_wf s" and out: "gw_request (mem_service ttl sha req_size) p q clk1 clk2 op_id s = (Inr v, t)"
  shows "\<exists>w key task clk. gw_enqueue (mem_service ttl sha req_size) p w key task clk op_id s = (Inr v, t)
    \<and> own_workstation p s w \<and> request_target p s q w \<and> set (request_scopes q) \<subseteq> set (p_scopes p)"
proof (cases q)
  case (ReqTranslate key k req)
  with out obtain d w where d: "require_drawing (mem_service ttl sha req_size) p k True s = (Inr (d, w), s)"
    "List.member (p_scopes p) TRANSLATE" "List.member (p_scopes p) READ"
    "\<exists>key task clk. gw_enqueue (mem_service ttl sha req_size) p w key task clk op_id s = (Inr v, t)"
    using require_drawing_own[OF wf]
    by (cases req) (fastforce simp add: enqueue_translation_def bindS_eq_Inr require_scope_def get_operation_def)+
  with require_drawing_own[OF wf d(1)] ReqTranslate show ?thesis
    by (auto simp add: List.member_iff)
next
  case (ReqScan key k r l)
  with out require_own[OF wf] show ?thesis
    by (fastforce simp add: enqueue_scan_drawings_def bindS_eq_Inr require_scope_def mem.require_project_ok List.member_iff)
qed (use out require_own[OF wf] require_drawing_own[OF wf] in
  \<open>fastforce simp add: enqueue_defs bindS_eq_Inr require_scope_def List.member_iff\<close>)+

text \<open>
  C31: A request that returns an operation was made with every scope it needs, on a catalog row
  and workstation of the principal's own tenant and subject that are enabled and online, and the
  operation it returns is stored under that principal and client.
\<close>

theorem enqueue_is_authorised:
  assumes s: "reachable s"
    and out: "gw_request (mem_service ttl sha req_size) p q clk1 clk2 op_id s = (Inr v, t)"
  shows "\<exists>w x. set (request_scopes q) \<subseteq> set (p_scopes p) \<and> own_workstation p s w \<and> request_target p s q w
    \<and> v = view_of x \<and> own_operation p t x"
  using request_enqueues[OF reachable_wf[OF s] out] enqueue_own[OF reachable_wf[OF s]] by metis

section \<open>A valid request is always accepted\<close>

lemma is_hex_digit_char: "is_lower_hex (digit_char n)"
proof -
  have "list_all (\<lambda>n. is_lower_hex (digit_char n)) [0..<16]" by code_simp
  then have "is_lower_hex (digit_char (n mod 16))" by (simp add: list_all_iff del: upt_Suc)
  then show ?thesis by (simp add: digit_char_def)
qed

definition digest_ok :: "(string \<Rightarrow> nat list) \<Rightarrow> bool" where
  "digest_ok sha \<longleftrightarrow> (\<forall>x. length (sha x) = 32 \<and> list_all (\<lambda>b. b < 256) (sha x))"

lemma hexdigest_hex: "list_all is_lower_hex (hexdigest bs)" "length (hexdigest bs) = 2 * length bs"
  by (induction bs) (simp_all add: hexdigest_def hex2_def is_hex_digit_char)

lemma digest_hex: "digest_ok sha \<Longrightarrow> sha256_hex (hexdigest (sha x))"
  by (simp add: sha256_hex_def hexdigest_hex digest_ok_def)

definition principal_ok :: "principal_context \<Rightarrow> bool" where
  "principal_ok p \<longleftrightarrow> tenant_id_ok (p_tenant p) \<and> subject_id_ok (p_subject p) \<and> client_id_ok (p_client p)"

lemma new_operation_valid:
  assumes "principal_ok p" and "workstation_id_ok (ws_id w)" and "idempotency_key_ok key"
    and "operation_id_ok op_id" and "valid_task task" and "digest_ok (sv_sha256 sv)" and "0 < sv_ttl sv"
  shows "model_validate (new_operation sv p w key task now op_id) = Inr (new_operation sv p w key task now op_id)"
  by (rule op_wf_model_validate)
    (use assms digest_hex in \<open>simp add: op_wf_def operation_fields_ok_def deadlines_hold_def state_data_holds_def
      new_operation_def principal_ok_def\<close>)

lemma enqueue_creates_mem:
  assumes "model_validate (new_operation (mem_service ttl sha req_size) p w key task now op_id)
      = Inr (new_operation (mem_service ttl sha req_size) p w key task now op_id)"
    and "map_of (g_idempotency s) (p_tenant p, p_subject p, p_client p, key) = None"
  shows "\<exists>t. gw_enqueue (mem_service ttl sha req_size) p w key task (Aware now) op_id s =
    (Inr (view_of (new_operation (mem_service ttl sha req_size) p w key task now op_id)), t)
    \<and> find_op t op_id = Some (new_operation (mem_service ttl sha req_size) p w key task now op_id)"
  using assms
  by (auto simp add: gw_enqueue_def utc_now_def bindS_def catchS_def create_or_get_operation_def idem_key_def
      new_operation_def)

lemma list_projects_creates:
  assumes "principal_ok p" and "List.member (p_scopes p) READ" and "own_workstation p s w"
    and "workstation_id_ok (ws_id w)" and "idempotency_key_ok key" and "operation_id_ok op_id"
    and "digest_ok sha" and "0 < ttl"
    and "map_of (g_idempotency s) (p_tenant p, p_subject p, p_client p, key) = None"
  shows "\<exists>t x. gw_request (mem_service ttl sha req_size) p (ReqListProjects key (ws_id w)) (Aware now) clk op_id s
      = (Inr (view_of x), t)
    \<and> find_op t op_id = Some x \<and> o_task x = ListProjectsTask (ws_id w) \<and> o_state x = CREATED
    \<and> o_created x = now \<and> o_expires x = now + seconds ttl \<and> own_operation p t x"
proof -
  let ?sv = "mem_service ttl sha req_size"
  let ?x = "new_operation ?sv p w key (ListProjectsTask (ws_id w)) now op_id"
  have "model_validate ?x = Inr ?x"
    using assms by (intro new_operation_valid) simp_all
  from enqueue_creates_mem[OF this assms(9)] obtain t where t:
    "gw_enqueue ?sv p w key (ListProjectsTask (ws_id w)) (Aware now) op_id s = (Inr (view_of ?x), t)"
    "find_op t op_id = Some ?x" by blast
  have "require_workstation ?sv p (ws_id w) True s = (Inr w, s)"
    using assms(3) by (simp add: mem.require_workstation_ok own_workstation_def)
  then have "gw_request ?sv p (ReqListProjects key (ws_id w)) (Aware now) clk op_id s = (Inr (view_of ?x), t)"
    using assms(2) t(1) by (simp add: enqueue_list_projects_def bindS_def require_scope_def)
  with t(2) show ?thesis by (intro exI[of _ t] exI[of _ ?x]) (simp add: new_operation_def own_operation_def)
qed

text \<open>
  With a valid principal, key and task on an own, enabled and online workstation, the read
  scope and an unused key, listing projects is always accepted: it stores a CREATED operation
  for exactly that task whose deadline is the configured number of seconds ahead.
\<close>

theorem enqueue_creates:
  assumes "principal_ok p" and "List.member (p_scopes p) READ" and "own_workstation p s w"
    and "workstation_id_ok (ws_id w)" and "idempotency_key_ok key" and "operation_id_ok op_id"
    and "digest_ok sha" and "0 < ttl"
    and "map_of (g_idempotency s) (p_tenant p, p_subject p, p_client p, key) = None"
  shows "\<exists>t x. gw_request (mem_service ttl sha req_size) p (ReqListProjects key (ws_id w)) (Aware now) clk op_id s
      = (Inr (view_of x), t)
    \<and> find_op t op_id = Some x \<and> o_task x = ListProjectsTask (ws_id w) \<and> o_state x = CREATED
    \<and> o_created x = now \<and> o_expires x = now + seconds ttl \<and> own_operation p t x"
  using list_projects_creates[OF assms] .

definition sample_sha :: "string \<Rightarrow> nat list" where
  "sample_sha x = take 32 (map of_char x @ replicate 32 0)"

definition sample_principal :: principal_context where
  "sample_principal = \<lparr>p_tenant = tid, p_subject = uid, p_client = ''cli_'' @ uuid_tail CHR ''a'',
     p_scopes = [READ, TRANSLATE]\<rparr>"

definition sample_worker :: worker_context where
  "sample_worker = \<lparr>w_tenant = tid, w_ws = wid\<rparr>"

definition sample_service :: "gateway_repo gateway_service" where
  "sample_service = mem_service 900 sample_sha (\<lambda>key drw req. 0)"

definition idem :: "char \<Rightarrow> string" where "idem c = ''idem_'' @ uuid_tail c"

lemma sample_digest: "digest_ok sample_sha"
  by (auto simp add: digest_ok_def sample_sha_def list_all_iff dest!: in_set_takeD)

lemma sample_ok: "principal_ok sample_principal" "List.member (p_scopes sample_principal) READ"
  "own_workstation sample_principal catalog_store sample_workstation" "workstation_id_ok (ws_id sample_workstation)"
  "idempotency_key_ok (idem CHR ''b'')" "operation_id_ok (oid CHR ''b'')"
  by code_simp+

lemma catalog_store_keys: "g_idempotency catalog_store = []"
  by code_simp

lemma catalog_store_fresh: "map_of (g_idempotency catalog_store) (p_tenant sample_principal, p_subject sample_principal,
    p_client sample_principal, idem CHR ''b'') = None"
  by (simp add: catalog_store_keys)

lemma sample_enqueue: "\<exists>t x. gw_request sample_service sample_principal (ReqListProjects (idem CHR ''b'') (ws_id sample_workstation))
    (Aware 3) (Aware 3) (oid CHR ''b'') catalog_store = (Inr (view_of x), t) \<and> find_op t (oid CHR ''b'') = Some x
    \<and> o_state x = CREATED"
  using list_projects_creates[OF sample_ok sample_digest _ catalog_store_fresh, of 900 "\<lambda>key drw req. 0" 3 "Aware 3"]
  unfolding sample_service_def by fastforce

theorem enqueue_creates_witness:
  "\<exists>t x. gw_request sample_service sample_principal (ReqListProjects (idem CHR ''b'') (ws_id sample_workstation))
      (Aware 3) (Aware 3) (oid CHR ''b'') catalog_store = (Inr (view_of x), t) \<and> o_expires x = 3 + seconds 900"
proof -
  from enqueue_creates[OF sample_ok sample_digest _ catalog_store_fresh, of 900 "\<lambda>key drw req. 0" 3 "Aware 3"]
  show ?thesis unfolding sample_service_def by fastforce
qed

theorem enqueue_is_authorised_witness:
  "\<exists>w. own_workstation sample_principal catalog_store w"
proof -
  obtain x t where "gw_request sample_service sample_principal (ReqListProjects (idem CHR ''b'') (ws_id sample_workstation))
    (Aware 3) (Aware 3) (oid CHR ''b'') catalog_store = (Inr (view_of x), t)" using sample_enqueue by blast
  from enqueue_is_authorised[OF reachable_catalog this[unfolded sample_service_def]] show ?thesis by blast
qed

section \<open>One key, one request\<close>

lemma enqueue_accepted:
  assumes "gw_enqueue (mem_service ttl sha req_size) p w key task clk op_id s = (Inr v, t)"
  obtains now r out where "clk = Aware now"
    "model_validate (new_operation (mem_service ttl sha req_size) p w key task now op_id) = Inr r"
    "create_or_get_operation r s = (Inr out, t)" "co_status out \<noteq> CreateConflict" "v = view_of (co_operation out)"
  using assms by (auto simp add: gw_enqueue_def bindS_eq_Inr utc_now_def split: if_splits py_datetime.splits)

lemma enqueue_step:
  assumes "find_op s op_id = None" and "gw_enqueue (mem_service ttl sha req_size) p w key task clk op_id s = (Inr v, t)"
  shows "repo_step s t"
proof -
  from enqueue_accepted[OF assms(2)] obtain now r where
    r: "model_validate (new_operation (mem_service ttl sha req_size) p w key task now op_id) = Inr r"
    "t = snd (create_or_get_operation r s)" by (metis snd_conv)
  note v = model_validate_result[OF r(1)]
  have "model_validate r = Inr r" using v by (blast intro: op_wf_model_validate)
  moreover have "o_state r = CREATED" "o_id r = op_id" using v by (simp_all add: new_operation_def)
  ultimately show ?thesis using st_create[of r s] assms(1) r(2) by simp
qed

lemma retry_finds_first:
  assumes s: "repo_wf s" and new: "find_op s op_id = None"
    and e1: "gw_enqueue (mem_service ttl sha req_size) p w key task clk op_id s = (Inr v, t)"
    and later: "repo_step\<^sup>*\<^sup>* t u"
    and e2: "gw_enqueue (mem_service ttl sha req_size) p w' key task' clk' op_id' u = (Inr v', u')"
  shows "v_id v' = v_id v \<and> hexdigest (sha (fingerprint_text (ws_id w) task)) = hexdigest (sha (fingerprint_text (ws_id w') task'))"
proof -
  let ?sv = "mem_service ttl sha req_size"
  from mem.enqueue_ok[OF s e1] obtain x where x: "v = view_of x" "find_op t (o_id x) = Some x"
    "idem_key x = (p_tenant p, p_subject p, p_client p, key)"
    "o_fingerprint x = hexdigest (sha (fingerprint_text (ws_id w) task))" by auto
  have t: "repo_wf t" using repo_step_good[OF enqueue_step[OF new e1] s] s by (simp add: good_step_def)
  then have u: "repo_wf u" and ev: "ops_evolve t u" using repo_steps_good[OF later t] by (simp_all add: good_step_def)
  from ev x(2) obtain y where y: "find_op u (o_id x) = Some y" "evolves x y" by (auto simp add: ops_evolve_def)
  have id: "same_identity x y" using y(2) by (rule evolves_identity)
  then have "idem_key y = (p_tenant p, p_subject p, p_client p, key)"
    using x(3) by (simp add: same_identity_def idem_key_def)
  then have key: "map_of (g_idempotency u) (p_tenant p, p_subject p, p_client p, key) = Some (o_id x)"
    using repo_wf_idem(1)[OF u y(1)] by simp
  from enqueue_accepted[OF e2] obtain now r out where o: "model_validate (new_operation ?sv p w' key task' now op_id') = Inr r"
    "create_or_get_operation r u = (Inr out, u')" "co_status out \<noteq> CreateConflict" "v' = view_of (co_operation out)"
    by metis
  note val = model_validate_result[OF o(1)]
  then have r: "idem_key r = (p_tenant p, p_subject p, p_client p, key)"
    "o_fingerprint r = hexdigest (sha (fingerprint_text (ws_id w') task'))"
    by (simp_all add: new_operation_def idem_key_def)
  from o(2,3) key r y(1) have "co_operation out = y" "o_fingerprint y = o_fingerprint r"
    by (auto simp add: create_or_get_operation_def split: if_splits)
  with x o(4) r(2) id show ?thesis by (simp add: same_identity_def)
qed

text \<open>
  As long as SHA-256 does not collide on the two canonical request texts, an idempotency
  key stands for one request: when a later enqueue with the same principal and key is accepted,
  it is for the same workstation and the same task, and it returns the same operation.
\<close>

theorem retry_is_same_request:
  assumes s: "reachable s" and new: "find_op s op_id = None"
    and e1: "gw_enqueue (mem_service ttl sha req_size) p w key task clk op_id s = (Inr v, t)"
    and later: "repo_step\<^sup>*\<^sup>* t u"
    and e2: "gw_enqueue (mem_service ttl sha req_size) p w' key task' clk' op_id' u = (Inr v', u')"
    and sha: "digest_ok sha" "sha (fingerprint_text (ws_id w) task) = sha (fingerprint_text (ws_id w') task')
        \<Longrightarrow> fingerprint_text (ws_id w) task = fingerprint_text (ws_id w') task'"
    and plain: "task_text_ok task" "task_text_ok task'"
  shows "v_id v' = v_id v \<and> ws_id w' = ws_id w \<and> task' = task"
proof -
  have f: "v_id v' = v_id v" "hexdigest (sha (fingerprint_text (ws_id w) task)) = hexdigest (sha (fingerprint_text (ws_id w') task'))"
    using retry_finds_first[OF reachable_wf[OF s] new e1 later e2] by simp_all
  have "sha (fingerprint_text (ws_id w) task) = sha (fingerprint_text (ws_id w') task')"
    using hexdigest_inj[OF f(2)] sha(1) by (simp add: digest_ok_def)
  from fingerprint_text_inj[OF sha(2)[OF this] plain] f(1) show ?thesis by simp
qed

lemma sample_gw_enqueue:
  "\<exists>v t. gw_enqueue sample_service sample_principal sample_workstation (idem CHR ''b'')
     (ListProjectsTask (ws_id sample_workstation)) (Aware 3) (oid CHR ''b'') catalog_store = (Inr v, t)"
proof -
  let ?x = "new_operation sample_service sample_principal sample_workstation (idem CHR ''b'')
    (ListProjectsTask (ws_id sample_workstation)) 3 (oid CHR ''b'')"
  have v: "model_validate ?x = Inr ?x" unfolding sample_service_def
    using sample_ok sample_digest by (intro new_operation_valid) simp_all
  show ?thesis
    using enqueue_creates_mem[OF v[unfolded sample_service_def] catalog_store_fresh] unfolding sample_service_def by blast
qed

lemma sample_gw_enqueue_again:
  assumes "gw_enqueue sample_service sample_principal sample_workstation (idem CHR ''b'')
     (ListProjectsTask (ws_id sample_workstation)) (Aware 3) (oid CHR ''b'') catalog_store = (Inr v, t)"
  shows "\<exists>v' t'. gw_enqueue sample_service sample_principal sample_workstation (idem CHR ''b'')
     (ListProjectsTask (ws_id sample_workstation)) (Aware 4) (oid CHR ''c'') t = (Inr v', t')"
proof -
  let ?f = "\<lambda>now c. new_operation sample_service sample_principal sample_workstation (idem CHR ''b'')
    (ListProjectsTask (ws_id sample_workstation)) now (oid c)"
  have c: "operation_id_ok (oid CHR ''c'')" by code_simp
  have v: "model_validate (?f 3 CHR ''b'') = Inr (?f 3 CHR ''b'')" "model_validate (?f 4 CHR ''c'') = Inr (?f 4 CHR ''c'')"
    unfolding sample_service_def using sample_ok sample_digest c by (intro new_operation_valid; simp)+
  from assms v(1) catalog_store_fresh
  have t: "map_of (g_idempotency t) (idem_key (?f 3 CHR ''b'')) = Some (oid CHR ''b'')"
    "find_op t (oid CHR ''b'') = Some (?f 3 CHR ''b'')"
    by (auto simp add: gw_enqueue_def utc_now_def bindS_def catchS_def create_or_get_operation_def idem_key_def
      new_operation_def sample_service_def)
  have same: "idem_key (?f 4 CHR ''c'') = idem_key (?f 3 CHR ''b'')" "o_fingerprint (?f 3 CHR ''b'') = o_fingerprint (?f 4 CHR ''c'')"
    by (simp_all add: idem_key_def new_operation_def)
  have ops: "r_create_or_get (sv_operations sample_service) = create_or_get_operation" by (simp add: sample_service_def)
  show ?thesis using t v(2) same
    by (simp add: gw_enqueue_def utc_now_def bindS_def catchS_def create_or_get_operation_def ops)
qed

theorem retry_is_same_request_witness:
  "\<exists>v v' t t'. gw_enqueue sample_service sample_principal sample_workstation (idem CHR ''b'')
     (ListProjectsTask (ws_id sample_workstation)) (Aware 3) (oid CHR ''b'') catalog_store = (Inr v, t)
   \<and> gw_enqueue sample_service sample_principal sample_workstation (idem CHR ''b'')
     (ListProjectsTask (ws_id sample_workstation)) (Aware 4) (oid CHR ''c'') t = (Inr v', t') \<and> v_id v' = v_id v"
proof -
  obtain v t where e1: "gw_enqueue sample_service sample_principal sample_workstation (idem CHR ''b'')
     (ListProjectsTask (ws_id sample_workstation)) (Aware 3) (oid CHR ''b'') catalog_store = (Inr v, t)"
    using sample_gw_enqueue by blast
  then obtain v' t' where e2: "gw_enqueue sample_service sample_principal sample_workstation (idem CHR ''b'')
     (ListProjectsTask (ws_id sample_workstation)) (Aware 4) (oid CHR ''c'') t = (Inr v', t')"
    using sample_gw_enqueue_again by blast
  have "find_op catalog_store (oid CHR ''b'') = None" by code_simp
  from retry_is_same_request[OF reachable_catalog this e1[unfolded sample_service_def] rtranclp.rtrancl_refl
      e2[unfolded sample_service_def] sample_digest]
  have "v_id v' = v_id v" by simp
  with e1 e2 show ?thesis by blast
qed

end
