(* ===== verification/Service_Approval.thy ===== *)
theory Service_Approval
  imports Service_Properties
begin

text \<open>
  Applying a translation: what the approval check of GatewayService.enqueue\_translation lets
  through, and that an approved plan is one operation per client, whatever the client retries.
\<close>

declare map_of_eq_Some_iff [simp del]

declare Some_eq_map_of_iff [simp del]

section \<open>Translations are applied only as approved\<close>

lemma approved_plan_ok:
  "approved_plan r d w clk = Inr pl \<longleftrightarrow> o_state r = SUCCEEDED \<and> (\<exists>now. clk = Aware now \<and> now < o_expires r)
     \<and> o_ws r = ws_id w \<and> o_result r = Some (TranslationTaskResult (drw_id d) (PlanResponse pl))"
  by (cases clk) (auto simp add: approved_plan_def Let_def utc_now_def not_le
      split: if_splits option.splits task_result.splits translation_response.splits)

lemma enqueue_apply_accepted:
  assumes wf: "repo_wf s"
    and out: "enqueue_translation (mem_service ttl sha req_size) p key drw (ApplyTranslation ivt rvw plan oper)
      clk1 clk2 op_id s = (Inr v, t)"
  shows "\<exists>r d w pl. find_op s oper = Some r \<and> o_tenant r = p_tenant p \<and> o_owner r = p_subject p
    \<and> o_client r = p_client p \<and> approved_plan r d w clk1 = Inr pl
    \<and> approval_matches pl (ApplyTranslation ivt rvw plan oper) \<and> drw_id d = drw \<and> own_workstation p s w
    \<and> gw_enqueue (mem_service ttl sha req_size) p w (approval_key (mem_service ttl sha req_size) drw plan)
        (TranslationTask drw (ApplyTranslation ivt rvw plan oper)) clk2 op_id s = (Inr v, t)"
proof -
  let ?sv = "mem_service ttl sha req_size"
  from out obtain d w s1 where d: "require_drawing ?sv p drw True s = (Inr (d, w), s1)"
    and rest: "(bindS (r_get (sv_operations ?sv) oper) (\<lambda>found.
         bindS (liftR (require_operation_owner p found)) (\<lambda>record.
         bindS (liftR (approved_plan record d w clk1)) (\<lambda>pl.
         bindS (guardS (approval_matches pl (ApplyTranslation ivt rvw plan oper)) (GatewayError ''translation_approval_invalid'')) (\<lambda>_.
         gw_enqueue ?sv p w (approval_key ?sv (drw_id d) plan)
           (TranslationTask (drw_id d) (ApplyTranslation ivt rvw plan oper)) clk2 op_id))))) s1 = (Inr v, t)"
    by (auto simp add: enqueue_translation_def bindS_eq_Inr)
  note own = require_drawing_own[OF wf d]
  from rest own show ?thesis
    by (auto simp add: bindS_eq_Inr get_operation_def require_operation_owner_def split: option.splits if_splits)
qed

text \<open>
  C27: Enqueueing the application of a translation succeeds only for a plan the same tenant,
  user and client produced: the named plan operation succeeded and has not expired, on the same
  workstation and drawing, its plan is ready, changes something, and has exactly the approved
  plan, inventory and review ids.
\<close>

theorem apply_needs_approved_plan:
  assumes s: "reachable s"
    and out: "enqueue_translation (mem_service ttl sha req_size) p key drw (ApplyTranslation ivt rvw plan oper)
      clk1 clk2 op_id s = (Inr v, t)"
  shows "\<exists>r pl now. find_op s oper = Some r \<and> o_tenant r = p_tenant p \<and> o_owner r = p_subject p
    \<and> o_client r = p_client p \<and> o_state r = SUCCEEDED \<and> clk1 = Aware now \<and> now < o_expires r
    \<and> o_result r = Some (TranslationTaskResult drw (PlanResponse pl))
    \<and> pr_ready pl \<and> pr_changed_records pl \<noteq> 0 \<and> pr_plan pl = plan \<and> pr_inventory pl = ivt \<and> pr_review pl = rvw"
  using enqueue_apply_accepted[OF reachable_wf[OF s] out]
  by (fastforce simp add: approved_plan_ok approval_matches_def)

text \<open>
  C36: An approved plan is applied at most once per client: however often and in whatever later
  state the application of one plan of one drawing is enqueued, with whatever keys the client
  sends, every accepted request is the same operation.
\<close>

theorem approval_is_used_once:
  assumes s: "reachable s" and new: "find_op s op_id = None"
    and first: "enqueue_translation (mem_service ttl sha req_size) p key drw (ApplyTranslation ivt rvw plan oper)
      clk1 clk2 op_id s = (Inr v, t)"
    and later: "repo_step\<^sup>*\<^sup>* t u"
    and again: "enqueue_translation (mem_service ttl sha req_size) p key' drw (ApplyTranslation ivt' rvw' plan oper')
      clk1' clk2' op_id' u = (Inr v', u')"
  shows "v_id v' = v_id v"
proof -
  obtain w where e1: "gw_enqueue (mem_service ttl sha req_size) p w (approval_key (mem_service ttl sha req_size) drw plan)
        (TranslationTask drw (ApplyTranslation ivt rvw plan oper)) clk2 op_id s = (Inr v, t)"
    using enqueue_apply_accepted[OF reachable_wf[OF s] first] by blast
  have "reachable t" using reachable_step[OF s enqueue_step[OF new e1]] .
  then have u: "repo_wf u" using later by (intro reachable_wf) (simp add: reachable_def)
  obtain w' where e2: "gw_enqueue (mem_service ttl sha req_size) p w' (approval_key (mem_service ttl sha req_size) drw plan)
        (TranslationTask drw (ApplyTranslation ivt' rvw' plan oper')) clk2' op_id' u = (Inr v', u')"
    using enqueue_apply_accepted[OF u again] by blast
  from retry_finds_first[OF reachable_wf[OF s] new e1 later e2] show ?thesis by simp
qed

lemma list_all2_map_eq: "list_all2 (\<lambda>p c. p c) (map (\<lambda>k c. c = k) ks) ks"
  by (induction ks) simp_all

lemma list_all2_replicate: "list_all2 (\<lambda>p c. p c) (replicate n P) cs \<longleftrightarrow> length cs = n \<and> list_all P cs"
  by (induction cs arbitrary: n) (case_tac n; auto)+

lemma match_append:
  "list_all2 (\<lambda>p c. p c) ps cs \<Longrightarrow> list_all2 (\<lambda>p c. p c) qs ds \<Longrightarrow> list_all2 (\<lambda>p c. p c) (ps @ qs) (cs @ ds)"
  by (rule list_all2_appendI)

lemma match_hex: "2 * length bs = n \<Longrightarrow> list_all2 (\<lambda>p c. p c) (replicate n is_lower_hex) (hexdigest bs)"
  by (simp add: list_all2_replicate hexdigest_hex)

lemma match_pair:
  assumes "P (digit_char (b div 16))"
  shows "list_all2 (\<lambda>p c. p c) ([P] @ replicate 3 is_lower_hex) (hexdigest [b, c])"
  using assms by (simp add: hexdigest_def hex2_def is_hex_digit_char numeral_3_eq_3)

lemma uuid4_text_matches:
  assumes "length bs = 16"
  shows "list_all2 (\<lambda>p c. p c) (uuid_classes ''12345'') (uuid_text (uuid4_bytes bs))"
proof -
  let ?b = "uuid4_bytes bs"
  have l: "length ?b = 16" using assms by (simp add: uuid4_bytes_def)
  have six: "take 2 (drop 6 ?b) = [bs ! 6 mod 16 + 64, ?b ! 7]"
    "take 2 (drop 8 ?b) = [bs ! 8 mod 64 + 128, ?b ! 9]"
    using assms l by (auto intro!: nth_equalityI simp add: uuid4_bytes_def less_2_cases_iff)
  have v: "List.member ''12345'' (digit_char ((bs ! 6 mod 16 + 64) div 16))"
  proof -
    have "(bs ! 6 mod 16 + 64) div 16 = 4" by simp
    then show ?thesis by (simp only:) code_simp
  qed
  have y: "List.member ''89ab'' (digit_char ((bs ! 8 mod 64 + 128) div 16))"
  proof -
    have "(bs ! 8 mod 64 + 128) div 16 \<in> {8, 9, 10, 11}" by auto
    moreover have "list_all (\<lambda>n. List.member ''89ab'' (digit_char n)) [8, 9, 10, 11]" by code_simp
    ultimately show ?thesis unfolding list_all_iff by (simp only: list.set)
  qed
  have dash: "list_all2 (\<lambda>p c. p c) [\<lambda>c. c = CHR ''-''] ''-''" by simp
  have group: "uuid_classes ''12345'' = replicate 8 is_lower_hex @ [\<lambda>c. c = CHR ''-''] @ replicate 4 is_lower_hex @ [\<lambda>c. c = CHR ''-''] @
     ([List.member ''12345''] @ replicate 3 is_lower_hex) @ [\<lambda>c. c = CHR ''-''] @
     ([List.member ''89ab''] @ replicate 3 is_lower_hex) @ [\<lambda>c. c = CHR ''-''] @ replicate 12 is_lower_hex"
    by (simp add: uuid_classes_def)
  show ?thesis unfolding group uuid_text_def six
    by (intro match_append match_hex match_pair dash v y) (use l in simp_all)
qed

text \<open>
  The key derived from drawing and plan is always a well-formed idempotency key, so an
  approved application is never refused for its key.
\<close>

theorem approval_key_is_valid:
  assumes "digest_ok (sv_sha256 sv)"
  shows "idempotency_key_ok (approval_key sv drawing plan)"
proof -
  have "length (take 16 (sv_sha256 sv (drawing @ '':'' @ plan))) = 16"
    using assms by (simp add: digest_ok_def)
  from match_append[OF list_all2_map_eq[of "''idem_''"] uuid4_text_matches[OF this]]
  show ?thesis by (simp add: idempotency_key_ok_def approval_key_def opaque_id_def match_classes_def)
qed

theorem approval_key_is_valid_witness: "idempotency_key_ok (approval_key sample_service ''d'' ''p'')"
  by (rule approval_key_is_valid) (simp add: sample_service_def sample_digest)

text \<open>An accepted enqueue, repeated with the same principal, key and task, is accepted again.\<close>

lemma enqueue_repeats:
  assumes s: "repo_wf s" and new: "find_op s op_id = None"
    and e: "gw_enqueue (mem_service ttl sha req_size) p w key task clk op_id s = (Inr v, t)"
    and r: "model_validate (new_operation (mem_service ttl sha req_size) p w key task now op_id') = Inr r"
  shows "\<exists>v'. gw_enqueue (mem_service ttl sha req_size) p w key task (Aware now) op_id' t = (Inr v', t)"
proof -
  from mem.enqueue_ok[OF s e] obtain x where x: "find_op t (o_id x) = Some x"
    "idem_key x = (p_tenant p, p_subject p, p_client p, key)"
    "o_fingerprint x = hexdigest (sha (fingerprint_text (ws_id w) task))" by auto
  have t: "repo_wf t" using repo_step_good[OF enqueue_step[OF new e] s] s by (simp add: good_step_def)
  note val = model_validate_result[OF r]
  then have "idem_key r = idem_key x" "o_fingerprint r = o_fingerprint x"
    using x by (simp_all add: new_operation_def idem_key_def)
  then have "create_or_get_operation r t = (Inr (CreateOutcome CreateExisting x), t)"
    using repo_wf_idem(1)[OF t x(1)] x(1) by (simp add: create_or_get_operation_def)
  then show ?thesis using r by (simp add: gw_enqueue_def utc_now_def bindS_def catchS_def)
qed

lemma enqueue_leaves_catalog:
  assumes "gw_enqueue (mem_service ttl sha req_size) p w key task clk op_id s = (Inr v, t)"
  shows "g_workstations t = g_workstations s" "g_projects t = g_projects s" "g_drawings t = g_drawings s"
    "k \<noteq> op_id \<Longrightarrow> find_op t k = find_op s k"
proof -
  from enqueue_accepted[OF assms] obtain now r out where
    r: "model_validate (new_operation (mem_service ttl sha req_size) p w key task now op_id) = Inr r"
    "create_or_get_operation r s = (Inr out, t)" by metis
  have "o_id r = op_id" using model_validate_result[OF r(1)] by (simp add: new_operation_def)
  with r(2) show "g_workstations t = g_workstations s" "g_projects t = g_projects s" "g_drawings t = g_drawings s"
    "k \<noteq> op_id \<Longrightarrow> find_op t k = find_op s k"
    by (auto simp add: create_or_get_operation_def split: option.splits if_splits)
qed

text \<open>A plan operation that has succeeded, on the sample drawing, and its application.\<close>

definition hid :: "char \<Rightarrow> string" where "hid c = ''sha256:'' @ replicate 64 c"

definition did :: string where "did = ''drw_'' @ uuid_tail CHR ''d''"

definition plan_operation :: operation_record where
  "plan_operation = (sample_operation CHR ''e'' 0)
     \<lparr>o_task := TranslationTask did (PlanTranslation (hid CHR ''1'') (hid CHR ''2'') 0 25)\<rparr>"

definition sample_plan :: plan_result where
  "sample_plan = \<lparr>pr_inventory = hid CHR ''1'', pr_review = hid CHR ''2'', pr_plan = hid CHR ''3'', pr_ready = True,
     pr_changed_records = 1, pr_reviewed_spans = 1, pr_offset = 0, pr_next_offset = None, pr_changes = [],
     pr_blocker_count = 0, pr_blocker_codes = []\<rparr>"

definition planned_store :: gateway_repo where
  "planned_store = snd (apply_worker_success (oid CHR ''e'') tid wid 20
     (TranslationTaskResult did (PlanResponse sample_plan)) [] []
     (snd (start_operation (oid CHR ''e'') tid wid 12 (snd (lease_next_operation tid wid uid 10 30
       (snd (create_or_get_operation plan_operation catalog_store)))))))"

definition sample_apply :: translation_request where
  "sample_apply = ApplyTranslation (hid CHR ''1'') (hid CHR ''2'') (hid CHR ''3'') (oid CHR ''e'')"

lemma plan_operation_valid: "model_validate plan_operation = Inr plan_operation" "o_state plan_operation = CREATED"
  "find_op catalog_store (o_id plan_operation) = None"
  by code_simp+

lemma reachable_planned: "reachable planned_store"
  unfolding planned_store_def
  by (rule reachable_step[OF reachable_step[OF reachable_step[OF reachable_step[OF reachable_catalog
        st_create[OF plan_operation_valid]] st_lease] st_start] st_apply])

lemma planned_facts:
  "(case find_op planned_store (oid CHR ''e'') of None \<Rightarrow> False | Some r \<Rightarrow> o_tenant r = tid \<and> o_owner r = uid
     \<and> o_client r = ''cli_'' @ uuid_tail CHR ''a'' \<and> o_state r = SUCCEEDED \<and> o_expires r = 60 \<and> o_ws r = wid
     \<and> o_result r = Some (TranslationTaskResult did (PlanResponse sample_plan)))"
  "find_drw planned_store did = Some (sample_drawing CHR ''d'' CHR ''d'')"
  "find_prj planned_store (''prj_'' @ uuid_tail CHR ''d'') = Some (sample_project CHR ''d'')"
  "find_ws planned_store wid = Some sample_workstation"
  "find_op planned_store (oid CHR ''b'') = None"
  "valid_task (TranslationTask did sample_apply)"
  by code_simp+

lemma planned_keys: "map fst (g_idempotency planned_store) = [idem_key plan_operation]"
  by code_simp

lemma sample_approval_key: "approval_key sample_service did (hid CHR ''3'') \<noteq> ''idem_'' @ uuid_tail CHR ''e''"
  by code_simp

definition planned :: "gateway_repo \<Rightarrow> bool" where
  "planned s \<longleftrightarrow> (\<exists>r. find_op s (oid CHR ''e'') = Some r \<and> o_tenant r = tid \<and> o_owner r = uid
     \<and> o_client r = ''cli_'' @ uuid_tail CHR ''a'' \<and> o_state r = SUCCEEDED \<and> o_expires r = 60 \<and> o_ws r = wid
     \<and> o_result r = Some (TranslationTaskResult did (PlanResponse sample_plan)))
   \<and> find_drw s did = Some (sample_drawing CHR ''d'' CHR ''d'')
   \<and> find_prj s (''prj_'' @ uuid_tail CHR ''d'') = Some (sample_project CHR ''d'')
   \<and> find_ws s wid = Some sample_workstation"

lemma planned_store_planned: "planned planned_store"
  using planned_facts(1-4) by (auto simp add: planned_def split: option.splits)

lemma planned_enqueue:
  assumes "planned s"
  shows "enqueue_translation sample_service sample_principal (idem CHR ''b'') did sample_apply (Aware 30) clk op_id s =
    gw_enqueue sample_service sample_principal sample_workstation (approval_key sample_service did (hid CHR ''3''))
      (TranslationTask did sample_apply) clk op_id s"
proof -
  obtain r where r: "find_op s (oid CHR ''e'') = Some r" "o_tenant r = tid" "o_owner r = uid"
    "o_client r = ''cli_'' @ uuid_tail CHR ''a''" "o_state r = SUCCEEDED" "o_expires r = 60" "o_ws r = wid"
    "o_result r = Some (TranslationTaskResult did (PlanResponse sample_plan))"
    using assms by (auto simp add: planned_def)
  have d: "require_drawing sample_service sample_principal did True s =
    (Inr (sample_drawing CHR ''d'' CHR ''d'', sample_workstation), s)"
    unfolding sample_service_def mem.require_drawing_ok mem.require_project_ok mem.require_workstation_ok
    using assms
    by (simp add: planned_def sample_drawing_def sample_project_def sample_workstation_def sample_principal_def)
  have dd: "drw_id (sample_drawing CHR ''d'' CHR ''d'') = did" by (simp add: sample_drawing_def did_def)
  have g: "r_get (sv_operations sample_service) = get_operation" "sv_request_size sample_service (idem CHR ''b'') did sample_apply = 0"
    by (simp_all add: sample_service_def mem_service_def)
  have p: "approved_plan r (sample_drawing CHR ''d'' CHR ''d'') sample_workstation (Aware 30) = Inr sample_plan"
    using r dd by (simp add: approved_plan_ok sample_workstation_def)
  have m: "approval_matches sample_plan sample_apply" by code_simp
  show ?thesis
    using d dd g p m r
    by (simp add: enqueue_translation_def sample_apply_def bindS_def require_scope_def sample_principal_def get_operation_def
        require_operation_owner_def)
qed

lemma sample_apply_valid:
  assumes "operation_id_ok op_id"
  shows "\<exists>r. model_validate (new_operation sample_service sample_principal sample_workstation
    (approval_key sample_service did (hid CHR ''3'')) (TranslationTask did sample_apply) now op_id) = Inr r"
proof -
  have "idempotency_key_ok (approval_key sample_service did (hid CHR ''3''))"
    using match_append[OF list_all2_map_eq[of "''idem_''"] uuid4_text_matches[of "take 16 (sv_sha256 sample_service (did @ '':'' @ hid CHR ''3''))"]]
      sample_digest
    by (simp add: idempotency_key_ok_def approval_key_def opaque_id_def match_classes_def sample_service_def digest_ok_def)
  then show ?thesis
    by (rule_tac exI, rule_tac new_operation_valid)
      (use sample_ok sample_digest planned_facts(6) assms in \<open>simp_all add: sample_service_def\<close>)
qed

lemma sample_apply_enqueue:
  obtains v t where "enqueue_translation sample_service sample_principal (idem CHR ''b'') did sample_apply
     (Aware 30) (Aware 31) (oid CHR ''b'') planned_store = (Inr v, t)"
proof -
  let ?k = "approval_key sample_service did (hid CHR ''3'')"
  let ?t = "TranslationTask did sample_apply"
  let ?x = "new_operation sample_service sample_principal sample_workstation ?k ?t 31 (oid CHR ''b'')"
  obtain r where r: "model_validate ?x = Inr r" using sample_apply_valid[OF sample_ok(6)] by blast
  then have v: "model_validate ?x = Inr ?x" using model_validate_result[OF r] by (simp add: new_operation_def)
  have "idem_key plan_operation \<noteq> (p_tenant sample_principal, p_subject sample_principal, p_client sample_principal, ?k)"
    using sample_approval_key by (simp add: idem_key_def plan_operation_def sample_operation_def)
  then have "map_of (g_idempotency planned_store) (p_tenant sample_principal, p_subject sample_principal, p_client sample_principal, ?k) = None"
    using planned_keys by (simp add: map_of_eq_None_iff) (metis list.simps(15) list.set(1) list.set_map singletonD)
  from enqueue_creates_mem[OF v[unfolded sample_service_def] this[unfolded sample_service_def]] show ?thesis
    using planned_enqueue[OF planned_store_planned, of "Aware 31" "oid CHR ''b''"] that
    unfolding sample_service_def by auto
qed

lemma sample_apply_again:
  assumes "enqueue_translation sample_service sample_principal (idem CHR ''b'') did sample_apply
     (Aware 30) (Aware 31) (oid CHR ''b'') planned_store = (Inr v, t)"
  shows "\<exists>v'. enqueue_translation sample_service sample_principal (idem CHR ''b'') did sample_apply
     (Aware 30) (Aware 32) (oid CHR ''c'') t = (Inr v', t)"
proof -
  note e = assms[unfolded planned_enqueue[OF planned_store_planned]]
  have "planned t"
    using planned_store_planned enqueue_leaves_catalog[OF e[unfolded sample_service_def]]
      enqueue_leaves_catalog(4)[OF e[unfolded sample_service_def], of "oid CHR ''e''"]
    by (simp add: planned_def oid_def uuid_tail_def)
  note again = planned_enqueue[OF this, of "Aware 32" "oid CHR ''c''"]
  have "operation_id_ok (oid CHR ''c'')" by code_simp
  from sample_apply_valid[OF this, of 32] obtain r where
    r: "model_validate (new_operation sample_service sample_principal sample_workstation
      (approval_key sample_service did (hid CHR ''3'')) (TranslationTask did sample_apply) 32 (oid CHR ''c'')) = Inr r" ..
  show ?thesis unfolding again
    using enqueue_repeats[OF reachable_wf[OF reachable_planned] planned_facts(5) e[unfolded sample_service_def]
      r[unfolded sample_service_def]]
    unfolding sample_service_def .
qed

theorem apply_needs_approved_plan_witness:
  "\<exists>r. find_op planned_store (oid CHR ''e'') = Some r \<and> o_state r = SUCCEEDED"
proof (rule sample_apply_enqueue)
  fix v t
  assume "enqueue_translation sample_service sample_principal (idem CHR ''b'') did sample_apply
     (Aware 30) (Aware 31) (oid CHR ''b'') planned_store = (Inr v, t)"
  from apply_needs_approved_plan[OF reachable_planned this[unfolded sample_service_def sample_apply_def]]
  show ?thesis by blast
qed

theorem approval_is_used_once_witness:
  "\<exists>v t v'. enqueue_translation sample_service sample_principal (idem CHR ''b'') did sample_apply
     (Aware 30) (Aware 31) (oid CHR ''b'') planned_store = (Inr v, t)
   \<and> enqueue_translation sample_service sample_principal (idem CHR ''b'') did sample_apply
     (Aware 30) (Aware 32) (oid CHR ''c'') t = (Inr v', t) \<and> v_id v' = v_id v"
proof (rule sample_apply_enqueue)
  fix v t
  assume e: "enqueue_translation sample_service sample_principal (idem CHR ''b'') did sample_apply
     (Aware 30) (Aware 31) (oid CHR ''b'') planned_store = (Inr v, t)"
  from sample_apply_again[OF e] obtain v' where e': "enqueue_translation sample_service sample_principal (idem CHR ''b'')
    did sample_apply (Aware 30) (Aware 32) (oid CHR ''c'') t = (Inr v', t)" ..
  from approval_is_used_once[OF reachable_planned planned_facts(5)
    e[unfolded sample_service_def sample_apply_def] rtranclp.rtrancl_refl e'[unfolded sample_service_def sample_apply_def]] e e'
  show ?thesis by blast
qed

end
