(* ===== verification/Service_Workers.thy ===== *)
theory Service_Workers
  imports Service_Properties
begin

text \<open>
  GatewayService towards readers and workers: who may read an operation, what a lease is bounded
  by, that a completed or applied result fits its task, which errors escape, and that every method
  keeps the store's invariant.
\<close>

declare map_of_eq_Some_iff [simp del]

declare Some_eq_map_of_iff [simp del]

section \<open>Readers\<close>

text \<open>
  C33: A principal reads an operation only if it is its own, created by the same tenant, user and
  client, with the read scope and, for translations, the translate scope; what it sees is the
  operation as of now, with everything overdue already closed, and that is what is stored.
\<close>

theorem read_is_isolated:
  assumes s: "reachable s" and out: "gw_get_operation (mem_service ttl sha req_size) p k clk s = (Inr v, t)"
  shows "\<exists>r now. clk = Aware now \<and> find_op s k = Some r \<and> o_tenant r = p_tenant p \<and> o_owner r = p_subject p
    \<and> o_client r = p_client p \<and> List.member (p_scopes p) READ
    \<and> (command_of (o_task r) = CmdTranslation \<longrightarrow> List.member (p_scopes p) TRANSLATE)
    \<and> v = view_of (refreshed r now) \<and> find_op t k = Some (refreshed r now)"
  using mem.get_operation_ok[OF reachable_wf[OF s] out] .

lemma sample_read: "fst (gw_get_operation sample_service sample_principal (oid CHR ''b'') (Aware 70) running_store) =
   Inr (view_of (expired_record (running_record (leased_record (sample_operation CHR ''b'' 0) 30) 12) 70))"
  unfolding sample_service_def by code_simp

theorem read_is_isolated_witness:
  "\<exists>r. find_op running_store (oid CHR ''b'') = Some r \<and> o_owner r = p_subject sample_principal"
proof -
  obtain v t where "gw_get_operation sample_service sample_principal (oid CHR ''b'') (Aware 70) running_store = (Inr v, t)"
    using sample_read by (metis prod.collapse)
  from read_is_isolated[OF reachable_running this[unfolded sample_service_def]] show ?thesis by blast
qed

section \<open>Workers\<close>

text \<open>
  A worker is handed an operation only of the workstation's own owner, at an enabled and
  online workstation of its tenant; the lease is live, runs at most the requested 5 to 300
  seconds, and never past the operation's deadline.
\<close>

theorem worker_lease_is_bounded:
  assumes s: "reachable s" and out: "gw_worker_lease (mem_service ttl sha req_size) worker owner n clk s = (Inr (Some l), t)"
  shows "\<exists>w now r. clk = Aware now \<and> find_ws s (w_ws worker) = Some w \<and> ws_enabled w \<and> ws_online w
    \<and> ws_tenant w = w_tenant worker \<and> ws_owner w = owner
    \<and> waiting (w_tenant worker) (w_ws worker) owner now r \<and> find_op s (o_id r) = Some r
    \<and> l_id l = o_id r \<and> l_task l = o_task r \<and> l_idem l = o_idem r \<and> l_ws l = w_ws worker
    \<and> now < l_expires l \<and> l_expires l \<le> now + seconds n \<and> l_expires l \<le> o_expires r \<and> 5 \<le> n \<and> n \<le> 300"
  using mem.worker_lease_ok[OF reachable_wf[OF s] out] .

lemma sample_lease: "fst (gw_worker_lease sample_service sample_worker uid 30 (Aware 10) queued_store) =
   Inr (Some \<lparr>l_id = oid CHR ''b'', l_ws = wid, l_idem = ''idem_'' @ uuid_tail CHR ''b'', l_task = ListProjectsTask wid,
     l_expires = 60\<rparr>)"
  unfolding sample_service_def by code_simp

theorem worker_lease_is_bounded_witness:
  "\<exists>w. find_ws queued_store wid = Some w \<and> ws_owner w = uid"
proof -
  obtain l t where "gw_worker_lease sample_service sample_worker uid 30 (Aware 10) queued_store = (Inr (Some l), t)"
    using sample_lease by (metis prod.collapse)
  from worker_lease_is_bounded[OF reachable_queued this[unfolded sample_service_def]]
  show ?thesis by (auto simp add: sample_worker_def)
qed

text \<open>What fits a task: the drawing it names, and for a translation the answer to its request.\<close>

fun result_fits :: "read_task \<Rightarrow> task_result \<Rightarrow> bool" where
  "result_fits (ValidateEnvironmentTask w) (ValidateEnvironmentResult rd ws) = True"
| "result_fits (InspectDrawingTask d) (InspectDrawingResult d' l n ws) = (d = d')"
| "result_fits (CreatePublishPlanTask d) (CreatePublishPlanResult d' pl rd n ws) = (d = d')"
| "result_fits (TranslationTask d req) (TranslationTaskResult d' resp) = (d = d' \<and> answers req resp)"
| "result_fits t v = False"

text \<open>Catalog results fit with their rows.\<close>

definition rows_fit :: "operation_record \<Rightarrow> task_result \<Rightarrow> project_record list \<Rightarrow> drawing_record list \<Rightarrow> bool" where
  "rows_fit oper v ps ds \<longleftrightarrow>
     (case v of
        ListProjectsResult ids \<Rightarrow> o_task oper = ListProjectsTask (o_ws oper) \<and> ds = []
          \<and> distinct (map prj_id ps) \<and> map prj_id (filter prj_enabled ps) = ids
      | ScanDrawingsResult prj ids tr \<Rightarrow> (\<exists>rc lim. o_task oper = ScanDrawingsTask prj rc lim) \<and> ps = []
          \<and> distinct (map drw_id ds) \<and> map drw_id ds = ids \<and> (\<forall>d\<in>set ds. drw_prj d = prj)
      | _ \<Rightarrow> ps = [] \<and> ds = [] \<and> result_fits (o_task oper) v)"

lemma binding_fits:
  assumes "validate_result_binding sv oper v s = (Inr (), t)" and "\<not> is_catalog_result v"
  shows "result_fits (o_task oper) v"
  using assms
  by (cases v; cases "o_task oper")
    (auto simp add: validate_result_binding_def Let_def is_catalog_result_def matching_result_answers[symmetric]
      split: if_splits sum.splits)

lemma no_duplicates_distinct: "no_duplicates xs \<longleftrightarrow> distinct xs"
  using distinct_length_set[of xs] by (auto simp add: no_duplicates_def)

lemma application_fits:
  assumes "validate_worker_application sv oper v ps ds s = (Inr (), t)"
  shows "rows_fit oper v ps ds"
  using assms binding_fits[of sv oper v s t]
  by (cases v; cases "o_task oper")
    (auto simp add: validate_worker_application_def Let_def rows_fit_def no_duplicates_distinct is_catalog_result_def
      list_all_iff split: if_splits)

lemma transition_view_ok:
  "transition_view out = Inr v \<longleftrightarrow> (\<exists>r. out = TransitionOutcome TransUpdated (Some r) \<and> v = view_of r)"
  by (cases out) (auto simp add: transition_view_def split: option.splits transition_status.splits)

text \<open>
  When a worker completes an operation directly, the operation was its own, the result is a
  well-formed result of exactly the task's kind and target, answering the translation request
  where there is one, never a catalog result, and it is what the operation is stored with.
\<close>

theorem completed_result_fits:
  assumes s: "reachable s"
    and out: "gw_worker_complete (mem_service ttl sha req_size) worker k v clk s = (Inr view, t)"
  shows "\<exists>r r'. find_op s k = Some r \<and> o_tenant r = w_tenant worker \<and> o_ws r = w_ws worker
    \<and> valid_result v \<and> result_fits (o_task r) v
    \<and> find_op t k = Some r' \<and> same_identity r r' \<and> o_state r' = SUCCEEDED \<and> o_result r' = Some v \<and> view = view_of r'"
proof -
  let ?sv = "mem_service ttl sha req_size"
  note wf = reachable_wf[OF s]
  from out obtain r s' where r: "find_op s k = Some r" "o_tenant r = w_tenant worker" "o_ws r = w_ws worker"
    "valid_result v" "\<not> is_catalog_result v" "validate_result_binding ?sv r v s = (Inr (), s')"
    and rest: "(if o_state r = SUCCEEDED
       then (if o_result r = Some v then ret (view_of r) else raise (GatewayError ''invalid_state''))
       else bindS (liftR (utc_now clk)) (\<lambda>now.
          bindS (r_finish (sv_operations ?sv) k (w_tenant worker) (w_ws worker) now SUCCEEDED (Some v) None)
            (\<lambda>outcome. liftR (transition_view outcome)))) s' = (Inr view, t)"
    by (auto simp add: gw_worker_complete_def bindS_eq_Inr mem.require_worker_workstation_ok
        mem.require_worker_operation_ok validate_result_def split: if_splits)
  have s': "s' = s" using mem.binding_pure[of ttl sha req_size r v s] r(6) by simp
  have fits: "result_fits (o_task r) v" by (rule binding_fits[OF r(6,5)])
  show ?thesis
  proof (cases "o_state r = SUCCEEDED")
    case True
    with rest s' have "t = s" "o_result r = Some v" "view = view_of r" by (auto split: if_splits)
    with True r fits show ?thesis by auto
  next
    case False
    with rest s' obtain now x where f: "finish_operation k (w_tenant worker) (w_ws worker) now SUCCEEDED (Some v) None s
        = (Inr (TransitionOutcome TransUpdated (Some x)), t)" "view = view_of x"
      by (auto simp add: bindS_eq_Inr transition_view_ok)
    from memory_finish[OF wf f(1)] r fits f(2) show ?thesis by auto
  qed
qed

lemma service_apply_fits:
  assumes wf: "repo_wf s"
    and out: "gw_worker_apply_success (mem_service ttl sha req_size) worker k v ps ds clk s = (Inr view, t)"
  shows "\<exists>r r' w. find_op s k = Some r \<and> o_tenant r = w_tenant worker \<and> o_ws r = w_ws worker
    \<and> find_ws s (w_ws worker) = Some w \<and> ws_owner w = o_owner r \<and> valid_result v \<and> rows_fit r v ps ds
    \<and> find_op t k = Some r' \<and> same_identity r r' \<and> o_state r' = SUCCEEDED \<and> o_result r' = Some v \<and> view = view_of r'"
proof -
  let ?sv = "mem_service ttl sha req_size"
  from out obtain r w s' x where r: "find_op s k = Some r" "o_tenant r = w_tenant worker" "o_ws r = w_ws worker"
    "find_ws s (w_ws worker) = Some w" "ws_owner w = o_owner r"
    "valid_result v" "validate_worker_application ?sv r v ps ds s = (Inr (), s')" "view = view_of x"
    and rest: "bindS (liftR (utc_now clk)) (\<lambda>now.
              r_apply_success (sv_operations ?sv) k (w_tenant worker) (w_ws worker) now v ps ds) s'
       = (Inr (TransitionOutcome TransUpdated (Some x)), t)"
    by (auto simp add: gw_worker_apply_success_def bindS_eq_Inr mem.require_worker_workstation_ok
        mem.require_worker_operation_ok validate_result_def transition_view_ok split: if_splits)
  have s': "s' = s" using mem.application_pure[of ttl sha req_size r v ps ds s] r(7) by simp
  from rest s' obtain now where f: "apply_worker_success k (w_tenant worker) (w_ws worker) now v ps ds s
        = (Inr (TransitionOutcome TransUpdated (Some x)), t)"
    by (auto simp add: bindS_eq_Inr)
  from memory_apply[OF wf f] r application_fits[OF r(7)] show ?thesis by auto
qed

text \<open>
  When a worker's success is applied, the workstation belongs to the operation's owner, the
  result and every catalog row that comes with it fit the task, and the operation is stored as
  succeeded with that result.
\<close>

theorem applied_result_fits:
  assumes s: "reachable s"
    and out: "gw_worker_apply_success (mem_service ttl sha req_size) worker k v ps ds clk s = (Inr view, t)"
  shows "\<exists>r r' w. find_op s k = Some r \<and> o_tenant r = w_tenant worker \<and> o_ws r = w_ws worker
    \<and> find_ws s (w_ws worker) = Some w \<and> ws_owner w = o_owner r \<and> valid_result v \<and> rows_fit r v ps ds
    \<and> find_op t k = Some r' \<and> same_identity r r' \<and> o_state r' = SUCCEEDED \<and> o_result r' = Some v \<and> view = view_of r'"
  using service_apply_fits[OF reachable_wf[OF s] out] .

definition env_store :: gateway_repo where
  "env_store = snd (start_operation (oid CHR ''e'') tid wid 12 (snd (lease_next_operation tid wid uid 10 30
     (snd (create_or_get_operation ((sample_operation CHR ''e'' 0)\<lparr>o_task := ValidateEnvironmentTask wid\<rparr>) catalog_store)))))"

lemma reachable_env: "reachable env_store"
proof -
  let ?x = "(sample_operation CHR ''e'' 0)\<lparr>o_task := ValidateEnvironmentTask wid\<rparr>"
  have "model_validate ?x = Inr ?x" "o_state ?x = CREATED" "find_op catalog_store (o_id ?x) = None" by code_simp+
  from st_create[OF this] show ?thesis unfolding env_store_def
    by (rule_tac reachable_step[OF reachable_step[OF reachable_step[OF reachable_catalog] st_lease] st_start])
qed

lemma is_ok_result: "is_ok (fst u) \<Longrightarrow> \<exists>x t. u = (Inr x, t)"
  by (cases u) (auto simp add: is_ok_iff)

lemma sample_complete:
  "is_ok (fst (gw_worker_complete sample_service sample_worker (oid CHR ''e'') (ValidateEnvironmentResult True []) (Aware 20) env_store))"
  unfolding sample_service_def by code_simp

theorem completed_result_fits_witness:
  "\<exists>r t. find_op t (oid CHR ''e'') = Some r \<and> o_result r = Some (ValidateEnvironmentResult True [])"
proof -
  obtain v t where "gw_worker_complete sample_service sample_worker (oid CHR ''e'') (ValidateEnvironmentResult True [])
      (Aware 20) env_store = (Inr v, t)"
    using is_ok_result[OF sample_complete] by blast
  from completed_result_fits[OF reachable_env this[unfolded sample_service_def]] show ?thesis by blast
qed

lemma sample_applied:
  "is_ok (fst (gw_worker_apply_success sample_service sample_worker (oid CHR ''b'')
     (ListProjectsResult [''prj_'' @ uuid_tail CHR ''d'']) [sample_project CHR ''d''] [] (Aware 20) running_store))"
  unfolding sample_service_def by code_simp

theorem applied_result_fits_witness:
  "\<exists>r. rows_fit r (ListProjectsResult [''prj_'' @ uuid_tail CHR ''d'']) [sample_project CHR ''d''] []"
proof -
  obtain v t where "gw_worker_apply_success sample_service sample_worker (oid CHR ''b'')
     (ListProjectsResult [''prj_'' @ uuid_tail CHR ''d'']) [sample_project CHR ''d''] [] (Aware 20) running_store = (Inr v, t)"
    using is_ok_result[OF sample_applied] by blast
  from applied_result_fits[OF reachable_running this[unfolded sample_service_def]] show ?thesis by blast
qed

section \<open>Errors\<close>

definition bounded :: "exn \<Rightarrow> bool" where
  "bounded e \<longleftrightarrow> (\<exists>c. e = GatewayError c)"

definition only_bounded :: "('s, 'a) py \<Rightarrow> bool" where
  "only_bounded m \<longleftrightarrow> (\<forall>s e t. m s = (Inl e, t) \<longrightarrow> bounded e)"

named_theorems bounded_rules \<open>operations that raise gateway errors only\<close>

lemma bounded_bindS [bounded_rules]:
  "only_bounded m \<Longrightarrow> (\<And>x. only_bounded (f x)) \<Longrightarrow> only_bounded (bindS m f)"
  unfolding only_bounded_def bindS_eq_Inl by blast

lemma bounded_basic [bounded_rules]:
  "only_bounded (ret x)" "only_bounded (raise (GatewayError c))" "only_bounded (guardS b (GatewayError c))"
  by (auto simp add: only_bounded_def bounded_def)

lemma bounded_if [bounded_rules]: "only_bounded m \<Longrightarrow> only_bounded n \<Longrightarrow> only_bounded (if b then m else n)"
  by simp

lemma bounded_lifts [bounded_rules]:
  "only_bounded (liftR (utc_now clk))" "only_bounded (liftR (validate_result v))"
  "only_bounded (liftR (transition_view out))"
  by (auto simp add: only_bounded_def bounded_def utc_now_def validate_result_def transition_view_def
      split: py_datetime.splits if_splits option.splits)

lemma bounded_requires [bounded_rules]:
  "only_bounded (require_worker_workstation (mem_service ttl sha req_size) worker online)"
  "only_bounded (require_worker_operation (mem_service ttl sha req_size) worker k)"
  by (auto simp add: only_bounded_def bounded_def require_worker_workstation_def require_worker_operation_def
      bindS_eq_Inl get_workstation_def get_operation_def split: option.splits if_splits)

lemma bounded_checks [bounded_rules]:
  "only_bounded (check_result_project (mem_service ttl sha req_size) oper k)"
  "only_bounded (check_result_drawing (mem_service ttl sha req_size) oper q k)"
  by (auto simp add: only_bounded_def bounded_def check_result_project_def check_result_drawing_def
      bindS_eq_Inl get_project_def get_drawing_def)

lemma bounded_each [bounded_rules]: "(\<And>x. only_bounded (f x)) \<Longrightarrow> only_bounded (bind_each f xs)"
  by (induction xs) (auto intro: bounded_rules)

lemma bounded_binding [bounded_rules]: "only_bounded (validate_result_binding (mem_service ttl sha req_size) oper v)"
  by (auto simp add: validate_result_binding_def Let_def dest: matching_result_value_error
      split: task_result.splits read_task.splits sum.splits intro!: bounded_rules)

lemma bounded_application [bounded_rules]:
  "only_bounded (validate_worker_application (mem_service ttl sha req_size) oper v ps ds)"
  by (auto simp add: validate_worker_application_def Let_def split: task_result.splits read_task.splits
      intro!: bounded_rules)

lemma model_validate_value_error: "model_validate r = Inl e \<Longrightarrow> is_value_or_type_error e"
  by (auto dest: model_validate_error)

lemma refresh_due_value_error: "refresh_due r now = Inl e \<Longrightarrow> is_value_or_type_error e"
  by (auto simp add: refresh_due_def expire_def attention_required_def dest: model_validate_value_error split: if_splits)

lemma apply_value_error:
  "apply_worker_success k tenant ws now v ps ds s = (Inl e, t) \<Longrightarrow> is_value_or_type_error e"
  by (auto simp add: apply_worker_success_def Let_def validate_worker_catalog_application_def
      dest: model_validate_value_error refresh_due_value_error split: option.splits if_splits sum.splits)

lemma bounded_apply [bounded_rules]:
  "only_bounded (catchS (bindS (liftR (utc_now clk)) (\<lambda>now. apply_worker_success k tenant ws now v ps ds))
     (\<lambda>e. raise (apply_error e)))"
proof -
  have "bounded (apply_error e)" if "is_value_or_type_error e" for e
    using that by (cases e) (auto simp add: apply_error_def bounded_def)
  moreover have "bounded (apply_error (GatewayError c))" for c by (simp add: apply_error_def bounded_def)
  ultimately show ?thesis
    by (auto simp add: only_bounded_def catchS_def bindS_eq_Inl utc_now_def dest!: apply_value_error
        split: prod.splits sum.splits py_datetime.splits)
qed

text \<open>
  Whatever a worker submits as a success, and whatever the store holds, applying it either
  returns a view or raises a GatewayError; no repository or validation error escapes.
\<close>

theorem apply_errors_are_bounded:
  assumes "gw_worker_apply_success (mem_service ttl sha req_size) worker k v ps ds clk s = (Inl e, t)"
  shows "\<exists>c. e = GatewayError c"
proof -
  have "only_bounded (gw_worker_apply_success (mem_service ttl sha req_size) worker k v ps ds clk)"
    unfolding gw_worker_apply_success_def mem_service_sel memory_operations_sel
    by (intro bounded_rules)
  with assms show ?thesis unfolding only_bounded_def bounded_def by blast
qed

theorem apply_errors_are_bounded_witness:
  "\<exists>c. fst (gw_worker_apply_success sample_service sample_worker (oid CHR ''b'') (ListProjectsResult [])
     [sample_project CHR ''d''] [] (Aware 20) running_store) = Inl (GatewayError c)"
proof -
  let ?m = "gw_worker_apply_success sample_service sample_worker (oid CHR ''b'') (ListProjectsResult [])
     [sample_project CHR ''d''] [] (Aware 20) running_store"
  have "\<not> is_ok (fst ?m)" unfolding sample_service_def by code_simp
  then obtain e t where e: "?m = (Inl e, t)" by (cases ?m; cases "fst ?m") auto
  with apply_errors_are_bounded[OF e[unfolded sample_service_def]] show ?thesis by auto
qed

section \<open>The invariant through the service\<close>

lemma memory_keeps [keeps_rules]:
  "keeps repo_wf (lease_next_operation tenant ws owner now lease_at)" "keeps repo_wf (start_operation k tenant ws now)"
  "keeps repo_wf (finish_operation k tenant ws now ost res err)" "keeps repo_wf (refresh_operation k now)"
  "keeps repo_wf (apply_worker_success k tenant ws now v ps ds)"
  "keeps repo_wf (get_operation k)" "keeps repo_wf (get_workstation k)" "keeps repo_wf (get_project k)"
  "keeps repo_wf (get_drawing k)"
  using good_steps unfolding keeps_def good_step_def
  by (auto simp add: get_operation_def get_workstation_def get_project_def get_drawing_def)

lemma keeps_bind_each [keeps_rules]: "(\<And>x. keeps P (f x)) \<Longrightarrow> keeps P (bind_each f xs)"
  by (induction xs) (auto intro: keeps_rules)

lemma keeps_pure: "(\<And>s. snd (m s) = s) \<Longrightarrow> keeps P m"
  by (simp add: keeps_def)

lemma service_checks_keep [keeps_rules]:
  "keeps P (require_worker_workstation (mem_service ttl sha req_size) worker online)"
  "keeps P (require_worker_operation (mem_service ttl sha req_size) worker k)"
  "keeps P (validate_result_binding (mem_service ttl sha req_size) oper v)"
  "keeps P (validate_worker_application (mem_service ttl sha req_size) oper v ps ds)"
  by (rule keeps_pure; simp add: mem.binding_pure mem.application_pure require_worker_workstation_def
      require_worker_operation_def bindS_def get_workstation_def get_operation_def split: option.splits)+

text \<open>Checks that leave the state alone may be skipped on the way to where the state changes.\<close>

lemma bindS_from:
  assumes "snd (m s) = s" and "Q s" and "\<And>x. Q (snd (f x s))"
  shows "Q (snd (bindS m f s))"
  using assms by (cases "m s") (auto simp add: bindS_def split: sum.splits)

lemma requires_pure [simp]:
  "snd (require_workstation (mem_service ttl sha req_size) p k online s) = s"
  "snd (require_project (mem_service ttl sha req_size) p k online s) = s"
  "snd (require_drawing (mem_service ttl sha req_size) p k online s) = s"
  by (auto simp add: require_workstation_def require_project_def require_drawing_def bindS_def get_workstation_def
      get_project_def get_drawing_def split: option.splits sum.splits prod.splits)

lemma enqueue_keeps:
  assumes "repo_wf s" and "find_op s op_id = None"
  shows "repo_wf (snd (gw_enqueue (mem_service ttl sha req_size) p w key task clk op_id s))"
  unfolding gw_enqueue_def mem_service_sel memory_operations_sel
proof (rule bindS_from)
  show "snd (liftR (utc_now clk) s) = s" "repo_wf s" using assms(1) by simp_all
  fix now
  show "repo_wf (snd (bindS (liftR (model_validate (new_operation (mem_service ttl sha req_size) p w key task now op_id))) (\<lambda>oper.
     bindS (catchS (create_or_get_operation oper) (\<lambda>e. raise (enqueue_error e))) (\<lambda>outcome.
     if co_status outcome = CreateConflict then raise (GatewayError ''idempotency_conflict'')
     else ret (view_of (co_operation outcome)))) s))"
  proof (cases "model_validate (new_operation (mem_service ttl sha req_size) p w key task now op_id)")
    case (Inl e)
    then show ?thesis using assms(1) by (simp add: bindS_def)
  next
    case (Inr r)
    note val = model_validate_result[OF Inr]
    have "op_wf r" using val by blast
    have "o_state r = CREATED" "o_id r = op_id" using val by (simp_all add: new_operation_def)
    with \<open>op_wf r\<close> have "repo_wf (snd (create_or_get_operation r s))"
      using create_or_get_operation_step[of r s] assms by (simp add: good_step_def)
    then show ?thesis using Inr by (auto simp add: bindS_def catchS_def split: prod.splits sum.splits if_splits)
  qed
qed

lemma keeps_wfD: "repo_wf s \<Longrightarrow> keeps repo_wf m \<Longrightarrow> repo_wf (snd (m s))"
  by (simp add: keeps_def)

lemma bindS_wf:
  fixes m :: "(gateway_repo, 'x) py"
  assumes "repo_wf s" and "snd (m s) = s" and "\<And>x. repo_wf (snd (f x s))"
  shows "repo_wf (snd (bindS m f s))"
  using assms(2,1,3) by (rule bindS_from[where Q = repo_wf])

lemma get_pure: "snd (r_get (sv_operations (mem_service ttl sha req_size)) oper s) = s"
  by (simp add: get_operation_def)

lemma translation_keeps:
  assumes "repo_wf s" and "find_op s op_id = None"
  shows "repo_wf (snd (enqueue_translation (mem_service ttl sha req_size) p key drw req clk clk' op_id s))"
  unfolding enqueue_translation_def
  apply (rule bindS_wf[OF assms(1)], simp)+
  apply (simp only: split_paired_all case_prod_conv)
  apply (cases req; simp only: translation_request.case; (rule enqueue_keeps[OF assms])?)
  apply (rule bindS_wf[OF assms(1)], rule get_pure)
  apply (rule bindS_wf[OF assms(1)], simp)+
  apply (rule enqueue_keeps[OF assms])
  done

lemma request_keeps:
  assumes "repo_wf s" and "find_op s op_id = None"
  shows "repo_wf (snd (gw_request (mem_service ttl sha req_size) p q clk clk' op_id s))"
proof (cases q)
  case (ReqTranslate key drw req)
  then show ?thesis by (simp add: translation_keeps[OF assms])
qed (simp only: gw_request.simps enqueue_defs(1-5);
  (rule bindS_wf[OF assms(1)], simp, (simp only: split_paired_all case_prod_conv)?)+; rule enqueue_keeps[OF assms])+



end
