(* ===== verification/Wire_Text.thy ===== *)
theory Wire_Text
  imports Json_Canonical
begin

text \<open>
  Text on the wire, as the protocol package writes and reads it with the standard library: strict
  UTF-8 with its round trip, the white space of str.strip, ASCII case, and the canonical JSON that
  signatures cover (json.dumps with ensure\_ascii=False), whose bytes determine the document.
\<close>

section \<open>UTF-8\<close>

text \<open>
  str.encode("utf-8") and bytes.decode("utf-8") in their strict mode: a surrogate code point does
  not encode, and an overlong, surrogate or out-of-range sequence does not decode.
\<close>

definition utf8_char :: "nat \<Rightarrow> nat list" where
  "utf8_char c =
     (if c < 128 then [c]
      else if c < 2048 then [192 + c div 64, 128 + c mod 64]
      else if c < 65536 then [224 + c div 4096, 128 + c div 64 mod 64, 128 + c mod 64]
      else [240 + c div 262144, 128 + c div 4096 mod 64, 128 + c div 64 mod 64, 128 + c mod 64])"

definition utf8_encode :: "pytext \<Rightarrow> nat list res" where
  "utf8_encode t = (if list_all scalar t then Inr (concat (map utf8_char t))
     else Inl (ValueError ''surrogates_not_allowed''))"

definition cont_byte :: "nat \<Rightarrow> bool" where
  "cont_byte b \<longleftrightarrow> 128 \<le> b \<and> b < 192"

fun utf8_decode :: "nat list \<Rightarrow> pytext option" where
  "utf8_decode [] = Some []"
| "utf8_decode (a # bs) =
     (if a < 128 then map_option (Cons a) (utf8_decode bs)
      else if a < 194 then None
      else if a < 224 then
        (case bs of b # rest \<Rightarrow>
           if cont_byte b then map_option (Cons ((a - 192) * 64 + (b - 128))) (utf8_decode rest) else None
         | _ \<Rightarrow> None)
      else if a < 240 then
        (case bs of b # c # rest \<Rightarrow>
           (let v = (a - 224) * 4096 + (b - 128) * 64 + (c - 128) in
            if cont_byte b \<and> cont_byte c \<and> 2048 \<le> v \<and> scalar v
            then map_option (Cons v) (utf8_decode rest) else None)
         | _ \<Rightarrow> None)
      else if a < 245 then
        (case bs of b # c # d # rest \<Rightarrow>
           (let v = (a - 240) * 262144 + (b - 128) * 4096 + (c - 128) * 64 + (d - 128) in
            if cont_byte b \<and> cont_byte c \<and> cont_byte d \<and> 65536 \<le> v \<and> scalar v
            then map_option (Cons v) (utf8_decode rest) else None)
         | _ \<Rightarrow> None)
      else None)"

lemma utf8_split:
  "c = c div 64 * 64 + c mod (64::nat)"
  "c = c div 4096 * 4096 + c div 64 mod 64 * 64 + c mod (64::nat)"
  "c = c div 262144 * 262144 + c div 4096 mod 64 * 4096 + c div 64 mod 64 * 64 + c mod (64::nat)"
proof -
  show "c = c div 64 * 64 + c mod 64" by simp
  have d: "c div 4096 = c div 64 div 64" "c div 262144 = c div 4096 div 64"
    by (simp_all add: div_mult2_eq[symmetric])
  have a: "c div 64 = c div 64 div 64 * 64 + c div 64 mod 64" by simp
  have b: "c = c div 64 * 64 + c mod 64" by simp
  show e: "c = c div 4096 * 4096 + c div 64 mod 64 * 64 + c mod 64"
    unfolding d(1) using a b by linarith
  have f: "c div 4096 = c div 4096 div 64 * 64 + c div 4096 mod 64" by simp
  show "c = c div 262144 * 262144 + c div 4096 mod 64 * 4096 + c div 64 mod 64 * 64 + c mod 64"
    unfolding d(2) using e f by linarith
qed

lemma utf8_decode_char:
  assumes "scalar c"
  shows "utf8_decode (utf8_char c @ bs) = map_option (Cons c) (utf8_decode bs)"
proof -
  consider "c < 128" | "128 \<le> c" "c < 2048" | "2048 \<le> c" "c < 65536" | "65536 \<le> c" by linarith
  then show ?thesis
  proof cases
    case 1
    then show ?thesis by (simp add: utf8_char_def)
  next
    case 2
    then have "2 \<le> c div 64" "c div 64 < 32" by simp_all
    with 2 utf8_split(1)[of c] show ?thesis by (simp add: utf8_char_def cont_byte_def)
  next
    case 3
    then have "c div 4096 < 16" by simp
    moreover have "c div 4096 * 4096 + c div 64 mod 64 * 64 + c mod 64 = c" using utf8_split(2)[of c] by simp
    ultimately show ?thesis using 3 assms by (simp add: utf8_char_def cont_byte_def Let_def)
  next
    case 4
    with assms have "c div 262144 < 5" by (auto simp add: scalar_def)
    moreover have "c div 262144 * 262144 + c div 4096 mod 64 * 4096 + c div 64 mod 64 * 64 + c mod 64 = c"
      using utf8_split(3)[of c] by simp
    ultimately show ?thesis using 4 assms by (simp add: utf8_char_def cont_byte_def Let_def)
  qed
qed

lemma utf8_decode_concat: "list_all scalar t \<Longrightarrow> utf8_decode (concat (map utf8_char t)) = Some t"
  by (induction t) (simp_all add: utf8_decode_char del: utf8_decode.simps(2))

lemma utf8_round_trip: "utf8_encode t = Inr bs \<Longrightarrow> utf8_decode bs = Some t"
  by (auto simp add: utf8_encode_def utf8_decode_concat split: if_splits)

lemma utf8_inj: "utf8_encode s = Inr bs \<Longrightarrow> utf8_encode t = Inr bs \<Longrightarrow> s = t"
  by (metis option.inject utf8_round_trip)

section \<open>White space and ASCII case\<close>

text \<open>The white space of str.strip and str.split.\<close>

definition py_space :: "nat \<Rightarrow> bool" where
  "py_space c \<longleftrightarrow> 9 \<le> c \<and> c \<le> 13 \<or> 28 \<le> c \<and> c \<le> 32 \<or> c = 133 \<or> c = 160 \<or> c = 5760
     \<or> 8192 \<le> c \<and> c \<le> 8202 \<or> c = 8232 \<or> c = 8233 \<or> c = 8239 \<or> c = 8287 \<or> c = 12288"

definition py_strip :: "pytext \<Rightarrow> pytext" where
  "py_strip t = rev (dropWhile py_space (rev (dropWhile py_space t)))"

definition ascii_letter :: "nat \<Rightarrow> bool" where
  "ascii_letter c \<longleftrightarrow> 65 \<le> c \<and> c \<le> 90 \<or> 97 \<le> c \<and> c \<le> 122"

definition ascii_lower :: "nat \<Rightarrow> nat" where
  "ascii_lower c = (if 65 \<le> c \<and> c \<le> 90 then c + 32 else c)"

definition ends_with :: "'a list \<Rightarrow> 'a list \<Rightarrow> bool" where
  "ends_with suffix t \<longleftrightarrow> length suffix \<le> length t \<and> drop (length t - length suffix) t = suffix"

section \<open>json.dumps with ensure\_ascii=False\<close>

text \<open>
  The wire documents are signed over json.dumps(..., ensure\_ascii=False, sort\_keys=True), encoded
  as UTF-8: only quotes, backslashes and control characters are escaped.
\<close>

definition codes :: "string \<Rightarrow> pytext" where
  "codes s = map of_char s"

definition escape_wire :: "nat \<Rightarrow> pytext" where
  "escape_wire c = (case short_escape c of
     Some e \<Rightarrow> [92, of_char e]
   | None \<Rightarrow> if c < 32 then [92, 117] @ codes (hex4 c) else [c])"

definition quoted_wire :: "pytext \<Rightarrow> pytext" where
  "quoted_wire t = [34] @ concat (map escape_wire t) @ [34]"

fun dumps_wire :: "json \<Rightarrow> pytext"
  and wire_items :: "json list \<Rightarrow> pytext"
  and wire_members :: "(string \<times> json) list \<Rightarrow> pytext" where
  "dumps_wire JNull = codes ''null''"
| "dumps_wire (JBool b) = codes (if b then ''true'' else ''false'')"
| "dumps_wire (JInt i) = codes (dec_int i)"
| "dumps_wire (JStr t) = quoted_wire t"
| "dumps_wire (JArr xs) = codes ''['' @ wire_items xs @ codes '']''"
| "dumps_wire (JObj kvs) = codes ''{'' @ wire_members kvs @ codes ''}''"
| "wire_items [] = []"
| "wire_items [x] = dumps_wire x"
| "wire_items (x # y # ys) = dumps_wire x @ codes '','' @ wire_items (y # ys)"
| "wire_members [] = []"
| "wire_members [(k, v)] = quoted_wire (codes k) @ codes '':'' @ dumps_wire v"
| "wire_members ((k, v) # m # ms) =
     quoted_wire (codes k) @ codes '':'' @ dumps_wire v @ codes '','' @ wire_members (m # ms)"

definition canonical_wire :: "json \<Rightarrow> nat list res" where
  "canonical_wire j = utf8_encode (dumps_wire (sorted_json j))"

text \<open>Escaping the remaining non-ASCII characters of the wire text gives the ASCII text.\<close>

definition to_ascii :: "pytext \<Rightarrow> string" where
  "to_ascii t = concat (map (\<lambda>c. if 32 \<le> c \<and> c \<le> 126 then [char_of c] else escape c) t)"

lemma to_ascii_append [simp]: "to_ascii (s @ t) = to_ascii s @ to_ascii t"
  by (simp add: to_ascii_def)

definition printable :: "char \<Rightarrow> bool" where
  "printable c \<longleftrightarrow> 32 \<le> (of_char c :: nat) \<and> (of_char c :: nat) \<le> 126"

lemma to_ascii_codes: "list_all printable s \<Longrightarrow> to_ascii (codes s) = s"
  by (induction s) (simp_all add: to_ascii_def codes_def printable_def)

lemma digit_char_printable: "printable (digit_char n)"
proof -
  have "list_all (\<lambda>n. printable (digit_char n)) [0..<16]" by code_simp
  then have "\<And>m. m < 16 \<Longrightarrow> printable (digit_char m)" by (simp add: list_all_iff del: upt_Suc)
  moreover have "digit_char n = digit_char (n mod 16)" by (simp add: digit_char_def)
  ultimately show ?thesis by simp
qed

lemma dec_nat_printable: "list_all printable (dec_nat n)"
proof (induction n rule: dec_nat.induct)
  case (1 n)
  then show ?case by (subst dec_nat.simps) (simp add: digit_char_printable)
qed

lemma dec_int_printable: "list_all printable (dec_int i)"
  by (simp add: dec_int_def dec_nat_printable printable_def)

lemma to_ascii_escape: "to_ascii (escape_wire c) = escape c"
proof (cases "short_escape c")
  case (Some e)
  then have "printable e" by (auto simp add: short_escape_def printable_def split: if_splits)
  with Some show ?thesis using char_of_special(1)[of 92] by (simp add: escape_wire_def escape_def to_ascii_def printable_def)
next
  case None
  show ?thesis
  proof (cases "c < 32")
    case True
    have "to_ascii (codes (hex4 c)) = hex4 c"
      by (rule to_ascii_codes) (simp add: hex4_def digit_char_printable)
    moreover have "to_ascii [92, 117] = [CHR 0x5C, CHR ''u'']" by code_simp
    moreover have "escape_wire c = [92, 117] @ codes (hex4 c)" using None True by (simp add: escape_wire_def)
    moreover have "escape c = [CHR 0x5C, CHR ''u''] @ hex4 c" using None True by (simp add: escape_def)
    ultimately show ?thesis by (simp only: to_ascii_append)
  next
    case False
    with None show ?thesis by (simp add: escape_wire_def escape_def to_ascii_def)
  qed
qed

lemma to_ascii_concat: "to_ascii (concat xs) = concat (map to_ascii xs)"
  by (induction xs) (simp_all add: to_ascii_def)

lemma to_ascii_quoted: "to_ascii (quoted_wire t) = quoted t"
proof -
  have q: "to_ascii [34] = [CHR 0x22]" by code_simp
  have "to_ascii (concat (map escape_wire t)) = concat (map escape t)"
    by (simp add: to_ascii_concat to_ascii_escape comp_def)
  with q show ?thesis unfolding quoted_wire_def quoted_def to_ascii_append by simp
qed

lemma printable_tokens [simp]:
  "list_all printable ''null''" "list_all printable ''true''" "list_all printable ''false''"
  "list_all printable '',''" "list_all printable '':''" "list_all printable ''[''" "list_all printable '']''"
  "list_all printable ''{''" "list_all printable ''}''"
  by code_simp+

lemma to_ascii_dumps:
  "to_ascii (dumps_wire j) = dumps j"
  "to_ascii (wire_items xs) = dumps_items xs"
  "to_ascii (wire_members ms) = dumps_members ms"
  by (induction j and xs and ms rule: dumps_wire_wire_items_wire_members.induct)
    (simp_all add: to_ascii_codes dec_int_printable to_ascii_quoted codes_def[symmetric] to_ascii_def[of "[]"] 
      del: list.pred_inject)

lemma canonical_wire_inj:
  assumes "canonical_wire i = Inr b" and "canonical_wire j = Inr b" and "json_ok i" and "json_ok j"
  shows "sorted_json i = sorted_json j"
proof -
  from assms(1,2) have "dumps_wire (sorted_json i) = dumps_wire (sorted_json j)"
    unfolding canonical_wire_def by (rule utf8_inj)
  then have "dumps (sorted_json i) = dumps (sorted_json j)" using to_ascii_dumps(1) by metis
  with assms(3,4) show ?thesis by (intro dumps_inj) simp_all
qed

end
