(* ===== verification/Remote_Protocol.thy ===== *)
theory Remote_Protocol
  imports Gateway_Service Wire_Text
begin

text \<open>
  packages/protocol/src/cadplot\_protocol/remote\_protocol.py: the signed task and result envelopes
  that travel between gateway and workstation, their commands, results and field constraints, the
  workstation's authorisation of a task, and the bounded JSON payloads. pydantic's JSON parser and
  writer and its text for a datetime are parameters; a validated timestamp is a UTC instant.
\<close>

section \<open>Identifiers and fields\<close>

definition remote_tenant_id :: "string \<Rightarrow> bool" where "remote_tenant_id s = opaque_id ''tnt'' ''12345'' s"

definition remote_user_id :: "string \<Rightarrow> bool" where "remote_user_id s = opaque_id ''usr'' ''12345'' s"

definition remote_device_id :: "string \<Rightarrow> bool" where "remote_device_id s = opaque_id ''ws'' ''4'' s"

definition remote_task_id :: "string \<Rightarrow> bool" where "remote_task_id s = opaque_id ''tsk'' ''4'' s"

definition remote_operation_id :: "string \<Rightarrow> bool" where "remote_operation_id s = opaque_id ''op'' ''4'' s"

definition remote_command_id :: "string \<Rightarrow> bool" where "remote_command_id s = opaque_id ''cmd'' ''4'' s"

definition remote_idempotency_key :: "string \<Rightarrow> bool" where "remote_idempotency_key s = opaque_id ''idem'' ''4'' s"

definition remote_project_id :: "string \<Rightarrow> bool" where "remote_project_id s = opaque_id ''prj'' ''4'' s"

definition remote_drawing_id :: "string \<Rightarrow> bool" where "remote_drawing_id s = opaque_id ''drw'' ''4'' s"

definition remote_cursor_id :: "string \<Rightarrow> bool" where "remote_cursor_id s = opaque_id ''cur'' ''4'' s"

definition policy_version_ok :: "int \<Rightarrow> bool" where
  "policy_version_ok n \<longleftrightarrow> 1 \<le> n \<and> n \<le> 2147483647"

definition safe_alias :: "string \<Rightarrow> bool" where
  "safe_alias s \<longleftrightarrow> (case s of [] \<Rightarrow> False
     | c # cs \<Rightarrow> (is_lower c \<or> is_upper c \<or> is_digit c) \<and> length cs \<le> 63 \<and> list_all url_safe_char cs)"

definition handle_pattern :: "string \<Rightarrow> bool" where
  "handle_pattern s \<longleftrightarrow> 1 \<le> length s \<and> length s \<le> 32
     \<and> list_all (\<lambda>c. is_lower_hex c \<or> List.member ''ABCDEF'' c) s"

definition runtime_series :: "string \<Rightarrow> bool" where
  "runtime_series s = match_classes [\<lambda>c. c = CHR ''R'', is_digit, is_digit, \<lambda>c. c = CHR ''.'', is_digit] s"

text \<open>
  \_safe\_display, in the order of its tests; the last one repeats part of the separator test and
  adds the drive letter.
\<close>

definition drive_prefix :: "pytext \<Rightarrow> bool" where
  "drive_prefix t = (case t of a # b # _ \<Rightarrow> ascii_letter a \<and> b = 58 | _ \<Rightarrow> False)"

definition safe_display :: "pytext \<Rightarrow> unit res" where
  "safe_display t =
     (if t \<noteq> py_strip t \<or> t = [] then Inl (ValueError ''display_not_trimmed'')
      else if list_ex (\<lambda>c. c < 32 \<or> c = 127) t then Inl (ValueError ''display_control_character'')
      else if List.member t 47 \<or> List.member t 92 \<or> List.member t 0
      then Inl (ValueError ''display_separator'')
      else if drive_prefix t then Inl (ValueError ''display_absolute_location'')
      else Inr ())"

definition display_field :: "pytext \<Rightarrow> bool" where
  "display_field t \<longleftrightarrow> 1 \<le> length t \<and> length t \<le> 255 \<and> is_ok (safe_display t)"

text \<open>
  casefold().endswith((".dwg", ".dwt")): no character outside A-Z folds to one of these letters
  at the end of the text, so folding ASCII decides it.
\<close>

definition drawing_suffix :: "pytext \<Rightarrow> bool" where
  "drawing_suffix t \<longleftrightarrow> ends_with (codes ''.dwg'') (map ascii_lower t) \<or> ends_with (codes ''.dwt'') (map ascii_lower t)"

definition drawing_display :: "pytext \<Rightarrow> unit res" where
  "drawing_display t = bindR (safe_display t)
     (\<lambda>_. ensure (drawing_suffix t) (ValueError ''drawing_display_suffix''))"

definition drawing_display_field :: "pytext \<Rightarrow> bool" where
  "drawing_display_field t \<longleftrightarrow> 5 \<le> length t \<and> length t \<le> 255 \<and> is_ok (drawing_display t)"

definition optional :: "('a \<Rightarrow> bool) \<Rightarrow> 'a option \<Rightarrow> bool" where
  "optional P v = (case v of None \<Rightarrow> True | Some x \<Rightarrow> P x)"

section \<open>Timestamps\<close>

text \<open>
  A datetime as it arrives: naive, or with its UTC offset (in seconds) and the instant it denotes.
  The wire models keep only offset zero, so a validated timestamp is an instant.
\<close>

datatype wire_time = NaiveTime int | OffsetTime int instant

definition require_utc :: "wire_time \<Rightarrow> instant res" where
  "require_utc v = (case v of
     OffsetTime off t \<Rightarrow> (if off = 0 then Inr t else Inl (ValueError ''timestamp_must_be_utc''))
   | NaiveTime _ \<Rightarrow> Inl (ValueError ''timestamp_must_be_utc''))"

definition max_task_lifetime :: int where "max_task_lifetime = seconds (5 * 60)"

definition max_clock_skew :: int where "max_clock_skew = seconds 30"

section \<open>Commands\<close>

datatype remote_command =
    ValidateEnvironmentCommand
  | ListProjectsCommand
  | ScanDrawingsCommand string bool "string option" int
  | InspectDrawingCommand string
  | CreatePublishPlanCommand string
  | TranslationCommand string translation_request

fun command_action :: "remote_command \<Rightarrow> task_command" where
  "command_action ValidateEnvironmentCommand = CmdValidateEnvironment"
| "command_action ListProjectsCommand = CmdListProjects"
| "command_action (ScanDrawingsCommand p r c l) = CmdScanDrawings"
| "command_action (InspectDrawingCommand d) = CmdInspectDrawing"
| "command_action (CreatePublishPlanCommand d) = CmdCreatePublishPlan"
| "command_action (TranslationCommand d r) = CmdTranslation"

fun valid_command :: "remote_command \<Rightarrow> bool" where
  "valid_command ValidateEnvironmentCommand = True"
| "valid_command ListProjectsCommand = True"
| "valid_command (ScanDrawingsCommand p r c l) =
     (remote_project_id p \<and> optional remote_cursor_id c \<and> 1 \<le> l \<and> l \<le> 100)"
| "valid_command (InspectDrawingCommand d) = remote_drawing_id d"
| "valid_command (CreatePublishPlanCommand d) = remote_drawing_id d"
| "valid_command (TranslationCommand d r) = (opaque_drawing d \<and> valid_request r)"

section \<open>The task envelope\<close>

text \<open>
  Literal fields (protocol version, audience, algorithm) have one value and carry no data. The
  parameter 't is wire\_time for the values a model is built from and instant once validated.
\<close>

record 't task_envelope =
  te_policy :: int
  te_tenant :: string
  te_user :: string
  te_device :: string
  te_task :: string
  te_operation :: string
  te_command_id :: string
  te_idem :: string
  te_nonce :: string
  te_issued :: 't
  te_expires :: 't
  te_command :: remote_command
  te_signature :: string

definition task_fields_ok :: "'t task_envelope \<Rightarrow> bool" where
  "task_fields_ok e \<longleftrightarrow> policy_version_ok (te_policy e) \<and> remote_tenant_id (te_tenant e)
     \<and> remote_user_id (te_user e) \<and> remote_device_id (te_device e) \<and> remote_task_id (te_task e)
     \<and> remote_operation_id (te_operation e) \<and> remote_command_id (te_command_id e)
     \<and> remote_idempotency_key (te_idem e) \<and> nonce_pattern (te_nonce e)
     \<and> valid_command (te_command e) \<and> signature_pattern (te_signature e)"

definition validate_lifetime :: "instant \<Rightarrow> instant \<Rightarrow> unit res" where
  "validate_lifetime issued expires =
     (if expires - issued \<le> 0 \<or> expires - issued > max_task_lifetime
      then Inl (ValueError ''dispatch_lifetime_invalid'') else Inr ())"

definition utc_times :: "wire_time task_envelope \<Rightarrow> instant \<Rightarrow> instant \<Rightarrow> instant task_envelope" where
  "utc_times e issued expires = \<lparr>te_policy = te_policy e, te_tenant = te_tenant e, te_user = te_user e,
     te_device = te_device e, te_task = te_task e, te_operation = te_operation e,
     te_command_id = te_command_id e, te_idem = te_idem e, te_nonce = te_nonce e, te_issued = issued,
     te_expires = expires, te_command = te_command e, te_signature = te_signature e\<rparr>"

text \<open>WorkerTaskEnvelope(...): every failure of a field or validator is one ValidationError.\<close>

definition worker_task_envelope :: "wire_time task_envelope \<Rightarrow> instant task_envelope res" where
  "worker_task_envelope e =
     (if \<not> task_fields_ok e then Inl (ValidationError ''worker_task_envelope'')
      else catchR (bindR (require_utc (te_issued e)) (\<lambda>issued.
                   bindR (require_utc (te_expires e)) (\<lambda>expires.
                   bindR (validate_lifetime issued expires) (\<lambda>_. Inr (utc_times e issued expires)))))
             (\<lambda>_. Inl (ValidationError ''worker_task_envelope'')))"

definition valid_task_envelope :: "instant task_envelope \<Rightarrow> bool" where
  "valid_task_envelope e \<longleftrightarrow> task_fields_ok e
     \<and> te_issued e < te_expires e \<and> te_expires e - te_issued e \<le> max_task_lifetime"

lemma worker_task_envelope_ok:
  "worker_task_envelope e = Inr v \<longleftrightarrow>
     (\<exists>i x. te_issued e = OffsetTime 0 i \<and> te_expires e = OffsetTime 0 x \<and> v = utc_times e i x
        \<and> valid_task_envelope v)"
  by (cases "te_issued e"; cases "te_expires e")
    (auto simp add: worker_task_envelope_def valid_task_envelope_def catchR_def require_utc_def utc_times_def
      validate_lifetime_def task_fields_ok_def split: sum.splits if_splits)

lemma worker_task_envelope_error:
  "worker_task_envelope e = Inl x \<Longrightarrow> x = ValidationError ''worker_task_envelope''"
  by (auto simp add: worker_task_envelope_def catchR_def split: if_splits sum.splits)

section \<open>What the signature covers\<close>

fun command_json :: "remote_command \<Rightarrow> json" where
  "command_json ValidateEnvironmentCommand = JObj [(''action'', jstr ''validate_environment'')]"
| "command_json ListProjectsCommand = JObj [(''action'', jstr ''list_projects'')]"
| "command_json (ScanDrawingsCommand p r c l) =
     JObj [(''action'', jstr ''scan_drawings''), (''project_id'', jstr p), (''recursive'', JBool r),
       (''cursor'', json_option jstr c), (''limit'', JInt l)]"
| "command_json (InspectDrawingCommand d) =
     JObj [(''action'', jstr ''inspect_drawing''), (''drawing_id'', jstr d)]"
| "command_json (CreatePublishPlanCommand d) =
     JObj [(''action'', jstr ''create_publish_plan''), (''drawing_id'', jstr d)]"
| "command_json (TranslationCommand d r) =
     JObj [(''action'', jstr ''translation''), (''drawing_id'', jstr d), (''request'', request_json r)]"

text \<open>
  canonical\_signing\_bytes dumps the whole model but its signature. How pydantic writes a UTC
  datetime is the parameter stamp.
\<close>

definition task_json_body :: "(instant \<Rightarrow> string) \<Rightarrow> instant task_envelope \<Rightarrow> json" where
  "task_json_body stamp e = JObj [(''protocol_version'', JInt 1), (''audience'', jstr ''cadplot-worker''),
     (''policy_version'', JInt (te_policy e)), (''tenant_id'', jstr (te_tenant e)), (''user_id'', jstr (te_user e)),
     (''device_id'', jstr (te_device e)), (''task_id'', jstr (te_task e)),
     (''operation_id'', jstr (te_operation e)), (''command_id'', jstr (te_command_id e)),
     (''idempotency_key'', jstr (te_idem e)), (''nonce'', jstr (te_nonce e)),
     (''issued_at'', jstr (stamp (te_issued e))), (''expires_at'', jstr (stamp (te_expires e))),
     (''command'', command_json (te_command e)), (''signature_algorithm'', jstr ''ed25519'')]"

definition task_signing_bytes :: "(instant \<Rightarrow> string) \<Rightarrow> instant task_envelope \<Rightarrow> nat list res" where
  "task_signing_bytes stamp e = canonical_wire (task_json_body stamp e)"

section \<open>Authorisation on the workstation\<close>

text \<open>A callback that raises counts as one that answers False.\<close>

definition truth :: "bool res \<Rightarrow> bool" where
  "truth r = (case r of Inr b \<Rightarrow> b | Inl _ \<Rightarrow> False)"

lemma truth_iff [simp]: "truth r \<longleftrightarrow> r = Inr True"
  by (auto simp add: truth_def split: sum.splits)

definition utc_instant :: "wire_time \<Rightarrow> instant option" where
  "utc_instant v = (case v of OffsetTime off t \<Rightarrow> if off = 0 then Some t else None | NaiveTime _ \<Rightarrow> None)"

text \<open>
  authorize\_for\_worker: context, time window and signature first; the nonce is spent (the callback
  changes its store) only when all three hold.
\<close>

definition time_matches :: "instant task_envelope \<Rightarrow> wire_time \<Rightarrow> bool" where
  "time_matches e now = (case utc_instant now of
     Some t \<Rightarrow> te_issued e - max_clock_skew \<le> t \<and> t < te_expires e
   | None \<Rightarrow> False)"

definition authorize_for_worker ::
  "(instant \<Rightarrow> string) \<Rightarrow> instant task_envelope \<Rightarrow> string \<Rightarrow> string \<Rightarrow> string \<Rightarrow> int \<Rightarrow> wire_time
    \<Rightarrow> (nat list \<Rightarrow> string \<Rightarrow> bool res) \<Rightarrow> (string \<Rightarrow> ('s, bool) py) \<Rightarrow> ('s, unit) py" where
  "authorize_for_worker stamp e tenant user device policy now verify accept_nonce =
     (let failed = ValueError ''dispatch_authorization_failed'';
          context_matches = (te_tenant e = tenant \<and> te_user e = user \<and> te_device e = device
            \<and> te_policy e = policy);
          signature_matches = truth (bindR (task_signing_bytes stamp e) (\<lambda>b. verify b (te_signature e))) in
      bindS (guardS (context_matches \<and> time_matches e now \<and> signature_matches) failed) (\<lambda>_.
      bindS (catchS (accept_nonce (te_nonce e)) (\<lambda>_. ret False)) (\<lambda>accepted.
      guardS accepted failed)))"

section \<open>Results\<close>

text \<open>
  A finite float (allow\_inf\_nan=False) is mantissa times a power of two.
\<close>

type_synonym py_float = "int \<times> int"

fun unit_float :: "py_float \<Rightarrow> bool" where
  "unit_float (m, e) \<longleftrightarrow> 0 \<le> m \<and> (if 0 \<le> e then m * 2 ^ nat e \<le> 1 else m \<le> 2 ^ nat (- e))"

fun positive_float :: "py_float \<Rightarrow> bool" where
  "positive_float (m, e) \<longleftrightarrow> 0 < m"

record environment_result =
  er_ready :: bool
  er_autocad :: bool
  er_plugin :: bool
  er_publish :: bool
  er_runtime :: "string option"
  er_identity :: bool
  er_codes :: "string list"

record project_summary =
  psu_id :: string
  psu_alias :: string
  psu_name :: pytext
  psu_enabled :: bool

record drawing_summary =
  dsu_id :: string
  dsu_name :: pytext
  dsu_size :: int
  dsu_modified :: instant

record drawings_result =
  dr_project :: string
  dr_revision :: string
  dr_drawings :: "drawing_summary list"
  dr_cursor :: "string option"

text \<open>LayoutSummary and PageSetupSummary have the same fields.\<close>

record layout_summary =
  ls_name :: pytext
  ls_model :: bool
  ls_plotter :: "pytext option"
  ls_media :: "pytext option"
  ls_style :: "pytext option"

record frame_summary =
  fs_handle :: string
  fs_layer :: pytext
  fs_label :: pytext
  fs_min :: "py_float \<times> py_float \<times> py_float"
  fs_max :: "py_float \<times> py_float \<times> py_float"
  fs_confidence :: py_float

record inspection_result =
  ir_drawing :: string
  ir_layouts :: "layout_summary list"
  ir_setups :: "layout_summary list"
  ir_frames :: "frame_summary list"
  ir_codes :: "string list"

datatype plan_sheet_status =
    Matched | Unmatched | DisallowedFrameLayer | LowConfidence | PageSetupMismatch
  | TemplateLayoutMismatch | TemplateAssetMismatch | UnsupportedScale | LayoutConflict

record plan_sheet_summary =
  sh_index :: int
  sh_handle :: string
  sh_label :: pytext
  sh_status :: plan_sheet_status
  sh_profile :: "string option"
  sh_target :: pytext
  sh_scale :: "py_float option"

record publish_plan_result =
  pp_drawing :: string
  pp_plan :: string
  pp_ready :: bool
  pp_sha256 :: string
  pp_sheets :: "plan_sheet_summary list"
  pp_codes :: "string list"

record error_result =
  ee_action :: task_command
  ee_code :: string
  ee_retryable :: bool
  ee_attention :: bool

datatype worker_result =
    EnvironmentResult environment_result
  | ProjectsResult "project_summary list"
  | DrawingsResult drawings_result
  | InspectionResult inspection_result
  | PublishPlanResult publish_plan_result
  | TranslationResult string translation_response
  | ErrorResult error_result

definition valid_project_summary :: "project_summary \<Rightarrow> bool" where
  "valid_project_summary p \<longleftrightarrow> remote_project_id (psu_id p) \<and> safe_alias (psu_alias p) \<and> display_field (psu_name p)"

definition valid_drawing_summary :: "drawing_summary \<Rightarrow> bool" where
  "valid_drawing_summary d \<longleftrightarrow> remote_drawing_id (dsu_id d) \<and> drawing_display_field (dsu_name d)
     \<and> 0 \<le> dsu_size d \<and> dsu_size d \<le> 9223372036854775807"

definition valid_layout_summary :: "layout_summary \<Rightarrow> bool" where
  "valid_layout_summary l \<longleftrightarrow> display_field (ls_name l) \<and> optional display_field (ls_plotter l)
     \<and> optional display_field (ls_media l) \<and> optional display_field (ls_style l)"

definition valid_frame_summary :: "frame_summary \<Rightarrow> bool" where
  "valid_frame_summary f \<longleftrightarrow> handle_pattern (fs_handle f) \<and> display_field (fs_layer f)
     \<and> display_field (fs_label f) \<and> unit_float (fs_confidence f)"

definition valid_plan_sheet :: "plan_sheet_summary \<Rightarrow> bool" where
  "valid_plan_sheet s \<longleftrightarrow> 1 \<le> sh_index s \<and> sh_index s \<le> 5000 \<and> handle_pattern (sh_handle s)
     \<and> display_field (sh_label s) \<and> optional safe_alias (sh_profile s) \<and> display_field (sh_target s)
     \<and> optional positive_float (sh_scale s)"

fun valid_worker_result :: "worker_result \<Rightarrow> bool" where
  "valid_worker_result (EnvironmentResult r) \<longleftrightarrow> optional runtime_series (er_runtime r) \<and> valid_codes 5000 (er_codes r)"
| "valid_worker_result (ProjectsResult ps) \<longleftrightarrow> length ps \<le> 100 \<and> list_all valid_project_summary ps"
| "valid_worker_result (DrawingsResult r) \<longleftrightarrow> remote_project_id (dr_project r) \<and> sha256_hex (dr_revision r)
     \<and> length (dr_drawings r) \<le> 100 \<and> list_all valid_drawing_summary (dr_drawings r)
     \<and> optional remote_cursor_id (dr_cursor r)"
| "valid_worker_result (InspectionResult r) \<longleftrightarrow> remote_drawing_id (ir_drawing r)
     \<and> length (ir_layouts r) \<le> 5000 \<and> list_all valid_layout_summary (ir_layouts r)
     \<and> length (ir_setups r) \<le> 1000 \<and> list_all valid_layout_summary (ir_setups r)
     \<and> length (ir_frames r) \<le> 5000 \<and> list_all valid_frame_summary (ir_frames r) \<and> valid_codes 5000 (ir_codes r)"
| "valid_worker_result (PublishPlanResult r) \<longleftrightarrow> remote_drawing_id (pp_drawing r) \<and> plan_id_pattern (pp_plan r)
     \<and> sha256_hex (pp_sha256 r) \<and> length (pp_sheets r) \<le> 5000 \<and> list_all valid_plan_sheet (pp_sheets r)
     \<and> valid_codes 5000 (pp_codes r)"
| "valid_worker_result (TranslationResult d r) \<longleftrightarrow> opaque_drawing d \<and> valid_response r"
| "valid_worker_result (ErrorResult r) \<longleftrightarrow> safe_code (ee_code r)"

record 't result_envelope =
  re_tenant :: string
  re_user :: string
  re_device :: string
  re_task :: string
  re_operation :: string
  re_command_id :: string
  re_completed :: 't
  re_result :: worker_result
  re_signature :: string

definition result_fields_ok :: "'t result_envelope \<Rightarrow> bool" where
  "result_fields_ok e \<longleftrightarrow> remote_tenant_id (re_tenant e) \<and> remote_user_id (re_user e)
     \<and> remote_device_id (re_device e) \<and> remote_task_id (re_task e) \<and> remote_operation_id (re_operation e)
     \<and> remote_command_id (re_command_id e) \<and> valid_worker_result (re_result e) \<and> signature_pattern (re_signature e)"

text \<open>WorkerResultEnvelope(...) with its completed\_at validator.\<close>

definition worker_result_envelope :: "wire_time result_envelope \<Rightarrow> instant result_envelope res" where
  "worker_result_envelope e =
     (if \<not> result_fields_ok e then Inl (ValidationError ''worker_result_envelope'')
      else (case require_utc (re_completed e) of
              Inl _ \<Rightarrow> Inl (ValidationError ''worker_result_envelope'')
            | Inr t \<Rightarrow> Inr \<lparr>re_tenant = re_tenant e, re_user = re_user e, re_device = re_device e,
                re_task = re_task e, re_operation = re_operation e, re_command_id = re_command_id e,
                re_completed = t, re_result = re_result e, re_signature = re_signature e\<rparr>))"

section \<open>Bounded payloads\<close>

datatype payload = PayloadBytes "nat list" | PayloadText pytext

definition max_task_payload_bytes :: nat where "max_task_payload_bytes = 256 * 1024"

definition max_result_payload_bytes :: nat where "max_result_payload_bytes = 8 * 1024 * 1024"

definition payload_bytes :: "payload \<Rightarrow> nat list res" where
  "payload_bytes p = (case p of PayloadBytes bs \<Rightarrow> Inr bs | PayloadText t \<Rightarrow> utf8_encode t)"

text \<open>
  The adapter (pydantic's validate\_json) is a parameter: what it makes of well-encoded bytes
  within the size bounds.
\<close>

definition parse_bounded_json :: "payload \<Rightarrow> nat \<Rightarrow> (nat list \<Rightarrow> 'a res) \<Rightarrow> 'a res" where
  "parse_bounded_json p max_bytes adapter =
     bindR (catchR (payload_bytes p) (\<lambda>_. Inl (ValueError ''payload_must_be_utf8_json''))) (\<lambda>encoded.
     if \<not> (2 \<le> length encoded \<and> length encoded \<le> max_bytes) then Inl (ValueError ''payload_size_invalid'')
     else if utf8_decode encoded = None then Inl (ValueError ''payload_must_be_utf8_json'')
     else adapter encoded)"

definition parse_task_payload :: "(nat list \<Rightarrow> 'a res) \<Rightarrow> payload \<Rightarrow> 'a res" where
  "parse_task_payload adapter p = parse_bounded_json p max_task_payload_bytes adapter"

definition parse_result_payload :: "(nat list \<Rightarrow> 'a res) \<Rightarrow> payload \<Rightarrow> 'a res" where
  "parse_result_payload adapter p = parse_bounded_json p max_result_payload_bytes adapter"

definition serialize_bounded :: "('a \<Rightarrow> pytext) \<Rightarrow> nat \<Rightarrow> 'a \<Rightarrow> nat list res" where
  "serialize_bounded dump max_bytes e = bindR (utf8_encode (dump e)) (\<lambda>encoded.
     if length encoded > max_bytes then Inl (ValueError ''payload_exceeds_safety_limit'') else Inr encoded)"

definition serialize_task_payload :: "('a \<Rightarrow> pytext) \<Rightarrow> 'a \<Rightarrow> nat list res" where
  "serialize_task_payload dump e = serialize_bounded dump max_task_payload_bytes e"

definition serialize_result_payload :: "('a \<Rightarrow> pytext) \<Rightarrow> 'a \<Rightarrow> nat list res" where
  "serialize_result_payload dump e = serialize_bounded dump max_result_payload_bytes e"

lemma authorize_for_worker_ok:
  "authorize_for_worker stamp e tenant user device policy now verify accept_nonce s = (Inr (), t) \<longleftrightarrow>
     te_tenant e = tenant \<and> te_user e = user \<and> te_device e = device \<and> te_policy e = policy \<and> time_matches e now
     \<and> (\<exists>b. task_signing_bytes stamp e = Inr b \<and> verify b (te_signature e) = Inr True)
     \<and> accept_nonce (te_nonce e) s = (Inr True, t)"
  by (auto simp add: authorize_for_worker_def Let_def bindS_eq_Inr catchS_def split: prod.splits sum.splits)

lemma authorize_for_worker_refused:
  assumes "authorize_for_worker stamp e tenant user device policy now verify accept_nonce s = (Inl x, t)"
  shows "x = ValueError ''dispatch_authorization_failed''"
  using assms by (auto simp add: authorize_for_worker_def Let_def bindS_eq_Inl catchS_def split: prod.splits sum.splits)

end
