(* ===== verification/Worker_Http.thy ===== *)
theory Worker_Http
  imports Remote_Protocol
begin

text \<open>
  What a workstation's HTTP request carries and how the gateway checks it: control messages and
  request proofs (packages/protocol/src/cadplot\_protocol/worker\_http\_protocol.py), signature text
  and verification (worker\_crypto.py) and WorkerRequestAuthenticator (worker\_auth.py) of
  services/gateway/cadplot\_gateway. Ed25519 and PEM reading are parameters.
\<close>

section \<open>Control messages\<close>

definition worker_routes :: "string list" where
  "worker_routes = [''/worker/v1/tasks/poll'', ''/worker/v1/tasks/start'', ''/worker/v1/tasks/complete'']"

definition max_control_payload_bytes :: nat where "max_control_payload_bytes = 16 * 1024"

definition worker_key_id :: "string \<Rightarrow> bool" where "worker_key_id s = opaque_id ''wkey'' ''4'' s"

record poll_request =
  wp_tenant :: string
  wp_user :: string
  wp_device :: string

record start_request =
  st_tenant :: string
  st_user :: string
  st_device :: string
  st_task :: string
  st_operation :: string
  st_command_id :: string

record control_ack =
  ack_task :: string
  ack_operation :: string
  ack_command_id :: string

definition valid_poll_request :: "poll_request \<Rightarrow> bool" where
  "valid_poll_request r \<longleftrightarrow> remote_tenant_id (wp_tenant r) \<and> remote_user_id (wp_user r) \<and> remote_device_id (wp_device r)"

definition valid_start_request :: "start_request \<Rightarrow> bool" where
  "valid_start_request r \<longleftrightarrow> remote_tenant_id (st_tenant r) \<and> remote_user_id (st_user r)
     \<and> remote_device_id (st_device r) \<and> remote_task_id (st_task r) \<and> remote_operation_id (st_operation r)
     \<and> remote_command_id (st_command_id r)"

definition worker_control_ack :: "string \<Rightarrow> string \<Rightarrow> string \<Rightarrow> control_ack res" where
  "worker_control_ack task oper command =
     (if remote_task_id task \<and> remote_operation_id oper \<and> remote_command_id command
      then Inr \<lparr>ack_task = task, ack_operation = oper, ack_command_id = command\<rparr>
      else Inl (ValidationError ''worker_control_ack''))"

definition parse_control_payload :: "(nat list \<Rightarrow> 'a res) \<Rightarrow> payload \<Rightarrow> 'a res" where
  "parse_control_payload adapter p = parse_bounded_json p max_control_payload_bytes adapter"

definition serialize_control_payload :: "('a \<Rightarrow> pytext) \<Rightarrow> 'a \<Rightarrow> nat list res" where
  "serialize_control_payload dump v = serialize_bounded dump max_control_payload_bytes v"

section \<open>Request proofs\<close>

record 't request_proof =
  rp_tenant :: string
  rp_device :: string
  rp_key :: string
  rp_issued :: 't
  rp_nonce :: string
  rp_body :: string
  rp_signature :: string

definition proof_fields_ok :: "'t request_proof \<Rightarrow> bool" where
  "proof_fields_ok p \<longleftrightarrow> remote_tenant_id (rp_tenant p) \<and> remote_device_id (rp_device p)
     \<and> worker_key_id (rp_key p) \<and> nonce_pattern (rp_nonce p) \<and> sha256_hex (rp_body p)
     \<and> signature_pattern (rp_signature p)"

definition worker_request_proof :: "wire_time request_proof \<Rightarrow> instant request_proof res" where
  "worker_request_proof p =
     (if \<not> proof_fields_ok p then Inl (ValidationError ''worker_request_proof'')
      else (case require_utc (rp_issued p) of
              Inl _ \<Rightarrow> Inl (ValidationError ''worker_request_proof'')
            | Inr t \<Rightarrow> Inr \<lparr>rp_tenant = rp_tenant p, rp_device = rp_device p, rp_key = rp_key p, rp_issued = t,
                rp_nonce = rp_nonce p, rp_body = rp_body p, rp_signature = rp_signature p\<rparr>))"

definition proof_json :: "(instant \<Rightarrow> string) \<Rightarrow> instant request_proof \<Rightarrow> string \<Rightarrow> string \<Rightarrow> json" where
  "proof_json stamp p method route = JObj [(''protocol_version'', JInt 1), (''tenant_id'', jstr (rp_tenant p)),
     (''device_id'', jstr (rp_device p)), (''key_id'', jstr (rp_key p)), (''issued_at'', jstr (stamp (rp_issued p))),
     (''nonce'', jstr (rp_nonce p)), (''body_sha256'', jstr (rp_body p)), (''method'', jstr method),
     (''route'', jstr route)]"

definition proof_signing_bytes ::
  "(instant \<Rightarrow> string) \<Rightarrow> instant request_proof \<Rightarrow> string \<Rightarrow> string \<Rightarrow> nat list res" where
  "proof_signing_bytes stamp p method route =
     (if method \<noteq> ''POST'' \<or> \<not> List.member worker_routes route then Inl (ValueError ''worker_request_target_invalid'')
      else canonical_wire (proof_json stamp p method route))"

text \<open>isoformat().replace("+00:00", "Z") of a UTC datetime is the parameter isoformat.\<close>

definition to_headers :: "(instant \<Rightarrow> string) \<Rightarrow> instant request_proof \<Rightarrow> (string \<times> string) list" where
  "to_headers isoformat p = [(''x-cadplot-tenant-id'', rp_tenant p), (''x-cadplot-device-id'', rp_device p),
     (''x-cadplot-key-id'', rp_key p), (''x-cadplot-issued-at'', isoformat (rp_issued p)),
     (''x-cadplot-nonce'', rp_nonce p), (''x-cadplot-body-sha256'', rp_body p),
     (''x-cadplot-signature'', rp_signature p)]"

definition build_request_proof ::
  "(instant \<Rightarrow> string) \<Rightarrow> (nat list \<Rightarrow> nat list) \<Rightarrow> string \<Rightarrow> string \<Rightarrow> string \<Rightarrow> wire_time \<Rightarrow> string
    \<Rightarrow> string \<Rightarrow> string \<Rightarrow> nat list \<Rightarrow> (nat list \<Rightarrow> string res) \<Rightarrow> instant request_proof res" where
  "build_request_proof stamp sha tenant device key issued nonce method route body sign =
     bindR (worker_request_proof \<lparr>rp_tenant = tenant, rp_device = device, rp_key = key, rp_issued = issued,
        rp_nonce = nonce, rp_body = hexdigest (sha body), rp_signature = replicate 86 CHR ''A''\<rparr>) (\<lambda>unsigned.
     bindR (bindR (proof_signing_bytes stamp unsigned method route) sign) (\<lambda>signature.
     worker_request_proof \<lparr>rp_tenant = rp_tenant unsigned, rp_device = rp_device unsigned,
        rp_key = rp_key unsigned, rp_issued = OffsetTime 0 (rp_issued unsigned), rp_nonce = rp_nonce unsigned,
        rp_body = rp_body unsigned, rp_signature = signature\<rparr>))"

text \<open>
  str.casefold on latin-1 header names: ASCII and accented capitals, sharp s to ss. The micro sign
  folds to a character no header name has; leaving it alone decides every lookup the same way.
\<close>

definition latin1_fold :: "char \<Rightarrow> string" where
  "latin1_fold ch = (let c = of_char ch :: nat in
     if 65 \<le> c \<and> c \<le> 90 \<or> 192 \<le> c \<and> c \<le> 222 \<and> c \<noteq> 215 then [char_of (c + 32)]
     else if c = 223 then ''ss'' else [ch])"

definition normalized_headers :: "(string \<times> string) list \<Rightarrow> string \<Rightarrow> string option" where
  "normalized_headers headers = map_of (rev (map (\<lambda>(k, v). (concat (map latin1_fold k), v)) headers))"

definition header :: "(string \<times> string) list \<Rightarrow> string \<Rightarrow> string res" where
  "header headers name = (case normalized_headers headers name of
     None \<Rightarrow> Inl (OtherException ''KeyError'') | Some v \<Rightarrow> Inr v)"

text \<open>How pydantic reads a datetime from text is the parameter parse\_time.\<close>

definition parse_request_proof ::
  "(string \<Rightarrow> wire_time res) \<Rightarrow> (string \<times> string) list \<Rightarrow> instant request_proof res" where
  "parse_request_proof parse_time headers =
     catchR
       (bindR (header headers ''x-cadplot-tenant-id'') (\<lambda>tenant.
        bindR (header headers ''x-cadplot-device-id'') (\<lambda>device.
        bindR (header headers ''x-cadplot-key-id'') (\<lambda>key.
        bindR (header headers ''x-cadplot-issued-at'') (\<lambda>issued_text.
        bindR (header headers ''x-cadplot-nonce'') (\<lambda>nonce.
        bindR (header headers ''x-cadplot-body-sha256'') (\<lambda>body.
        bindR (header headers ''x-cadplot-signature'') (\<lambda>signature.
        bindR (parse_time issued_text) (\<lambda>issued.
        worker_request_proof \<lparr>rp_tenant = tenant, rp_device = device, rp_key = key, rp_issued = issued,
          rp_nonce = nonce, rp_body = body, rp_signature = signature\<rparr>)))))))))
       (\<lambda>_. Inl (ValueError ''worker_request_proof_invalid''))"

section \<open>Signatures\<close>

text \<open>
  URL-safe base64 without padding, as worker\_crypto encodes and decodes 64-byte signatures. The
  decoder appends the padding and, like Python's, ignores the unused bits of the last character.
\<close>

definition b64_alphabet :: string where
  "b64_alphabet = ''ABCDEFGHIJKLMNOPQRSTUVWXYZabcdefghijklmnopqrstuvwxyz0123456789-_''"

definition b64_char :: "nat \<Rightarrow> char" where
  "b64_char n = b64_alphabet ! (n mod 64)"

fun index_of :: "'a \<Rightarrow> 'a list \<Rightarrow> nat option" where
  "index_of x [] = None"
| "index_of x (y # ys) = (if x = y then Some 0 else map_option Suc (index_of x ys))"

definition b64_value :: "char \<Rightarrow> nat option" where
  "b64_value c = index_of c b64_alphabet"

fun b64_encode :: "nat list \<Rightarrow> string" where
  "b64_encode (a # b # c # bs) =
     [b64_char (a div 4), b64_char (a mod 4 * 16 + b div 16), b64_char (b mod 16 * 4 + c div 64), b64_char c]
     @ b64_encode bs"
| "b64_encode [a, b] = [b64_char (a div 4), b64_char (a mod 4 * 16 + b div 16), b64_char (b mod 16 * 4)]"
| "b64_encode [a] = [b64_char (a div 4), b64_char (a mod 4 * 16)]"
| "b64_encode [] = []"

fun sextets_to_bytes :: "nat list \<Rightarrow> nat list" where
  "sextets_to_bytes (w # x # y # z # rest) =
     [w * 4 + x div 16, x mod 16 * 16 + y div 4, y mod 4 * 64 + z] @ sextets_to_bytes rest"
| "sextets_to_bytes [w, x, y] = [w * 4 + x div 16, x mod 16 * 16 + y div 4]"
| "sextets_to_bytes [w, x] = [w * 4 + x div 16]"
| "sextets_to_bytes rest = []"

fun b64_values :: "string \<Rightarrow> nat list option" where
  "b64_values [] = Some []"
| "b64_values (c # cs) = (case (b64_value c, b64_values cs) of (Some n, Some ns) \<Rightarrow> Some (n # ns) | _ \<Rightarrow> None)"

definition encode_signature :: "nat list \<Rightarrow> string res" where
  "encode_signature bs = (let s = b64_encode bs in
     if length s \<noteq> 86 then Inl (WorkerCryptoError ''signature_invalid'') else Inr s)"

definition decode_signature :: "string \<Rightarrow> nat list res" where
  "decode_signature s =
     (if length s \<noteq> 86 \<or> List.member s CHR ''='' then Inl (WorkerCryptoError ''signature_invalid'')
      else (case b64_values s of
              None \<Rightarrow> Inl (WorkerCryptoError ''signature_invalid'')
            | Some ns \<Rightarrow>
                (let bs = sextets_to_bytes ns in
                 if length bs \<noteq> 64 then Inl (WorkerCryptoError ''signature_invalid'') else Inr bs)))"

text \<open>
  WorkstationSignatureVerifier. Reading a PEM key and checking an Ed25519 signature are the
  cryptography package's: load\_pem gives the raw key of an Ed25519 PEM key, ed25519 verifies.
\<close>

record ed25519_package =
  ed_verify :: "nat list \<Rightarrow> nat list \<Rightarrow> nat list \<Rightarrow> bool res"
  load_pem :: "nat list \<Rightarrow> nat list option res"

definition try_key :: "ed25519_package \<Rightarrow> nat list \<Rightarrow> nat list \<Rightarrow> nat list \<Rightarrow> bool res" where
  "try_key ed signature payload material =
     catchR (if length material = 32 then ed_verify ed material signature payload
             else bindR (load_pem ed material) (\<lambda>key. case key of
                    None \<Rightarrow> Inr False
                  | Some k \<Rightarrow> ed_verify ed k signature payload))
       (\<lambda>e. if is_value_or_type_error e then Inr False else Inl e)"

fun try_keys :: "ed25519_package \<Rightarrow> nat list \<Rightarrow> nat list \<Rightarrow> nat list list \<Rightarrow> bool res" where
  "try_keys ed signature payload [] = Inr False"
| "try_keys ed signature payload (k # ks) =
     bindR (try_key ed signature payload k) (\<lambda>ok. if ok then Inr True else try_keys ed signature payload ks)"

definition verify_with_keys ::
  "ed25519_package \<Rightarrow> nat list list res \<Rightarrow> nat list \<Rightarrow> string \<Rightarrow> bool res" where
  "verify_with_keys ed resolved payload signature =
     (if payload = [] then Inr False
      else (case bindR (decode_signature signature) (\<lambda>d. map_sum id (Pair d) resolved) of
              Inl _ \<Rightarrow> Inr False
            | Inr (decoded, keys) \<Rightarrow>
                if keys = [] \<or> length keys > 8 then Inr False else try_keys ed decoded payload keys))"

section \<open>Request authentication\<close>

record 's credential_store =
  cs_resolve :: "string \<Rightarrow> string \<Rightarrow> string \<Rightarrow> ('s, nat list option) py"
  cs_consume :: "string \<Rightarrow> string \<Rightarrow> string \<Rightarrow> string \<Rightarrow> string \<Rightarrow> string \<Rightarrow> instant \<Rightarrow> ('s, bool) py"

record 's authenticator =
  au_store :: "string \<Rightarrow> ('s, 's credential_store) py"
  au_max_age :: int
  au_future_skew :: int
  au_sha256 :: "nat list \<Rightarrow> nat list"
  au_stamp :: "instant \<Rightarrow> string"
  au_parse_time :: "string \<Rightarrow> wire_time res"
  au_ed25519 :: ed25519_package

definition authenticator_window :: "int \<Rightarrow> int \<Rightarrow> unit res" where
  "authenticator_window max_age_seconds future_skew_seconds =
     ensure (1 \<le> max_age_seconds \<and> max_age_seconds \<le> 300 \<and> 0 \<le> future_skew_seconds \<and> future_skew_seconds \<le> 60)
       (ValueError ''worker_authentication_window_invalid'')"

definition auth_now :: "py_datetime \<Rightarrow> instant res" where
  "auth_now clk = (case clk of Naive _ \<Rightarrow> Inl WorkerAuthenticationError | Aware t \<Rightarrow> Inr t)"

definition in_proof_window :: "'s authenticator \<Rightarrow> instant request_proof \<Rightarrow> instant \<Rightarrow> bool" where
  "in_proof_window au p now \<longleftrightarrow> rp_issued p \<le> now + au_future_skew au \<and> now - rp_issued p \<le> au_max_age au"

definition auth_check :: "bool \<Rightarrow> ('s, unit) py" where
  "auth_check ok = guardS ok WorkerAuthenticationError"

text \<open>WorkerContext.from\_auth\_adapter validates the two ids with the gateway's patterns.\<close>

definition worker_context_of :: "string \<Rightarrow> string \<Rightarrow> worker_context res" where
  "worker_context_of tenant ws = (if tenant_id_ok tenant \<and> workstation_id_ok ws
     then Inr \<lparr>w_tenant = tenant, w_ws = ws\<rparr> else Inl (ValidationError ''worker_context''))"

definition authenticate ::
  "'s authenticator \<Rightarrow> (string \<times> string) list \<Rightarrow> nat list \<Rightarrow> string \<Rightarrow> string \<Rightarrow> py_datetime
    \<Rightarrow> ('s, worker_context \<times> instant request_proof) py" where
  "authenticate au headers body method route clk =
     catchS
       (bindS (liftR (parse_request_proof (au_parse_time au) headers)) (\<lambda>p.
        bindS (liftR (auth_now clk)) (\<lambda>now.
        bindS (auth_check (in_proof_window au p now \<and> rp_body p = hexdigest (au_sha256 au body))) (\<lambda>_.
        bindS (au_store au (rp_tenant p)) (\<lambda>store.
        bindS (cs_resolve store (rp_tenant p) (rp_device p) (rp_key p)) (\<lambda>found.
        bindS (auth_check (found \<noteq> None)) (\<lambda>_.
        bindS (liftR (bindR (proof_signing_bytes (au_stamp au) p method route)
                 (\<lambda>payload. verify_with_keys (au_ed25519 au) (Inr [the found]) payload (rp_signature p)))) (\<lambda>verified.
        bindS (auth_check verified) (\<lambda>_.
        bindS (cs_consume store (rp_tenant p) (rp_device p) (rp_key p) (rp_nonce p) route (rp_body p) (rp_issued p)) (\<lambda>fresh.
        bindS (auth_check fresh) (\<lambda>_.
        bindS (liftR (worker_context_of (rp_tenant p) (rp_device p))) (\<lambda>worker.
        ret (worker, p)))))))))))))
       (\<lambda>_. raise WorkerAuthenticationError)"

end
