(* ===== verification/Remote_Properties.thy ===== *)
theory Remote_Properties
  imports Service_Properties Worker_Http
begin

text \<open>
  The worker protocol: a task signature covers the whole task, bounded payloads and request proofs
  survive the trip, signature text decodes to the bytes it was made from, and an authenticated
  request is one its workstation signed, once.
\<close>

declare map_of_eq_Some_iff [simp del]

declare Some_eq_map_of_iff [simp del]

section \<open>The signature covers the task\<close>

fun command_text_ok :: "remote_command \<Rightarrow> bool" where
  "command_text_ok (TranslationCommand d r) = request_text_ok r"
| "command_text_ok c = True"

lemma command_json_object: "\<exists>kvs. command_json a = JObj kvs \<and> distinct (map fst kvs)
    \<and> map_of kvs ''action'' = Some (jstr (command_name (command_action a)))"
  by (cases a) (simp_all add: command_name_def)

lemma command_json_ok [simp]: "json_ok (command_json c) = command_text_ok c"
  by (cases c) simp_all

lemma command_json_inj:
  assumes "sorted_json (command_json a) = sorted_json (command_json b)"
  shows "a = b"
proof -
  have "command_name (command_action a) = command_name (command_action b)"
    using command_json_object[of a] command_json_object[of b] member_inj[OF assms] by metis
  then have n: "command_action a = command_action b" by (rule command_name_inj)
  show ?thesis
  proof (cases a)
    case h: (ScanDrawingsCommand p r x l)
    with n obtain p' r' x' l' where h': "b = ScanDrawingsCommand p' r' x' l'" by (cases b) auto
    note eq = sorted_object_lookup[OF assms[unfolded h h' command_json.simps]]
    from eq[of "''project_id''"] eq[of "''recursive''"] eq[of "''cursor''"] eq[of "''limit''"] h h' show ?thesis by simp
  next
    case h: (InspectDrawingCommand d)
    with n obtain d' where h': "b = InspectDrawingCommand d'" by (cases b) auto
    note eq = sorted_object_lookup[OF assms[unfolded h h' command_json.simps]]
    from eq[of "''drawing_id''"] h h' show ?thesis by simp
  next
    case h: (CreatePublishPlanCommand d)
    with n obtain d' where h': "b = CreatePublishPlanCommand d'" by (cases b) auto
    note eq = sorted_object_lookup[OF assms[unfolded h h' command_json.simps]]
    from eq[of "''drawing_id''"] h h' show ?thesis by simp
  next
    case h: (TranslationCommand d r)
    with n obtain d' r' where h': "b = TranslationCommand d' r'" by (cases b) auto
    note eq = sorted_object_lookup[OF assms[unfolded h h' command_json.simps]]
    from eq[of "''drawing_id''"] eq[of "''request''"] h h' request_json_inj[of r r'] show ?thesis by simp
  qed (use n in \<open>cases b; simp\<close>)+
qed

lemma task_body_inj:
  assumes stamp: "\<And>i j. stamp i = stamp j \<Longrightarrow> i = (j :: instant)"
    and eq: "sorted_json (task_json_body stamp e) = sorted_json (task_json_body stamp e')"
  shows "e' = e\<lparr>te_signature := te_signature e'\<rparr>"
proof -
  note m = sorted_object_lookup[OF eq[unfolded task_json_body_def]]
  from m[of "''policy_version''"] m[of "''tenant_id''"] m[of "''user_id''"] m[of "''device_id''"]
  have a: "te_policy e = te_policy e'" "te_tenant e = te_tenant e'" "te_user e = te_user e'"
    "te_device e = te_device e'" by simp_all
  from m[of "''task_id''"] m[of "''operation_id''"] m[of "''command_id''"] m[of "''idempotency_key''"]
  have b: "te_task e = te_task e'" "te_operation e = te_operation e'" "te_command_id e = te_command_id e'"
    "te_idem e = te_idem e'" by simp_all
  from m[of "''nonce''"] m[of "''issued_at''"] m[of "''expires_at''"] stamp
  have c: "te_nonce e = te_nonce e'" "te_issued e = te_issued e'" "te_expires e = te_expires e'" by simp_all
  from m[of "''command''"] have "te_command e = te_command e'" by (simp add: command_json_inj)
  with a b c show ?thesis by (cases e; cases e') simp
qed

text \<open>
  C34: Two tasks with the same signing bytes are the same task in every
  field but the signature, so a gateway signature made for one dispatch cannot be moved to another
  tenant, user, device, operation, command, nonce, policy or time window. The datetime text is
  assumed to determine the instant, and free text to hold no surrogates.
\<close>

theorem task_signature_covers_all:
  assumes stamp: "\<And>i j. stamp i = stamp j \<Longrightarrow> i = (j :: instant)"
    and texts: "command_text_ok (te_command e)" "command_text_ok (te_command e')"
    and bytes: "task_signing_bytes stamp e = Inr b" "task_signing_bytes stamp e' = Inr b"
  shows "e' = e\<lparr>te_signature := te_signature e'\<rparr>"
proof (rule task_body_inj[OF stamp])
  show "sorted_json (task_json_body stamp e) = sorted_json (task_json_body stamp e')"
    using bytes[unfolded task_signing_bytes_def]
    by (rule canonical_wire_inj) (simp_all add: task_json_body_def texts)
qed

lemma printable_scalar: "printable c \<Longrightarrow> scalar (of_char c)"
  by (simp add: printable_def scalar_def)

lemma codes_scalar: "list_all scalar (codes s)"
  by (simp add: codes_def key_scalar)

lemma escape_wire_scalar: "scalar c \<Longrightarrow> list_all scalar (escape_wire c)"
  using codes_scalar[of "hex4 c"]
  by (cases "short_escape c") (auto simp add: escape_wire_def scalar_def short_escape_def split: if_splits)

lemma quoted_wire_scalar: "list_all scalar t \<Longrightarrow> list_all scalar (quoted_wire t)"
  using escape_wire_scalar by (auto simp add: quoted_wire_def list_all_iff scalar_def[of 34])

lemma dumps_wire_scalar:
  "json_ok j \<Longrightarrow> list_all scalar (dumps_wire j)"
  "list_all json_ok xs \<Longrightarrow> list_all scalar (wire_items xs)"
  "list_all (\<lambda>(k, v). json_ok v) ms \<Longrightarrow> list_all scalar (wire_members ms)"
  by (induction j and xs and ms rule: dumps_wire_wire_items_wire_members.induct)
    (simp_all add: codes_scalar quoted_wire_scalar)

lemma canonical_wire_total: "json_ok j \<Longrightarrow> \<exists>b. canonical_wire j = Inr b"
  by (simp add: canonical_wire_def utf8_encode_def dumps_wire_scalar)

lemma task_signing_total: "command_text_ok (te_command e) \<Longrightarrow> \<exists>b. task_signing_bytes stamp e = Inr b"
  unfolding task_signing_bytes_def by (intro canonical_wire_total) (simp add: task_json_body_def)

definition sample_task :: "instant task_envelope" where
  "sample_task = \<lparr>te_policy = 3, te_tenant = tid, te_user = uid, te_device = wid,
     te_task = ''tsk_'' @ uuid_tail CHR ''a'', te_operation = oid CHR ''b'',
     te_command_id = ''cmd_'' @ uuid_tail CHR ''c'', te_idem = ''idem_'' @ uuid_tail CHR ''b'',
     te_nonce = replicate 22 CHR ''n'', te_issued = 10, te_expires = 60, te_command = ListProjectsCommand,
     te_signature = replicate 86 CHR ''A''\<rparr>"

lemma sample_task_valid: "valid_task_envelope sample_task"
  by code_simp

lemma dec_int_inj: "dec_int i = dec_int j \<Longrightarrow> i = j"
  using dec_int_prefix[of i "[]" j "[]"] by simp

theorem task_signature_covers_all_witness:
  "task_signing_bytes dec_int (sample_task\<lparr>te_nonce := replicate 22 CHR ''m''\<rparr>) \<noteq> task_signing_bytes dec_int sample_task"
proof
  let ?e = "sample_task\<lparr>te_nonce := replicate 22 CHR ''m''\<rparr>"
  assume eq: "task_signing_bytes dec_int ?e = task_signing_bytes dec_int sample_task"
  have t: "command_text_ok (te_command sample_task)" "command_text_ok (te_command ?e)" by (simp_all add: sample_task_def)
  obtain b where b: "task_signing_bytes dec_int sample_task = Inr b" using task_signing_total t(1) by blast
  have "sample_task = ?e\<lparr>te_signature := te_signature sample_task\<rparr>"
    by (rule task_signature_covers_all[OF dec_int_inj t(2) t(1) _ b]) (use eq b in simp_all)
  then have "te_nonce sample_task = te_nonce (?e\<lparr>te_signature := te_signature sample_task\<rparr>)" by simp
  then show False by (simp add: sample_task_def)
qed

section \<open>Round trips\<close>

lemma parse_of_bytes:
  assumes "utf8_encode t = Inr bs" and "2 \<le> length bs" and "length bs \<le> n"
  shows "parse_bounded_json (PayloadBytes bs) n adapter = adapter bs"
    and "parse_bounded_json (PayloadText t) n adapter = adapter bs"
  using assms utf8_round_trip[OF assms(1)] by (auto simp add: parse_bounded_json_def payload_bytes_def catchR_def)

lemma utf8_char_length: "1 \<le> length (utf8_char c)"
  by (simp add: utf8_char_def)

lemma utf8_longer: "length t \<le> length (concat (map utf8_char t))"
proof (induction t)
  case (Cons c t)
  with utf8_char_length[of c] show ?case by (simp del: One_nat_def)
qed simp

text \<open>
  What serialize\_task\_payload lets out, parse\_task\_payload takes back, as
  bytes and as text, whatever characters the document holds: the size bounds of writer and reader
  and their UTF-8 handling agree. Assumed of pydantic: its JSON reader inverts its JSON writer,
  whose documents are never shorter than two characters.
\<close>

theorem payload_round_trip:
  assumes dump: "\<And>b. utf8_encode (dump e) = Inr b \<Longrightarrow> adapter b = Inr e" and len: "2 \<le> length (dump e)"
    and out: "serialize_task_payload dump e = Inr bs"
  shows "parse_task_payload adapter (PayloadBytes bs) = Inr e \<and> parse_task_payload adapter (PayloadText (dump e)) = Inr e"
proof -
  from out have b: "utf8_encode (dump e) = Inr bs" "length bs \<le> max_task_payload_bytes"
    by (auto simp add: serialize_task_payload_def serialize_bounded_def split: if_splits)
  then have "2 \<le> length bs" using len utf8_longer[of "dump e"] by (auto simp add: utf8_encode_def split: if_splits)
  with b dump show ?thesis
    by (simp_all add: parse_task_payload_def parse_of_bytes)
qed

definition sample_document :: pytext where
  "sample_document = codes ''{}'' @ [233, 8364, 128512]"

lemma sample_document_bytes: "utf8_encode sample_document = Inr (codes ''{}'' @ [195, 169, 226, 130, 172, 240, 159, 152, 128])"
  by (simp add: sample_document_def utf8_encode_def utf8_char_def scalar_def codes_def)

theorem payload_round_trip_witness:
  "parse_task_payload (\<lambda>b. if b = codes ''{}'' @ [195, 169, 226, 130, 172, 240, 159, 152, 128] then Inr sample_task else Inl (ValidationError ''json''))
     (PayloadText sample_document) = Inr sample_task"
proof -
  have "serialize_task_payload (\<lambda>_. sample_document) sample_task = Inr (codes ''{}'' @ [195, 169, 226, 130, 172, 240, 159, 152, 128])"
    by (simp add: serialize_task_payload_def serialize_bounded_def sample_document_bytes max_task_payload_bytes_def codes_def)
  from payload_round_trip[of "\<lambda>_. sample_document" sample_task, OF _ _ this] show ?thesis
    by (simp add: sample_document_bytes) (simp add: sample_document_def codes_def)
qed

lemma ascii_headers_fold:
  "map (\<lambda>(k, v). (concat (map latin1_fold k), v)) (to_headers isotext p) = to_headers isotext p"
  unfolding to_headers_def by (simp add: latin1_fold_def Let_def)

lemma headers_lookup:
  "header (to_headers isotext p) ''x-cadplot-tenant-id'' = Inr (rp_tenant p)"
  "header (to_headers isotext p) ''x-cadplot-device-id'' = Inr (rp_device p)"
  "header (to_headers isotext p) ''x-cadplot-key-id'' = Inr (rp_key p)"
  "header (to_headers isotext p) ''x-cadplot-issued-at'' = Inr (isotext (rp_issued p))"
  "header (to_headers isotext p) ''x-cadplot-nonce'' = Inr (rp_nonce p)"
  "header (to_headers isotext p) ''x-cadplot-body-sha256'' = Inr (rp_body p)"
  "header (to_headers isotext p) ''x-cadplot-signature'' = Inr (rp_signature p)"
  unfolding header_def normalized_headers_def ascii_headers_fold by (simp_all add: to_headers_def)

lemma worker_request_proof_ok:
  "worker_request_proof p = Inr q \<longleftrightarrow> proof_fields_ok p \<and> (\<exists>t. rp_issued p = OffsetTime 0 t
     \<and> q = \<lparr>rp_tenant = rp_tenant p, rp_device = rp_device p, rp_key = rp_key p, rp_issued = t,
            rp_nonce = rp_nonce p, rp_body = rp_body p, rp_signature = rp_signature p\<rparr>)"
  by (cases "rp_issued p") (auto simp add: worker_request_proof_def require_utc_def)

text \<open>
  The proof a workstation builds for a request comes back from its headers
  unchanged, and covers the request's body hash, whatever the signer answers in the right format.
  Assumed of the libraries: the reader of a timestamp inverts isoformat.
\<close>

theorem proof_round_trip:
  assumes isotext: "parse_time (isotext (rp_issued p)) = Inr (OffsetTime 0 (rp_issued p))"
    and built: "build_request_proof stamp sha tenant device key issued nonce method route body sign = Inr p"
  shows "parse_request_proof parse_time (to_headers isotext p) = Inr p \<and> rp_body p = hexdigest (sha body)"
proof -
  from built have "rp_body p = hexdigest (sha body)"
    by (auto simp add: build_request_proof_def worker_request_proof_ok)
  moreover from built have "proof_fields_ok p" by (auto simp add: build_request_proof_def worker_request_proof_ok proof_fields_ok_def)
  with isotext have "parse_request_proof parse_time (to_headers isotext p) = Inr p"
    by (simp add: parse_request_proof_def headers_lookup worker_request_proof_def require_utc_def proof_fields_ok_def)
  ultimately show ?thesis by blast
qed

definition sample_key_id :: string where
  "sample_key_id = ''wkey_'' @ uuid_tail CHR ''a''"

definition sample_proof :: "wire_time request_proof" where
  "sample_proof = \<lparr>rp_tenant = tid, rp_device = wid, rp_key = sample_key_id, rp_issued = OffsetTime 0 40,
     rp_nonce = replicate 22 CHR ''n'', rp_body = hexdigest (replicate 32 7), rp_signature = replicate 86 CHR ''s''\<rparr>"

lemma sample_proof_fields: "proof_fields_ok sample_proof"
  by code_simp

lemma sample_proof_built:
  "build_request_proof dec_int (\<lambda>_. replicate 32 7) tid wid sample_key_id (OffsetTime 0 40) (replicate 22 CHR ''n'') ''POST''
     (worker_routes ! 0) [] (\<lambda>_. Inr (replicate 86 CHR ''s'')) = worker_request_proof sample_proof"
proof -
  let ?u = "\<lparr>rp_tenant = tid, rp_device = wid, rp_key = sample_key_id, rp_issued = 40, rp_nonce = replicate 22 CHR ''n'',
    rp_body = hexdigest (replicate 32 7), rp_signature = replicate 86 CHR ''A''\<rparr> :: instant request_proof"
  have f: "proof_fields_ok (sample_proof\<lparr>rp_signature := replicate 86 CHR ''A''\<rparr>)" by code_simp
  obtain b where b: "proof_signing_bytes dec_int ?u ''POST'' (worker_routes ! 0) = Inr b"
    using canonical_wire_total[of "proof_json dec_int ?u ''POST'' (worker_routes ! 0)"]
    by (auto simp add: proof_signing_bytes_def proof_json_def worker_routes_def List.member_iff)
  from f have "worker_request_proof (sample_proof\<lparr>rp_signature := replicate 86 CHR ''A''\<rparr>) = Inr ?u"
    by (simp add: worker_request_proof_def require_utc_def sample_proof_def)
  then show ?thesis using b by (simp add: build_request_proof_def sample_proof_def)
qed

theorem proof_round_trip_witness:
  "\<exists>p. parse_request_proof (\<lambda>s. if s = dec_int 40 then Inr (OffsetTime 0 40) else Inl (ValueError ''time''))
     (to_headers dec_int p) = Inr p \<and> rp_tenant p = tid"
proof -
  obtain p where p: "worker_request_proof sample_proof = Inr p" "rp_issued p = 40" "rp_tenant p = tid"
    using sample_proof_fields by (auto simp add: worker_request_proof_ok sample_proof_def)
  from proof_round_trip[OF _ sample_proof_built[unfolded p(1)], of "\<lambda>s. if s = dec_int 40 then Inr (OffsetTime 0 40) else Inl (ValueError ''time'')" dec_int] p
  show ?thesis by auto
qed

section \<open>Authenticated requests\<close>

lemma catchS_raise_const [simp]: "catchS m (\<lambda>_. raise e) s = (Inr y, t) \<longleftrightarrow> m s = (Inr y, t)"
  by (auto simp add: catchS_def split: prod.splits sum.splits)

lemma verify_one_key:
  assumes "verify_with_keys ed (Inr [k]) payload sig = Inr True"
  shows "\<exists>d. decode_signature sig = Inr d \<and> try_key ed d payload k = Inr True"
  using assms by (auto simp add: verify_with_keys_def map_sum_def split: if_splits sum.splits)

lemma try_key_raw:
  "length k = 32 \<Longrightarrow> try_key ed d payload k = Inr True \<Longrightarrow> ed_verify ed k d payload = Inr True"
  by (auto simp add: try_key_def catchR_def split: sum.splits if_splits)

text \<open>
  An authenticated request carries a proof issued within the
  window around the gateway's clock, whose body hash is the body's; a key registered for exactly
  that tenant, device and key id verifies its signature over this method, this route and the body
  hash; its nonce is spent in the same call; and the worker it stands for is the proof's.
\<close>

theorem authenticated_request_is_signed:
  assumes out: "authenticate au headers body method route clk s = (Inr (worker, p), t)"
  shows "\<exists>now store s1 s2 key payload d. clk = Aware now
    \<and> rp_issued p \<le> now + au_future_skew au \<and> now - rp_issued p \<le> au_max_age au
    \<and> rp_body p = hexdigest (au_sha256 au body)
    \<and> au_store au (rp_tenant p) s = (Inr store, s1)
    \<and> cs_resolve store (rp_tenant p) (rp_device p) (rp_key p) s1 = (Inr (Some key), s2)
    \<and> method = ''POST'' \<and> route \<in> set worker_routes
    \<and> canonical_wire (proof_json (au_stamp au) p method route) = Inr payload
    \<and> decode_signature (rp_signature p) = Inr d
    \<and> (length key = 32 \<longrightarrow> ed_verify (au_ed25519 au) key d payload = Inr True)
    \<and> cs_consume store (rp_tenant p) (rp_device p) (rp_key p) (rp_nonce p) route (rp_body p) (rp_issued p) s2 = (Inr True, t)
    \<and> worker = \<lparr>w_tenant = rp_tenant p, w_ws = rp_device p\<rparr>"
proof -
  from out obtain now store s1 s2 key payload where g: "clk = Aware now" "in_proof_window au p now"
    "rp_body p = hexdigest (au_sha256 au body)" "au_store au (rp_tenant p) s = (Inr store, s1)"
    "cs_resolve store (rp_tenant p) (rp_device p) (rp_key p) s1 = (Inr (Some key), s2)"
    "proof_signing_bytes (au_stamp au) p method route = Inr payload"
    "verify_with_keys (au_ed25519 au) (Inr [key]) payload (rp_signature p) = Inr True"
    "cs_consume store (rp_tenant p) (rp_device p) (rp_key p) (rp_nonce p) route (rp_body p) (rp_issued p) s2 = (Inr True, t)"
    "worker_context_of (rp_tenant p) (rp_device p) = Inr worker"
    by (auto simp add: authenticate_def bindS_eq_Inr auth_check_def auth_now_def split: py_datetime.splits)
  from verify_one_key[OF g(7)] obtain d where d: "decode_signature (rp_signature p) = Inr d"
    "try_key (au_ed25519 au) d payload key = Inr True" by blast
  from d(2) have k: "length key = 32 \<longrightarrow> ed_verify (au_ed25519 au) key d payload = Inr True"
    using try_key_raw by blast
  from g(2) have w: "rp_issued p \<le> now + au_future_skew au" "now - rp_issued p \<le> au_max_age au"
    by (simp_all add: in_proof_window_def)
  from g(6) have c: "method = ''POST''" "route \<in> set worker_routes"
    "canonical_wire (proof_json (au_stamp au) p method route) = Inr payload"
    by (auto simp add: proof_signing_bytes_def List.member_iff split: if_splits)
  from g(9) have "worker = \<lparr>w_tenant = rp_tenant p, w_ws = rp_device p\<rparr>"
    by (auto simp add: worker_context_of_def split: if_splits)
  with g(1,3,4,5,8) w c d(1) k show ?thesis by blast
qed

text \<open>The sample verifier accepts any payload signed with 64 zero bytes; the store knows one key.\<close>

definition sample_authenticator :: "string list authenticator" where
  "sample_authenticator = \<lparr>au_store = (\<lambda>_. ret \<lparr>cs_resolve = (\<lambda>_ _ _. ret (Some (replicate 32 1))),
       cs_consume = (\<lambda>_ _ _ n _ _ _. \<lambda>spent. (Inr (\<not> List.member spent n), n # spent))\<rparr>),
     au_max_age = seconds 60, au_future_skew = seconds 30, au_sha256 = (\<lambda>_. replicate 32 7), au_stamp = dec_int,
     au_parse_time = (\<lambda>s. if s = dec_int 40 then Inr (OffsetTime 0 40) else Inl (ValueError ''time'')),
     au_ed25519 = \<lparr>ed_verify = (\<lambda>_ d _. Inr (d = replicate 64 0)), load_pem = (\<lambda>_. Inr None)\<rparr>\<rparr>"

definition signed_proof :: "instant request_proof" where
  "signed_proof = \<lparr>rp_tenant = tid, rp_device = wid, rp_key = sample_key_id, rp_issued = 40,
     rp_nonce = replicate 22 CHR ''n'', rp_body = hexdigest (replicate 32 7), rp_signature = replicate 86 CHR ''A''\<rparr>"

lemma signed_proof_fields: "proof_fields_ok signed_proof" "tenant_id_ok tid" "workstation_id_ok wid"
  "decode_signature (replicate 86 CHR ''A'') = Inr (replicate 64 0)"
  by code_simp+

lemma sample_authenticated:
  "authenticate sample_authenticator (to_headers dec_int signed_proof) [] ''POST'' (worker_routes ! 0) (Aware 50) [] =
     (Inr (\<lparr>w_tenant = tid, w_ws = wid\<rparr>, signed_proof), [replicate 22 CHR ''n''])"
proof -
  obtain b where b: "canonical_wire (proof_json dec_int signed_proof ''POST'' (worker_routes ! 0)) = Inr b"
    using canonical_wire_total[of "proof_json dec_int signed_proof ''POST'' (worker_routes ! 0)"]
    by (auto simp add: proof_json_def)
  have ne: "b \<noteq> []"
    using b by (auto simp add: canonical_wire_def utf8_encode_def proof_json_def codes_def utf8_char_def split: if_splits)
  have p: "parse_request_proof (au_parse_time sample_authenticator) (to_headers dec_int signed_proof) = Inr signed_proof"
    using signed_proof_fields(1)
    by (simp add: parse_request_proof_def headers_lookup worker_request_proof_def require_utc_def proof_fields_ok_def
        sample_authenticator_def signed_proof_def)
  have v: "verify_with_keys (au_ed25519 sample_authenticator) (Inr [replicate 32 1]) b (replicate 86 CHR ''A'') = Inr True"
    using ne by (simp add: verify_with_keys_def signed_proof_fields(4) map_sum_def try_key_def sample_authenticator_def)
  show ?thesis
    using b v signed_proof_fields(2,3) p
    by (simp add: seconds_def authenticate_def catchS_def bindS_def auth_now_def auth_check_def in_proof_window_def proof_signing_bytes_def
        sample_authenticator_def signed_proof_def worker_routes_def worker_context_of_def)
qed

theorem authenticated_request_is_signed_witness:
  "\<exists>d. decode_signature (rp_signature signed_proof) = Inr d \<and> rp_body signed_proof = hexdigest (au_sha256 sample_authenticator [])"
  using authenticated_request_is_signed[OF sample_authenticated] by blast

section \<open>Signature text\<close>

lemma b64_table: "n < 64 \<Longrightarrow> b64_value (b64_char n) = Some n \<and> CHR ''='' \<noteq> b64_char n"
proof -
  have "list_all (\<lambda>n. b64_value (b64_char n) = Some n \<and> CHR ''='' \<noteq> b64_char n) [0..<64]" by code_simp
  then show "n < 64 \<Longrightarrow> ?thesis" by (simp add: list_all_iff del: upt_Suc)
qed

lemma sextet_bounds:
  fixes a b :: nat
  assumes "a < 256" and "b < 256"
  shows "a div 4 < 64" "a mod 4 * 16 + b div 16 < 64" "a mod 16 * 4 + b div 64 < 64" "a mod 4 * 16 < 64" "a mod 16 * 4 < 64"
proof -
  have "a mod 4 < 4" "b div 16 < 16" "a mod 16 < 16" "b div 64 < 4" using assms by simp_all
  then show "a div 4 < 64" "a mod 4 * 16 + b div 16 < 64" "a mod 16 * 4 + b div 64 < 64" "a mod 4 * 16 < 64" "a mod 16 * 4 < 64"
    using assms by linarith+
qed

lemma sextet_join:
  fixes a b :: nat
  assumes "b < 256"
  shows "a div 4 * 4 + (a mod 4 * 16 + b div 16) div 16 = a"
    "(a mod 4 * 16 + b div 16) mod 16 * 16 + (b mod 16 * 4 + c div 64) div 4 = b \<or> 256 \<le> c"
proof -
  have q: "b div 16 < 16" using assms by simp
  then have "(a mod 4 * 16 + b div 16) div 16 = a mod 4" by simp
  then show "a div 4 * 4 + (a mod 4 * 16 + b div 16) div 16 = a" by simp
  show "(a mod 4 * 16 + b div 16) mod 16 * 16 + (b mod 16 * 4 + c div 64) div 4 = b \<or> 256 \<le> c"
  proof (cases "c < 256")
    case True
    then have "c div 64 < 4" by simp
    then have "(b mod 16 * 4 + c div 64) div 4 = b mod 16" by simp
    with q show ?thesis by simp
  qed simp
qed

lemma sextet_last:
  fixes b c :: nat
  assumes "c < 256"
  shows "(b mod 16 * 4 + c div 64) mod 4 * 64 + c mod 64 = c"
proof -
  have "c div 64 < 4" using assms by simp
  then show ?thesis by simp
qed

text \<open>The sextets of a byte string, and that the characters spell them.\<close>

lemma b64_char_mod: "b64_char c = b64_char (c mod 64)"
  by (simp add: b64_char_def)

lemma b64_decode_encode:
  "list_all (\<lambda>b. b < 256) bs \<Longrightarrow>
     \<exists>ns. b64_values (b64_encode bs) = Some ns \<and> sextets_to_bytes ns = bs \<and> CHR ''='' \<notin> set (b64_encode bs)"
proof (induction bs rule: b64_encode.induct)
  case (1 a b c bs)
  then obtain ns where ns: "b64_values (b64_encode bs) = Some ns" "sextets_to_bytes ns = bs" "CHR ''='' \<notin> set (b64_encode bs)"
    by auto
  have r: "a < 256" "b < 256" "c < 256" using 1 by simp_all
  note t = b64_table[OF sextet_bounds(1)[OF r(1) r(2)]] b64_table[OF sextet_bounds(2)[OF r(1) r(2)]]
    b64_table[OF sextet_bounds(3)[OF r(2) r(3)]] b64_table[of "c mod 64"]
  have l: "b64_value (b64_char c) = Some (c mod 64)" "CHR ''='' \<noteq> b64_char c"
    using t(4) b64_char_mod[of c] by simp_all
  have j: "(a mod 4 * 16 + b div 16) mod 16 * 16 + (b mod 16 * 4 + c div 64) div 4 = b"
    using sextet_join(2)[OF r(2), of a c] r(3) by simp
  show ?case using t(1-3) l ns sextet_join(1)[OF r(2), of a] j sextet_last[OF r(3), of b]
    by simp
next
  case (2 a b)
  have r: "a < 256" "b < 256" using 2 by simp_all
  note t = b64_table[OF sextet_bounds(1)[OF r(1) r(2)]] b64_table[OF sextet_bounds(2)[OF r(1) r(2)]]
    b64_table[OF sextet_bounds(5)[OF r(2) r(2)]]
  have j: "(a mod 4 * 16 + b div 16) mod 16 * 16 + b mod 16 * 4 div 4 = b"
    using sextet_join(2)[OF r(2), of a 0] by simp
  show ?case using t sextet_join(1)[OF r(2), of a] j by simp
next
  case (3 a)
  have r: "a < 256" using 3 by simp
  note t = b64_table[OF sextet_bounds(1)[OF r r]] b64_table[OF sextet_bounds(4)[OF r r]]
  show ?case using t by simp
qed simp

lemma b64_length: "length (b64_encode bs) = (length bs * 4 + 2) div 3"
  by (induction bs rule: b64_encode.induct) auto

text \<open>
  Every 64-byte signature has an 86-character text that passes the
  envelopes' signature pattern length and decodes to the same bytes: the signer never fails on
  what Ed25519 produces, and the verifier checks the bytes that were signed.
\<close>

theorem signature_text_round_trip:
  assumes "length bs = 64" and "\<forall>b\<in>set bs. b < 256"
  shows "\<exists>s. encode_signature bs = Inr s \<and> length s = 86 \<and> decode_signature s = Inr bs"
proof -
  from assms(2) obtain ns where ns: "b64_values (b64_encode bs) = Some ns" "sextets_to_bytes ns = bs" "CHR ''='' \<notin> set (b64_encode bs)"
    using b64_decode_encode by (metis list_all_iff)
  have "length (b64_encode bs) = 86" using assms(1) by (simp add: b64_length)
  with ns assms(1) show ?thesis by (simp add: encode_signature_def decode_signature_def List.member_iff)
qed

theorem signature_text_round_trip_witness:
  "\<exists>s. encode_signature (replicate 63 200 @ [255]) = Inr s \<and> decode_signature s = Inr (replicate 63 200 @ [255])"
  using signature_text_round_trip[of "replicate 63 200 @ [255]"] by auto

end
