(* ===== verification/Replay_Guard.thy ===== *)
theory Replay_Guard
  imports Remote_Protocol
begin

text \<open>
  services/gateway/cadplot\_gateway/worker\_ingress.py, first part: the guard against replayed
  results. The ResultReplayGuard protocol is a record of operations over any state, with its laws
  as a locale; InMemoryResultReplayGuard is modelled method by method and interprets the locale.
  Each method runs under the guard's RLock and is one atomic step.
\<close>

section \<open>Replay guards\<close>

datatype replay_classification = ReplayUnseen | ReplayFirstSeen | ReplayExactMatch | ReplayConflict

datatype application_status = ApplicationAcquired | ApplicationBusy | ApplicationApplied | ApplicationConflict

text \<open>
  The keyword arguments every guard method takes, split as the guard splits them: the key (tenant,
  device, nonce) and the value (task, command, hash of the result, completion time).
\<close>

type_synonym replay_key = "string \<times> string \<times> string"

type_synonym replay_value = "string \<times> string \<times> string \<times> instant"

record 'g replay_guard =
  g_classify :: "replay_key \<Rightarrow> replay_value \<Rightarrow> ('g, replay_classification) py"
  g_claim :: "replay_key \<Rightarrow> replay_value \<Rightarrow> py_datetime \<Rightarrow> ('g, replay_classification) py"
  g_acquire :: "replay_key \<Rightarrow> replay_value \<Rightarrow> string \<Rightarrow> int \<Rightarrow> ('g, application_status) py"
  g_mark_applied :: "replay_key \<Rightarrow> replay_value \<Rightarrow> string \<Rightarrow> ('g, bool) py"

section \<open>The in-memory guard\<close>

record replay_store =
  seen :: "replay_key \<Rightarrow> replay_value option"
  applied_keys :: "replay_key set"
  applications :: "replay_key \<Rightarrow> (string \<times> instant) option"

definition empty_guard :: replay_store where
  "empty_guard = \<lparr>seen = (\<lambda>_. None), applied_keys = {}, applications = (\<lambda>_. None)\<rparr>"

definition guard_classify :: "replay_key \<Rightarrow> replay_value \<Rightarrow> replay_store \<Rightarrow> replay_classification" where
  "guard_classify key v g = (case seen g key of
     None \<Rightarrow> ReplayUnseen
   | Some existing \<Rightarrow> if existing = v then ReplayExactMatch else ReplayConflict)"

text \<open>clk is None when the guard was built without a clock; claim then skips the expiry test.\<close>

definition claim_lapsed :: "py_datetime option \<Rightarrow> instant \<Rightarrow> bool" where
  "claim_lapsed clk limit = (case clk of None \<Rightarrow> False | Some (Naive _) \<Rightarrow> True | Some (Aware now) \<Rightarrow> limit \<le> now)"

definition guard_claim ::
  "py_datetime option \<Rightarrow> replay_key \<Rightarrow> replay_value \<Rightarrow> py_datetime \<Rightarrow> replay_store
    \<Rightarrow> replay_classification \<times> replay_store" where
  "guard_claim clk key v claim_expires_at g = (case seen g key of
     Some existing \<Rightarrow> (if existing = v then ReplayExactMatch else ReplayConflict, g)
   | None \<Rightarrow>
       (case claim_expires_at of
          Naive _ \<Rightarrow> (ReplayUnseen, g)
        | Aware limit \<Rightarrow>
            if claim_lapsed clk limit then (ReplayUnseen, g)
            else (ReplayFirstSeen, g\<lparr>seen := (seen g)(key \<mapsto> v)\<rparr>)))"

text \<open>A UUID is its canonical text; version 4 with the RFC variant is a pattern of that text.\<close>

definition uuid_version4 :: "string \<Rightarrow> bool" where
  "uuid_version4 s = match_classes (uuid_classes ''4'') s"

definition guard_acquire ::
  "py_datetime \<Rightarrow> replay_key \<Rightarrow> replay_value \<Rightarrow> string \<Rightarrow> int \<Rightarrow> replay_store
    \<Rightarrow> application_status \<times> replay_store" where
  "guard_acquire clk key v application_id lease_seconds g =
     (if \<not> uuid_version4 application_id \<or> \<not> (1 \<le> lease_seconds \<and> lease_seconds \<le> 60)
      then (ApplicationConflict, g)
      else if seen g key \<noteq> Some v then (ApplicationConflict, g)
      else if key \<in> applied_keys g then (ApplicationApplied, g)
      else (case clk of
              Naive _ \<Rightarrow> (ApplicationConflict, g)
            | Aware now \<Rightarrow>
                (case applications g key of
                   Some (holder, until) \<Rightarrow>
                     if now < until
                     then (if holder = application_id then ApplicationAcquired else ApplicationBusy, g)
                     else (ApplicationAcquired,
                           g\<lparr>applications := (applications g)(key \<mapsto> (application_id, now + seconds lease_seconds))\<rparr>)
                 | None \<Rightarrow>
                     (ApplicationAcquired,
                      g\<lparr>applications := (applications g)(key \<mapsto> (application_id, now + seconds lease_seconds))\<rparr>))))"

definition guard_mark_applied ::
  "py_datetime \<Rightarrow> replay_key \<Rightarrow> replay_value \<Rightarrow> string \<Rightarrow> replay_store \<Rightarrow> bool \<times> replay_store" where
  "guard_mark_applied clk key v application_id g =
     (if seen g key \<noteq> Some v then (False, g)
      else if key \<in> applied_keys g then (True, g)
      else (case clk of
              Naive _ \<Rightarrow> (False, g)
            | Aware now \<Rightarrow>
                (case applications g key of
                   Some (holder, until) \<Rightarrow>
                     if holder = application_id \<and> now < until
                     then (True, g\<lparr>applied_keys := insert key (applied_keys g)\<rparr>) else (False, g)
                 | None \<Rightarrow> (False, g))))"

text \<open>
  InMemoryResultReplayGuard as a guard. It reads its clock once in each of claim, acquire and mark
  (configured tells whether it was given one; without one acquire and mark use the system clock).
\<close>

definition lift_guard :: "('g \<Rightarrow> 'a \<times> 'g) \<Rightarrow> ('g, 'a) py" where
  "lift_guard f = (\<lambda>g. case f g of (x, g') \<Rightarrow> (Inr x, g'))"

definition memory_guard :: "bool \<Rightarrow> py_datetime \<Rightarrow> py_datetime \<Rightarrow> py_datetime \<Rightarrow> replay_store replay_guard" where
  "memory_guard configured clk_claim clk_acquire clk_mark =
     \<lparr>g_classify = (\<lambda>key v. lift_guard (\<lambda>g. (guard_classify key v g, g))),
      g_claim = (\<lambda>key v limit. lift_guard (guard_claim (if configured then Some clk_claim else None) key v limit)),
      g_acquire = (\<lambda>key v a n. lift_guard (guard_acquire clk_acquire key v a n)),
      g_mark_applied = (\<lambda>key v a. lift_guard (guard_mark_applied clk_mark key v a))\<rparr>"

section \<open>The contract\<close>

text \<open>
  What the ingress relies on, in terms of a view into the guard's state: which value a key was
  first claimed with, and which keys are finished. A claim is the only way a key gets its value,
  and it never changes; a key is finished only by a mark. A claim that raises may have been made
  nonetheless (a durable guard commits, and then loses the connection before it can answer).
\<close>

locale guard_contract =
  fixes G :: "'g replay_guard"
    and claimed :: "'g \<Rightarrow> replay_key \<Rightarrow> replay_value option"
    and finished :: "'g \<Rightarrow> replay_key \<Rightarrow> bool"
  assumes classify_answer: "g_classify G key v g = (Inr c, g') \<Longrightarrow> g' = g \<and>
      c = (case claimed g key of None \<Rightarrow> ReplayUnseen
           | Some w \<Rightarrow> if w = v then ReplayExactMatch else ReplayConflict)"
    and claim_first: "g_claim G key v limit g = (Inr ReplayFirstSeen, g') \<Longrightarrow>
      claimed g key = None \<and> claimed g' = (claimed g)(key \<mapsto> v) \<and> finished g' = finished g"
    and claim_exact: "g_claim G key v limit g = (Inr ReplayExactMatch, g') \<Longrightarrow>
      claimed g key = Some v \<and> g' = g"
    and claim_other: "g_claim G key v limit g = (Inr c, g') \<Longrightarrow> c \<noteq> ReplayFirstSeen \<Longrightarrow>
      claimed g' = claimed g \<and> finished g' = finished g"
    and claim_raised: "g_claim G key v limit g = (Inl x, g') \<Longrightarrow> finished g' = finished g \<and>
      (claimed g' = claimed g \<or> claimed g key = None \<and> claimed g' = (claimed g)(key \<mapsto> v))"
    and acquire_view: "g_acquire G key v a n g = (ra, g') \<Longrightarrow>
      claimed g' = claimed g \<and> finished g' = finished g"
    and acquire_applied: "g_acquire G key v a n g = (Inr ApplicationApplied, g') \<Longrightarrow>
      claimed g key = Some v \<and> finished g key"
    and acquire_acquired: "g_acquire G key v a n g = (Inr ApplicationAcquired, g') \<Longrightarrow>
      claimed g key = Some v \<and> \<not> finished g key"
    and mark_view: "g_mark_applied G key v a g = (rm, g') \<Longrightarrow>
      claimed g' = claimed g \<and> (\<forall>k. finished g' k \<longrightarrow> finished g k \<or> k = key)"
    and mark_true: "g_mark_applied G key v a g = (Inr True, g') \<Longrightarrow> finished g' key"
    and finish_stays: "g_mark_applied G key v a g = (rm, g') \<Longrightarrow> finished g k \<Longrightarrow> finished g' k"
    and classify_pure: "snd (g_classify G key v g) = g"
begin

lemma classify_exact: "g_classify G key v g = (Inr ReplayExactMatch, g') \<Longrightarrow> claimed g key = Some v \<and> g' = g"
  using classify_answer[of key v g ReplayExactMatch g'] by (auto split: option.splits if_splits)

lemma classify_unseen: "g_classify G key v g = (Inr ReplayUnseen, g') \<Longrightarrow> claimed g key = None \<and> g' = g"
  using classify_answer[of key v g ReplayUnseen g'] by (auto split: option.splits if_splits)

lemma claimed_stays:
  assumes "g_claim G key v limit g = (r, g')" and "claimed g k = Some w"
  shows "claimed g' k = Some w"
proof (cases r)
  case (Inl x)
  with assms claim_raised[of key v limit g x g'] show ?thesis by auto
next
  case (Inr c)
  with assms claim_first[of key v limit g g'] claim_other[of key v limit g c g'] show ?thesis
    by (cases "c = ReplayFirstSeen") auto
qed

end

definition mem_finished :: "replay_store \<Rightarrow> replay_key \<Rightarrow> bool" where
  "mem_finished g key \<longleftrightarrow> key \<in> applied_keys g"

lemma lift_guard_eq: "lift_guard f g = (r, g') \<longleftrightarrow> (\<exists>x. r = Inr x \<and> f g = (x, g'))"
  by (auto simp add: lift_guard_def split: prod.splits)

lemma guard_acquire_view:
  "guard_acquire clk key v a n g = (x, g') \<Longrightarrow> seen g' = seen g \<and> applied_keys g' = applied_keys g"
  by (auto simp add: guard_acquire_def split: if_splits py_datetime.splits option.splits prod.splits)

lemma guard_mark_view:
  "guard_mark_applied clk key v a g = (x, g') \<Longrightarrow>
     seen g' = seen g \<and> applied_keys g \<subseteq> applied_keys g' \<and> applied_keys g' \<subseteq> insert key (applied_keys g)
     \<and> (x \<longrightarrow> key \<in> applied_keys g')"
  by (auto simp add: guard_mark_applied_def split: if_splits py_datetime.splits option.splits prod.splits)

lemma guard_claim_cases:
  "guard_claim clk key v limit g = (x, g') \<Longrightarrow>
     (x = ReplayFirstSeen \<and> seen g key = None \<and> g' = g\<lparr>seen := (seen g)(key \<mapsto> v)\<rparr>)
     \<or> (x \<noteq> ReplayFirstSeen \<and> g' = g \<and> (x = ReplayExactMatch \<longrightarrow> seen g key = Some v))"
  by (auto simp add: guard_claim_def split: if_splits py_datetime.splits option.splits)

lemma guard_acquire_state:
  "guard_acquire clk key v a n g = (ApplicationApplied, g') \<Longrightarrow> seen g key = Some v \<and> key \<in> applied_keys g"
  "guard_acquire clk key v a n g = (ApplicationAcquired, g') \<Longrightarrow> seen g key = Some v \<and> key \<notin> applied_keys g"
  by (auto simp add: guard_acquire_def split: if_splits py_datetime.splits option.splits prod.splits)

interpretation mg: guard_contract "memory_guard configured c1 c2 c3" seen mem_finished
  apply unfold_locales
  subgoal by (auto simp add: memory_guard_def lift_guard_eq guard_classify_def)
  subgoal by (auto simp add: memory_guard_def lift_guard_eq mem_finished_def fun_eq_iff dest!: guard_claim_cases)
  subgoal by (auto simp add: memory_guard_def lift_guard_eq dest!: guard_claim_cases)
  subgoal by (auto simp add: memory_guard_def lift_guard_eq dest!: guard_claim_cases)
  subgoal by (simp add: memory_guard_def lift_guard_eq)
  subgoal by (auto simp add: memory_guard_def lift_guard_eq mem_finished_def fun_eq_iff dest!: guard_acquire_view)
  subgoal by (auto simp add: memory_guard_def lift_guard_eq mem_finished_def dest!: guard_acquire_state)
  subgoal by (auto simp add: memory_guard_def lift_guard_eq mem_finished_def dest!: guard_acquire_state)
  subgoal by (auto simp add: memory_guard_def lift_guard_eq mem_finished_def dest!: guard_mark_view)
  subgoal by (auto simp add: memory_guard_def lift_guard_eq mem_finished_def dest!: guard_mark_view)
  subgoal by (auto simp add: memory_guard_def lift_guard_eq mem_finished_def dest!: guard_mark_view)
  subgoal by (simp add: memory_guard_def lift_guard_def)
  done

end
