(* ===== verification/Worker_Ingress.thy ===== *)
theory Worker_Ingress
  imports Replay_Guard Worker_Http
begin

text \<open>
  services/gateway/cadplot\_gateway/worker\_ingress.py, second part: the correlation kept for a
  dispatch, GatewayDispatchAdapter.build, which turns a leased operation into a signed task, and
  GatewayWorkerIngress, which takes a worker's start and its signed result, claims the result with
  the replay guard and applies it through the gateway service. The service's store and the guard's
  store are separate; SHA-256, the canonical bytes of a result, the JSON parsers and the signature
  check are parameters.
\<close>

section \<open>Correlations\<close>

record dispatch_correlation =
  dc_policy :: int
  dc_tenant :: string
  dc_user :: string
  dc_device :: string
  dc_task :: string
  dc_operation :: string
  dc_command_id :: string
  dc_idem :: string
  dc_nonce :: string
  dc_command :: remote_command
  dc_sha256 :: string
  dc_issued :: instant
  dc_dispatch_expires :: instant
  dc_operation_expires :: instant

definition correlation_fields_ok :: "dispatch_correlation \<Rightarrow> bool" where
  "correlation_fields_ok c \<longleftrightarrow> policy_version_ok (dc_policy c) \<and> remote_tenant_id (dc_tenant c)
     \<and> remote_user_id (dc_user c) \<and> remote_device_id (dc_device c) \<and> remote_task_id (dc_task c)
     \<and> remote_operation_id (dc_operation c) \<and> remote_command_id (dc_command_id c)
     \<and> remote_idempotency_key (dc_idem c) \<and> nonce_pattern (dc_nonce c) \<and> valid_command (dc_command c)
     \<and> sha256_hex (dc_sha256 c)"

definition correlation_deadlines :: "dispatch_correlation \<Rightarrow> unit res" where
  "correlation_deadlines c =
     (if \<not> (dc_issued c < dc_dispatch_expires c \<and> dc_dispatch_expires c \<le> dc_operation_expires c)
      then Inl (ValueError ''correlation_deadline_invalid'')
      else if dc_dispatch_expires c - dc_issued c > max_task_lifetime
      then Inl (ValueError ''correlation_dispatch_lifetime_invalid'')
      else Inr ())"

text \<open>DispatchCorrelation(...), its timestamps already UTC.\<close>

definition make_correlation :: "dispatch_correlation \<Rightarrow> dispatch_correlation res" where
  "make_correlation c =
     (if \<not> correlation_fields_ok c then Inl (ValidationError ''dispatch_correlation'')
      else (case correlation_deadlines c of Inl _ \<Rightarrow> Inl (ValidationError ''dispatch_correlation'') | Inr _ \<Rightarrow> Inr c))"

definition valid_correlation :: "dispatch_correlation \<Rightarrow> bool" where
  "valid_correlation c \<longleftrightarrow> correlation_fields_ok c \<and> correlation_deadlines c = Inr ()"

record signed_dispatch =
  sd_envelope :: "instant task_envelope"
  sd_correlation :: dispatch_correlation

section \<open>Dispatch\<close>

definition ingress_now :: "py_datetime \<Rightarrow> instant res" where
  "ingress_now clk = (case clk of Naive _ \<Rightarrow> Inl (WorkerIngressError ''clock_invalid'') | Aware t \<Rightarrow> Inr t)"

definition make_command :: "remote_command \<Rightarrow> remote_command res" where
  "make_command c = (if valid_command c then Inr c else Inl (ValidationError ''command''))"

definition remote_command_of :: "operation_record \<Rightarrow> remote_command res" where
  "remote_command_of oper = (case o_task oper of
     TranslationTask d req \<Rightarrow> make_command (TranslationCommand d req)
   | ValidateEnvironmentTask w \<Rightarrow>
       (if w \<noteq> o_ws oper then Inl (WorkerIngressError ''task_binding_invalid'') else Inr ValidateEnvironmentCommand)
   | ListProjectsTask w \<Rightarrow>
       (if w \<noteq> o_ws oper then Inl (WorkerIngressError ''task_binding_invalid'') else Inr ListProjectsCommand)
   | ScanDrawingsTask p rc lim \<Rightarrow>
       catchR (make_command (ScanDrawingsCommand p rc None lim))
         (\<lambda>e. Inl (if is_value_or_type_error e then WorkerIngressError ''task_unsupported'' else e))
   | InspectDrawingTask d \<Rightarrow> make_command (InspectDrawingCommand d)
   | CreatePublishPlanTask d \<Rightarrow> make_command (CreatePublishPlanCommand d))"

record dispatch_adapter =
  da_policy :: int
  da_sign :: "nat list \<Rightarrow> string res"
  da_sha256 :: "nat list \<Rightarrow> nat list"
  da_stamp :: "instant \<Rightarrow> string"

definition dispatch_adapter_init ::
  "int \<Rightarrow> (nat list \<Rightarrow> string res) \<Rightarrow> (nat list \<Rightarrow> nat list) \<Rightarrow> (instant \<Rightarrow> string) \<Rightarrow> dispatch_adapter res" where
  "dispatch_adapter_init policy sign sha stamp =
     (if 1 \<le> policy \<and> policy \<le> 2147483647
      then Inr \<lparr>da_policy = policy, da_sign = sign, da_sha256 = sha, da_stamp = stamp\<rparr>
      else Inl (WorkerIngressError ''policy_version_invalid''))"

definition dispatch_values ::
  "dispatch_adapter \<Rightarrow> operation_record \<Rightarrow> remote_command \<Rightarrow> instant \<Rightarrow> instant \<Rightarrow> string \<Rightarrow> string \<Rightarrow> string
    \<Rightarrow> string \<Rightarrow> wire_time task_envelope" where
  "dispatch_values da oper command now expires uuid1 uuid2 nonce signature =
     \<lparr>te_policy = da_policy da, te_tenant = o_tenant oper, te_user = o_owner oper, te_device = o_ws oper,
      te_task = ''tsk_'' @ uuid1, te_operation = o_id oper, te_command_id = ''cmd_'' @ uuid2,
      te_idem = o_idem oper, te_nonce = nonce, te_issued = OffsetTime 0 now, te_expires = OffsetTime 0 expires,
      te_command = command, te_signature = signature\<rparr>"

definition correlation_of ::
  "dispatch_adapter \<Rightarrow> instant task_envelope \<Rightarrow> nat list \<Rightarrow> instant \<Rightarrow> dispatch_correlation" where
  "correlation_of da e body operation_expires =
     \<lparr>dc_policy = da_policy da, dc_tenant = te_tenant e, dc_user = te_user e, dc_device = te_device e,
      dc_task = te_task e, dc_operation = te_operation e, dc_command_id = te_command_id e, dc_idem = te_idem e,
      dc_nonce = te_nonce e, dc_command = te_command e, dc_sha256 = hexdigest (da_sha256 da body),
      dc_issued = te_issued e, dc_dispatch_expires = te_expires e, dc_operation_expires = operation_expires\<rparr>"

text \<open>
  GatewayDispatchAdapter.build: the clock reading, the two uuids and the nonce it draws are
  arguments. The TypeError or ValueError of building, signing or validating becomes dispatch\_invalid.
\<close>

definition build_dispatch ::
  "dispatch_adapter \<Rightarrow> operation_record \<Rightarrow> py_datetime \<Rightarrow> string \<Rightarrow> string \<Rightarrow> string \<Rightarrow> signed_dispatch res" where
  "build_dispatch da oper clk uuid1 uuid2 nonce =
     bindR (ingress_now clk) (\<lambda>now.
     case o_lease oper of
       None \<Rightarrow> Inl (WorkerIngressError ''operation_not_leased'')
     | Some lease \<Rightarrow>
         if o_state oper \<noteq> LEASED then Inl (WorkerIngressError ''operation_not_leased'')
         else if lease \<le> now \<or> o_expires oper \<le> now then Inl (WorkerIngressError ''dispatch_expired'')
         else bindR (remote_command_of oper) (\<lambda>command.
           let expires = min lease (now + max_task_lifetime);
               vals = dispatch_values da oper command now expires uuid1 uuid2 nonce in
           catchR
             (bindR (worker_task_envelope (vals (replicate 86 CHR ''A''))) (\<lambda>unsigned.
              bindR (bindR (task_signing_bytes (da_stamp da) unsigned) (da_sign da)) (\<lambda>signature.
              bindR (worker_task_envelope (vals signature)) (\<lambda>envelope.
              bindR (task_signing_bytes (da_stamp da) envelope) (\<lambda>body.
              bindR (make_correlation (correlation_of da envelope body (o_expires oper))) (\<lambda>correlation.
              Inr \<lparr>sd_envelope = envelope, sd_correlation = correlation\<rparr>))))))
             (\<lambda>e. Inl (if is_value_or_type_error e then WorkerIngressError ''dispatch_invalid'' else e))))"

section \<open>Adapting results\<close>

definition construct_result :: "task_result \<Rightarrow> task_result res" where
  "construct_result v = (if valid_result v then Inr v else Inl (ValidationError ''task_result''))"

definition gateway_result :: "worker_result \<Rightarrow> task_result res" where
  "gateway_result result = (case result of
     TranslationResult d r \<Rightarrow> construct_result (TranslationTaskResult d r)
   | EnvironmentResult r \<Rightarrow> construct_result (ValidateEnvironmentResult (er_ready r) (er_codes r))
   | ProjectsResult ps \<Rightarrow> construct_result (ListProjectsResult (map psu_id (filter psu_enabled ps)))
   | DrawingsResult r \<Rightarrow>
       construct_result (ScanDrawingsResult (dr_project r) (map dsu_id (dr_drawings r)) (dr_cursor r \<noteq> None))
   | InspectionResult r \<Rightarrow>
       construct_result (InspectDrawingResult (ir_drawing r) (int (length (ir_layouts r))) (int (length (ir_frames r))) (ir_codes r))
   | PublishPlanResult r \<Rightarrow>
       construct_result (CreatePublishPlanResult (pp_drawing r) (pp_plan r) (pp_ready r) (int (length (pp_sheets r))) (pp_codes r))
   | ErrorResult r \<Rightarrow> Inl (WorkerIngressError ''result_invalid''))"

definition result_action :: "worker_result \<Rightarrow> task_command" where
  "result_action result = (case result of
     ErrorResult r \<Rightarrow> ee_action r
   | EnvironmentResult _ \<Rightarrow> CmdValidateEnvironment
   | ProjectsResult _ \<Rightarrow> CmdListProjects
   | DrawingsResult _ \<Rightarrow> CmdScanDrawings
   | InspectionResult _ \<Rightarrow> CmdInspectDrawing
   | PublishPlanResult _ \<Rightarrow> CmdCreatePublishPlan
   | TranslationResult _ _ \<Rightarrow> CmdTranslation)"

text \<open>
  The catalog rows of a project or drawing result. The gateway's constructors strip display names;
  a validated wire name is already trimmed.
\<close>

definition make_project :: "dispatch_correlation \<Rightarrow> project_summary \<Rightarrow> project_record res" where
  "make_project c p =
     (let r = \<lparr>prj_id = psu_id p, prj_tenant = dc_tenant c, prj_owner = dc_user c, prj_ws = dc_device c,
               prj_name = psu_name p, prj_enabled = psu_enabled p\<rparr> in
      if valid_project_record r then Inr r else Inl (ValidationError ''project_record''))"

definition make_drawing :: "dispatch_correlation \<Rightarrow> string \<Rightarrow> drawing_summary \<Rightarrow> drawing_record res" where
  "make_drawing c project d =
     (let r = \<lparr>drw_id = dsu_id d, drw_tenant = dc_tenant c, drw_owner = dc_user c, drw_ws = dc_device c,
               drw_prj = project, drw_name = dsu_name d, drw_enabled = True\<rparr> in
      if valid_drawing_record r then Inr r else Inl (ValidationError ''drawing_record''))"

definition result_projects :: "dispatch_correlation \<Rightarrow> worker_result \<Rightarrow> project_record list res" where
  "result_projects c result = (case result of ProjectsResult ps \<Rightarrow> collect (make_project c) ps | _ \<Rightarrow> Inr [])"

definition result_drawings :: "dispatch_correlation \<Rightarrow> worker_result \<Rightarrow> drawing_record list res" where
  "result_drawings c result = (case result of
     DrawingsResult r \<Rightarrow> collect (make_drawing c (dr_project r)) (dr_drawings r) | _ \<Rightarrow> Inr [])"

definition as_result_invalid :: "'a res \<Rightarrow> 'a res" where
  "as_result_invalid r = catchR r
     (\<lambda>e. Inl (if is_value_or_type_error e then WorkerIngressError ''result_invalid'' else e))"

section \<open>Checks\<close>

definition require_worker_context :: "worker_context \<Rightarrow> dispatch_correlation \<Rightarrow> unit res" where
  "require_worker_context worker c = ensure (w_tenant worker = dc_tenant c \<and> w_ws worker = dc_device c)
     (WorkerIngressError ''worker_binding_invalid'')"

definition target_mismatch :: "remote_command \<Rightarrow> worker_result \<Rightarrow> bool" where
  "target_mismatch command result = (case (command, result) of
     (TranslationCommand d req, TranslationResult d' resp) \<Rightarrow>
       d' \<noteq> d \<or> (case require_matching_result req resp of Inl _ \<Rightarrow> True | Inr _ \<Rightarrow> False)
   | (ScanDrawingsCommand p rc cur lim, DrawingsResult r) \<Rightarrow> dr_project r \<noteq> p
   | (InspectDrawingCommand d, InspectionResult r) \<Rightarrow> ir_drawing r \<noteq> d
   | (CreatePublishPlanCommand d, PublishPlanResult r) \<Rightarrow> pp_drawing r \<noteq> d
   | _ \<Rightarrow> False)"

definition require_result_binding :: "instant result_envelope \<Rightarrow> dispatch_correlation \<Rightarrow> unit res" where
  "require_result_binding e c =
     (if re_tenant e \<noteq> dc_tenant c \<or> re_user e \<noteq> dc_user c \<or> re_device e \<noteq> dc_device c
         \<or> re_task e \<noteq> dc_task c \<or> re_operation e \<noteq> dc_operation c \<or> re_command_id e \<noteq> dc_command_id c
         \<or> result_action (re_result e) \<noteq> command_action (dc_command c)
      then Inl (WorkerIngressError ''result_binding_invalid'')
      else if target_mismatch (dc_command c) (re_result e) then Inl (WorkerIngressError ''result_binding_invalid'')
      else Inr ())"

record ('s, 'g) worker_ingress =
  in_service :: "'s gateway_service"
  in_guard :: "'g replay_guard"
  in_verify :: "string \<Rightarrow> nat list \<Rightarrow> string \<Rightarrow> bool res"
  in_max_age :: int
  in_sha256 :: "nat list \<Rightarrow> nat list"
  in_result_bytes :: "instant result_envelope \<Rightarrow> nat list"
  in_parse_result :: "nat list \<Rightarrow> instant result_envelope res"
  in_parse_start :: "nat list \<Rightarrow> start_request res"

definition ingress_max_age :: "int \<Rightarrow> int res" where
  "ingress_max_age max_result_age_seconds =
     (if 1 \<le> max_result_age_seconds \<and> max_result_age_seconds \<le> 300 then Inr (seconds max_result_age_seconds)
      else Inl (WorkerIngressError ''result_age_invalid''))"

definition stale :: "int \<Rightarrow> instant result_envelope \<Rightarrow> dispatch_correlation \<Rightarrow> instant \<Rightarrow> bool" where
  "stale max_age e c now \<longleftrightarrow> re_completed e < dc_issued c - max_clock_skew
     \<or> re_completed e > dc_operation_expires c \<or> now \<ge> dc_operation_expires c
     \<or> re_completed e > now + max_clock_skew \<or> now - re_completed e > max_age"

definition require_fresh_completion ::
  "int \<Rightarrow> instant result_envelope \<Rightarrow> dispatch_correlation \<Rightarrow> instant \<Rightarrow> unit res" where
  "require_fresh_completion max_age e c now = ensure (\<not> stale max_age e c now) (WorkerIngressError ''result_stale'')"

definition ack_of :: "dispatch_correlation \<Rightarrow> control_ack res" where
  "ack_of c = worker_control_ack (dc_task c) (dc_operation c) (dc_command_id c)"

section \<open>The ingress\<close>

text \<open>
  The gateway's store and the guard's store are separate; each call acts on one of them.
\<close>

definition on_service :: "('s, 'a) py \<Rightarrow> ('s \<times> 'g, 'a) py" where
  "on_service m = (\<lambda>(s, g). case m s of (r, s') \<Rightarrow> (r, (s', g)))"

definition on_guard :: "('g, 'a) py \<Rightarrow> ('s \<times> 'g, 'a) py" where
  "on_guard m = (\<lambda>(s, g). case m g of (r, g') \<Rightarrow> (r, (s, g')))"

text \<open>A guard call whose exception is answered as a replay.\<close>

definition guarded :: "('g, 'a) py \<Rightarrow> ('s \<times> 'g, 'a) py" where
  "guarded m = catchS (on_guard m) (\<lambda>_. raise (WorkerIngressError ''result_replayed''))"

definition ingress_start ::
  "('s, 'g) worker_ingress \<Rightarrow> worker_context \<Rightarrow> dispatch_correlation \<Rightarrow> payload \<Rightarrow> py_datetime \<Rightarrow> py_datetime
    \<Rightarrow> ('s \<times> 'g, control_ack) py" where
  "ingress_start ing worker c p clk service_clk =
     bindS (liftR (ingress_now clk)) (\<lambda>now.
     bindS (liftR (require_worker_context worker c)) (\<lambda>_.
     bindS (guardS (\<not> now \<ge> dc_dispatch_expires c) (WorkerIngressError ''dispatch_expired'')) (\<lambda>_.
     bindS (liftR (catchR (parse_control_payload (in_parse_start ing) p)
              (\<lambda>e. Inl (if is_value_or_type_error e then WorkerIngressError ''start_invalid'' else e)))) (\<lambda>r.
     bindS (guardS (st_tenant r = dc_tenant c \<and> st_user r = dc_user c \<and> st_device r = dc_device c
              \<and> st_task r = dc_task c \<and> st_operation r = dc_operation c \<and> st_command_id r = dc_command_id c)
              (WorkerIngressError ''start_binding_invalid'')) (\<lambda>_.
     bindS (on_service (gw_worker_start (in_service ing) worker (dc_operation c) service_clk)) (\<lambda>_.
     liftR (ack_of c)))))))"

text \<open>
  What one complete call reads and draws besides its arguments: the clock before the signature and
  before the application, the service's clock of the (retried) finish, the application id.
\<close>

record ingress_inputs =
  ii_now :: py_datetime
  ii_apply_now :: py_datetime
  ii_service_now :: py_datetime
  ii_retry_now :: py_datetime
  ii_application_id :: string

definition result_needs_application ::
  "('s, 'g) worker_ingress \<Rightarrow> worker_context \<Rightarrow> dispatch_correlation \<Rightarrow> worker_result \<Rightarrow> ('s, bool) py" where
  "result_needs_application ing worker c result = (case result of
     ErrorResult r \<Rightarrow>
       worker_failure_needs_application (in_service ing) worker (dc_operation c) (ee_code r) (ee_attention r)
   | _ \<Rightarrow> bindS (liftR (as_result_invalid (gateway_result result))) (\<lambda>adapted.
       worker_result_needs_application (in_service ing) worker (dc_operation c) adapted))"

definition retry_idempotent_finish :: "('s, 'a) py \<Rightarrow> ('s, 'a) py \<Rightarrow> ('s, unit) py" where
  "retry_idempotent_finish finish again =
     bindS (catchS finish (\<lambda>e. if e = GatewayError ''invalid_state'' then again else raise e)) (\<lambda>_. ret ())"

definition ingress_apply_result ::
  "('s, 'g) worker_ingress \<Rightarrow> worker_context \<Rightarrow> dispatch_correlation \<Rightarrow> worker_result \<Rightarrow> ingress_inputs \<Rightarrow> ('s, unit) py" where
  "ingress_apply_result ing worker c result inp = (case result of
     ErrorResult r \<Rightarrow>
       (let finish = (\<lambda>clk. gw_worker_fail (in_service ing) worker (dc_operation c) (ee_code r) (ee_attention r) clk) in
        retry_idempotent_finish (finish (ii_service_now inp)) (finish (ii_retry_now inp)))
   | _ \<Rightarrow>
       bindS (liftR (as_result_invalid (bindR (gateway_result result) (\<lambda>adapted.
                bindR (result_projects c result) (\<lambda>projects.
                bindR (result_drawings c result) (\<lambda>drawings. Inr (adapted, projects, drawings))))))) (\<lambda>(adapted, projects, drawings).
       bindS (gw_worker_apply_success (in_service ing) worker (dc_operation c) adapted projects drawings
                (ii_service_now inp)) (\<lambda>_. ret ())))"

definition apply_claimed_result ::
  "('s, 'g) worker_ingress \<Rightarrow> worker_context \<Rightarrow> dispatch_correlation \<Rightarrow> instant result_envelope
    \<Rightarrow> replay_key \<Rightarrow> replay_value \<Rightarrow> ingress_inputs \<Rightarrow> ('s \<times> 'g, unit) py" where
  "apply_claimed_result ing worker c e key v inp =
     bindS (guarded (g_acquire (in_guard ing) key v (ii_application_id inp) 30)) (\<lambda>status.
     if status = ApplicationApplied then ret ()
     else if status \<noteq> ApplicationAcquired then raise (WorkerIngressError ''result_replayed'')
     else
       bindS (on_service (result_needs_application ing worker c (re_result e))) (\<lambda>needed.
       bindS (if needed
              then bindS (liftR (bindR (ingress_now (ii_apply_now inp))
                            (require_fresh_completion (in_max_age ing) e c))) (\<lambda>_.
                   on_service (ingress_apply_result ing worker c (re_result e) inp))
              else ret ()) (\<lambda>_.
       bindS (guarded (g_mark_applied (in_guard ing) key v (ii_application_id inp))) (\<lambda>marked.
       guardS marked (WorkerIngressError ''result_replayed'')))))"

definition result_hash :: "('s, 'g) worker_ingress \<Rightarrow> instant result_envelope \<Rightarrow> string" where
  "result_hash ing e = hexdigest (in_sha256 ing (in_result_bytes ing e @ [46] @ codes (re_signature e)))"

definition replay_key_of :: "dispatch_correlation \<Rightarrow> replay_key" where
  "replay_key_of c = (dc_tenant c, dc_device c, dc_nonce c)"

definition replay_value_of :: "('s, 'g) worker_ingress \<Rightarrow> dispatch_correlation \<Rightarrow> instant result_envelope \<Rightarrow> replay_value" where
  "replay_value_of ing c e = (dc_task c, dc_command_id c, result_hash ing e, re_completed e)"

definition claim_limit :: "('s, 'g) worker_ingress \<Rightarrow> dispatch_correlation \<Rightarrow> instant result_envelope \<Rightarrow> instant" where
  "claim_limit ing c e = min (re_completed e + in_max_age ing) (dc_operation_expires c)"

definition finish_claimed ::
  "('s, 'g) worker_ingress \<Rightarrow> worker_context \<Rightarrow> dispatch_correlation \<Rightarrow> instant result_envelope \<Rightarrow> ingress_inputs
    \<Rightarrow> ('s \<times> 'g, control_ack) py" where
  "finish_claimed ing worker c e inp =
     bindS (apply_claimed_result ing worker c e (replay_key_of c) (replay_value_of ing c e) inp) (\<lambda>_. liftR (ack_of c))"

text \<open>A result the guard has not seen: it must be fresh and signed before it is claimed.\<close>

definition claim_new_result ::
  "('s, 'g) worker_ingress \<Rightarrow> worker_context \<Rightarrow> dispatch_correlation \<Rightarrow> instant result_envelope \<Rightarrow> ingress_inputs
    \<Rightarrow> ('s \<times> 'g, control_ack) py" where
  "claim_new_result ing worker c e inp =
     bindS (liftR (bindR (ingress_now (ii_now inp)) (require_fresh_completion (in_max_age ing) e c))) (\<lambda>_.
     bindS (guardS (truth (in_verify ing (dc_device c) (in_result_bytes ing e) (re_signature e)))
              (WorkerIngressError ''worker_signature_invalid'')) (\<lambda>_.
     bindS (guarded (g_claim (in_guard ing) (replay_key_of c) (replay_value_of ing c e) (Aware (claim_limit ing c e)))) (\<lambda>claimed.
     if claimed = ReplayExactMatch then finish_claimed ing worker c e inp
     else if claimed = ReplayUnseen then raise (WorkerIngressError ''result_stale'')
     else if claimed \<noteq> ReplayFirstSeen then raise (WorkerIngressError ''result_replayed'')
     else finish_claimed ing worker c e inp)))"

definition ingress_complete ::
  "('s, 'g) worker_ingress \<Rightarrow> worker_context \<Rightarrow> dispatch_correlation \<Rightarrow> payload \<Rightarrow> ingress_inputs
    \<Rightarrow> ('s \<times> 'g, control_ack) py" where
  "ingress_complete ing worker c p inp =
     bindS (liftR (require_worker_context worker c)) (\<lambda>_.
     bindS (liftR (as_result_invalid (parse_result_payload (in_parse_result ing) p))) (\<lambda>e.
     bindS (liftR (require_result_binding e c)) (\<lambda>_.
     bindS (guarded (g_classify (in_guard ing) (replay_key_of c) (replay_value_of ing c e))) (\<lambda>classification.
     if classification = ReplayExactMatch then finish_claimed ing worker c e inp
     else if classification \<noteq> ReplayUnseen then raise (WorkerIngressError ''result_replayed'')
     else claim_new_result ing worker c e inp))))"

end
