(* ===== verification/Dispatch_Properties.thy ===== *)
theory Dispatch_Properties
  imports Service_Workers Remote_Properties Worker_Ingress
begin

text \<open>
  Dispatch and application: a claimed result is applied by one application at a time, a task built
  from a lease is one its workstation accepts, and the one way building a task leaks an error.
\<close>

declare map_of_eq_Some_iff [simp del]

declare Some_eq_map_of_iff [simp del]

section \<open>One application at a time\<close>

text \<open>
  Everything the guard may be asked by others while application a holds a lease that runs until
  the given limit: claims of any key, and acquisitions and marks under other application ids, the
  acquisitions before the limit.
\<close>

definition before_limit :: "py_datetime \<Rightarrow> instant \<Rightarrow> bool" where
  "before_limit clk limit = (case clk of Aware now \<Rightarrow> now < limit | Naive _ \<Rightarrow> True)"

inductive others :: "string \<Rightarrow> instant \<Rightarrow> replay_store \<Rightarrow> replay_store \<Rightarrow> bool" for a limit g where
  stay: "others a limit g g"
| claim: "others a limit g h \<Longrightarrow> guard_claim clk key v lim h = (x, h') \<Longrightarrow> others a limit g h'"
| acquire: "others a limit g h \<Longrightarrow> b \<noteq> a \<Longrightarrow> before_limit clk limit \<Longrightarrow>
    guard_acquire clk key v b n h = (y, h') \<Longrightarrow> others a limit g h'"
| mark: "others a limit g h \<Longrightarrow> b \<noteq> a \<Longrightarrow> guard_mark_applied clk key v b h = (z, h') \<Longrightarrow> others a limit g h'"

definition holds_application :: "replay_store \<Rightarrow> replay_key \<Rightarrow> replay_value \<Rightarrow> string \<Rightarrow> instant \<Rightarrow> bool" where
  "holds_application g key v a limit \<longleftrightarrow> seen g key = Some v \<and> key \<notin> applied_keys g
     \<and> applications g key = Some (a, limit)"

lemma acquired_holds:
  "guard_acquire (Aware now) key v a n g = (ApplicationAcquired, g') \<Longrightarrow>
     \<exists>limit. now < limit \<and> holds_application g' key v a limit"
  by (auto simp add: guard_acquire_def holds_application_def split: if_splits option.splits prod.splits)

lemma others_hold:
  assumes "others a limit g h" and "holds_application g key v a limit"
  shows "holds_application h key v a limit"
  using assms
proof (induction rule: others.induct)
  case (claim h clk k w lim x h')
  from guard_claim_cases[OF claim.hyps(2)] claim.IH[OF claim.prems]
  show ?case by (auto simp add: holds_application_def)
next
  case (acquire h b clk k w n y h')
  then show ?case
    by (auto simp add: holds_application_def guard_acquire_def before_limit_def
        split: if_splits py_datetime.splits option.splits prod.splits)
next
  case (mark h b clk k w z h')
  then show ?case
    by (auto simp add: holds_application_def guard_mark_applied_def
        split: if_splits py_datetime.splits option.splits prod.splits)
qed

text \<open>
  Once an application id has acquired a claimed result, then until its
  lease ends, whatever claims, acquisitions and marks others make in between, no other id acquires
  or finishes it, and the holder's own mark succeeds.
\<close>

theorem application_is_exclusive:
  assumes "guard_acquire (Aware now) key v a n g = (ApplicationAcquired, g1)"
  shows "\<exists>limit. now < limit \<and> (\<forall>h. others a limit g1 h \<longrightarrow>
      key \<notin> applied_keys h
      \<and> (\<forall>b clk m. b \<noteq> a \<longrightarrow> before_limit clk limit \<longrightarrow>
           fst (guard_acquire clk key v b m h) \<in> {ApplicationBusy, ApplicationConflict})
      \<and> (\<forall>b clk. b \<noteq> a \<longrightarrow> \<not> fst (guard_mark_applied clk key v b h))
      \<and> (\<forall>now'. now' < limit \<longrightarrow> fst (guard_mark_applied (Aware now') key v a h)))"
proof -
  from acquired_holds[OF assms] obtain limit where l: "now < limit" "holds_application g1 key v a limit" by blast
  have "key \<notin> applied_keys h
      \<and> (\<forall>b clk m. b \<noteq> a \<longrightarrow> before_limit clk limit \<longrightarrow>
           fst (guard_acquire clk key v b m h) \<in> {ApplicationBusy, ApplicationConflict})
      \<and> (\<forall>b clk. b \<noteq> a \<longrightarrow> \<not> fst (guard_mark_applied clk key v b h))
      \<and> (\<forall>now'. now' < limit \<longrightarrow> fst (guard_mark_applied (Aware now') key v a h))"
    if "others a limit g1 h" for h
  proof -
    from others_hold[OF that l(2)] have "holds_application h key v a limit" .
    then show ?thesis
      by (auto simp add: holds_application_def guard_acquire_def guard_mark_applied_def before_limit_def
          split: py_datetime.splits)
  qed
  with l(1) show ?thesis by blast
qed

definition sample_key :: replay_key where
  "sample_key = (tid, wid, replicate 22 CHR ''n'')"

definition sample_value :: replay_value where
  "sample_value = (''tsk_'' @ uuid_tail CHR ''a'', ''cmd_'' @ uuid_tail CHR ''c'', replicate 64 CHR ''0'', 20)"

definition claimed_guard :: replay_store where
  "claimed_guard = empty_guard\<lparr>seen := [sample_key \<mapsto> sample_value]\<rparr>"

lemma sample_acquire:
  "fst (guard_acquire (Aware 25) sample_key sample_value (uuid_tail CHR ''a'') 30 claimed_guard) = ApplicationAcquired"
proof -
  have "uuid_version4 (uuid_tail CHR ''a'')" by code_simp
  then show ?thesis by (simp add: guard_acquire_def claimed_guard_def empty_guard_def)
qed

theorem application_is_exclusive_witness:
  "\<exists>g limit. \<not> fst (guard_mark_applied (Aware 26) sample_key sample_value (uuid_tail CHR ''b'') g) \<and> (25::int) < limit"
proof -
  obtain g1 where g1: "guard_acquire (Aware 25) sample_key sample_value (uuid_tail CHR ''a'') 30 claimed_guard
      = (ApplicationAcquired, g1)"
    using sample_acquire by (metis prod.collapse)
  have ne: "uuid_tail CHR ''b'' \<noteq> uuid_tail CHR ''a''" by code_simp
  from application_is_exclusive[OF g1] obtain limit where l: "25 < limit" "\<forall>h. others (uuid_tail CHR ''a'') limit g1 h \<longrightarrow>
      (\<forall>b clk. b \<noteq> uuid_tail CHR ''a'' \<longrightarrow> \<not> fst (guard_mark_applied clk sample_key sample_value b h))" by blast
  from l(2) others.stay ne have "\<not> fst (guard_mark_applied (Aware 26) sample_key sample_value (uuid_tail CHR ''b'') g1)" by blast
  with l(1) show ?thesis by blast
qed

section \<open>Dispatch\<close>

lemma signing_ignores_signature:
  "task_signing_bytes stamp (e\<lparr>te_signature := sig\<rparr>) = task_signing_bytes stamp e"
  by (simp add: task_signing_bytes_def task_json_body_def)

lemma catchR_Inl_eq_Inr [simp]: "catchR m (\<lambda>e. Inl (f e)) = Inr x \<longleftrightarrow> m = Inr x"
  by (cases m) simp_all

lemma build_dispatch_ok:
  assumes "build_dispatch da oper clk uuid1 uuid2 nonce = Inr d"
  shows "\<exists>now lease command sig body. clk = Aware now \<and> o_lease oper = Some lease \<and> o_state oper = LEASED
    \<and> now < lease \<and> now < o_expires oper \<and> remote_command_of oper = Inr command
    \<and> sd_envelope d = utc_times (dispatch_values da oper command now (min lease (now + max_task_lifetime)) uuid1 uuid2 nonce sig)
         now (min lease (now + max_task_lifetime))
    \<and> valid_task_envelope (sd_envelope d)
    \<and> task_signing_bytes (da_stamp da) (sd_envelope d) = Inr body \<and> da_sign da body = Inr sig
    \<and> sd_correlation d = correlation_of da (sd_envelope d) body (o_expires oper)
    \<and> valid_correlation (sd_correlation d)"
proof -
  from assms obtain now where n: "clk = Aware now" by (cases clk) (simp_all add: build_dispatch_def ingress_now_def)
  from assms n obtain lease where l: "o_lease oper = Some lease"
    by (cases "o_lease oper") (simp_all add: build_dispatch_def ingress_now_def)
  from assms n l have live: "o_state oper = LEASED" "now < lease" "now < o_expires oper"
    by (simp_all add: build_dispatch_def ingress_now_def split: if_splits)
  from assms n l live obtain command unsigned sig envelope body corr where
    cm: "remote_command_of oper = Inr command"
    and u: "worker_task_envelope (dispatch_values da oper command now (min lease (now + max_task_lifetime)) uuid1 uuid2 nonce
        (replicate 86 CHR ''A'')) = Inr unsigned"
    and sg: "bindR (task_signing_bytes (da_stamp da) unsigned) (da_sign da) = Inr sig"
    and ev: "worker_task_envelope (dispatch_values da oper command now (min lease (now + max_task_lifetime)) uuid1 uuid2 nonce sig)
        = Inr envelope"
    and bd: "task_signing_bytes (da_stamp da) envelope = Inr body"
    and co: "make_correlation (correlation_of da envelope body (o_expires oper)) = Inr corr"
    and d: "d = \<lparr>sd_envelope = envelope, sd_correlation = corr\<rparr>"
    by (auto simp add: build_dispatch_def ingress_now_def Let_def)
  have e1: "unsigned = utc_times (dispatch_values da oper command now (min lease (now + max_task_lifetime)) uuid1 uuid2 nonce
        (replicate 86 CHR ''A'')) now (min lease (now + max_task_lifetime))"
    using u by (auto simp add: worker_task_envelope_ok dispatch_values_def)
  have e2: "envelope = utc_times (dispatch_values da oper command now (min lease (now + max_task_lifetime)) uuid1 uuid2 nonce sig)
        now (min lease (now + max_task_lifetime))" "valid_task_envelope envelope"
    using ev by (auto simp add: worker_task_envelope_ok dispatch_values_def)
  have "envelope = unsigned\<lparr>te_signature := sig\<rparr>" unfolding e1 e2(1) by (simp add: utc_times_def dispatch_values_def)
  with sg bd have s: "da_sign da body = Inr sig" by (auto simp add: signing_ignores_signature)
  have c: "corr = correlation_of da envelope body (o_expires oper)" "valid_correlation corr"
    using co by (auto simp add: make_correlation_def valid_correlation_def split: if_splits sum.splits)
  show ?thesis using n l live cm e2 bd s c d by auto
qed


definition sample_leased :: operation_record where
  "sample_leased = leased_record (sample_operation CHR ''b'' 0) 30"

definition sample_adapter :: dispatch_adapter where
  "sample_adapter = \<lparr>da_policy = 3, da_sign = (\<lambda>_. Inr (replicate 86 CHR ''s'')), da_sha256 = (\<lambda>_. replicate 32 7), da_stamp = dec_int\<rparr>"

lemma sample_leased_facts: "o_lease sample_leased = Some 30" "o_state sample_leased = LEASED" "o_expires sample_leased = 60"
  "remote_command_of sample_leased = Inr ListProjectsCommand"
  "task_fields_ok (dispatch_values sample_adapter sample_leased ListProjectsCommand 12 30 (uuid_tail CHR ''a'') (uuid_tail CHR ''c'')
      (replicate 22 CHR ''n'') (replicate 86 CHR ''A''))"
  "task_fields_ok (dispatch_values sample_adapter sample_leased ListProjectsCommand 12 30 (uuid_tail CHR ''a'') (uuid_tail CHR ''c'')
      (replicate 22 CHR ''n'') (replicate 86 CHR ''s''))"
  "sha256_hex (hexdigest (replicate 32 7))"
  by code_simp+

lemma sample_dispatch:
  "\<exists>d. build_dispatch sample_adapter sample_leased (Aware 12) (uuid_tail CHR ''a'') (uuid_tail CHR ''c'') (replicate 22 CHR ''n'') = Inr d
    \<and> te_issued (sd_envelope d) = 12 \<and> te_expires (sd_envelope d) = 30"
proof -
  let ?v = "dispatch_values sample_adapter sample_leased ListProjectsCommand 12 30 (uuid_tail CHR ''a'') (uuid_tail CHR ''c'')
      (replicate 22 CHR ''n'')"
  have m: "min 30 (12 + max_task_lifetime) = (30 :: int)" by (simp add: max_task_lifetime_def seconds_def)
  have v: "worker_task_envelope (?v sig) = Inr (utc_times (?v sig) 12 30)" if "task_fields_ok (?v sig)" for sig
    using that by (simp add: worker_task_envelope_def require_utc_def validate_lifetime_def max_task_lifetime_def seconds_def
        dispatch_values_def)
  obtain b where b: "task_signing_bytes dec_int (utc_times (?v sig) 12 30) = Inr b" for sig
  proof -
    obtain b where "task_signing_bytes dec_int (utc_times (?v []) 12 30) = Inr b"
      using task_signing_total[of "utc_times (?v []) 12 30" dec_int] by (auto simp add: utc_times_def dispatch_values_def)
    moreover have "utc_times (?v sig) 12 30 = (utc_times (?v []) 12 30)\<lparr>te_signature := sig\<rparr>" for sig
      by (simp add: utc_times_def dispatch_values_def)
    ultimately show ?thesis using that by (metis signing_ignores_signature)
  qed
  let ?e = "utc_times (?v (replicate 86 CHR ''s'')) 12 30"
  have "correlation_fields_ok (correlation_of sample_adapter ?e b 60)"
    using sample_leased_facts(6,7)
    by (simp add: correlation_fields_ok_def correlation_of_def utc_times_def task_fields_ok_def dispatch_values_def sample_adapter_def)
  moreover have "correlation_deadlines (correlation_of sample_adapter ?e b 60) = Inr ()"
    by (simp add: correlation_deadlines_def correlation_of_def utc_times_def max_task_lifetime_def seconds_def dispatch_values_def)
  ultimately have c: "make_correlation (correlation_of sample_adapter ?e b 60) = Inr (correlation_of sample_adapter ?e b 60)"
    by (simp add: make_correlation_def)
  have a: "da_stamp sample_adapter = dec_int" "da_sign sample_adapter b = Inr (replicate 86 CHR ''s'')"
    by (simp_all add: sample_adapter_def)
  have "build_dispatch sample_adapter sample_leased (Aware 12) (uuid_tail CHR ''a'') (uuid_tail CHR ''c'') (replicate 22 CHR ''n'')
    = Inr \<lparr>sd_envelope = ?e, sd_correlation = correlation_of sample_adapter ?e b 60\<rparr>"
    using v[OF sample_leased_facts(5)] v[OF sample_leased_facts(6)] b c a
    by (simp add: build_dispatch_def ingress_now_def sample_leased_facts(1-4) m Let_def catchR_def)
  then show ?thesis by (simp add: utc_times_def)
qed


text \<open>
  A live leased inspection (or publish plan or translation) of a drawing
  whose id is a well-formed gateway id of another UUID version than 4 cannot be dispatched: building
  it raises pydantic's ValidationError itself, not the WorkerIngressError the adapter promises.
\<close>

theorem old_drawing_id_escapes:
  assumes "o_task oper = InspectDrawingTask k \<or> o_task oper = CreatePublishPlanTask k \<or> o_task oper = TranslationTask k req"
    and "\<not> opaque_id ''drw'' ''4'' k" and "o_state oper = LEASED" and "o_lease oper = Some lease"
    and "now < lease" and "now < o_expires oper"
  shows "\<exists>c. build_dispatch da oper (Aware now) uuid1 uuid2 nonce = Inl (ValidationError c)"
  using assms
  by (auto simp add: build_dispatch_def ingress_now_def remote_command_of_def make_command_def remote_drawing_id_def opaque_drawing_def)

definition old_drawing :: string where
  "old_drawing = ''drw_'' @ ''00000000-0000-1000-8000-000000000000''"

theorem old_drawing_id_escapes_witness:
  "drawing_id_ok old_drawing
   \<and> (\<exists>c. build_dispatch sample_adapter (sample_leased\<lparr>o_task := InspectDrawingTask old_drawing\<rparr>) (Aware 12) [] [] [] = Inl (ValidationError c))"
proof -
  have f: "drawing_id_ok old_drawing" "\<not> opaque_id ''drw'' ''4'' old_drawing" by code_simp+
  have "\<exists>c. build_dispatch sample_adapter (sample_leased\<lparr>o_task := InspectDrawingTask old_drawing\<rparr>) (Aware 12) [] [] [] = Inl (ValidationError c)"
    by (rule old_drawing_id_escapes[where lease = 30]) (use f sample_leased_facts(1-3) in auto)
  with f(1) show ?thesis by blast
qed

end
