(* ===== verification/Ingress_Properties.thy ===== *)
theory Ingress_Properties
  imports Dispatch_Properties
begin

text \<open>
  GatewayWorkerIngress.complete over any guard that keeps its contract, and with the in-memory guard
  and the in-memory gateway: which results are ever claimed, what a replay may do, and what an
  acknowledgement means for the gateway's store.
\<close>

declare map_of_eq_Some_iff [simp del]

declare Some_eq_map_of_iff [simp del]

section \<open>What the ingress does to the guard\<close>

lemma guarded_Inr:
  "guarded m (s, g) = (Inr x, (s', g')) \<longleftrightarrow> s' = s \<and> m g = (Inr x, g')"
  by (auto simp add: guarded_def on_guard_def split: prod.splits)

lemma guarded_run:
  "guarded m (s, g) = (case m g of (Inl e, g') \<Rightarrow> (Inl (WorkerIngressError ''result_replayed''), (s, g')) | (Inr x, g') \<Rightarrow> (Inr x, (s, g')))"
  by (simp add: guarded_def on_guard_def catchS_def split: prod.splits sum.splits)

lemma on_service_Inr: "on_service m (s, g) = (Inr x, (s', g')) \<longleftrightarrow> g' = g \<and> m s = (Inr x, s')"
  by (auto simp add: on_service_def split: prod.splits)

definition on_second :: "('g \<Rightarrow> bool) \<Rightarrow> 's \<times> 'g \<Rightarrow> bool" where
  "on_second P u \<longleftrightarrow> P (snd u)"

lemma keeps_on_service [keeps_rules]: "keeps (on_second P) (on_service m)"
  by (auto simp add: keeps_def on_service_def on_second_def split: prod.splits)

lemma keeps_guarded: "keeps P m \<Longrightarrow> keeps (on_second P) (guarded m)"
  by (auto simp add: keeps_def guarded_run on_second_def split: prod.splits sum.splits)

text \<open>A result the ingress may claim: bound to its dispatch, signed by its device, fresh at some time.\<close>

definition accepted :: "('s, 'g) worker_ingress \<Rightarrow> dispatch_correlation \<Rightarrow> instant result_envelope \<Rightarrow> bool" where
  "accepted ing c e \<longleftrightarrow> require_result_binding e c = Inr ()
     \<and> in_verify ing (dc_device c) (in_result_bytes ing e) (re_signature e) = Inr True
     \<and> (\<exists>now. \<not> stale (in_max_age ing) e c now)"

locale ingress_contract = guard_contract G claimed finished
  for G :: "'g replay_guard" and claimed finished +
  fixes ing :: "('s, 'g) worker_ingress"
  assumes uses_guard: "in_guard ing = G"
begin

lemma keeps_acquire: "keeps (\<lambda>g. claimed g = C) (g_acquire G key v a n)"
  by (rule keepsI) (metis acquire_view prod.collapse)

lemma keeps_mark: "keeps (\<lambda>g. claimed g = C) (g_mark_applied G key v a)"
  by (rule keepsI) (metis mark_view prod.collapse)

lemma finish_keeps_claims: "keeps (on_second (\<lambda>g. claimed g = C)) (finish_claimed ing worker c e inp)"
  unfolding finish_claimed_def apply_claimed_result_def uses_guard
  by (intro keeps_rules keeps_guarded keeps_acquire keeps_mark)

lemma finish_claims: "finish_claimed ing worker c e inp (s, g) = (r, (s', g')) \<Longrightarrow> claimed g' = claimed g"
  using keepsD[OF finish_keeps_claims, of "claimed g" "(s, g)" worker c e inp] by (simp add: on_second_def)

lemma claim_new_result_claims:
  assumes out: "claim_new_result ing worker c e inp (s, g) = (r, (s', g'))"
    and bound: "require_result_binding e c = Inr ()"
  shows "claimed g' = claimed g
    \<or> (accepted ing c e \<and> claimed g (replay_key_of c) = None
       \<and> claimed g' = (claimed g)(replay_key_of c \<mapsto> replay_value_of ing c e))"
proof (cases "bindR (ingress_now (ii_now inp)) (require_fresh_completion (in_max_age ing) e c)")
  case (Inl x)
  with out show ?thesis by (simp add: claim_new_result_def bindS_liftR)
next
  case (Inr u)
  then have f: "\<exists>now. \<not> stale (in_max_age ing) e c now" by (auto simp add: require_fresh_completion_def)
  show ?thesis
  proof (cases "in_verify ing (dc_device c) (in_result_bytes ing e) (re_signature e) = Inr True")
    case False
    with out Inr show ?thesis by (simp add: claim_new_result_def bindS_liftR bindS_guardS)
  next
    case True
    with f bound have a: "accepted ing c e" by (simp add: accepted_def)
    let ?cl = "g_claim G (replay_key_of c) (replay_value_of ing c e) (Aware (claim_limit ing c e)) g"
    obtain x g1 where cl: "?cl = (x, g1)" by (cases ?cl)
    from out Inr True cl have "claimed g' = claimed g1"
      by (cases x)
        (auto simp add: claim_new_result_def bindS_liftR bindS_guardS bindS_def[of "guarded _"] guarded_run uses_guard
          split: if_splits dest: finish_claims)
    with a claim_first[of "replay_key_of c" "replay_value_of ing c e" _ g g1] cl
      claim_raised[of "replay_key_of c" "replay_value_of ing c e" _ g _ g1]
      claim_other[of "replay_key_of c" "replay_value_of ing c e" _ g _ g1] show ?thesis
      by (cases x; cases "x = Inr ReplayFirstSeen") auto
  qed
qed

lemma complete_claims:
  assumes out: "ingress_complete ing worker c p inp (s, g) = (r, (s', g'))"
  shows "claimed g' = claimed g
    \<or> (\<exists>e. accepted ing c e \<and> claimed g (replay_key_of c) = None
       \<and> claimed g' = (claimed g)(replay_key_of c \<mapsto> replay_value_of ing c e))"
proof (cases "require_worker_context worker c = Inr () \<and> is_ok (as_result_invalid (parse_result_payload (in_parse_result ing) p))")
  case False
  with out show ?thesis
    by (cases "require_worker_context worker c"; cases "as_result_invalid (parse_result_payload (in_parse_result ing) p)")
      (auto simp add: ingress_complete_def bindS_liftR)
next
  case True
  then obtain e where e: "as_result_invalid (parse_result_payload (in_parse_result ing) p) = Inr e" by (auto simp add: is_ok_iff)
  show ?thesis
  proof (cases "require_result_binding e c")
    case (Inl x)
    with out True e show ?thesis by (simp add: ingress_complete_def bindS_liftR)
  next
    case (Inr u)
    let ?k = "replay_key_of c" and ?v = "replay_value_of ing c e"
    obtain x where cl: "g_classify G ?k ?v g = (x, g)" using classify_pure[of ?k ?v g] by (cases "g_classify G ?k ?v g") simp
    have b: "require_result_binding e c = Inr ()" using Inr by simp
    from out True e b cl have "finish_claimed ing worker c e inp (s, g) = (r, (s', g'))
      \<or> claim_new_result ing worker c e inp (s, g) = (r, (s', g')) \<or> g' = g"
      by (cases x) (auto simp add: ingress_complete_def bindS_liftR bindS_def[of "guarded _"] guarded_run uses_guard split: if_splits)
    with finish_claims claim_new_result_claims[OF _ b] show ?thesis by blast
  qed
qed

text \<open>
  Delivering once more what was claimed and finished reaches neither store; delivering something
  else under the same nonce is refused and reaches neither store.
\<close>

lemma replay_answer:
  assumes parsed: "parse_result_payload (in_parse_result ing) p = Inr e"
    and out: "ingress_complete ing worker c p inp (s, g) = (r, (s', g'))"
    and seen: "claimed g (replay_key_of c) = Some w"
  shows "w \<noteq> replay_value_of ing c e \<Longrightarrow> s' = s \<and> g' = g \<and> (\<exists>x. r = Inl x)"
    and "finished g (replay_key_of c) \<Longrightarrow> s' = s"
proof -
  let ?k = "replay_key_of c" and ?v = "replay_value_of ing c e"
  obtain x where cl: "g_classify G ?k ?v g = (x, g)" using classify_pure[of ?k ?v g] by (cases "g_classify G ?k ?v g") simp
  from classify_answer[of ?k ?v g _ g] cl seen
  have x: "x = Inr (if w = ?v then ReplayExactMatch else ReplayConflict) \<or> (\<exists>y. x = Inl y)" by (cases x) auto
  have run: "(r, s', g') = bindS (liftR (require_worker_context worker c)) (\<lambda>_.
      bindS (liftR (require_result_binding e c)) (\<lambda>_.
      bindS (guarded (g_classify G ?k ?v)) (\<lambda>classification.
       if classification = ReplayExactMatch then finish_claimed ing worker c e inp
       else if classification \<noteq> ReplayUnseen then raise (WorkerIngressError ''result_replayed'')
       else claim_new_result ing worker c e inp))) (s, g)"
    using out parsed by (simp add: ingress_complete_def as_result_invalid_def bindS_liftR uses_guard split: sum.splits)
  show "w \<noteq> ?v \<Longrightarrow> s' = s \<and> g' = g \<and> (\<exists>x. r = Inl x)"
    using run x cl by (auto simp add: bindS_liftR bindS_def[of "guarded _"] guarded_run split: sum.splits)
  have fin: "finish_claimed ing worker c e inp (s, g) = (r, (s', g')) \<Longrightarrow> s' = s" if "finished g ?k"
  proof -
    obtain st g1 where a: "g_acquire G ?k ?v (ii_application_id inp) 30 g = (st, g1)" by (cases "g_acquire G ?k ?v (ii_application_id inp) 30 g")
    from that acquire_acquired[of ?k ?v _ _ g g1] a have "st \<noteq> Inr ApplicationAcquired" by blast
    with a show "finish_claimed ing worker c e inp (s, g) = (r, (s', g')) \<Longrightarrow> s' = s"
      by (cases st) (auto simp add: finish_claimed_def apply_claimed_result_def uses_guard bindS_def guarded_run split: if_splits sum.splits)
  qed
  show "finished g ?k \<Longrightarrow> s' = s"
    using run x cl fin by (auto simp add: bindS_liftR bindS_def[of "guarded _"] guarded_run split: sum.splits if_splits)
qed

lemma finish_applies:
  assumes out: "finish_claimed ing worker c e inp (s, g) = (Inr a, (s', g'))"
    and new: "\<not> finished g (replay_key_of c)"
  shows "\<exists>needed s1. result_needs_application ing worker c (re_result e) s = (Inr needed, s1)
    \<and> (if needed then ingress_apply_result ing worker c (re_result e) inp s1 = (Inr (), s') else s' = s1)
    \<and> claimed g' (replay_key_of c) = Some (replay_value_of ing c e) \<and> finished g' (replay_key_of c)"
proof -
  let ?k = "replay_key_of c" and ?v = "replay_value_of ing c e"
  from out obtain st g1 where a: "g_acquire G ?k ?v (ii_application_id inp) 30 g = (Inr st, g1)"
    "st = ApplicationApplied \<or> st = ApplicationAcquired"
    by (auto simp add: finish_claimed_def apply_claimed_result_def bindS_eq_Inr guarded_Inr uses_guard split: if_splits)
  with new acquire_applied[of ?k ?v "ii_application_id inp" 30 g g1] have st: "st = ApplicationAcquired" by blast
  note ac = a(1)[unfolded st]
  from acquire_acquired[OF ac] acquire_view[OF ac] have c1: "claimed g1 ?k = Some ?v" by simp
  from out ac obtain needed s1 where n: "result_needs_application ing worker c (re_result e) s = (Inr needed, s1)"
    "(if needed then ingress_apply_result ing worker c (re_result e) inp s1 = (Inr (), s') else s' = s1)"
    "g_mark_applied G ?k ?v (ii_application_id inp) g1 = (Inr True, g')"
    by (auto simp add: finish_claimed_def apply_claimed_result_def bindS_eq_Inr guarded_Inr on_service_Inr uses_guard
        split: if_splits)
  from mark_view[OF n(3)] mark_true[OF n(3)] c1 n(1,2) show ?thesis by auto
qed

lemma first_delivery:
  assumes parsed: "parse_result_payload (in_parse_result ing) p = Inr e"
    and out: "ingress_complete ing worker c p inp (s, g) = (Inr a, (s', g'))"
    and new: "claimed g (replay_key_of c) = None" "\<not> finished g (replay_key_of c)"
  shows "require_worker_context worker c = Inr () \<and> accepted ing c e \<and> (\<exists>g1. finish_claimed ing worker c e inp (s, g1) = (Inr a, (s', g'))
    \<and> \<not> finished g1 (replay_key_of c))"
proof -
  let ?k = "replay_key_of c" and ?v = "replay_value_of ing c e"
  from out parsed obtain cl g0 where w: "require_worker_context worker c = Inr ()" and b: "require_result_binding e c = Inr ()"
    and cl: "g_classify G ?k ?v g = (Inr cl, g0)"
    and rest: "(if cl = ReplayExactMatch then finish_claimed ing worker c e inp
       else if cl \<noteq> ReplayUnseen then raise (WorkerIngressError ''result_replayed'')
       else claim_new_result ing worker c e inp) (s, g0) = (Inr a, (s', g'))"
    by (auto simp add: ingress_complete_def as_result_invalid_def bindS_eq_Inr guarded_Inr uses_guard split: sum.splits)
  from classify_answer[OF cl] new(1) have "cl = ReplayUnseen" "g0 = g" by simp_all
  with rest have "claim_new_result ing worker c e inp (s, g) = (Inr a, (s', g'))" by simp
  then obtain x g1 where f: "in_verify ing (dc_device c) (in_result_bytes ing e) (re_signature e) = Inr True"
    "\<exists>now. \<not> stale (in_max_age ing) e c now"
    and cm: "g_claim G ?k ?v (Aware (claim_limit ing c e)) g = (Inr x, g1)"
    and fin: "x = ReplayExactMatch \<or> x = ReplayFirstSeen" "finish_claimed ing worker c e inp (s, g1) = (Inr a, (s', g'))"
    by (auto simp add: claim_new_result_def bindS_eq_Inr guarded_Inr require_fresh_completion_def uses_guard split: if_splits)
  from fin(1) claim_exact[of ?k ?v _ g g1] cm new(1) have "x = ReplayFirstSeen" by auto
  with claim_first[of ?k ?v _ g g1] cm new(2) have "\<not> finished g1 ?k" by auto
  with w b f fin(2) show ?thesis by (auto simp add: accepted_def)
qed

end

abbreviation with_memory_guard ::
  "('s, 'g) worker_ingress \<Rightarrow> bool \<Rightarrow> py_datetime \<Rightarrow> py_datetime \<Rightarrow> py_datetime \<Rightarrow> ('s, replay_store) worker_ingress" where
  "with_memory_guard ing configured c1 c2 c3 \<equiv>
     \<lparr>in_service = in_service ing, in_guard = memory_guard configured c1 c2 c3, in_verify = in_verify ing,
      in_max_age = in_max_age ing, in_sha256 = in_sha256 ing, in_result_bytes = in_result_bytes ing,
      in_parse_result = in_parse_result ing, in_parse_start = in_parse_start ing\<rparr>"

interpretation mi: ingress_contract "memory_guard configured c1 c2 c3" seen mem_finished
  "with_memory_guard ing configured c1 c2 c3" for configured c1 c2 c3 and ing :: "('s, 'g) worker_ingress"
  by unfold_locales simp

lemma with_memory_guard_same [simp]:
  "accepted (with_memory_guard ing configured c1 c2 c3) c e = accepted ing c e"
  "replay_value_of (with_memory_guard ing configured c1 c2 c3) c e = replay_value_of ing c e"
  by (simp_all add: accepted_def replay_value_of_def result_hash_def)

section \<open>Claims\<close>

text \<open>
  Everything that can happen to the two stores: results are delivered, at any clock readings, and
  the gateway's store changes in any way whatever.
\<close>

inductive ingress_reach :: "('s, 'g) worker_ingress \<Rightarrow> 's \<times> replay_store \<Rightarrow> bool" for ing where
  fresh: "ingress_reach ing (s, empty_guard)"
| deliver: "ingress_reach ing u \<Longrightarrow>
    ingress_complete (with_memory_guard ing configured c1 c2 c3) worker c p inp u = (r, u') \<Longrightarrow> ingress_reach ing u'"
| gateway: "ingress_reach ing (s, g) \<Longrightarrow> ingress_reach ing (s', g)"

lemma reach_claims:
  assumes "ingress_reach ing u" and "seen (snd u) key = Some v"
  shows "\<exists>c e. key = replay_key_of c \<and> v = replay_value_of ing c e \<and> accepted ing c e"
  using assms
proof (induction arbitrary: key v rule: ingress_reach.induct)
  case (deliver u configured c1 c2 c3 worker c p inp r u')
  obtain s g s' g' where u: "u = (s, g)" "u' = (s', g')" by (cases u; cases u')
  note cl = mi.complete_claims[OF deliver.hyps(2)[unfolded u], unfolded with_memory_guard_same]
  have k: "seen g' key = Some v" using deliver.prems by (simp add: u)
  show ?case
  proof (cases "seen g key = Some v")
    case True
    then show ?thesis using deliver.IH[of key v] by (simp add: u)
  next
    case False
    with cl k obtain e where "accepted ing c e" "key = replay_key_of c" "v = replay_value_of ing c e"
      by (auto split: if_splits)
    then show ?thesis by blast
  qed
qed (simp_all add: empty_guard_def)

lemma claim_permanent:
  assumes "ingress_complete (with_memory_guard ing configured c1 c2 c3) worker c p inp (s, g) = (r, (s', g'))"
    and "seen g key = Some v"
  shows "seen g' key = Some v"
  using mi.complete_claims[OF assms(1)] assms(2) by auto


section \<open>Replays\<close>

text \<open>
  Delivering again a result that was claimed and finished never touches
  the gateway's store and, with a version 4 application id, is acknowledged without changing
  anything; delivering a different result under the same dispatch nonce is refused and changes
  nothing.
\<close>

theorem replay_changes_nothing:
  assumes parsed: "parse_result_payload (in_parse_result ing) p = Inr e"
    and seen: "seen g (replay_key_of c) = Some w"
    and out: "ingress_complete (with_memory_guard ing configured c1 c2 c3) worker c p inp (s, g) = (r, (s', g'))"
  shows "(w \<noteq> replay_value_of ing c e \<longrightarrow> s' = s \<and> g' = g \<and> (\<exists>x. r = Inl x))
    \<and> (replay_key_of c \<in> applied_keys g \<longrightarrow> s' = s)
    \<and> (w = replay_value_of ing c e \<and> replay_key_of c \<in> applied_keys g \<and> uuid_version4 (ii_application_id inp)
       \<and> require_worker_context worker c = Inr () \<and> require_result_binding e c = Inr ()
       \<longrightarrow> r = ack_of c \<and> s' = s \<and> g' = g)"
proof -
  let ?ing = "with_memory_guard ing configured c1 c2 c3"
  have p: "parse_result_payload (in_parse_result ?ing) p = Inr e" using parsed by simp
  note ans = mi.replay_answer[OF p out seen, unfolded with_memory_guard_same mem_finished_def]
  have "r = ack_of c \<and> s' = s \<and> g' = g"
    if h: "w = replay_value_of ing c e" "replay_key_of c \<in> applied_keys g" "uuid_version4 (ii_application_id inp)"
      "require_worker_context worker c = Inr ()" "require_result_binding e c = Inr ()"
  proof -
    have cl: "g_classify (in_guard ?ing) (replay_key_of c) (replay_value_of ing c e) g = (Inr ReplayExactMatch, g)"
      using seen h(1) by (simp add: memory_guard_def lift_guard_def guard_classify_def)
    have ac: "g_acquire (in_guard ?ing) (replay_key_of c) (replay_value_of ing c e) (ii_application_id inp) 30 g = (Inr ApplicationApplied, g)"
      using seen h(1-3) by (simp add: memory_guard_def lift_guard_def guard_acquire_def)
    have "ingress_complete ?ing worker c p inp (s, g) = (ack_of c, (s, g))"
      using p h(4,5) cl ac
      by (simp add: ingress_complete_def as_result_invalid_def bindS_liftR bindS_def[of "guarded _"] guarded_run
          finish_claimed_def apply_claimed_result_def bindS_def)
    with out show ?thesis by simp
  qed
  with ans show ?thesis by blast
qed

section \<open>First deliveries\<close>

lemma preapplication_pure:
  "snd (validate_preapplication_result_binding (mem_service ttl sha req_size) oper v s) = s"
  by (simp add: validate_preapplication_result_binding_def Let_def mem.binding_pure split: task_result.splits read_task.splits)

lemma needs_result:
  assumes "worker_result_needs_application (mem_service ttl sha req_size) worker k v s = (Inr needed, t)"
  shows "t = s \<and> (\<not> needed \<longrightarrow> (\<exists>r. find_op s k = Some r \<and> o_tenant r = w_tenant worker \<and> o_ws r = w_ws worker
       \<and> o_state r = SUCCEEDED \<and> o_result r = Some v))"
proof -
  from assms obtain r where r: "find_op s k = Some r" "o_tenant r = w_tenant worker" "o_ws r = w_ws worker"
    and rest: "(if o_state r = SUCCEEDED
       then (if o_result r = Some v then ret False else raise (GatewayError ''invalid_state''))
       else if o_state r \<noteq> RUNNING then raise (GatewayError ''invalid_state'')
       else bindS (validate_preapplication_result_binding (mem_service ttl sha req_size) r v) (\<lambda>_. ret True)) s = (Inr needed, t)"
    by (auto simp add: worker_result_needs_application_def bindS_eq_Inr mem.require_worker_workstation_ok
        mem.require_worker_operation_ok validate_result_def split: if_splits)
  from rest preapplication_pure[of ttl sha req_size r v s] r show ?thesis
    by (auto simp add: bindS_eq_Inr split: if_splits)
qed

lemma needs_failure:
  assumes "worker_failure_needs_application (mem_service ttl sha req_size) worker k code att s = (Inr needed, t)"
  shows "t = s \<and> (\<not> needed \<longrightarrow> (\<exists>r. find_op s k = Some r \<and> o_tenant r = w_tenant worker \<and> o_ws r = w_ws worker
       \<and> o_state r = failure_target att))"
  using assms by (auto simp add: worker_failure_needs_application_def bindS_eq_Inr mem.require_worker_workstation_ok
        mem.require_worker_operation_ok split: if_splits)

lemma fail_stored:
  assumes wf: "repo_wf s" and out: "gw_worker_fail (mem_service ttl sha req_size) worker k code att clk s = (Inr view, t)"
  shows "\<exists>r. find_op t k = Some r \<and> o_tenant r = w_tenant worker \<and> o_ws r = w_ws worker \<and> o_state r = failure_target att"
proof -
  from out obtain r where r: "find_op s k = Some r" "o_tenant r = w_tenant worker" "o_ws r = w_ws worker"
    and rest: "(if o_state r = failure_target att
     then (if o_error r = Some (failure_code r code att) then ret (view_of r)
           else raise (GatewayError ''invalid_state''))
     else bindS (liftR (utc_now clk)) (\<lambda>now.
          bindS (r_finish (sv_operations (mem_service ttl sha req_size)) k (w_tenant worker) (w_ws worker) now (failure_target att)
                   None (Some (failure_code r code att)))
            (\<lambda>outcome. liftR (transition_view outcome)))) s = (Inr view, t)"
    by (auto simp add: gw_worker_fail_def bindS_eq_Inr mem.require_worker_workstation_ok mem.require_worker_operation_ok)
  show ?thesis
  proof (cases "o_state r = failure_target att")
    case True
    with rest r show ?thesis by (auto split: if_splits)
  next
    case False
    with rest obtain now x where "finish_operation k (w_tenant worker) (w_ws worker) now (failure_target att) None
        (Some (failure_code r code att)) s = (Inr (TransitionOutcome TransUpdated (Some x)), t)"
      by (auto simp add: bindS_eq_Inr transition_view_ok)
    from memory_finish[OF wf this] r show ?thesis by (auto simp add: same_identity_def)
  qed
qed

lemma fail_keeps: "keeps repo_wf (gw_worker_fail (mem_service ttl sha req_size) worker k code att clk)"
  unfolding gw_worker_fail_def mem_service_sel memory_operations_sel by (intro keeps_rules)

lemma retry_cases:
  assumes "retry_idempotent_finish finish again s = (Inr (), t)"
  shows "(\<exists>x. finish s = (Inr x, t)) \<or> (\<exists>x e s1. finish s = (Inl e, s1) \<and> again s1 = (Inr x, t))"
  using assms by (auto simp add: retry_idempotent_finish_def catchS_def bindS_def split: prod.splits sum.splits if_splits)

definition applied_as :: "operation_record \<Rightarrow> worker_result \<Rightarrow> bool" where
  "applied_as r result \<longleftrightarrow> (case result of
     ErrorResult er \<Rightarrow> o_state r = failure_target (ee_attention er)
   | _ \<Rightarrow> o_state r = SUCCEEDED \<and> (\<exists>v. gateway_result result = Inr v \<and> o_result r = Some v))"

lemma apply_result_stored:
  assumes wf: "repo_wf s" and svc: "in_service ing = mem_service ttl sha req_size"
    and out: "ingress_apply_result ing worker c result inp s = (Inr (), t)"
  shows "\<exists>r. find_op t (dc_operation c) = Some r \<and> o_tenant r = w_tenant worker \<and> o_ws r = w_ws worker \<and> applied_as r result"
proof (cases "\<exists>er. result = ErrorResult er")
  case True
  then obtain er where er: "result = ErrorResult er" by blast
  let ?f = "\<lambda>clk. gw_worker_fail (mem_service ttl sha req_size) worker (dc_operation c) (ee_code er) (ee_attention er) clk"
  from out have "retry_idempotent_finish (?f (ii_service_now inp)) (?f (ii_retry_now inp)) s = (Inr (), t)"
    by (simp add: ingress_apply_result_def er svc Let_def)
  from retry_cases[OF this] show ?thesis
  proof (elim disjE exE conjE)
    fix x assume "?f (ii_service_now inp) s = (Inr x, t)"
    from fail_stored[OF wf this] show ?thesis by (simp add: applied_as_def er)
  next
    fix x e s1 assume f: "?f (ii_service_now inp) s = (Inl e, s1)" "?f (ii_retry_now inp) s1 = (Inr x, t)"
    have "repo_wf s1" using keepsD[OF fail_keeps wf, of ttl sha req_size worker "dc_operation c"] f(1) by (metis snd_conv)
    from fail_stored[OF this f(2)] show ?thesis by (simp add: applied_as_def er)
  qed
next
  case False
  with out obtain v ps ds view where v: "gateway_result result = Inr v"
    "gw_worker_apply_success (mem_service ttl sha req_size) worker (dc_operation c) v ps ds (ii_service_now inp) s = (Inr view, t)"
    by (cases result) (auto simp add: ingress_apply_result_def svc bindS_eq_Inr as_result_invalid_def catchR_def split: sum.splits)
  from service_apply_fits[OF wf v(2)] obtain r r' where "o_tenant r = w_tenant worker" "o_ws r = w_ws worker"
    "find_op t (dc_operation c) = Some r'" "same_identity r r'" "o_state r' = SUCCEEDED" "o_result r' = Some v" by blast
  with v(1) False show ?thesis by (cases result) (auto simp add: applied_as_def same_identity_def)
qed

lemma delivery_stored:
  assumes wf: "repo_wf s" and svc: "in_service ing = mem_service ttl sha req_size"
    and needs: "result_needs_application ing worker c result s = (Inr needed, s1)"
    and rest: "if needed then ingress_apply_result ing worker c result inp s1 = (Inr (), t) else t = s1"
  shows "\<exists>r. find_op t (dc_operation c) = Some r \<and> o_tenant r = w_tenant worker \<and> o_ws r = w_ws worker \<and> applied_as r result"
proof (cases "\<exists>er. result = ErrorResult er")
  case True
  then obtain er where er: "result = ErrorResult er" by blast
  from needs_failure[of ttl sha req_size worker "dc_operation c" "ee_code er" "ee_attention er" s needed s1] needs er svc
  have n: "s1 = s" "\<not> needed \<longrightarrow> (\<exists>r. find_op s (dc_operation c) = Some r \<and> o_tenant r = w_tenant worker \<and> o_ws r = w_ws worker
       \<and> o_state r = failure_target (ee_attention er))" by (simp_all add: result_needs_application_def)
  show ?thesis
  proof (cases needed)
    case True
    with rest n(1) apply_result_stored[OF wf svc] show ?thesis by auto
  next
    case False
    with rest n er show ?thesis by (auto simp add: applied_as_def)
  qed
next
  case False
  with needs obtain v where v: "gateway_result result = Inr v"
    "worker_result_needs_application (mem_service ttl sha req_size) worker (dc_operation c) v s = (Inr needed, s1)"
    by (cases result) (auto simp add: result_needs_application_def svc bindS_eq_Inr as_result_invalid_def catchR_def split: sum.splits)
  from needs_result[OF v(2)] have n: "s1 = s" "\<not> needed \<longrightarrow> (\<exists>r. find_op s (dc_operation c) = Some r \<and> o_tenant r = w_tenant worker
      \<and> o_ws r = w_ws worker \<and> o_state r = SUCCEEDED \<and> o_result r = Some v)" by blast+
  show ?thesis
  proof (cases needed)
    case True
    with rest n(1) apply_result_stored[OF wf svc] show ?thesis by auto
  next
    case nd: False
    with rest n v(1) False show ?thesis by (cases result) (auto simp add: applied_as_def)
  qed
qed


section \<open>A delivery\<close>

definition sample_correlation :: dispatch_correlation where
  "sample_correlation = \<lparr>dc_policy = 3, dc_tenant = tid, dc_user = uid, dc_device = wid,
     dc_task = ''tsk_'' @ uuid_tail CHR ''a'', dc_operation = oid CHR ''e'', dc_command_id = ''cmd_'' @ uuid_tail CHR ''c'',
     dc_idem = ''idem_'' @ uuid_tail CHR ''e'', dc_nonce = replicate 22 CHR ''n'', dc_command = ValidateEnvironmentCommand,
     dc_sha256 = replicate 64 CHR ''0'', dc_issued = 11, dc_dispatch_expires = 30, dc_operation_expires = 60\<rparr>"

definition sample_result :: "instant result_envelope" where
  "sample_result = \<lparr>re_tenant = tid, re_user = uid, re_device = wid, re_task = ''tsk_'' @ uuid_tail CHR ''a'',
     re_operation = oid CHR ''e'', re_command_id = ''cmd_'' @ uuid_tail CHR ''c'', re_completed = 20,
     re_result = EnvironmentResult \<lparr>er_ready = True, er_autocad = True, er_plugin = True, er_publish = False,
       er_runtime = None, er_identity = True, er_codes = []\<rparr>, re_signature = replicate 86 CHR ''s''\<rparr>"

definition sample_ingress :: "(gateway_repo, replay_store) worker_ingress" where
  "sample_ingress = \<lparr>in_service = sample_service, in_guard = memory_guard True (Aware 21) (Aware 22) (Aware 24),
     in_verify = (\<lambda>_ _ _. Inr True), in_max_age = seconds 60, in_sha256 = (\<lambda>_. replicate 32 7),
     in_result_bytes = (\<lambda>_. [1]),
     in_parse_result = (\<lambda>bs. if bs = [123, 125] then Inr sample_result else Inl (ValidationError ''json'')),
     in_parse_start = (\<lambda>_. Inl (ValidationError ''json''))\<rparr>"

definition sample_inputs :: ingress_inputs where
  "sample_inputs = \<lparr>ii_now = Aware 21, ii_apply_now = Aware 23, ii_service_now = Aware 23, ii_retry_now = Aware 23,
     ii_application_id = uuid_tail CHR ''a''\<rparr>"

lemma sample_parsed: "parse_result_payload (in_parse_result sample_ingress) (PayloadBytes [123, 125]) = Inr sample_result"
  by (simp add: parse_result_payload_def parse_bounded_json_def payload_bytes_def max_result_payload_bytes_def sample_ingress_def)

lemma sample_bindings: "require_worker_context sample_worker sample_correlation = Inr ()"
  "require_result_binding sample_result sample_correlation = Inr ()"
  "ack_of sample_correlation \<noteq> Inl AssertionError"
  by code_simp+

lemma complete_unseen:
  assumes "parse_result_payload (in_parse_result ing) p = Inr e" and "require_worker_context worker c = Inr ()"
    and "require_result_binding e c = Inr ()" and "seen g (replay_key_of c) = None"
    and "in_guard ing = memory_guard configured c1 c2 c3"
  shows "ingress_complete ing worker c p inp (s, g) = claim_new_result ing worker c e inp (s, g)"
  using assms
  by (simp add: ingress_complete_def as_result_invalid_def bindS_liftR bindS_def[of "guarded _"] guarded_run
      memory_guard_def lift_guard_def guard_classify_def)

lemma sample_claims: "is_ok (fst (claim_new_result sample_ingress sample_worker sample_correlation sample_result sample_inputs
    (env_store, empty_guard)))"
  unfolding sample_ingress_def sample_service_def by code_simp

lemma sample_memory: "with_memory_guard sample_ingress True (Aware 21) (Aware 22) (Aware 24) = sample_ingress"
  by (simp add: sample_ingress_def)

lemma sample_delivery:
  "\<exists>a s' g'. ingress_complete (with_memory_guard sample_ingress True (Aware 21) (Aware 22) (Aware 24)) sample_worker
     sample_correlation (PayloadBytes [123, 125]) sample_inputs (env_store, empty_guard) = (Inr a, (s', g'))"
proof -
  have n: "seen empty_guard (replay_key_of sample_correlation) = None" by (simp add: empty_guard_def)
  have g: "in_guard sample_ingress = memory_guard True (Aware 21) (Aware 22) (Aware 24)" by (simp add: sample_ingress_def)
  obtain a u where "claim_new_result sample_ingress sample_worker sample_correlation sample_result sample_inputs
    (env_store, empty_guard) = (Inr a, u)" using is_ok_result[OF sample_claims] by blast
  with complete_unseen[OF sample_parsed sample_bindings(1,2) n g] show ?thesis
    unfolding sample_memory by (cases u) simp
qed


lemma sample_claimed:
  "\<exists>s' g'. ingress_reach sample_ingress (s', g') \<and> seen g' (replay_key_of sample_correlation) = Some (replay_value_of sample_ingress sample_correlation sample_result)
     \<and> replay_key_of sample_correlation \<in> applied_keys g'"
proof -
  obtain a s' g' where d: "ingress_complete (with_memory_guard sample_ingress True (Aware 21) (Aware 22) (Aware 24)) sample_worker
     sample_correlation (PayloadBytes [123, 125]) sample_inputs (env_store, empty_guard) = (Inr a, (s', g'))"
    using sample_delivery by blast
  have p: "parse_result_payload (in_parse_result (with_memory_guard sample_ingress True (Aware 21) (Aware 22) (Aware 24))) (PayloadBytes [123, 125]) = Inr sample_result"
    using sample_parsed by simp
  have n: "seen empty_guard (replay_key_of sample_correlation) = None" "\<not> mem_finished empty_guard (replay_key_of sample_correlation)"
    by (simp_all add: empty_guard_def mem_finished_def)
  from mi.first_delivery[OF p d n] obtain g1 where
    f: "finish_claimed (with_memory_guard sample_ingress True (Aware 21) (Aware 22) (Aware 24)) sample_worker sample_correlation sample_result sample_inputs
      (env_store, g1) = (Inr a, (s', g'))" "\<not> mem_finished g1 (replay_key_of sample_correlation)" by blast
  from mi.finish_applies[OF f] ingress_reach.deliver[OF ingress_reach.fresh d] show ?thesis
    by (auto simp add: mem_finished_def)
qed


theorem replay_changes_nothing_witness:
  "\<exists>s' g'. fst (ingress_complete sample_ingress sample_worker sample_correlation (PayloadBytes [123, 125]) sample_inputs (s', g'))
     = ack_of sample_correlation \<and> replay_key_of sample_correlation \<in> applied_keys g'"
proof -
  obtain g' :: replay_store where h: "seen g' (replay_key_of sample_correlation) = Some (replay_value_of sample_ingress sample_correlation sample_result)"
    "replay_key_of sample_correlation \<in> applied_keys g'" using sample_claimed by blast
  obtain r s2 g2 where o: "ingress_complete (with_memory_guard sample_ingress True (Aware 21) (Aware 22) (Aware 24)) sample_worker
     sample_correlation (PayloadBytes [123, 125]) sample_inputs (env_store, g') = (r, (s2, g2))" by (metis prod_cases3)
  have u: "uuid_version4 (ii_application_id sample_inputs)" by code_simp
  from replay_changes_nothing[OF sample_parsed h(1) o] h(2) u sample_bindings(1,2)
  have "r = ack_of sample_correlation" by blast
  with o h(2) show ?thesis unfolding sample_memory by (intro exI[of _ env_store] exI[of _ g']) simp
qed

end
