(* ===== verification/Translation_Text.thy ===== *)
theory Translation_Text
  imports Gateway_Service Wire_Text
begin

text \<open>
  src/cadplot\_mcp/translation.py: how drawing text is cut into protected and editable pieces, the
  inventory of reviewable spans, and the plan that reviewed decisions make. The regular expression
  of parts is written out as the length of its match at the cursor; Python's Unicode tables, SHA-256
  and the fingerprint document are parameters. The fixed instruction and warning texts are left out.
\<close>

section \<open>Characters\<close>

text \<open>
  What the planner asks of Python's Unicode tables: str.isalpha, str.isnumeric, the decimal digits
  of \d, and casefold of a text.
\<close>

record unicode_tables =
  uc_alpha :: "nat \<Rightarrow> bool"
  uc_numeric :: "nat \<Rightarrow> bool"
  uc_digit :: "nat \<Rightarrow> bool"
  uc_casefold :: "pytext \<Rightarrow> pytext"

definition max_text_chars :: nat where "max_text_chars = 32000"

definition max_total_chars :: nat where "max_total_chars = 1000000"

text \<open>The characters the editor must keep: diameter, o slash, degree, plus-minus, times, squares.\<close>

definition symbol_char :: "nat \<Rightarrow> bool" where
  "symbol_char c \<longleftrightarrow> List.member [8960, 216, 248, 176, 177, 215, 178, 179] c"

definition lone_protected :: "nat \<Rightarrow> bool" where
  "lone_protected c \<longleftrightarrow> c = 123 \<or> c = 125 \<or> c = 13 \<or> c = 10 \<or> c = 9 \<or> symbol_char c"

definition escape_protected :: "unicode_tables \<Rightarrow> nat \<Rightarrow> bool" where
  "escape_protected uc c \<longleftrightarrow> uc_numeric uc c \<or> lone_protected c \<or> c = 92 \<or> c = 37 \<or> c < 32"

definition hex_value :: "nat \<Rightarrow> nat option" where
  "hex_value c = (if 48 \<le> c \<and> c \<le> 57 then Some (c - 48) else if 65 \<le> c \<and> c \<le> 70 then Some (c - 55)
     else if 97 \<le> c \<and> c \<le> 102 then Some (c - 87) else None)"

text \<open>A Unicode escape at the start of the text, and what it stands for.\<close>

fun unicode_escape :: "pytext \<Rightarrow> nat option" where
  "unicode_escape (a # b # c # h1 # h2 # h3 # h4 # rest) =
     (if a = 92 \<and> b = 85 \<and> c = 43 then
        (case (hex_value h1, hex_value h2, hex_value h3, hex_value h4) of
           (Some v1, Some v2, Some v3, Some v4) \<Rightarrow> Some (v1 * 4096 + v2 * 256 + v3 * 16 + v4)
         | _ \<Rightarrow> None)
      else None)"
| "unicode_escape rest = None"

function decoded :: "pytext \<Rightarrow> pytext" where
  "decoded [] = []"
| "decoded (a # rest) = (case unicode_escape (a # rest) of
     Some v \<Rightarrow> v # decoded (drop 6 rest)
   | None \<Rightarrow> a # decoded rest)"
  by pat_completeness auto

termination by (relation "measure length") auto

section \<open>Protected pieces\<close>

text \<open>An AutoCAD field: everything up to the matching end, nested fields included.\<close>

fun field_length :: "nat \<Rightarrow> pytext \<Rightarrow> nat option" where
  "field_length 0 rest = Some 0"
| "field_length (Suc d) [] = None"
| "field_length (Suc d) [c] = None"
| "field_length (Suc d) (a # b # rest) =
     (if a = 37 \<and> b = 60 then map_option (\<lambda>n. n + 2) (field_length (Suc (Suc d)) rest)
      else if a = 62 \<and> b = 37 then map_option (\<lambda>n. n + 2) (field_length d rest)
      else map_option Suc (field_length (Suc d) (b # rest)))"

text \<open>The control sequences of MTEXT; a parameter runs to the next semicolon.\<close>

definition parameter_controls :: pytext where
  "parameter_controls = codes ''ACcFfHhQqTtWwpaS''"

definition single_controls :: pytext where
  "single_controls = codes ''PpLlOoKkXx~{}'' @ [92]"

definition control_length :: "pytext \<Rightarrow> nat option" where
  "control_length rest = (case rest of
     a # b # follows \<Rightarrow>
       if a \<noteq> 92 then None
       else if List.member parameter_controls b \<and> List.member follows 59
       then Some (length (takeWhile (\<lambda>c. c \<noteq> 59) follows) + 3)
       else if List.member single_controls b then Some 2 else None
   | _ \<Rightarrow> None)"

definition percent_length :: "unicode_tables \<Rightarrow> pytext \<Rightarrow> nat option" where
  "percent_length uc rest = (case rest of
     a # b # c # follows \<Rightarrow>
       if a = 37 \<and> b = 37 then
         (if ascii_letter c then Some 3
          else (case follows of
                  d # e # _ \<Rightarrow> if uc_digit uc c \<and> uc_digit uc d \<and> uc_digit uc e then Some 5 else None
                | _ \<Rightarrow> None))
       else None
   | _ \<Rightarrow> None)"

definition digits_length :: "unicode_tables \<Rightarrow> pytext \<Rightarrow> nat" where
  "digits_length uc rest = length (takeWhile (uc_digit uc) rest)"

text \<open>
  Groups of a separator and digits: separators accepted only in front of a digit. The regular
  expression is greedy and its separators are not digits, so the longest sequence is the match.
\<close>

function groups_length :: "unicode_tables \<Rightarrow> nat list \<Rightarrow> pytext \<Rightarrow> nat" where
  "groups_length uc seps [] = 0"
| "groups_length uc seps (s # rest) =
     (let n = digits_length uc rest in
      if List.member seps s \<and> n \<noteq> 0 then Suc n + groups_length uc seps (drop n rest) else 0)"
  by pat_completeness auto

termination by (relation "measure (\<lambda>(uc, seps, t). length t)") auto

definition unsigned_length :: "unicode_tables \<Rightarrow> pytext \<Rightarrow> nat" where
  "unsigned_length uc rest = (let n = digits_length uc rest in
     if n = 0 then 0 else n + groups_length uc [46, 44] (drop n rest))"

function ratio_length :: "unicode_tables \<Rightarrow> pytext \<Rightarrow> nat" where
  "ratio_length uc [] = 0"
| "ratio_length uc (s # rest) =
     (let n = unsigned_length uc rest in
      if (s = 47 \<or> s = 58 \<or> s = 45) \<and> n \<noteq> 0 then Suc n + ratio_length uc (drop n rest) else 0)"
  by pat_completeness auto

termination by (relation "measure (\<lambda>(uc, t). length t)") auto

definition number_length :: "unicode_tables \<Rightarrow> pytext \<Rightarrow> nat option" where
  "number_length uc rest =
     (let sign = (case rest of c # _ \<Rightarrow> if c = 43 \<or> c = 45 then 1 else 0 | [] \<Rightarrow> 0);
          n = unsigned_length uc (drop sign rest) in
      if n = 0 then None else Some (sign + n + ratio_length uc (drop (sign + n) rest)))"

fun first_some :: "'a option list \<Rightarrow> 'a option" where
  "first_some [] = None"
| "first_some (None # xs) = first_some xs"
| "first_some (Some x # xs) = Some x"

definition protected_length :: "unicode_tables \<Rightarrow> pytext \<Rightarrow> nat option" where
  "protected_length uc rest = first_some
     [control_length rest,
      (case rest of c # _ \<Rightarrow> if lone_protected c then Some 1 else None | [] \<Rightarrow> None),
      (case rest of a # b # _ \<Rightarrow> if a = 60 \<and> b = 62 then Some 2 else None | _ \<Rightarrow> None),
      percent_length uc rest, number_length uc rest]"

text \<open>
  One round of the loop of parts, on the text from the cursor on: whether the next piece is
  editable and how long it is.
\<close>

definition next_piece :: "unicode_tables \<Rightarrow> pytext \<Rightarrow> (bool \<times> nat) res" where
  "next_piece uc rest =
     (if take 2 rest = [37, 60] then
        (case field_length 1 (drop 2 rest) of
           None \<Rightarrow> Inl (ValueError ''unclosed_autocad_field'')
         | Some n \<Rightarrow> Inr (False, n + 2))
      else (case unicode_escape rest of
              Some v \<Rightarrow> Inr (\<not> escape_protected uc v, 7)
            | None \<Rightarrow>
                (case protected_length uc rest of
                   Some n \<Rightarrow> Inr (False, n)
                 | None \<Rightarrow>
                     if take 1 rest = [92] then Inl (ValueError ''unsupported_autocad_text_control'')
                     else Inr (True, 1))))"

lemma takeWhile_less: "x \<in> set xs \<Longrightarrow> \<not> P x \<Longrightarrow> length (takeWhile P xs) < length xs"
  by (induction xs) auto

lemma field_length_le: "field_length d rest = Some n \<Longrightarrow> n \<le> length rest"
  by (induction d rest arbitrary: n rule: field_length.induct) (auto split: if_splits)

lemma digits_length_le: "digits_length uc rest \<le> length rest"
  by (simp add: digits_length_def length_takeWhile_le)

lemma groups_length_le: "groups_length uc seps rest \<le> length rest"
proof (induction uc seps rest rule: groups_length.induct)
  case (2 uc seps s rest)
  then show ?case using digits_length_le[of uc rest] by (auto simp add: Let_def)
qed simp

lemma unsigned_length_le: "unsigned_length uc rest \<le> length rest"
  using groups_length_le[of uc "[46, 44]" "drop (digits_length uc rest) rest"] digits_length_le[of uc rest]
  by (auto simp add: unsigned_length_def Let_def)

lemma ratio_length_le: "ratio_length uc rest \<le> length rest"
proof (induction uc rest rule: ratio_length.induct)
  case (2 uc s rest)
  then show ?case using unsigned_length_le[of uc rest] by (auto simp add: Let_def)
qed simp

lemma number_length_bounds: "number_length uc rest = Some n \<Longrightarrow> 1 \<le> n \<and> n \<le> length rest"
  using unsigned_length_le[of uc rest] unsigned_length_le[of uc "drop 1 rest"]
    ratio_length_le[of uc "drop (unsigned_length uc rest) rest"]
    ratio_length_le[of uc "drop (Suc (unsigned_length uc (drop 1 rest))) rest"]
  by (cases rest) (auto simp add: number_length_def Let_def split: if_splits)

lemma control_length_bounds: "control_length rest = Some n \<Longrightarrow> 1 \<le> n \<and> n \<le> length rest"
  using takeWhile_less[of 59 "drop 2 rest" "\<lambda>c. c \<noteq> 59"]
  by (auto simp add: control_length_def List.member_iff split: list.splits if_splits)

lemma percent_length_bounds: "percent_length uc rest = Some n \<Longrightarrow> 1 \<le> n \<and> n \<le> length rest"
  by (auto simp add: percent_length_def split: list.splits if_splits)

lemma first_some_cases: "first_some xs = Some x \<Longrightarrow> Some x \<in> set xs"
  by (induction xs rule: first_some.induct) auto

lemma protected_length_bounds:
  assumes "protected_length uc rest = Some n"
  shows "1 \<le> n \<and> n \<le> length rest"
  using first_some_cases[OF assms[unfolded protected_length_def]] control_length_bounds[of rest n]
    percent_length_bounds[of uc rest n] number_length_bounds[of uc rest n]
  by (auto split: list.splits if_splits)

lemma unicode_escape_length: "unicode_escape rest = Some v \<Longrightarrow> 7 \<le> length rest"
  by (cases rest rule: unicode_escape.cases) auto

lemma next_piece_bounds:
  assumes "next_piece uc rest = Inr (editable, n)" and "rest \<noteq> []"
  shows "1 \<le> n \<and> n \<le> length rest"
proof -
  have "2 \<le> length rest" if "take 2 rest = [37, 60]" using that by (cases rest; cases "tl rest") auto
  with assms protected_length_bounds[of uc rest n] unicode_escape_length[of rest] field_length_le[of 1 "drop 2 rest"]
  show ?thesis by (auto simp add: next_piece_def Suc_le_eq split: if_splits option.splits)
qed

section \<open>Parts\<close>

definition add_piece :: "(bool \<times> pytext) list \<Rightarrow> bool \<Rightarrow> pytext \<Rightarrow> (bool \<times> pytext) list" where
  "add_piece result editable piece =
     (if editable \<and> result \<noteq> [] \<and> fst (last result)
      then butlast result @ [(True, snd (last result) @ piece)]
      else result @ [(editable, piece)])"

function parts_loop :: "unicode_tables \<Rightarrow> (bool \<times> pytext) list \<Rightarrow> pytext \<Rightarrow> (bool \<times> pytext) list res" where
  "parts_loop uc result rest =
     (if rest = [] then Inr result
      else (case next_piece uc rest of
              Inl e \<Rightarrow> Inl e
            | Inr (editable, n) \<Rightarrow> parts_loop uc (add_piece result editable (take n rest)) (drop n rest)))"
  by pat_completeness auto

termination
  by (relation "measure (\<lambda>(uc, result, rest). length rest)") (auto dest!: next_piece_bounds)

declare parts_loop.simps [simp del]

definition parts :: "unicode_tables \<Rightarrow> pytext \<Rightarrow> (bool \<times> pytext) list res" where
  "parts uc raw = parts_loop uc [] raw"

section \<open>Records\<close>

datatype text_property = TextString | MTextAttributeContent | TextOverride | TableText

record dwg_text =
  tx_id :: pytext
  tx_handle :: pytext
  tx_kind :: pytext
  tx_block :: pytext
  tx_layer :: pytext
  tx_property :: text_property
  tx_row :: int
  tx_column :: int
  tx_raw :: pytext
  tx_writable :: bool
  tx_reason :: "pytext option"

record text_snapshot =
  sn_records :: "dwg_text list"
  sn_blockers :: "pytext list"
  sn_entity_count :: int
  sn_structure :: string

record reviewed_span =
  rs_id :: pytext
  rs_text :: pytext
  rs_normalized :: pytext

record reviewed_text =
  rt_record :: dwg_text
  rt_spans :: "reviewed_span list"

record translation_inventory =
  iv_drawing :: pytext
  iv_id :: string
  iv_source_sha256 :: string
  iv_entity_count :: int
  iv_total_records :: nat
  iv_total_spans :: nat
  iv_offset :: int
  iv_next_offset :: "int option"
  iv_records :: "reviewed_text list"
  iv_blockers :: "pytext list"

record translation_decision =
  td_span :: pytext
  td_source :: pytext
  td_language :: source_language
  td_target :: pytext

record planned_change =
  pc_record :: pytext
  pc_before :: pytext
  pc_after :: pytext

record translation_plan =
  tn_plan :: string
  tn_inventory :: string
  tn_drawing :: pytext
  tn_ready :: bool
  tn_reviewed :: nat
  tn_changed :: nat
  tn_changes :: "planned_change list"
  tn_blockers :: "pytext list"

text \<open>The field constraints of the strict local models.\<close>

definition valid_snapshot :: "text_snapshot \<Rightarrow> bool" where
  "valid_snapshot sn \<longleftrightarrow> length (sn_records sn) \<le> 10000 \<and> length (sn_blockers sn) \<le> 100000
     \<and> 0 \<le> sn_entity_count sn \<and> sn_entity_count sn \<le> 100000 \<and> sha256_hex (sn_structure sn)
     \<and> list_all (\<lambda>r. length (tx_raw r) \<le> max_text_chars) (sn_records sn)"

definition valid_local_decision :: "translation_decision \<Rightarrow> bool" where
  "valid_local_decision d \<longleftrightarrow> 1 \<le> length (td_span d) \<and> length (td_span d) \<le> 100
     \<and> 1 \<le> length (td_source d) \<and> length (td_source d) \<le> max_text_chars
     \<and> 1 \<le> length (td_target d) \<and> length (td_target d) \<le> max_text_chars"

section \<open>Inventories\<close>

definition property_name :: "text_property \<Rightarrow> string" where
  "property_name p = (case p of TextString \<Rightarrow> ''TextString'' | MTextAttributeContent \<Rightarrow> ''MTextAttributeContent''
     | TextOverride \<Rightarrow> ''TextOverride'' | TableText \<Rightarrow> ''table'')"

definition dwg_text_json :: "dwg_text \<Rightarrow> json" where
  "dwg_text_json r = JObj [(''id'', JStr (tx_id r)), (''handle'', JStr (tx_handle r)), (''kind'', JStr (tx_kind r)),
     (''block'', JStr (tx_block r)), (''layer'', JStr (tx_layer r)), (''property'', jstr (property_name (tx_property r))),
     (''row'', JInt (tx_row r)), (''column'', JInt (tx_column r)), (''raw'', JStr (tx_raw r)),
     (''writable'', JBool (tx_writable r)), (''reason'', json_option JStr (tx_reason r))]"

definition snapshot_json :: "text_snapshot \<Rightarrow> json" where
  "snapshot_json sn = JObj [(''records'', JArr (map dwg_text_json (sn_records sn))),
     (''blockers'', JArr (map JStr (sn_blockers sn))), (''entity_count'', JInt (sn_entity_count sn)),
     (''structure_sha256'', jstr (sn_structure sn))]"

text \<open>A fingerprint is its JSON document with the source hash it holds.\<close>

record fingerprint =
  fp_json :: json
  fp_sha256 :: string

definition digest :: "(string \<Rightarrow> nat list) \<Rightarrow> json \<Rightarrow> string" where
  "digest sha j = hexdigest (sha (canonical_json j))"

definition inventory_identity :: "(string \<Rightarrow> nat list) \<Rightarrow> pytext \<Rightarrow> fingerprint \<Rightarrow> text_snapshot \<Rightarrow> string" where
  "inventory_identity sha path fp sn = ''sha256:'' @ digest sha (JObj [(''drawing'', JStr path),
     (''fingerprint'', fp_json fp), (''snapshot'', snapshot_json sn)])"

text \<open>The Turkish letters that are folded before casefold: dotted and dotless i, s, g, c, o, u.\<close>

definition search_fold :: "nat \<Rightarrow> nat" where
  "search_fold c = (case map_of (zip [304, 73, 305, 350, 351, 286, 287, 199, 231, 214, 246, 220, 252]
       (codes ''iiiSsGgCcOoUu'')) c of None \<Rightarrow> c | Some d \<Rightarrow> d)"

definition normalize_for_search :: "unicode_tables \<Rightarrow> pytext \<Rightarrow> pytext" where
  "normalize_for_search uc t = uc_casefold uc (map search_fold t)"

definition span_name :: "pytext \<Rightarrow> nat \<Rightarrow> pytext" where
  "span_name record_id index = record_id @ [58] @ codes (dec_nat index)"

definition reviewable :: "unicode_tables \<Rightarrow> bool \<times> pytext \<Rightarrow> bool" where
  "reviewable uc piece \<longleftrightarrow> fst piece \<and> list_ex (uc_alpha uc) (decoded (snd piece))"

definition review_record :: "unicode_tables \<Rightarrow> dwg_text \<Rightarrow> reviewed_text res" where
  "review_record uc r = bindR (parts uc (tx_raw r)) (\<lambda>ps.
     Inr \<lparr>rt_record = r, rt_spans = map (\<lambda>(index, piece).
        let text = decoded (snd piece) in
        \<lparr>rs_id = span_name (tx_id r) index, rs_text = text, rs_normalized = normalize_for_search uc text\<rparr>)
       (filter (\<lambda>(index, piece). reviewable uc piece) (enumerate 0 ps))\<rparr>)"

definition unsupported_text :: "dwg_text \<Rightarrow> pytext" where
  "unsupported_text r = codes ''unsupported_text_format:'' @ tx_id r"

fun review_all :: "unicode_tables \<Rightarrow> dwg_text list \<Rightarrow> reviewed_text list \<times> pytext list" where
  "review_all uc [] = ([], [])"
| "review_all uc (r # rs) =
     (let (reviewed, blockers) = review_all uc rs in
      case review_record uc r of
        Inr v \<Rightarrow> (v # reviewed, blockers)
      | Inl _ \<Rightarrow> (\<lparr>rt_record = r, rt_spans = []\<rparr> # reviewed, unsupported_text r # blockers))"

definition sorted_set :: "pytext list \<Rightarrow> pytext list" where
  "sorted_set xs = sort (remdups xs)"

definition inventory_page ::
  "unicode_tables \<Rightarrow> (string \<Rightarrow> nat list) \<Rightarrow> pytext \<Rightarrow> fingerprint \<Rightarrow> text_snapshot \<Rightarrow> string option \<Rightarrow> int \<Rightarrow> int
    \<Rightarrow> translation_inventory res" where
  "inventory_page uc sha path fp sn expected offset limit =
     (let ivt = inventory_identity sha path fp sn; total = int (length (sn_records sn)) in
      if \<not> (0 \<le> offset \<and> offset \<le> total) \<or> \<not> (1 \<le> limit \<and> limit \<le> 100)
      then Inl (ValueError ''invalid_translation_page_bounds'')
      else if (offset \<noteq> 0 \<and> expected = None) \<or> (case expected of None \<Rightarrow> False | Some x \<Rightarrow> x \<noteq> [] \<and> x \<noteq> ivt)
      then Inl (ValueError ''drawing_inventory_changed'')
      else (let (reviewed, blockers) = review_all uc (sn_records sn) in
        Inr \<lparr>iv_drawing = path, iv_id = ivt, iv_source_sha256 = fp_sha256 fp, iv_entity_count = sn_entity_count sn,
          iv_total_records = length reviewed, iv_total_spans = sum_list (map (\<lambda>r. length (rt_spans r)) reviewed),
          iv_offset = offset,
          iv_next_offset = (if offset + limit < int (length reviewed) then Some (offset + limit) else None),
          iv_records = take (nat limit) (drop (nat offset) reviewed),
          iv_blockers = sorted_set (sn_blockers sn @ blockers)\<rparr>))"

section \<open>Plans\<close>

definition whitespace_edges :: "pytext \<Rightarrow> pytext \<times> pytext" where
  "whitespace_edges t = (takeWhile py_space t, rev (takeWhile py_space (rev t)))"

text \<open>The checks of a replacement text, in the order of the code.\<close>

definition check_target :: "unicode_tables \<Rightarrow> pytext \<Rightarrow> pytext \<Rightarrow> unit res" where
  "check_target uc text target =
     bindR (parts uc target) (\<lambda>ps.
     if list_ex (\<lambda>p. \<not> fst p) ps \<or> List.member target 37 \<or> List.member target 92 \<or> list_ex (uc_numeric uc) target
     then Inl (ValueError ''translation_must_not_introduce_controls'')
     else if \<not> list_ex (uc_alpha uc) target then Inl (ValueError ''english_text_required'')
     else if list_ex (\<lambda>c. c < 32 \<or> c = 127) target then Inl (ValueError ''control_characters'')
     else if whitespace_edges text \<noteq> whitespace_edges target then Inl (ValueError ''preserve_whitespace'')
     else Inr ())"

text \<open>What one piece contributes: its text in the output, its span if it has one, and blockers.\<close>

definition plan_piece ::
  "unicode_tables \<Rightarrow> (pytext \<Rightarrow> translation_decision option) \<Rightarrow> pytext \<Rightarrow> nat \<times> bool \<times> pytext
    \<Rightarrow> (pytext \<times> pytext list \<times> pytext list) res" where
  "plan_piece uc by_id record_id = (\<lambda>(index, editable, raw).
     let text = decoded raw; span = span_name record_id index in
     if \<not> reviewable uc (editable, raw) then Inr (raw, [], [])
     else (case by_id span of
             None \<Rightarrow> Inr (raw, [span], [codes ''unreviewed:'' @ span])
           | Some d \<Rightarrow>
               if td_source d \<noteq> text then Inl (ValueError ''source_text_mismatch'')
               else let uncertain = (if td_language d = LangUncertain then [codes ''uncertain:'' @ span] else []) in
               if td_target d = text
               then Inr (raw, [span], uncertain @ (if td_language d = LangTr then [codes ''untranslated:'' @ span] else []))
               else if td_language d \<noteq> LangTr then Inl (ValueError ''only_turkish_spans_may_be_changed'')
               else bindR (check_target uc text (td_target d)) (\<lambda>_. Inr (td_target d, [span], uncertain))))"

fun plan_pieces ::
  "unicode_tables \<Rightarrow> (pytext \<Rightarrow> translation_decision option) \<Rightarrow> pytext \<Rightarrow> (nat \<times> bool \<times> pytext) list
    \<Rightarrow> (pytext list \<times> pytext list \<times> pytext list) res" where
  "plan_pieces uc by_id record_id [] = Inr ([], [], [])"
| "plan_pieces uc by_id record_id (p # ps) =
     bindR (plan_piece uc by_id record_id p) (\<lambda>(out, spans, blockers).
     bindR (plan_pieces uc by_id record_id ps) (\<lambda>(outs, more_spans, more_blockers).
     Inr (out # outs, spans @ more_spans, blockers @ more_blockers)))"

definition not_writable :: "dwg_text \<Rightarrow> pytext" where
  "not_writable r = codes ''not_writable:'' @ tx_id r @ [58] @ (case tx_reason r of None \<Rightarrow> codes ''None'' | Some t \<Rightarrow> t)"

text \<open>One record: the spans seen, its change if there is one, and its blockers.\<close>

definition plan_record ::
  "unicode_tables \<Rightarrow> (pytext \<Rightarrow> translation_decision option) \<Rightarrow> dwg_text
    \<Rightarrow> (pytext list \<times> planned_change list \<times> pytext list) res" where
  "plan_record uc by_id r = (case parts uc (tx_raw r) of
     Inl _ \<Rightarrow> Inr ([], [], [unsupported_text r])
   | Inr ps \<Rightarrow>
       bindR (plan_pieces uc by_id (tx_id r) (enumerate 0 ps)) (\<lambda>(outs, spans, blockers).
       let translated = concat outs in
       if length translated > max_text_chars then Inl (ValueError ''translated_text_exceeds_limit'')
       else if translated = tx_raw r then Inr (spans, [], blockers)
       else Inr (spans, [\<lparr>pc_record = tx_id r, pc_before = tx_raw r, pc_after = translated\<rparr>],
                 blockers @ (if tx_writable r then [] else [not_writable r]))))"

fun plan_records ::
  "unicode_tables \<Rightarrow> (pytext \<Rightarrow> translation_decision option) \<Rightarrow> dwg_text list
    \<Rightarrow> (pytext list \<times> planned_change list \<times> pytext list) res" where
  "plan_records uc by_id [] = Inr ([], [], [])"
| "plan_records uc by_id (r # rs) =
     bindR (plan_record uc by_id r) (\<lambda>(spans, changes, blockers).
     bindR (plan_records uc by_id rs) (\<lambda>(more_spans, more_changes, more_blockers).
     Inr (spans @ more_spans, changes @ more_changes, blockers @ more_blockers)))"

definition local_decision_json :: "translation_decision \<Rightarrow> json" where
  "local_decision_json d = JObj [(''span_id'', JStr (td_span d)), (''source'', JStr (td_source d)),
     (''source_language'', jstr (source_language_code (td_language d))), (''target'', JStr (td_target d))]"

definition planned_change_json :: "planned_change \<Rightarrow> json" where
  "planned_change_json c = JObj [(''record_id'', JStr (pc_record c)), (''before'', JStr (pc_before c)), (''after'', JStr (pc_after c))]"

definition plan_material :: "string \<Rightarrow> translation_decision list \<Rightarrow> planned_change list \<Rightarrow> json" where
  "plan_material ivt decisions changes = JObj [(''schema_version'', JInt 1), (''inventory_id'', jstr ivt),
     (''decisions'', JArr (map local_decision_json (sort_key td_span decisions))),
     (''changes'', JArr (map planned_change_json changes))]"

definition decision_chars :: "translation_decision list \<Rightarrow> nat" where
  "decision_chars ds = sum_list (map (\<lambda>d. length (td_source d) + length (td_target d)) ds)"

definition build_translation_plan ::
  "unicode_tables \<Rightarrow> (string \<Rightarrow> nat list) \<Rightarrow> pytext \<Rightarrow> fingerprint \<Rightarrow> text_snapshot \<Rightarrow> string
    \<Rightarrow> translation_decision list \<Rightarrow> translation_plan res" where
  "build_translation_plan uc sha path fp sn expected decisions =
     (let current = inventory_identity sha path fp sn;
          by_id = map_of (map (\<lambda>d. (td_span d, d)) decisions) in
      if current \<noteq> expected then Inl (ValueError ''drawing_changed_after_review'')
      else if length (remdups (map td_span decisions)) \<noteq> length decisions then Inl (ValueError ''duplicate_decisions'')
      else if decision_chars decisions > 4 * max_total_chars then Inl (ValueError ''decision_payload_exceeds_limit'')
      else bindR (plan_records uc by_id (sn_records sn)) (\<lambda>(spans, changes, blockers).
        if list_ex (\<lambda>d. \<not> List.member spans (td_span d)) decisions then Inl (ValueError ''unknown_text_spans'')
        else (let all_blockers = sorted_set (sn_blockers sn @ blockers) in
          Inr \<lparr>tn_plan = ''sha256:'' @ digest sha (plan_material current decisions changes), tn_inventory = current,
            tn_drawing = path, tn_ready = (all_blockers = []), tn_reviewed = length decisions,
            tn_changed = length changes, tn_changes = changes, tn_blockers = all_blockers\<rparr>)))"

end
