(* ===== verification/Worker_Dispatch.thy ===== *)
theory Worker_Dispatch
  imports Remote_Protocol
begin

text \<open>
  WorkerDispatcher (src/cadplot\_mcp/worker\_dispatch.py): the workstation authorises a task,
  executes its one command against the local references and AutoCAD, turns every failure into an
  error result, and signs the result. The reference store, the AutoCAD backend and the file system
  are records of their methods; paths are text.
\<close>

section \<open>Local values\<close>

text \<open>What the backend's reports and plans hold: dicts of values of Python's own types.\<close>

datatype py_value =
    PNone
  | PBool bool
  | PInt int
  | PFloat py_float
  | PStr pytext
  | PList "py_value list"
  | PDict "(string \<times> py_value) list"
  | POther

definition get_item :: "(string \<times> py_value) list \<Rightarrow> string \<Rightarrow> py_value" where
  "get_item d key = (case map_of d key of None \<Rightarrow> PNone | Some v \<Rightarrow> v)"

definition dict_or_empty :: "py_value \<Rightarrow> (string \<times> py_value) list" where
  "dict_or_empty v = (case v of PDict d \<Rightarrow> d | _ \<Rightarrow> [])"

record local_project =
  lp_tenant :: string
  lp_device :: string
  lp_project :: string
  lp_alias :: string
  lp_root :: pytext

record local_drawing =
  ld_tenant :: string
  ld_device :: string
  ld_project :: string
  ld_alias :: string
  ld_drawing :: string
  ld_relative :: pytext
  ld_file :: pytext

record drawing_file =
  df_path :: pytext
  df_size :: int
  df_modified :: pytext

text \<open>A layout or page setup; a point has finite coordinates or None where one is not.\<close>

record local_layout =
  ll_name :: pytext
  ll_model :: bool
  ll_plotter :: "pytext option"
  ll_media :: "pytext option"
  ll_style :: "pytext option"

record frame_candidate =
  fc_handle :: pytext
  fc_layer :: pytext
  fc_label :: pytext
  fc_min :: "py_float option \<times> py_float option \<times> py_float option"
  fc_max :: "py_float option \<times> py_float option \<times> py_float option"
  fc_confidence :: "py_float option"

record drawing_inspection =
  di_layouts :: "local_layout list"
  di_setups :: "local_layout list"
  di_frames :: "frame_candidate list"
  di_warnings :: "pytext list"

section \<open>The parts a dispatcher is built from\<close>

record 's local_references =
  lr_resolve_drawing :: "string \<Rightarrow> string \<Rightarrow> string \<Rightarrow> ('s, local_drawing) py"
  lr_resolve_project :: "string \<Rightarrow> string \<Rightarrow> string \<Rightarrow> ('s, local_project) py"
  lr_list_projects :: "string \<Rightarrow> string \<Rightarrow> ('s, local_project list) py"
  lr_get_or_register :: "string \<Rightarrow> string \<Rightarrow> string \<Rightarrow> pytext \<Rightarrow> ('s, local_drawing) py"

record 's local_backend =
  lb_environment :: "('s, (string \<times> py_value) list) py"
  lb_scan :: "pytext \<Rightarrow> bool \<Rightarrow> int \<Rightarrow> ('s, drawing_file list) py"
  lb_inspect :: "pytext \<Rightarrow> ('s, drawing_inspection) py"
  lb_plan :: "pytext \<Rightarrow> ('s, (string \<times> py_value) list) py"

text \<open>
  wd\_locate path root is Path(path).resolve(strict=True), its name and its text relative to root;
  wd\_from\_iso is datetime.fromisoformat, wd\_alpha str.isalpha of a character, wd\_float what a
  pydantic float field makes of a value, wd\_catalog\_bytes the canonical JSON of the summaries.
\<close>

record 's worker_dispatcher =
  wd_tenant :: string
  wd_user :: string
  wd_device :: string
  wd_policy :: int
  wd_references :: "'s local_references"
  wd_backend :: "'s local_backend"
  wd_translation :: "(instant task_envelope \<Rightarrow> local_drawing \<Rightarrow> ('s, worker_result) py) option"
  wd_locate :: "pytext \<Rightarrow> pytext \<Rightarrow> ('s, pytext \<times> pytext) py"
  wd_from_iso :: "pytext \<Rightarrow> wire_time res"
  wd_alpha :: "nat \<Rightarrow> bool"
  wd_float :: "py_value \<Rightarrow> py_float res"
  wd_sha256 :: "nat list \<Rightarrow> nat list"
  wd_catalog_bytes :: "drawing_summary list \<Rightarrow> nat list"
  wd_stamp :: "instant \<Rightarrow> string"
  wd_result_bytes :: "instant result_envelope \<Rightarrow> nat list"

section \<open>Display text\<close>

fun py_split :: "pytext \<Rightarrow> pytext \<Rightarrow> pytext list" where
  "py_split word [] = (if word = [] then [] else [rev word])"
| "py_split word (c # cs) =
     (if py_space c then (if word = [] then [] else [rev word]) @ py_split [] cs else py_split (c # word) cs)"

fun join_spaces :: "pytext list \<Rightarrow> pytext" where
  "join_spaces [] = []"
| "join_spaces [w] = w"
| "join_spaces (w # v # ws) = w @ [32] @ join_spaces (v # ws)"

text \<open>\_safe\_display of a text; of anything else it is the fallback.\<close>

definition displayed :: "'s worker_dispatcher \<Rightarrow> pytext \<Rightarrow> pytext \<Rightarrow> pytext" where
  "displayed wd value fallback = (let cleaned = join_spaces (py_split [] value) in
     if cleaned = [] \<or> length cleaned > 255 \<or> List.member cleaned 47 \<or> List.member cleaned 92
        \<or> List.member cleaned 0 \<or> (case cleaned of a # b # _ \<Rightarrow> wd_alpha wd a \<and> b = 58 | _ \<Rightarrow> False)
     then fallback else cleaned)"

definition displayed_value :: "'s worker_dispatcher \<Rightarrow> py_value \<Rightarrow> pytext \<Rightarrow> pytext" where
  "displayed_value wd value fallback = (case value of PStr t \<Rightarrow> displayed wd t fallback | _ \<Rightarrow> fallback)"

definition optional_display :: "'s worker_dispatcher \<Rightarrow> pytext option \<Rightarrow> pytext option" where
  "optional_display wd value = (case value of None \<Rightarrow> None
     | Some t \<Rightarrow> (let cleaned = displayed wd t [] in if cleaned = [] then None else Some cleaned))"

section \<open>Building results\<close>

definition wire_invalid :: exn where
  "wire_invalid = ValidationError ''wire_model''"

text \<open>The fields of identifiers and codes are ASCII text; any other text fails their patterns.\<close>

definition ascii_text :: "pytext \<Rightarrow> string res" where
  "ascii_text t = (if list_all (\<lambda>c. c < 128) t then Inr (map char_of t) else Inl wire_invalid)"

definition made :: "bool \<Rightarrow> 'a \<Rightarrow> 'a res" where
  "made ok v = (if ok then Inr v else Inl wire_invalid)"

definition make_result :: "worker_result \<Rightarrow> worker_result res" where
  "make_result r = made (valid_worker_result r) r"

fun gather :: "('a \<Rightarrow> ('s, 'b) py) \<Rightarrow> 'a list \<Rightarrow> ('s, 'b list) py" where
  "gather f [] = ret []"
| "gather f (x # xs) = bindS (f x) (\<lambda>y. bindS (gather f xs) (\<lambda>ys. ret (y # ys)))"

definition error_codes_of ::
  "(string \<times> py_value) list \<Rightarrow> (string \<times> py_value) list \<Rightarrow> (string \<times> py_value) list \<Rightarrow> string list" where
  "error_codes_of report autocad plugin =
     (let found = (if get_item autocad ''available'' \<noteq> PBool True then [''autocad_unavailable''] else [])
        @ (if get_item plugin ''connected'' \<noteq> PBool True then [''plugin_unavailable''] else [])
        @ (if get_item plugin ''inspection_identity_matched'' = PBool False then [''runtime_mismatch''] else []) in
      if get_item report ''ready'' \<noteq> PBool True \<and> found = [] then [''environment_not_ready''] else found)"

definition environment_report :: "(string \<times> py_value) list \<Rightarrow> worker_result res" where
  "environment_report report =
     (let autocad = dict_or_empty (get_item report ''autocad'');
          plugin = dict_or_empty (get_item report ''plugin'');
          status = dict_or_empty (get_item plugin ''status'') in
      bindR (case get_item status ''runtimeSeries'' of
               PStr t \<Rightarrow> bindR (ascii_text t) (\<lambda>s. Inr (Some s)) | _ \<Rightarrow> Inr None) (\<lambda>runtime.
      make_result (EnvironmentResult \<lparr>er_ready = (get_item report ''ready'' = PBool True),
        er_autocad = (get_item autocad ''available'' = PBool True),
        er_plugin = (get_item plugin ''connected'' = PBool True),
        er_publish = (get_item status ''publishEnabled'' = PBool True), er_runtime = runtime,
        er_identity = (get_item plugin ''inspection_identity_matched'' = PBool True),
        er_codes = error_codes_of report autocad plugin\<rparr>)))"

definition environment_result_of :: "'s worker_dispatcher \<Rightarrow> ('s, worker_result) py" where
  "environment_result_of wd = bindS (lb_environment (wd_backend wd)) (\<lambda>report. liftR (environment_report report))"

definition summary_of_project :: "local_project \<Rightarrow> project_summary res" where
  "summary_of_project p = (let s = \<lparr>psu_id = lp_project p, psu_alias = lp_alias p,
       psu_name = codes (lp_alias p), psu_enabled = True\<rparr> in made (valid_project_summary s) s)"

definition projects_result_of :: "'s worker_dispatcher \<Rightarrow> ('s, worker_result) py" where
  "projects_result_of wd =
     bindS (lr_list_projects (wd_references wd) (wd_tenant wd) (wd_device wd)) (\<lambda>projects.
     liftR (bindR (collect summary_of_project projects) (\<lambda>ps. make_result (ProjectsResult ps))))"

definition scanned_drawing ::
  "'s worker_dispatcher \<Rightarrow> local_project \<Rightarrow> drawing_file \<Rightarrow> ('s, drawing_summary) py" where
  "scanned_drawing wd project f =
     bindS (wd_locate wd (df_path f) (lp_root project)) (\<lambda>(relative, name).
     bindS (lr_get_or_register (wd_references wd) (wd_tenant wd) (wd_device wd) (lp_project project) relative) (\<lambda>reference.
     liftR (bindR (wd_from_iso wd (df_modified f)) (\<lambda>modified.
       bindR (catchR (require_utc modified) (\<lambda>_. Inl wire_invalid)) (\<lambda>t.
       let s = \<lparr>dsu_id = ld_drawing reference, dsu_name = displayed wd name (codes ''drawing.dwg''),
                dsu_size = df_size f, dsu_modified = t\<rparr> in
       made (valid_drawing_summary s) s)))))"

definition drawings_result_of ::
  "'s worker_dispatcher \<Rightarrow> string \<Rightarrow> bool \<Rightarrow> string option \<Rightarrow> int \<Rightarrow> ('s, worker_result) py" where
  "drawings_result_of wd project_id recursive cursor limit =
     (if cursor \<noteq> None then raise (ValueError ''cursor_not_enabled'')
      else bindS (lr_resolve_project (wd_references wd) (wd_tenant wd) (wd_device wd) project_id) (\<lambda>project.
        bindS (lb_scan (wd_backend wd) (lp_root project) recursive limit) (\<lambda>files.
        bindS (gather (scanned_drawing wd project) files) (\<lambda>summaries.
        liftR (make_result (DrawingsResult \<lparr>dr_project = lp_project project,
          dr_revision = hexdigest (wd_sha256 wd (wd_catalog_bytes wd summaries)),
          dr_drawings = summaries, dr_cursor = None\<rparr>))))))"

definition summary_of_layout :: "'s worker_dispatcher \<Rightarrow> string \<Rightarrow> local_layout \<Rightarrow> layout_summary res" where
  "summary_of_layout wd fallback l =
     (let s = \<lparr>ls_name = displayed wd (ll_name l) (codes fallback), ls_model = ll_model l,
        ls_plotter = optional_display wd (ll_plotter l), ls_media = optional_display wd (ll_media l),
        ls_style = optional_display wd (ll_style l)\<rparr> in
      made (valid_layout_summary s) s)"

definition finite_number :: "py_float option \<Rightarrow> py_float res" where
  "finite_number x = (case x of None \<Rightarrow> Inl wire_invalid | Some f \<Rightarrow> Inr f)"

definition finite_point ::
  "py_float option \<times> py_float option \<times> py_float option \<Rightarrow> (py_float \<times> py_float \<times> py_float) res" where
  "finite_point p = (case p of (x, y, z) \<Rightarrow>
     bindR (finite_number x) (\<lambda>a. bindR (finite_number y) (\<lambda>b. bindR (finite_number z) (\<lambda>c. Inr (a, b, c)))))"

definition summary_of_frame :: "'s worker_dispatcher \<Rightarrow> frame_candidate \<Rightarrow> frame_summary res" where
  "summary_of_frame wd f =
     bindR (ascii_text (fc_handle f)) (\<lambda>handle.
     bindR (finite_point (fc_min f)) (\<lambda>lower.
     bindR (finite_point (fc_max f)) (\<lambda>upper.
     bindR (finite_number (fc_confidence f)) (\<lambda>confidence.
     let s = \<lparr>fs_handle = handle, fs_layer = displayed wd (fc_layer f) (codes ''redacted_layer''),
        fs_label = displayed wd (fc_label f) (codes ''redacted_label''), fs_min = lower, fs_max = upper,
        fs_confidence = confidence\<rparr> in
     made (valid_frame_summary s) s))))"

definition inspection_report :: "'s worker_dispatcher \<Rightarrow> string \<Rightarrow> drawing_inspection \<Rightarrow> worker_result res" where
  "inspection_report wd drawing i =
     bindR (collect (summary_of_layout wd ''redacted_layout'') (di_layouts i)) (\<lambda>layouts.
     bindR (collect (summary_of_layout wd ''redacted_setup'') (di_setups i)) (\<lambda>setups.
     bindR (collect (summary_of_frame wd) (di_frames i)) (\<lambda>frames.
     make_result (InspectionResult \<lparr>ir_drawing = drawing, ir_layouts = layouts, ir_setups = setups,
       ir_frames = frames, ir_codes = (if di_warnings i \<noteq> [] then [''inspection_notice''] else [])\<rparr>))))"

definition inspection_result_of :: "'s worker_dispatcher \<Rightarrow> string \<Rightarrow> ('s, worker_result) py" where
  "inspection_result_of wd drawing_id =
     bindS (lr_resolve_drawing (wd_references wd) (wd_tenant wd) (wd_device wd) drawing_id) (\<lambda>reference.
     bindS (lb_inspect (wd_backend wd) (ld_file reference)) (\<lambda>inspection.
     liftR (inspection_report wd (ld_drawing reference) inspection)))"

section \<open>Plans\<close>

definition required_text :: "py_value \<Rightarrow> string res" where
  "required_text v = (case v of PStr t \<Rightarrow> ascii_text t | _ \<Rightarrow> Inl wire_invalid)"

definition optional_text :: "py_value \<Rightarrow> string option res" where
  "optional_text v = (if v = PNone then Inr None else bindR (required_text v) (\<lambda>s. Inr (Some s)))"

definition sheet_statuses :: "(string \<times> plan_sheet_status) list" where
  "sheet_statuses = [(''matched'', Matched), (''unmatched'', Unmatched),
     (''disallowed_frame_layer'', DisallowedFrameLayer), (''low_confidence'', LowConfidence),
     (''page_setup_mismatch'', PageSetupMismatch), (''template_layout_mismatch'', TemplateLayoutMismatch),
     (''template_asset_mismatch'', TemplateAssetMismatch), (''unsupported_scale'', UnsupportedScale),
     (''layout_conflict'', LayoutConflict)]"

definition sheet_status :: "py_value \<Rightarrow> plan_sheet_status res" where
  "sheet_status v = bindR (required_text v) (\<lambda>s. case map_of sheet_statuses s of
     None \<Rightarrow> Inl wire_invalid | Some st \<Rightarrow> Inr st)"

text \<open>f"CADPLOT\_{index:04d}".\<close>

definition default_layout :: "nat \<Rightarrow> pytext" where
  "default_layout index = codes (''CADPLOT_'' @ replicate (4 - length (dec_nat index)) CHR ''0'' @ dec_nat index)"

definition summary_of_sheet :: "'s worker_dispatcher \<Rightarrow> nat \<times> py_value \<Rightarrow> plan_sheet_summary res" where
  "summary_of_sheet wd = (\<lambda>(index, sheet). case sheet of
     PDict d \<Rightarrow>
       bindR (required_text (get_item d ''frame_handle'')) (\<lambda>handle.
       bindR (sheet_status (get_item d ''status'')) (\<lambda>status.
       bindR (optional_text (case get_item d ''profile'' of PDict p \<Rightarrow> get_item p ''id'' | _ \<Rightarrow> PNone)) (\<lambda>profile.
       bindR (case (case get_item d ''plot_geometry'' of PDict g \<Rightarrow> get_item g ''scale_denominator'' | _ \<Rightarrow> PNone) of
                PNone \<Rightarrow> Inr None
              | v \<Rightarrow> bindR (catchR (wd_float wd v) (\<lambda>_. Inl wire_invalid)) (\<lambda>x. Inr (Some x))) (\<lambda>scale.
       let s = \<lparr>sh_index = int index, sh_handle = handle,
          sh_label = displayed_value wd (get_item d ''label'') (codes ''redacted_label''), sh_status = status,
          sh_profile = profile, sh_target = displayed_value wd (get_item d ''target_layout'') (default_layout index),
          sh_scale = scale\<rparr> in
       made (valid_plan_sheet s) s))))
   | _ \<Rightarrow> Inl (ValueError ''plan_sheet_invalid''))"

definition plan_report :: "'s worker_dispatcher \<Rightarrow> string \<Rightarrow> (string \<times> py_value) list \<Rightarrow> worker_result res" where
  "plan_report wd drawing plan = (case get_item plan ''drawing_fingerprint'' of
     PDict fingerprint \<Rightarrow> (case get_item plan ''sheets'' of
       PList raw_sheets \<Rightarrow>
         bindR (collect (summary_of_sheet wd) (zip [1..<Suc (length raw_sheets)] raw_sheets)) (\<lambda>sheets.
         bindR (required_text (get_item plan ''plan_id'')) (\<lambda>plan_id.
         bindR (required_text (get_item fingerprint ''sha256'')) (\<lambda>sha256.
         make_result (PublishPlanResult \<lparr>pp_drawing = drawing, pp_plan = plan_id,
           pp_ready = (get_item plan ''ready'' = PBool True), pp_sha256 = sha256, pp_sheets = sheets,
           pp_codes = (case get_item plan ''warnings'' of
             PList ws \<Rightarrow> if ws \<noteq> [] then [''plan_notice''] else [] | _ \<Rightarrow> [])\<rparr>))))
     | _ \<Rightarrow> Inl (ValueError ''plan_sheets_unavailable''))
   | _ \<Rightarrow> Inl (ValueError ''plan_fingerprint_unavailable''))"

definition plan_result_of :: "'s worker_dispatcher \<Rightarrow> string \<Rightarrow> ('s, worker_result) py" where
  "plan_result_of wd drawing_id =
     bindS (lr_resolve_drawing (wd_references wd) (wd_tenant wd) (wd_device wd) drawing_id) (\<lambda>reference.
     bindS (lb_plan (wd_backend wd) (ld_file reference)) (\<lambda>plan.
     liftR (plan_report wd (ld_drawing reference) plan)))"

section \<open>Execution\<close>

definition error_of :: "task_command \<Rightarrow> string \<Rightarrow> bool \<Rightarrow> bool \<Rightarrow> worker_result res" where
  "error_of action code retryable attention = make_result (ErrorResult \<lparr>ee_action = action, ee_code = code,
     ee_retryable = retryable, ee_attention = attention\<rparr>)"

text \<open>The except clauses of \_execute\_authorized, in order.\<close>

definition failure_result :: "task_command \<Rightarrow> exn \<Rightarrow> worker_result res" where
  "failure_result action e = (case e of
     AttentionRequired c \<Rightarrow> error_of action ''translation_attention_required'' False True
   | LocalReferenceError c \<Rightarrow> error_of action ''drawing_not_found'' False False
   | AutoCADTimeout \<Rightarrow> error_of action ''operation_timeout'' True False
   | AutoCADUnavailable c \<Rightarrow> error_of action ''autocad_unavailable'' True False
   | FileNotFound c \<Rightarrow> error_of action ''drawing_not_found'' False False
   | AssertionError \<Rightarrow> error_of action ''worker_failure'' False True
   | DatabaseError c \<Rightarrow> error_of action ''worker_failure'' False True
   | IntegrityError c \<Rightarrow> error_of action ''worker_failure'' False True
   | OtherException c \<Rightarrow> error_of action ''worker_failure'' False True
   | _ \<Rightarrow> error_of action (if action = CmdCreatePublishPlan then ''plan_blocked'' else ''inspection_failed'') False False)"

definition run_command :: "'s worker_dispatcher \<Rightarrow> instant task_envelope \<Rightarrow> ('s, worker_result) py" where
  "run_command wd e = (case te_command e of
     TranslationCommand d req \<Rightarrow> (case wd_translation wd of
       None \<Rightarrow> liftR (error_of CmdTranslation ''translation_disabled'' False False)
     | Some translate \<Rightarrow>
         bindS (lr_resolve_drawing (wd_references wd) (wd_tenant wd) (wd_device wd) d) (\<lambda>reference.
         translate e reference))
   | ValidateEnvironmentCommand \<Rightarrow> environment_result_of wd
   | ListProjectsCommand \<Rightarrow> projects_result_of wd
   | ScanDrawingsCommand p recursive cursor limit \<Rightarrow> drawings_result_of wd p recursive cursor limit
   | InspectDrawingCommand d \<Rightarrow> inspection_result_of wd d
   | CreatePublishPlanCommand d \<Rightarrow> plan_result_of wd d)"

definition execute_authorized :: "'s worker_dispatcher \<Rightarrow> instant task_envelope \<Rightarrow> ('s, worker_result) py" where
  "execute_authorized wd e =
     catchS (run_command wd e) (\<lambda>x. liftR (failure_result (command_action (te_command e)) x))"

definition result_values ::
  "instant task_envelope \<Rightarrow> wire_time \<Rightarrow> worker_result \<Rightarrow> string \<Rightarrow> wire_time result_envelope" where
  "result_values e completed result signature =
     \<lparr>re_tenant = te_tenant e, re_user = te_user e, re_device = te_device e, re_task = te_task e,
      re_operation = te_operation e, re_command_id = te_command_id e, re_completed = completed,
      re_result = result, re_signature = signature\<rparr>"

text \<open>
  WorkerDispatcher.execute; on\_authorized is a callback, completion what reading the completion
  clock gives if there is one.
\<close>

definition dispatcher_execute ::
  "'s worker_dispatcher \<Rightarrow> instant task_envelope \<Rightarrow> wire_time \<Rightarrow> (nat list \<Rightarrow> string \<Rightarrow> bool res)
    \<Rightarrow> (string \<Rightarrow> ('s, bool) py) \<Rightarrow> (nat list \<Rightarrow> string res) \<Rightarrow> wire_time res option \<Rightarrow> ('s, unit) py
    \<Rightarrow> ('s, instant result_envelope) py" where
  "dispatcher_execute wd e now verify accept_nonce sign completion on_authorized =
     bindS (authorize_for_worker (wd_stamp wd) e (wd_tenant wd) (wd_user wd) (wd_device wd) (wd_policy wd) now
              verify accept_nonce) (\<lambda>_.
     bindS on_authorized (\<lambda>_.
     bindS (execute_authorized wd e) (\<lambda>result.
     bindS (liftR (case completion of None \<Rightarrow> Inr now | Some r \<Rightarrow> r)) (\<lambda>completed.
     bindS (liftR (worker_result_envelope (result_values e completed result (replicate 86 CHR ''A'')))) (\<lambda>unsigned.
     bindS (liftR (sign (wd_result_bytes wd unsigned))) (\<lambda>signature.
     liftR (worker_result_envelope (result_values e (OffsetTime 0 (re_completed unsigned)) result signature))))))))"

end
