(* ===== verification/Remote_Translation.thy ===== *)
theory Remote_Translation
  imports Translation_Text Worker_Dispatch
begin

text \<open>
  The workstation's translation backend: RemoteTranslationBackend
  (src/cadplot\_mcp/remote\_translation.py) with its SQLite tables of reviews, plans and writes, and
  apply\_translation (translation\_service.py), the copy-only writing of an approved plan. What the
  code does to files, AutoCAD and the database connection are the operations of a record.
\<close>

section \<open>The outside world\<close>

text \<open>
  A table row is committed or not at all: tw\_open is what may fail before a transaction (redirected
  path, locked database), tw\_commit what may fail at its end. Reading the configuration tells
  whether it has a workspace; tw\_helper runs the child process that edits the draft and reads it
  back.
\<close>

record translation_receipt =
  tc_plan :: string
  tc_source :: pytext
  tc_job :: string
  tc_changed :: nat
  tc_sha256 :: string

record 'w translation_world =
  tw_enabled :: "'w \<Rightarrow> bool"
  tw_load_config :: "('w, bool) py"
  tw_open :: "('w, unit) py"
  tw_commit :: "('w, unit) py"
  tw_scan :: "pytext \<Rightarrow> ('w, pytext \<times> fingerprint \<times> text_snapshot) py"
  tw_new_job :: "('w, string) py"
  tw_write_audit :: "string \<Rightarrow> translation_plan \<Rightarrow> fingerprint \<Rightarrow> translation_decision list \<Rightarrow> ('w, unit) py"
  tw_copy_draft :: "pytext \<Rightarrow> string \<Rightarrow> ('w, unit) py"
  tw_draft_fingerprint :: "string \<Rightarrow> ('w, fingerprint) py"
  tw_source_fingerprint :: "pytext \<Rightarrow> ('w, fingerprint) py"
  tw_helper :: "string \<Rightarrow> string \<Rightarrow> text_snapshot \<Rightarrow> planned_change list \<Rightarrow> ('w, text_snapshot) py"
  tw_release :: "string \<Rightarrow> ('w, fingerprint) py"
  tw_write_receipt :: "string \<Rightarrow> translation_receipt \<Rightarrow> ('w, unit) py"

text \<open>
  The backend with the tables it needs from Python: Unicode, SHA-256, and the lengths of two JSON
  texts.
\<close>

record 'w translation_backend =
  tb_world :: "'w translation_world"
  tb_projects :: "string list"
  tb_unicode :: unicode_tables
  tb_sha256 :: "string \<Rightarrow> nat list"
  tb_review_size :: "remote_decision list \<Rightarrow> nat"
  tb_response_size :: "string \<Rightarrow> translation_response \<Rightarrow> nat"

section \<open>Writing an approved plan\<close>

text \<open>The dict of the records by id, each with its last change, in the order of first insertion.\<close>

definition last_assoc :: "('k \<times> 'v) list \<Rightarrow> 'k \<Rightarrow> 'v option" where
  "last_assoc kvs = map_of (rev kvs)"

definition first_occurrences :: "'a list \<Rightarrow> 'a list" where
  "first_occurrences xs = rev (remdups (rev xs))"

definition desired_record :: "dwg_text list \<Rightarrow> planned_change list \<Rightarrow> pytext \<Rightarrow> dwg_text" where
  "desired_record records changes k =
     (let r = the (last_assoc (map (\<lambda>r. (tx_id r, r)) records) k) in
      case last_assoc (map (\<lambda>c. (pc_record c, pc_after c)) changes) k of
        None \<Rightarrow> r | Some t \<Rightarrow> r\<lparr>tx_raw := t\<rparr>)"

definition expected_after :: "text_snapshot \<Rightarrow> planned_change list \<Rightarrow> text_snapshot" where
  "expected_after sn changes = sn\<lparr>sn_records :=
     map (desired_record (sn_records sn) changes) (first_occurrences (map tx_id (sn_records sn)))\<rparr>"

text \<open>From the checked plan on: the job directory, the audit file, the draft, the verified copy.\<close>

definition write_verified_copy ::
  "'w translation_world \<Rightarrow> pytext \<Rightarrow> pytext \<Rightarrow> fingerprint \<Rightarrow> text_snapshot \<Rightarrow> translation_decision list
    \<Rightarrow> translation_plan \<Rightarrow> ('w, translation_receipt) py" where
  "write_verified_copy w path source before snapshot decisions plan =
     bindS (tw_new_job w) (\<lambda>job.
     bindS (tw_write_audit w job plan before decisions) (\<lambda>_.
     bindS (tw_copy_draft w source job) (\<lambda>_.
     bindS (tw_draft_fingerprint w job) (\<lambda>draft.
     bindS (if fp_sha256 draft \<noteq> fp_sha256 before then ret False
            else bindS (tw_source_fingerprint w path) (\<lambda>now. ret (now = before))) (\<lambda>copied.
     bindS (guardS copied (ValueError ''source_changed_while_copying'')) (\<lambda>_.
     bindS (tw_helper w job (fp_sha256 before) snapshot (tn_changes plan)) (\<lambda>after.
     bindS (if after \<noteq> expected_after snapshot (tn_changes plan) then ret False
            else bindS (tw_source_fingerprint w path) (\<lambda>now. ret (now = before))) (\<lambda>verified.
     bindS (guardS verified (ValueError ''translation_verification_failed'')) (\<lambda>_.
     bindS (tw_draft_fingerprint w job) (\<lambda>drafted.
     bindS (tw_release w job) (\<lambda>result.
     bindS (if fp_sha256 result \<noteq> fp_sha256 drafted then ret False
            else bindS (tw_source_fingerprint w path) (\<lambda>now. ret (now = before))) (\<lambda>released.
     bindS (guardS released (ValueError ''final_copy_verification_failed'')) (\<lambda>_.
     let receipt = \<lparr>tc_plan = tn_plan plan, tc_source = source, tc_job = job,
                    tc_changed = length (tn_changes plan), tc_sha256 = fp_sha256 result\<rparr> in
     bindS (tw_write_receipt w job receipt) (\<lambda>_. ret receipt))))))))))))))"

definition apply_translation ::
  "'w translation_backend \<Rightarrow> bool \<Rightarrow> pytext \<Rightarrow> string \<Rightarrow> translation_decision list \<Rightarrow> string
    \<Rightarrow> ('w, translation_receipt) py" where
  "apply_translation tb has_workspace path expected decisions approved = (\<lambda>x.
     (let w = tb_world tb in
      if \<not> tw_enabled w x then (Inl (ValueError ''translation_not_enabled''), x)
      else if \<not> has_workspace then (Inl (ValueError ''workspace_root_required''), x)
      else bindS (tw_scan w path) (\<lambda>(source, before, snapshot).
           bindS (liftR (build_translation_plan (tb_unicode tb) (tb_sha256 tb) source before snapshot expected decisions)) (\<lambda>plan.
           bindS (guardS (tn_plan plan = approved \<and> tn_ready plan) (ValueError ''exact_plan_approval_required'')) (\<lambda>_.
           bindS (guardS (tn_changes plan \<noteq> []) (ValueError ''no_requested_changes'')) (\<lambda>_.
           write_verified_copy w path source before snapshot decisions plan)))) x))"

section \<open>The tables\<close>

text \<open>
  A stored plan keeps the plan, the decisions it was made of and the review's id. A write without
  a receipt is an intent whose outcome is unknown.
\<close>

record stored_plan =
  sp_plan :: translation_plan
  sp_decisions :: "remote_decision list"
  sp_review :: string

record translation_tables =
  tt_reviews :: "(string \<times> string) \<Rightarrow> remote_decision list option"
  tt_plans :: "(string \<times> string) \<Rightarrow> stored_plan option"
  tt_writes :: "(string \<times> string) \<Rightarrow> apply_result option option"

type_synonym ('w, 'a) rt = "(translation_tables \<times> 'w, 'a) py"

definition on_world :: "('w, 'a) py \<Rightarrow> ('w, 'a) rt" where
  "on_world m = (\<lambda>(t, x). case m x of (r, x') \<Rightarrow> (r, (t, x')))"

text \<open>One with-block: its rows are kept only if it neither raises nor fails to commit.\<close>

definition transaction :: "'w translation_world \<Rightarrow> (translation_tables, 'a) py \<Rightarrow> ('w, 'a) rt" where
  "transaction w m = bindS (on_world (tw_open w)) (\<lambda>_. (\<lambda>(t, x).
     case m t of
       (Inl e, _) \<Rightarrow> (Inl e, (t, x))
     | (Inr v, t') \<Rightarrow> (case tw_commit w x of (Inl e, x') \<Rightarrow> (Inl e, (t, x')) | (Inr _, x') \<Rightarrow> (Inr v, (t', x')))))"

definition local_decision :: "remote_decision \<Rightarrow> translation_decision" where
  "local_decision d = \<lparr>td_span = codes (dec_span_id d), td_source = dec_source d,
     td_language = dec_source_language d, td_target = dec_target d\<rparr>"

definition local_decisions :: "remote_decision list \<Rightarrow> translation_decision list res" where
  "local_decisions ds = collect (\<lambda>d. made (valid_local_decision (local_decision d)) (local_decision d)) ds"

definition review_id :: "(string \<Rightarrow> nat list) \<Rightarrow> string \<Rightarrow> remote_decision list \<Rightarrow> string" where
  "review_id sha ivt ds = ''sha256:'' @ digest sha (JArr [jstr ivt, JArr (map (local_decision_json \<circ> local_decision) ds)])"

definition find_decision :: "remote_decision list \<Rightarrow> string \<Rightarrow> remote_decision option" where
  "find_decision ds k = last_assoc (map (\<lambda>d. (dec_span_id d, d)) ds) k"

text \<open>The dict of the decisions by span, updated and listed by span.\<close>

definition merge_decisions :: "remote_decision list \<Rightarrow> remote_decision list \<Rightarrow> remote_decision list" where
  "merge_decisions current ds =
     map (\<lambda>k. the (find_decision (current @ ds) k)) (sort_key codes (remdups (map dec_span_id (current @ ds))))"

definition exact_retry :: "remote_decision list \<Rightarrow> remote_decision list \<Rightarrow> bool" where
  "exact_retry current ds \<longleftrightarrow> list_all (\<lambda>d. find_decision current (dec_span_id d) = Some d) ds"

section \<open>Transactions\<close>

definition submit_rows ::
  "'w translation_backend \<Rightarrow> string \<Rightarrow> string \<Rightarrow> string option \<Rightarrow> remote_decision list
    \<Rightarrow> (translation_tables, remote_decision list) py" where
  "submit_rows tb scope ivt expected ds = (\<lambda>t.
     (let row = tt_reviews t (scope, ivt);
          current = (case row of None \<Rightarrow> [] | Some c \<Rightarrow> c);
          previous = map_option (review_id (tb_sha256 tb) ivt) row;
          updated = merge_decisions current ds in
      if expected \<noteq> previous \<and> \<not> exact_retry current ds
      then (Inl (ValueError ''translation_review_conflict''), t)
      else if length updated > 100000 \<or> tb_review_size tb updated > 8 * 1024 * 1024
      then (Inl (ValueError ''translation_review_too_large''), t)
      else (Inr updated, t\<lparr>tt_reviews := (tt_reviews t)((scope, ivt) \<mapsto> updated)\<rparr>)))"

definition review_row :: "string \<Rightarrow> string \<Rightarrow> (translation_tables, remote_decision list) py" where
  "review_row scope ivt = (\<lambda>t. (Inr (case tt_reviews t (scope, ivt) of None \<Rightarrow> [] | Some c \<Rightarrow> c), t))"

definition insert_plan :: "string \<Rightarrow> stored_plan \<Rightarrow> (translation_tables, unit) py" where
  "insert_plan scope sp = (\<lambda>t. (Inr (), case tt_plans t (scope, tn_plan (sp_plan sp)) of
     Some _ \<Rightarrow> t | None \<Rightarrow> t\<lparr>tt_plans := (tt_plans t)((scope, tn_plan (sp_plan sp)) \<mapsto> sp)\<rparr>))"

text \<open>
  The transaction before an application: the receipt of an earlier write, or the stored plan with
  the intent to write it now recorded.
\<close>

definition intend_write ::
  "string \<Rightarrow> string \<Rightarrow> string \<Rightarrow> string \<Rightarrow> (translation_tables, apply_result + stored_plan) py" where
  "intend_write scope ivt rvw plan = (\<lambda>t. case tt_plans t (scope, plan) of
     None \<Rightarrow> (Inl (ValueError ''translation_plan_missing''), t)
   | Some sp \<Rightarrow>
       if sp_review sp \<noteq> rvw \<or> tn_inventory (sp_plan sp) \<noteq> ivt
       then (Inl (ValueError ''translation_plan_mismatch''), t)
       else if \<not> tn_ready (sp_plan sp) \<or> tn_changes (sp_plan sp) = []
       then (Inl (ValueError ''translation_plan_blocked''), t)
       else (case tt_writes t (scope, plan) of
           Some None \<Rightarrow> (Inl (AttentionRequired ''translation_write_outcome_unknown''), t)
         | Some (Some receipt) \<Rightarrow> (Inr (Inl receipt), t)
         | None \<Rightarrow> (Inr (Inr sp), t\<lparr>tt_writes := (tt_writes t)((scope, plan) \<mapsto> None)\<rparr>)))"

definition keep_receipt :: "string \<Rightarrow> string \<Rightarrow> apply_result \<Rightarrow> (translation_tables, unit) py" where
  "keep_receipt scope plan r = (\<lambda>t. (Inr (), case tt_writes t (scope, plan) of
     None \<Rightarrow> t | Some _ \<Rightarrow> t\<lparr>tt_writes := (tt_writes t)((scope, plan) \<mapsto> Some r)\<rparr>))"

section \<open>Requests\<close>

definition redacted_display :: "pytext \<Rightarrow> pytext" where
  "redacted_display t =
     (if t = [] \<or> length t > 255 \<or> list_ex (\<lambda>c. c = 47 \<or> c = 92 \<or> c = 58) t \<or> list_ex (\<lambda>c. c < 32) t
      then codes ''redacted'' else t)"

definition blocker_prefixes :: "pytext list \<Rightarrow> string list res" where
  "blocker_prefixes blockers = collect ascii_text (sorted_set (map (takeWhile (\<lambda>c. c \<noteq> 58)) blockers))"

definition span_of :: "reviewed_span \<Rightarrow> text_span res" where
  "span_of s = bindR (ascii_text (rs_id s)) (\<lambda>k.
     let v = \<lparr>span_id = k, span_text = rs_text s, span_normalized = rs_normalized s\<rparr> in made (valid_span v) v)"

definition record_of :: "reviewed_text \<Rightarrow> text_record res" where
  "record_of r = (let tx = rt_record r in
     bindR (ascii_text (tx_id tx)) (\<lambda>k.
     bindR (ascii_text (tx_kind tx)) (\<lambda>kind.
     bindR (collect span_of (rt_spans r)) (\<lambda>spans.
     let v = \<lparr>rec_id = k, rec_kind = kind, rec_block = redacted_display (tx_block tx),
              rec_layer = redacted_display (tx_layer tx), rec_raw = tx_raw tx, rec_spans = spans,
              rec_writable = tx_writable tx\<rparr> in
     made (valid_text_record v) v))))"

definition change_of :: "planned_change \<Rightarrow> text_change res" where
  "change_of c = bindR (ascii_text (pc_record c)) (\<lambda>k.
     let v = \<lparr>chg_record_id = k, chg_before = pc_before c, chg_after = pc_after c\<rparr> in made (valid_change v) v)"

definition made_response :: "translation_response \<Rightarrow> translation_response res" where
  "made_response r = made (valid_response r) r"

definition scan_texts ::
  "'w translation_backend \<Rightarrow> pytext \<Rightarrow> string option \<Rightarrow> int \<Rightarrow> int \<Rightarrow> ('w, translation_response) rt" where
  "scan_texts tb source ivt off lim =
     bindS (on_world (tw_scan (tb_world tb) source)) (\<lambda>(name, fp, sn).
     liftR (bindR (inventory_page (tb_unicode tb) (tb_sha256 tb) name fp sn ivt off lim) (\<lambda>page.
       bindR (blocker_prefixes (iv_blockers page)) (\<lambda>prefixes.
       bindR (collect record_of (iv_records page)) (\<lambda>records.
       made_response (ScanResponse \<lparr>sr_inventory = iv_id page, sr_total_records = int (iv_total_records page),
         sr_total_review_spans = int (iv_total_spans page), sr_offset = iv_offset page,
         sr_next_offset = iv_next_offset page, sr_records = records,
         sr_blocker_count = int (length (iv_blockers page)), sr_blocker_codes = prefixes\<rparr>))))))"

definition submit_review ::
  "'w translation_backend \<Rightarrow> string \<Rightarrow> pytext \<Rightarrow> string \<Rightarrow> string option \<Rightarrow> remote_decision list
    \<Rightarrow> ('w, translation_response) rt" where
  "submit_review tb scope source ivt expected ds =
     bindS (on_world (tw_scan (tb_world tb) source)) (\<lambda>(name, fp, sn).
     bindS (liftR (bindR (local_decisions ds)
              (build_translation_plan (tb_unicode tb) (tb_sha256 tb) name fp sn ivt))) (\<lambda>_.
     bindS (transaction (tb_world tb) (submit_rows tb scope ivt expected ds)) (\<lambda>current.
     liftR (made_response (ReviewResponse \<lparr>rr_inventory = ivt,
       rr_review = review_id (tb_sha256 tb) ivt current, rr_reviewed_spans = int (length current)\<rparr>)))))"

definition plan_translation ::
  "'w translation_backend \<Rightarrow> string \<Rightarrow> pytext \<Rightarrow> string \<Rightarrow> string \<Rightarrow> int \<Rightarrow> int \<Rightarrow> ('w, translation_response) rt" where
  "plan_translation tb scope source ivt rvw off lim =
     bindS (transaction (tb_world tb) (review_row scope ivt)) (\<lambda>current.
     bindS (guardS (review_id (tb_sha256 tb) ivt current = rvw) (ValueError ''translation_review_changed'')) (\<lambda>_.
     bindS (liftR (local_decisions current)) (\<lambda>decisions.
     bindS (on_world (tw_scan (tb_world tb) source)) (\<lambda>(name, fp, sn).
     bindS (liftR (build_translation_plan (tb_unicode tb) (tb_sha256 tb) name fp sn ivt decisions)) (\<lambda>plan.
     bindS (guardS (off \<le> int (length (tn_changes plan))) (ValueError ''translation_page_invalid'')) (\<lambda>_.
     bindS (transaction (tb_world tb)
              (insert_plan scope \<lparr>sp_plan = plan, sp_decisions = current, sp_review = rvw\<rparr>)) (\<lambda>_.
     liftR (bindR (collect change_of (take (nat lim) (drop (nat off) (tn_changes plan)))) (\<lambda>changes.
       bindR (blocker_prefixes (tn_blockers plan)) (\<lambda>prefixes.
       made_response (PlanResponse \<lparr>pr_inventory = tn_inventory plan, pr_review = rvw, pr_plan = tn_plan plan,
         pr_ready = tn_ready plan, pr_changed_records = int (length (tn_changes plan)),
         pr_reviewed_spans = int (tn_reviewed plan), pr_offset = off,
         pr_next_offset = (if off + lim < int (length (tn_changes plan)) then Some (off + lim) else None),
         pr_changes = changes, pr_blocker_count = int (length (tn_blockers plan)),
         pr_blocker_codes = prefixes\<rparr>)))))))))))"

definition apply_result_of :: "string \<Rightarrow> string \<Rightarrow> translation_receipt \<Rightarrow> apply_result res" where
  "apply_result_of ivt rvw rc = (let r = \<lparr>ar_inventory = ivt, ar_review = rvw, ar_plan = tc_plan rc,
       ar_output_id = tc_job rc, ar_output_sha256 = tc_sha256 rc, ar_changed_records = int (tc_changed rc)\<rparr> in
     made (valid_response (ApplyResponse r)) r)"

text \<open>The write itself and the keeping of its receipt: any failure asks for attention.\<close>

definition write_once ::
  "'w translation_backend \<Rightarrow> bool \<Rightarrow> string \<Rightarrow> pytext \<Rightarrow> string \<Rightarrow> string \<Rightarrow> string \<Rightarrow> stored_plan
    \<Rightarrow> ('w, apply_result) rt" where
  "write_once tb has_workspace scope source ivt rvw plan sp =
     catchS
       (bindS (liftR (local_decisions (sp_decisions sp))) (\<lambda>decisions.
        bindS (on_world (apply_translation tb has_workspace source ivt decisions plan)) (\<lambda>receipt.
        bindS (liftR (apply_result_of ivt rvw receipt)) (\<lambda>r.
        bindS (transaction (tb_world tb) (keep_receipt scope plan r)) (\<lambda>_. ret r)))))
       (\<lambda>_. raise (AttentionRequired ''translation_write_needs_local_review''))"

definition translation_result :: "string \<Rightarrow> translation_response \<Rightarrow> worker_result res" where
  "translation_result drawing r = made (valid_worker_result (TranslationResult drawing r)) (TranslationResult drawing r)"

definition sized_result :: "'w translation_backend \<Rightarrow> string \<Rightarrow> translation_response \<Rightarrow> worker_result res" where
  "sized_result tb drawing r = bindR (translation_result drawing r) (\<lambda>v.
     if tb_response_size tb drawing r > 512 * 1024 then Inl (ValueError ''translation_page_too_large_reduce_limit'')
     else Inr v)"

definition scope_of :: "(string \<Rightarrow> nat list) \<Rightarrow> instant task_envelope \<Rightarrow> string \<Rightarrow> string" where
  "scope_of sha e drawing = digest sha (JArr [jstr (te_tenant e), jstr (te_user e), jstr (te_device e),
     JInt (te_policy e), jstr drawing])"

definition run_request ::
  "'w translation_backend \<Rightarrow> bool \<Rightarrow> string \<Rightarrow> local_drawing \<Rightarrow> translation_request \<Rightarrow> ('w, worker_result) rt" where
  "run_request tb has_workspace scope reference req =
     (let source = ld_file reference; drawing = ld_drawing reference in case req of
       ScanTexts ivt off lim \<Rightarrow> bindS (scan_texts tb source ivt off lim) (\<lambda>r. liftR (sized_result tb drawing r))
     | SubmitReview ivt expected ds \<Rightarrow>
         bindS (submit_review tb scope source ivt expected ds) (\<lambda>r. liftR (sized_result tb drawing r))
     | PlanTranslation ivt rvw off lim \<Rightarrow>
         bindS (plan_translation tb scope source ivt rvw off lim) (\<lambda>r. liftR (sized_result tb drawing r))
     | ApplyTranslation ivt rvw plan oper \<Rightarrow>
         bindS (transaction (tb_world tb) (intend_write scope ivt rvw plan)) (\<lambda>found. case found of
           Inl receipt \<Rightarrow> liftR (translation_result drawing (ApplyResponse receipt))
         | Inr sp \<Rightarrow> bindS (write_once tb has_workspace scope source ivt rvw plan sp) (\<lambda>r.
             liftR (sized_result tb drawing (ApplyResponse r)))))"

definition remote_execute ::
  "'w translation_backend \<Rightarrow> instant task_envelope \<Rightarrow> local_drawing \<Rightarrow> ('w, worker_result) rt" where
  "remote_execute tb e reference = (\<lambda>(t, x).
     if \<not> tw_enabled (tb_world tb) x \<or> \<not> List.member (tb_projects tb) (ld_project reference)
     then (Inl (ValueError ''translation_project_not_authorized''), (t, x))
     else bindS (on_world (tw_load_config (tb_world tb))) (\<lambda>has_workspace.
       case te_command e of
         TranslationCommand d req \<Rightarrow>
           run_request tb has_workspace (scope_of (tb_sha256 tb) e (ld_drawing reference)) reference req
       | _ \<Rightarrow> raise (OtherException ''AttributeError'')) (t, x))"

end
