(* ===== verification/Translation_Properties.thy ===== *)
theory Translation_Properties
  imports Translation_Text
begin

text \<open>
  What the translation planner guarantees: cutting loses nothing, a plan replaces reviewed Turkish
  pieces only, and a ready plan is a complete review.
\<close>

section \<open>Pieces\<close>

definition separated :: "(bool \<times> pytext) list \<Rightarrow> bool" where
  "separated ps \<longleftrightarrow> successively (\<lambda>p q. \<not> (fst p \<and> fst q)) ps \<and> (\<forall>p\<in>set ps. snd p \<noteq> [])"

lemma add_piece_concat: "concat (map snd (add_piece ps editable piece)) = concat (map snd ps) @ piece"
proof (cases ps rule: rev_cases)
  case (snoc qs q)
  then show ?thesis by (simp add: add_piece_def)
qed (simp add: add_piece_def)

lemma add_piece_separated:
  assumes "separated ps" and "piece \<noteq> []"
  shows "separated (add_piece ps editable piece)"
proof (cases ps rule: rev_cases)
  case Nil
  with assms(2) show ?thesis by (simp add: add_piece_def separated_def)
next
  case (snoc qs q)
  with assms show ?thesis
    by (cases "fst q"; cases "qs = []") (auto simp add: add_piece_def separated_def successively_append_iff)
qed

lemma parts_loop_ok:
  "parts_loop uc ps rest = Inr qs \<Longrightarrow> separated ps \<Longrightarrow>
     separated qs \<and> concat (map snd qs) = concat (map snd ps) @ rest"
proof (induction uc ps rest rule: parts_loop.induct)
  case (1 uc ps rest)
  show ?case
  proof (cases "rest = []")
    case True
    with 1(2,3) show ?thesis by (simp add: parts_loop.simps)
  next
    case False
    with 1(2) obtain e n where n: "next_piece uc rest = Inr (e, n)" "parts_loop uc (add_piece ps e (take n rest)) (drop n rest) = Inr qs"
      by (subst (asm) parts_loop.simps) (auto split: sum.splits)
    from next_piece_bounds[OF n(1) False] False have "take n rest \<noteq> []" by auto
    from 1(1)[OF False n(1) refl n(2) add_piece_separated[OF 1(3) this]] show ?thesis by (simp add: add_piece_concat)
  qed
qed

lemma parts_ok: "parts uc raw = Inr ps \<Longrightarrow> separated ps \<and> concat (map snd ps) = raw"
  unfolding parts_def by (drule parts_loop_ok) (simp_all add: separated_def)

lemma pieces_bound: "(\<forall>p\<in>set ps. snd p \<noteq> []) \<Longrightarrow> length ps \<le> length (concat (map snd ps))"
  by (induction ps) (auto simp add: Suc_le_eq length_greater_0_conv[symmetric] simp del: length_greater_0_conv)

text \<open>
  C38: The pieces a text is cut into spell exactly the text, none is empty, and no
  two neighbours are both editable, so every character is either protected or offered for review
  once. That parts answers on every text is its termination proof.
\<close>

theorem parts_are_lossless:
  assumes "parts uc raw = Inr ps"
  shows "concat (map snd ps) = raw \<and> (\<forall>p\<in>set ps. snd p \<noteq> [])
    \<and> successively (\<lambda>p q. \<not> (fst p \<and> fst q)) ps \<and> length ps \<le> length raw"
  using parts_ok[OF assms] pieces_bound[of ps] by (auto simp add: separated_def)

definition ascii_tables :: unicode_tables where
  "ascii_tables = \<lparr>uc_alpha = ascii_letter, uc_numeric = (\<lambda>c. 48 \<le> c \<and> c \<le> 57),
     uc_digit = (\<lambda>c. 48 \<le> c \<and> c \<le> 57), uc_casefold = map ascii_lower\<rparr>"

lemmas piece_simps = parts_def parts_loop.simps next_piece_def protected_length_def control_length_def percent_length_def
  number_length_def unsigned_length_def digits_length_def lone_protected_def symbol_char_def List.member_iff ascii_letter_def
  ascii_tables_def add_piece_def codes_def Let_def

lemma sample_parts:
  "parts ascii_tables (codes ''KAPI5'') = Inr [(True, codes ''KAPI''), (False, codes ''5'')]"
  "parts ascii_tables (codes ''DOOR-5'') = Inr [(True, codes ''DOOR''), (False, codes ''-5'')]"
  "parts ascii_tables (codes ''DOOR-'') = Inr [(True, codes ''DOOR-'')]"
  by (simp_all add: piece_simps)

theorem parts_are_lossless_witness:
  "concat (map snd [(True, codes ''KAPI''), (False, codes ''5'')]) = codes ''KAPI5''"
  using parts_are_lossless[OF sample_parts(1)] by blast

section \<open>What a plan may change\<close>

lemma plan_pieces_nth:
  assumes "plan_pieces uc by_id k ps = Inr (outs, spans, blockers)"
  shows "length outs = length ps \<and> (\<forall>i<length ps. \<exists>sp bl. plan_piece uc by_id k (ps ! i) = Inr (outs ! i, sp, bl)
     \<and> set bl \<subseteq> set blockers)"
  using assms
proof (induction ps arbitrary: outs spans blockers)
  case (Cons p ps)
  then obtain out sp bl outs' spans' blockers' where p: "plan_piece uc by_id k p = Inr (out, sp, bl)"
    "plan_pieces uc by_id k ps = Inr (outs', spans', blockers')" "outs = out # outs'" "blockers = bl @ blockers'"
    by auto
  show ?case
  proof (intro conjI allI impI)
    show "length outs = length (p # ps)" using Cons.IH[OF p(2)] p(3) by simp
    fix i assume i: "i < length (p # ps)"
    show "\<exists>sp bl. plan_piece uc by_id k ((p # ps) ! i) = Inr (outs ! i, sp, bl) \<and> set bl \<subseteq> set blockers"
    proof (cases i)
      case 0
      with p show ?thesis by auto
    next
      case (Suc j)
      with i Cons.IH[OF p(2)] obtain sp' bl' where "plan_piece uc by_id k (ps ! j) = Inr (outs' ! j, sp', bl')"
        "set bl' \<subseteq> set blockers'" by auto
      with Suc p(3,4) show ?thesis by auto
    qed
  qed
qed simp

definition harmless_target :: "unicode_tables \<Rightarrow> pytext \<Rightarrow> pytext \<Rightarrow> bool" where
  "harmless_target uc text target \<longleftrightarrow> (\<exists>ps. parts uc target = Inr ps \<and> list_all fst ps)
     \<and> 37 \<notin> set target \<and> 92 \<notin> set target \<and> \<not> list_ex (uc_numeric uc) target \<and> list_ex (uc_alpha uc) target
     \<and> list_all (\<lambda>c. 32 \<le> c \<and> c \<noteq> 127) target \<and> whitespace_edges text = whitespace_edges target"

lemma check_target_ok: "check_target uc text target = Inr () \<longleftrightarrow> harmless_target uc text target"
  by (auto simp add: check_target_def harmless_target_def List.member_iff list_ex_iff list_all_iff split: if_splits) 

definition reviewed_by :: "dwg_text \<Rightarrow> nat \<Rightarrow> pytext \<Rightarrow> translation_decision \<Rightarrow> bool" where
  "reviewed_by r i piece d \<longleftrightarrow> td_span d = span_name (tx_id r) i \<and> td_source d = decoded piece"

lemma by_id_some: "map_of (map (\<lambda>d. (td_span d, d)) ds) k = Some d \<Longrightarrow> d \<in> set ds \<and> td_span d = k"
  by (auto dest: map_of_SomeD)

lemma plan_piece_cases:
  assumes "plan_piece uc (map_of (map (\<lambda>d. (td_span d, d)) ds)) (tx_id r) (i, piece) = Inr (out, sp, bl)"
  shows "(out = snd piece \<or> (fst piece \<and> (\<exists>d\<in>set ds. reviewed_by r i (snd piece) d \<and> td_language d = LangTr
      \<and> out = td_target d \<and> harmless_target uc (td_source d) (td_target d))))
    \<and> (bl = [] \<longrightarrow> reviewable uc piece \<longrightarrow> (\<exists>d\<in>set ds. reviewed_by r i (snd piece) d \<and> td_language d \<noteq> LangUncertain
      \<and> (td_language d = LangTr \<longleftrightarrow> td_target d \<noteq> td_source d)))"
proof (cases "reviewable uc piece")
  case False
  with assms show ?thesis by (cases piece) (simp add: plan_piece_def Let_def)
next
  case True
  then have e: "fst piece" by (simp add: reviewable_def)
  show ?thesis
  proof (cases "map_of (map (\<lambda>d. (td_span d, d)) ds) (span_name (tx_id r) i)")
    case None
    with assms True show ?thesis by (cases piece) (auto simp add: plan_piece_def Let_def)
  next
    case (Some d)
    note d = by_id_some[OF Some]
    from assms True Some have "reviewed_by r i (snd piece) d"
      by (cases piece) (auto simp add: plan_piece_def Let_def reviewed_by_def d split: if_splits)
    with assms True Some d e show ?thesis
      by (cases piece; cases "td_language d")
        (auto simp add: plan_piece_def Let_def reviewed_by_def check_target_ok split: if_splits)
  qed
qed

lemma plan_record_ok:
  assumes "plan_record uc (map_of (map (\<lambda>d. (td_span d, d)) ds)) r = Inr (spans, changes, blockers)"
  shows "(\<forall>ch\<in>set changes. pc_record ch = tx_id r \<and> pc_before ch = tx_raw r \<and> pc_after ch \<noteq> tx_raw r
      \<and> length (pc_after ch) \<le> max_text_chars
      \<and> (\<exists>ps outs. parts uc (tx_raw r) = Inr ps \<and> length outs = length ps \<and> pc_after ch = concat outs
         \<and> (\<forall>i<length ps. outs ! i = snd (ps ! i) \<or> (fst (ps ! i) \<and> (\<exists>d\<in>set ds. reviewed_by r i (snd (ps ! i)) d
             \<and> td_language d = LangTr \<and> outs ! i = td_target d \<and> harmless_target uc (td_source d) (td_target d))))))
    \<and> (blockers = [] \<longrightarrow> (changes \<noteq> [] \<longrightarrow> tx_writable r)
       \<and> (\<exists>ps. parts uc (tx_raw r) = Inr ps \<and> (\<forall>i<length ps. reviewable uc (ps ! i) \<longrightarrow>
            (\<exists>d\<in>set ds. reviewed_by r i (snd (ps ! i)) d \<and> td_language d \<noteq> LangUncertain
              \<and> (td_language d = LangTr \<longleftrightarrow> td_target d \<noteq> td_source d)))))"
proof (cases "parts uc (tx_raw r)")
  case (Inl e)
  with assms show ?thesis by (auto simp add: plan_record_def)
next
  case (Inr ps)
  with assms obtain outs bl where o: "plan_pieces uc (map_of (map (\<lambda>d. (td_span d, d)) ds)) (tx_id r) (enumerate 0 ps) = Inr (outs, spans, bl)"
    "length (concat outs) \<le> max_text_chars"
    "changes = (if concat outs = tx_raw r then [] else [\<lparr>pc_record = tx_id r, pc_before = tx_raw r, pc_after = concat outs\<rparr>])"
    "blockers = bl @ (if concat outs = tx_raw r \<or> tx_writable r then [] else [not_writable r])"
    by (auto simp add: plan_record_def Let_def not_less split: if_splits)
  from plan_pieces_nth[OF o(1)] have n: "length outs = length ps"
    "\<And>i. i < length ps \<Longrightarrow> \<exists>sp b. plan_piece uc (map_of (map (\<lambda>d. (td_span d, d)) ds)) (tx_id r) (i, ps ! i) = Inr (outs ! i, sp, b) \<and> set b \<subseteq> set bl"
    by (simp_all add: nth_enumerate_eq)
  have a: "outs ! i = snd (ps ! i) \<or> (fst (ps ! i) \<and> (\<exists>d\<in>set ds. reviewed_by r i (snd (ps ! i)) d
             \<and> td_language d = LangTr \<and> outs ! i = td_target d \<and> harmless_target uc (td_source d) (td_target d)))"
    and b: "bl = [] \<Longrightarrow> reviewable uc (ps ! i) \<Longrightarrow> \<exists>d\<in>set ds. reviewed_by r i (snd (ps ! i)) d \<and> td_language d \<noteq> LangUncertain
              \<and> (td_language d = LangTr \<longleftrightarrow> td_target d \<noteq> td_source d)" if "i < length ps" for i
  proof -
    from n(2)[OF that] obtain sp b where p: "plan_piece uc (map_of (map (\<lambda>d. (td_span d, d)) ds)) (tx_id r) (i, ps ! i) = Inr (outs ! i, sp, b)"
      "set b \<subseteq> set bl" by blast
    note c = plan_piece_cases[OF p(1)]
    from c show "outs ! i = snd (ps ! i) \<or> (fst (ps ! i) \<and> (\<exists>d\<in>set ds. reviewed_by r i (snd (ps ! i)) d
             \<and> td_language d = LangTr \<and> outs ! i = td_target d \<and> harmless_target uc (td_source d) (td_target d)))" by blast
    show "bl = [] \<Longrightarrow> reviewable uc (ps ! i) \<Longrightarrow> \<exists>d\<in>set ds. reviewed_by r i (snd (ps ! i)) d \<and> td_language d \<noteq> LangUncertain
              \<and> (td_language d = LangTr \<longleftrightarrow> td_target d \<noteq> td_source d)" using c p(2) by auto
  qed
  from o(2-4) Inr n(1) a b show ?thesis by auto
qed

lemma plan_records_ok:
  assumes "plan_records uc by_id rs = Inr (spans, changes, blockers)"
  shows "(\<forall>ch\<in>set changes. \<exists>r\<in>set rs. \<exists>sp cs bl. plan_record uc by_id r = Inr (sp, cs, bl) \<and> ch \<in> set cs \<and> set bl \<subseteq> set blockers)
    \<and> (\<forall>r\<in>set rs. \<exists>sp cs bl. plan_record uc by_id r = Inr (sp, cs, bl) \<and> set cs \<subseteq> set changes \<and> set bl \<subseteq> set blockers)"
  using assms
proof (induction rs arbitrary: spans changes blockers)
  case (Cons r rs)
  then obtain sp cs bl sp' cs' bl' where p: "plan_record uc by_id r = Inr (sp, cs, bl)"
    "plan_records uc by_id rs = Inr (sp', cs', bl')" "changes = cs @ cs'" "blockers = bl @ bl'"
    by auto
  from Cons.IH[OF p(2)] p(1,3,4) show ?case by (simp add: ball_Un) (meson subset_iff Un_iff)
qed simp

lemma sorted_set_empty: "sorted_set xs = [] \<longleftrightarrow> xs = []"
  by (simp add: sorted_set_def) (metis set_empty set_sort remdups_eq_nil_iff)

lemma plan_ok:
  assumes "build_translation_plan uc sha path fp sn expected ds = Inr plan"
  shows "\<exists>spans blockers. plan_records uc (map_of (map (\<lambda>d. (td_span d, d)) ds)) (sn_records sn) = Inr (spans, tn_changes plan, blockers)
    \<and> inventory_identity sha path fp sn = expected \<and> distinct (map td_span ds)
    \<and> (\<forall>d\<in>set ds. td_span d \<in> set spans)
    \<and> (tn_ready plan \<longleftrightarrow> sn_blockers sn = [] \<and> blockers = [])"
proof -
  have dd: "length (remdups (map td_span ds)) = length ds \<longleftrightarrow> distinct (map td_span ds)"
    using distinct_length_set[of "map td_span ds"] by auto
  from assms show ?thesis
    by (auto simp add: build_translation_plan_def Let_def dd sorted_set_empty list_ex_iff List.member_iff split: if_splits)
qed

text \<open>
  C29: Every change of a plan is the text of a record of the drawing with
  some pieces replaced: a piece differs from the original only if it is editable and a decision for
  exactly that piece, quoting its decoded text and marking it Turkish, gives the replacement; and
  the replacement holds no AutoCAD control, field, percent sign, backslash, number or control
  character, is alphabetic, and keeps the white space at its edges. The result is within the
  length limit.
\<close>

theorem plan_keeps_protected_text:
  assumes plan: "build_translation_plan uc sha path fp sn expected ds = Inr plan" and ch: "ch \<in> set (tn_changes plan)"
  shows "\<exists>r\<in>set (sn_records sn). pc_record ch = tx_id r \<and> pc_before ch = tx_raw r \<and> pc_after ch \<noteq> tx_raw r
    \<and> length (pc_after ch) \<le> max_text_chars
    \<and> (\<exists>ps outs. parts uc (tx_raw r) = Inr ps \<and> length outs = length ps \<and> pc_after ch = concat outs
       \<and> (\<forall>i<length ps. outs ! i = snd (ps ! i) \<or> (fst (ps ! i) \<and> (\<exists>d\<in>set ds. reviewed_by r i (snd (ps ! i)) d
           \<and> td_language d = LangTr \<and> outs ! i = td_target d \<and> harmless_target uc (td_source d) (td_target d)))))"
proof -
  let ?m = "map_of (map (\<lambda>d. (td_span d, d)) ds)"
  from plan_ok[OF plan] obtain spans blockers where p: "plan_records uc ?m (sn_records sn) = Inr (spans, tn_changes plan, blockers)" by blast
  from plan_records_ok[OF p] ch obtain r sp cs bl where r: "r \<in> set (sn_records sn)" "plan_record uc ?m r = Inr (sp, cs, bl)" "ch \<in> set cs"
    by blast
  from plan_record_ok[OF r(2)] r(3) r(1) show ?thesis by blast
qed

text \<open>
  A plan is ready only if the drawing had no blocker of its own, every
  text could be cut into pieces, every piece with a letter was reviewed by a decision quoting it,
  none of them uncertain, the Turkish ones and only those changed, and every changed record is
  writable; and no decision is about a piece the drawing does not have.
\<close>

theorem ready_plan_is_complete:
  assumes plan: "build_translation_plan uc sha path fp sn expected ds = Inr plan" and ready: "tn_ready plan"
  shows "sn_blockers sn = [] \<and> inventory_identity sha path fp sn = expected
    \<and> (\<forall>r\<in>set (sn_records sn). \<exists>ps. parts uc (tx_raw r) = Inr ps \<and> (\<forall>i<length ps. reviewable uc (ps ! i) \<longrightarrow>
         (\<exists>d\<in>set ds. reviewed_by r i (snd (ps ! i)) d \<and> td_language d \<noteq> LangUncertain
           \<and> (td_language d = LangTr \<longleftrightarrow> td_target d \<noteq> td_source d))))
    \<and> (\<forall>ch\<in>set (tn_changes plan). \<exists>r\<in>set (sn_records sn). pc_record ch = tx_id r \<and> tx_writable r)"
proof -
  let ?m = "map_of (map (\<lambda>d. (td_span d, d)) ds)"
  from plan_ok[OF plan] ready obtain spans where p: "plan_records uc ?m (sn_records sn) = Inr (spans, tn_changes plan, [])"
    "sn_blockers sn = []" "inventory_identity sha path fp sn = expected" by blast
  note q = plan_records_ok[OF p(1)]
  have "\<exists>ps. parts uc (tx_raw r) = Inr ps \<and> (\<forall>i<length ps. reviewable uc (ps ! i) \<longrightarrow>
         (\<exists>d\<in>set ds. reviewed_by r i (snd (ps ! i)) d \<and> td_language d \<noteq> LangUncertain
           \<and> (td_language d = LangTr \<longleftrightarrow> td_target d \<noteq> td_source d)))" if "r \<in> set (sn_records sn)" for r
  proof -
    from q that obtain sp cs where "plan_record uc ?m r = Inr (sp, cs, [])" by fastforce
    from plan_record_ok[OF this] show ?thesis by blast
  qed
  moreover have "\<exists>r\<in>set (sn_records sn). pc_record ch = tx_id r \<and> tx_writable r" if "ch \<in> set (tn_changes plan)" for ch
  proof -
    from q that obtain r sp cs where r: "r \<in> set (sn_records sn)" "plan_record uc ?m r = Inr (sp, cs, [])" "ch \<in> set cs" by fastforce
    then have "cs \<noteq> []" by auto
    with plan_record_ok[OF r(2)] r show ?thesis by blast
  qed
  ultimately show ?thesis using p(2,3) by blast
qed

section \<open>A drawing\<close>

definition sample_text :: dwg_text where
  "sample_text = \<lparr>tx_id = codes ''t1'', tx_handle = codes ''2F'', tx_kind = codes ''AcDbText'', tx_block = [], tx_layer = codes ''0'',
     tx_property = TextString, tx_row = -1, tx_column = -1, tx_raw = codes ''KAPI5'', tx_writable = True, tx_reason = None\<rparr>"

definition sample_snapshot :: text_snapshot where
  "sample_snapshot = \<lparr>sn_records = [sample_text], sn_blockers = [], sn_entity_count = 1, sn_structure = replicate 64 CHR ''0''\<rparr>"

definition sample_fingerprint :: fingerprint where
  "sample_fingerprint = \<lparr>fp_json = JObj [(''sha256'', jstr (replicate 64 CHR ''1''))], fp_sha256 = replicate 64 CHR ''1''\<rparr>"

definition door :: "pytext \<Rightarrow> translation_decision" where
  "door target = \<lparr>td_span = codes ''t1:0'', td_source = codes ''KAPI'', td_language = LangTr, td_target = target\<rparr>"

lemma decoded_plain: "92 \<notin> set t \<Longrightarrow> decoded t = t"
proof (induction t rule: decoded.induct)
  case (2 a rest)
  then have "unicode_escape (a # rest) = None" by (cases "a # rest" rule: unicode_escape.cases) auto
  with 2 show ?case by simp
qed simp

lemma plain_codes: "92 \<notin> set (codes s) \<longleftrightarrow> CHR 0x5C \<notin> set s"
proof -
  have "(92 :: nat) = of_char CHR 0x5C" by simp
  then show ?thesis unfolding codes_def by (metis (no_types, lifting) imageE image_eqI list.set_map of_char_eq_iff)
qed

lemma planned_sample:
  assumes "parts ascii_tables target = Inr [(True, target)]" and "target = codes ''DOOR'' \<or> target = codes ''DOOR-''"
  shows "\<exists>plan. build_translation_plan ascii_tables (\<lambda>_. replicate 32 7) (codes ''a.dwg'') sample_fingerprint sample_snapshot
      (inventory_identity (\<lambda>_. replicate 32 7) (codes ''a.dwg'') sample_fingerprint sample_snapshot) [door target] = Inr plan
    \<and> tn_ready plan \<and> tn_changes plan = [\<lparr>pc_record = codes ''t1'', pc_before = codes ''KAPI5'', pc_after = target @ codes ''5''\<rparr>]"
proof -
  have s: "span_name (codes ''t1'') 0 = codes ''t1:0''" by (simp add: span_name_def codes_def dec_nat.simps digit_char_def hex_digits_def)
  have d: "decoded (codes ''KAPI'') = codes ''KAPI''" "decoded (codes ''5'') = codes ''5''"
    by (rule decoded_plain; simp add: codes_def)+
  have t: "check_target ascii_tables (codes ''KAPI'') target = Inr ()"
    using assms by (auto simp add: check_target_def ascii_tables_def List.member_iff codes_def whitespace_edges_def py_space_def ascii_letter_def)
  have ne: "target \<noteq> codes ''KAPI''" using assms(2) by (auto simp add: codes_def)
  have rv: "reviewable ascii_tables (True, codes ''KAPI'')" "\<not> reviewable ascii_tables (False, codes ''5'')"
    by (simp_all add: reviewable_def d) (simp add: codes_def ascii_tables_def ascii_letter_def)
  let ?m = "map_of (map (\<lambda>d. (td_span d, d)) [door target])"
  have b: "?m (codes ''t1:0'') = Some (door target)" by (simp add: door_def)
  have ds: "td_source (door target) = codes ''KAPI''" "td_target (door target) = target" "td_language (door target) = LangTr"
    "td_span (door target) = codes ''t1:0''" by (simp_all add: door_def)
  have x: "tx_raw sample_text = codes ''KAPI5''" "tx_id sample_text = codes ''t1''" "tx_writable sample_text"
    by (simp_all add: sample_text_def)
  have p1: "plan_piece ascii_tables ?m (codes ''t1'') (0, True, codes ''KAPI'') = Inr (target, [codes ''t1:0''], [])"
    using rv(1) b t ne by (simp add: plan_piece_def Let_def s d ds)
  have p2: "plan_piece ascii_tables ?m (codes ''t1'') (Suc 0, False, codes ''5'') = Inr (codes ''5'', [], [])"
    using rv(2) by (simp add: plan_piece_def Let_def)
  have c: "target @ codes ''5'' \<noteq> codes ''KAPI5''" "length (target @ codes ''5'') \<le> max_text_chars" "length target \<le> 10"
    using assms(2) by (auto simp add: codes_def max_text_chars_def)
  have r: "plan_record ascii_tables ?m sample_text
      = Inr ([codes ''t1:0''], [\<lparr>pc_record = codes ''t1'', pc_before = codes ''KAPI5'', pc_after = target @ codes ''5''\<rparr>], [])"
    using p1 p2 c(1,2) by (simp add: plan_record_def x sample_parts(1) Let_def del: map_of.simps list.map)
  have l: "decision_chars [door target] \<le> 4 * max_total_chars"
    using c(3) by (simp add: decision_chars_def ds max_total_chars_def codes_def)
  have rs: "plan_records ascii_tables ?m (sn_records sample_snapshot)
      = Inr ([codes ''t1:0''], [\<lparr>pc_record = codes ''t1'', pc_before = codes ''KAPI5'', pc_after = target @ codes ''5''\<rparr>], [])"
    using r by (simp add: sample_snapshot_def del: map_of.simps list.map)
  have m1: "length (remdups (map td_span [door target])) = length [door target]" by simp
  have m2: "\<not> list_ex (\<lambda>d. \<not> List.member [codes ''t1:0''] (td_span d)) [door target]" by (simp add: ds List.member_iff)
  show ?thesis
    unfolding build_translation_plan_def Let_def rs using l m1 m2
    by (simp add: sample_snapshot_def sorted_set_def del: map_of.simps list.map)
qed

theorem plan_keeps_protected_text_witness:
  "\<exists>ps outs. parts ascii_tables (tx_raw sample_text) = Inr ps \<and> length outs = length ps \<and> concat outs = codes ''DOOR5''"
proof -
  have t: "parts ascii_tables (codes ''DOOR'') = Inr [(True, codes ''DOOR'')]" by (simp add: piece_simps)
  from planned_sample[OF t] obtain plan where p: "build_translation_plan ascii_tables (\<lambda>_. replicate 32 7) (codes ''a.dwg'') sample_fingerprint sample_snapshot
      (inventory_identity (\<lambda>_. replicate 32 7) (codes ''a.dwg'') sample_fingerprint sample_snapshot) [door (codes ''DOOR'')] = Inr plan"
    "\<lparr>pc_record = codes ''t1'', pc_before = codes ''KAPI5'', pc_after = codes ''DOOR'' @ codes ''5''\<rparr> \<in> set (tn_changes plan)" by auto
  from plan_keeps_protected_text[OF p] show ?thesis by (auto simp add: sample_snapshot_def codes_def)
qed

theorem ready_plan_is_complete_witness:
  "\<exists>ps. parts ascii_tables (tx_raw sample_text) = Inr ps \<and> tx_writable sample_text"
proof -
  have t: "parts ascii_tables (codes ''DOOR'') = Inr [(True, codes ''DOOR'')]" by (simp add: piece_simps)
  from planned_sample[OF t] obtain plan where p: "build_translation_plan ascii_tables (\<lambda>_. replicate 32 7) (codes ''a.dwg'') sample_fingerprint sample_snapshot
      (inventory_identity (\<lambda>_. replicate 32 7) (codes ''a.dwg'') sample_fingerprint sample_snapshot) [door (codes ''DOOR'')] = Inr plan"
    "tn_ready plan" by auto
  from ready_plan_is_complete[OF p] show ?thesis by (auto simp add: sample_snapshot_def sample_text_def)
qed

text \<open>
  Keeping the protected pieces does not keep the number they spell: a target that ends in a minus
  sign, in front of a number, is accepted, and the text then holds another number.
\<close>

lemma target_may_change_sign:
  "\<exists>plan ch. build_translation_plan ascii_tables (\<lambda>_. replicate 32 7) (codes ''a.dwg'') sample_fingerprint sample_snapshot
      (inventory_identity (\<lambda>_. replicate 32 7) (codes ''a.dwg'') sample_fingerprint sample_snapshot) [door (codes ''DOOR-'')] = Inr plan
    \<and> tn_ready plan \<and> tn_changes plan = [ch]
    \<and> parts ascii_tables (pc_before ch) = Inr [(True, codes ''KAPI''), (False, codes ''5'')]
    \<and> parts ascii_tables (pc_after ch) = Inr [(True, codes ''DOOR''), (False, codes ''-5'')]"
proof -
  have j: "codes ''DOOR-'' @ codes ''5'' = codes ''DOOR-5''" by (simp add: codes_def)
  from planned_sample[OF sample_parts(3) disjI2[OF refl]] show ?thesis
    unfolding j by (elim exE conjE) (intro exI conjI, assumption+, simp_all add: sample_parts)
qed

end
