(* ===== verification/Translation_Execution.thy ===== *)
theory Translation_Execution
  imports Remote_Translation Translation_Properties
begin

text \<open>
  What the workstation's translation backend promises: its tables keep what they hold, a copy is
  written at most once per approved plan, only of a plan that was reviewed and is ready, and only
  released when it was read back as planned; and every response answers its request.
\<close>

section \<open>Running the pieces\<close>

lemma on_world_eq: "on_world m (t, x) = (r, u) \<longleftrightarrow> (\<exists>x'. m x = (r, x') \<and> u = (t, x'))"
  by (auto simp add: on_world_def split: prod.splits)

lemma transaction_run:
  "transaction w m (t, x) = (case tw_open w x of (Inl e, x1) \<Rightarrow> (Inl e, (t, x1)) | (Inr _, x1) \<Rightarrow>
     (case m t of (Inl e, _) \<Rightarrow> (Inl e, (t, x1)) | (Inr v, t') \<Rightarrow>
       (case tw_commit w x1 of (Inl e, x2) \<Rightarrow> (Inl e, (t, x2)) | (Inr _, x2) \<Rightarrow> (Inr v, (t', x2)))))"
  by (cases "tw_open w x"; cases "fst (tw_open w x)") (simp_all add: transaction_def bindS_def on_world_def)

lemma transaction_Inr:
  assumes "transaction w m (t, x) = (Inr v, (t', x'))"
  shows "m t = (Inr v, t')"
  using assms by (simp add: transaction_run split: prod.splits sum.splits)

lemma transaction_Inl:
  assumes "transaction w m (t, x) = (Inl e, (t', x'))"
  shows "t' = t"
  using assms by (simp add: transaction_run split: prod.splits sum.splits)

text \<open>
  later t t': what the tables t hold is still in t'. Plans and receipts never change, a write
  intent is never forgotten.
\<close>

definition later :: "translation_tables \<Rightarrow> translation_tables \<Rightarrow> bool" where
  "later t t' \<longleftrightarrow> (\<forall>k sp. tt_plans t k = Some sp \<longrightarrow> tt_plans t' k = Some sp)
     \<and> (\<forall>k. tt_writes t k \<noteq> None \<longrightarrow> tt_writes t' k \<noteq> None)
     \<and> (\<forall>k rc. tt_writes t k = Some (Some rc) \<longrightarrow> tt_writes t' k = Some (Some rc))"

lemma later_refl [simp]: "later t t"
  by (simp add: later_def)

lemma later_trans: "later t u \<Longrightarrow> later u v \<Longrightarrow> later t v"
  by (simp add: later_def)

text \<open>A receipt belongs to the plan it is stored for.\<close>

definition tables_ok :: "translation_tables \<Rightarrow> bool" where
  "tables_ok t \<longleftrightarrow> (\<forall>scope plan rc. tt_writes t (scope, plan) = Some (Some rc) \<longrightarrow>
     ar_plan rc = plan \<and> (\<exists>sp. tt_plans t (scope, plan) = Some sp \<and> ar_inventory rc = tn_inventory (sp_plan sp)
        \<and> ar_review rc = sp_review sp))"

definition good_row :: "translation_tables \<Rightarrow> translation_tables \<Rightarrow> bool" where
  "good_row t t' \<longleftrightarrow> later t t' \<and> (tables_ok t \<longrightarrow> tables_ok t')"

lemma good_row_refl [simp]: "good_row t t"
  by (simp add: good_row_def)

lemma good_row_trans: "good_row t u \<Longrightarrow> good_row u v \<Longrightarrow> good_row t v"
  using later_trans by (auto simp add: good_row_def)

text \<open>What an action does to the tables in any outcome.\<close>

definition tables_step :: "('w, 'a) rt \<Rightarrow> bool" where
  "tables_step m \<longleftrightarrow> (\<forall>t x r t' x'. m (t, x) = (r, (t', x')) \<longrightarrow> good_row t t')"

lemma tables_stepD: "tables_step m \<Longrightarrow> m (t, x) = (r, (t', x')) \<Longrightarrow> good_row t t'"
  unfolding tables_step_def by blast

named_theorems step_rules

lemma step_world [step_rules]: "tables_step (on_world m)"
  by (auto simp add: tables_step_def on_world_eq)

lemma step_liftR [step_rules]: "tables_step (liftR r)"
  by (auto simp add: tables_step_def)

lemma step_guardS [step_rules]: "tables_step (guardS b e)"
  by (auto simp add: tables_step_def)

lemma step_raise [step_rules]: "tables_step (raise e)"
  by (auto simp add: tables_step_def)

lemma step_bind [step_rules]:
  assumes "tables_step m" and "\<And>v. tables_step (f v)"
  shows "tables_step (bindS m f)"
  unfolding tables_step_def
proof (intro allI impI)
  fix t x r t' x'
  assume "bindS m f (t, x) = (r, (t', x'))"
  then obtain q u y where m: "m (t, x) = (q, (u, y))" and rest: "(case q of Inl e \<Rightarrow> (Inl e, (u, y)) | Inr v \<Rightarrow> f v (u, y)) = (r, (t', x'))"
    by (cases "m (t, x)") (auto simp add: bindS_def split: sum.splits)
  from m assms(1) have "good_row t u" unfolding tables_step_def by blast
  moreover have "good_row u t'" using rest tables_stepD[OF assms(2)] by (cases q) auto
  ultimately show "good_row t t'" by (rule good_row_trans)
qed

lemma step_transaction:
  assumes "\<And>t v t'. m t = (Inr v, t') \<Longrightarrow> good_row t t'"
  shows "tables_step (transaction w m)"
  unfolding tables_step_def
proof (intro allI impI)
  fix t x r t' x'
  assume r: "transaction w m (t, x) = (r, (t', x'))"
  show "good_row t t'"
  proof (cases r)
    case (Inl e) with r transaction_Inl[of w m t x e t' x'] show ?thesis by simp
  next
    case (Inr v) with r assms transaction_Inr[of w m t x v t' x'] show ?thesis by simp
  qed
qed

lemma step_submit [step_rules]: "tables_step (transaction w (submit_rows tb scope ivt expected ds))"
  by (rule step_transaction)
    (auto simp add: submit_rows_def Let_def good_row_def later_def tables_ok_def split: if_splits)

lemma step_review_row [step_rules]: "tables_step (transaction w (review_row scope ivt))"
  by (rule step_transaction) (auto simp add: review_row_def)

lemma step_insert_plan [step_rules]: "tables_step (transaction w (insert_plan scope sp))"
proof (rule step_transaction)
  fix t v t' assume "insert_plan scope sp t = (Inr v, t')"
  then have e: "t' = (case tt_plans t (scope, tn_plan (sp_plan sp)) of
     Some _ \<Rightarrow> t | None \<Rightarrow> t\<lparr>tt_plans := (tt_plans t)((scope, tn_plan (sp_plan sp)) \<mapsto> sp)\<rparr>)"
    by (simp add: insert_plan_def)
  show "good_row t t'"
    unfolding e good_row_def later_def tables_ok_def by (simp split: option.split) force
qed

lemma step_scan [step_rules]: "tables_step (scan_texts tb source ivt off lim)"
  unfolding scan_texts_def by (intro step_rules) (auto split: prod.splits intro: step_rules)

lemma step_submit_review [step_rules]: "tables_step (submit_review tb scope source ivt expected ds)"
  unfolding submit_review_def by (auto split: prod.splits intro!: step_rules)

lemma step_plan_translation [step_rules]: "tables_step (plan_translation tb scope source ivt rvw off lim)"
  unfolding plan_translation_def by (auto split: prod.splits intro!: step_rules)

section \<open>Writing\<close>

text \<open>
  released tb path expected decisions plan rc: at some worlds the source was scanned and planned
  again, the plan is plan and ready, the helper read the edited draft back exactly as planned, and
  the source was last seen unchanged.
\<close>

definition released ::
  "'w translation_backend \<Rightarrow> pytext \<Rightarrow> string \<Rightarrow> translation_decision list \<Rightarrow> string \<Rightarrow> translation_receipt \<Rightarrow> bool" where
  "released tb path expected decisions approved rc \<longleftrightarrow>
     (\<exists>source before snapshot plan x1 x2 x3 x4 x5 x6.
        tw_scan (tb_world tb) path x1 = (Inr (source, before, snapshot), x2)
      \<and> build_translation_plan (tb_unicode tb) (tb_sha256 tb) source before snapshot expected decisions = Inr plan
      \<and> tn_plan plan = approved \<and> tn_ready plan \<and> tn_changes plan \<noteq> []
      \<and> tw_helper (tb_world tb) (tc_job rc) (fp_sha256 before) snapshot (tn_changes plan) x3
          = (Inr (expected_after snapshot (tn_changes plan)), x4)
      \<and> tw_source_fingerprint (tb_world tb) path x5 = (Inr before, x6)
      \<and> tc_source rc = source \<and> tc_changed rc = length (tn_changes plan))"

lemma verified_copy:
  assumes "write_verified_copy w path source before snapshot decisions plan x = (Inr rc, x')"
  shows "tc_plan rc = tn_plan plan \<and> tc_source rc = source \<and> tc_changed rc = length (tn_changes plan)
    \<and> (\<exists>x3 x4. tw_helper w (tc_job rc) (fp_sha256 before) snapshot (tn_changes plan) x3
          = (Inr (expected_after snapshot (tn_changes plan)), x4))
    \<and> (\<exists>x5 x6. tw_source_fingerprint w path x5 = (Inr before, x6))"
  using assms by (auto simp add: write_verified_copy_def bindS_eq_Inr Let_def split: if_splits) blast+

lemma apply_translation_released:
  assumes "apply_translation tb has_workspace path expected decisions approved x = (Inr rc, x')"
  shows "tc_plan rc = approved \<and> released tb path expected decisions approved rc"
proof -
  from assms obtain source before snapshot x2 plan where s:
    "tw_scan (tb_world tb) path x = (Inr (source, before, snapshot), x2)"
    "build_translation_plan (tb_unicode tb) (tb_sha256 tb) source before snapshot expected decisions = Inr plan"
    "tn_plan plan = approved" "tn_ready plan" "tn_changes plan \<noteq> []"
    "write_verified_copy (tb_world tb) path source before snapshot decisions plan x2 = (Inr rc, x')"
    by (auto simp add: apply_translation_def Let_def bindS_eq_Inr split: if_splits prod.splits)
  from verified_copy[OF s(6)] s(1-5) show ?thesis unfolding released_def by blast
qed

text \<open>The row of an intent, and what the call that finds it does.\<close>

lemma intend_cases:
  assumes "intend_write scope ivt rvw plan t = (Inr found, t')"
  shows "(\<exists>rc. found = Inl rc \<and> t' = t \<and> tt_writes t (scope, plan) = Some (Some rc)
            \<and> (\<exists>sp. tt_plans t (scope, plan) = Some sp \<and> sp_review sp = rvw \<and> tn_inventory (sp_plan sp) = ivt))
    \<or> (\<exists>sp. found = Inr sp \<and> tt_plans t (scope, plan) = Some sp \<and> sp_review sp = rvw
            \<and> tn_inventory (sp_plan sp) = ivt \<and> tn_ready (sp_plan sp) \<and> tn_changes (sp_plan sp) \<noteq> []
            \<and> tt_writes t (scope, plan) = None \<and> t' = t\<lparr>tt_writes := (tt_writes t)((scope, plan) \<mapsto> None)\<rparr>)"
  using assms by (auto simp add: intend_write_def split: option.splits if_splits)

lemma step_intend: "tables_step (transaction w (intend_write scope ivt rvw plan))"
proof (rule step_transaction)
  fix t v t' assume "intend_write scope ivt rvw plan t = (Inr v, t')"
  from intend_cases[OF this] show "good_row t t'"
    by (auto simp add: good_row_def later_def tables_ok_def split: if_splits)
qed

definition intended :: "translation_tables \<Rightarrow> string \<Rightarrow> string \<Rightarrow> string \<Rightarrow> string \<Rightarrow> bool" where
  "intended t scope ivt rvw plan \<longleftrightarrow> tt_writes t (scope, plan) = Some None
     \<and> (\<exists>sp. tt_plans t (scope, plan) = Some sp \<and> sp_review sp = rvw \<and> tn_inventory (sp_plan sp) = ivt)"

lemma apply_result_fields:
  "apply_result_of ivt rvw rc = Inr r \<Longrightarrow>
     ar_plan r = tc_plan rc \<and> ar_inventory r = ivt \<and> ar_review r = rvw \<and> valid_response (ApplyResponse r)
     \<and> ar_output_id r = tc_job rc \<and> ar_output_sha256 r = tc_sha256 rc \<and> ar_changed_records r = int (tc_changed rc)"
  by (auto simp add: apply_result_of_def made_def Let_def split: if_splits)

lemma keep_good_row:
  assumes "intended t scope ivt rvw plan" and "ar_plan r = plan" "ar_inventory r = ivt" "ar_review r = rvw"
    and "keep_receipt scope plan r t = (Inr u, t')"
  shows "good_row t t' \<and> tt_writes t' (scope, plan) = Some (Some r)"
  using assms by (auto simp add: keep_receipt_def intended_def good_row_def later_def tables_ok_def split: if_split_asm)

lemma write_once_eq:
  "write_once tb ws scope source ivt rvw plan sp (t, x) = (Inr r, (t', x')) \<Longrightarrow>
     \<exists>decisions rc x1. local_decisions (sp_decisions sp) = Inr decisions
       \<and> apply_translation tb ws source ivt decisions plan x = (Inr rc, x1)
       \<and> apply_result_of ivt rvw rc = Inr r
       \<and> transaction (tb_world tb) (keep_receipt scope plan r) (t, x1) = (Inr (), (t', x'))"
  by (auto simp add: write_once_def bindS_eq_Inr on_world_eq)

text \<open>The same for an action run at given tables.\<close>

definition step_at :: "('w, 'a) rt \<Rightarrow> translation_tables \<Rightarrow> bool" where
  "step_at m t \<longleftrightarrow> (\<forall>x. good_row t (fst (snd (m (t, x)))))"

lemma at_liftR: "(\<And>v. r = Inr v \<Longrightarrow> step_at (f v) t) \<Longrightarrow> step_at (bindS (liftR r) f) t"
  by (cases r) (simp_all add: step_at_def bindS_def)

lemma at_world: "(\<And>v x x'. m x = (Inr v, x') \<Longrightarrow> step_at (f v) t) \<Longrightarrow> step_at (bindS (on_world m) f) t"
  by (auto simp add: step_at_def bindS_def on_world_def split: prod.splits sum.splits)

lemma at_catch: "step_at m t \<Longrightarrow> step_at (catchS m (\<lambda>_. raise e)) t"
  unfolding step_at_def catchS_def by (auto split: prod.splits sum.splits) (metis fst_conv snd_conv)+

lemma at_transaction:
  assumes "\<And>v t'. m t = (Inr v, t') \<Longrightarrow> good_row t t'"
  shows "step_at (bindS (transaction w m) (\<lambda>_. ret r)) t"
  unfolding step_at_def
proof
  fix x
  obtain q u y where q: "transaction w m (t, x) = (q, (u, y))" by (metis prod_cases3)
  have "good_row t u"
  proof (cases q)
    case (Inl e) with q transaction_Inl[of w m t x e u y] show ?thesis by simp
  next
    case (Inr v) with q transaction_Inr[of w m t x v u y] assms show ?thesis by simp
  qed
  with q show "good_row t (fst (snd (bindS (transaction w m) (\<lambda>_. ret r) (t, x))))"
    by (simp add: bindS_def split: sum.split)
qed

lemma step_write_once:
  assumes "intended t scope ivt rvw plan"
  shows "step_at (write_once tb ws scope source ivt rvw plan sp) t"
  unfolding write_once_def
proof (intro at_catch at_liftR at_world at_transaction)
  fix decisions rc x x' r u t'
  assume a: "apply_translation tb ws source ivt decisions plan x = (Inr rc, x')"
    and r: "apply_result_of ivt rvw rc = Inr r" and k: "keep_receipt scope plan r t = (Inr u, t')"
  from apply_translation_released[OF a] apply_result_fields[OF r]
  have "ar_plan r = plan" "ar_inventory r = ivt" "ar_review r = rvw" by auto
  from keep_good_row[OF assms this k] show "good_row t t'" by blast
qed

section \<open>A whole call\<close>

lemma step_run_request: "tables_step (run_request tb ws scope ref req)"
proof (cases req)
  case (ApplyTranslation ivt rvw plan oper)
  let ?f = "\<lambda>found. case found of
           Inl receipt \<Rightarrow> liftR (translation_result (ld_drawing ref) (ApplyResponse receipt))
         | Inr sp \<Rightarrow> bindS (write_once tb ws scope (ld_file ref) ivt rvw plan sp) (\<lambda>r.
             liftR (sized_result tb (ld_drawing ref) (ApplyResponse r)))"
  show ?thesis
    unfolding tables_step_def
  proof (intro allI impI)
    fix t x r t' x'
    assume run: "run_request tb ws scope ref req (t, x) = (r, (t', x'))"
    obtain q u y where q: "transaction (tb_world tb) (intend_write scope ivt rvw plan) (t, x) = (q, (u, y))"
      by (metis prod_cases3)
    have tu: "good_row t u" using tables_stepD[OF step_intend q] .
    show "good_row t t'"
    proof (cases q)
      case (Inl e) with run q tu ApplyTranslation show ?thesis by (simp add: run_request_def bindS_def Let_def)
    next
      case (Inr found)
      from run q Inr bindS_Inr[of "transaction (tb_world tb) (intend_write scope ivt rvw plan)" "(t, x)" found "(u, y)" ?f] ApplyTranslation have f: "?f found (u, y) = (r, (t', x'))"
        by (simp add: run_request_def Let_def)
      from transaction_Inr[OF q[unfolded Inr]] have i: "intend_write scope ivt rvw plan t = (Inr found, u)" .
      show ?thesis
      proof (cases found)
        case (Inl rc) with f tu show ?thesis by simp
      next
        case sp: (Inr sp)
        from intend_cases[OF i] sp have "intended u scope ivt rvw plan" by (auto simp add: intended_def)
        note at = step_write_once[OF this, of tb ws "ld_file ref" sp]
        obtain a t2 x2 where w: "write_once tb ws scope (ld_file ref) ivt rvw plan sp (u, y) = (a, (t2, x2))"
          by (metis prod_cases3)
        with f sp have "t' = t2" by (cases a) (auto simp add: bindS_def)
        with at w have "good_row u t'" by (auto simp add: step_at_def dest: spec[of _ y])
        with tu show ?thesis by (rule good_row_trans)
      qed
    qed
  qed
qed (simp_all add: run_request_def Let_def step_rules)

lemma step_execute: "tables_step (remote_execute tb e ref)"
  unfolding tables_step_def
proof (intro allI impI)
  fix t x r t' x'
  assume run: "remote_execute tb e ref (t, x) = (r, (t', x'))"
  let ?m = "bindS (on_world (tw_load_config (tb_world tb))) (\<lambda>ws.
       case te_command e of
         TranslationCommand d req \<Rightarrow> run_request tb ws (scope_of (tb_sha256 tb) e (ld_drawing ref)) ref req
       | _ \<Rightarrow> raise (OtherException ''AttributeError''))"
  have "tables_step ?m"
    by (intro step_rules) (auto split: remote_command.splits intro: step_run_request step_rules)
  with run show "good_row t t'" using tables_stepD[of ?m t x r t' x'] by (auto simp add: remote_execute_def split: if_splits)
qed

section \<open>Every response answers its request\<close>

lemma sized_result_ok: "sized_result tb d r = Inr v \<Longrightarrow> v = TranslationResult d r \<and> valid_response r"
  by (auto simp add: sized_result_def translation_result_def made_def split: if_splits)

lemma made_response_ok: "made_response r = Inr v \<Longrightarrow> v = r"
  by (auto simp add: made_response_def made_def split: if_splits)

lemma build_plan_inventory:
  "build_translation_plan uc sha path fp sn expected ds = Inr plan \<Longrightarrow> tn_inventory plan = expected"
  by (auto simp add: build_translation_plan_def Let_def split: if_splits prod.splits)

lemma inventory_page_ok:
  "inventory_page uc sha path fp sn expected off lim = Inr page \<Longrightarrow>
     iv_offset page = off \<and> (\<forall>i. expected = Some i \<longrightarrow> i \<noteq> [] \<longrightarrow> iv_id page = i)"
  by (auto simp add: inventory_page_def Let_def split: if_splits prod.splits option.splits)

lemma hash_id_nonempty: "hash_id i \<Longrightarrow> i \<noteq> []"
  by (auto simp add: hash_id_def plan_id_pattern_def)

lemma scan_answers:
  assumes "scan_texts tb source ivt off lim u = (Inr resp, u')" and "case ivt of None \<Rightarrow> True | Some i \<Rightarrow> hash_id i"
  shows "answers (ScanTexts ivt off lim) resp"
  using assms
  by (cases u) (auto simp add: scan_texts_def bindS_eq_Inr on_world_eq dest!: made_response_ok inventory_page_ok
      dest: hash_id_nonempty split: option.splits)

lemma review_answers:
  assumes "submit_review tb scope source ivt expected ds u = (Inr resp, u')"
  shows "answers (SubmitReview ivt expected ds) resp"
  using assms by (auto simp add: submit_review_def bindS_eq_Inr split: prod.splits dest!: made_response_ok)

lemma plan_answers:
  assumes "plan_translation tb scope source ivt rvw off lim u = (Inr resp, u')"
  shows "answers (PlanTranslation ivt rvw off lim) resp"
  using assms by (auto simp add: plan_translation_def bindS_eq_Inr split: prod.splits dest!: made_response_ok build_plan_inventory)

lemma write_answers:
  assumes "write_once tb ws scope source ivt rvw plan sp (t, x) = (Inr r, u)"
  shows "answers (ApplyTranslation ivt rvw plan oper) (ApplyResponse r)"
proof -
  obtain t' x' where u: "u = (t', x')" by (cases u)
  from write_once_eq[OF assms[unfolded u]] obtain rc x1 ds where
    "apply_translation tb ws source ivt ds plan x = (Inr rc, x1)" "apply_result_of ivt rvw rc = Inr r" by blast
  with apply_translation_released[of tb ws source ivt ds plan x rc x1] apply_result_fields[of ivt rvw rc r] show ?thesis by auto
qed

lemma request_answers:
  assumes ok: "tables_ok t" and valid: "valid_request req"
    and run: "run_request tb ws scope ref req (t, x) = (Inr v, u)"
  shows "\<exists>resp. v = TranslationResult (ld_drawing ref) resp \<and> valid_response resp \<and> answers req resp"
proof (cases req)
  case (ScanTexts ivt off lim)
  with run obtain resp s where "scan_texts tb (ld_file ref) ivt off lim (t, x) = (Inr resp, s)"
    "sized_result tb (ld_drawing ref) resp = Inr v" by (auto simp add: run_request_def Let_def bindS_eq_Inr)
  with scan_answers[of tb "ld_file ref" ivt off lim "(t, x)" resp s] valid ScanTexts sized_result_ok[of tb "ld_drawing ref" resp v]
  show ?thesis by auto
next
  case (SubmitReview ivt expected ds)
  with run obtain resp s where "submit_review tb scope (ld_file ref) ivt expected ds (t, x) = (Inr resp, s)"
    "sized_result tb (ld_drawing ref) resp = Inr v" by (auto simp add: run_request_def Let_def bindS_eq_Inr)
  with review_answers[of tb scope "ld_file ref" ivt expected ds "(t, x)" resp s] SubmitReview sized_result_ok[of tb "ld_drawing ref" resp v]
  show ?thesis by auto
next
  case (PlanTranslation ivt rvw off lim)
  with run obtain resp s where "plan_translation tb scope (ld_file ref) ivt rvw off lim (t, x) = (Inr resp, s)"
    "sized_result tb (ld_drawing ref) resp = Inr v" by (auto simp add: run_request_def Let_def bindS_eq_Inr)
  with plan_answers[of tb scope "ld_file ref" ivt rvw off lim "(t, x)" resp s] PlanTranslation sized_result_ok[of tb "ld_drawing ref" resp v]
  show ?thesis by auto
next
  case (ApplyTranslation ivt rvw plan oper)
  with run obtain found t1 x1 where f: "transaction (tb_world tb) (intend_write scope ivt rvw plan) (t, x) = (Inr found, (t1, x1))"
    and rest: "(case found of Inl receipt \<Rightarrow> liftR (translation_result (ld_drawing ref) (ApplyResponse receipt))
         | Inr sp \<Rightarrow> bindS (write_once tb ws scope (ld_file ref) ivt rvw plan sp) (\<lambda>r.
             liftR (sized_result tb (ld_drawing ref) (ApplyResponse r)))) (t1, x1) = (Inr v, u)"
    by (auto simp add: run_request_def Let_def bindS_eq_Inr)
  note i = intend_cases[OF transaction_Inr[OF f]]
  show ?thesis
  proof (cases found)
    case (Inl rc)
    with i ok have "ar_plan rc = plan" "ar_inventory rc = ivt" "ar_review rc = rvw" by (force simp add: tables_ok_def)+
    with rest Inl ApplyTranslation show ?thesis by (auto simp add: translation_result_def made_def split: if_splits)
  next
    case (Inr sp)
    with rest obtain r s where w: "write_once tb ws scope (ld_file ref) ivt rvw plan sp (t1, x1) = (Inr r, s)"
      "sized_result tb (ld_drawing ref) (ApplyResponse r) = Inr v" by (auto simp add: bindS_eq_Inr)
    from write_answers[OF w(1)] sized_result_ok[OF w(2)] ApplyTranslation show ?thesis by blast
  qed
qed

lemma execute_answers:
  assumes "tables_ok t" "te_command e = TranslationCommand d req" "valid_request req"
    and "remote_execute tb e ref (t, x) = (Inr v, u)"
  shows "\<exists>resp. v = TranslationResult (ld_drawing ref) resp \<and> valid_response resp \<and> answers req resp"
proof -
  from assms(2,4) obtain ws x1 where
    "run_request tb ws (scope_of (tb_sha256 tb) e (ld_drawing ref)) ref req (t, x1) = (Inr v, u)"
    by (auto simp add: remote_execute_def bindS_eq_Inr on_world_eq split: if_splits)
  from request_answers[OF assms(1,3) this] show ?thesis .
qed

section \<open>At most one copy per plan\<close>

text \<open>
  no\_job: the call does the same whatever making a job directory would do, the first thing a write
  changes outside the tables; so the call does not write.
\<close>

abbreviation with_job :: "'w translation_backend \<Rightarrow> ('w, string) py \<Rightarrow> 'w translation_backend" where
  "with_job tb j \<equiv> tb\<lparr>tb_world := (tb_world tb)\<lparr>tw_new_job := j\<rparr>\<rparr>"

definition no_job :: "'w translation_backend \<Rightarrow> instant task_envelope \<Rightarrow> local_drawing \<Rightarrow> translation_tables \<times> 'w \<Rightarrow> bool" where
  "no_job tb e ref u \<longleftrightarrow> (\<forall>j. remote_execute (with_job tb j) e ref u = remote_execute tb e ref u)"

text \<open>Everything that can happen: calls of the backend, and changes of the outside world.\<close>

inductive history :: "'w translation_backend \<Rightarrow> translation_tables \<times> 'w \<Rightarrow> translation_tables \<times> 'w \<Rightarrow> bool" for tb where
  start: "history tb u u"
| call: "history tb u v \<Longrightarrow> remote_execute tb e ref v = (r, v') \<Longrightarrow> history tb u v'"
| outside: "history tb u (t, x) \<Longrightarrow> history tb u (t, x')"

lemma history_later: "history tb u v \<Longrightarrow> good_row (fst u) (fst v)"
proof (induction rule: history.induct)
  case (call u v e ref r v')
  from call.hyps(2) tables_stepD[OF step_execute, of tb e ref "fst v" "snd v" r "fst v'" "snd v'"]
  have "good_row (fst v) (fst v')" by simp
  with call.IH show ?case by (rule good_row_trans)
qed simp_all

lemma transaction_job [simp]: "transaction (w\<lparr>tw_new_job := j\<rparr>) m = transaction w m"
  by (rule ext) (auto simp add: transaction_run split: prod.split sum.split)

lemma run_apply:
  "run_request tb ws scope ref (ApplyTranslation ivt rvw plan oper) u =
     (case transaction (tb_world tb) (intend_write scope ivt rvw plan) u of
        (Inl err, v) \<Rightarrow> (Inl err, v)
      | (Inr (Inl rc), v) \<Rightarrow> (translation_result (ld_drawing ref) (ApplyResponse rc), v)
      | (Inr (Inr sp), v) \<Rightarrow> bindS (write_once tb ws scope (ld_file ref) ivt rvw plan sp) (\<lambda>r.
             liftR (sized_result tb (ld_drawing ref) (ApplyResponse r))) v)"
  by (simp add: run_request_def Let_def bindS_def[of "transaction _ _"] split: prod.split sum.split)

lemma execute_run:
  assumes "te_command e = TranslationCommand d req"
  shows "remote_execute tb e ref (t, x) =
     (if \<not> tw_enabled (tb_world tb) x \<or> \<not> List.member (tb_projects tb) (ld_project ref)
      then (Inl (ValueError ''translation_project_not_authorized''), (t, x))
      else case tw_load_config (tb_world tb) x of
         (Inl err, x1) \<Rightarrow> (Inl err, (t, x1))
       | (Inr ws, x1) \<Rightarrow> run_request tb ws (scope_of (tb_sha256 tb) e (ld_drawing ref)) ref req (t, x1))"
  using assms by (simp add: remote_execute_def bindS_def on_world_def split: prod.split sum.split)

text \<open>Either the transaction records the intent, or nothing is written.\<close>

lemma run_apply_cases:
  assumes "run_request tb ws scope ref (ApplyTranslation ivt rvw plan oper) (t, x) = (r, (t', x'))"
  shows "(t' = t \<and> (\<forall>j. run_request (with_job tb j) ws scope ref (ApplyTranslation ivt rvw plan oper) (t, x) = (r, (t', x')))
      \<and> (\<forall>v. r = Inr v \<longrightarrow> (\<exists>rc. tt_writes t (scope, plan) = Some (Some rc) \<and> v = TranslationResult (ld_drawing ref) (ApplyResponse rc))))
    \<or> (\<exists>sp x2. tt_plans t (scope, plan) = Some sp \<and> sp_review sp = rvw \<and> tn_inventory (sp_plan sp) = ivt
        \<and> tn_ready (sp_plan sp) \<and> tn_changes (sp_plan sp) \<noteq> [] \<and> tt_writes t (scope, plan) = None
        \<and> bindS (write_once tb ws scope (ld_file ref) ivt rvw plan sp) (\<lambda>r.
             liftR (sized_result tb (ld_drawing ref) (ApplyResponse r)))
           (t\<lparr>tt_writes := (tt_writes t)((scope, plan) \<mapsto> None)\<rparr>, x2) = (r, (t', x')))"
proof -
  obtain q u y where q: "transaction (tb_world tb) (intend_write scope ivt rvw plan) (t, x) = (q, (u, y))"
    by (metis prod_cases3)
  show ?thesis
  proof (cases q)
    case (Inl err)
    with q have "transaction (tb_world tb) (intend_write scope ivt rvw plan) (t, x) = (Inl err, (u, y))" by simp
    from transaction_Inl[OF this] this assms show ?thesis by (auto simp add: run_apply)
  next
    case (Inr found)
    with q have q': "transaction (tb_world tb) (intend_write scope ivt rvw plan) (t, x) = (Inr found, (u, y))" by simp
    note i = intend_cases[OF transaction_Inr[OF q']]
    show ?thesis
    proof (cases found)
      case (Inl rc)
      with i have u: "u = t" "tt_writes t (scope, plan) = Some (Some rc)" by simp_all
      from q' Inl assms have "(translation_result (ld_drawing ref) (ApplyResponse rc), (u, y)) = (r, (t', x'))"
        by (simp add: run_apply)
      moreover have "run_request (with_job tb j) ws scope ref (ApplyTranslation ivt rvw plan oper) (t, x)
          = (translation_result (ld_drawing ref) (ApplyResponse rc), (u, y))" for j
        using q' Inl by (simp add: run_apply)
      ultimately show ?thesis using u by (auto simp add: translation_result_def made_def split: if_split_asm)
    next
      case (Inr sp)
      with i have "u = t\<lparr>tt_writes := (tt_writes t)((scope, plan) \<mapsto> None)\<rparr>" "tt_plans t (scope, plan) = Some sp"
        "sp_review sp = rvw" "tn_inventory (sp_plan sp) = ivt" "tn_ready (sp_plan sp)" "tn_changes (sp_plan sp) \<noteq> []"
        "tt_writes t (scope, plan) = None" by auto
      moreover from q' Inr assms have "bindS (write_once tb ws scope (ld_file ref) ivt rvw plan sp) (\<lambda>r.
             liftR (sized_result tb (ld_drawing ref) (ApplyResponse r))) (u, y) = (r, (t', x'))" by (simp add: run_apply)
      ultimately show ?thesis by blast
    qed
  qed
qed

lemma apply_cases:
  assumes c: "te_command e = TranslationCommand d (ApplyTranslation ivt rvw plan oper)"
    and run: "remote_execute tb e ref (t, x) = (r, (t', x'))" and scope: "scope = scope_of (tb_sha256 tb) e (ld_drawing ref)"
  shows "(t' = t \<and> no_job tb e ref (t, x) \<and> (\<forall>v. r = Inr v \<longrightarrow> (\<exists>rc. tt_writes t (scope, plan) = Some (Some rc)
        \<and> v = TranslationResult (ld_drawing ref) (ApplyResponse rc))))
    \<or> (\<exists>ws sp x2. tt_plans t (scope, plan) = Some sp \<and> sp_review sp = rvw \<and> tn_inventory (sp_plan sp) = ivt
        \<and> tn_ready (sp_plan sp) \<and> tn_changes (sp_plan sp) \<noteq> [] \<and> tt_writes t (scope, plan) = None
        \<and> bindS (write_once tb ws scope (ld_file ref) ivt rvw plan sp) (\<lambda>r.
             liftR (sized_result tb (ld_drawing ref) (ApplyResponse r)))
           (t\<lparr>tt_writes := (tt_writes t)((scope, plan) \<mapsto> None)\<rparr>, x2) = (r, (t', x')))"
proof -
  obtain ws x1 where l: "tw_load_config (tb_world tb) x = (ws, x1)" by (cases "tw_load_config (tb_world tb) x")
  show ?thesis
  proof (cases "\<not> tw_enabled (tb_world tb) x \<or> \<not> List.member (tb_projects tb) (ld_project ref) \<or> (\<exists>err. ws = Inl err)")
    case True
    then have "\<exists>err. r = Inl err \<and> t' = t"
      using run l by (auto simp add: execute_run[OF c] split: if_split_asm)
    moreover have "no_job tb e ref (t, x)" using True l by (auto simp add: no_job_def execute_run[OF c])
    ultimately show ?thesis by blast
  next
    case False
    then obtain b where b: "ws = Inr b" by (cases ws) auto
    have ex: "remote_execute tb' e ref (t, x) = run_request tb' b scope ref (ApplyTranslation ivt rvw plan oper) (t, x1)"
      if "tb' = tb \<or> (\<exists>j. tb' = with_job tb j)" for tb'
      using that False l b scope by (auto simp add: execute_run[OF c])
    have "run_request tb b scope ref (ApplyTranslation ivt rvw plan oper) (t, x1) = (r, (t', x'))"
      using ex[of tb] run by simp
    from run_apply_cases[OF this] show ?thesis
    proof (elim disjE)
      assume h: "t' = t \<and> (\<forall>j. run_request (with_job tb j) b scope ref (ApplyTranslation ivt rvw plan oper) (t, x1) = (r, (t', x')))
        \<and> (\<forall>v. r = Inr v \<longrightarrow> (\<exists>rc. tt_writes t (scope, plan) = Some (Some rc) \<and> v = TranslationResult (ld_drawing ref) (ApplyResponse rc)))"
      have "remote_execute (with_job tb j) e ref (t, x) = remote_execute tb e ref (t, x)" for j
        using ex[of "with_job tb j"] h run by metis
      with h show ?thesis unfolding no_job_def by blast
    qed blast
  qed
qed

lemma writing_records:
  assumes "bindS (write_once tb ws scope path ivt rvw plan sp) f
      (t\<lparr>tt_writes := (tt_writes t)((scope, plan) \<mapsto> None)\<rparr>, x) = (r, (t', x'))"
    and "\<And>v. f v = liftR (g v)" and "tt_plans t (scope, plan) = Some sp" "sp_review sp = rvw" "tn_inventory (sp_plan sp) = ivt"
  shows "tt_writes t' (scope, plan) \<noteq> None"
proof -
  let ?u = "t\<lparr>tt_writes := (tt_writes t)((scope, plan) \<mapsto> None)\<rparr>"
  obtain a t2 x2 where w: "write_once tb ws scope path ivt rvw plan sp (?u, x) = (a, (t2, x2))" by (metis prod_cases3)
  have "t' = t2" using assms(1,2) w by (cases a) (auto simp add: bindS_def)
  moreover have "good_row ?u t2"
    using step_write_once[of ?u scope ivt rvw plan tb ws path sp] assms(3-5) w
    by (auto simp add: intended_def step_at_def dest: spec[of _ x])
  ultimately show ?thesis by (auto simp add: good_row_def later_def)
qed

text \<open>
  C2: A copy of an approved plan is written at most once: a call that does not
  record the write intent writes nothing, and once the intent is recorded, no later call for the
  same plan, in any history of calls and outside changes, writes again; it changes no table and
  answers, if at all, with the receipt on record.
\<close>

theorem copy_written_once:
  assumes first: "te_command e = TranslationCommand d (ApplyTranslation ivt rvw plan oper)"
      "scope = scope_of (tb_sha256 tb) e (ld_drawing ref)"
      "remote_execute tb e ref (t, x) = (r, (t1, x1))"
    and later: "history tb (t1, x1) (t2, x2)"
    and again: "te_command e' = TranslationCommand d' (ApplyTranslation ivt' rvw' plan oper')"
      "scope = scope_of (tb_sha256 tb) e' (ld_drawing ref')"
      "remote_execute tb e' ref' (t2, x2) = (r', (t3, x3))"
  shows "(tt_writes t (scope, plan) \<noteq> None \<or> tt_writes t1 (scope, plan) = None \<longrightarrow> no_job tb e ref (t, x))
    \<and> (tt_writes t1 (scope, plan) \<noteq> None \<longrightarrow> no_job tb e' ref' (t2, x2) \<and> t3 = t2
        \<and> (\<forall>v. r' = Inr v \<longrightarrow> (\<exists>rc. tt_writes t2 (scope, plan) = Some (Some rc)
             \<and> v = TranslationResult (ld_drawing ref') (ApplyResponse rc)
             \<and> (\<forall>rc1. tt_writes t1 (scope, plan) = Some (Some rc1) \<longrightarrow> rc = rc1))))"
proof -
  have a: "no_job tb e ref (t, x)" if "tt_writes t (scope, plan) \<noteq> None \<or> tt_writes t1 (scope, plan) = None"
    using apply_cases[OF first(1,3,2)] that writing_records by metis
  from history_later[OF later] have l: "later t1 t2" by (simp add: good_row_def)
  have "no_job tb e' ref' (t2, x2) \<and> t3 = t2
      \<and> (\<forall>v. r' = Inr v \<longrightarrow> (\<exists>rc. tt_writes t2 (scope, plan) = Some (Some rc)
           \<and> v = TranslationResult (ld_drawing ref') (ApplyResponse rc)))"
    if "tt_writes t1 (scope, plan) \<noteq> None"
  proof -
    have "tt_writes t2 (scope, plan) \<noteq> None" using that l unfolding later_def by blast
    with apply_cases[OF again(1,3,2)] show ?thesis by blast
  qed
  with a l show ?thesis unfolding later_def by fastforce
qed


section \<open>A written plan\<close>

definition sample_hash :: string where
  "sample_hash = ''sha256:'' @ hexdigest (replicate 32 7)"

lemma constant_digest: "digest (\<lambda>_. replicate 32 7) j = hexdigest (replicate 32 7)"
  by (simp add: digest_def)

lemma build_plan_id:
  "build_translation_plan uc sha path fp sn expected ds = Inr plan \<Longrightarrow> \<exists>j. tn_plan plan = ''sha256:'' @ digest sha j"
  by (auto simp add: build_translation_plan_def Let_def split: if_splits prod.splits)

definition sample_world :: "nat translation_world" where
  "sample_world = \<lparr>tw_enabled = (\<lambda>_. True), tw_load_config = ret True, tw_open = ret (), tw_commit = ret (),
     tw_scan = (\<lambda>_. ret (codes ''a.dwg'', sample_fingerprint, sample_snapshot)),
     tw_new_job = (\<lambda>n. (Inr (''translation-'' @ replicate 32 CHR ''0''), Suc n)),
     tw_write_audit = (\<lambda>_ _ _ _. ret ()), tw_copy_draft = (\<lambda>_ _. ret ()),
     tw_draft_fingerprint = (\<lambda>_. ret sample_fingerprint), tw_source_fingerprint = (\<lambda>_. ret sample_fingerprint),
     tw_helper = (\<lambda>_ _ sn changes. ret (expected_after sn changes)), tw_release = (\<lambda>_. ret sample_fingerprint),
     tw_write_receipt = (\<lambda>_ _. ret ())\<rparr>"

definition sample_backend :: "nat translation_backend" where
  "sample_backend = \<lparr>tb_world = sample_world, tb_projects = [''prj''], tb_unicode = ascii_tables,
     tb_sha256 = (\<lambda>_. replicate 32 7), tb_review_size = (\<lambda>_. 0), tb_response_size = (\<lambda>_ _. 0)\<rparr>"

definition sample_drawing_id :: string where
  "sample_drawing_id = ''drw_00000000-0000-4000-8000-000000000001''"

definition sample_reference :: local_drawing where
  "sample_reference = \<lparr>ld_tenant = ''t'', ld_device = ''w'', ld_project = ''prj'', ld_alias = ''a'',
     ld_drawing = sample_drawing_id, ld_relative = codes ''a.dwg'', ld_file = codes ''a.dwg''\<rparr>"

definition apply_task :: "instant task_envelope" where
  "apply_task = \<lparr>te_policy = 1, te_tenant = ''t'', te_user = ''u'', te_device = ''w'', te_task = ''k'',
     te_operation = ''o'', te_command_id = ''c'', te_idem = ''i'', te_nonce = ''n'', te_issued = 0, te_expires = 1,
     te_command = TranslationCommand sample_drawing_id (ApplyTranslation sample_hash sample_hash sample_hash ''op''),
     te_signature = ''s''\<rparr>"

definition sample_tables :: "translation_plan \<Rightarrow> translation_tables" where
  "sample_tables p = \<lparr>tt_reviews = (\<lambda>_. None),
     tt_plans = (\<lambda>k. if snd k = sample_hash then Some \<lparr>sp_plan = p,
       sp_decisions = [\<lparr>dec_span_id = ''t1:0'', dec_source = codes ''KAPI'', dec_source_language = LangTr,
         dec_target = codes ''DOOR''\<rparr>], sp_review = sample_hash\<rparr> else None),
     tt_writes = (\<lambda>_. None)\<rparr>"

lemma sample_constants:
  "hash_id sample_hash" "opaque_drawing sample_drawing_id" "sha256_hex (fp_sha256 sample_fingerprint)"
  "list_all is_lower_hex (replicate 32 CHR ''0'')"
  by code_simp+

lemma sample_written:
  "\<exists>p r t. remote_execute sample_backend apply_task sample_reference (sample_tables p, 0)
      = (Inr (TranslationResult sample_drawing_id (ApplyResponse r)), (t, 1))
    \<and> tt_writes t (scope_of (tb_sha256 sample_backend) apply_task sample_drawing_id, sample_hash) = Some (Some r)"
proof -
  let ?sha = "\<lambda>_ :: string. replicate 32 (7 :: nat)"
  have t: "parts ascii_tables (codes ''DOOR'') = Inr [(True, codes ''DOOR'')]" by (simp add: piece_simps)
  have inv: "inventory_identity ?sha (codes ''a.dwg'') sample_fingerprint sample_snapshot = sample_hash"
    by (simp only: inventory_identity_def constant_digest sample_hash_def)
  from planned_sample[OF t] obtain p where p: "build_translation_plan ascii_tables ?sha (codes ''a.dwg'') sample_fingerprint sample_snapshot
      sample_hash [door (codes ''DOOR'')] = Inr p" "tn_ready p" "length (tn_changes p) = 1" unfolding inv by auto
  have n: "tn_plan p = sample_hash" "tn_inventory p = sample_hash" "tn_changes p \<noteq> []"
    using build_plan_id[OF p(1)] build_plan_inventory[OF p(1)] p(3) by (auto simp only: constant_digest sample_hash_def) auto
  have d: "local_decisions [\<lparr>dec_span_id = ''t1:0'', dec_source = codes ''KAPI'', dec_source_language = LangTr, dec_target = codes ''DOOR''\<rparr>]
      = Inr [door (codes ''DOOR'')]"
    by (simp add: local_decisions_def local_decision_def door_def made_def valid_local_decision_def codes_def max_text_chars_def)
  let ?r = "\<lparr>ar_inventory = sample_hash, ar_review = sample_hash, ar_plan = sample_hash,
      ar_output_id = ''translation-'' @ replicate 32 CHR ''0'', ar_output_sha256 = fp_sha256 sample_fingerprint, ar_changed_records = 1\<rparr>"
  have v: "valid_response (ApplyResponse ?r)" using sample_constants by (simp add: count_field_def)
  have w: "write_verified_copy sample_world (codes ''a.dwg'') (codes ''a.dwg'') sample_fingerprint sample_snapshot ds p 0
      = (Inr \<lparr>tc_plan = sample_hash, tc_source = codes ''a.dwg'', tc_job = ''translation-'' @ replicate 32 CHR ''0'',
          tc_changed = 1, tc_sha256 = fp_sha256 sample_fingerprint\<rparr>, 1)" for ds
    by (simp add: write_verified_copy_def sample_world_def bindS_def Let_def n p(3))
  have a: "apply_translation sample_backend True (codes ''a.dwg'') sample_hash [door (codes ''DOOR'')] sample_hash 0
      = (Inr \<lparr>tc_plan = sample_hash, tc_source = codes ''a.dwg'', tc_job = ''translation-'' @ replicate 32 CHR ''0'',
          tc_changed = 1, tc_sha256 = fp_sha256 sample_fingerprint\<rparr>, 1)"
    using w p n by (simp add: apply_translation_def sample_backend_def bindS_def) (simp add: sample_world_def)
  let ?s = "scope_of (tb_sha256 sample_backend) apply_task sample_drawing_id"
  let ?t0 = "sample_tables p"
  let ?t1 = "?t0\<lparr>tt_writes := (tt_writes ?t0)((?s, sample_hash) \<mapsto> None)\<rparr>"
  let ?t2 = "?t1\<lparr>tt_writes := (tt_writes ?t1)((?s, sample_hash) \<mapsto> Some ?r)\<rparr>"
  have wo: "write_once sample_backend True ?s (codes ''a.dwg'') sample_hash sample_hash sample_hash
      (the (tt_plans ?t0 (?s, sample_hash))) (?t1, 0) = (Inr ?r, (?t2, 1))"
    using a d v
    by (simp add: write_once_def catchS_def bindS_def on_world_def transaction_run sample_tables_def apply_result_of_def
        made_def keep_receipt_def) (simp add: sample_backend_def sample_world_def)
  have i: "intend_write ?s sample_hash sample_hash sample_hash ?t0 = (Inr (Inr (the (tt_plans ?t0 (?s, sample_hash)))), ?t1)"
    using n p(2) by (simp add: intend_write_def sample_tables_def)
  have c: "te_command apply_task = TranslationCommand sample_drawing_id (ApplyTranslation sample_hash sample_hash sample_hash ''op'')"
    by (simp add: apply_task_def)
  have ref: "ld_drawing sample_reference = sample_drawing_id" "ld_file sample_reference = codes ''a.dwg''"
    "List.member (tb_projects sample_backend) (ld_project sample_reference)"
    by (simp_all add: sample_reference_def sample_backend_def List.member_iff)
  have wd: "tw_enabled (tb_world sample_backend) x" "tw_load_config (tb_world sample_backend) = ret True"
    "tb_world sample_backend = sample_world" "tw_open sample_world = ret ()" "tw_commit sample_world = ret ()"
    "tb_response_size sample_backend drawing resp = 0" for x drawing resp
    by (simp_all add: sample_backend_def sample_world_def)
  have sr: "sized_result sample_backend sample_drawing_id (ApplyResponse ?r)
      = Inr (TranslationResult sample_drawing_id (ApplyResponse ?r))"
    using v sample_constants(2) by (simp add: sized_result_def translation_result_def made_def wd(6) del: valid_response.simps)
  have tx: "transaction sample_world (intend_write ?s sample_hash sample_hash sample_hash) (?t0, 0)
      = (Inr (Inr (the (tt_plans ?t0 (?s, sample_hash)))), (?t1, 0))"
    by (simp only: transaction_run i wd(4,5) ret_apply prod.case sum.case)
  have "run_request sample_backend True ?s sample_reference (ApplyTranslation sample_hash sample_hash sample_hash ''op'') (?t0, 0)
      = (Inr (TranslationResult sample_drawing_id (ApplyResponse ?r)), (?t2, 1))"
    by (simp only: run_apply wd(3) tx prod.case sum.case ref bindS_def wo sr liftR_apply)
  then have "remote_execute sample_backend apply_task sample_reference (?t0, 0)
      = (Inr (TranslationResult sample_drawing_id (ApplyResponse ?r)), (?t2, 1))"
    by (simp only: execute_run[OF c] wd(1,2) ref not_True_eq_False simp_thms if_False ret_apply prod.case sum.case)
  then show ?thesis by (intro exI[of _ p] exI[of _ ?r] exI[of _ ?t2]) simp
qed

theorem copy_written_once_witness:
  "\<exists>t x. tt_writes t (scope_of (tb_sha256 sample_backend) apply_task sample_drawing_id, sample_hash) \<noteq> None
     \<and> no_job sample_backend apply_task sample_reference (t, x)"
proof -
  let ?s = "scope_of (tb_sha256 sample_backend) apply_task (ld_drawing sample_reference)"
  have ref: "ld_drawing sample_reference = sample_drawing_id" by (simp add: sample_reference_def)
  have c: "te_command apply_task = TranslationCommand sample_drawing_id (ApplyTranslation sample_hash sample_hash sample_hash ''op'')"
    by (simp add: apply_task_def)
  obtain p r t where w: "remote_execute sample_backend apply_task sample_reference (sample_tables p, 0)
      = (Inr (TranslationResult sample_drawing_id (ApplyResponse r)), (t, 1))"
    "tt_writes t (?s, sample_hash) = Some (Some r)" using sample_written unfolding ref by blast
  obtain r' t3 x3 where "remote_execute sample_backend apply_task sample_reference (t, 1) = (r', (t3, x3))"
    by (metis prod_cases3)
  from copy_written_once[OF c refl w(1) history.start c refl this] w(2) have "no_job sample_backend apply_task sample_reference (t, 1)"
    by simp
  with w(2) show ?thesis unfolding ref by (intro exI[of _ t] exI[of _ 1]) simp
qed


end
