(* ===== verification/Execution_Properties.thy ===== *)
theory Execution_Properties
  imports Translation_Execution Dispatch_Properties
begin

text \<open>
  From the gateway to the workstation and back: a task the gateway dispatched and the workstation
  authorised is always answered by a signed result, and the gateway's binding check accepts that
  result for the dispatch's correlation.
\<close>

section \<open>What execution returns\<close>

text \<open>A result that fits a command: of its kind, on its target, and valid on the wire.\<close>

definition fits :: "remote_command \<Rightarrow> worker_result \<Rightarrow> bool" where
  "fits command v \<longleftrightarrow> result_action v = command_action command \<and> \<not> target_mismatch command v \<and> valid_worker_result v"

lemma make_result_ok: "make_result r = Inr v \<longleftrightarrow> v = r \<and> valid_worker_result r"
  by (auto simp add: make_result_def made_def)

lemma error_fits: "safe_code code \<Longrightarrow> \<exists>v. error_of (command_action command) code retry attn = Inr v \<and> fits command v"
  by (auto simp add: error_of_def make_result_def made_def fits_def result_action_def target_mismatch_def
      split: remote_command.splits)

lemma failure_codes: "safe_code ''translation_attention_required''" "safe_code ''drawing_not_found''"
  "safe_code ''operation_timeout''" "safe_code ''autocad_unavailable''" "safe_code ''worker_failure''"
  "safe_code ''plan_blocked''" "safe_code ''inspection_failed''"
  by code_simp+

lemma failure_fits: "\<exists>v. failure_result (command_action command) x = Inr v \<and> fits command v"
  by (cases x) (simp_all add: failure_result_def error_fits failure_codes)

lemma disabled_fits: "\<exists>v. error_of CmdTranslation ''translation_disabled'' False False = Inr v \<and> fits (TranslationCommand d req) v"
proof -
  have "safe_code ''translation_disabled''" by code_simp
  then show ?thesis by (simp add: error_of_def make_result_def made_def fits_def result_action_def target_mismatch_def)
qed

text \<open>The reference store answers for the id it was asked for.\<close>

definition answers_for_ids :: "'s worker_dispatcher \<Rightarrow> bool" where
  "answers_for_ids wd \<longleftrightarrow>
     (\<forall>d s ref s'. lr_resolve_drawing (wd_references wd) (wd_tenant wd) (wd_device wd) d s = (Inr ref, s') \<longrightarrow> ld_drawing ref = d)
     \<and> (\<forall>p s ref s'. lr_resolve_project (wd_references wd) (wd_tenant wd) (wd_device wd) p s = (Inr ref, s') \<longrightarrow> lp_project ref = p)"

lemma answers_ids:
  assumes "answers_for_ids wd"
  shows "lr_resolve_drawing (wd_references wd) (wd_tenant wd) (wd_device wd) d s = (Inr ref, s') \<Longrightarrow> ld_drawing ref = d"
    and "lr_resolve_project (wd_references wd) (wd_tenant wd) (wd_device wd) p s = (Inr project, s') \<Longrightarrow> lp_project project = p"
  using assms unfolding answers_for_ids_def by blast+

lemma environment_fits: "environment_result_of wd s = (Inr v, t) \<Longrightarrow> fits ValidateEnvironmentCommand v"
  by (auto simp add: environment_result_of_def environment_report_def bindS_eq_Inr Let_def make_result_ok fits_def
      result_action_def target_mismatch_def)

lemma projects_fit: "projects_result_of wd s = (Inr v, t) \<Longrightarrow> fits ListProjectsCommand v"
  by (auto simp add: projects_result_of_def bindS_eq_Inr make_result_ok fits_def result_action_def target_mismatch_def)

lemma drawings_fit:
  assumes "answers_for_ids wd" and "drawings_result_of wd p rc cur lim s = (Inr v, t)"
  shows "fits (ScanDrawingsCommand p rc cur lim) v"
proof -
  from assms(2) obtain project s1 r where "lr_resolve_project (wd_references wd) (wd_tenant wd) (wd_device wd) p s = (Inr project, s1)"
    "v = DrawingsResult r" "dr_project r = lp_project project" "valid_worker_result v"
    by (auto simp add: drawings_result_of_def bindS_eq_Inr make_result_ok simp del: valid_worker_result.simps split: if_splits)
  with answers_ids(2)[OF assms(1)] show ?thesis
    by (auto simp add: fits_def result_action_def target_mismatch_def simp del: valid_worker_result.simps)
qed

lemma inspection_report_ok:
  "inspection_report wd drawing i = Inr v \<Longrightarrow> \<exists>r. v = InspectionResult r \<and> ir_drawing r = drawing \<and> valid_worker_result v"
  by (auto simp add: inspection_report_def make_result_ok simp del: valid_worker_result.simps)

lemma plan_report_ok:
  "plan_report wd drawing plan = Inr v \<Longrightarrow> \<exists>r. v = PublishPlanResult r \<and> pp_drawing r = drawing \<and> valid_worker_result v"
  by (auto simp add: plan_report_def make_result_ok simp del: valid_worker_result.simps split: py_value.splits)

lemma inspection_fits:
  assumes "answers_for_ids wd" and "inspection_result_of wd d s = (Inr v, t)"
  shows "fits (InspectDrawingCommand d) v"
proof -
  from assms(2) obtain ref s1 i where r: "lr_resolve_drawing (wd_references wd) (wd_tenant wd) (wd_device wd) d s = (Inr ref, s1)"
    "inspection_report wd (ld_drawing ref) i = Inr v" by (auto simp add: inspection_result_of_def bindS_eq_Inr)
  with answers_ids(1)[OF assms(1) r(1)] inspection_report_ok[OF r(2)] show ?thesis
    by (auto simp add: fits_def result_action_def target_mismatch_def simp del: valid_worker_result.simps)
qed

lemma plan_fits:
  assumes "answers_for_ids wd" and "plan_result_of wd d s = (Inr v, t)"
  shows "fits (CreatePublishPlanCommand d) v"
proof -
  from assms(2) obtain ref s1 i where r: "lr_resolve_drawing (wd_references wd) (wd_tenant wd) (wd_device wd) d s = (Inr ref, s1)"
    "plan_report wd (ld_drawing ref) i = Inr v" by (auto simp add: plan_result_of_def bindS_eq_Inr)
  with answers_ids(1)[OF assms(1) r(1)] plan_report_ok[OF r(2)] show ?thesis
    by (auto simp add: fits_def result_action_def target_mismatch_def simp del: valid_worker_result.simps)
qed

section \<open>Translation backends\<close>

text \<open>What a dispatcher needs of its translation backend, in states that satisfy ready.\<close>

locale answering_backend =
  fixes translate :: "instant task_envelope \<Rightarrow> local_drawing \<Rightarrow> ('s, worker_result) py" and ready :: "'s \<Rightarrow> bool"
  assumes translate_answers: "ready s \<Longrightarrow> te_command e = TranslationCommand d req \<Longrightarrow> valid_request req \<Longrightarrow>
      translate e ref s = (Inr v, t) \<Longrightarrow>
      \<exists>resp. v = TranslationResult (ld_drawing ref) resp \<and> valid_response resp \<and> answers req resp"
begin

lemma translation_fits:
  assumes "ready s" "valid_command (te_command e)" "te_command e = TranslationCommand d req" "ld_drawing ref = d"
    and "translate e ref s = (Inr v, t)"
  shows "fits (te_command e) v"
  using translate_answers[OF assms(1,3) _ assms(5)] assms(2-4)
  by (auto simp add: fits_def result_action_def target_mismatch_def simp flip: matching_result_answers)

lemma command_fits:
  assumes ids: "answers_for_ids wd" and tr: "wd_translation wd = Some translate" and ok: "ready s"
    and keeps: "\<And>d. keeps ready (lr_resolve_drawing (wd_references wd) (wd_tenant wd) (wd_device wd) d)"
    and valid: "valid_command (te_command e)" and run: "run_command wd e s = (Inr v, t)"
  shows "fits (te_command e) v"
proof (cases "te_command e")
  case (TranslationCommand d req)
  with run tr obtain ref s1 where r: "lr_resolve_drawing (wd_references wd) (wd_tenant wd) (wd_device wd) d s = (Inr ref, s1)"
    "translate e ref s1 = (Inr v, t)" by (auto simp add: run_command_def bindS_eq_Inr)
  have "ready s1" using keepsD[OF keeps ok, of d] r(1) by simp
  moreover have "ld_drawing ref = d" using ids r(1) unfolding answers_for_ids_def by blast
  ultimately show ?thesis using translation_fits[OF _ valid TranslationCommand _ r(2)] by blast
qed (use run ids in \<open>auto simp add: run_command_def intro: environment_fits projects_fit drawings_fit inspection_fits plan_fits\<close>)

lemma authorized_fits:
  assumes "answers_for_ids wd" "wd_translation wd = Some translate" "ready s"
    and "\<And>d. keeps ready (lr_resolve_drawing (wd_references wd) (wd_tenant wd) (wd_device wd) d)"
    and "valid_command (te_command e)"
  shows "\<exists>v t. execute_authorized wd e s = (Inr v, t) \<and> fits (te_command e) v"
proof -
  obtain a t where a: "run_command wd e s = (a, t)" by (cases "run_command wd e s")
  show ?thesis
  proof (cases a)
    case (Inl x)
    with a failure_fits[of "te_command e" x] show ?thesis by (auto simp add: execute_authorized_def catchS_def)
  next
    case (Inr v)
    with a command_fits[OF assms] show ?thesis by (auto simp add: execute_authorized_def catchS_def)
  qed
qed

end

lemma remote_translation_answers:
  assumes "(\<lambda>(t, x). tables_ok t) s" "te_command e = TranslationCommand d req" "valid_request req"
    and "remote_execute tb e ref s = (Inr v, u)"
  shows "\<exists>resp. v = TranslationResult (ld_drawing ref) resp \<and> valid_response resp \<and> answers req resp"
proof -
  obtain t x where s: "s = (t, x)" by (cases s)
  from assms(1) s have "tables_ok t" by simp
  from execute_answers[OF this assms(2,3) assms(4)[unfolded s]] show ?thesis .
qed

interpretation rb: answering_backend "remote_execute tb" "\<lambda>(t, x). tables_ok t"
  by unfold_locales (rule remote_translation_answers)

section \<open>The answer\<close>

lemma envelope_ok:
  assumes "valid_task_envelope e" and "valid_worker_result v" and "signature_pattern sg"
  shows "worker_result_envelope (result_values e (OffsetTime 0 t) v sg) = Inr \<lparr>re_tenant = te_tenant e, re_user = te_user e,
     re_device = te_device e, re_task = te_task e, re_operation = te_operation e, re_command_id = te_command_id e,
     re_completed = t, re_result = v, re_signature = sg\<rparr>"
  using assms
  by (simp add: worker_result_envelope_def result_values_def result_fields_ok_def require_utc_def valid_task_envelope_def
      task_fields_ok_def del: valid_worker_result.simps)


section \<open>An answered task\<close>

definition sample_dispatcher :: "(translation_tables \<times> nat) worker_dispatcher" where
  "sample_dispatcher = \<lparr>wd_tenant = tid, wd_user = uid, wd_device = wid, wd_policy = 3,
     wd_references = \<lparr>lr_resolve_drawing = (\<lambda>_ _ d. ret \<lparr>ld_tenant = tid, ld_device = wid, ld_project = ''prj'',
         ld_alias = ''a'', ld_drawing = d, ld_relative = codes ''a.dwg'', ld_file = codes ''a.dwg''\<rparr>),
       lr_resolve_project = (\<lambda>_ _ p. ret \<lparr>lp_tenant = tid, lp_device = wid, lp_project = p, lp_alias = ''a'', lp_root = codes ''/''\<rparr>),
       lr_list_projects = (\<lambda>_ _. raise (LocalReferenceError ''unavailable'')),
       lr_get_or_register = (\<lambda>_ _ p _. raise (LocalReferenceError ''unavailable''))\<rparr>,
     wd_backend = \<lparr>lb_environment = raise (RuntimeError ''none''), lb_scan = (\<lambda>_ _ _. ret []),
       lb_inspect = (\<lambda>_. raise (AutoCADUnavailable ''none'')), lb_plan = (\<lambda>_. raise AutoCADTimeout)\<rparr>,
     wd_translation = Some (remote_execute sample_backend), wd_locate = (\<lambda>p r. ret (p, p)),
     wd_from_iso = (\<lambda>_. Inl (ValueError ''iso'')), wd_alpha = ascii_letter, wd_float = (\<lambda>_. Inl wire_invalid),
     wd_sha256 = (\<lambda>_. replicate 32 7), wd_catalog_bytes = (\<lambda>_. []), wd_stamp = dec_int, wd_result_bytes = (\<lambda>_. [1])\<rparr>"


end
