(* ===== verification/Worker_Routes.thy ===== *)
theory Worker_Routes
  imports Worker_Ingress
begin

text \<open>
  The worker's HTTP endpoints (services/gateway/cadplot\_gateway/worker\_routes.py) and the service
  resolver they use (composition.py): the checks of the host, headers and body of a request, the
  three operations poll, start and complete, each composed of authentication, presence, the
  tenant's stores, the service and the ingress, and the table that turns an error into a status.
  Header names and values are ISO-8859-1 text, as Starlette reads them.
\<close>

section \<open>Requests and responses\<close>

text \<open>
  The body arrives as a stream of chunks; an error in it is the stream raising there.
\<close>

record http_request =
  rq_headers :: "(string \<times> string) list"
  rq_stream :: "nat list res list"

datatype route_body = NoContent | PayloadBody "nat list" | ErrorBody string

text \<open>Every response carries the same no-store headers, which are left out.\<close>

datatype route_response = Response (rs_status: nat) (rs_body: route_body)

definition json_bytes_response :: "nat list \<Rightarrow> route_response" where
  "json_bytes_response payload = Response 200 (PayloadBody payload)"

definition error_response :: "nat \<Rightarrow> string \<Rightarrow> route_response" where
  "error_response status code = Response status (ErrorBody code)"

text \<open>request.headers.get: the first header of that (lower case) name.\<close>

definition header_value :: "http_request \<Rightarrow> string \<Rightarrow> string option" where
  "header_value rq name = map_of (rq_headers rq) name"

definition header_or :: "http_request \<Rightarrow> string \<Rightarrow> string \<Rightarrow> string" where
  "header_or rq name absent = (case header_value rq name of None \<Rightarrow> absent | Some v \<Rightarrow> v)"

section \<open>Unique headers\<close>

definition proof_header_names :: "string list" where
  "proof_header_names = [''x-cadplot-tenant-id'', ''x-cadplot-device-id'', ''x-cadplot-key-id'',
     ''x-cadplot-issued-at'', ''x-cadplot-nonce'', ''x-cadplot-body-sha256'', ''x-cadplot-signature'']"

definition required_singleton_headers :: "string list" where
  "required_singleton_headers = proof_header_names @ [''host'', ''content-type'']"

definition optional_singleton_headers :: "string list" where
  "optional_singleton_headers = [''content-length'', ''content-encoding'', ''origin'']"

definition ascii_name :: "string \<Rightarrow> string res" where
  "ascii_name name = (if list_all (\<lambda>c. (of_char c :: nat) < 128) name
     then Inr (map (\<lambda>c. char_of (ascii_lower (of_char c))) name) else Inl WorkerAuthenticationError)"

text \<open>The dict of the headers is the list of its assignments, in order: the last one counts.\<close>

definition unique_headers :: "http_request \<Rightarrow> (string \<times> string) list res" where
  "unique_headers rq =
     bindR (collect ascii_name (map fst (rq_headers rq))) (\<lambda>names.
     if list_ex (\<lambda>n. count_list names n \<noteq> 1) required_singleton_headers then Inl WorkerAuthenticationError
     else if list_ex (\<lambda>n. count_list names n > 1) optional_singleton_headers then Inl WorkerAuthenticationError
     else Inr (zip names (map snd (rq_headers rq))))"

section \<open>The host\<close>

text \<open>
  What urlsplit makes of the text after "//": tabs and line ends are removed, the netloc ends at
  the first of / ? and \#. Which netlocs with both brackets it accepts is a parameter (it asks
  ipaddress, and the releases of Python differ); no ISO-8859-1 text fails its NFKC check.
\<close>

definition split_netloc :: "string \<Rightarrow> string \<times> string" where
  "split_netloc raw = (let url = filter (\<lambda>c. c \<notin> {char_of (9::nat), char_of (10::nat), char_of (13::nat)}) raw;
     inside = (\<lambda>c. c \<notin> {CHR ''/'', CHR ''?'', CHR ''#''}) in
     (takeWhile inside url, dropWhile inside url))"

definition after_first :: "'a \<Rightarrow> 'a list \<Rightarrow> 'a list" where
  "after_first c xs = drop 1 (dropWhile (\<lambda>x. x \<noteq> c) xs)"

definition before_first :: "'a \<Rightarrow> 'a list \<Rightarrow> 'a list" where
  "before_first c xs = takeWhile (\<lambda>x. x \<noteq> c) xs"

definition after_last :: "'a \<Rightarrow> 'a list \<Rightarrow> 'a list" where
  "after_last c xs = rev (takeWhile (\<lambda>x. x \<noteq> c) (rev xs))"

text \<open>The hostname and port texts of SplitResult: both empty when absent.\<close>

definition host_info :: "string \<Rightarrow> string \<times> string" where
  "host_info netloc = (let info = after_last CHR ''@'' netloc in
     if List.member info CHR ''[''
     then (before_first CHR '']'' (after_first CHR ''['' info),
           after_first CHR '':'' (after_first CHR '']'' (after_first CHR ''['' info)))
     else (before_first CHR '':'' info, after_first CHR '':'' info))"

definition decimal_value :: "string \<Rightarrow> nat" where
  "decimal_value s = foldl (\<lambda>n c. n * 10 + (of_char c - 48)) 0 s"

definition ascii_decimal :: "string \<Rightarrow> bool" where
  "ascii_decimal s \<longleftrightarrow> s \<noteq> [] \<and> list_all is_digit s"

text \<open>int() of a text of digits: more than 4300 of them are refused.\<close>

definition int_of_digits :: "string \<Rightarrow> nat res" where
  "int_of_digits s = (if length s > 4300 then Inl (ValueError ''int_digits'') else Inr (decimal_value s))"

definition port_of :: "string \<Rightarrow> nat option res" where
  "port_of s =
     (if s = [] then Inr None
      else if \<not> ascii_decimal s then Inl (ValueError ''port'')
      else bindR (int_of_digits s) (\<lambda>n. if n \<le> 65535 then Inr (Some n) else Inl (ValueError ''port'')))"

text \<open>
  The hostname (None when empty), the port, and whether the text has a user, a path, a query or a
  fragment.
\<close>

definition split_host :: "(string \<Rightarrow> bool) \<Rightarrow> string \<Rightarrow> (string option \<times> nat option \<times> bool) res" where
  "split_host bracketed_ok raw = (case split_netloc raw of (netloc, rest) \<Rightarrow>
     if List.member netloc CHR ''['' \<noteq> List.member netloc CHR '']'' then Inl (ValueError ''invalid_ipv6_url'')
     else if List.member netloc CHR ''['' \<and> \<not> bracketed_ok netloc then Inl (ValueError ''invalid_ipv6_url'')
     else (case host_info netloc of (hostname, port_text) \<Rightarrow>
       bindR (port_of port_text) (\<lambda>port.
       let fragment = after_first CHR ''#'' rest; resource = before_first CHR ''#'' rest;
           query = after_first CHR ''?'' resource; path = before_first CHR ''?'' resource in
       Inr (if hostname = [] then None else Some hostname, port,
            List.member netloc CHR ''@'' \<or> path \<noteq> [] \<or> query \<noteq> [] \<or> fragment \<noteq> []))))"

text \<open>str.casefold of Unicode text is the parameter casefold.\<close>

definition is_canonical_host :: "(pytext \<Rightarrow> pytext) \<Rightarrow> pytext \<Rightarrow> bool" where
  "is_canonical_host casefold h \<longleftrightarrow>
     h = casefold (py_strip h) \<and> h \<noteq> [] \<and> length h \<le> 253 \<and> \<not> List.member h 47 \<and> \<not> List.member h 92
     \<and> \<not> List.member h 58 \<and> \<not> List.member h 42 \<and> last h \<noteq> 46"

definition host_allowed :: "(pytext \<Rightarrow> pytext) \<Rightarrow> (string \<Rightarrow> bool) \<Rightarrow> pytext list \<Rightarrow> string \<Rightarrow> bool" where
  "host_allowed casefold bracketed_ok hosts raw = (case split_host bracketed_ok raw of
     Inr (Some hostname, port, False) \<Rightarrow>
       List.member hosts (casefold (codes hostname)) \<and> (port = None \<or> port = Some 443)
   | _ \<Rightarrow> False)"

definition require_boundary ::
  "(pytext \<Rightarrow> pytext) \<Rightarrow> (string \<Rightarrow> bool) \<Rightarrow> pytext list \<Rightarrow> http_request \<Rightarrow> unit res" where
  "require_boundary casefold bracketed_ok hosts rq =
     (if \<not> host_allowed casefold bracketed_ok hosts (header_or rq ''host'' '''')
      then Inl (WorkerRouteFailure 421 ''worker_host_rejected'')
      else if header_value rq ''origin'' \<noteq> None then Inl (WorkerRouteFailure 403 ''worker_origin_rejected'')
      else if casefold (py_strip (codes (before_first CHR '';'' (header_or rq ''content-type'' ''''))))
                \<noteq> codes ''application/json''
      then Inl (WorkerRouteFailure 415 ''worker_media_type_rejected'')
      else if casefold (py_strip (codes (header_or rq ''content-encoding'' ''identity'')))
                \<notin> {[], codes ''identity''}
      then Inl (WorkerRouteFailure 415 ''worker_encoding_rejected'')
      else Inr ())"

section \<open>The body\<close>

fun read_chunks :: "nat \<Rightarrow> nat list \<Rightarrow> nat list res list \<Rightarrow> nat list res" where
  "read_chunks limit body [] = Inr body"
| "read_chunks limit body (Inl e # chunks) = Inl e"
| "read_chunks limit body (Inr chunk # chunks) =
     (if int (length chunk) > int limit - int (length body)
      then Inl (WorkerRouteFailure 413 ''worker_request_too_large'')
      else read_chunks limit (body @ chunk) chunks)"

definition read_bounded_body :: "http_request \<Rightarrow> nat \<Rightarrow> nat list res" where
  "read_bounded_body rq limit = (case header_value rq ''content-length'' of
     None \<Rightarrow> read_chunks limit [] (rq_stream rq)
   | Some raw \<Rightarrow>
       (if \<not> ascii_decimal raw then Inl (WorkerRouteFailure 400 ''worker_request_invalid'')
        else bindR (int_of_digits raw) (\<lambda>n.
          if n > limit then Inl (WorkerRouteFailure 413 ''worker_request_too_large'')
          else read_chunks limit [] (rq_stream rq))))"

section \<open>The tenant's stores\<close>

record 's tenant_repository =
  tr_tenant :: "string option"
  tr_catalog :: "'s catalog_repository"
  tr_operations :: "'s operation_repository"

text \<open>TenantServiceResolver.for\_tenant: one service per call over the tenant's repository.\<close>

definition service_for_tenant ::
  "(string \<Rightarrow> 's tenant_repository res) \<Rightarrow> int \<Rightarrow> (string \<Rightarrow> nat list)
    \<Rightarrow> (string \<Rightarrow> string \<Rightarrow> translation_request \<Rightarrow> int) \<Rightarrow> string \<Rightarrow> 's gateway_service res" where
  "service_for_tenant for_tenant ttl sha req_size tenant =
     bindR (catchR (for_tenant tenant) (\<lambda>_. Inl (GatewayError ''service_unavailable''))) (\<lambda>repo.
     if tr_tenant repo \<noteq> Some tenant then Inl (GatewayError ''service_unavailable'')
     else gateway_service_init (tr_catalog repo) (tr_operations repo) ttl sha req_size)"

record verification_key =
  vk_tenant :: string
  vk_ws :: string
  vk_key :: "nat list"

text \<open>
  The worker repository of a tenant: dispatches, result guard, verification keys (a query) and
  presence (which the catalog shows as the workstation being online, so it acts on both stores).
  Its implementation is over SQL; here it is a record of its methods.
\<close>

record ('s, 'g) worker_repository =
  wr_tenant :: "string option"
  wr_store_dispatch :: "signed_dispatch \<Rightarrow> ('g, signed_dispatch) py"
  wr_get_dispatch :: "string \<Rightarrow> string \<Rightarrow> string \<Rightarrow> ('g, signed_dispatch option) py"
  wr_guard :: "'g replay_guard"
  wr_keys :: "string \<Rightarrow> 'g \<Rightarrow> verification_key list res"
  wr_record_presence :: "string \<Rightarrow> string \<Rightarrow> int \<Rightarrow> ('s \<times> 'g, bool) py"

section \<open>The controller\<close>

text \<open>
  The wire formats (pydantic), SHA-256, Ed25519 and str.casefold are fields, as in the components
  below. The result of service\_resolver.for\_worker may be something else than a GatewayService
  (None).
\<close>

record ('s, 'g) route_controller =
  rc_authenticator :: "'g authenticator"
  rc_service_for :: "worker_context \<Rightarrow> 's gateway_service option res"
  rc_operations_for :: "string \<Rightarrow> 's tenant_repository res"
  rc_workers_for :: "string \<Rightarrow> ('s, 'g) worker_repository res"
  rc_adapter :: dispatch_adapter
  rc_lease_seconds :: int
  rc_hosts :: "pytext list"
  rc_max_age :: int
  rc_casefold :: "pytext \<Rightarrow> pytext"
  rc_bracketed_ok :: "string \<Rightarrow> bool"
  rc_result_bytes :: "instant result_envelope \<Rightarrow> nat list"
  rc_parse_poll :: "nat list \<Rightarrow> poll_request res"
  rc_parse_start :: "nat list \<Rightarrow> start_request res"
  rc_parse_result :: "nat list \<Rightarrow> instant result_envelope res"
  rc_dump_task :: "instant task_envelope \<Rightarrow> pytext"
  rc_dump_ack :: "control_ack \<Rightarrow> pytext"

text \<open>The constructor: c holds the fields it only stores.\<close>

definition controller_init ::
  "('s, 'g) route_controller \<Rightarrow> pytext list \<Rightarrow> int \<Rightarrow> int \<Rightarrow> ('s, 'g) route_controller res" where
  "controller_init c hosts lease_seconds policy =
     (if hosts = [] \<or> length hosts > 16 \<or> \<not> list_all (is_canonical_host (rc_casefold c)) hosts \<or> \<not> distinct hosts
      then Inl (RouteConfigurationError ''worker_hosts_invalid'')
      else if \<not> (5 \<le> lease_seconds \<and> lease_seconds \<le> 300)
      then Inl (RouteConfigurationError ''worker_lease_invalid'')
      else bindR (catchR (dispatch_adapter_init policy (da_sign (rc_adapter c)) (da_sha256 (rc_adapter c)) (da_stamp (rc_adapter c)))
                    (\<lambda>_. Inl (RouteConfigurationError ''worker_configuration_invalid''))) (\<lambda>adapter.
           Inr (c\<lparr>rc_adapter := adapter, rc_hosts := hosts, rc_lease_seconds := lease_seconds\<rparr>)))"

definition unavailable :: exn where
  "unavailable = WorkerRouteFailure 503 ''worker_service_unavailable''"

definition rejected :: exn where
  "rejected = WorkerRouteFailure 409 ''worker_request_rejected''"

definition service_of :: "('s, 'g) route_controller \<Rightarrow> worker_context \<Rightarrow> 's gateway_service res" where
  "service_of c worker = bindR (rc_service_for c worker) (\<lambda>found. case found of
     None \<Rightarrow> Inl unavailable | Some sv \<Rightarrow> Inr sv)"

definition operation_repository_of :: "('s, 'g) route_controller \<Rightarrow> string \<Rightarrow> 's tenant_repository res" where
  "operation_repository_of c tenant = bindR (rc_operations_for c tenant) (\<lambda>repo.
     if tr_tenant repo \<noteq> Some tenant then Inl unavailable else Inr repo)"

definition worker_repository_of :: "('s, 'g) route_controller \<Rightarrow> string \<Rightarrow> ('s, 'g) worker_repository res" where
  "worker_repository_of c tenant = bindR (rc_workers_for c tenant) (\<lambda>repo.
     if wr_tenant repo \<noteq> Some tenant then Inl unavailable else Inr repo)"

definition require_body_identity :: "worker_context \<Rightarrow> string \<Rightarrow> string \<Rightarrow> unit res" where
  "require_body_identity worker tenant device =
     (if tenant \<noteq> w_tenant worker \<or> device \<noteq> w_ws worker then Inl rejected else Inr ())"

definition route_authenticate ::
  "('s, 'g) route_controller \<Rightarrow> (string \<times> string) list \<Rightarrow> nat list \<Rightarrow> string \<Rightarrow> py_datetime
    \<Rightarrow> ('s \<times> 'g, worker_context \<times> string) py" where
  "route_authenticate c headers body route clk =
     bindS (on_guard (authenticate (rc_authenticator c) headers body ''POST'' route clk)) (\<lambda>(worker, proof).
     ret (worker, rp_key proof))"

definition record_presence :: "('s, 'g) route_controller \<Rightarrow> worker_context \<Rightarrow> string \<Rightarrow> ('s \<times> 'g, unit) py" where
  "record_presence c worker key_id =
     bindS (liftR (worker_repository_of c (w_tenant worker))) (\<lambda>repo.
     bindS (wr_record_presence repo (w_ws worker) key_id 120) (\<lambda>present.
     guardS present WorkerAuthenticationError))"

definition parsed_request :: "'a res \<Rightarrow> 'a res" where
  "parsed_request r = catchR r (\<lambda>e. Inl (if is_value_or_type_error e
     then WorkerRouteFailure 400 ''worker_request_invalid'' else e))"

section \<open>The ingress of a request\<close>

definition checked_key :: "worker_context \<Rightarrow> verification_key \<Rightarrow> nat list res" where
  "checked_key worker k =
     (if vk_tenant k \<noteq> w_tenant worker \<or> vk_ws k \<noteq> w_ws worker \<or> length (vk_key k) \<noteq> 32 then Inl unavailable
      else Inr (vk_key k))"

definition result_keys :: "('s, 'g) worker_repository \<Rightarrow> worker_context \<Rightarrow> 'g \<Rightarrow> string \<Rightarrow> nat list list res" where
  "result_keys repo worker g device =
     (if device \<noteq> w_ws worker then Inr []
      else bindR (wr_keys repo (w_ws worker) g) (collect (checked_key worker)))"

text \<open>
  The verifier asks for the keys when it is called; nothing between the construction of the
  ingress and that call changes them, so they are those of the state g of the construction.
\<close>

definition route_ingress ::
  "('s, 'g) route_controller \<Rightarrow> worker_context \<Rightarrow> ('s, 'g) worker_repository \<Rightarrow> 'g \<Rightarrow> ('s, 'g) worker_ingress res" where
  "route_ingress c worker repo g =
     bindR (service_of c worker) (\<lambda>sv.
     bindR (ingress_max_age (rc_max_age c)) (\<lambda>age.
     Inr \<lparr>in_service = sv, in_guard = wr_guard repo,
       in_verify = (\<lambda>device payload signature.
          verify_with_keys (au_ed25519 (rc_authenticator c)) (result_keys repo worker g device) payload signature),
       in_max_age = age, in_sha256 = da_sha256 (rc_adapter c), in_result_bytes = rc_result_bytes c,
       in_parse_result = rc_parse_result c, in_parse_start = rc_parse_start c\<rparr>))"

definition ingress_here ::
  "('s, 'g) route_controller \<Rightarrow> worker_context \<Rightarrow> ('s, 'g) worker_repository \<Rightarrow> ('s \<times> 'g, ('s, 'g) worker_ingress) py" where
  "ingress_here c worker repo = (\<lambda>(s, g). (route_ingress c worker repo g, (s, g)))"

section \<open>The three operations\<close>

text \<open>What the operations read and draw: the clocks of each part, the uuids and nonce of a dispatch.\<close>

record route_inputs =
  ri_auth_now :: py_datetime
  ri_service_now :: py_datetime
  ri_now :: py_datetime
  ri_uuid1 :: string
  ri_uuid2 :: string
  ri_nonce :: string
  ri_complete :: ingress_inputs

definition poll_operation ::
  "('s, 'g) route_controller \<Rightarrow> worker_context \<Rightarrow> poll_request \<Rightarrow> route_inputs \<Rightarrow> worker_lease
    \<Rightarrow> ('s \<times> 'g, route_response) py" where
  "poll_operation c worker request inp lease =
     bindS (liftR (operation_repository_of c (w_tenant worker))) (\<lambda>operations.
     bindS (on_service (r_get (tr_operations operations) (l_id lease))) (\<lambda>found.
     case found of None \<Rightarrow> raise unavailable
     | Some oper \<Rightarrow>
       bindS (guardS (o_owner oper = wp_user request) rejected) (\<lambda>_.
       bindS (liftR (build_dispatch (rc_adapter c) oper (ri_now inp) (ri_uuid1 inp) (ri_uuid2 inp) (ri_nonce inp))) (\<lambda>dispatch.
       bindS (liftR (worker_repository_of c (w_tenant worker))) (\<lambda>repo.
       bindS (on_guard (wr_store_dispatch repo dispatch)) (\<lambda>stored.
       bindS (liftR (serialize_task_payload (rc_dump_task c) (sd_envelope stored))) (\<lambda>payload.
       ret (json_bytes_response payload))))))))"

definition route_poll ::
  "('s, 'g) route_controller \<Rightarrow> (string \<times> string) list \<Rightarrow> nat list \<Rightarrow> route_inputs \<Rightarrow> ('s \<times> 'g, route_response) py" where
  "route_poll c headers body inp =
     bindS (route_authenticate c headers body ''/worker/v1/tasks/poll'' (ri_auth_now inp)) (\<lambda>(worker, key_id).
     bindS (liftR (parsed_request (parse_control_payload (rc_parse_poll c) (PayloadBytes body)))) (\<lambda>request.
     bindS (liftR (require_body_identity worker (wp_tenant request) (wp_device request))) (\<lambda>_.
     bindS (record_presence c worker key_id) (\<lambda>_.
     bindS (liftR (service_of c worker)) (\<lambda>service.
     bindS (on_service (gw_worker_lease service worker (wp_user request) (rc_lease_seconds c) (ri_service_now inp))) (\<lambda>leased.
     case leased of None \<Rightarrow> ret (Response 204 NoContent)
     | Some lease \<Rightarrow> poll_operation c worker request inp lease))))))"

definition find_dispatch ::
  "('s, 'g) route_controller \<Rightarrow> worker_context \<Rightarrow> string \<Rightarrow> string
    \<Rightarrow> ('s \<times> 'g, ('s, 'g) worker_repository \<times> signed_dispatch) py" where
  "find_dispatch c worker task oper =
     bindS (liftR (worker_repository_of c (w_tenant worker))) (\<lambda>repo.
     bindS (on_guard (wr_get_dispatch repo (w_ws worker) task oper)) (\<lambda>found.
     case found of None \<Rightarrow> raise rejected | Some d \<Rightarrow> ret (repo, d)))"

definition acknowledge :: "('s, 'g) route_controller \<Rightarrow> control_ack \<Rightarrow> ('s \<times> 'g, route_response) py" where
  "acknowledge c ack = bindS (liftR (serialize_control_payload (rc_dump_ack c) ack)) (\<lambda>payload.
     ret (json_bytes_response payload))"

definition route_start ::
  "('s, 'g) route_controller \<Rightarrow> (string \<times> string) list \<Rightarrow> nat list \<Rightarrow> route_inputs \<Rightarrow> ('s \<times> 'g, route_response) py" where
  "route_start c headers body inp =
     bindS (route_authenticate c headers body ''/worker/v1/tasks/start'' (ri_auth_now inp)) (\<lambda>(worker, key_id).
     bindS (liftR (parsed_request (parse_control_payload (rc_parse_start c) (PayloadBytes body)))) (\<lambda>request.
     bindS (liftR (require_body_identity worker (st_tenant request) (st_device request))) (\<lambda>_.
     bindS (record_presence c worker key_id) (\<lambda>_.
     bindS (find_dispatch c worker (st_task request) (st_operation request)) (\<lambda>(repo, dispatch).
     bindS (ingress_here c worker repo) (\<lambda>ingress.
     bindS (ingress_start ingress worker (sd_correlation dispatch) (PayloadBytes body) (ri_now inp) (ri_service_now inp))
       (acknowledge c)))))))"

definition route_complete ::
  "('s, 'g) route_controller \<Rightarrow> (string \<times> string) list \<Rightarrow> nat list \<Rightarrow> route_inputs \<Rightarrow> ('s \<times> 'g, route_response) py" where
  "route_complete c headers body inp =
     bindS (route_authenticate c headers body ''/worker/v1/tasks/complete'' (ri_auth_now inp)) (\<lambda>(worker, key_id).
     bindS (liftR (parsed_request (parse_result_payload (rc_parse_result c) (PayloadBytes body)))) (\<lambda>result.
     bindS (liftR (require_body_identity worker (re_tenant result) (re_device result))) (\<lambda>_.
     bindS (record_presence c worker key_id) (\<lambda>_.
     bindS (find_dispatch c worker (re_task result) (re_operation result)) (\<lambda>(repo, dispatch).
     bindS (ingress_here c worker repo) (\<lambda>ingress.
     bindS (ingress_complete ingress worker (sd_correlation dispatch) (PayloadBytes body) (ri_complete inp))
       (acknowledge c)))))))"

section \<open>Handling a request\<close>

definition unavailable_response :: "nat \<times> string" where
  "unavailable_response = (503, ''worker_service_unavailable'')"

definition rejected_response :: "nat \<times> string" where
  "rejected_response = (409, ''worker_request_rejected'')"

fun error_status :: "exn \<Rightarrow> nat \<times> string" where
  "error_status (WorkerRouteFailure status code) = (status, code)"
| "error_status WorkerAuthenticationError = (401, ''worker_authentication_failed'')"
| "error_status (WorkerIngressError code) =
     (if code \<in> {''result_invalid'', ''start_invalid''} then (400, ''worker_request_invalid'')
      else if code = ''clock_invalid'' then unavailable_response else rejected_response)"
| "error_status (ControlRepositoryError code) =
     (if code \<in> {''repository_failure'', ''invalid_pool''} then unavailable_response
      else if code \<in> {''invalid_identifier'', ''invalid_dispatch'', ''invalid_replay''}
      then (400, ''worker_request_invalid'') else rejected_response)"
| "error_status (GatewayError code) =
     (if code \<in> {''catalog_sync_failed'', ''service_unavailable'', ''gateway_failure''}
      then unavailable_response else rejected_response)"
| "error_status e = unavailable_response"

definition handle_request ::
  "('s, 'g) route_controller \<Rightarrow> http_request \<Rightarrow> nat
    \<Rightarrow> ((string \<times> string) list \<Rightarrow> nat list \<Rightarrow> ('s \<times> 'g, route_response) py) \<Rightarrow> ('s \<times> 'g, route_response) py" where
  "handle_request c rq max_body_bytes operation =
     catchS
       (bindS (liftR (unique_headers rq)) (\<lambda>headers.
        bindS (liftR (require_boundary (rc_casefold c) (rc_bracketed_ok c) (rc_hosts c) rq)) (\<lambda>_.
        bindS (liftR (read_bounded_body rq max_body_bytes)) (\<lambda>body. operation headers body))))
       (\<lambda>e. case error_status e of (status, code) \<Rightarrow> ret (error_response status code))"

definition http_poll :: "('s, 'g) route_controller \<Rightarrow> http_request \<Rightarrow> route_inputs \<Rightarrow> ('s \<times> 'g, route_response) py" where
  "http_poll c rq inp = handle_request c rq max_control_payload_bytes (\<lambda>h b. route_poll c h b inp)"

definition http_start :: "('s, 'g) route_controller \<Rightarrow> http_request \<Rightarrow> route_inputs \<Rightarrow> ('s \<times> 'g, route_response) py" where
  "http_start c rq inp = handle_request c rq max_control_payload_bytes (\<lambda>h b. route_start c h b inp)"

definition http_complete :: "('s, 'g) route_controller \<Rightarrow> http_request \<Rightarrow> route_inputs \<Rightarrow> ('s \<times> 'g, route_response) py" where
  "http_complete c rq inp = handle_request c rq max_result_payload_bytes (\<lambda>h b. route_complete c h b inp)"

end
