(* ===== verification/Local_References.thy ===== *)
theory Local_References
  imports Worker_Dispatch
begin

text \<open>
  LocalReferenceStore (src/cadplot\_mcp/local\_refs.py): the workstation's SQLite tables of projects
  and drawings under opaque ids, of accepted dispatch nonces, and of results not yet delivered. A
  table is the list of its rows in the order of insertion; a statement checks the constraints of
  the schema. Paths, the connection and case folding are operations of a record.
\<close>

section \<open>Tables\<close>

text \<open>
  Columns that hold isoformat() of a UTC datetime hold the instant: that text has fixed widths
  and an optional fraction, and "+" sorts before ".", so the text order the statements use is the
  order in time.
\<close>

record project_row =
  jp_project :: string
  jp_tenant :: string
  jp_device :: string
  jp_alias :: string
  jp_root :: pytext

record drawing_row =
  jd_drawing :: string
  jd_tenant :: string
  jd_device :: string
  jd_project :: string
  jd_relative :: pytext
  jd_key :: pytext

record nonce_row =
  jn_tenant :: string
  jn_device :: string
  jn_nonce :: string
  jn_expires :: instant

record outbox_row =
  jo_tenant :: string
  jo_device :: string
  jo_task :: string
  jo_operation :: string
  jo_command :: string
  jo_completed :: instant
  jo_payload :: "nat list"

record local_tables =
  lt_projects :: "project_row list"
  lt_drawings :: "drawing_row list"
  lt_nonces :: "nonce_row list"
  lt_outbox :: "outbox_row list"

section \<open>The outside\<close>

text \<open>
  lw\_open is what may fail when a connection is opened or a statement is run, lw\_commit what may
  fail at the end of a transaction; either way nothing is written. lw\_plain\_directory is the path
  as an absolute plain directory, what it resolves to, and whether that is a directory;
  lw\_redirected asks whether one step below a root is a link, lw\_locate finds the file below it.
\<close>

record located_file =
  lf_file :: pytext
  lf_is_file :: bool
  lf_suffix :: pytext
  lf_relative :: "pytext option"

record 'w local_world =
  lw_open :: "('w, unit) py"
  lw_commit :: "('w, unit) py"
  lw_plain_directory :: "pytext \<Rightarrow> ('w, pytext \<times> pytext \<times> bool) py"
  lw_redirected :: "pytext \<Rightarrow> pytext list \<Rightarrow> ('w, bool) py"
  lw_locate :: "pytext \<Rightarrow> pytext list \<Rightarrow> ('w, located_file) py"
  lw_uuid :: "('w, string) py"

record 'w local_store =
  sr_world :: "'w local_world"
  sr_casefold :: "pytext \<Rightarrow> pytext"
  sr_normcase :: "pytext \<Rightarrow> pytext"
  sr_dump :: "instant result_envelope \<Rightarrow> pytext"
  sr_parse :: "nat list \<Rightarrow> instant result_envelope res"

type_synonym ('w, 'a) lr = "(local_tables \<times> 'w, 'a) py"

definition beside :: "('w, 'a) py \<Rightarrow> ('t \<times> 'w, 'a) py" where
  "beside m = (\<lambda>(t, x). case m x of (r, x') \<Rightarrow> (r, (t, x')))"

text \<open>with self.\_connect() as connection: committed as a whole or not at all.\<close>

definition connected :: "'w local_store \<Rightarrow> (local_tables, 'a) py \<Rightarrow> ('w, 'a) lr" where
  "connected st m = bindS (beside (lw_open (sr_world st))) (\<lambda>_. \<lambda>(t, x).
     case m t of
       (Inl e, _) \<Rightarrow> (Inl e, (t, x))
     | (Inr v, t') \<Rightarrow> (case lw_commit (sr_world st) x of
           (Inl e, x') \<Rightarrow> (Inl e, (t, x')) | (Inr _, x') \<Rightarrow> (Inr v, (t', x'))))"

definition query :: "(local_tables \<Rightarrow> 'a) \<Rightarrow> (local_tables, 'a) py" where
  "query f = (\<lambda>t. (Inr (f t), t))"

section \<open>Handlers\<close>

fun is_integrity_error :: "exn \<Rightarrow> bool" where
  "is_integrity_error (IntegrityError c) = True"
| "is_integrity_error e = False"

text \<open>IntegrityError is a subclass of DatabaseError.\<close>

fun is_database_error :: "exn \<Rightarrow> bool" where
  "is_database_error (IntegrityError c) = True"
| "is_database_error (DatabaseError c) = True"
| "is_database_error e = False"

fun is_os_error :: "exn \<Rightarrow> bool" where
  "is_os_error (SystemCallError c) = True"
| "is_os_error (FileNotFound c) = True"
| "is_os_error e = False"

text \<open>(OSError, PathPolicyError, RuntimeError, TypeError, ValueError).\<close>

fun is_path_error :: "exn \<Rightarrow> bool" where
  "is_path_error (RuntimeError c) = True"
| "is_path_error e = (is_os_error e \<or> is_value_or_type_error e)"

definition turned_into :: "(exn \<Rightarrow> bool) \<Rightarrow> string \<Rightarrow> ('s, 'a) py \<Rightarrow> ('s, 'a) py" where
  "turned_into caught code m = catchS m (\<lambda>e. raise (if caught e then LocalReferenceError code else e))"

definition refuse :: "bool \<Rightarrow> string \<Rightarrow> ('s, unit) py" where
  "refuse ok code = guardS ok (LocalReferenceError code)"

text \<open>\_validated.\<close>

definition validated :: "(string \<Rightarrow> bool) \<Rightarrow> string \<Rightarrow> ('s, unit) py" where
  "validated pattern value = refuse (pattern value) ''invalid_identifier''"

definition validated_scope :: "string \<Rightarrow> string \<Rightarrow> ('s, unit) py" where
  "validated_scope tenant device = bindS (validated remote_tenant_id tenant) (\<lambda>_. validated remote_device_id device)"

section \<open>Paths\<close>

definition same_path_text :: "'w local_store \<Rightarrow> pytext \<Rightarrow> pytext \<Rightarrow> bool" where
  "same_path_text st a b \<longleftrightarrow> sr_normcase st a = sr_normcase st b"

definition canonical_project_root :: "'w local_store \<Rightarrow> pytext \<Rightarrow> ('w, pytext) py" where
  "canonical_project_root st value =
     bindS (turned_into is_path_error ''directory_invalid'' (lw_plain_directory (sr_world st) value))
       (\<lambda>(plain, resolved, is_dir).
     bindS (refuse (is_dir \<and> same_path_text st resolved plain) ''directory_not_canonical'') (\<lambda>_.
     ret resolved))"

text \<open>PurePosixPath: the parts between slashes, without empty ones and single dots.\<close>

fun slash_parts :: "pytext \<Rightarrow> pytext \<Rightarrow> pytext list" where
  "slash_parts part [] = [rev part]"
| "slash_parts part (c # cs) = (if c = 47 then rev part # slash_parts [] cs else slash_parts (c # part) cs)"

definition posix_parts :: "pytext \<Rightarrow> pytext list" where
  "posix_parts value = filter (\<lambda>p. p \<noteq> [] \<and> p \<noteq> codes ''.'') (slash_parts [] value)"

fun join_slash :: "pytext list \<Rightarrow> pytext" where
  "join_slash [] = []"
| "join_slash [p] = p"
| "join_slash (p # q # ps) = p @ [47] @ join_slash (q # ps)"

text \<open>PurePath.suffix of a last part: from its last dot on, unless that is its first or last character.\<close>

definition part_suffix :: "pytext \<Rightarrow> pytext" where
  "part_suffix name = (let tail = takeWhile (\<lambda>c. c \<noteq> 46) (rev name) in
     if tail = [] \<or> length name \<le> length tail + 1 then [] else drop (length name - length tail - 1) name)"

definition is_drawing_suffix :: "pytext \<Rightarrow> bool" where
  "is_drawing_suffix s \<longleftrightarrow> map ascii_lower s \<in> {codes ''.dwg'', codes ''.dwt''}"

definition unsafe_part :: "pytext \<Rightarrow> bool" where
  "unsafe_part p \<longleftrightarrow> p \<in> {[], codes ''.'', codes ''..''} \<or> last p = 32 \<or> last p = 46 \<or> List.member p 58"

text \<open>
  \_safe\_relative\_drawing. Without backslashes a Windows path has a drive or a root just when it
  starts with a slash or its second character is a colon.
\<close>

definition safe_relative :: "pytext \<Rightarrow> pytext res" where
  "safe_relative value =
     (if value = [] \<or> value \<noteq> py_strip value \<or> length value > 4096 \<or> List.member value 92
         \<or> list_ex (\<lambda>c. c < 32 \<or> c = 127) value
      then Inl (LocalReferenceError ''relative_invalid'')
      else if (case value of a # b # _ \<Rightarrow> a = 47 \<or> b = 58 | [a] \<Rightarrow> a = 47 | [] \<Rightarrow> False)
      then Inl (LocalReferenceError ''relative_absolute'')
      else let ps = posix_parts value in
        if ps = [] \<or> length ps > 128 \<or> list_ex unsafe_part ps
        then Inl (LocalReferenceError ''relative_unsafe_component'')
        else if \<not> is_drawing_suffix (part_suffix (last ps)) then Inl (LocalReferenceError ''relative_suffix'')
        else Inr (join_slash ps))"

text \<open>\_reject\_redirected\_chain: every step from the root to the file.\<close>

fun reject_redirects :: "'w local_store \<Rightarrow> pytext \<Rightarrow> pytext list \<Rightarrow> pytext list \<Rightarrow> ('w, unit) py" where
  "reject_redirects st root seen [] = ret ()"
| "reject_redirects st root seen (p # ps) =
     bindS (turned_into is_os_error ''unavailable'' (lw_redirected (sr_world st) root (seen @ [p]))) (\<lambda>link.
     bindS (refuse (\<not> link) ''filesystem_redirect'') (\<lambda>_. reject_redirects st root (seen @ [p]) ps))"

definition resolve_local_drawing :: "'w local_store \<Rightarrow> pytext \<Rightarrow> pytext \<Rightarrow> ('w, pytext \<times> pytext) py" where
  "resolve_local_drawing st root value =
     bindS (liftR (safe_relative value)) (\<lambda>relative.
     let parts = posix_parts relative in
     bindS (reject_redirects st root [] parts) (\<lambda>_.
     bindS (turned_into is_path_error ''outside_project'' (lw_locate (sr_world st) root parts)) (\<lambda>f.
     bindS (reject_redirects st root [] parts) (\<lambda>_.
     bindS (refuse (lf_is_file f \<and> is_drawing_suffix (lf_suffix f)) ''not_a_drawing'') (\<lambda>_.
     bindS (liftR (case lf_relative f of None \<Rightarrow> Inl (LocalReferenceError ''outside_project'') | Some r \<Rightarrow> Inr r)) (\<lambda>r.
     bindS (liftR (safe_relative r)) (\<lambda>canonical. ret (lf_file f, canonical))))))))"

section \<open>Statements\<close>

definition scoped_project :: "string \<Rightarrow> string \<Rightarrow> string \<Rightarrow> project_row \<Rightarrow> bool" where
  "scoped_project tenant device project r \<longleftrightarrow> jp_tenant r = tenant \<and> jp_device r = device \<and> jp_project r = project"

definition scoped_drawing :: "string \<Rightarrow> string \<Rightarrow> string \<Rightarrow> drawing_row \<Rightarrow> bool" where
  "scoped_drawing tenant device drawing r \<longleftrightarrow> jd_tenant r = tenant \<and> jd_device r = device \<and> jd_drawing r = drawing"

text \<open>PRIMARY KEY and UNIQUE: no row of the table agrees with the new one on the columns of a key.\<close>

definition conflicts :: "('r \<Rightarrow> 'r \<Rightarrow> bool) list \<Rightarrow> 'r list \<Rightarrow> 'r \<Rightarrow> bool" where
  "conflicts same rows r \<longleftrightarrow> list_ex (\<lambda>q. list_ex (\<lambda>s. s q r) same) rows"

definition project_keys :: "(project_row \<Rightarrow> project_row \<Rightarrow> bool) list" where
  "project_keys = [\<lambda>q r. jp_project q = jp_project r,
     \<lambda>q r. jp_tenant q = jp_tenant r \<and> jp_device q = jp_device r \<and> jp_alias q = jp_alias r,
     \<lambda>q r. jp_tenant q = jp_tenant r \<and> jp_device q = jp_device r \<and> jp_root q = jp_root r]"

definition drawing_keys :: "(drawing_row \<Rightarrow> drawing_row \<Rightarrow> bool) list" where
  "drawing_keys = [\<lambda>q r. jd_drawing q = jd_drawing r,
     \<lambda>q r. jd_tenant q = jd_tenant r \<and> jd_device q = jd_device r \<and> jd_project q = jd_project r \<and> jd_key q = jd_key r]"

definition nonce_keys :: "(nonce_row \<Rightarrow> nonce_row \<Rightarrow> bool) list" where
  "nonce_keys = [\<lambda>q r. jn_tenant q = jn_tenant r \<and> jn_device q = jn_device r \<and> jn_nonce q = jn_nonce r]"

definition outbox_keys :: "(outbox_row \<Rightarrow> outbox_row \<Rightarrow> bool) list" where
  "outbox_keys = [\<lambda>q r. jo_tenant q = jo_tenant r \<and> jo_device q = jo_device r \<and> jo_task q = jo_task r,
     \<lambda>q r. jo_tenant q = jo_tenant r \<and> jo_device q = jo_device r \<and> jo_operation q = jo_operation r
       \<and> jo_command q = jo_command r]"

definition insert_project :: "project_row \<Rightarrow> (local_tables, unit) py" where
  "insert_project r = (\<lambda>t. if conflicts project_keys (lt_projects t) r then (Inl (IntegrityError ''unique''), t)
     else (Inr (), t\<lparr>lt_projects := lt_projects t @ [r]\<rparr>))"

text \<open>The foreign key asks for the project.\<close>

definition insert_drawing :: "drawing_row \<Rightarrow> (local_tables, unit) py" where
  "insert_drawing r = (\<lambda>t.
     if conflicts drawing_keys (lt_drawings t) r then (Inl (IntegrityError ''unique''), t)
     else if find (scoped_project (jd_tenant r) (jd_device r) (jd_project r)) (lt_projects t) = None
     then (Inl (IntegrityError ''foreign_key''), t)
     else (Inr (), t\<lparr>lt_drawings := lt_drawings t @ [r]\<rparr>))"

definition insert_result :: "outbox_row \<Rightarrow> (local_tables, unit) py" where
  "insert_result r = (\<lambda>t. if conflicts outbox_keys (lt_outbox t) r then (Inl (IntegrityError ''unique''), t)
     else (Inr (), t\<lparr>lt_outbox := lt_outbox t @ [r]\<rparr>))"

section \<open>Projects\<close>

definition resolve_project :: "'w local_store \<Rightarrow> string \<Rightarrow> string \<Rightarrow> string \<Rightarrow> ('w, local_project) lr" where
  "resolve_project st tenant device project =
     bindS (validated_scope tenant device) (\<lambda>_.
     bindS (validated remote_project_id project) (\<lambda>_.
     bindS (connected st (query (\<lambda>t. find (scoped_project tenant device project) (lt_projects t)))) (\<lambda>found.
     case found of None \<Rightarrow> raise (LocalReferenceError ''project_unavailable'')
     | Some r \<Rightarrow>
       bindS (turned_into is_value_or_type_error ''project_invalid''
         (bindS (validated_scope (jp_tenant r) (jp_device r)) (\<lambda>_.
          bindS (validated remote_project_id (jp_project r)) (\<lambda>_.
          bindS (validated safe_alias (jp_alias r)) (\<lambda>_.
          beside (canonical_project_root st (jp_root r))))))) (\<lambda>root.
       bindS (refuse (jp_tenant r = tenant \<and> jp_device r = device \<and> jp_project r = project
                      \<and> same_path_text st root (jp_root r)) ''project_invalid'') (\<lambda>_.
       ret \<lparr>lp_tenant = tenant, lp_device = device, lp_project = project, lp_alias = jp_alias r, lp_root = root\<rparr>)))))"

definition register_project ::
  "'w local_store \<Rightarrow> string \<Rightarrow> string \<Rightarrow> string \<Rightarrow> string \<Rightarrow> pytext \<Rightarrow> ('w, local_project) lr" where
  "register_project st tenant device project alias root =
     bindS (validated_scope tenant device) (\<lambda>_.
     bindS (validated remote_project_id project) (\<lambda>_.
     bindS (validated safe_alias alias) (\<lambda>_.
     bindS (beside (canonical_project_root st root)) (\<lambda>canonical.
     bindS (turned_into is_integrity_error ''project_conflict'' (connected st (insert_project
       \<lparr>jp_project = project, jp_tenant = tenant, jp_device = device, jp_alias = alias, jp_root = canonical\<rparr>))) (\<lambda>_.
     ret \<lparr>lp_tenant = tenant, lp_device = device, lp_project = project, lp_alias = alias, lp_root = canonical\<rparr>)))))"

text \<open>
  The transaction of ensure\_project: of the rows with this id or of this workstation, no other one
  may have the alias or the root, and the one with the id must agree throughout.
\<close>

definition competes :: "'w local_store \<Rightarrow> project_row \<Rightarrow> project_row \<Rightarrow> bool" where
  "competes st r q \<longleftrightarrow> jp_tenant q = jp_tenant r \<and> jp_device q = jp_device r \<and> jp_project q \<noteq> jp_project r
     \<and> (sr_casefold st (codes (jp_alias q)) = sr_casefold st (codes (jp_alias r)) \<or> same_path_text st (jp_root q) (jp_root r))"

definition ensure_row :: "'w local_store \<Rightarrow> project_row \<Rightarrow> (local_tables, unit) py" where
  "ensure_row st r = (\<lambda>t.
     if list_ex (competes st r) (lt_projects t) then (Inl (LocalReferenceError ''project_conflict''), t)
     else (case find (\<lambda>q. jp_project q = jp_project r) (lt_projects t) of
         Some q \<Rightarrow> (if jp_tenant q \<noteq> jp_tenant r \<or> jp_device q \<noteq> jp_device r \<or> jp_alias q \<noteq> jp_alias r
                       \<or> \<not> same_path_text st (jp_root q) (jp_root r)
                    then (Inl (LocalReferenceError ''project_conflict''), t) else (Inr (), t))
       | None \<Rightarrow> insert_project r t))"

definition ensure_project ::
  "'w local_store \<Rightarrow> string \<Rightarrow> string \<Rightarrow> string \<Rightarrow> string \<Rightarrow> pytext \<Rightarrow> ('w, local_project) lr" where
  "ensure_project st tenant device project alias root =
     bindS (validated_scope tenant device) (\<lambda>_.
     bindS (validated remote_project_id project) (\<lambda>_.
     bindS (validated safe_alias alias) (\<lambda>_.
     bindS (beside (canonical_project_root st root)) (\<lambda>canonical.
     bindS (turned_into is_database_error ''store_unavailable'' (turned_into is_integrity_error ''project_conflict''
       (connected st (ensure_row st
         \<lparr>jp_project = project, jp_tenant = tenant, jp_device = device, jp_alias = alias, jp_root = canonical\<rparr>)))) (\<lambda>_.
     resolve_project st tenant device project)))))"

text \<open>ORDER BY alias COLLATE NOCASE, project\_id.\<close>

definition project_order :: "project_row \<Rightarrow> nat list \<times> nat list" where
  "project_order r = (map ascii_lower (codes (jp_alias r)), codes (jp_project r))"

definition list_local_projects :: "'w local_store \<Rightarrow> string \<Rightarrow> string \<Rightarrow> ('w, local_project list) lr" where
  "list_local_projects st tenant device =
     bindS (validated_scope tenant device) (\<lambda>_.
     bindS (connected st (query (\<lambda>t. map jp_project (sort_key project_order
              (filter (\<lambda>r. jp_tenant r = tenant \<and> jp_device r = device) (lt_projects t)))))) (\<lambda>ids.
     gather (resolve_project st tenant device) ids))"

section \<open>Drawings\<close>

definition resolve_drawing :: "'w local_store \<Rightarrow> string \<Rightarrow> string \<Rightarrow> string \<Rightarrow> ('w, local_drawing) lr" where
  "resolve_drawing st tenant device drawing =
     bindS (validated_scope tenant device) (\<lambda>_.
     bindS (validated remote_drawing_id drawing) (\<lambda>_.
     bindS (connected st (query (\<lambda>t. find (scoped_drawing tenant device drawing) (lt_drawings t)))) (\<lambda>found.
     case found of None \<Rightarrow> raise (LocalReferenceError ''drawing_unavailable'')
     | Some r \<Rightarrow>
       bindS (turned_into is_value_or_type_error ''drawing_invalid''
         (bindS (validated remote_drawing_id (jd_drawing r)) (\<lambda>_.
          bindS (validated_scope (jd_tenant r) (jd_device r)) (\<lambda>_.
          bindS (validated remote_project_id (jd_project r)) (\<lambda>_.
          liftR (safe_relative (jd_relative r))))))) (\<lambda>relative.
       bindS (refuse (jd_drawing r = drawing \<and> jd_tenant r = tenant \<and> jd_device r = device) ''drawing_invalid'') (\<lambda>_.
       bindS (resolve_project st tenant device (jd_project r)) (\<lambda>project.
       bindS (beside (resolve_local_drawing st (lp_root project) relative)) (\<lambda>(file, current).
       bindS (refuse (sr_casefold st current = sr_casefold st relative) ''drawing_changed'') (\<lambda>_.
       ret \<lparr>ld_tenant = tenant, ld_device = device, ld_project = jd_project r, ld_alias = lp_alias project,
         ld_drawing = drawing, ld_relative = current, ld_file = file\<rparr>))))))))"

definition register_drawing ::
  "'w local_store \<Rightarrow> string \<Rightarrow> string \<Rightarrow> string \<Rightarrow> string \<Rightarrow> pytext \<Rightarrow> ('w, local_drawing) lr" where
  "register_drawing st tenant device project drawing value =
     bindS (validated_scope tenant device) (\<lambda>_.
     bindS (validated remote_project_id project) (\<lambda>_.
     bindS (validated remote_drawing_id drawing) (\<lambda>_.
     bindS (liftR (safe_relative value)) (\<lambda>relative.
     bindS (resolve_project st tenant device project) (\<lambda>p.
     bindS (beside (resolve_local_drawing st (lp_root p) relative)) (\<lambda>(file, canonical).
     bindS (turned_into is_integrity_error ''drawing_conflict'' (connected st (insert_drawing
       \<lparr>jd_drawing = drawing, jd_tenant = tenant, jd_device = device, jd_project = project,
        jd_relative = canonical, jd_key = sr_casefold st canonical\<rparr>))) (\<lambda>_.
     ret \<lparr>ld_tenant = tenant, ld_device = device, ld_project = project, ld_alias = lp_alias p,
       ld_drawing = drawing, ld_relative = canonical, ld_file = file\<rparr>)))))))"

definition keyed_drawing :: "string \<Rightarrow> string \<Rightarrow> string \<Rightarrow> pytext \<Rightarrow> drawing_row \<Rightarrow> bool" where
  "keyed_drawing tenant device project key r \<longleftrightarrow>
     jd_tenant r = tenant \<and> jd_device r = device \<and> jd_project r = project \<and> jd_key r = key"

text \<open>The transaction of get\_or\_register\_drawing; uuid is the one id\_factory gives if it is called.\<close>

definition drawing_id_for ::
  "string \<Rightarrow> string \<Rightarrow> string \<Rightarrow> pytext \<Rightarrow> pytext \<Rightarrow> string \<Rightarrow> (local_tables, string) py" where
  "drawing_id_for tenant device project canonical key uuid = (\<lambda>t.
     case find (keyed_drawing tenant device project key) (lt_drawings t) of
       Some r \<Rightarrow> (Inr (jd_drawing r), t)
     | None \<Rightarrow>
         bindS (validated remote_drawing_id (''drw_'' @ uuid)) (\<lambda>_.
         bindS (catchS (bindS (insert_drawing \<lparr>jd_drawing = ''drw_'' @ uuid, jd_tenant = tenant, jd_device = device,
             jd_project = project, jd_relative = canonical, jd_key = key\<rparr>) (\<lambda>_. ret (Some (''drw_'' @ uuid))))
           (\<lambda>e. if is_integrity_error e
                then bindS (query (\<lambda>t. find (keyed_drawing tenant device project key) (lt_drawings t))) (\<lambda>again.
                     ret (map_option jd_drawing again))
                else raise e))
           (\<lambda>chosen. case chosen of None \<Rightarrow> raise (LocalReferenceError ''drawing_conflict'') | Some d \<Rightarrow> ret d)) t)"

definition get_or_register_drawing ::
  "'w local_store \<Rightarrow> string \<Rightarrow> string \<Rightarrow> string \<Rightarrow> pytext \<Rightarrow> string \<Rightarrow> ('w, local_drawing) lr" where
  "get_or_register_drawing st tenant device project value uuid =
     bindS (validated_scope tenant device) (\<lambda>_.
     bindS (validated remote_project_id project) (\<lambda>_.
     bindS (liftR (safe_relative value)) (\<lambda>relative.
     bindS (resolve_project st tenant device project) (\<lambda>p.
     bindS (beside (resolve_local_drawing st (lp_root p) relative)) (\<lambda>(file, canonical).
     bindS (connected st (drawing_id_for tenant device project canonical (sr_casefold st canonical) uuid)) (\<lambda>drawing.
     resolve_drawing st tenant device drawing))))))"

section \<open>Nonces\<close>

definition max_dispatch_lifetime :: int where "max_dispatch_lifetime = seconds (5 * 60)"

definition delete_expired :: "instant \<Rightarrow> (local_tables, unit) py" where
  "delete_expired now = (\<lambda>t. (Inr (), t\<lparr>lt_nonces := filter (\<lambda>r. \<not> jn_expires r \<le> now) (lt_nonces t)\<rparr>))"

text \<open>INSERT OR IGNORE, with the number of rows it inserted compared to one.\<close>

definition insert_nonce :: "nonce_row \<Rightarrow> (local_tables, bool) py" where
  "insert_nonce r = (\<lambda>t. if conflicts nonce_keys (lt_nonces t) r then (Inr False, t)
     else (Inr True, t\<lparr>lt_nonces := lt_nonces t @ [r]\<rparr>))"

definition consume_dispatch_nonce ::
  "'w local_store \<Rightarrow> string \<Rightarrow> string \<Rightarrow> string \<Rightarrow> wire_time \<Rightarrow> wire_time \<Rightarrow> ('w, bool) lr" where
  "consume_dispatch_nonce st tenant device nonce now expires_at =
     bindS (validated_scope tenant device) (\<lambda>_.
     bindS (refuse (nonce_pattern nonce) ''nonce_invalid'') (\<lambda>_.
     case (utc_instant now, utc_instant expires_at) of
       (Some n, Some x) \<Rightarrow>
         bindS (refuse (n < x \<and> x \<le> n + max_dispatch_lifetime) ''deadline_invalid'') (\<lambda>_.
         turned_into is_database_error ''replay_store_unavailable''
           (connected st (bindS (delete_expired n) (\<lambda>_. insert_nonce
             \<lparr>jn_tenant = tenant, jn_device = device, jn_nonce = nonce, jn_expires = x\<rparr>))))
     | _ \<Rightarrow> raise (LocalReferenceError ''deadline_invalid'')))"

section \<open>Results not yet delivered\<close>

definition scoped_result :: "string \<Rightarrow> string \<Rightarrow> string \<Rightarrow> outbox_row \<Rightarrow> bool" where
  "scoped_result tenant device task r \<longleftrightarrow> jo_tenant r = tenant \<and> jo_device r = device \<and> jo_task r = task"

definition outbox_entry :: "instant result_envelope \<Rightarrow> nat list \<Rightarrow> outbox_row" where
  "outbox_entry e payload = \<lparr>jo_tenant = re_tenant e, jo_device = re_device e, jo_task = re_task e,
     jo_operation = re_operation e, jo_command = re_command_id e, jo_completed = re_completed e, jo_payload = payload\<rparr>"

definition result_payload :: "'w local_store \<Rightarrow> instant result_envelope \<Rightarrow> ('s, nat list) py" where
  "result_payload st e = turned_into is_value_or_type_error ''pending_invalid'' (liftR (serialize_result_payload (sr_dump st) e))"

definition put_result :: "outbox_row \<Rightarrow> (local_tables, unit) py" where
  "put_result r = (\<lambda>t. case find (scoped_result (jo_tenant r) (jo_device r) (jo_task r)) (lt_outbox t) of
     Some q \<Rightarrow> (if jo_payload q \<noteq> jo_payload r then (Inl (LocalReferenceError ''pending_conflict''), t) else (Inr (), t))
   | None \<Rightarrow> insert_result r t)"

definition save_pending_result :: "'w local_store \<Rightarrow> instant result_envelope \<Rightarrow> ('w, unit) lr" where
  "save_pending_result st e =
     bindS (result_payload st e) (\<lambda>payload.
     turned_into is_database_error ''outbox_unavailable'' (connected st (put_result (outbox_entry e payload))))"

text \<open>ORDER BY completed\_at, task\_id LIMIT 1.\<close>

definition outbox_order :: "outbox_row \<Rightarrow> int \<times> nat list" where
  "outbox_order r = (jo_completed r, codes (jo_task r))"

definition first_result :: "string \<Rightarrow> string \<Rightarrow> local_tables \<Rightarrow> outbox_row option" where
  "first_result tenant device t =
     (case sort_key outbox_order (filter (\<lambda>r. jo_tenant r = tenant \<and> jo_device r = device) (lt_outbox t)) of
       [] \<Rightarrow> None | r # _ \<Rightarrow> Some r)"

definition next_pending_result ::
  "'w local_store \<Rightarrow> string \<Rightarrow> string \<Rightarrow> ('w, instant result_envelope option) lr" where
  "next_pending_result st tenant device =
     bindS (validated_scope tenant device) (\<lambda>_.
     bindS (turned_into is_database_error ''outbox_unavailable'' (connected st (query (first_result tenant device)))) (\<lambda>found.
     case found of None \<Rightarrow> ret None
     | Some r \<Rightarrow>
       bindS (turned_into is_value_or_type_error ''outbox_invalid''
         (liftR (parse_result_payload (sr_parse st) (PayloadBytes (jo_payload r))))) (\<lambda>e.
       bindS (refuse (re_tenant e = tenant \<and> re_device e = device) ''outbox_invalid'') (\<lambda>_. ret (Some e)))))"

definition delete_result :: "instant result_envelope \<Rightarrow> nat list \<Rightarrow> (local_tables, unit) py" where
  "delete_result e payload = (\<lambda>t.
     let gone = (\<lambda>r. scoped_result (re_tenant e) (re_device e) (re_task e) r \<and> jo_payload r = payload) in
     if length (filter gone (lt_outbox t)) \<noteq> 1 then (Inl (LocalReferenceError ''acknowledgement_invalid''), t)
     else (Inr (), t\<lparr>lt_outbox := filter (\<lambda>r. \<not> gone r) (lt_outbox t)\<rparr>))"

definition acknowledge_pending_result :: "'w local_store \<Rightarrow> instant result_envelope \<Rightarrow> ('w, unit) lr" where
  "acknowledge_pending_result st e =
     bindS (result_payload st e) (\<lambda>payload.
     turned_into is_database_error ''outbox_unavailable'' (connected st (delete_result e payload)))"

section \<open>The store as the dispatcher sees it\<close>

definition references_of :: "'w local_store \<Rightarrow> (local_tables \<times> 'w) local_references" where
  "references_of st = \<lparr>lr_resolve_drawing = resolve_drawing st, lr_resolve_project = resolve_project st,
     lr_list_projects = list_local_projects st,
     lr_get_or_register = (\<lambda>tenant device project relative.
       bindS (beside (lw_uuid (sr_world st))) (get_or_register_drawing st tenant device project relative))\<rparr>"

end
