(* ===== verification/Local_Properties.thy ===== *)
theory Local_Properties
  imports Local_References
begin

text \<open>
  What the workstation's reference store keeps: every row well formed, opaque ids that are stable and
  faithful, paths that stay inside their project, nonces that are spent once, and the one case where
  its deadline check refuses what the protocol admits. Orders of the tables, carried through the
  methods by the rules of a locale, give what a whole history keeps.
\<close>

section \<open>Actions that move the state along an order\<close>

text \<open>
  moves R m: whatever m does, whether it returns or raises, its end state is R-later than its
  start. The rules carry an order through a composed operation.
\<close>

definition moves :: "('s \<Rightarrow> 's \<Rightarrow> bool) \<Rightarrow> ('s, 'a) py \<Rightarrow> bool" where
  "moves R m \<longleftrightarrow> (\<forall>s. R s (snd (m s)))"

lemma movesD: "moves R m \<Longrightarrow> m s = (r, s') \<Longrightarrow> R s s'"
  by (metis moves_def snd_conv)

named_theorems moves_rules \<open>order rules of composed operations\<close>

locale state_order =
  fixes R :: "'s \<Rightarrow> 's \<Rightarrow> bool"
  assumes refl: "R s s" and trans: "R s t \<Longrightarrow> R t u \<Longrightarrow> R s u"
begin

lemma ret [moves_rules]: "moves R (ret x)"
  and raise [moves_rules]: "moves R (raise e)"
  and liftR [moves_rules]: "moves R (liftR r)"
  and guardS [moves_rules]: "moves R (guardS b e)"
  by (simp_all add: moves_def refl)

lemma refuse [moves_rules]: "moves R (refuse ok code)"
  by (simp add: refuse_def guardS)

lemma validated [moves_rules]: "moves R (validated p v)"
  by (simp add: validated_def refuse)

lemma bindS [moves_rules]:
  assumes "moves R m" and "\<And>x. moves R (f x)"
  shows "moves R (bindS m f)"
  unfolding moves_def
proof
  fix s
  obtain r t where m: "m s = (r, t)" by fastforce
  with assms(1) have "R s t" by (rule movesD)
  then show "R s (snd (bindS m f s))"
    using assms(2) trans by (cases r) (auto simp add: m bindS_def moves_def)
qed

lemma catchS [moves_rules]:
  assumes "moves R m" and "\<And>e. moves R (h e)"
  shows "moves R (catchS m h)"
  unfolding moves_def
proof
  fix s
  obtain r t where m: "m s = (r, t)" by fastforce
  with assms(1) have "R s t" by (rule movesD)
  then show "R s (snd (catchS m h s))"
    using assms(2) trans by (cases r) (auto simp add: m catchS_def moves_def)
qed

lemma turned_into [moves_rules]: "moves R m \<Longrightarrow> moves R (turned_into caught code m)"
  by (simp add: turned_into_def catchS raise)

lemma validated_scope [moves_rules]: "moves R (validated_scope t d)"
  by (simp add: validated_scope_def bindS validated)

lemma gather [moves_rules]: "(\<And>x. moves R (f x)) \<Longrightarrow> moves R (gather f xs)"
  by (induction xs) (simp_all add: bindS ret)

lemma conditional [moves_rules]: "moves R m \<Longrightarrow> moves R n \<Longrightarrow> moves R (if b then m else n)"
  by simp

lemma optional_case [moves_rules]:
  "moves R m \<Longrightarrow> (\<And>x. moves R (f x)) \<Longrightarrow> moves R (case v of None \<Rightarrow> m | Some x \<Rightarrow> f x)"
  by (cases v) simp_all

end

section \<open>Transactions\<close>

lemma beside_run: "beside m (t, x) = (case m x of (r, x') \<Rightarrow> (r, (t, x')))"
  by (simp add: beside_def)

lemma beside_eq: "beside m (t, x) = (r, (t', x')) \<longleftrightarrow> t' = t \<and> m x = (r, x')"
  by (auto simp add: beside_def split: prod.splits)

lemma connected_run:
  "connected st m (t, x) = (case lw_open (sr_world st) x of
     (Inl e, x1) \<Rightarrow> (Inl e, (t, x1))
   | (Inr _, x1) \<Rightarrow> (case m t of
         (Inl e, _) \<Rightarrow> (Inl e, (t, x1))
       | (Inr v, t') \<Rightarrow> (case lw_commit (sr_world st) x1 of
             (Inl e, x2) \<Rightarrow> (Inl e, (t, x2)) | (Inr _, x2) \<Rightarrow> (Inr v, (t', x2)))))"
  by (cases "lw_open (sr_world st) x"; cases "fst (lw_open (sr_world st) x)") (simp_all add: connected_def bindS_def beside_def)

lemma connected_Inr: "connected st m (t, x) = (Inr v, (t', x')) \<Longrightarrow> m t = (Inr v, t')"
  by (simp add: connected_run split: prod.splits sum.splits)

lemma connected_Inl: "connected st m (t, x) = (Inl e, (t', x')) \<Longrightarrow> t' = t"
  by (simp add: connected_run split: prod.splits sum.splits)

lemma turned_into_Inr [simp]: "turned_into caught code m s = (Inr v, s') \<longleftrightarrow> m s = (Inr v, s')"
  by (simp add: turned_into_def)

lemma refuse_Inr [simp]: "refuse ok code s = (Inr u, s') \<longleftrightarrow> ok \<and> s' = s"
  by (auto simp add: refuse_def)

lemma validated_Inr [simp]: "validated p v s = (Inr u, s') \<longleftrightarrow> p v \<and> s' = s"
  by (simp add: validated_def)

lemma validated_scope_Inr [simp]:
  "validated_scope t d s = (Inr u, s') \<longleftrightarrow> remote_tenant_id t \<and> remote_device_id d \<and> s' = s"
  by (auto simp add: validated_scope_def bindS_eq_Inr)

lemma refuse_state: "refuse ok code s = (r, s') \<Longrightarrow> s' = s"
  by (simp add: refuse_def)

lemma validated_scope_state: "validated_scope t d s = (r, s') \<Longrightarrow> s' = s"
  by (auto simp add: validated_scope_def validated_def refuse_def bindS_def split: sum.splits)

lemma turned_into_Inl: "turned_into caught code m s = (Inl e, s') \<Longrightarrow> \<exists>e'. m s = (Inl e', s')"
  by (auto simp add: turned_into_def catchS_def split: prod.splits sum.splits)

lemma query_run [simp]: "query f t = (Inr (f t), t)"
  by (simp add: query_def)

text \<open>An order of the tables, whatever the outside does.\<close>

definition on_tables :: "(local_tables \<Rightarrow> local_tables \<Rightarrow> bool) \<Rightarrow> local_tables \<times> 'w \<Rightarrow> local_tables \<times> 'w \<Rightarrow> bool" where
  "on_tables R s s' \<longleftrightarrow> R (fst s) (fst s')"

locale table_order =
  fixes T :: "local_tables \<Rightarrow> local_tables \<Rightarrow> bool"
  assumes table_refl: "T t t" and table_trans: "T t u \<Longrightarrow> T u v \<Longrightarrow> T t v"
begin

sublocale state_order "on_tables T"
  by unfold_locales (auto simp add: on_tables_def intro: table_refl table_trans)

lemma beside [moves_rules]: "moves (on_tables T) (beside m)"
  by (simp add: moves_def on_tables_def beside_def table_refl split: prod.splits)

lemma connected: 
  assumes "\<And>t v t'. m t = (Inr v, t') \<Longrightarrow> T t t'"
  shows "moves (on_tables T) (connected st m)"
  unfolding moves_def on_tables_def
proof
  fix s :: "local_tables \<times> 'b"
  obtain t x where s: "s = (t, x)" by fastforce
  obtain r t' x' where c: "connected st m (t, x) = (r, (t', x'))" by (metis prod.exhaust)
  then show "T (fst s) (fst (snd (connected st m s)))"
    using connected_Inl[of st m t x] connected_Inr[of st m t x] assms table_refl s by (cases r) auto
qed

lemma asking [moves_rules]: "moves (on_tables T) (connected st (query f))"
  by (rule connected) (auto simp add: table_refl)

lemma resolving: "moves (on_tables T) (resolve_project st tenant device project)"
  unfolding resolve_project_def by (intro moves_rules)

lemma listing_projects: "moves (on_tables T) (list_local_projects st tenant device)"
  unfolding list_local_projects_def by (intro moves_rules resolving)

lemma resolving_drawing: "moves (on_tables T) (resolve_drawing st tenant device drawing)"
  unfolding resolve_drawing_def split_beta by (intro moves_rules resolving)

lemma next_pending: "moves (on_tables T) (next_pending_result st tenant device)"
  unfolding next_pending_result_def by (intro moves_rules)

lemma moved: "moves (on_tables T) m \<Longrightarrow> T (fst s) (fst (snd (m s)))"
  by (cases s) (simp add: moves_def on_tables_def)

lemma ran: "moves (on_tables T) m \<Longrightarrow> m (t, x) = (r, (t', x')) \<Longrightarrow> T t t'"
  using moved[of m "(t, x)"] by simp

end

section \<open>Safe locations\<close>

text \<open>
  What safe\_relative lets through, as a list of steps below the root: none is empty or a dot or two
  dots, ends in a space or dot, or holds a separator, a colon or a control character.
\<close>

definition safe_step :: "pytext \<Rightarrow> bool" where
  "safe_step p \<longleftrightarrow> \<not> unsafe_part p \<and> \<not> List.member p 47 \<and> \<not> List.member p 92 \<and> list_all (\<lambda>c. 32 \<le> c \<and> c \<noteq> 127) p"

definition safe_location :: "pytext \<Rightarrow> pytext list \<Rightarrow> bool" where
  "safe_location r ps \<longleftrightarrow> r = join_slash ps \<and> ps \<noteq> [] \<and> length ps \<le> 128 \<and> list_all safe_step ps
     \<and> is_drawing_suffix (part_suffix (last ps))"

lemma slash_parts_chars: "p \<in> set (slash_parts acc cs) \<Longrightarrow> c \<in> set p \<Longrightarrow> c \<in> set acc \<or> c \<in> set cs \<and> c \<noteq> 47"
  by (induction acc cs arbitrary: p rule: slash_parts.induct) (fastforce split: if_splits)+

lemma posix_part_chars: "p \<in> set (posix_parts v) \<Longrightarrow> c \<in> set p \<Longrightarrow> c \<in> set v \<and> c \<noteq> 47"
  using slash_parts_chars[of p "[]" v c] by (auto simp add: posix_parts_def)

lemma slash_parts_step: "47 \<notin> set p \<Longrightarrow> slash_parts acc (p @ cs) = slash_parts (rev p @ acc) cs"
  by (induction p arbitrary: acc) simp_all

lemma slash_parts_join:
  "ps \<noteq> [] \<Longrightarrow> (\<forall>p \<in> set ps. 47 \<notin> set p) \<Longrightarrow> slash_parts [] (join_slash ps) = ps"
  by (induction ps rule: join_slash.induct) (simp_all add: slash_parts_step slash_parts_step[where cs = "[]", simplified])

lemma safe_step_part: "safe_step p \<Longrightarrow> p \<noteq> [] \<and> p \<noteq> codes ''.'' \<and> 47 \<notin> set p"
  by (auto simp add: safe_step_def unsafe_part_def)

lemma safe_location_parts: "safe_location r ps \<Longrightarrow> posix_parts r = ps"
proof -
  assume s: "safe_location r ps"
  then have p: "\<forall>p \<in> set ps. p \<noteq> [] \<and> p \<noteq> codes ''.'' \<and> 47 \<notin> set p"
    using safe_step_part by (auto simp add: safe_location_def list_all_iff)
  with s have "slash_parts [] r = ps" using slash_parts_join by (simp add: safe_location_def)
  with p show ?thesis by (simp add: posix_parts_def)
qed

lemma safe_relative_location: "safe_relative v = Inr r \<Longrightarrow> safe_location r (posix_parts v)"
  using posix_part_chars[of _ v]
  by (fastforce simp add: safe_relative_def Let_def safe_location_def safe_step_def list_all_iff list_ex_iff not_less
      split: if_splits list.splits)

lemma safe_relative_parts: "safe_relative v = Inr r \<Longrightarrow> posix_parts r = posix_parts v"
  using safe_location_parts safe_relative_location by blast

lemma safe_relative_safe: "safe_relative v = Inr r \<Longrightarrow> safe_location r (posix_parts r)"
  using safe_relative_location[of v r] safe_relative_parts[of v r] by simp

lemma resolve_local_drawing_location:
  "resolve_local_drawing st root v x = (Inr (f, c), x') \<Longrightarrow> safe_location c (posix_parts c)"
  by (auto simp add: resolve_local_drawing_def bindS_eq_Inr Let_def intro: safe_relative_safe)

section \<open>What the tables keep\<close>

definition keyed :: "('r \<Rightarrow> 'r \<Rightarrow> bool) list \<Rightarrow> 'r list \<Rightarrow> bool" where
  "keyed same rows \<longleftrightarrow> sorted_wrt (\<lambda>q r. \<not> list_ex (\<lambda>s. s q r) same) rows"

lemma keyed_insert: "keyed same rows \<Longrightarrow> \<not> conflicts same rows r \<Longrightarrow> keyed same (rows @ [r])"
  by (auto simp add: keyed_def conflicts_def sorted_wrt_append list_ex_iff)

lemma keyed_filter: "keyed same rows \<Longrightarrow> keyed same (filter P rows)"
  by (simp add: keyed_def sorted_wrt_filter)

lemma keyed_unique:
  assumes "keyed same rows" and "q \<in> set rows" "r \<in> set rows" and "s \<in> set same" and "s q r" "s r q"
  shows "q = r"
proof -
  obtain i j where ij: "i < length rows" "q = rows ! i" "j < length rows" "r = rows ! j"
    using assms(2,3) by (metis in_set_conv_nth)
  show ?thesis
  proof (rule ccontr)
    assume "q \<noteq> r"
    with ij have "i < j \<or> j < i" by (metis nat_neq_iff)
    with assms ij show False unfolding keyed_def sorted_wrt_iff_nth_less list_ex_iff by blast
  qed
qed

definition drawing_row_valid :: "(pytext \<Rightarrow> pytext) \<Rightarrow> local_tables \<Rightarrow> drawing_row \<Rightarrow> bool" where
  "drawing_row_valid casefold t r \<longleftrightarrow> remote_drawing_id (jd_drawing r) \<and> remote_tenant_id (jd_tenant r)
     \<and> remote_device_id (jd_device r) \<and> remote_project_id (jd_project r)
     \<and> safe_location (jd_relative r) (posix_parts (jd_relative r)) \<and> jd_key r = casefold (jd_relative r)
     \<and> (\<exists>p \<in> set (lt_projects t). scoped_project (jd_tenant r) (jd_device r) (jd_project r) p)"

definition project_row_valid :: "project_row \<Rightarrow> bool" where
  "project_row_valid r \<longleftrightarrow> remote_project_id (jp_project r) \<and> remote_tenant_id (jp_tenant r)
     \<and> remote_device_id (jp_device r) \<and> safe_alias (jp_alias r)"

definition nonce_row_ok :: "nonce_row \<Rightarrow> bool" where
  "nonce_row_ok r \<longleftrightarrow> remote_tenant_id (jn_tenant r) \<and> remote_device_id (jn_device r) \<and> nonce_pattern (jn_nonce r)"

definition local_ok :: "(pytext \<Rightarrow> pytext) \<Rightarrow> local_tables \<Rightarrow> bool" where
  "local_ok casefold t \<longleftrightarrow>
     keyed project_keys (lt_projects t) \<and> keyed drawing_keys (lt_drawings t) \<and> keyed nonce_keys (lt_nonces t)
     \<and> keyed outbox_keys (lt_outbox t) \<and> list_all project_row_valid (lt_projects t)
     \<and> list_all (drawing_row_valid casefold t) (lt_drawings t) \<and> list_all nonce_row_ok (lt_nonces t)"

text \<open>Three orders: validity is kept, references only grow, outbox and nonces stay.\<close>

definition keeps_ok :: "(pytext \<Rightarrow> pytext) \<Rightarrow> local_tables \<Rightarrow> local_tables \<Rightarrow> bool" where
  "keeps_ok casefold t t' \<longleftrightarrow> (local_ok casefold t \<longrightarrow> local_ok casefold t')"

definition references_grow :: "local_tables \<Rightarrow> local_tables \<Rightarrow> bool" where
  "references_grow t t' \<longleftrightarrow> set (lt_projects t) \<subseteq> set (lt_projects t') \<and> set (lt_drawings t) \<subseteq> set (lt_drawings t')"

definition same_outbox :: "local_tables \<Rightarrow> local_tables \<Rightarrow> bool" where
  "same_outbox t t' \<longleftrightarrow> lt_outbox t' = lt_outbox t"

definition same_nonces :: "local_tables \<Rightarrow> local_tables \<Rightarrow> bool" where
  "same_nonces t t' \<longleftrightarrow> lt_nonces t' = lt_nonces t"

text \<open>
  The references an order allows: rows of projects, and of drawings under a registered project and
  at a safe location.
\<close>

locale references_order = table_order T for T :: "local_tables \<Rightarrow> local_tables \<Rightarrow> bool" +
  fixes casefold :: "pytext \<Rightarrow> pytext"
  assumes add_project: "project_row_valid r \<Longrightarrow> insert_project r t = (Inr (), t') \<Longrightarrow> T t t'"
    and add_drawing: "remote_drawing_id (jd_drawing d) \<Longrightarrow> remote_tenant_id (jd_tenant d) \<Longrightarrow> remote_device_id (jd_device d)
      \<Longrightarrow> remote_project_id (jd_project d) \<Longrightarrow> safe_location (jd_relative d) (posix_parts (jd_relative d))
      \<Longrightarrow> jd_key d = casefold (jd_relative d) \<Longrightarrow> insert_drawing d t = (Inr (), t') \<Longrightarrow> T t t'"
begin

text \<open>A validation before an action may be used in it.\<close>

lemma after_validated: "(p v \<Longrightarrow> moves (on_tables T) m) \<Longrightarrow> moves (on_tables T) (bindS (validated p v) (\<lambda>_. m))"
  using state_order_axioms
  by (cases "p v") (auto simp add: moves_def validated_def refuse_def bindS_def refl)

lemma after_scope:
  "(remote_tenant_id t \<Longrightarrow> remote_device_id d \<Longrightarrow> moves (on_tables T) m) \<Longrightarrow> moves (on_tables T) (bindS (validated_scope t d) (\<lambda>_. m))"
  by (cases "remote_tenant_id t \<and> remote_device_id d") (auto simp add: moves_def validated_scope_def validated_def refuse_def bindS_def ensure_def refl)

lemma after_located:
  assumes "\<And>f c. safe_location c (posix_parts c) \<Longrightarrow> moves (on_tables T) (g (f, c))"
  shows "moves (on_tables T) (bindS (beside (resolve_local_drawing st root v)) g)"
  unfolding moves_def
proof
  fix s :: "local_tables \<times> 'a"
  obtain t x where s: "s = (t, x)" by fastforce
  obtain r x' where b: "resolve_local_drawing st root v x = (r, x')" by fastforce
  show "on_tables T s (snd (bindS (beside (resolve_local_drawing st root v)) g s))"
  proof (cases r)
    case (Inl e)
    with b s show ?thesis by (simp add: bindS_def beside_run on_tables_def table_refl)
  next
    case (Inr w)
    obtain f c where w: "w = (f, c)" by fastforce
    with Inr b have "safe_location c (posix_parts c)" by (simp add: resolve_local_drawing_location)
    from assms[OF this, of f] have "on_tables T (t, x') (snd (g w (t, x')))" by (simp add: moves_def w)
    with b s Inr show ?thesis by (simp add: bindS_def beside_run on_tables_def)
  qed
qed

lemma project_added:
  "project_row_valid r \<Longrightarrow> moves (on_tables T) (connected st (insert_project r))"
  by (rule connected) (auto intro: add_project)

lemma registering_project: "moves (on_tables T) (register_project st tenant device project alias root)"
  unfolding register_project_def
  by (intro after_scope after_validated moves_rules project_added) (simp_all add: project_row_valid_def)

lemma ensuring_row: "project_row_valid r \<Longrightarrow> moves (on_tables T) (connected st (ensure_row st r))"
  by (rule connected) (auto simp add: ensure_row_def table_refl intro: add_project split: if_splits option.splits)

lemma ensuring_project: "moves (on_tables T) (ensure_project st tenant device project alias root)"
  unfolding ensure_project_def
  by (intro after_scope after_validated moves_rules ensuring_row resolving) (simp_all add: project_row_valid_def)

end

lemma insert_drawing_refused: "insert_drawing r t = (Inl e, t') \<Longrightarrow> t' = t \<and> is_integrity_error e"
  by (auto simp add: insert_drawing_def split: if_splits)

text \<open>The retry after a refused insertion finds nothing new: nobody else writes in between.\<close>

lemma drawing_id_result:
  "drawing_id_for tenant device project c key uuid t = (Inr v, t') \<longleftrightarrow>
     (case find (keyed_drawing tenant device project key) (lt_drawings t) of
        Some r \<Rightarrow> v = jd_drawing r \<and> t' = t
      | None \<Rightarrow> v = ''drw_'' @ uuid \<and> remote_drawing_id v \<and> insert_drawing \<lparr>jd_drawing = v, jd_tenant = tenant,
          jd_device = device, jd_project = project, jd_relative = c, jd_key = key\<rparr> t = (Inr (), t'))"
proof (cases "find (keyed_drawing tenant device project key) (lt_drawings t)")
  case None
  let ?i = "insert_drawing \<lparr>jd_drawing = ''drw_'' @ uuid, jd_tenant = tenant, jd_device = device,
    jd_project = project, jd_relative = c, jd_key = key\<rparr> t"
  obtain r u where i: "?i = (r, u)" by fastforce
  show ?thesis
  proof (cases "remote_drawing_id (''drw_'' @ uuid)")
    case False
    with None show ?thesis
      by (auto simp add: drawing_id_for_def bindS_def validated_def refuse_def simp del: append_Cons)
  next
    case True
    show ?thesis
    proof (cases r)
      case (Inl e)
      with i insert_drawing_refused have "u = t" "is_integrity_error e" by blast+
      with Inl i None True show ?thesis
        by (simp add: drawing_id_for_def bindS_def catchS_def validated_def refuse_def del: append_Cons)
    next
      case (Inr a)
      with i None True show ?thesis
        by (auto simp add: drawing_id_for_def bindS_def catchS_def validated_def refuse_def simp del: append_Cons)
    qed
  qed
qed (auto simp add: drawing_id_for_def)

context references_order
begin

lemma registering_drawing:
  assumes "sr_casefold st = casefold"
  shows "moves (on_tables T) (register_drawing st tenant device project drawing value)"
  unfolding register_drawing_def
proof (intro after_scope after_validated after_located moves_rules resolving, goal_cases)
  case (1 u p f c)
  then have "moves (on_tables T) (connected st (insert_drawing \<lparr>jd_drawing = drawing, jd_tenant = tenant,
      jd_device = device, jd_project = project, jd_relative = c, jd_key = sr_casefold st c\<rparr>))"
    using assms by (intro connected) (auto intro!: add_drawing)
  then show ?case unfolding prod.case by (intro moves_rules)
qed

lemma choosing_id:
  assumes "remote_tenant_id tenant" "remote_device_id device" "remote_project_id project"
    and "safe_location c (posix_parts c)" and "drawing_id_for tenant device project c (casefold c) uuid t = (Inr v, t')"
  shows "T t t'"
proof (cases "find (keyed_drawing tenant device project (casefold c)) (lt_drawings t)")
  case None
  with assms(5)[unfolded drawing_id_result] have "remote_drawing_id v" "insert_drawing \<lparr>jd_drawing = v,
    jd_tenant = tenant, jd_device = device, jd_project = project, jd_relative = c, jd_key = casefold c\<rparr> t = (Inr (), t')"
    by auto
  then show ?thesis
    using assms(1-4) add_drawing[of "\<lparr>jd_drawing = v, jd_tenant = tenant, jd_device = device, jd_project = project,
      jd_relative = c, jd_key = casefold c\<rparr>"] by simp
next
  case (Some r)
  with assms(5)[unfolded drawing_id_result] show ?thesis by (simp add: table_refl)
qed

lemma getting_drawing:
  assumes "sr_casefold st = casefold"
  shows "moves (on_tables T) (get_or_register_drawing st tenant device project value uuid)"
  unfolding get_or_register_drawing_def
proof (intro after_scope after_validated after_located moves_rules resolving, goal_cases)
  case (1 u p f c)
  then have "moves (on_tables T) (connected st (drawing_id_for tenant device project c (sr_casefold st c) uuid))"
    using assms by (intro connected) (auto intro: choosing_id)
  then show ?case unfolding prod.case by (intro moves_rules resolving_drawing)
qed

text \<open>So the store, as the dispatcher sees it, moves along the order.\<close>

lemma reference_moves:
  assumes "sr_casefold st = casefold"
  shows "moves (on_tables T) (lr_resolve_drawing (references_of st) tn dv d)"
    and "moves (on_tables T) (lr_resolve_project (references_of st) tn dv p)"
    and "moves (on_tables T) (lr_list_projects (references_of st) tn dv)"
    and "moves (on_tables T) (lr_get_or_register (references_of st) tn dv p v)"
  unfolding references_of_def local_references.simps
  by (intro moves_rules resolving_drawing resolving listing_projects getting_drawing assms)+

end

section \<open>The orders of the store\<close>

lemma insert_project_result: "insert_project r t = (Inr u, t') \<longleftrightarrow>
    \<not> conflicts project_keys (lt_projects t) r \<and> t' = t\<lparr>lt_projects := lt_projects t @ [r]\<rparr>"
  by (auto simp add: insert_project_def)

lemma insert_drawing_result: "insert_drawing r t = (Inr u, t') \<longleftrightarrow>
    \<not> conflicts drawing_keys (lt_drawings t) r
    \<and> (\<exists>p \<in> set (lt_projects t). scoped_project (jd_tenant r) (jd_device r) (jd_project r) p)
    \<and> t' = t\<lparr>lt_drawings := lt_drawings t @ [r]\<rparr>"
  by (auto simp add: insert_drawing_def find_None_iff)

lemma drawing_ok_mono:
  "drawing_row_valid cf t r \<Longrightarrow> set (lt_projects t) \<subseteq> set (lt_projects t') \<Longrightarrow> drawing_row_valid cf t' r"
  by (auto simp add: drawing_row_valid_def)

interpretation ok: references_order "keeps_ok cf" cf
proof unfold_locales
  fix r t t' assume r: "project_row_valid r" "insert_project r t = (Inr (), t')"
  show "keeps_ok cf t t'"
    unfolding keeps_ok_def
  proof
    assume o: "local_ok cf t"
    have g: "set (lt_projects t) \<subseteq> set (lt_projects t')" using r by (auto simp add: insert_project_result)
    from o have "list_all (drawing_row_valid cf t') (lt_drawings t)"
      using drawing_ok_mono[OF _ g] by (auto simp add: local_ok_def list_all_iff)
    with o r show "local_ok cf t'" by (auto simp add: local_ok_def insert_project_result keyed_insert)
  qed
next
  fix d t t'
  assume d: "remote_drawing_id (jd_drawing d)" "remote_tenant_id (jd_tenant d)" "remote_device_id (jd_device d)"
    "remote_project_id (jd_project d)" "safe_location (jd_relative d) (posix_parts (jd_relative d))"
    "jd_key d = cf (jd_relative d)" "insert_drawing d t = (Inr (), t')"
  show "keeps_ok cf t t'"
    using d by (auto simp add: keeps_ok_def local_ok_def insert_drawing_result keyed_insert list_all_iff drawing_row_valid_def)
qed (auto simp add: keeps_ok_def)

interpretation growth: references_order references_grow cf
  by unfold_locales (auto simp add: references_grow_def insert_project_result insert_drawing_result)

interpretation outbox: references_order same_outbox cf
  by unfold_locales (auto simp add: same_outbox_def insert_project_result insert_drawing_result)

interpretation nonces: references_order same_nonces cf
  by unfold_locales (auto simp add: same_nonces_def insert_project_result insert_drawing_result)

section \<open>Nonces and results\<close>

lemma consume_tables:
  assumes "consume_dispatch_nonce st tenant device nonce now expires (t, x) = (r, (t', x'))"
  obtains "t' = t" | n e b where "utc_instant now = Some n" "utc_instant expires = Some e" "n < e" "r = Inr b"
    "remote_tenant_id tenant" "remote_device_id device" "nonce_pattern nonce"
    "bindS (delete_expired n) (\<lambda>_. insert_nonce \<lparr>jn_tenant = tenant, jn_device = device, jn_nonce = nonce, jn_expires = e\<rparr>) t
       = (Inr b, t')"
proof -
  consider (ok) v where "r = Inr v" | (bad) e where "r = Inl e" by (cases r) auto
  then show ?thesis
  proof cases
    case ok
    with assms show ?thesis
      by (auto simp add: consume_dispatch_nonce_def bindS_eq_Inr split: option.splits dest!: connected_Inr intro: that(2))
  next
    case bad
    with assms have "t' = t"
      by (auto simp add: consume_dispatch_nonce_def bindS_eq_Inl split: option.splits
          dest!: turned_into_Inl validated_scope_state refuse_state dest: connected_Inl)
    then show ?thesis by (rule that(1))
  qed
qed

lemma nonce_step:
  "bindS (delete_expired n) (\<lambda>_. insert_nonce r) t = (Inr b, t') \<longleftrightarrow>
     (let kept = filter (\<lambda>q. n < jn_expires q) (lt_nonces t) in
      if conflicts nonce_keys kept r then \<not> b \<and> t' = t\<lparr>lt_nonces := kept\<rparr>
      else b \<and> t' = t\<lparr>lt_nonces := kept @ [r]\<rparr>)"
  by (auto simp add: bindS_def delete_expired_def insert_nonce_def Let_def not_le)

lemma consume_keeps_ok: "moves (on_tables (keeps_ok cf)) (consume_dispatch_nonce st tenant device nonce now expires)"
  unfolding moves_def on_tables_def
proof
  fix s :: "local_tables \<times> 'a"
  obtain t x where s: "s = (t, x)" by fastforce
  obtain r t' x' where c: "consume_dispatch_nonce st tenant device nonce now expires (t, x) = (r, (t', x'))"
    by (metis prod.exhaust)
  from consume_tables[OF c] have "keeps_ok cf t t'"
    by cases (auto simp add: keeps_ok_def local_ok_def nonce_step Let_def keyed_insert keyed_filter list_all_iff
        nonce_row_ok_def drawing_row_valid_def split: if_splits)
  with c s show "keeps_ok cf (fst s) (fst (snd (consume_dispatch_nonce st tenant device nonce now expires s)))" by simp
qed

interpretation same: table_order "(=)"
  by unfold_locales simp_all

section \<open>The outbox\<close>

definition holds_result :: "local_tables \<Rightarrow> instant result_envelope \<Rightarrow> nat list \<Rightarrow> bool" where
  "holds_result t e payload \<longleftrightarrow> (\<exists>r \<in> set (lt_outbox t).
     scoped_result (re_tenant e) (re_device e) (re_task e) r \<and> jo_payload r = payload)"

lemma put_result_refused: "put_result r t = (Inl e, t') \<Longrightarrow> t' = t"
  by (auto simp add: put_result_def insert_result_def split: option.splits if_splits)

lemma find_member: "find P xs = Some r \<Longrightarrow> r \<in> set xs \<and> P r"
  by (metis find_Some_iff nth_mem)

lemma put_result_done:
  assumes "put_result (outbox_entry e payload) t = (Inr u, t')"
  shows "holds_result t' e payload" and "t' = t \<or> (\<exists>r. \<not> conflicts outbox_keys (lt_outbox t) r \<and> t' = t\<lparr>lt_outbox := lt_outbox t @ [r]\<rparr>)"
  using assms
  by (auto simp add: put_result_def insert_result_def outbox_entry_def holds_result_def
      scoped_result_def split: option.splits if_splits dest!: find_member)

lemma result_payload_Inr [simp]:
  "result_payload st e s = (Inr payload, s') \<longleftrightarrow> serialize_result_payload (sr_dump st) e = Inr payload \<and> s' = s"
  by (auto simp add: result_payload_def)

lemma result_payload_state: "result_payload st e s = (r, s') \<Longrightarrow> s' = s"
  by (auto simp add: result_payload_def turned_into_def catchS_def split: sum.splits)

lemma save_Inr:
  assumes "save_pending_result st e (t, x) = (Inr u, (t', x'))"
  obtains payload where "serialize_result_payload (sr_dump st) e = Inr payload"
    "put_result (outbox_entry e payload) t = (Inr (), t')"
  using assms by (auto simp add: save_pending_result_def bindS_eq_Inr dest: connected_Inr)

lemma save_Inl: "save_pending_result st e (t, x) = (Inl er, (t', x')) \<Longrightarrow> t' = t"
  by (auto simp add: save_pending_result_def bindS_eq_Inl dest!: result_payload_state turned_into_Inl connected_Inl)

lemma acknowledge_Inr:
  assumes "acknowledge_pending_result st e (t, x) = (Inr u, (t', x'))"
  obtains payload where "serialize_result_payload (sr_dump st) e = Inr payload" "holds_result t e payload"
    "t' = t\<lparr>lt_outbox := filter (\<lambda>r. \<not> (scoped_result (re_tenant e) (re_device e) (re_task e) r \<and> jo_payload r = payload))
       (lt_outbox t)\<rparr>"
proof -
  from assms obtain payload where p: "serialize_result_payload (sr_dump st) e = Inr payload"
    "delete_result e payload t = (Inr (), t')"
    by (auto simp add: acknowledge_pending_result_def bindS_eq_Inr dest: connected_Inr)
  let ?gone = "\<lambda>r. scoped_result (re_tenant e) (re_device e) (re_task e) r \<and> jo_payload r = payload"
  from p(2) have "length (filter ?gone (lt_outbox t)) = 1" and t: "t' = t\<lparr>lt_outbox := filter (\<lambda>r. \<not> ?gone r) (lt_outbox t)\<rparr>"
    by (auto simp add: delete_result_def Let_def split: if_splits)
  then have "filter ?gone (lt_outbox t) \<noteq> []" by auto
  then have "holds_result t e payload" by (auto simp add: holds_result_def filter_empty_conv)
  with p(1) t that show ?thesis by blast
qed

lemma acknowledge_Inl: "acknowledge_pending_result st e (t, x) = (Inl er, (t', x')) \<Longrightarrow> t' = t"
  by (auto simp add: acknowledge_pending_result_def bindS_eq_Inl dest!: result_payload_state turned_into_Inl connected_Inl)

section \<open>The store over time\<close>

text \<open>
  A step is one call of a method, whatever it returns, or a change of the outside; early is what
  the clock readings given to consume\_dispatch\_nonce satisfy.
\<close>

inductive store_step ::
  "'w local_store \<Rightarrow> (instant \<Rightarrow> bool) \<Rightarrow> local_tables \<times> 'w \<Rightarrow> local_tables \<times> 'w \<Rightarrow> bool"
  for st :: "'w local_store" and early :: "instant \<Rightarrow> bool" where
  outside: "store_step st early (t, x) (t, x')"
| new_project: "store_step st early s (snd (register_project st tn dv p alias root s))"
| same_project: "store_step st early s (snd (ensure_project st tn dv p alias root s))"
| project_lookup: "store_step st early s (snd (resolve_project st tn dv p s))"
| project_list: "store_step st early s (snd (list_local_projects st tn dv s))"
| new_drawing: "store_step st early s (snd (register_drawing st tn dv p d v s))"
| scan: "store_step st early s (snd (get_or_register_drawing st tn dv p v uuid s))"
| drawing_lookup: "store_step st early s (snd (resolve_drawing st tn dv d s))"
| nonce: "(\<And>n. utc_instant now = Some n \<Longrightarrow> early n) \<Longrightarrow>
    store_step st early s (snd (consume_dispatch_nonce st tn dv n0 now expires s))"
| save: "store_step st early s (snd (save_pending_result st e s))"
| pending: "store_step st early s (snd (next_pending_result st tn dv s))"
| acknowledge: "store_step st early s (snd (acknowledge_pending_result st e s))"

abbreviation store_history ::
  "'w local_store \<Rightarrow> (instant \<Rightarrow> bool) \<Rightarrow> local_tables \<times> 'w \<Rightarrow> local_tables \<times> 'w \<Rightarrow> bool" where
  "store_history st early \<equiv> (store_step st early)\<^sup>*\<^sup>*"

context references_order
begin

text \<open>An order that every method moves along relates the ends of a history.\<close>

lemma history_moves:
  assumes casefold: "sr_casefold st = casefold"
    and nonce: "\<And>tn dv n0 now ex. (\<And>n. utc_instant now = Some n \<Longrightarrow> early n) \<Longrightarrow>
        moves (on_tables T) (consume_dispatch_nonce st tn dv n0 now ex)"
    and save: "\<And>e. moves (on_tables T) (save_pending_result st e)"
    and ack: "\<And>e. moves (on_tables T) (acknowledge_pending_result st e)"
    and history: "store_history st early s s'"
  shows "T (fst s) (fst s')"
proof -
  have step: "T (fst s) (fst s')" if "store_step st early s s'" for s s'
    using that
  proof cases
    case (nonce now tn dv n0 ex)
    then show ?thesis using moved[OF assms(2)] by blast
  qed (auto intro: table_refl moved registering_project ensuring_project resolving listing_projects resolving_drawing
      registering_drawing[OF casefold] getting_drawing[OF casefold] save ack next_pending)
  show ?thesis using history by induction (use step table_refl table_trans in blast)+
qed

end

section \<open>Properties of the store\<close>

lemma save_keeps_ok: "moves (on_tables (keeps_ok cf)) (save_pending_result st e)"
  unfolding moves_def on_tables_def
proof
  fix s :: "local_tables \<times> 'a"
  obtain t x where s: "s = (t, x)" by fastforce
  obtain r t' x' where c: "save_pending_result st e (t, x) = (r, (t', x'))" by (metis prod.exhaust)
  have "keeps_ok cf t t'"
  proof (cases r)
    case (Inl er)
    with c save_Inl show ?thesis by (fastforce simp add: keeps_ok_def)
  next
    case (Inr u)
    with c obtain payload where "put_result (outbox_entry e payload) t = (Inr (), t')" by (auto elim: save_Inr)
    from put_result_done(2)[OF this] show ?thesis
      by (auto simp add: keeps_ok_def local_ok_def keyed_insert list_all_iff drawing_row_valid_def)
  qed
  with c s show "keeps_ok cf (fst s) (fst (snd (save_pending_result st e s)))" by simp
qed

lemma acknowledge_keeps_ok: "moves (on_tables (keeps_ok cf)) (acknowledge_pending_result st e)"
  unfolding moves_def on_tables_def
proof
  fix s :: "local_tables \<times> 'a"
  obtain t x where s: "s = (t, x)" by fastforce
  obtain r t' x' where c: "acknowledge_pending_result st e (t, x) = (r, (t', x'))" by (metis prod.exhaust)
  have "keeps_ok cf t t'"
  proof (cases r)
    case (Inl er)
    with c acknowledge_Inl show ?thesis by (fastforce simp add: keeps_ok_def)
  next
    case (Inr u)
    with c show ?thesis
      by (auto simp add: keeps_ok_def local_ok_def keyed_filter list_all_iff drawing_row_valid_def elim!: acknowledge_Inr)
  qed
  with c s show "keeps_ok cf (fst s) (fst (snd (acknowledge_pending_result st e s)))" by simp
qed

lemma put_result_frame: "put_result r t = (v, t') \<Longrightarrow>
    lt_projects t' = lt_projects t \<and> lt_drawings t' = lt_drawings t \<and> lt_nonces t' = lt_nonces t"
  by (auto simp add: put_result_def insert_result_def split: option.splits if_splits)

lemma save_frame: "save_pending_result st e (t, x) = (r, (t', x')) \<Longrightarrow>
    lt_projects t' = lt_projects t \<and> lt_drawings t' = lt_drawings t \<and> lt_nonces t' = lt_nonces t"
  by (cases r) (auto dest: save_Inl elim!: save_Inr dest!: put_result_frame)

lemma acknowledge_frame: "acknowledge_pending_result st e (t, x) = (r, (t', x')) \<Longrightarrow>
    lt_projects t' = lt_projects t \<and> lt_drawings t' = lt_drawings t \<and> lt_nonces t' = lt_nonces t"
  by (cases r) (auto dest: acknowledge_Inl elim!: acknowledge_Inr)

lemma consume_frame: "consume_dispatch_nonce st tn dv n now ex (t, x) = (r, (t', x')) \<Longrightarrow>
    lt_projects t' = lt_projects t \<and> lt_drawings t' = lt_drawings t \<and> lt_outbox t' = lt_outbox t"
  by (erule consume_tables) (auto simp add: nonce_step Let_def split: if_splits)

lemma moves_tablesI: "(\<And>t x r t' x'. m (t, x) = (r, (t', x')) \<Longrightarrow> T t t') \<Longrightarrow> moves (on_tables T) m"
  unfolding moves_def on_tables_def by (metis prod.collapse)

lemma consume_grow: "moves (on_tables references_grow) (consume_dispatch_nonce st tn dv n now ex)"
  and save_grow: "moves (on_tables references_grow) (save_pending_result st e)"
  and acknowledge_grow: "moves (on_tables references_grow) (acknowledge_pending_result st e)"
  and consume_outbox: "moves (on_tables same_outbox) (consume_dispatch_nonce st tn dv n now ex)"
  and save_nonces: "moves (on_tables same_nonces) (save_pending_result st e)"
  and acknowledge_nonces: "moves (on_tables same_nonces) (acknowledge_pending_result st e)"
  by (rule moves_tablesI, auto simp add: references_grow_def same_outbox_def same_nonces_def
      dest!: consume_frame save_frame acknowledge_frame)+

definition no_rows :: local_tables where
  "no_rows = \<lparr>lt_projects = [], lt_drawings = [], lt_nonces = [], lt_outbox = []\<rparr>"

lemma history_ok:
  "store_history st early s s' \<Longrightarrow> local_ok (sr_casefold st) (fst s) \<Longrightarrow> local_ok (sr_casefold st) (fst s')"
  using ok.history_moves[where st = st and early = early, OF refl consume_keeps_ok save_keeps_ok acknowledge_keeps_ok]
  unfolding keeps_ok_def by blast

lemma no_rows_ok: "local_ok cf no_rows"
  by (simp add: local_ok_def no_rows_def keyed_def)

text \<open>The row behind a drawing reference.\<close>

definition drawing_row_of :: "(pytext \<Rightarrow> pytext) \<Rightarrow> local_tables \<Rightarrow> local_drawing \<Rightarrow> drawing_row \<Rightarrow> bool" where
  "drawing_row_of cf t r q \<longleftrightarrow> q \<in> set (lt_drawings t) \<and> jd_drawing q = ld_drawing r \<and> jd_tenant q = ld_tenant r
     \<and> jd_device q = ld_device r \<and> jd_project q = ld_project r \<and> jd_key q = cf (ld_relative r)"

lemma safe_location_relative:
  "safe_location r ps \<Longrightarrow> safe_relative r = Inr c \<Longrightarrow> c = r"
  using safe_relative_location[of r c] safe_location_parts[of r ps] by (simp add: safe_location_def)

lemma resolved_drawing:
  assumes "resolve_drawing st tenant device drawing (t, x) = (Inr r, (t', x'))" and "local_ok (sr_casefold st) t"
  shows "t' = t \<and> (\<exists>q. drawing_row_of (sr_casefold st) t r q) \<and> ld_drawing r = drawing \<and> ld_tenant r = tenant \<and> ld_device r = device"
proof -
  have t: "t' = t" using same.ran[OF same.resolving_drawing assms(1)] by simp
  from assms(1) obtain q relative current where q: "find (scoped_drawing tenant device drawing) (lt_drawings t) = Some q"
    "safe_relative (jd_relative q) = Inr relative" "sr_casefold st current = sr_casefold st relative"
    "r = \<lparr>ld_tenant = tenant, ld_device = device, ld_project = jd_project q, ld_alias = ld_alias r,
       ld_drawing = drawing, ld_relative = current, ld_file = ld_file r\<rparr>"
    by (auto simp add: resolve_drawing_def bindS_eq_Inr split: option.splits dest!: connected_Inr)
  from find_member[OF q(1)] assms(2) have m: "q \<in> set (lt_drawings t)" "scoped_drawing tenant device drawing q"
    "jd_key q = sr_casefold st (jd_relative q)" "safe_location (jd_relative q) (posix_parts (jd_relative q))"
    by (auto simp add: local_ok_def list_all_iff drawing_row_valid_def)
  have "relative = jd_relative q" using safe_location_relative[OF m(4) q(2)] by simp
  with m q(3) have "drawing_row_of (sr_casefold st) t r q"
    by (subst q(4)) (simp add: drawing_row_of_def scoped_drawing_def)
  with t q(4) show ?thesis by (metis local_drawing.select_convs(1,2,5))
qed

lemma chosen_row:
  assumes "drawing_id_for tenant device project c key uuid t = (Inr d, t')"
  shows "\<exists>q \<in> set (lt_drawings t'). keyed_drawing tenant device project key q \<and> jd_drawing q = d"
proof (cases "find (keyed_drawing tenant device project key) (lt_drawings t)")
  case None
  with assms[unfolded drawing_id_result] show ?thesis by (auto simp add: insert_drawing_result keyed_drawing_def)
next
  case (Some q)
  with assms[unfolded drawing_id_result] find_member[OF Some] show ?thesis by auto
qed

lemma same_id: "local_ok cf t \<Longrightarrow> q \<in> set (lt_drawings t) \<Longrightarrow> q' \<in> set (lt_drawings t) \<Longrightarrow> jd_drawing q = jd_drawing q' \<Longrightarrow> q = q'"
  by (rule keyed_unique[of drawing_keys "lt_drawings t" q q' "\<lambda>q r. jd_drawing q = jd_drawing r"])
    (simp_all add: local_ok_def drawing_keys_def)

lemma same_key: "local_ok cf t \<Longrightarrow> q \<in> set (lt_drawings t) \<Longrightarrow> q' \<in> set (lt_drawings t) \<Longrightarrow> jd_tenant q = jd_tenant q'
    \<Longrightarrow> jd_device q = jd_device q' \<Longrightarrow> jd_project q = jd_project q' \<Longrightarrow> jd_key q = jd_key q' \<Longrightarrow> q = q'"
  by (rule keyed_unique[of drawing_keys "lt_drawings t" q q' "\<lambda>q r. jd_tenant q = jd_tenant r \<and> jd_device q = jd_device r
        \<and> jd_project q = jd_project r \<and> jd_key q = jd_key r"])
    (simp_all add: local_ok_def drawing_keys_def)

lemma got_drawing:
  assumes "get_or_register_drawing st tenant device project v uuid (t, x) = (Inr r, (t', x'))"
    and "local_ok (sr_casefold st) t"
  shows "(\<exists>q. drawing_row_of (sr_casefold st) t' r q) \<and> ld_tenant r = tenant \<and> ld_device r = device
    \<and> ld_project r = project \<and> local_ok (sr_casefold st) t'"
proof -
  have o: "local_ok (sr_casefold st) t'"
    using ok.ran[OF ok.getting_drawing[OF refl] assms(1)] assms(2)
    by (simp add: keeps_ok_def)
  from assms(1) obtain c d t1 t2 x2 where
    run: "drawing_id_for tenant device project c (sr_casefold st c) uuid t1 = (Inr d, t2)"
      "resolve_drawing st tenant device d (t2, x2) = (Inr r, (t', x'))"
    by (auto simp add: get_or_register_drawing_def bindS_eq_Inr beside_eq dest!: connected_Inr)
  have t2: "t' = t2" using same.ran[OF same.resolving_drawing run(2)] by simp
  from resolved_drawing[OF run(2)] o t2 obtain q where q: "drawing_row_of (sr_casefold st) t' r q"
    "ld_drawing r = d" "ld_tenant r = tenant" "ld_device r = device" by auto
  from chosen_row[OF run(1)] obtain q' where q': "q' \<in> set (lt_drawings t')" "jd_drawing q' = d" "jd_project q' = project"
    by (auto simp add: t2 keyed_drawing_def)
  have "q = q'" using q q' o same_id[of "sr_casefold st" t' q q'] by (simp add: drawing_row_of_def)
  with q q' o show ?thesis by (auto simp add: drawing_row_of_def)
qed

text \<open>
  The opaque id of a drawing is stable and faithful: two scans of the same
  workstation, whatever the store did in between, give the same id exactly for the same project and
  the same relative path up to case folding.
\<close>

theorem drawing_ids_are_stable:
  assumes start: "store_history st everything (no_rows, x0) (t, x)"
    and first: "get_or_register_drawing st tenant device project v uuid (t, x) = (Inr r, (t1, x1))"
    and later: "store_history st anything (t1, x1) (t2, x2)"
    and second: "get_or_register_drawing st tenant device project' v' uuid' (t2, x2) = (Inr r', (t3, x3))"
  shows "ld_drawing r' = ld_drawing r \<longleftrightarrow>
    project' = project \<and> sr_casefold st (ld_relative r') = sr_casefold st (ld_relative r)"
proof -
  let ?cf = "sr_casefold st"
  have o: "local_ok ?cf t" using history_ok[OF start] no_rows_ok by simp
  from got_drawing[OF first o] obtain q where q: "drawing_row_of ?cf t1 r q" and
    r: "ld_tenant r = tenant" "ld_device r = device" "ld_project r = project" and o1: "local_ok ?cf t1" by auto
  have o2: "local_ok ?cf t2" using history_ok[OF later] o1 by simp
  from got_drawing[OF second o2] obtain q' where q': "drawing_row_of ?cf t3 r' q'" and
    r': "ld_tenant r' = tenant" "ld_device r' = device" "ld_project r' = project'" and o3: "local_ok ?cf t3" by auto
  have "references_grow t1 t2"
    using growth.history_moves[OF refl consume_grow save_grow acknowledge_grow later] by simp
  moreover have "references_grow t2 t3"
    by (rule growth.ran[OF growth.getting_drawing[OF refl] second])
  ultimately have m: "q \<in> set (lt_drawings t3)" using q by (auto simp add: references_grow_def drawing_row_of_def)
  show ?thesis
    using m q q' r r' same_id[OF o3 m, of q'] same_key[OF o3 m, of q'] by (auto simp add: drawing_row_of_def)
qed


section \<open>Nonces are spent once\<close>

definition spent :: "string \<Rightarrow> string \<Rightarrow> string \<Rightarrow> instant \<Rightarrow> local_tables \<Rightarrow> bool" where
  "spent tenant device n ex t \<longleftrightarrow> (\<exists>r \<in> set (lt_nonces t). jn_tenant r = tenant \<and> jn_device r = device
     \<and> jn_nonce r = n \<and> jn_expires r = ex)"

definition keeps_spent :: "string \<Rightarrow> string \<Rightarrow> string \<Rightarrow> instant \<Rightarrow> local_tables \<Rightarrow> local_tables \<Rightarrow> bool" where
  "keeps_spent tenant device n ex t t' \<longleftrightarrow> (spent tenant device n ex t \<longrightarrow> spent tenant device n ex t')"

interpretation spending: references_order "keeps_spent tenant device n ex" cf
  by unfold_locales (auto simp add: keeps_spent_def spent_def insert_project_result insert_drawing_result)

lemma consume_keeps_spent:
  assumes "\<And>m. utc_instant now = Some m \<Longrightarrow> m < ex"
  shows "moves (on_tables (keeps_spent tenant device n ex)) (consume_dispatch_nonce st tn dv n0 now e)"
proof (rule moves_tablesI)
  fix t x r t' x' assume c: "consume_dispatch_nonce st tn dv n0 now e (t, x) = (r, (t', x'))"
  from consume_tables[OF c] show "keeps_spent tenant device n ex t t'"
    by cases (use assms in \<open>auto simp add: keeps_spent_def spent_def nonce_step Let_def split: if_splits\<close>)
qed

lemma save_keeps_spent: "moves (on_tables (keeps_spent tenant device n ex)) (save_pending_result st e)"
  and acknowledge_keeps_spent: "moves (on_tables (keeps_spent tenant device n ex)) (acknowledge_pending_result st e)"
  by (rule moves_tablesI, auto simp add: keeps_spent_def spent_def dest!: save_frame acknowledge_frame)+

lemma accepted_is_spent:
  assumes "consume_dispatch_nonce st tenant device n now e (t, x) = (Inr True, (t', x'))"
  shows "\<exists>m ex. utc_instant now = Some m \<and> utc_instant e = Some ex \<and> m < ex \<and> ex \<le> m + max_dispatch_lifetime
    \<and> spent tenant device n ex t' \<and> (\<forall>q \<in> set (lt_nonces t'). m < jn_expires q)"
  using assms
  by (auto simp add: consume_dispatch_nonce_def bindS_eq_Inr split: option.splits dest!: connected_Inr)
    (auto simp add: delete_expired_def insert_nonce_def spent_def split: if_splits)

lemma spent_is_refused:
  assumes "spent tenant device n ex t" and "\<And>m. utc_instant now = Some m \<Longrightarrow> m < ex"
    and "consume_dispatch_nonce st tenant device n now e (t, x) = (r, s')"
  shows "r \<noteq> Inr True"
proof
  assume r: "r = Inr True"
  obtain t' x' where s': "s' = (t', x')" by fastforce
  from assms(3) r s' obtain m e' where m: "utc_instant now = Some m" and
    b: "bindS (delete_expired m) (\<lambda>_. insert_nonce \<lparr>jn_tenant = tenant, jn_device = device, jn_nonce = n, jn_expires = e'\<rparr>) t
      = (Inr True, t')"
    by (auto simp add: consume_dispatch_nonce_def bindS_eq_Inr split: option.splits dest!: connected_Inr)
  from assms(2)[OF m] assms(1) obtain q where "q \<in> set (filter (\<lambda>q. m < jn_expires q) (lt_nonces t))"
    "jn_tenant q = tenant" "jn_device q = device" "jn_nonce q = n" by (auto simp add: spent_def)
  with b show False by (auto simp add: nonce_step Let_def conflicts_def nonce_keys_def list_ex_iff split: if_splits)
qed

text \<open>
  C25: A dispatch nonce is accepted at most once: after it was accepted with a
  deadline, no later call of the same workstation accepts it while the clock readings stay before
  that deadline, whatever else the store did; and an acceptance leaves no expired row behind.
\<close>

theorem nonce_accepted_once:
  assumes first: "consume_dispatch_nonce st tenant device n now e (t, x) = (Inr True, (t1, x1))"
    and deadline: "utc_instant e = Some ex"
    and later: "store_history st (\<lambda>m. m < ex) (t1, x1) (t2, x2)"
    and again: "consume_dispatch_nonce st tenant device n now' e' (t2, x2) = (r, (t3, x3))"
    and before: "utc_instant now' = Some m'" "m' < ex"
  shows "r \<noteq> Inr True \<and> (\<exists>m. utc_instant now = Some m \<and> (\<forall>q \<in> set (lt_nonces t1). m < jn_expires q))"
proof -
  from accepted_is_spent[OF first] deadline have s: "spent tenant device n ex t1"
    and k: "\<exists>m. utc_instant now = Some m \<and> (\<forall>q \<in> set (lt_nonces t1). m < jn_expires q)" by auto
  have "spent tenant device n ex t2"
    using spending.history_moves[OF refl _ save_keeps_spent acknowledge_keeps_spent later] consume_keeps_spent s
    unfolding keeps_spent_def fst_conv by blast
  from spent_is_refused[OF this _ again] before k show ?thesis by auto
qed

section \<open>A lagging clock\<close>

text \<open>
  The protocol admits a task up to 30 seconds before it was issued, for
  clocks that differ; the nonce store admits only deadlines within five minutes of the workstation's
  clock. So a task with more than five minutes left on that clock is refused, although its window
  is open and whatever its signature.
\<close>

theorem lagging_clock_is_refused:
  assumes "n + max_dispatch_lifetime < te_expires task"
  shows "authorize_for_worker stamp task tenant user device policy (OffsetTime 0 n) verify
      (\<lambda>nonce. consume_dispatch_nonce st tenant device nonce (OffsetTime 0 n) (OffsetTime 0 (te_expires task))) s
    = (Inl (ValueError ''dispatch_authorization_failed''), s)"
proof -
  have "\<exists>e. consume_dispatch_nonce st tenant device nonce (OffsetTime 0 n) (OffsetTime 0 (te_expires task)) s = (Inl e, s)" for nonce
    using assms by (auto simp add: consume_dispatch_nonce_def utc_instant_def validated_scope_def validated_def refuse_def
        bindS_def ensure_def)
  then obtain e where e: "consume_dispatch_nonce st tenant device (te_nonce task) (OffsetTime 0 n) (OffsetTime 0 (te_expires task)) s
      = (Inl e, s)" by blast
  show ?thesis by (auto simp add: authorize_for_worker_def Let_def bindS_guardS bindS_def catchS_def e ensure_def)
qed

section \<open>Examples\<close>

definition sample_local_world :: "nat local_world" where
  "sample_local_world = \<lparr>lw_open = ret (), lw_commit = ret (), lw_plain_directory = (\<lambda>p. ret (p, p, True)),
     lw_redirected = (\<lambda>_ _. ret False),
     lw_locate = (\<lambda>root parts. ret \<lparr>lf_file = root @ [47] @ join_slash parts, lf_is_file = True,
        lf_suffix = codes ''.dwg'', lf_relative = Some (join_slash parts)\<rparr>),
     lw_uuid = (\<lambda>k. (Inr (''00000000-0000-4000-8000-00000000000'' @ [char_of (48 + k)]), Suc k))\<rparr>"

definition sample_store :: "nat local_store" where
  "sample_store = \<lparr>sr_world = sample_local_world, sr_casefold = map ascii_lower, sr_normcase = (\<lambda>p. p),
     sr_dump = (\<lambda>_. codes ''result''), sr_parse = (\<lambda>_. Inl (ValueError ''json''))\<rparr>"

definition local_tenant :: string where "local_tenant = ''tnt_00000000-0000-4000-8000-000000000001''"
definition local_device :: string where "local_device = ''ws_00000000-0000-4000-8000-000000000001''"
definition local_prj :: string where "local_prj = ''prj_00000000-0000-4000-8000-000000000001''"

definition with_project :: local_tables where
  "with_project = no_rows\<lparr>lt_projects := [\<lparr>jp_project = local_prj, jp_tenant = local_tenant, jp_device = local_device,
     jp_alias = ''a'', jp_root = codes ''/r''\<rparr>]\<rparr>"

lemma project_registered:
  "register_project sample_store local_tenant local_device local_prj ''a'' (codes ''/r'') (no_rows, 0)
     = (Inr \<lparr>lp_tenant = local_tenant, lp_device = local_device, lp_project = local_prj, lp_alias = ''a'', lp_root = codes ''/r''\<rparr>,
        (with_project, 0))"
  by code_simp

lemma history_with_project: "store_history sample_store everything (no_rows, 0) (with_project, 0)"
  using store_step.new_project[of sample_store everything "(no_rows, 0)" local_tenant local_device local_prj "''a''" "codes ''/r''"]
  unfolding project_registered snd_conv by (rule r_into_rtranclp)


definition local_drw :: string where "local_drw = ''drw_00000000-0000-4000-8000-000000000002''"

definition with_drawing :: local_tables where
  "with_drawing = with_project\<lparr>lt_drawings := [\<lparr>jd_drawing = local_drw, jd_tenant = local_tenant, jd_device = local_device,
     jd_project = local_prj, jd_relative = codes ''d/a.dwg'', jd_key = codes ''d/a.dwg''\<rparr>]\<rparr>"

definition scanned_as :: "string \<Rightarrow> local_drawing" where
  "scanned_as relative = \<lparr>ld_tenant = local_tenant, ld_device = local_device, ld_project = local_prj, ld_alias = ''a'',
     ld_drawing = local_drw, ld_relative = codes relative, ld_file = codes (''/r/'' @ relative)\<rparr>"

definition registered_project :: local_project where
  "registered_project = \<lparr>lp_tenant = local_tenant, lp_device = local_device, lp_project = local_prj, lp_alias = ''a'', lp_root = codes ''/r''\<rparr>"

lemma sample_ids: "remote_tenant_id local_tenant" "remote_device_id local_device" "remote_project_id local_prj"
  "remote_drawing_id local_drw" "''drw_'' @ ''00000000-0000-4000-8000-000000000002'' = local_drw"
  by code_simp+

lemmas path_simps = safe_relative_def codes_def py_strip_def py_space_def posix_parts_def Let_def unsafe_part_def
  is_drawing_suffix_def part_suffix_def ascii_lower_def

lemma sample_paths: "safe_relative (codes ''d//a.dwg'') = Inr (codes ''d/a.dwg'')"
  "safe_relative (codes ''./d/a.dwg'') = Inr (codes ''d/a.dwg'')" "safe_relative (codes ''d/a.dwg'') = Inr (codes ''d/a.dwg'')"
  "map ascii_lower (codes ''d/a.dwg'') = codes ''d/a.dwg''" "posix_parts (codes ''d/a.dwg'') = [codes ''d'', codes ''a.dwg'']"
  "join_slash [codes ''d'', codes ''a.dwg''] = codes ''d/a.dwg''" "is_drawing_suffix (codes ''.dwg'')"
  "codes ''/r'' @ 47 # codes ''d/a.dwg'' = codes ''/r/d/a.dwg''"
  by (simp_all add: path_simps)

lemma sample_resolved:
  "resolve_project sample_store local_tenant local_device local_prj (with_project, 0) = (Inr registered_project, (with_project, 0))"
  "resolve_project sample_store local_tenant local_device local_prj (with_drawing, 0) = (Inr registered_project, (with_drawing, 0))"
  by code_simp+

lemma sample_located:
  "resolve_local_drawing sample_store (codes ''/r'') (codes ''d/a.dwg'') 0 = (Inr (codes ''/r/d/a.dwg'', codes ''d/a.dwg''), 0)"
  by (simp add: resolve_local_drawing_def sample_paths bindS_def Let_def sample_store_def sample_local_world_def turned_into_def
      catchS_def refuse_def del: join_slash.simps)

lemma sample_connected: "connected sample_store m (t, 0) = (case m t of (Inl e, _) \<Rightarrow> (Inl e, (t, 0)) | (Inr v, t') \<Rightarrow> (Inr v, (t', 0)))"
  by (simp add: connected_run sample_store_def sample_local_world_def split: prod.splits sum.splits)

lemma sample_rows: "find (keyed_drawing local_tenant local_device local_prj (codes ''d/a.dwg'')) (lt_drawings with_project) = None"
  "insert_drawing \<lparr>jd_drawing = local_drw, jd_tenant = local_tenant, jd_device = local_device, jd_project = local_prj,
      jd_relative = codes ''d/a.dwg'', jd_key = codes ''d/a.dwg''\<rparr> with_project = (Inr (), with_drawing)"
  by code_simp+

lemma sample_chosen:
  "drawing_id_for local_tenant local_device local_prj (codes ''d/a.dwg'') (codes ''d/a.dwg'') ''00000000-0000-4000-8000-000000000002''
     with_project = (Inr local_drw, with_drawing)"
  using sample_rows by (simp only: drawing_id_result option.case sample_ids simp_thms)

lemma sample_chosen_again:
  "drawing_id_for local_tenant local_device local_prj (codes ''d/a.dwg'') (codes ''d/a.dwg'') uuid with_drawing
     = (Inr local_drw, with_drawing)"
  by (simp add: drawing_id_for_def with_drawing_def keyed_drawing_def)

lemma sample_drawing_found:
  "resolve_drawing sample_store local_tenant local_device local_drw (with_drawing, 0) = (Inr (scanned_as ''d/a.dwg''), (with_drawing, 0))"
proof -
  have f: "find (scoped_drawing local_tenant local_device local_drw) (lt_drawings with_drawing) = Some
    \<lparr>jd_drawing = local_drw, jd_tenant = local_tenant, jd_device = local_device,
     jd_project = local_prj, jd_relative = codes ''d/a.dwg'', jd_key = codes ''d/a.dwg''\<rparr>"
    by (simp add: with_drawing_def scoped_drawing_def)
  show ?thesis
    by (simp add: resolve_drawing_def bindS_def validated_scope_def validated_def refuse_def sample_ids sample_connected query_def f
        turned_into_def catchS_def sample_paths sample_resolved beside_def registered_project_def sample_located scanned_as_def)
qed

lemma scans:
  assumes "safe_relative v = Inr (codes ''d/a.dwg'')"
  shows "drawing_id_for local_tenant local_device local_prj (codes ''d/a.dwg'') (codes ''d/a.dwg'') uuid t = (Inr local_drw, with_drawing)
    \<Longrightarrow> resolve_project sample_store local_tenant local_device local_prj (t, 0) = (Inr registered_project, (t, 0))
    \<Longrightarrow> get_or_register_drawing sample_store local_tenant local_device local_prj v uuid (t, 0)
      = (Inr (scanned_as ''d/a.dwg''), (with_drawing, 0))"
proof -
  have c: "sr_casefold sample_store (codes ''d/a.dwg'') = codes ''d/a.dwg''" by (simp add: sample_store_def sample_paths)
  assume "drawing_id_for local_tenant local_device local_prj (codes ''d/a.dwg'') (codes ''d/a.dwg'') uuid t = (Inr local_drw, with_drawing)"
    "resolve_project sample_store local_tenant local_device local_prj (t, 0) = (Inr registered_project, (t, 0))"
  then show ?thesis
    by (simp add: get_or_register_drawing_def bindS_def validated_scope_def validated_def refuse_def sample_ids assms
        sample_resolved registered_project_def beside_def sample_located sample_connected c sample_drawing_found)
qed

lemma first_scan:
  "get_or_register_drawing sample_store local_tenant local_device local_prj (codes ''d//a.dwg'')
     ''00000000-0000-4000-8000-000000000002'' (with_project, 0) = (Inr (scanned_as ''d/a.dwg''), (with_drawing, 0))"
  by (rule scans[OF sample_paths(1) sample_chosen sample_resolved(1)])

lemma second_scan:
  "get_or_register_drawing sample_store local_tenant local_device local_prj (codes ''./d/a.dwg'')
     ''00000000-0000-4000-8000-000000000003'' (with_drawing, 0) = (Inr (scanned_as ''d/a.dwg''), (with_drawing, 0))"
  by (rule scans[OF sample_paths(2) sample_chosen_again sample_resolved(2)])

theorem drawing_ids_are_stable_witness:
  "\<exists>r r' s s'. get_or_register_drawing sample_store local_tenant local_device local_prj (codes ''d//a.dwg'')
        ''00000000-0000-4000-8000-000000000002'' (with_project, 0) = (Inr r, s)
    \<and> get_or_register_drawing sample_store local_tenant local_device local_prj (codes ''./d/a.dwg'')
        ''00000000-0000-4000-8000-000000000003'' s = (Inr r', s')
    \<and> ld_drawing r' = ld_drawing r"
  using first_scan second_scan drawing_ids_are_stable[OF history_with_project first_scan rtranclp.rtrancl_refl second_scan]
  by blast

text \<open>
  A drawing reference that the store returns names a file below its
  project: the relative path is a list of at most 128 steps, none of them empty, a dot, two dots, a
  drive, or a name with separators or control characters, and the last one is a drawing.
\<close>

theorem returned_paths_are_safe:
  assumes "resolve_drawing st tenant device drawing s = (Inr r, s')"
  shows "safe_location (ld_relative r) (posix_parts (ld_relative r))"
proof -
  obtain t x where s: "s = (t, x)" by fastforce
  from assms obtain root v y f y' where "resolve_local_drawing st root v y = (Inr (f, ld_relative r), y')"
    by (auto simp add: s resolve_drawing_def bindS_eq_Inr beside_eq split: option.splits)
  then show ?thesis by (rule resolve_local_drawing_location)
qed

theorem returned_paths_are_safe_witness: "safe_location (codes ''d/a.dwg'') [codes ''d'', codes ''a.dwg'']"
  using returned_paths_are_safe[OF sample_drawing_found] by (simp add: scanned_as_def sample_paths)

definition sample_nonce :: string where "sample_nonce = replicate 22 CHR ''n''"

lemma sample_accepted:
  "consume_dispatch_nonce sample_store local_tenant local_device sample_nonce (OffsetTime 0 10) (OffsetTime 0 20) (with_project, 0)
     = (Inr True, (with_project\<lparr>lt_nonces := [\<lparr>jn_tenant = local_tenant, jn_device = local_device, jn_nonce = sample_nonce,
         jn_expires = 20\<rparr>]\<rparr>, 0))"
  by code_simp

theorem nonce_accepted_once_witness:
  "fst (consume_dispatch_nonce sample_store local_tenant local_device sample_nonce (OffsetTime 0 15) (OffsetTime 0 25)
     (with_project\<lparr>lt_nonces := [\<lparr>jn_tenant = local_tenant, jn_device = local_device, jn_nonce = sample_nonce,
         jn_expires = 20\<rparr>]\<rparr>, 0)) \<noteq> Inr True"
proof -
  obtain r t3 x3 where r: "consume_dispatch_nonce sample_store local_tenant local_device sample_nonce (OffsetTime 0 15) (OffsetTime 0 25)
     (with_project\<lparr>lt_nonces := [\<lparr>jn_tenant = local_tenant, jn_device = local_device, jn_nonce = sample_nonce,
         jn_expires = 20\<rparr>]\<rparr>, 0) = (r, (t3, x3))" by (metis prod.exhaust)
  from nonce_accepted_once[OF sample_accepted _ rtranclp.rtrancl_refl r, of 20 15]
  show ?thesis by (simp add: r utc_instant_def)
qed

definition early_task :: "instant task_envelope" where
  "early_task = \<lparr>te_policy = 1, te_tenant = local_tenant, te_user = ''usr_00000000-0000-4000-8000-000000000001'',
     te_device = local_device, te_task = ''tsk_00000000-0000-4000-8000-000000000001'',
     te_operation = ''op_00000000-0000-4000-8000-000000000001'', te_command_id = ''cmd_00000000-0000-4000-8000-000000000001'',
     te_idem = ''idem_00000000-0000-4000-8000-000000000001'', te_nonce = sample_nonce, te_issued = seconds 100,
     te_expires = seconds 400, te_command = ListProjectsCommand, te_signature = replicate 86 CHR ''s''\<rparr>"

theorem lagging_clock_is_refused_witness:
  "time_matches early_task (OffsetTime 0 (seconds 99)) \<and>
   authorize_for_worker dec_int early_task local_tenant (te_user early_task) local_device 1 (OffsetTime 0 (seconds 99))
      (\<lambda>_ _. Inr True)
      (\<lambda>nonce. consume_dispatch_nonce sample_store local_tenant local_device nonce (OffsetTime 0 (seconds 99))
         (OffsetTime 0 (te_expires early_task))) (with_project, 0)
    = (Inl (ValueError ''dispatch_authorization_failed''), (with_project, 0))"
proof
  show "time_matches early_task (OffsetTime 0 (seconds 99))" by code_simp
  show "authorize_for_worker dec_int early_task local_tenant (te_user early_task) local_device 1 (OffsetTime 0 (seconds 99))
      (\<lambda>_ _. Inr True)
      (\<lambda>nonce. consume_dispatch_nonce sample_store local_tenant local_device nonce (OffsetTime 0 (seconds 99))
         (OffsetTime 0 (te_expires early_task))) (with_project, 0)
    = (Inl (ValueError ''dispatch_authorization_failed''), (with_project, 0))"
    by (rule lagging_clock_is_refused) code_simp
qed

end
