(* ===== verification/Worker_Runner.thy ===== *)
theory Worker_Runner
  imports Local_References Worker_Http
begin

text \<open>
  The workstation's side of the connection: WorkerHttpsClient
  (src/cadplot\_mcp/worker\_transport.py), which signs the three control requests and checks what
  comes back, and WorkerRunner (worker\_runner.py), one iteration of the worker: deliver what is
  pending, else poll, execute, keep, deliver. The exchange of bytes, the clock and the nonce source
  are operations of a record.
\<close>

section \<open>The transport\<close>

record http_call =
  hc_method :: string
  hc_url :: string
  hc_headers :: "(string \<times> string) list"
  hc_body :: "nat list"
  hc_timeout :: int
  hc_max_response :: nat

record http_reply =
  hp_status :: int
  hp_url :: string
  hp_headers :: "(string \<times> string) list"
  hp_body :: "nat list"

record 'w transport_client =
  tc_origin :: string
  tc_identity :: poll_request
  tc_key :: string
  tc_timeout :: int
  tc_sign :: "nat list \<Rightarrow> string res"
  tc_exchange :: "http_call \<Rightarrow> ('w, http_reply) py"
  tc_clock :: "('w, py_datetime) py"
  tc_nonce :: "('w, string) py"
  tc_sha256 :: "nat list \<Rightarrow> nat list"
  tc_stamp :: "instant \<Rightarrow> string"
  tc_isoformat :: "instant \<Rightarrow> string"
  tc_casefold :: "pytext \<Rightarrow> pytext"
  tc_dump_poll :: "poll_request \<Rightarrow> pytext"
  tc_dump_start :: "start_request \<Rightarrow> pytext"
  tc_dump_result :: "instant result_envelope \<Rightarrow> pytext"
  tc_parse_task :: "nat list \<Rightarrow> instant task_envelope res"
  tc_parse_ack :: "nat list \<Rightarrow> control_ack res"

text \<open>The constructor: c holds the fields it only stores.\<close>

definition transport_client_init ::
  "'w transport_client \<Rightarrow> (string \<Rightarrow> string res) \<Rightarrow> string \<Rightarrow> string \<Rightarrow> string \<Rightarrow> string \<Rightarrow> string \<Rightarrow> int
    \<Rightarrow> 'w transport_client res" where
  "transport_client_init c canonical_https_origin origin tenant user device key timeout =
     (if \<not> (1 \<le> timeout \<and> timeout \<le> 60) then Inl (WorkerTransportError ''timeout_invalid'')
      else let identity = \<lparr>wp_tenant = tenant, wp_user = user, wp_device = device\<rparr> in
        if \<not> valid_poll_request identity \<or> \<not> worker_key_id key then Inl (WorkerTransportError ''identity_invalid'')
        else bindR (canonical_https_origin origin) (\<lambda>canonical.
          Inr (c\<lparr>tc_origin := canonical, tc_identity := identity, tc_key := key, tc_timeout := timeout\<rparr>)))"

definition client_now :: "'w transport_client \<Rightarrow> ('w, wire_time) py" where
  "client_now c = bindS (tc_clock c) (\<lambda>value. case value of
     Naive _ \<Rightarrow> raise (WorkerTransportError ''clock_invalid'') | Aware t \<Rightarrow> ret (OffsetTime 0 t))"

definition request_headers :: "(string \<times> string) list" where
  "request_headers = [(''accept'', ''application/json''), (''content-type'', ''application/json; charset=utf-8''),
     (''user-agent'', ''cadplot-worker/1'')]"

definition lower_name :: "string \<Rightarrow> string" where
  "lower_name = map (\<lambda>c. char_of (ascii_lower (of_char c)))"

text \<open>normalized\_headers.get(name, absent): of equal names the last one counts.\<close>

definition reply_header :: "http_reply \<Rightarrow> string \<Rightarrow> string \<Rightarrow> string" where
  "reply_header r name absent =
     (case map_of (rev (map (\<lambda>(k, v). (lower_name k, v)) (hp_headers r))) name of None \<Rightarrow> absent | Some v \<Rightarrow> v)"

definition transport_guard :: "bool \<Rightarrow> string \<Rightarrow> ('w, unit) py" where
  "transport_guard ok code = guardS ok (WorkerTransportError code)"

fun is_transport_error :: "exn \<Rightarrow> bool" where
  "is_transport_error (WorkerTransportError c) = True"
| "is_transport_error e = False"

definition build_call ::
  "'w transport_client \<Rightarrow> string \<Rightarrow> nat list \<Rightarrow> nat \<Rightarrow> ('w, http_call) py" where
  "build_call c route body max_response_bytes =
     bindS (catchS
       (bindS (client_now c) (\<lambda>issued. bindS (tc_nonce c) (\<lambda>nonce.
        liftR (build_request_proof (tc_stamp c) (tc_sha256 c) (wp_tenant (tc_identity c)) (wp_device (tc_identity c))
          (tc_key c) issued nonce ''POST'' route body (tc_sign c)))))
       (\<lambda>_. raise (WorkerTransportError ''request_proof_invalid''))) (\<lambda>proof.
     ret \<lparr>hc_method = ''POST'', hc_url = tc_origin c @ route,
       hc_headers = request_headers @ to_headers (tc_isoformat c) proof, hc_body = body,
       hc_timeout = tc_timeout c, hc_max_response = max_response_bytes\<rparr>)"

definition client_send ::
  "'w transport_client \<Rightarrow> string \<Rightarrow> nat list \<Rightarrow> nat \<Rightarrow> ('w, http_reply) py" where
  "client_send c route body max_response_bytes =
     bindS (build_call c route body max_response_bytes) (\<lambda>call.
     bindS (catchS (tc_exchange c call)
       (\<lambda>e. raise (if is_transport_error e then e else WorkerTransportError ''transport_unavailable''))) (\<lambda>reply.
     bindS (transport_guard (hp_url reply = tc_origin c @ route) ''redirect_rejected'') (\<lambda>_.
     bindS (transport_guard (\<not> (300 \<le> hp_status reply \<and> hp_status reply \<le> 399)) ''redirect_rejected'') (\<lambda>_.
     bindS (transport_guard (hp_status reply = 200 \<or> hp_status reply = 204) ''unexpected_status'') (\<lambda>_.
     bindS (transport_guard (length (hp_body reply) \<le> max_response_bytes) ''response_too_large'') (\<lambda>_.
     bindS (transport_guard (tc_casefold c (py_strip (codes (reply_header reply ''content-encoding'' ''identity'')))
              \<in> {[], codes ''identity''}) ''response_encoding_rejected'') (\<lambda>_.
     ret reply)))))))"

definition require_json_success :: "'w transport_client \<Rightarrow> http_reply \<Rightarrow> ('w, unit) py" where
  "require_json_success c reply =
     bindS (transport_guard (hp_status reply = 200 \<and> hp_body reply \<noteq> []) ''response_invalid'') (\<lambda>_.
     transport_guard (tc_casefold c (py_strip (codes (takeWhile (\<lambda>ch. ch \<noteq> CHR '';'')
         (reply_header reply ''content-type'' '''')))) = codes ''application/json'') ''response_content_type_rejected'')"

definition require_task_identity :: "'w transport_client \<Rightarrow> 't task_envelope \<Rightarrow> ('w, unit) py" where
  "require_task_identity c task = transport_guard (te_tenant task = wp_tenant (tc_identity c)
     \<and> te_user task = wp_user (tc_identity c) \<and> te_device task = wp_device (tc_identity c)) ''task_binding_invalid''"

definition require_result_identity :: "'w transport_client \<Rightarrow> 't result_envelope \<Rightarrow> ('w, unit) py" where
  "require_result_identity c result = transport_guard (re_tenant result = wp_tenant (tc_identity c)
     \<and> re_user result = wp_user (tc_identity c) \<and> re_device result = wp_device (tc_identity c)) ''result_binding_invalid''"

definition reply_parsed :: "string \<Rightarrow> 'a res \<Rightarrow> ('w, 'a) py" where
  "reply_parsed code r = catchS (liftR r)
     (\<lambda>e. raise (if is_value_or_type_error e then WorkerTransportError code else e))"

text \<open>\_parse\_bound\_ack, given the ids of its source.\<close>

definition parse_bound_ack ::
  "'w transport_client \<Rightarrow> nat list \<Rightarrow> string \<Rightarrow> string \<Rightarrow> string \<Rightarrow> ('w, control_ack) py" where
  "parse_bound_ack c body task oper command =
     bindS (reply_parsed ''ack_invalid'' (parse_control_payload (tc_parse_ack c) (PayloadBytes body))) (\<lambda>ack.
     bindS (transport_guard (ack_task ack = task \<and> ack_operation ack = oper \<and> ack_command_id ack = command)
       ''ack_binding_invalid'') (\<lambda>_. ret ack))"

definition client_poll :: "'w transport_client \<Rightarrow> ('w, instant task_envelope option) py" where
  "client_poll c =
     bindS (liftR (serialize_control_payload (tc_dump_poll c) (tc_identity c))) (\<lambda>body.
     bindS (client_send c ''/worker/v1/tasks/poll'' body max_task_payload_bytes) (\<lambda>reply.
     if hp_status reply = 204
     then bindS (transport_guard (hp_body reply = []) ''response_invalid'') (\<lambda>_. ret None)
     else bindS (require_json_success c reply) (\<lambda>_.
          bindS (reply_parsed ''task_invalid'' (parse_task_payload (tc_parse_task c) (PayloadBytes (hp_body reply)))) (\<lambda>task.
          bindS (require_task_identity c task) (\<lambda>_. ret (Some task))))))"

definition client_start :: "'w transport_client \<Rightarrow> instant task_envelope \<Rightarrow> ('w, control_ack) py" where
  "client_start c task =
     bindS (require_task_identity c task) (\<lambda>_.
     let request = \<lparr>st_tenant = te_tenant task, st_user = te_user task, st_device = te_device task,
           st_task = te_task task, st_operation = te_operation task, st_command_id = te_command_id task\<rparr> in
     bindS (liftR (made (valid_start_request request) request)) (\<lambda>valid.
     bindS (liftR (serialize_control_payload (tc_dump_start c) valid)) (\<lambda>body.
     bindS (client_send c ''/worker/v1/tasks/start'' body max_control_payload_bytes) (\<lambda>reply.
     bindS (require_json_success c reply) (\<lambda>_.
     parse_bound_ack c (hp_body reply) (te_task task) (te_operation task) (te_command_id task))))))"

definition client_complete :: "'w transport_client \<Rightarrow> instant result_envelope \<Rightarrow> ('w, control_ack) py" where
  "client_complete c result =
     bindS (require_result_identity c result) (\<lambda>_.
     bindS (liftR (serialize_result_payload (tc_dump_result c) result)) (\<lambda>body.
     bindS (client_send c ''/worker/v1/tasks/complete'' body max_control_payload_bytes) (\<lambda>reply.
     bindS (require_json_success c reply) (\<lambda>_.
     parse_bound_ack c (hp_body reply) (re_task result) (re_operation result) (re_command_id result)))))"

section \<open>The runner\<close>

text \<open>WorkerClient: what start and complete return is not looked at.\<close>

record 'w worker_client =
  wc_poll :: "('w, instant task_envelope option) py"
  wc_start :: "instant task_envelope \<Rightarrow> ('w, unit) py"
  wc_complete :: "instant result_envelope \<Rightarrow> ('w, unit) py"

definition no_value :: "('w, 'a) py \<Rightarrow> ('w, unit) py" where
  "no_value m = bindS m (\<lambda>_. ret ())"

definition https_client :: "'w transport_client \<Rightarrow> 'w worker_client" where
  "https_client c = \<lparr>wc_poll = client_poll c, wc_start = (\<lambda>task. no_value (client_start c task)),
     wc_complete = (\<lambda>result. no_value (client_complete c result))\<rparr>"

datatype run_outcome = IDLE | DELIVERED_PENDING | RUN_COMPLETED

record 'w worker_runner =
  rn_tenant :: string
  rn_device :: string
  rn_client :: "'w worker_client"
  rn_dispatcher :: "(local_tables \<times> 'w) worker_dispatcher"
  rn_store :: "'w local_store"
  rn_verify :: "nat list \<Rightarrow> string \<Rightarrow> bool res"
  rn_sign :: "nat list \<Rightarrow> string res"

definition runner_now :: "py_datetime \<Rightarrow> wire_time res" where
  "runner_now value = (case value of Naive _ \<Rightarrow> Inl (ValueError ''worker_clock_naive'') | Aware t \<Rightarrow> Inr (OffsetTime 0 t))"

definition execute_task ::
  "'w worker_runner \<Rightarrow> instant task_envelope \<Rightarrow> wire_time \<Rightarrow> py_datetime \<Rightarrow> ('w, instant result_envelope) lr" where
  "execute_task rn task now completed =
     dispatcher_execute (rn_dispatcher rn) task now (rn_verify rn)
       (\<lambda>nonce. consume_dispatch_nonce (rn_store rn) (rn_tenant rn) (rn_device rn) nonce now (OffsetTime 0 (te_expires task)))
       (rn_sign rn) (Some (runner_now completed)) (beside (wc_start (rn_client rn) task))"

definition deliver :: "'w worker_runner \<Rightarrow> instant result_envelope \<Rightarrow> ('w, unit) lr" where
  "deliver rn result =
     bindS (beside (wc_complete (rn_client rn) result)) (\<lambda>_. acknowledge_pending_result (rn_store rn) result)"

text \<open>authorized and completed are the two clock readings.\<close>

definition run_once :: "'w worker_runner \<Rightarrow> py_datetime \<Rightarrow> py_datetime \<Rightarrow> ('w, run_outcome) lr" where
  "run_once rn authorized completed =
     bindS (next_pending_result (rn_store rn) (rn_tenant rn) (rn_device rn)) (\<lambda>pending.
     case pending of Some result \<Rightarrow> bindS (deliver rn result) (\<lambda>_. ret DELIVERED_PENDING)
     | None \<Rightarrow>
       bindS (beside (wc_poll (rn_client rn))) (\<lambda>polled.
       case polled of None \<Rightarrow> ret IDLE
       | Some task \<Rightarrow>
         bindS (liftR (runner_now authorized)) (\<lambda>now.
         bindS (execute_task rn task now completed) (\<lambda>result.
         bindS (save_pending_result (rn_store rn) result) (\<lambda>_.
         bindS (deliver rn result) (\<lambda>_. ret RUN_COMPLETED))))))"

section \<open>The loop\<close>

text \<open>
  run\_worker\_loop (worker\_cli.py). It polls for ever unless once is set, so it is given the clock
  readings of the iterations it is observed for: LoopRunning says that it goes on after them. What
  it emits is a list; sleeping between iterations changes no state of the model.
\<close>

datatype loop_end = LoopExit int | LoopRaised exn | LoopRunning

fun loop_catches :: "exn \<Rightarrow> bool" where
  "loop_catches (LocalReferenceError c) = True"
| "loop_catches (WorkerCryptoError c) = True"
| "loop_catches (WorkerTransportError c) = True"
| "loop_catches (ValueError c) = True"
| "loop_catches (ValidationError c) = True"
| "loop_catches e = False"

fun outcome_value :: "run_outcome \<Rightarrow> string" where
  "outcome_value IDLE = ''idle''"
| "outcome_value DELIVERED_PENDING = ''delivered_pending''"
| "outcome_value RUN_COMPLETED = ''completed''"

fun worker_loop ::
  "'w worker_runner \<Rightarrow> bool \<Rightarrow> bool \<Rightarrow> (py_datetime \<times> py_datetime) list \<Rightarrow> local_tables \<times> 'w
    \<Rightarrow> loop_end \<times> string list \<times> local_tables \<times> 'w" where
  "worker_loop rn once emits [] s = (LoopRunning, [], s)"
| "worker_loop rn once emits ((authorized, completed) # readings) s =
     (case run_once rn authorized completed s of
       (Inl e, s') \<Rightarrow>
         (if \<not> loop_catches e then (LoopRaised e, [], s')
          else if once then (LoopRaised (WorkerCliError ''worker_iteration_failed''), [], s')
          else (case worker_loop rn once emits readings s' of (fin, out, s'') \<Rightarrow>
                 (fin, (if emits then [''worker_iteration_failed''] else []) @ out, s'')))
     | (Inr outcome, s') \<Rightarrow>
         (let said = (if emits \<and> (once \<or> outcome \<noteq> IDLE) then [outcome_value outcome] else []) in
          if once then (LoopExit 0, said, s')
          else (case worker_loop rn once emits readings s' of (fin, out, s'') \<Rightarrow> (fin, said @ out, s''))))"

definition run_worker_loop ::
  "'w worker_runner \<Rightarrow> int \<Rightarrow> bool \<Rightarrow> bool \<Rightarrow> (py_datetime \<times> py_datetime) list \<Rightarrow> local_tables \<times> 'w
    \<Rightarrow> loop_end \<times> string list \<times> local_tables \<times> 'w" where
  "run_worker_loop rn interval once emits readings s =
     (if \<not> (1 \<le> interval \<and> interval \<le> 60) then (LoopRaised (WorkerCliError ''worker_start_failed''), [], s)
      else worker_loop rn once emits readings s)"

end
