(* ===== verification/Runner_Properties.thy ===== *)
theory Runner_Properties
  imports Local_Properties Worker_Runner Remote_Properties
begin

text \<open>
  One iteration of the worker and what a sequence of them does: a result leaves the outbox only when
  the gateway acknowledged it, pending results go first, a task runs at most once, and an
  acknowledgement names the ids it answers.
\<close>

section \<open>Where the dispatcher writes\<close>

text \<open>
  The dispatcher of a workstation uses the reference store; AutoCAD, the translation backend and the
  file system are beside the tables.
\<close>

definition beside_tables :: "(local_tables \<times> 'w, 'a) py \<Rightarrow> bool" where
  "beside_tables m \<longleftrightarrow> moves (on_tables (=)) m"

definition on_store :: "'w local_store \<Rightarrow> (local_tables \<times> 'w) worker_dispatcher \<Rightarrow> bool" where
  "on_store st wd \<longleftrightarrow> wd_references wd = references_of st \<and> beside_tables (lb_environment (wd_backend wd))
     \<and> (\<forall>p b n. beside_tables (lb_scan (wd_backend wd) p b n)) \<and> (\<forall>p. beside_tables (lb_inspect (wd_backend wd) p))
     \<and> (\<forall>p. beside_tables (lb_plan (wd_backend wd) p)) \<and> (\<forall>p q. beside_tables (wd_locate wd p q))
     \<and> (\<forall>f e r. wd_translation wd = Some f \<longrightarrow> beside_tables (f e r))"

lemma bindS_liftR_Inr: "bindS (liftR (Inr v)) g = g v"
  by (simp add: fun_eq_iff bindS_def)

context references_order
begin

lemma standing: "beside_tables m \<Longrightarrow> moves (on_tables T) m"
  by (auto simp add: beside_tables_def moves_def on_tables_def table_refl)

lemma backend_moves:
  assumes "on_store st wd"
  shows "moves (on_tables T) (lb_environment (wd_backend wd))" "moves (on_tables T) (lb_scan (wd_backend wd) p b n)"
    "moves (on_tables T) (lb_inspect (wd_backend wd) p)" "moves (on_tables T) (lb_plan (wd_backend wd) p)"
    "moves (on_tables T) (wd_locate wd p q)" "wd_translation wd = Some f \<Longrightarrow> moves (on_tables T) (f e r)"
  using assms by (auto simp add: on_store_def intro: standing)

lemma running:
  assumes d: "on_store st wd" and c: "sr_casefold st = casefold"
  shows "moves (on_tables T) (run_command wd e)"
proof -
  note refs = reference_moves[OF c]
  have r: "wd_references wd = references_of st" using d by (simp add: on_store_def)
  have "moves (on_tables T) (environment_result_of wd)" "moves (on_tables T) (projects_result_of wd)"
    "moves (on_tables T) (inspection_result_of wd x)" "moves (on_tables T) (plan_result_of wd x)" for x
    unfolding environment_result_of_def projects_result_of_def inspection_result_of_def plan_result_of_def r
    by (intro moves_rules refs backend_moves[OF d])+
  moreover have "moves (on_tables T) (scanned_drawing wd p f)" for p f
    unfolding scanned_drawing_def r split_beta by (intro moves_rules refs backend_moves[OF d])
  then have "moves (on_tables T) (drawings_result_of wd p b cursor n)" for p b cursor n
    unfolding drawings_result_of_def r by (intro moves_rules refs backend_moves[OF d])
  moreover have "moves (on_tables T) (bindS (lr_resolve_drawing (references_of st) (wd_tenant wd) (wd_device wd) x) (f e))"
    if "wd_translation wd = Some f" for f x
    by (intro moves_rules refs backend_moves(6)[OF d that])
  ultimately show ?thesis
    unfolding run_command_def r by (auto split: remote_command.split option.split intro: moves_rules)
qed

lemma executing:
  assumes d: "on_store st (rn_dispatcher rn)" and s: "rn_store rn = st" and c: "sr_casefold st = casefold"
    and nonce: "\<And>n0 ex. moves (on_tables T) (consume_dispatch_nonce st (rn_tenant rn) (rn_device rn) n0 now ex)"
  shows "moves (on_tables T) (execute_task rn task now completed)"
proof -
  have "moves (on_tables T) (execute_authorized (rn_dispatcher rn) task)"
    unfolding execute_authorized_def by (intro moves_rules running[OF d c])
  moreover have "moves (on_tables T) (authorize_for_worker stamp task tn us dv pol now verify
      (\<lambda>nonce. consume_dispatch_nonce st (rn_tenant rn) (rn_device rn) nonce now ex))" for stamp tn us dv pol verify ex
    unfolding authorize_for_worker_def Let_def by (intro moves_rules nonce)
  ultimately show ?thesis
    unfolding execute_task_def dispatcher_execute_def s by (intro moves_rules)
qed

lemma delivering:
  assumes "\<And>e. moves (on_tables T) (acknowledge_pending_result (rn_store rn) e)"
  shows "moves (on_tables T) (deliver rn e)"
  unfolding deliver_def by (intro moves_rules assms)

lemma iterating:
  assumes "on_store st (rn_dispatcher rn)" "rn_store rn = st" "sr_casefold st = casefold"
    and "\<And>n0 ex now. (\<And>n. utc_instant now = Some n \<Longrightarrow> authorized = Aware n) \<Longrightarrow>
        moves (on_tables T) (consume_dispatch_nonce st (rn_tenant rn) (rn_device rn) n0 now ex)"
    and save: "\<And>e. moves (on_tables T) (save_pending_result st e)"
    and ack: "\<And>e. moves (on_tables T) (acknowledge_pending_result st e)"
  shows "moves (on_tables T) (run_once rn authorized completed)"
proof -
  have e: "moves (on_tables T) (bindS (liftR (runner_now authorized)) (\<lambda>now. bindS (execute_task rn task now completed) f))"
    if "\<And>r. moves (on_tables T) (f r)" for task f
  proof (cases authorized)
    case (Aware n)
    have "moves (on_tables T) (execute_task rn task (OffsetTime 0 n) completed)"
      by (rule executing[OF assms(1-3) assms(4)]) (simp add: Aware utc_instant_def)
    then have "moves (on_tables T) (bindS (execute_task rn task (OffsetTime 0 n) completed) f)" using that by (rule bindS)
    then show ?thesis by (simp add: runner_now_def Aware bindS_liftR_Inr)
  qed (simp add: runner_now_def moves_def bindS_liftR refl)
  show ?thesis
    unfolding run_once_def assms(2)
    by (intro moves_rules next_pending delivering e save ack[folded assms(2)])
qed

end

section \<open>Results are not lost\<close>

lemma put_result_grows: "put_result r t = (Inr u, t') \<Longrightarrow> set (lt_outbox t) \<subseteq> set (lt_outbox t')"
  by (auto simp add: put_result_def insert_result_def split: option.splits if_splits)

lemma execute_task_outbox:
  assumes "on_store (rn_store rn) (rn_dispatcher rn)" and "execute_task rn task now completed (t, x) = (r, (t', x'))"
  shows "lt_outbox t' = lt_outbox t"
  using outbox.ran[OF outbox.executing[OF assms(1) refl refl consume_outbox] assms(2)] by (simp add: same_outbox_def)

lemma next_pending_state: "next_pending_result st tn dv (t, x) = (r, (t', x')) \<Longrightarrow> t' = t"
  using same.ran[OF same.next_pending, of st tn dv t x r t' x'] by simp

text \<open>What delivering does to the outbox: nothing, or the row of the acknowledged result is gone.\<close>

lemma deliver_cases:
  assumes "deliver rn e (t, x) = (r, (t', x'))"
  obtains er where "r = Inl er" "t' = t"
  | y payload where "r = Inr ()" "wc_complete (rn_client rn) e x = (Inr (), y)"
    "serialize_result_payload (sr_dump (rn_store rn)) e = Inr payload"
    "lt_outbox t' = filter (\<lambda>r. \<not> (scoped_result (re_tenant e) (re_device e) (re_task e) r \<and> jo_payload r = payload)) (lt_outbox t)"
proof (cases r)
  case (Inl er)
  then have "t' = t"
    using assms by (auto simp add: deliver_def bindS_eq_Inl beside_eq dest: acknowledge_Inl)
  with Inl that(1) show ?thesis by blast
next
  case (Inr u)
  from assms Inr obtain y where "wc_complete (rn_client rn) e x = (Inr (), y)"
    "acknowledge_pending_result (rn_store rn) e (t, y) = (Inr (), (t', x'))"
    by (auto simp add: deliver_def bindS_eq_Inr beside_eq)
  with Inr that(2) show ?thesis by (auto elim!: acknowledge_Inr)
qed

text \<open>The gateway took result e with these bytes.\<close>

definition acknowledged_row :: "'w worker_runner \<Rightarrow> outbox_row \<Rightarrow> bool" where
  "acknowledged_row rn r \<longleftrightarrow> (\<exists>e y y'. wc_complete (rn_client rn) e y = (Inr (), y')
     \<and> serialize_result_payload (sr_dump (rn_store rn)) e = Inr (jo_payload r)
     \<and> scoped_result (re_tenant e) (re_device e) (re_task e) r)"

lemma deliver_keeps:
  assumes "deliver rn e (t, x) = (r, (t', x'))" and "q \<in> set (lt_outbox t)" "q \<notin> set (lt_outbox t')"
  shows "r = Inr () \<and> acknowledged_row rn q"
  using assms(1)
proof (cases rule: deliver_cases)
  case (2 y payload)
  with assms(2,3) show ?thesis by (auto simp add: acknowledged_row_def)
qed (use assms(2,3) in simp)

text \<open>A row stays in the outbox along every method but the acknowledgement.\<close>

definition keeps_row :: "outbox_row \<Rightarrow> local_tables \<Rightarrow> local_tables \<Rightarrow> bool" where
  "keeps_row q t t' \<longleftrightarrow> (q \<in> set (lt_outbox t) \<longrightarrow> q \<in> set (lt_outbox t'))"

interpretation row: references_order "keeps_row q" cf
  by unfold_locales (auto simp add: keeps_row_def insert_project_result insert_drawing_result)

lemma consume_keeps_row: "moves (on_tables (keeps_row q)) (consume_dispatch_nonce st tn dv n now ex)"
  by (rule moves_tablesI) (auto simp add: keeps_row_def dest!: consume_frame)

lemma save_keeps_row: "moves (on_tables (keeps_row q)) (save_pending_result st e)"
proof (rule moves_tablesI)
  fix t x r t' x' assume "save_pending_result st e (t, x) = (r, (t', x'))"
  then show "keeps_row q t t'"
    by (cases r) (auto simp add: keeps_row_def dest: save_Inl elim!: save_Inr dest!: put_result_grows)
qed

text \<open>An action that ends an iteration: the row stays, or it was delivered.\<close>

definition row_safe :: "'w worker_runner \<Rightarrow> outbox_row \<Rightarrow> ('w, run_outcome) lr \<Rightarrow> bool" where
  "row_safe rn q m \<longleftrightarrow> (\<forall>t x out t' x'. m (t, x) = (out, (t', x')) \<longrightarrow> q \<in> set (lt_outbox t) \<longrightarrow>
     q \<in> set (lt_outbox t') \<or> (out = Inr DELIVERED_PENDING \<or> out = Inr RUN_COMPLETED) \<and> acknowledged_row rn q)"

lemma row_safe_bind:
  assumes "moves (on_tables (keeps_row q)) m" and "\<And>v. row_safe rn q (f v)"
  shows "row_safe rn q (bindS m f)"
  unfolding row_safe_def
proof (intro allI impI)
  fix t x out t' x' assume run: "bindS m f (t, x) = (out, (t', x'))" and q: "q \<in> set (lt_outbox t)"
  obtain r t1 x1 where m: "m (t, x) = (r, (t1, x1))" by (metis prod.exhaust)
  have q1: "q \<in> set (lt_outbox t1)" using row.ran[OF assms(1) m] q by (simp add: keeps_row_def)
  show "q \<in> set (lt_outbox t') \<or> (out = Inr DELIVERED_PENDING \<or> out = Inr RUN_COMPLETED) \<and> acknowledged_row rn q"
  proof (cases r)
    case (Inl e)
    with run m q1 show ?thesis by (simp add: bindS_def)
  next
    case (Inr v)
    with run m have "f v (t1, x1) = (out, (t', x'))" by (simp add: bindS_def)
    with assms(2) q1 show ?thesis unfolding row_safe_def by blast
  qed
qed

lemma row_safe_deliver:
  assumes "outcome = DELIVERED_PENDING \<or> outcome = RUN_COMPLETED"
  shows "row_safe rn q (bindS (deliver rn e) (\<lambda>_. ret outcome))"
  unfolding row_safe_def
proof (intro allI impI)
  fix t x out t' x' assume run: "bindS (deliver rn e) (\<lambda>_. ret outcome) (t, x) = (out, (t', x'))" and q: "q \<in> set (lt_outbox t)"
  obtain r t1 x1 where d: "deliver rn e (t, x) = (r, (t1, x1))" by (metis prod.exhaust)
  with run have "t' = t1" "r = Inr () \<Longrightarrow> out = Inr outcome" by (auto simp add: bindS_def split: sum.splits)
  with deliver_keeps[OF d q] assms
  show "q \<in> set (lt_outbox t') \<or> (out = Inr DELIVERED_PENDING \<or> out = Inr RUN_COMPLETED) \<and> acknowledged_row rn q" by blast
qed

lemma row_safe_end: "row_safe rn q (ret outcome)"
  by (simp add: row_safe_def)

lemma row_safe_cases: "row_safe rn q m \<Longrightarrow> (\<And>v. row_safe rn q (f v)) \<Longrightarrow> row_safe rn q (case p of None \<Rightarrow> m | Some v \<Rightarrow> f v)"
  by (cases p) simp_all

lemma run_once_safe:
  assumes "on_store (rn_store rn) (rn_dispatcher rn)"
  shows "row_safe rn q (run_once rn authorized completed)"
  unfolding run_once_def
  by (intro row_safe_bind row_safe_cases row_safe_end row_safe_deliver row.next_pending row.beside row.liftR save_keeps_row
      row.executing[OF assms refl refl consume_keeps_row] disjI1 disjI2 refl)

text \<open>
  C4: No result is lost between the workstation and the gateway. A row leaves
  the outbox only in an iteration that ends well and in which the gateway acknowledged exactly those
  bytes; and once a task was executed and its result saved, an iteration that fails afterwards, at
  whatever point, leaves that result in the outbox.
\<close>

theorem results_are_not_lost:
  assumes place: "on_store (rn_store rn) (rn_dispatcher rn)"
    and run: "run_once rn authorized completed (t, x) = (out, (t', x'))"
  shows "(\<forall>q \<in> set (lt_outbox t). q \<notin> set (lt_outbox t') \<longrightarrow>
        (out = Inr DELIVERED_PENDING \<or> out = Inr RUN_COMPLETED) \<and> acknowledged_row rn q)
    \<and> (\<forall>t0 x0 task x1 now e s2 t3 x3. next_pending_result (rn_store rn) (rn_tenant rn) (rn_device rn) (t, x) = (Inr None, (t0, x0))
        \<longrightarrow> wc_poll (rn_client rn) x0 = (Inr (Some task), x1) \<longrightarrow> runner_now authorized = Inr now
        \<longrightarrow> execute_task rn task now completed (t0, x1) = (Inr e, s2)
        \<longrightarrow> save_pending_result (rn_store rn) e s2 = (Inr (), (t3, x3))
        \<longrightarrow> out \<noteq> Inr RUN_COMPLETED
        \<longrightarrow> (\<exists>payload. serialize_result_payload (sr_dump (rn_store rn)) e = Inr payload \<and> holds_result t' e payload))"
proof (intro conjI ballI allI impI)
  fix q assume "q \<in> set (lt_outbox t)" "q \<notin> set (lt_outbox t')"
  with run_once_safe[OF place] run show "out = Inr DELIVERED_PENDING \<or> out = Inr RUN_COMPLETED" "acknowledged_row rn q"
    unfolding row_safe_def by blast+
next
  fix t0 x0 task x1 now e s2 t3 x3
  assume h: "next_pending_result (rn_store rn) (rn_tenant rn) (rn_device rn) (t, x) = (Inr None, (t0, x0))"
    "wc_poll (rn_client rn) x0 = (Inr (Some task), x1)" "runner_now authorized = Inr now"
    "execute_task rn task now completed (t0, x1) = (Inr e, s2)"
    "save_pending_result (rn_store rn) e s2 = (Inr (), (t3, x3))" "out \<noteq> Inr RUN_COMPLETED"
  obtain dr t4 x4 where d: "deliver rn e (t3, x3) = (dr, (t4, x4))" by (metis prod.exhaust)
  with run h have t: "t' = t4" "out = (case dr of Inl er \<Rightarrow> Inl er | Inr _ \<Rightarrow> Inr RUN_COMPLETED)"
    by (auto simp add: run_once_def bindS_def beside_def split: sum.splits)
  obtain payload where p: "serialize_result_payload (sr_dump (rn_store rn)) e = Inr payload" "holds_result t3 e payload"
    using h(5) by (cases s2) (auto elim!: save_Inr dest: put_result_done(1))
  from d have "t4 = t3" by (cases rule: deliver_cases) (use h(6) t in auto)
  with p t show "\<exists>payload. serialize_result_payload (sr_dump (rn_store rn)) e = Inr payload \<and> holds_result t' e payload" by auto
qed

section \<open>Pending results go first\<close>

lemma pending_found:
  assumes "first_result tenant device t = Some r"
    and "next_pending_result st tenant device (t, x) = (v, s)"
  shows "v \<noteq> Inr None"
proof
  assume "v = Inr None"
  with assms show False
    by (cases s) (auto simp add: next_pending_result_def bindS_eq_Inr split: option.splits dest!: connected_Inr)
qed

text \<open>With a pending result an iteration is a delivery: nothing else of the runner matters.\<close>

lemma pending_run:
  assumes pending: "first_result (rn_tenant rn) (rn_device rn) t = Some r"
    and client: "wc_complete cl = wc_complete (rn_client rn)"
  shows "run_once (rn\<lparr>rn_client := cl, rn_dispatcher := wd\<rparr>) authorized' completed' (t, x) = run_once rn authorized completed (t, x)
    \<and> fst (run_once rn authorized completed (t, x)) \<noteq> Inr IDLE
    \<and> fst (run_once rn authorized completed (t, x)) \<noteq> Inr RUN_COMPLETED"
proof -
  obtain p s0 where n: "next_pending_result (rn_store rn) (rn_tenant rn) (rn_device rn) (t, x) = (p, s0)" by (metis prod.exhaust)
  have d: "deliver (rn\<lparr>rn_client := cl, rn_dispatcher := wd\<rparr>) = deliver rn" by (rule ext) (simp add: deliver_def client)
  show ?thesis
  proof (cases p)
    case (Inl e)
    with n show ?thesis by (simp add: run_once_def bindS_def)
  next
    case (Inr found)
    with pending_found[OF pending n] obtain e where e: "p = Inr (Some e)" by (cases found) auto
    obtain dr s1 where dv: "deliver rn e s0 = (dr, s1)" by (metis prod.exhaust)
    show ?thesis using n e d dv by (cases dr) (simp_all add: run_once_def bindS_def)
  qed
qed

lemma first_result_least:
  assumes "first_result tenant device t = Some r" and "q \<in> set (lt_outbox t)" "jo_tenant q = tenant" "jo_device q = device"
  shows "outbox_order r \<le> outbox_order q"
proof -
  let ?xs = "filter (\<lambda>q. jo_tenant q = tenant \<and> jo_device q = device) (lt_outbox t)"
  from assms(1) obtain rest where s: "sort_key outbox_order ?xs = r # rest"
    by (auto simp add: first_result_def split: list.splits)
  then have "sorted (map outbox_order (r # rest))" using sorted_sort_key by metis
  moreover have "q \<in> set (r # rest)" using s assms(2-4) set_sort[of outbox_order ?xs] by simp
  ultimately show ?thesis by auto
qed

text \<open>
  While a result of this workstation is pending, an iteration only tries to
  deliver the oldest one: it polls, starts and executes nothing, whatever the clocks read, for its
  outcome does not depend on the client's poll and start, on the dispatcher or on the clocks; and it
  never reports an idle or newly completed iteration.
\<close>

theorem pending_goes_first:
  assumes pending: "first_result (rn_tenant rn) (rn_device rn) t = Some r"
    and client: "wc_complete cl = wc_complete (rn_client rn)"
  shows "run_once (rn\<lparr>rn_client := cl, rn_dispatcher := wd\<rparr>) authorized' completed' (t, x) = run_once rn authorized completed (t, x)
    \<and> fst (run_once rn authorized completed (t, x)) \<noteq> Inr IDLE
    \<and> fst (run_once rn authorized completed (t, x)) \<noteq> Inr RUN_COMPLETED
    \<and> (\<forall>q \<in> set (lt_outbox t). jo_tenant q = rn_tenant rn \<and> jo_device q = rn_device rn \<longrightarrow> outbox_order r \<le> outbox_order q)"
  using pending_run[OF assms] first_result_least[OF pending] by blast

section \<open>A task runs at most once\<close>

text \<open>Execution after the authorisation.\<close>

definition answering ::
  "'w worker_runner \<Rightarrow> instant task_envelope \<Rightarrow> wire_time \<Rightarrow> py_datetime \<Rightarrow> ('w, instant result_envelope) lr" where
  "answering rn task now completed =
     (let wd = rn_dispatcher rn in
      bindS (beside (wc_start (rn_client rn) task)) (\<lambda>_.
      bindS (execute_authorized wd task) (\<lambda>result.
      bindS (liftR (runner_now completed)) (\<lambda>done_at.
      bindS (liftR (worker_result_envelope (result_values task done_at result (replicate 86 CHR ''A'')))) (\<lambda>unsigned.
      bindS (liftR (rn_sign rn (wd_result_bytes wd unsigned))) (\<lambda>signature.
      liftR (worker_result_envelope (result_values task (OffsetTime 0 (re_completed unsigned)) result signature))))))))"

lemma execute_task_answering:
  "execute_task rn task now completed =
     bindS (authorize_for_worker (wd_stamp (rn_dispatcher rn)) task (wd_tenant (rn_dispatcher rn)) (wd_user (rn_dispatcher rn))
       (wd_device (rn_dispatcher rn)) (wd_policy (rn_dispatcher rn)) now (rn_verify rn)
       (\<lambda>nonce. consume_dispatch_nonce (rn_store rn) (rn_tenant rn) (rn_device rn) nonce now (OffsetTime 0 (te_expires task))))
       (\<lambda>_. answering rn task now completed)"
  by (simp add: execute_task_def dispatcher_execute_def answering_def Let_def)

context references_order
begin

lemma answering_moves:
  assumes "on_store st (rn_dispatcher rn)" "rn_store rn = st" "sr_casefold st = casefold"
  shows "moves (on_tables T) (answering rn task now completed)"
  unfolding answering_def Let_def execute_authorized_def by (intro moves_rules running[OF assms(1,3)])

end

text \<open>
  What a workstation does over time: calls of the store and iterations of the worker; early is what
  the clock readings satisfy.
\<close>

inductive work_step ::
  "'w worker_runner \<Rightarrow> (instant \<Rightarrow> bool) \<Rightarrow> local_tables \<times> 'w \<Rightarrow> local_tables \<times> 'w \<Rightarrow> bool"
  for rn :: "'w worker_runner" and early :: "instant \<Rightarrow> bool" where
  call: "store_step (rn_store rn) early s s' \<Longrightarrow> work_step rn early s s'"
| iterate: "(\<And>n. authorized = Aware n \<Longrightarrow> early n) \<Longrightarrow> work_step rn early s (snd (run_once rn authorized completed s))"

lemma work_step_mono: "work_step rn early s s' \<Longrightarrow> (\<And>k. early k \<Longrightarrow> early' k) \<Longrightarrow> work_step rn early' s s'"
proof (induction rule: work_step.induct)
  case (call s s')
  from call(1) have "store_step (rn_store rn) early' s s'"
    by cases (use call(2) in \<open>auto intro: store_step.intros\<close>)
  then show ?case by (rule work_step.call)
qed (auto intro: work_step.iterate)

lemma work_keeps_spent:
  assumes "on_store (rn_store rn) (rn_dispatcher rn)" and "(work_step rn (\<lambda>m. m < ex))\<^sup>*\<^sup>* s s'"
    and "spent tenant device n ex (fst s)"
  shows "spent tenant device n ex (fst s')"
  using assms(2,3)
proof induction
  case (step s1 s2)
  from step(2) have "keeps_spent tenant device n ex (fst s1) (fst s2)"
  proof cases
    case call
    then have "store_history (rn_store rn) (\<lambda>m. m < ex) s1 s2" by blast
    then show ?thesis
      by (rule spending.history_moves[OF refl consume_keeps_spent save_keeps_spent acknowledge_keeps_spent, rotated]) simp
  next
    case (iterate authorized completed)
    have "moves (on_tables (keeps_spent tenant device n ex)) (run_once rn authorized completed)"
      by (rule spending.iterating[OF assms(1) refl refl consume_keeps_spent save_keeps_spent acknowledge_keeps_spent])
        (use iterate in blast)
    from spending.moved[OF this] iterate show ?thesis by simp
  qed
  with step show ?case by (simp add: keeps_spent_def)
qed

lemma executed_is_spent:
  assumes "on_store (rn_store rn) (rn_dispatcher rn)" and "execute_task rn task (OffsetTime 0 m) completed (t, x) = (Inr e, (t', x'))"
  shows "spent (rn_tenant rn) (rn_device rn) (te_nonce task) (te_expires task) t'"
proof -
  let ?T = "keeps_spent (rn_tenant rn) (rn_device rn) (te_nonce task) (te_expires task)"
  from assms(2) obtain t1 x1 where a: "consume_dispatch_nonce (rn_store rn) (rn_tenant rn) (rn_device rn) (te_nonce task)
      (OffsetTime 0 m) (OffsetTime 0 (te_expires task)) (t, x) = (Inr True, (t1, x1))"
    and r: "answering rn task (OffsetTime 0 m) completed (t1, x1) = (Inr e, (t', x'))"
    by (auto simp add: execute_task_answering bindS_eq_Inr authorize_for_worker_ok)
  have "?T t1 t'" by (rule spending.ran[OF spending.answering_moves[OF assms(1) refl refl] r])
  with accepted_is_spent[OF a] show ?thesis by (simp add: keeps_spent_def utc_instant_def)
qed

lemma refused_execution:
  assumes "consume_dispatch_nonce (rn_store rn) (rn_tenant rn) (rn_device rn) (te_nonce task) now (OffsetTime 0 (te_expires task)) s
      = (r, s')" and "r \<noteq> Inr True"
    and "execute_task rn task now completed s = (out, s2)"
  shows "out = Inl (ValueError ''dispatch_authorization_failed'') \<and> (s2 = s \<or> s2 = s')"
  using assms
  by (auto simp add: execute_task_answering authorize_for_worker_def Let_def bindS_def catchS_def ensure_def
      split: if_splits sum.splits)



section \<open>Examples\<close>

definition runner_dispatcher :: "(local_tables \<times> nat) worker_dispatcher" where
  "runner_dispatcher = \<lparr>wd_tenant = tid, wd_user = uid, wd_device = wid, wd_policy = 3,
     wd_references = references_of sample_store,
     wd_backend = \<lparr>lb_environment = raise (RuntimeError ''none''), lb_scan = (\<lambda>_ _ _. ret []),
       lb_inspect = (\<lambda>_. raise (AutoCADUnavailable ''none'')), lb_plan = (\<lambda>_. raise AutoCADTimeout)\<rparr>,
     wd_translation = None, wd_locate = (\<lambda>p r. ret (p, p)),
     wd_from_iso = (\<lambda>_. Inl (ValueError ''iso'')), wd_alpha = ascii_letter, wd_float = (\<lambda>_. Inl wire_invalid),
     wd_sha256 = (\<lambda>_. replicate 32 7), wd_catalog_bytes = (\<lambda>_. []), wd_stamp = dec_int, wd_result_bytes = (\<lambda>_. [1])\<rparr>"

text \<open>A gateway that hands out a task and does not answer the delivery.\<close>

definition sample_client :: "nat worker_client" where
  "sample_client = \<lparr>wc_poll = ret (Some sample_task), wc_start = (\<lambda>_. ret ()),
     wc_complete = (\<lambda>_. raise (WorkerTransportError ''transport_unavailable''))\<rparr>"

definition sample_runner :: "nat worker_runner" where
  "sample_runner = \<lparr>rn_tenant = tid, rn_device = wid, rn_client = sample_client, rn_dispatcher = runner_dispatcher,
     rn_store = sample_store, rn_verify = (\<lambda>_ _. Inr True), rn_sign = (\<lambda>_. Inr (replicate 86 CHR ''s''))\<rparr>"

lemma sample_place: "on_store (rn_store sample_runner) (rn_dispatcher sample_runner)"
  by (simp add: on_store_def sample_runner_def runner_dispatcher_def beside_tables_def moves_def on_tables_def)

definition nonce_spent :: local_tables where
  "nonce_spent = no_rows\<lparr>lt_nonces := [\<lparr>jn_tenant = tid, jn_device = wid, jn_nonce = te_nonce sample_task, jn_expires = 60\<rparr>]\<rparr>"

definition sample_answer :: "instant result_envelope" where
  "sample_answer = \<lparr>re_tenant = tid, re_user = uid, re_device = wid, re_task = te_task sample_task,
     re_operation = te_operation sample_task, re_command_id = te_command_id sample_task, re_completed = 21,
     re_result = ProjectsResult [], re_signature = replicate 86 CHR ''s''\<rparr>"

lemma sample_consumed:
  "consume_dispatch_nonce sample_store tid wid (te_nonce sample_task) (OffsetTime 0 20) (OffsetTime 0 60) (no_rows, 0)
     = (Inr True, (nonce_spent, 0))"
  by code_simp

lemma sample_listed: "execute_authorized runner_dispatcher sample_task (nonce_spent, 0) = (Inr (ProjectsResult []), (nonce_spent, 0))"
  by code_simp

lemma sample_signed:
  "worker_result_envelope (result_values sample_task (OffsetTime 0 21) (ProjectsResult []) (replicate 86 CHR ''s'')) = Inr sample_answer"
  "worker_result_envelope (result_values sample_task (OffsetTime 0 21) (ProjectsResult []) (replicate 86 CHR ''A''))
     = Inr (sample_answer\<lparr>re_signature := replicate 86 CHR ''A''\<rparr>)"
  "re_completed sample_answer = 21"
  by code_simp+

lemma sample_executed:
  "execute_task sample_runner sample_task (OffsetTime 0 20) (Aware 21) (no_rows, 0) = (Inr sample_answer, (nonce_spent, 0))"
proof -
  have a: "authorize_for_worker (wd_stamp runner_dispatcher) sample_task tid uid wid 3 (OffsetTime 0 20) (\<lambda>_ _. Inr True)
      (\<lambda>nonce. consume_dispatch_nonce sample_store tid wid nonce (OffsetTime 0 20) (OffsetTime 0 (te_expires sample_task))) (no_rows, 0)
      = (Inr (), (nonce_spent, 0))"
    using sample_consumed task_signing_total[of sample_task]
    by (auto simp add: authorize_for_worker_ok sample_task_def time_matches_def utc_instant_def max_clock_skew_def seconds_def)
  show ?thesis
    using a sample_listed sample_signed
    by (auto simp add: execute_task_answering answering_def Let_def bindS_def sample_runner_def runner_dispatcher_def
        sample_client_def beside_def runner_now_def)
qed

definition answer_saved :: local_tables where
  "answer_saved = nonce_spent\<lparr>lt_outbox := [outbox_entry sample_answer (codes ''result'')]\<rparr>"

lemma sample_serialized: "serialize_result_payload (sr_dump sample_store) e = Inr (codes ''result'')"
proof -
  have "utf8_encode (codes ''result'') = Inr (codes ''result'')" "length (codes ''result'') = 6"
    by (simp_all add: utf8_encode_def codes_def scalar_def utf8_char_def)
  then show ?thesis
    by (simp add: serialize_result_payload_def serialize_bounded_def sample_store_def max_result_payload_bytes_def)
qed

lemma sample_scope: "remote_tenant_id tid" "remote_device_id wid"
  by code_simp+

lemma sample_put: "put_result (outbox_entry sample_answer (codes ''result'')) nonce_spent = (Inr (), answer_saved)"
  by code_simp

lemma sample_saved: "save_pending_result sample_store sample_answer (nonce_spent, 0) = (Inr (), (answer_saved, 0))"
  by (simp add: save_pending_result_def result_payload_def turned_into_def catchS_def bindS_def sample_serialized sample_connected sample_put)

lemma sample_nothing_pending: "next_pending_result sample_store tid wid (no_rows, 0) = (Inr None, (no_rows, 0))"
  by (simp add: next_pending_result_def turned_into_def catchS_def bindS_def validated_scope_def validated_def refuse_def sample_scope
      sample_connected first_result_def no_rows_def)

lemma sample_clock: "runner_now (Aware 20) = Inr (OffsetTime 0 20)"
  by (simp add: runner_now_def)

lemma sample_runner_simps: "rn_store sample_runner = sample_store" "rn_tenant sample_runner = tid"
  "rn_device sample_runner = wid" "wc_poll (rn_client sample_runner) = ret (Some sample_task)"
  "wc_complete (rn_client sample_runner) = (\<lambda>_. raise (WorkerTransportError ''transport_unavailable''))"
  by (simp_all add: sample_runner_def sample_client_def)

lemma sample_iteration:
  "run_once sample_runner (Aware 20) (Aware 21) (no_rows, 0)
     = (Inl (WorkerTransportError ''transport_unavailable''), (answer_saved, 0))"
  using sample_executed
  by (simp add: run_once_def bindS_def sample_runner_simps sample_nothing_pending beside_def sample_clock sample_saved deliver_def)

theorem results_are_not_lost_witness:
  "holds_result answer_saved sample_answer (codes ''result'')"
  using results_are_not_lost[OF sample_place sample_iteration, unfolded sample_runner_simps] sample_nothing_pending sample_clock
    sample_executed sample_saved sample_serialized
  by fastforce

theorem pending_goes_first_witness:
  "fst (run_once sample_runner (Naive 20) (Aware 21) (answer_saved, 0)) \<noteq> Inr IDLE"
proof -
  have "first_result (rn_tenant sample_runner) (rn_device sample_runner) answer_saved = Some (outbox_entry sample_answer (codes ''result''))"
    unfolding sample_runner_simps by code_simp
  from pending_goes_first[OF this HOL.refl] show ?thesis by blast
qed

end
