(* ===== verification/Transport_Properties.thy ===== *)
theory Transport_Properties
  imports Runner_Properties
begin

text \<open>
  What the workstation's client sends and accepts: its signed calls are the ones the gateway's
  authenticator admits, and a completion it reports is one the gateway acknowledged.
\<close>

section \<open>Calls\<close>

lemma guard_Inr [simp]: "transport_guard ok code s = (Inr u, s') \<longleftrightarrow> ok \<and> s' = s"
  by (auto simp add: transport_guard_def)

lemma client_now_Inr:
  "client_now c s = (Inr w, s') \<longleftrightarrow> (\<exists>t. tc_clock c s = (Inr (Aware t), s') \<and> w = OffsetTime 0 t)"
proof -
  obtain r s1 where r: "tc_clock c s = (r, s1)" by (metis prod.exhaust)
  then show ?thesis
  proof (cases r)
    case (Inr v)
    with r show ?thesis by (cases v) (auto simp add: client_now_def bindS_def)
  qed (simp add: client_now_def bindS_def)
qed

lemma build_call_Inr:
  assumes "build_call c route body n s = (Inr call, s')"
  obtains t s1 nonce p where "tc_clock c s = (Inr (Aware t), s1)" "tc_nonce c s1 = (Inr nonce, s')"
    "build_request_proof (tc_stamp c) (tc_sha256 c) (wp_tenant (tc_identity c)) (wp_device (tc_identity c)) (tc_key c)
       (OffsetTime 0 t) nonce ''POST'' route body (tc_sign c) = Inr p"
    "call = \<lparr>hc_method = ''POST'', hc_url = tc_origin c @ route, hc_headers = request_headers @ to_headers (tc_isoformat c) p,
       hc_body = body, hc_timeout = tc_timeout c, hc_max_response = n\<rparr>"
  using assms by (auto simp add: build_call_def bindS_eq_Inr client_now_Inr)

text \<open>The four general headers are read before the proof's and named otherwise.\<close>

lemma call_headers_lookup: "header (request_headers @ to_headers isotext p) n = header (to_headers isotext p) n"
  if "n \<notin> {''accept'', ''content-type'', ''user-agent''}"
proof -
  have f: "map (\<lambda>(k, v). (concat (map latin1_fold k), v)) request_headers = request_headers"
    by (simp add: request_headers_def latin1_fold_def Let_def)
  have "map_of (rev request_headers) n = None" using that by (simp add: request_headers_def)
  then have "normalized_headers (request_headers @ to_headers isotext p) n = normalized_headers (to_headers isotext p) n"
    unfolding normalized_headers_def map_append f rev_append map_of_append by (simp add: map_add_def split: option.split)
  then show ?thesis by (simp add: header_def)
qed

lemma call_proof:
  assumes "parse_time (isotext (rp_issued p)) = Inr (OffsetTime 0 (rp_issued p))" and "proof_fields_ok p"
  shows "parse_request_proof parse_time (request_headers @ to_headers isotext p) = Inr p"
  using assms
  by (simp add: parse_request_proof_def call_headers_lookup headers_lookup worker_request_proof_def require_utc_def proof_fields_ok_def)

lemma build_request_proof_ok:
  assumes "build_request_proof stamp sha tenant device key (OffsetTime 0 t) nonce method route body sign = Inr p"
  obtains b where "proof_signing_bytes stamp p method route = Inr b" "sign b = Inr (rp_signature p)" "proof_fields_ok p"
    "rp_tenant p = tenant" "rp_device p = device" "rp_key p = key" "rp_nonce p = nonce" "rp_issued p = t"
    "rp_body p = hexdigest (sha body)"
  using assms
  by (auto simp add: build_request_proof_def worker_request_proof_ok proof_signing_bytes_def proof_json_def proof_fields_ok_def
      split: if_splits)

lemma signing_bytes_nonempty: "proof_signing_bytes stamp p method route = Inr b \<Longrightarrow> b \<noteq> []"
  by (auto simp add: proof_signing_bytes_def canonical_wire_def utf8_encode_def proof_json_def codes_def utf8_char_def
      split: if_splits)

text \<open>
  C13: What the workstation signs, the gateway admits: a call the client
  built for a worker route is authenticated as its own tenant and workstation, when the gateway's
  clock is within the window of the workstation's, its store holds the workstation's key and its
  nonce is fresh. Assumed of the libraries: the timestamp reader inverts isoformat, and signatures
  the workstation's key makes have a text that decodes and verify under its public key.
\<close>

theorem signed_call_is_authenticated:
  assumes call: "build_call c route body n s = (Inr call, s')"
    and clock: "tc_clock c s = (Inr (Aware t), s1)" and nonce: "tc_nonce c s1 = (Inr k, s')"
    and same: "au_sha256 au = tc_sha256 c" "au_stamp au = tc_stamp c"
    and isotext: "au_parse_time au (tc_isoformat c t) = Inr (OffsetTime 0 t)"
    and signer: "\<And>b sg. tc_sign c b = Inr sg \<Longrightarrow> \<exists>d. decode_signature sg = Inr d \<and> ed_verify (au_ed25519 au) key d b = Inr True"
    and key: "length key = 32" "au_store au (wp_tenant (tc_identity c)) g = (Inr store, g1)"
      "cs_resolve store (wp_tenant (tc_identity c)) (wp_device (tc_identity c)) (tc_key c) g1 = (Inr (Some key), g2)"
    and fresh: "cs_consume store (wp_tenant (tc_identity c)) (wp_device (tc_identity c)) (tc_key c) k route
      (hexdigest (tc_sha256 c body)) t g2 = (Inr True, g3)"
    and window: "t \<le> now + au_future_skew au" "now - t \<le> au_max_age au"
  shows "hc_url call = tc_origin c @ route \<and> hc_body call = body
    \<and> (\<exists>p. authenticate au (hc_headers call) (hc_body call) (hc_method call) route (Aware now) g
        = (Inr (\<lparr>w_tenant = wp_tenant (tc_identity c), w_ws = wp_device (tc_identity c)\<rparr>, p), g3))"
proof -
  from call clock nonce obtain p where b: "build_request_proof (tc_stamp c) (tc_sha256 c) (wp_tenant (tc_identity c))
      (wp_device (tc_identity c)) (tc_key c) (OffsetTime 0 t) k ''POST'' route body (tc_sign c) = Inr p"
    and c: "call = \<lparr>hc_method = ''POST'', hc_url = tc_origin c @ route, hc_headers = request_headers @ to_headers (tc_isoformat c) p,
       hc_body = body, hc_timeout = tc_timeout c, hc_max_response = n\<rparr>"
    by (elim build_call_Inr) simp
  from b obtain bs where p: "proof_signing_bytes (tc_stamp c) p ''POST'' route = Inr bs" "tc_sign c bs = Inr (rp_signature p)"
    "proof_fields_ok p" "rp_tenant p = wp_tenant (tc_identity c)" "rp_device p = wp_device (tc_identity c)" "rp_key p = tc_key c"
    "rp_nonce p = k" "rp_issued p = t" "rp_body p = hexdigest (tc_sha256 c body)" by (rule build_request_proof_ok)
  from signer[OF p(2)] obtain d where d: "decode_signature (rp_signature p) = Inr d" "ed_verify (au_ed25519 au) key d bs = Inr True"
    by blast
  have v: "verify_with_keys (au_ed25519 au) (Inr [key]) bs (rp_signature p) = Inr True"
    using d key(1) signing_bytes_nonempty[OF p(1)] by (simp add: verify_with_keys_def map_sum_def try_key_def)
  have w: "worker_context_of (rp_tenant p) (rp_device p) = Inr \<lparr>w_tenant = rp_tenant p, w_ws = rp_device p\<rparr>"
    using p(3) by (simp add: worker_context_of_def proof_fields_ok_def tenant_id_ok_def workstation_id_ok_def remote_tenant_id_def
        remote_device_id_def opaque_id_any)
  have h: "parse_request_proof (au_parse_time au) (hc_headers call) = Inr p"
    using call_proof[of "au_parse_time au" "tc_isoformat c" p] isotext p(3,8) by (simp add: c)
  have "authenticate au (hc_headers call) body ''POST'' route (Aware now) g
      = (Inr (\<lparr>w_tenant = rp_tenant p, w_ws = rp_device p\<rparr>, p), g3)"
    using p v w h same key(2,3) fresh window
    by (simp add: authenticate_def catchS_def bindS_def auth_now_def auth_check_def in_proof_window_def)
  then show ?thesis by (simp add: c p(4,5))
qed

section \<open>Completions\<close>

lemma client_send_Inr:
  assumes "client_send c route body n s = (Inr reply, s')"
  obtains call s1 where "build_call c route body n s = (Inr call, s1)" "tc_exchange c call s1 = (Inr reply, s')"
    "hp_url reply = tc_origin c @ route" "length (hp_body reply) \<le> n"
proof -
  have "catchS m (\<lambda>e. raise (f e)) s = (Inr y, t) \<longleftrightarrow> m s = (Inr y, t)" for m :: "('a, http_reply) py" and f s y t
    by (auto simp add: catchS_def split: prod.splits sum.splits)
  with assms that show ?thesis by (auto simp add: client_send_def bindS_eq_Inr)
qed

lemma reply_parsed_Inr [simp]: "reply_parsed code r s = (Inr v, s') \<longleftrightarrow> r = Inr v \<and> s' = s"
  by (auto simp add: reply_parsed_def catchS_def split: sum.splits)

lemma parse_bound_ack_Inr:
  "parse_bound_ack c body task oper command s = (Inr ack, s') \<longleftrightarrow>
     parse_control_payload (tc_parse_ack c) (PayloadBytes body) = Inr ack \<and> s' = s
     \<and> ack_task ack = task \<and> ack_operation ack = oper \<and> ack_command_id ack = command"
  by (auto simp add: parse_bound_ack_def bindS_eq_Inr)

text \<open>
  C24: The client reports a completion only for a result of its own
  identity, after the exchange answered 200, from the very URL it posted to, to a signed POST whose
  body is exactly the serialised result, with an acknowledgement that names the result's task,
  operation and command. Whatever else the network answers is an error.
\<close>

theorem completion_is_acknowledged:
  assumes "wc_complete (https_client c) e s = (Inr (), s')"
  shows "re_tenant e = wp_tenant (tc_identity c) \<and> re_user e = wp_user (tc_identity c) \<and> re_device e = wp_device (tc_identity c)
    \<and> (\<exists>payload call s1 reply ack. serialize_result_payload (tc_dump_result c) e = Inr payload
        \<and> build_call c ''/worker/v1/tasks/complete'' payload max_control_payload_bytes s = (Inr call, s1)
        \<and> hc_method call = ''POST'' \<and> hc_body call = payload
        \<and> tc_exchange c call s1 = (Inr reply, s') \<and> hp_status reply = 200 \<and> hp_url reply = hc_url call
        \<and> parse_control_payload (tc_parse_ack c) (PayloadBytes (hp_body reply)) = Inr ack
        \<and> ack_task ack = re_task e \<and> ack_operation ack = re_operation e \<and> ack_command_id ack = re_command_id e)"
proof -
  from assms obtain ack where "client_complete c e s = (Inr ack, s')"
    by (auto simp add: https_client_def no_value_def bindS_eq_Inr)
  then obtain payload reply where r: "re_tenant e = wp_tenant (tc_identity c)" "re_user e = wp_user (tc_identity c)"
    "re_device e = wp_device (tc_identity c)" "serialize_result_payload (tc_dump_result c) e = Inr payload"
    "client_send c ''/worker/v1/tasks/complete'' payload max_control_payload_bytes s = (Inr reply, s')"
    "hp_status reply = 200" "parse_control_payload (tc_parse_ack c) (PayloadBytes (hp_body reply)) = Inr ack"
    "ack_task ack = re_task e" "ack_operation ack = re_operation e" "ack_command_id ack = re_command_id e"
    by (auto simp add: client_complete_def bindS_eq_Inr require_result_identity_def require_json_success_def parse_bound_ack_Inr)
  from r(5) obtain call s1 where c: "build_call c ''/worker/v1/tasks/complete'' payload max_control_payload_bytes s = (Inr call, s1)"
    "tc_exchange c call s1 = (Inr reply, s')" "hp_url reply = tc_origin c @ ''/worker/v1/tasks/complete''" by (rule client_send_Inr)
  from c(1) have "hc_method call = ''POST''" "hc_body call = payload" "hc_url call = tc_origin c @ ''/worker/v1/tasks/complete''"
    by (auto elim!: build_call_Inr)
  with r c show ?thesis by metis
qed

section \<open>Examples\<close>

definition sample_body :: "nat list" where
  "sample_body = codes ''{}''"

definition sample_reply :: http_reply where
  "sample_reply = \<lparr>hp_status = 200, hp_url = ''https://g/worker/v1/tasks/complete'',
     hp_headers = [(''Content-Type'', ''application/json'')], hp_body = sample_body\<rparr>"

definition sample_transport :: "nat transport_client" where
  "sample_transport = \<lparr>tc_origin = ''https://g'', tc_identity = \<lparr>wp_tenant = tid, wp_user = uid, wp_device = wid\<rparr>,
     tc_key = sample_key_id, tc_timeout = 30, tc_sign = (\<lambda>_. Inr (replicate 86 CHR ''A'')), tc_exchange = (\<lambda>_. ret sample_reply),
     tc_clock = ret (Aware 40), tc_nonce = ret (replicate 22 CHR ''n''), tc_sha256 = (\<lambda>_. replicate 32 7), tc_stamp = dec_int,
     tc_isoformat = dec_int, tc_casefold = map ascii_lower, tc_dump_poll = (\<lambda>_. sample_body), tc_dump_start = (\<lambda>_. sample_body),
     tc_dump_result = (\<lambda>_. sample_body), tc_parse_task = (\<lambda>_. Inr sample_task),
     tc_parse_ack = (\<lambda>_. worker_control_ack (te_task sample_task) (te_operation sample_task) (te_command_id sample_task))\<rparr>"

lemma sample_transport_simps:
  "tc_origin sample_transport = ''https://g''" "tc_identity sample_transport = \<lparr>wp_tenant = tid, wp_user = uid, wp_device = wid\<rparr>"
  "tc_key sample_transport = sample_key_id" "tc_sign sample_transport = (\<lambda>_. Inr (replicate 86 CHR ''A''))"
  "tc_exchange sample_transport = (\<lambda>_. ret sample_reply)" "tc_clock sample_transport = ret (Aware 40)"
  "tc_nonce sample_transport = ret (replicate 22 CHR ''n'')" "tc_sha256 sample_transport = (\<lambda>_. replicate 32 7)"
  "tc_stamp sample_transport = dec_int" "tc_isoformat sample_transport = dec_int" "tc_casefold sample_transport = map ascii_lower"
  "tc_dump_result sample_transport = (\<lambda>_. sample_body)"
  "tc_parse_ack sample_transport = (\<lambda>_. worker_control_ack (te_task sample_task) (te_operation sample_task) (te_command_id sample_task))"
  by (simp_all add: sample_transport_def)

lemma sample_call:
  assumes "route \<in> set worker_routes"
  shows "\<exists>call. build_call sample_transport route body n s = (Inr call, s)"
proof -
  let ?u = "\<lparr>rp_tenant = tid, rp_device = wid, rp_key = sample_key_id, rp_issued = 40, rp_nonce = replicate 22 CHR ''n'',
    rp_body = hexdigest (replicate 32 7), rp_signature = replicate 86 CHR ''A''\<rparr> :: instant request_proof"
  have f: "proof_fields_ok (sample_proof\<lparr>rp_signature := replicate 86 CHR ''A''\<rparr>)" by code_simp
  have "list_all scalar (codes route)" using assms by (auto simp add: worker_routes_def codes_def scalar_def)
  then obtain b where b: "proof_signing_bytes dec_int ?u ''POST'' route = Inr b"
    using canonical_wire_total[of "proof_json dec_int ?u ''POST'' route"] assms
    by (auto simp add: proof_signing_bytes_def proof_json_def List.member_iff)
  from f have w: "worker_request_proof (sample_proof\<lparr>rp_signature := replicate 86 CHR ''A''\<rparr>) = Inr ?u"
    by (simp add: worker_request_proof_def require_utc_def sample_proof_def)
  then have "build_request_proof dec_int (\<lambda>_. replicate 32 7) tid wid sample_key_id (OffsetTime 0 40) (replicate 22 CHR ''n'') ''POST''
     route body (\<lambda>_. Inr (replicate 86 CHR ''A'')) = Inr ?u" using b by (simp add: build_request_proof_def sample_proof_def)
  then show ?thesis
    by (simp add: build_call_def bindS_def catchS_def client_now_def sample_transport_simps)
qed

theorem signed_call_is_authenticated_witness:
  "\<exists>call p. build_call sample_transport ''/worker/v1/tasks/poll'' sample_body 10 (0 :: nat) = (Inr call, 0)
    \<and> authenticate sample_authenticator (hc_headers call) sample_body (hc_method call) ''/worker/v1/tasks/poll'' (Aware 50) []
      = (Inr (\<lparr>w_tenant = tid, w_ws = wid\<rparr>, p), [replicate 22 CHR ''n''])"
proof -
  have r: "''/worker/v1/tasks/poll'' \<in> set worker_routes" by (simp add: worker_routes_def)
  obtain call where c: "build_call sample_transport ''/worker/v1/tasks/poll'' sample_body 10 (0 :: nat) = (Inr call, 0)"
    using sample_call[OF r] by blast
  let ?store = "\<lparr>cs_resolve = (\<lambda>_ _ _. ret (Some (replicate 32 1))),
       cs_consume = (\<lambda>_ _ _ n _ _ _. \<lambda>spent. (Inr (\<not> List.member spent n), n # spent))\<rparr> :: string list credential_store"
  have d: "\<exists>d. decode_signature sg = Inr d \<and> ed_verify (au_ed25519 sample_authenticator) (replicate 32 1) d b = Inr True"
    if "tc_sign sample_transport b = Inr sg" for b sg
    using that signed_proof_fields(4) by (simp add: sample_transport_simps sample_authenticator_def)
  from signed_call_is_authenticated[OF c, of 40 0 "replicate 22 CHR ''n''" sample_authenticator "replicate 32 1" "[]" ?store "[]" "[]"
      "[replicate 22 CHR ''n'']" 50] d c
  show ?thesis by (auto simp add: sample_transport_simps sample_authenticator_def seconds_def)
qed

lemma sample_body_bytes: "utf8_encode sample_body = Inr sample_body" "length sample_body = 2"
  by (simp_all add: sample_body_def utf8_encode_def codes_def scalar_def utf8_char_def)

lemma sample_payload: "serialize_result_payload (tc_dump_result sample_transport) sample_answer = Inr sample_body"
  by (simp add: serialize_result_payload_def serialize_bounded_def sample_transport_simps sample_body_bytes max_result_payload_bytes_def)

lemma sample_completed: "wc_complete (https_client sample_transport) sample_answer 0 = (Inr (), 0)"
proof -
  obtain call where c: "build_call sample_transport ''/worker/v1/tasks/complete'' sample_body max_control_payload_bytes (0 :: nat) = (Inr call, 0)"
    using sample_call[of "''/worker/v1/tasks/complete''" sample_body max_control_payload_bytes 0] by (auto simp add: worker_routes_def)
  note b = sample_body_bytes
  have a: "worker_control_ack (te_task sample_task) (te_operation sample_task) (te_command_id sample_task) =
    Inr \<lparr>ack_task = te_task sample_task, ack_operation = te_operation sample_task, ack_command_id = te_command_id sample_task\<rparr>"
    by code_simp
  have hs: "reply_header sample_reply ''content-encoding'' ''identity'' = ''identity''"
    "reply_header sample_reply ''content-type'' [] = ''application/json''" by code_simp+
  have h: "map ascii_lower (py_strip (codes (reply_header sample_reply ''content-encoding'' ''identity''))) = codes ''identity''"
    "map ascii_lower (py_strip (codes (takeWhile (\<lambda>ch. ch \<noteq> CHR '';'') (reply_header sample_reply ''content-type'' []))))
       = codes ''application/json''"
    by (simp_all add: hs py_strip_def py_space_def codes_def ascii_lower_def)
  have p: "parse_control_payload f (PayloadBytes sample_body) = f sample_body" for f :: "nat list \<Rightarrow> 'a res"
    by (simp add: parse_control_payload_def max_control_payload_bytes_def parse_of_bytes(1)[OF sample_body_bytes(1)] sample_body_bytes(2))
  have r: "hp_status sample_reply = 200" "hp_body sample_reply = sample_body" "hp_url sample_reply = ''https://g/worker/v1/tasks/complete''"
    "sample_body \<noteq> []" by (simp_all add: sample_reply_def sample_body_def codes_def)
  have i: "re_tenant sample_answer = tid" "re_user sample_answer = uid" "re_device sample_answer = wid"
    "re_task sample_answer = te_task sample_task" "re_operation sample_answer = te_operation sample_task"
    "re_command_id sample_answer = te_command_id sample_task" by (simp_all add: sample_answer_def)
  have "client_send sample_transport ''/worker/v1/tasks/complete'' sample_body max_control_payload_bytes 0 = (Inr sample_reply, 0)"
    using c h(1) r by (simp add: client_send_def bindS_def catchS_def transport_guard_def sample_transport_simps b
      max_control_payload_bytes_def)
  moreover have "require_json_success sample_transport sample_reply 0 = (Inr (), 0)"
    using h(2) r by (simp add: require_json_success_def bindS_def transport_guard_def sample_transport_simps)
  moreover have "parse_bound_ack sample_transport sample_body (te_task sample_task) (te_operation sample_task) (te_command_id sample_task) 0
      = (Inr \<lparr>ack_task = te_task sample_task, ack_operation = te_operation sample_task, ack_command_id = te_command_id sample_task\<rparr>, 0)"
    by (simp add: parse_bound_ack_Inr sample_transport_simps p a)
  ultimately show ?thesis
    by (simp add: https_client_def no_value_def client_complete_def bindS_def require_result_identity_def transport_guard_def
      sample_payload i r sample_transport_simps(2))
qed

theorem completion_is_acknowledged_witness:
  "\<exists>call s1. tc_exchange sample_transport call s1 = (Inr sample_reply, 0) \<and> hc_body call = sample_body"
  using completion_is_acknowledged[OF sample_completed] sample_payload by (auto simp add: sample_transport_simps)
end
