(* ===== verification/Loop_Properties.thy ===== *)
theory Loop_Properties
  imports Transport_Properties
begin

text \<open>
  The worker's loop: it survives whatever the network, the gateway, AutoCAD and the database do, and
  what a result that the gateway will never take does to it.
\<close>

section \<open>Which exceptions an action raises\<close>

text \<open>raises E m: every exception that leaves m satisfies E.\<close>

definition raises :: "(exn \<Rightarrow> bool) \<Rightarrow> ('s, 'a) py \<Rightarrow> bool" where
  "raises E m \<longleftrightarrow> (\<forall>s e s'. m s = (Inl e, s') \<longrightarrow> E e)"

named_theorems raises_rules \<open>exception rules of composed operations\<close>

lemma raises_ret [raises_rules]: "raises E (ret x)"
  by (simp add: raises_def)

lemma raises_raise: "E e \<Longrightarrow> raises E (raise e)"
  by (simp add: raises_def)

lemma raises_liftR: "(\<And>e. r = Inl e \<Longrightarrow> E e) \<Longrightarrow> raises E (liftR r)"
  by (cases r) (simp_all add: raises_def)

lemma raises_guardS: "E e \<Longrightarrow> raises E (guardS b e)"
  by (simp add: raises_def)

lemma raises_bindS [raises_rules]: "raises E m \<Longrightarrow> (\<And>x. raises E (f x)) \<Longrightarrow> raises E (bindS m f)"
  by (simp add: raises_def bindS_eq_Inl) blast

lemma raises_catchS [raises_rules]: "(\<And>e. raises E (h e)) \<Longrightarrow> raises E (catchS m h)"
  unfolding raises_def by (auto simp add: catchS_def split: prod.splits sum.splits)

lemma raises_reraise:
  "raises F m \<Longrightarrow> (\<And>e. F e \<Longrightarrow> raises E (h e)) \<Longrightarrow> raises E (catchS m h)"
  unfolding raises_def by (fastforce simp add: catchS_def split: prod.splits sum.splits)

lemma raises_beside [raises_rules]: "raises E m \<Longrightarrow> raises E (beside m)"
  unfolding raises_def by (auto simp add: beside_eq)

lemma raises_if [raises_rules]: "raises E m \<Longrightarrow> raises E n \<Longrightarrow> raises E (if b then m else n)"
  by simp

lemma raises_option [raises_rules]:
  "raises E m \<Longrightarrow> (\<And>x. raises E (f x)) \<Longrightarrow> raises E (case v of None \<Rightarrow> m | Some x \<Rightarrow> f x)"
  by (cases v) simp_all

lemma raises_refuse [raises_rules]: "raises loop_catches (refuse ok code)"
  by (simp add: refuse_def raises_guardS)

lemma raises_scope [raises_rules]: "raises loop_catches (validated_scope tenant device)"
  unfolding validated_scope_def validated_def by (intro raises_rules)

lemma raises_transport_guard [raises_rules]: "raises loop_catches (transport_guard ok code)"
  by (simp add: transport_guard_def raises_guardS)

text \<open>A handler that turns what it catches into the store's own error.\<close>

lemma raises_turned:
  assumes "raises (\<lambda>e. caught e \<or> loop_catches e) m"
  shows "raises loop_catches (turned_into caught code m)"
  unfolding turned_into_def by (rule raises_reraise[OF assms]) (auto intro!: raises_raise)

lemma raises_connected:
  assumes "raises E (lw_open (sr_world st))" "raises E (lw_commit (sr_world st))" "raises E m"
  shows "raises E (connected st m)"
  using assms unfolding raises_def by (fastforce simp add: connected_run split: prod.splits sum.splits)

section \<open>The store\<close>

text \<open>SQLite fails with its own errors only, and pydantic's readers with ValidationError.\<close>

definition sqlite_store :: "'w local_store \<Rightarrow> bool" where
  "sqlite_store st \<longleftrightarrow> raises is_database_error (lw_open (sr_world st)) \<and> raises is_database_error (lw_commit (sr_world st))
     \<and> (\<forall>b e. sr_parse st b = Inl e \<longrightarrow> is_value_or_type_error e)"

lemma raises_weaker: "raises E m \<Longrightarrow> (\<And>e. E e \<Longrightarrow> F e) \<Longrightarrow> raises F m"
  by (auto simp add: raises_def)

lemma raises_database:
  assumes "sqlite_store st" and "raises (\<lambda>e. is_database_error e \<or> loop_catches e) m"
  shows "raises loop_catches (turned_into is_database_error code (connected st m))"
  using assms by (intro raises_turned raises_connected) (auto simp add: sqlite_store_def elim: raises_weaker)

lemma bounded_json_errors:
  "parse_bounded_json p n f = Inl e \<Longrightarrow> (\<And>b x. f b = Inl x \<Longrightarrow> is_value_or_type_error x) \<Longrightarrow> is_value_or_type_error e"
  by (auto simp add: parse_bounded_json_def catchR_def bindR_def split: sum.splits if_splits)

lemma serialize_errors: "serialize_bounded dump n v = Inl e \<Longrightarrow> \<exists>c. e = ValueError c"
  by (auto simp add: serialize_bounded_def utf8_encode_def bindR_def split: sum.splits if_splits)

lemma raises_result_payload: "raises loop_catches (result_payload st e)"
  unfolding result_payload_def
  by (intro raises_turned raises_liftR) (auto simp add: serialize_result_payload_def dest!: serialize_errors)

lemma raises_next_pending:
  assumes "sqlite_store st"
  shows "raises loop_catches (next_pending_result st tenant device)"
proof -
  have "raises loop_catches (turned_into is_value_or_type_error code (liftR (parse_result_payload (sr_parse st) p)))"
    for code p
    using assms by (intro raises_turned raises_liftR)
      (auto simp add: parse_result_payload_def sqlite_store_def dest!: bounded_json_errors)
  moreover have "raises E (query f)" for E and f :: "local_tables \<Rightarrow> 'c" by (simp add: raises_def)
  ultimately show ?thesis
    unfolding next_pending_result_def by (intro raises_rules raises_database[OF assms])
qed

lemma raises_save:
  assumes "sqlite_store st"
  shows "raises loop_catches (save_pending_result st e)"
proof -
  have "raises (\<lambda>e. is_database_error e \<or> loop_catches e) (put_result r)" for r
    by (auto simp add: raises_def put_result_def insert_result_def split: option.splits if_splits)
  then show ?thesis unfolding save_pending_result_def by (intro raises_rules raises_result_payload raises_database[OF assms])
qed

lemma raises_acknowledge:
  assumes "sqlite_store st"
  shows "raises loop_catches (acknowledge_pending_result st e)"
proof -
  have "raises (\<lambda>e. is_database_error e \<or> loop_catches e) (delete_result v p)" for v p
    by (auto simp add: raises_def delete_result_def Let_def split: if_splits)
  then show ?thesis unfolding acknowledge_pending_result_def
    by (intro raises_rules raises_result_payload raises_database[OF assms])
qed

section \<open>The client\<close>

definition pydantic_client :: "'w transport_client \<Rightarrow> bool" where
  "pydantic_client c \<longleftrightarrow> (\<forall>b e. tc_parse_task c b = Inl e \<longrightarrow> is_value_or_type_error e)
     \<and> (\<forall>b e. tc_parse_ack c b = Inl e \<longrightarrow> is_value_or_type_error e)"

lemma raises_serialize: "raises loop_catches (liftR (serialize_control_payload dump v))"
  "raises loop_catches (liftR (serialize_result_payload dump v'))"
  by (rule raises_liftR, auto simp add: serialize_control_payload_def serialize_result_payload_def dest!: serialize_errors)+

lemma raises_send: "raises loop_catches (client_send c route body n)"
proof -
  have "raises loop_catches (build_call c route body n)"
    unfolding build_call_def by (intro raises_rules raises_raise) simp
  moreover have "raises loop_catches (raise (if is_transport_error e then e else WorkerTransportError code))" for e code
    by (rule raises_raise) (cases e, simp_all)
  ultimately show ?thesis unfolding client_send_def by (intro raises_rules)
qed

lemma raises_reply: "(\<And>e. r = Inl e \<Longrightarrow> is_value_or_type_error e) \<Longrightarrow> raises loop_catches (reply_parsed code r)"
  unfolding reply_parsed_def by (rule raises_reraise[OF raises_liftR]) (auto intro: raises_raise)

lemma raises_json_success: "raises loop_catches (require_json_success c reply)"
  unfolding require_json_success_def by (intro raises_rules)

lemma raises_ack:
  assumes "pydantic_client c"
  shows "raises loop_catches (parse_bound_ack c body task oper command)"
  unfolding parse_bound_ack_def parse_control_payload_def using assms
  by (intro raises_rules raises_reply) (auto simp add: pydantic_client_def dest!: bounded_json_errors)

lemma raises_client:
  assumes "pydantic_client c"
  shows "raises loop_catches (client_poll c)" "raises loop_catches (client_start c task)" "raises loop_catches (client_complete c e)"
proof -
  show "raises loop_catches (client_poll c)"
    unfolding client_poll_def require_task_identity_def parse_task_payload_def using assms
    by (intro raises_rules raises_serialize raises_send raises_json_success raises_reply)
      (auto simp add: pydantic_client_def dest!: bounded_json_errors)
  have "raises loop_catches (liftR (made ok v))" for ok and v :: start_request
    by (rule raises_liftR) (auto simp add: made_def wire_invalid_def split: if_splits)
  then show "raises loop_catches (client_start c task)"
    unfolding client_start_def require_task_identity_def Let_def
    by (intro raises_rules raises_serialize raises_send raises_json_success raises_ack[OF assms])
  show "raises loop_catches (client_complete c e)"
    unfolding client_complete_def require_result_identity_def
    by (intro raises_rules raises_serialize raises_send raises_json_success raises_ack[OF assms])
qed

section \<open>An iteration\<close>

definition loop_client :: "'w worker_client \<Rightarrow> bool" where
  "loop_client cl \<longleftrightarrow> raises loop_catches (wc_poll cl) \<and> (\<forall>t. raises loop_catches (wc_start cl t))
     \<and> (\<forall>e. raises loop_catches (wc_complete cl e))"

lemma https_loop_client: "pydantic_client c \<Longrightarrow> loop_client (https_client c)"
  unfolding loop_client_def https_client_def no_value_def by (auto intro!: raises_rules intro: raises_client)

lemma raises_authorize: "raises loop_catches (authorize_for_worker stamp e tenant user device policy now verify accept_nonce)"
  unfolding authorize_for_worker_def Let_def by (intro raises_rules raises_guardS) simp_all

lemma raises_execute:
  assumes "loop_client (rn_client rn)" and "\<And>b e. rn_sign rn b = Inl e \<Longrightarrow> loop_catches e"
  shows "raises loop_catches (execute_task rn task now completed)"
proof -
  have "raises loop_catches (liftR (failure_result action x))" for action x
    by (rule raises_liftR) (auto simp add: failure_result_def error_of_def make_result_def made_def wire_invalid_def
        split: exn.splits if_splits)
  then have "raises loop_catches (execute_authorized wd task)" for wd :: "(local_tables \<times> 'a) worker_dispatcher"
    unfolding execute_authorized_def by (intro raises_rules)
  moreover have "raises loop_catches (liftR (runner_now value))" for "value"
    by (rule raises_liftR) (auto simp add: runner_now_def split: py_datetime.splits)
  moreover have "raises loop_catches (liftR (worker_result_envelope v))" for v
    by (rule raises_liftR) (auto simp add: worker_result_envelope_def split: if_splits sum.splits)
  moreover have "raises loop_catches (liftR (rn_sign rn b))" for b
    by (rule raises_liftR) (use assms(2) in blast)
  moreover have "raises loop_catches (wc_start (rn_client rn) task)" using assms(1) by (simp add: loop_client_def)
  ultimately show ?thesis
    unfolding execute_task_answering answering_def Let_def by (intro raises_rules raises_authorize)
qed

lemma raises_run_once:
  assumes "loop_client (rn_client rn)" and "sqlite_store (rn_store rn)" and "\<And>b e. rn_sign rn b = Inl e \<Longrightarrow> loop_catches e"
  shows "raises loop_catches (run_once rn authorized completed)"
proof -
  have "raises loop_catches (wc_complete (rn_client rn) e)" "raises loop_catches (wc_poll (rn_client rn))" for e
    using assms(1) by (simp_all add: loop_client_def)
  moreover from this have "raises loop_catches (deliver rn e)" for e
    unfolding deliver_def by (intro raises_rules raises_acknowledge[OF assms(2)])
  moreover have "raises loop_catches (liftR (runner_now value))" for "value"
    by (rule raises_liftR) (auto simp add: runner_now_def split: py_datetime.splits)
  ultimately show ?thesis
    unfolding run_once_def
    by (intro raises_rules raises_next_pending[OF assms(2)] raises_save[OF assms(2)] raises_execute[OF assms(1,3)])
qed

text \<open>
  C11: The polling loop is never ended by an iteration: whatever the network, the
  gateway's answers, AutoCAD, the signature check, a clock or the database do, and whatever the
  loop is asked to report, it goes on to the next iteration and reports at most one word for each.
  Assumed of the libraries: SQLite raises its own errors, pydantic's readers ValueErrors, and the
  signer key errors or ValueErrors.
\<close>

theorem worker_loop_survives:
  assumes client: "rn_client rn = https_client c" "pydantic_client c"
    and store: "sqlite_store (rn_store rn)" and signer: "\<And>b e. rn_sign rn b = Inl e \<Longrightarrow> loop_catches e"
    and interval: "1 \<le> interval" "interval \<le> 60"
  shows "\<exists>out s'. run_worker_loop rn interval False emits readings s = (LoopRunning, out, s') \<and> length out \<le> length readings"
proof -
  have caught: "loop_catches e" if "run_once rn a d s1 = (Inl e, s2)" for a d s1 e s2
    using raises_run_once[of rn a d] client https_loop_client store signer that unfolding raises_def by metis
  have "\<exists>out s'. worker_loop rn False emits readings s = (LoopRunning, out, s') \<and> length out \<le> length readings"
  proof (induction readings arbitrary: s)
    case (Cons r readings)
    obtain a d where r: "r = (a, d)" by (cases r)
    obtain v s1 where v: "run_once rn a d s = (v, s1)" by (metis prod.exhaust)
    obtain out s2 where i: "worker_loop rn False emits readings s1 = (LoopRunning, out, s2)" "length out \<le> length readings"
      using Cons by blast
    show ?case using caught[of a d s] i v r by (cases v) (auto simp add: Let_def)
  qed simp
  then show ?thesis using interval by (simp add: run_worker_loop_def)
qed

section \<open>A result the gateway will not take\<close>

lemma blocked_iteration:
  assumes row: "first_result (rn_tenant rn) (rn_device rn) t = Some r"
    and parsed: "parse_result_payload (sr_parse (rn_store rn)) (PayloadBytes (jo_payload r)) = Inr e"
    and refused: "\<And>y. \<exists>code y'. wc_complete (rn_client rn) e y = (Inl (WorkerTransportError code), y')"
    and store: "sqlite_store (rn_store rn)"
  shows "\<exists>er x'. run_once rn authorized completed (t, x) = (Inl er, (t, x')) \<and> loop_catches er"
proof -
  let ?next = "next_pending_result (rn_store rn) (rn_tenant rn) (rn_device rn)"
  obtain v t1 x1 where n: "?next (t, x) = (v, (t1, x1))" by (metis prod.exhaust)
  then have t: "t1 = t" by (rule next_pending_state)
  show ?thesis
  proof (cases v)
    case (Inl er)
    have "raises loop_catches ?next" by (rule raises_next_pending[OF store])
    with n Inl have "loop_catches er" unfolding raises_def by blast
    with n Inl t show ?thesis by (simp add: run_once_def bindS_def)
  next
    case (Inr found)
    with n row parsed have f: "found = Some e"
      by (auto simp add: next_pending_result_def bindS_eq_Inr dest!: connected_Inr split: option.splits)
    obtain code y' where "wc_complete (rn_client rn) e x1 = (Inl (WorkerTransportError code), y')" using refused by blast
    then have "deliver rn e (t, x1) = (Inl (WorkerTransportError code), (t, y'))"
      by (simp add: deliver_def bindS_def beside_def)
    with n Inr f t show ?thesis by (simp add: run_once_def bindS_def)
  qed
qed

text \<open>
  C12: One result that the gateway will never take stops the workstation: as
  long as delivering the oldest pending result is refused (the gateway refuses a stale result for
  good), every iteration of the loop fails, the tables do not change, and the loop never polls:
  what it does is the same for every answer the gateway has for a poll.
\<close>

theorem refused_result_blocks:
  assumes row: "first_result (rn_tenant rn) (rn_device rn) t = Some r"
    and parsed: "parse_result_payload (sr_parse (rn_store rn)) (PayloadBytes (jo_payload r)) = Inr e"
    and refused: "\<And>y. \<exists>code y'. wc_complete (rn_client rn) e y = (Inl (WorkerTransportError code), y')"
    and store: "sqlite_store (rn_store rn)"
  shows "\<exists>x'. worker_loop rn False True readings (t, x)
      = (LoopRunning, replicate (length readings) ''worker_iteration_failed'', (t, x'))
    \<and> (\<forall>answer. worker_loop (rn\<lparr>rn_client := (rn_client rn)\<lparr>wc_poll := answer\<rparr>\<rparr>) False True readings (t, x)
        = worker_loop rn False True readings (t, x))"
proof (induction readings arbitrary: x)
  case (Cons reading readings)
  obtain a d where r: "reading = (a, d)" by (cases reading)
  obtain er x1 where i: "run_once rn a d (t, x) = (Inl er, (t, x1))" "loop_catches er"
    using blocked_iteration[OF assms] by blast
  have "run_once (rn\<lparr>rn_client := (rn_client rn)\<lparr>wc_poll := answer\<rparr>\<rparr>) a d (t, x) = (Inl er, (t, x1))" for answer
  proof -
    have "rn\<lparr>rn_client := cl\<rparr> = rn\<lparr>rn_client := cl, rn_dispatcher := rn_dispatcher rn\<rparr>" for cl by simp
    then show ?thesis
      using pending_run[OF row, where cl = "(rn_client rn)\<lparr>wc_poll := answer\<rparr>" and wd = "rn_dispatcher rn" and x = x
        and authorized = a and authorized' = a and completed = d and completed' = d] i(1) by simp
  qed
  with i Cons[of x1] r show ?case by auto
qed simp

section \<open>Examples\<close>

lemma sample_sqlite: "sqlite_store sample_store" "sqlite_store (sample_store\<lparr>sr_parse := \<lambda>_. Inr sample_answer\<rparr>)"
  by (simp_all add: sqlite_store_def sample_store_def sample_local_world_def raises_def)

lemma sample_pydantic: "pydantic_client sample_transport"
  by (auto simp add: pydantic_client_def sample_transport_def worker_control_ack_def split: if_splits)

theorem worker_loop_survives_witness:
  "\<exists>out s'. run_worker_loop (sample_runner\<lparr>rn_client := https_client sample_transport\<rparr>) 5 False True
      [(Naive 1, Naive 2), (Aware 20, Aware 21)] (no_rows, 0) = (LoopRunning, out, s') \<and> length out \<le> 2"
  using worker_loop_survives[of "sample_runner\<lparr>rn_client := https_client sample_transport\<rparr>" sample_transport 5 True
      "[(Naive 1, Naive 2), (Aware 20, Aware 21)]" "(no_rows, 0)"] sample_pydantic sample_sqlite
  by (simp add: sample_runner_def numeral_2_eq_2)

theorem refused_result_blocks_witness:
  "\<exists>x'. worker_loop (sample_runner\<lparr>rn_store := sample_store\<lparr>sr_parse := \<lambda>_. Inr sample_answer\<rparr>\<rparr>) False True
      [(Aware 30, Aware 31), (Aware 40, Aware 41)] (answer_saved, 0)
    = (LoopRunning, [''worker_iteration_failed'', ''worker_iteration_failed''], (answer_saved, x'))"
proof -
  let ?rn = "sample_runner\<lparr>rn_store := sample_store\<lparr>sr_parse := \<lambda>_. Inr sample_answer\<rparr>\<rparr>"
  have row: "first_result (rn_tenant ?rn) (rn_device ?rn) answer_saved = Some (outbox_entry sample_answer (codes ''result''))"
    by (simp add: sample_runner_simps) code_simp
  have "utf8_encode (codes ''result'') = Inr (codes ''result'')" "length (codes ''result'') = 6"
    by (simp_all add: utf8_encode_def codes_def scalar_def utf8_char_def)
  then have parsed: "parse_result_payload (sr_parse (rn_store ?rn))
      (PayloadBytes (jo_payload (outbox_entry sample_answer (codes ''result'')))) = Inr sample_answer"
    by (simp add: parse_result_payload_def parse_of_bytes(1)[of "codes ''result''"] outbox_entry_def max_result_payload_bytes_def)
  have refused: "\<exists>code y'. wc_complete (rn_client ?rn) sample_answer y = (Inl (WorkerTransportError code), y')" for y
    by (simp add: sample_runner_simps)
  from refused_result_blocks[OF row parsed refused, of "[(Aware 30, Aware 31), (Aware 40, Aware 41)]" 0] sample_sqlite(2)
  show ?thesis by (auto simp add: numeral_2_eq_2)
qed
end
