(* ===== verification/Batch_Publish.thy ===== *)
theory Batch_Publish
  imports Worker_Dispatch
begin

text \<open>
  Batches of drawings on the workstation (src/cadplot\_mcp/batch.py): pages of publish plans, staging
  of approved plans, queueing of staged jobs with back-pressure, and the status of a batch. The
  builders the functions are given are actions on a state; what they return are Python dicts.
\<close>

section \<open>Dicts\<close>

type_synonym py_dict = "(string \<times> py_value) list"

definition pstr :: "string \<Rightarrow> py_value" where
  "pstr s = PStr (codes s)"

fun py_truthy :: "py_value \<Rightarrow> bool" where
  "py_truthy PNone = False"
| "py_truthy (PBool b) = b"
| "py_truthy (PInt i) = (i \<noteq> 0)"
| "py_truthy (PFloat f) = (fst f \<noteq> 0)"
| "py_truthy (PStr t) = (t \<noteq> [])"
| "py_truthy (PList vs) = (vs \<noteq> [])"
| "py_truthy (PDict d) = (d \<noteq> [])"
| "py_truthy POther = True"

text \<open>A dict keeps the place of a key that is written again.\<close>

definition put_item :: "string \<Rightarrow> py_value \<Rightarrow> py_dict \<Rightarrow> py_dict" where
  "put_item k v d = (if k \<in> set (map fst d) then map (\<lambda>(k', v'). (k', if k' = k then v else v')) d else d @ [(k, v)])"

definition merge_dicts :: "py_dict \<Rightarrow> py_dict \<Rightarrow> py_dict" where
  "merge_dicts a b = fold (\<lambda>(k, v). put_item k v) b a"

definition has_text :: "py_dict \<Rightarrow> string \<Rightarrow> string \<Rightarrow> bool" where
  "has_text d key s \<longleftrightarrow> get_item d key = pstr s"

definition count_items :: "(py_dict \<Rightarrow> bool) \<Rightarrow> py_dict list \<Rightarrow> int" where
  "count_items p items = int (length (filter p items))"

text \<open>
  What the functions use of Python: be\_dumps v is json.dumps(v, ensure\_ascii=False, sort\_keys=True,
  separators=(",", ":")).encode("utf-8"), be\_str is str of a value, be\_message str of an exception,
  be\_type\_name its class name, be\_printable str.isprintable of a character, and be\_resolve a path
  str(Path(path).expanduser().resolve(strict=False)).
\<close>

record batch_env =
  be_dumps :: "py_value \<Rightarrow> nat list res"
  be_sha256 :: "nat list \<Rightarrow> nat list"
  be_casefold :: "pytext \<Rightarrow> pytext"
  be_str :: "py_value \<Rightarrow> pytext"
  be_message :: "exn \<Rightarrow> pytext"
  be_type_name :: "exn \<Rightarrow> pytext"
  be_printable :: "nat \<Rightarrow> bool"
  be_resolve :: "pytext \<Rightarrow> pytext res"

definition hash_of :: "batch_env \<Rightarrow> py_value \<Rightarrow> pytext res" where
  "hash_of env v = bindR (be_dumps env v) (\<lambda>b. Inr (codes (''sha256:'' @ hexdigest (be_sha256 env b))))"

text \<open>re.fullmatch of sha256:[0-9a-f]{64}, and of [0-9a-f]{64}.\<close>

definition lower_hex_code :: "nat \<Rightarrow> bool" where
  "lower_hex_code c \<longleftrightarrow> 48 \<le> c \<and> c \<le> 57 \<or> 97 \<le> c \<and> c \<le> 102"

definition digest_text :: "pytext \<Rightarrow> bool" where
  "digest_text t \<longleftrightarrow> length t = 64 \<and> list_all lower_hex_code t"

definition hash_text :: "pytext \<Rightarrow> bool" where
  "hash_text t \<longleftrightarrow> take 7 t = codes ''sha256:'' \<and> digest_text (drop 7 t)"

section \<open>Inventory and pages\<close>

definition inventory_entry :: "batch_env \<Rightarrow> py_dict \<Rightarrow> (pytext \<times> py_dict) res" where
  "inventory_entry env item = (case map_of item ''path'' of
     None \<Rightarrow> Inl (OtherException ''KeyError'')
   | Some path \<Rightarrow> Inr (be_str env path, [(''path'', PStr (be_str env path)),
       (''size_bytes'', get_item item ''size_bytes''), (''modified_utc'', get_item item ''modified_utc'')]))"

definition build_drawing_inventory_id :: "batch_env \<Rightarrow> py_dict list \<Rightarrow> pytext res" where
  "build_drawing_inventory_id env items =
     bindR (collect (inventory_entry env) items) (\<lambda>entries.
     hash_of env (PList (map (\<lambda>e. PDict (snd e)) (sort_key (\<lambda>e. be_casefold env (fst e)) entries))))"

definition page_item ::
  "batch_env \<Rightarrow> (pytext \<Rightarrow> ('s, py_dict) py) \<Rightarrow> pytext \<Rightarrow> ('s, py_dict) py" where
  "page_item env plan_builder path =
     catchS
       (bindS (plan_builder path) (\<lambda>plan.
        ret [(''drawing'', PStr path),
             (''status'', if get_item plan ''ready'' = PBool True then pstr ''ready'' else pstr ''blocked''),
             (''plan'', PDict plan)]))
       (\<lambda>e. ret [(''drawing'', PStr path), (''status'', pstr ''error''), (''error'', PStr (be_message env e))])"

definition page_payload :: "pytext \<Rightarrow> nat \<Rightarrow> nat \<Rightarrow> nat \<Rightarrow> py_dict list \<Rightarrow> py_dict" where
  "page_payload inventory offset limit drawings items =
     (let ready = count_items (\<lambda>i. has_text i ''status'' ''ready'') items;
          blocked = count_items (\<lambda>i. has_text i ''status'' ''blocked'') items;
          next_offset = offset + length items in
      [(''schema_version'', PInt 1), (''inventory_id'', PStr inventory), (''offset'', PInt (int offset)),
       (''limit'', PInt (int limit)), (''total_drawings'', PInt (int drawings)), (''processed'', PInt (int (length items))),
       (''next_offset'', if next_offset < drawings then PInt (int next_offset) else PNone),
       (''has_more'', PBool (next_offset < drawings)),
       (''summary'', PDict [(''ready'', PInt ready), (''blocked'', PInt blocked), (''errors'', PInt (int (length items) - ready - blocked))]),
       (''items'', PList (map PDict items))])"

definition current_inventory :: "batch_env \<Rightarrow> pytext list \<Rightarrow> pytext option \<Rightarrow> pytext res" where
  "current_inventory env paths inventory = (case inventory of
     Some i \<Rightarrow> (if i \<noteq> [] then Inr i else build_drawing_inventory_id env (map (\<lambda>p. [(''path'', PStr p)]) paths))
   | None \<Rightarrow> build_drawing_inventory_id env (map (\<lambda>p. [(''path'', PStr p)]) paths))"

definition build_batch_page ::
  "batch_env \<Rightarrow> pytext list \<Rightarrow> (pytext \<Rightarrow> ('s, py_dict) py) \<Rightarrow> int \<Rightarrow> int \<Rightarrow> pytext option \<Rightarrow> pytext option
    \<Rightarrow> ('s, py_dict) py" where
  "build_batch_page env paths plan_builder offset limit inventory expected =
     bindS (guardS (0 \<le> offset) (ValueError ''offset'')) (\<lambda>_.
     bindS (guardS (1 \<le> limit \<and> limit \<le> 50) (ValueError ''limit'')) (\<lambda>_.
     bindS (liftR (current_inventory env paths inventory)) (\<lambda>current.
     bindS (guardS (hash_text current) (ValueError ''inventory_id'')) (\<lambda>_.
     bindS (guardS (\<not> (0 < offset \<and> expected = None)) (ValueError ''expected_inventory_id'')) (\<lambda>_.
     bindS (guardS (expected = None \<or> expected = Some current) (ValueError ''inventory_changed'')) (\<lambda>_.
     bindS (gather (page_item env plan_builder) (take (nat limit) (drop (nat offset) paths))) (\<lambda>items.
     let payload = page_payload current (nat offset) (nat limit) (length paths) items in
     bindS (liftR (hash_of env (PDict payload))) (\<lambda>page_id.
     ret ((''batch_page_id'', PStr page_id) # payload)))))))))"

section \<open>Staging\<close>

record plan_approval =
  pa_path :: pytext
  pa_plan :: pytext

definition plan_approval_of :: "py_value \<Rightarrow> plan_approval res" where
  "plan_approval_of item = (case item of
     PDict d \<Rightarrow>
       (if set (map fst d) \<noteq> {''path'', ''plan_id''} then Inl (ValueError ''approval_keys'')
        else (case get_item d ''path'' of
          PStr path \<Rightarrow>
            (if py_strip path = [] then Inl (ValueError ''approval_path'')
             else (case get_item d ''plan_id'' of
               PStr plan \<Rightarrow> (if hash_text plan then Inr \<lparr>pa_path = path, pa_plan = plan\<rparr> else Inl (ValueError ''approval_plan_id''))
             | _ \<Rightarrow> Inl (ValueError ''approval_plan_id'')))
        | _ \<Rightarrow> Inl (ValueError ''approval_path'')))
   | _ \<Rightarrow> Inl (ValueError ''approval_keys''))"

text \<open>What the two kinds of approvals share: 1 to 20 items, each as it should be, with distinct resolved paths.\<close>

definition approval_list :: "py_value \<Rightarrow> py_value list res" where
  "approval_list v = (case v of
     PList items \<Rightarrow> (if 1 \<le> length items \<and> length items \<le> 20 then Inr items else Inl (ValueError ''approvals''))
   | _ \<Rightarrow> Inl (ValueError ''approvals''))"

definition path_keys :: "batch_env \<Rightarrow> pytext list \<Rightarrow> pytext list res" where
  "path_keys env paths = collect (\<lambda>p. bindR (be_resolve env p) (\<lambda>r. Inr (be_casefold env r))) paths"

definition validate_approvals :: "batch_env \<Rightarrow> py_value \<Rightarrow> plan_approval list res" where
  "validate_approvals env v =
     bindR (approval_list v) (\<lambda>items.
     bindR (collect plan_approval_of items) (\<lambda>normalized.
     bindR (path_keys env (map pa_path normalized)) (\<lambda>paths.
     bindR (ensure (distinct paths) (ValueError ''approval_paths_unique'')) (\<lambda>_.
     bindR (ensure (distinct (map pa_plan normalized)) (ValueError ''approval_plan_ids_unique'')) (\<lambda>_.
     Inr normalized)))))"

definition plan_approval_dict :: "plan_approval \<Rightarrow> py_dict" where
  "plan_approval_dict a = [(''path'', PStr (pa_path a)), (''plan_id'', PStr (pa_plan a))]"

definition staged_head :: "plan_approval \<Rightarrow> string \<Rightarrow> py_dict" where
  "staged_head a status = [(''drawing'', PStr (pa_path a)), (''approved_plan_id'', PStr (pa_plan a)), (''status'', pstr status)]"

definition stage_item ::
  "batch_env \<Rightarrow> (pytext \<Rightarrow> ('s, py_dict) py) \<Rightarrow> (py_dict \<Rightarrow> pytext \<Rightarrow> ('s, py_dict) py) \<Rightarrow> plan_approval
    \<Rightarrow> ('s, py_dict) py" where
  "stage_item env plan_builder stage_builder a =
     catchS
       (bindS (plan_builder (pa_path a)) (\<lambda>plan.
        if get_item plan ''ready'' \<noteq> PBool True
        then ret (staged_head a ''blocked'' @ [(''error'', pstr ''Current publish plan has blockers.''), (''current_plan'', PDict plan)])
        else if get_item plan ''plan_id'' \<noteq> PStr (pa_plan a)
        then ret (staged_head a ''approval_mismatch'' @ [(''error'', pstr ''Drawing or plan changed after approval.''),
               (''current_plan_id'', get_item plan ''plan_id'')])
        else bindS (stage_builder plan (pa_plan a)) (\<lambda>job.
             ret (staged_head a ''staged'' @ [(''job'', PDict job)]))))
       (\<lambda>e. ret (staged_head a ''error'' @ [(''error'', PStr (be_message env e))]))"

definition staging_report :: "pytext \<Rightarrow> py_dict list \<Rightarrow> py_dict" where
  "staging_report batch_id items =
     (let staged = count_items (\<lambda>i. has_text i ''status'' ''staged'') items;
          blocked = count_items (\<lambda>i. has_text i ''status'' ''blocked'' \<or> has_text i ''status'' ''approval_mismatch'') items in
      [(''schema_version'', PInt 1), (''approval_batch_id'', PStr batch_id), (''complete'', PBool (staged = int (length items))),
       (''summary'', PDict [(''requested'', PInt (int (length items))), (''staged'', PInt staged), (''blocked'', PInt blocked),
          (''errors'', PInt (int (length items) - staged - blocked))]),
       (''items'', PList (map PDict items))])"

definition stage_approved_batch ::
  "batch_env \<Rightarrow> py_value \<Rightarrow> (pytext \<Rightarrow> ('s, py_dict) py) \<Rightarrow> (py_dict \<Rightarrow> pytext \<Rightarrow> ('s, py_dict) py) \<Rightarrow> ('s, py_dict) py" where
  "stage_approved_batch env approvals plan_builder stage_builder =
     bindS (liftR (validate_approvals env approvals)) (\<lambda>normalized.
     bindS (liftR (hash_of env (PList (map (\<lambda>a. PDict (plan_approval_dict a)) normalized)))) (\<lambda>batch_id.
     bindS (gather (stage_item env plan_builder stage_builder) normalized) (\<lambda>items.
     ret (staging_report batch_id items))))"

section \<open>Queueing\<close>

record queue_approval =
  qa_manifest :: pytext
  qa_plan :: pytext
  qa_sha256 :: pytext

definition queue_approval_of :: "py_value \<Rightarrow> queue_approval res" where
  "queue_approval_of item = (case item of
     PDict d \<Rightarrow>
       (if set (map fst d) \<noteq> {''manifest_path'', ''plan_id'', ''manifest_sha256''} then Inl (ValueError ''queue_approval_keys'')
        else (case get_item d ''manifest_path'' of
          PStr path \<Rightarrow>
            (if py_strip path = [] then Inl (ValueError ''queue_approval_path'')
             else (case get_item d ''plan_id'' of
               PStr plan \<Rightarrow>
                 (if \<not> hash_text plan then Inl (ValueError ''queue_approval_plan_id'')
                  else (case get_item d ''manifest_sha256'' of
                    PStr digest \<Rightarrow> (if digest_text digest then Inr \<lparr>qa_manifest = path, qa_plan = plan, qa_sha256 = digest\<rparr>
                      else Inl (ValueError ''queue_approval_manifest_sha256''))
                  | _ \<Rightarrow> Inl (ValueError ''queue_approval_manifest_sha256'')))
             | _ \<Rightarrow> Inl (ValueError ''queue_approval_plan_id'')))
        | _ \<Rightarrow> Inl (ValueError ''queue_approval_path'')))
   | _ \<Rightarrow> Inl (ValueError ''queue_approval_keys''))"

definition validate_queue_approvals :: "batch_env \<Rightarrow> py_value \<Rightarrow> queue_approval list res" where
  "validate_queue_approvals env v =
     bindR (approval_list v) (\<lambda>items.
     bindR (collect queue_approval_of items) (\<lambda>normalized.
     bindR (path_keys env (map qa_manifest normalized)) (\<lambda>paths.
     bindR (ensure (distinct paths) (ValueError ''queue_paths_unique'')) (\<lambda>_.
     bindR (ensure (distinct (map qa_plan normalized)) (ValueError ''queue_plan_ids_unique'')) (\<lambda>_.
     bindR (ensure (distinct (map qa_sha256 normalized)) (ValueError ''queue_digests_unique'')) (\<lambda>_.
     Inr normalized))))))"

definition queue_approval_dict :: "queue_approval \<Rightarrow> py_dict" where
  "queue_approval_dict a = [(''manifest_path'', PStr (qa_manifest a)), (''plan_id'', PStr (qa_plan a)), (''manifest_sha256'', PStr (qa_sha256 a))]"

text \<open>The answer of the builder as a dict, and the error it names, its own or its plug-in's.\<close>

definition queue_answer :: "batch_env \<Rightarrow> (queue_approval \<Rightarrow> ('s, py_value) py) \<Rightarrow> queue_approval \<Rightarrow> ('s, py_dict) py" where
  "queue_answer env queue_builder a =
     bindS (catchS (queue_builder a)
       (\<lambda>e. ret (PDict [(''queued'', PBool False), (''error'', PStr (be_message env e))]))) (\<lambda>result.
     ret (case result of PDict d \<Rightarrow> d | _ \<Rightarrow> [(''queued'', PBool False), (''error'', pstr ''invalid_queue_response'')]))"

definition answer_error :: "py_dict \<Rightarrow> py_value" where
  "answer_error d = (let error = get_item d ''error'' in
     if error = PNone then (case get_item d ''plugin'' of PDict plugin \<Rightarrow> get_item plugin ''error'' | _ \<Rightarrow> PNone) else error)"

definition deferred_fields :: py_dict where
  "deferred_fields = [(''queued'', PBool False), (''deferred'', PBool True), (''error'', pstr ''queue_full'')]"

fun queue_loop ::
  "batch_env \<Rightarrow> (queue_approval \<Rightarrow> ('s, py_value) py) \<Rightarrow> bool \<Rightarrow> queue_approval list \<Rightarrow> ('s, py_dict list) py" where
  "queue_loop env queue_builder saturated [] = ret []"
| "queue_loop env queue_builder saturated (a # as) =
     (if saturated then
        bindS (queue_loop env queue_builder saturated as) (\<lambda>items.
        ret (merge_dicts (queue_approval_dict a) deferred_fields # items))
      else
        bindS (queue_answer env queue_builder a) (\<lambda>result.
        let full = (answer_error result = pstr ''queue_full'');
            shown = (if full then merge_dicts result deferred_fields else result) in
        bindS (queue_loop env queue_builder full as) (\<lambda>items.
        ret (merge_dicts (queue_approval_dict a) shown # items))))"

definition queue_report :: "pytext \<Rightarrow> py_dict list \<Rightarrow> py_dict" where
  "queue_report batch_id items =
     (let queued = count_items (\<lambda>i. get_item i ''queued'' = PBool True) items;
          deferred = count_items (\<lambda>i. get_item i ''deferred'' = PBool True) items in
      [(''schema_version'', PInt 2), (''queue_batch_id'', PStr batch_id), (''complete'', PBool (queued = int (length items))),
       (''summary'', PDict [(''requested'', PInt (int (length items))), (''queued'', PInt queued), (''deferred'', PInt deferred),
          (''failed'', PInt (int (length items) - queued - deferred))]),
       (''items'', PList (map PDict items))])"

definition queue_approved_batch ::
  "batch_env \<Rightarrow> py_value \<Rightarrow> (queue_approval \<Rightarrow> ('s, py_value) py) \<Rightarrow> ('s, py_dict) py" where
  "queue_approved_batch env approvals queue_builder =
     bindS (liftR (validate_queue_approvals env approvals)) (\<lambda>normalized.
     bindS (liftR (hash_of env (PList (map (\<lambda>a. PDict (queue_approval_dict a)) normalized)))) (\<lambda>batch_id.
     bindS (queue_loop env queue_builder False normalized) (\<lambda>items.
     ret (queue_report batch_id items))))"

section \<open>Status\<close>

text \<open>sorted(PUBLISH\_JOB\_STATES), and their casefolded names.\<close>

definition publish_job_states :: "(string \<times> string) list" where
  "publish_job_states = [(''Cancelled'', ''cancelled''), (''Failed'', ''failed''), (''Pending'', ''pending''),
     (''Running'', ''running''), (''Succeeded'', ''succeeded'')]"

definition is_job_state :: "py_value \<Rightarrow> bool" where
  "is_job_state v \<longleftrightarrow> list_ex (\<lambda>(s, _). v = pstr s) publish_job_states"

definition job_error_char :: "nat \<Rightarrow> bool" where
  "job_error_char c \<longleftrightarrow> 65 \<le> c \<and> c \<le> 90 \<or> 97 \<le> c \<and> c \<le> 122 \<or> 48 \<le> c \<and> c \<le> 57 \<or> c = 95 \<or> c = 58 \<or> c = 45"

definition job_error_text :: "py_value \<Rightarrow> bool" where
  "job_error_text v = (case v of PStr t \<Rightarrow> t \<noteq> [] \<and> length t \<le> 128 \<and> list_all job_error_char t | _ \<Rightarrow> False)"

definition bounded_text :: "batch_env \<Rightarrow> pytext \<Rightarrow> pytext" where
  "bounded_text env text =
     (let stripped = py_strip (map (\<lambda>c. if be_printable env c then c else 32) text) in
      take 256 (if stripped = [] then codes ''status_error'' else stripped))"

text \<open>str of a text is the text.\<close>

definition str_of :: "batch_env \<Rightarrow> py_value \<Rightarrow> pytext" where
  "str_of env v = (case v of PStr t \<Rightarrow> t | _ \<Rightarrow> be_str env v)"

definition bounded_status_error :: "batch_env \<Rightarrow> py_value \<Rightarrow> pytext" where
  "bounded_status_error env v = bounded_text env (str_of env v)"

definition or_else :: "py_value \<Rightarrow> string \<Rightarrow> py_value" where
  "or_else v s = (if py_truthy v then v else pstr s)"

definition not_live :: "batch_env \<Rightarrow> pytext \<Rightarrow> pytext \<Rightarrow> py_dict" where
  "not_live env plan_id error = [(''plan_id'', PStr plan_id), (''found'', PBool False), (''job_state'', PNone), (''error'', PStr error)]"

definition live_state :: "pytext \<Rightarrow> py_dict \<Rightarrow> bool" where
  "live_state plan_id response \<longleftrightarrow> get_item response ''found'' = PBool True \<and> (case get_item response ''plugin'' of
     PDict plugin \<Rightarrow>
       (let state = get_item plugin ''jobState''; job_error = get_item plugin ''jobError'' in
        get_item plugin ''ok'' = PBool True \<and> get_item plugin ''plan_id'' = PStr plan_id \<and> is_job_state state
        \<and> (if state = pstr ''Failed'' then job_error_text job_error else job_error = PNone))
   | _ \<Rightarrow> False)"

definition normalize_live_status :: "batch_env \<Rightarrow> pytext \<Rightarrow> py_value \<Rightarrow> py_dict" where
  "normalize_live_status env plan_id response = (case response of
     PDict d \<Rightarrow>
       (if live_state plan_id d then
          (let plugin = dict_or_empty (get_item d ''plugin'') in
           [(''plan_id'', PStr plan_id), (''found'', PBool True), (''job_state'', get_item plugin ''jobState''),
            (''job_error'', get_item plugin ''jobError''), (''error'', PNone)])
        else not_live env plan_id (bounded_status_error env (or_else (answer_error d) ''invalid_status_response'')))
   | _ \<Rightarrow> not_live env plan_id (codes ''invalid_status_response''))"

text \<open>An int that is no bool and not negative.\<close>

fun natural :: "py_value \<Rightarrow> int option" where
  "natural (PInt i) = (if i < 0 then None else Some i)"
| "natural v = None"

record queue_telemetry =
  qt_capacity :: int
  qt_pending :: int
  qt_running :: int
  qt_available :: int
  qt_recovered :: int
  qt_interrupted :: int
  qt_cancelled :: int

definition get_default :: "py_dict \<Rightarrow> string \<Rightarrow> py_value \<Rightarrow> py_value" where
  "get_default d key v = (case map_of d key of None \<Rightarrow> v | Some w \<Rightarrow> w)"

definition telemetry_values :: "py_dict \<Rightarrow> py_value list" where
  "telemetry_values d = [get_item d ''queueCapacity'', get_item d ''queuePending'', get_item d ''queueRunning'',
     get_item d ''queueAvailable'', get_default d ''queueRecoveredOnStartup'' (PInt 0),
     get_default d ''queueInterruptedOnStartup'' (PInt 0), get_default d ''queueCancelledOnStartup'' (PInt 0)]"

definition telemetry_of :: "py_dict \<Rightarrow> queue_telemetry option" where
  "telemetry_of d = (case map natural (telemetry_values d) of
     [Some c, Some p, Some r, Some a, Some rec, Some i, Some x] \<Rightarrow>
       Some \<lparr>qt_capacity = c, qt_pending = p, qt_running = r, qt_available = a, qt_recovered = rec, qt_interrupted = i,
         qt_cancelled = x\<rparr>
   | _ \<Rightarrow> None)"

definition consistent_telemetry :: "queue_telemetry \<Rightarrow> bool" where
  "consistent_telemetry q \<longleftrightarrow> 1 \<le> qt_capacity q \<and> qt_capacity q \<le> 1000 \<and> qt_pending q \<le> qt_capacity q
     \<and> qt_available q \<le> qt_capacity q \<and> qt_running q \<le> 1 \<and> qt_recovered q \<le> qt_capacity q
     \<and> qt_pending q + qt_available q = qt_capacity q"

definition queue_authentication :: string where
  "queue_authentication = ''windows-dpapi-current-user+hmac-sha256-v1''"

text \<open>A ValueError is shown with its own text: the bounded error of the response, or invalid\_queue\_telemetry.\<close>

definition normalize_queue_telemetry :: "batch_env \<Rightarrow> py_value \<Rightarrow> pytext + queue_telemetry" where
  "normalize_queue_telemetry env response = (case response of
     PDict d \<Rightarrow>
       (if get_item d ''ok'' \<noteq> PBool True then Inl (bounded_status_error env (or_else (get_item d ''error'') ''invalid_plugin_status''))
        else (case telemetry_of d of
          None \<Rightarrow> Inl (codes ''invalid_queue_telemetry'')
        | Some q \<Rightarrow>
            (if get_item d ''publishEnabled'' \<noteq> PBool True \<or> \<not> has_text d ''queueAuthentication'' queue_authentication
                \<or> \<not> consistent_telemetry q
             then Inl (codes ''invalid_queue_telemetry'') else Inr q)))
   | _ \<Rightarrow> Inl (bounded_status_error env (pstr ''invalid_plugin_status'')))"

definition telemetry_dict :: "queue_telemetry \<Rightarrow> py_dict" where
  "telemetry_dict q = [(''capacity'', PInt (qt_capacity q)), (''pending'', PInt (qt_pending q)), (''running'', PInt (qt_running q)),
     (''available'', PInt (qt_available q)), (''recovered_on_startup'', PInt (qt_recovered q)),
     (''interrupted_on_startup'', PInt (qt_interrupted q)), (''cancelled_on_startup'', PInt (qt_cancelled q)),
     (''authentication'', pstr queue_authentication)]"

definition status_exception :: "batch_env \<Rightarrow> exn \<Rightarrow> pytext" where
  "status_exception env e = codes ''status_exception:'' @ be_type_name env e"

text \<open>Testing membership in the set of states hashes the state of the plug-in, so a list or dict there raises.\<close>

definition unhashable_state :: "pytext \<Rightarrow> py_value \<Rightarrow> bool" where
  "unhashable_state plan_id response = (case response of
     PDict d \<Rightarrow> get_item d ''found'' = PBool True \<and> (case get_item d ''plugin'' of
         PDict plugin \<Rightarrow> get_item plugin ''ok'' = PBool True \<and> get_item plugin ''plan_id'' = PStr plan_id
           \<and> (case get_item plugin ''jobState'' of PList _ \<Rightarrow> True | PDict _ \<Rightarrow> True | _ \<Rightarrow> False)
       | _ \<Rightarrow> False)
   | _ \<Rightarrow> False)"

definition status_item :: "batch_env \<Rightarrow> (pytext \<Rightarrow> ('s, py_value) py) \<Rightarrow> pytext \<Rightarrow> ('s, py_dict) py" where
  "status_item env status_builder plan_id =
     bindS (catchS (status_builder plan_id)
       (\<lambda>e. ret (PDict [(''found'', PBool False), (''error'', PStr (status_exception env e))]))) (\<lambda>response.
     bindS (guardS (\<not> unhashable_state plan_id response) (TypeError ''unhashable'')) (\<lambda>_.
     ret (normalize_live_status env plan_id response)))"

fun is_value_error :: "exn \<Rightarrow> bool" where
  "is_value_error (TypeError c) = False"
| "is_value_error e = is_value_or_type_error e"

definition queue_sample :: "batch_env \<Rightarrow> ('s, py_value) py \<Rightarrow> ('s, pytext + queue_telemetry) py" where
  "queue_sample env plugin_status_builder =
     catchS (bindS plugin_status_builder (\<lambda>response. ret
         (case normalize_queue_telemetry env response of Inl t \<Rightarrow> Inl (bounded_text env t) | Inr q \<Rightarrow> Inr q)))
       (\<lambda>e. ret (Inl (if is_value_error e then bounded_text env (be_message env e) else status_exception env e)))"

definition validate_status_plan_ids :: "py_value \<Rightarrow> pytext list res" where
  "validate_status_plan_ids v = (case v of
     PList vs \<Rightarrow>
       (if \<not> (1 \<le> length vs \<and> length vs \<le> 20) then Inl (ValueError ''plan_ids'')
        else bindR (collect (\<lambda>x. case x of PStr t \<Rightarrow> (if hash_text t then Inr t else Inl (ValueError ''plan_id''))
               | _ \<Rightarrow> Inl (ValueError ''plan_id'')) vs) (\<lambda>ids.
             bindR (ensure (distinct ids) (ValueError ''plan_ids_unique'')) (\<lambda>_. Inr ids)))
   | _ \<Rightarrow> Inl (ValueError ''plan_ids''))"

definition not_found_item :: "py_dict \<Rightarrow> bool" where
  "not_found_item i \<longleftrightarrow> has_text i ''error'' ''job_not_found''"

definition status_summary :: "py_dict list \<Rightarrow> (string \<times> int) list" where
  "status_summary items =
     map (\<lambda>(state, name). (name, count_items (\<lambda>i. has_text i ''job_state'' state) items)) publish_job_states
     @ [(''not_found'', count_items not_found_item items),
        (''errors'', count_items (\<lambda>i. get_item i ''job_state'' = PNone \<and> \<not> not_found_item i) items)]"

definition status_payload :: "py_dict list \<Rightarrow> pytext + queue_telemetry \<Rightarrow> py_dict" where
  "status_payload items sample =
     [(''schema_version'', PInt 1), (''summary'', PDict (map (\<lambda>(k, n). (k, PInt n)) (status_summary items))),
      (''queue'', case sample of Inl _ \<Rightarrow> PNone | Inr q \<Rightarrow> PDict (telemetry_dict q)),
      (''queue_error'', case sample of Inl t \<Rightarrow> PStr t | Inr _ \<Rightarrow> PNone),
      (''items'', PList (map PDict items))]"

definition build_publish_batch_status ::
  "batch_env \<Rightarrow> py_value \<Rightarrow> (pytext \<Rightarrow> ('s, py_value) py) \<Rightarrow> ('s, py_value) py \<Rightarrow> ('s, py_dict) py" where
  "build_publish_batch_status env plan_ids status_builder plugin_status_builder =
     bindS (liftR (validate_status_plan_ids plan_ids)) (\<lambda>ids.
     bindS (gather (status_item env status_builder) ids) (\<lambda>items.
     bindS (queue_sample env plugin_status_builder) (\<lambda>sample.
     let payload = status_payload items sample in
     bindS (liftR (hash_of env (PDict payload))) (\<lambda>batch_id.
     ret ((''status_batch_id'', PStr batch_id) # payload)))))"

end
