(* ===== verification/Batch_Properties.thy ===== *)
theory Batch_Properties
  imports Batch_Publish "HOL-Library.Multiset"
begin

text \<open>
  What batches promise: pages cover the inventory, whose id does not depend on its order; only
  approved and ready plans are staged; a full queue stops the queueing and defers the rest; a status
  counts every job once.
\<close>

section \<open>Steps that never raise\<close>

lemma catchS_ret_total: "\<exists>v s'. catchS m (\<lambda>e. ret (h e)) s = (Inr v, s')"
  by (cases "m s"; cases "fst (m s)") (auto simp add: catchS_def)

lemma gather_Inr_Cons:
  "gather f (x # xs) s = (Inr ys, s') \<longleftrightarrow> (\<exists>y zs s1. f x s = (Inr y, s1) \<and> gather f xs s1 = (Inr zs, s') \<and> ys = y # zs)"
  by (auto simp add: bindS_eq_Inr)

lemma gather_total:
  assumes "\<And>x s. \<exists>y s'. f x s = (Inr y, s')"
  shows "\<exists>ys s'. gather f xs s = (Inr ys, s')"
proof (induction xs arbitrary: s)
  case (Cons x xs)
  obtain y s1 where "f x s = (Inr y, s1)" using assms by blast
  with Cons[of s1] show ?case by (auto simp add: bindS_def)
qed simp

lemma gather_length: "gather f xs s = (Inr ys, s') \<Longrightarrow> length ys = length xs"
  by (induction xs arbitrary: s ys) (auto simp add: bindS_eq_Inr)

text \<open>Every result of a gathered list came from a run of the step at its item.\<close>

lemma gather_all2:
  "gather f xs s = (Inr ys, s') \<Longrightarrow> (\<And>x t y t'. f x t = (Inr y, t') \<Longrightarrow> P x y) \<Longrightarrow> list_all2 P xs ys"
  by (induction xs arbitrary: s ys) (auto simp add: bindS_eq_Inr)

lemma gather_append:
  "gather f (xs @ ys) s = (Inr zs, s') \<longleftrightarrow> (\<exists>us vs s1. gather f xs s = (Inr us, s1) \<and> gather f ys s1 = (Inr vs, s') \<and> zs = us @ vs)"
  by (induction xs arbitrary: s zs) (fastforce simp add: gather_Inr_Cons simp del: gather.simps(2))+

section \<open>Pages\<close>

lemma page_item_total: "\<exists>i s'. page_item env pb path s = (Inr i, s')"
  unfolding page_item_def by (rule catchS_ret_total)

lemma catchS_eq_Inr:
  "catchS m h s = (Inr y, t) \<longleftrightarrow> m s = (Inr y, t) \<or> (\<exists>e s1. m s = (Inl e, s1) \<and> h e s1 = (Inr y, t))"
  by (auto simp add: catchS_def split: prod.splits sum.splits)

lemma page_item_drawing: "page_item env pb path s = (Inr i, s') \<Longrightarrow> get_item i ''drawing'' = PStr path"
  by (auto simp add: page_item_def catchS_eq_Inr bindS_eq_Inr get_item_def)

definition page_drawings :: "py_dict \<Rightarrow> py_value list" where
  "page_drawings page = (case get_item page ''items'' of PList vs \<Rightarrow> map (\<lambda>v. get_item (dict_or_empty v) ''drawing'') vs | _ \<Rightarrow> [])"

text \<open>A client that follows next\_offset until has\_more is false, for at most fuel pages.\<close>

fun follow_pages ::
  "nat \<Rightarrow> batch_env \<Rightarrow> pytext list \<Rightarrow> (pytext \<Rightarrow> ('s, py_dict) py) \<Rightarrow> int \<Rightarrow> pytext \<Rightarrow> int \<Rightarrow> 's \<Rightarrow> (py_dict list \<times> 's) option" where
  "follow_pages 0 env paths pb limit inventory offset s = None"
| "follow_pages (Suc fuel) env paths pb limit inventory offset s =
     (case build_batch_page env paths pb offset limit (Some inventory) (if offset = 0 then None else Some inventory) s of
       (Inl e, s') \<Rightarrow> None
     | (Inr page, s') \<Rightarrow>
         (if get_item page ''has_more'' \<noteq> PBool True then Some ([page], s')
          else (case get_item page ''next_offset'' of
              PInt next_offset \<Rightarrow> map_option (\<lambda>(pages, s''). (page # pages, s'')) (follow_pages fuel env paths pb limit inventory next_offset s')
            | _ \<Rightarrow> None)))"

lemma page_runs:
  assumes "hash_text inventory" and "1 \<le> limit" "limit \<le> 50" and "\<And>v. \<exists>b. be_dumps env v = Inr b"
  shows "\<exists>page s'. build_batch_page env paths pb (int offset) limit (Some inventory) (if int offset = 0 then None else Some inventory) s
        = (Inr page, s')
      \<and> page_drawings page = map PStr (take (nat limit) (drop offset paths))
      \<and> get_item page ''has_more'' = PBool (offset + nat limit < length paths)
      \<and> (offset + nat limit < length paths
          \<longrightarrow> get_item page ''next_offset'' = PInt (int (offset + nat limit)))"
proof -
  let ?paths = "take (nat limit) (drop offset paths)"
  obtain items s1 where g: "gather (page_item env pb) ?paths s = (Inr items, s1)"
    using gather_total page_item_total by metis
  have len: "length items = min (nat limit) (length paths - offset)" using gather_length[OF g] by (simp add: min.commute)
  have "list_all2 (\<lambda>path i. get_item i ''drawing'' = PStr path) ?paths items" by (rule gather_all2[OF g page_item_drawing])
  then have d: "map (\<lambda>i. get_item i ''drawing'') items = map PStr ?paths"
    by (induction rule: list_all2_induct) simp_all
  let ?payload = "page_payload inventory offset (nat limit) (length paths) items"
  obtain h where h: "hash_of env (PDict ?payload) = Inr h" using assms(4)[of "PDict ?payload"] by (auto simp add: hash_of_def)
  have "inventory \<noteq> []" using assms(1) by (auto simp add: hash_text_def digest_text_def codes_def)
  then have r: "build_batch_page env paths pb (int offset) limit (Some inventory) (if int offset = 0 then None else Some inventory) s
      = (Inr ((''batch_page_id'', PStr h) # ?payload), s1)"
    using assms(1-3) g h
    by (cases "offset = 0") (simp_all add: build_batch_page_def current_inventory_def bindS_def Let_def)
  have n: "offset + length items < length paths \<longleftrightarrow> offset + nat limit < length paths"
    "offset + nat limit < length paths \<Longrightarrow> length items = nat limit" using len by (auto simp add: min_def)
  show ?thesis
    by (intro exI conjI, rule r) (use d n in \<open>simp_all add: page_payload_def Let_def get_item_def page_drawings_def dict_or_empty_def comp_def\<close>)
qed

lemma follow_from:
  assumes "hash_text inventory" and "1 \<le> limit" "limit \<le> 50" and "\<And>v. \<exists>b. be_dumps env v = Inr b"
    and "length paths - offset < fuel * nat limit"
  shows "\<exists>pages s'. follow_pages fuel env paths pb limit inventory (int offset) s = Some (pages, s')
    \<and> concat (map page_drawings pages) = map PStr (drop offset paths)"
  using assms(5)
proof (induction fuel arbitrary: offset s)
  case (Suc fuel)
  let ?offset = "offset + nat limit"
  obtain page s1 where p: "build_batch_page env paths pb (int offset) limit (Some inventory)
      (if int offset = 0 then None else Some inventory) s = (Inr page, s1)"
    "page_drawings page = map PStr (take (nat limit) (drop offset paths))"
    "get_item page ''has_more'' = PBool (?offset < length paths)"
    "?offset < length paths \<longrightarrow> get_item page ''next_offset'' = PInt (int ?offset)"
    using page_runs[OF assms(1-4), where pb = pb and offset = offset and paths = paths and s = s] by (elim exE conjE) (rule that)
  show ?case
  proof (cases "?offset < length paths")
    case True
    have "length paths - ?offset < fuel * nat limit" using Suc.prems True by simp
    from Suc.IH[OF this, of s1] obtain pages s2 where f: "follow_pages fuel env paths pb limit inventory (int ?offset) s1 = Some (pages, s2)"
      "concat (map page_drawings pages) = map PStr (drop ?offset paths)" by blast
    have "follow_pages (Suc fuel) env paths pb limit inventory (int offset) s = Some (page # pages, s2)"
      using p True f(1) by simp
    moreover have "take (nat limit) (drop offset paths) @ drop ?offset paths = drop offset paths"
      by (metis add.commute append_take_drop_id drop_drop)
    then have "concat (map page_drawings (page # pages)) = map PStr (drop offset paths)"
      using p(2) f(2) by (metis concat.simps(2) list.simps(9) map_append)
    ultimately show ?thesis by blast
  next
    case False
    then have "follow_pages (Suc fuel) env paths pb limit inventory (int offset) s = Some ([page], s1)" using p by simp
    moreover have "take (nat limit) (drop offset paths) = drop offset paths" using False by simp
    ultimately show ?thesis using p(2) by simp
  qed
qed simp


lemma collect_mset:
  assumes "collect f xs = Inr ys" and "mset xs = mset xs'"
  shows "\<exists>ys'. collect f xs' = Inr ys' \<and> mset ys' = mset ys"
proof -
  have c: "collect f zs = Inr ws \<longleftrightarrow> map f zs = map Inr ws" for zs ws
    by (induction zs arbitrary: ws) (auto simp add: bindR_eq_Inr Cons_eq_map_conv)
  let ?got = "\<lambda>x. case f x of Inr y \<Rightarrow> y"
  from assms(1) have m: "map f xs = map Inr ys" by (simp add: c)
  have in_ys: "\<exists>y. f x = Inr y" if "x \<in> set xs" for x
    using m that by (metis (no_types, lifting) image_iff list.set_map)
  have "f x = Inr (?got x)" if "x \<in> set xs'" for x
    using in_ys[of x] that assms(2) by (metis mset_eq_setD old.sum.simps(6))
  then have "collect f xs' = Inr (map ?got xs')" by (simp add: c)
  moreover have "map ?got xs = ys" using m by (induction xs arbitrary: ys) (auto simp add: Cons_eq_map_conv)
  then have "mset (map ?got xs') = mset ys" using assms(2) by (metis mset_map)
  ultimately show ?thesis by blast
qed

lemma sort_key_mset:
  assumes "mset xs = mset ys" and "distinct (map f xs)"
  shows "sort_key f xs = sort_key f ys"
proof (rule properties_for_sort_key)
  show "mset (sort_key f ys) = mset xs" using assms(1) by simp
  show "sorted (map f (sort_key f ys))" by simp
  fix k
  assume "k \<in> set (sort_key f ys)"
  then have k: "k \<in> set xs" using mset_eq_setD[OF assms(1)] by simp
  have d: "distinct (map f zs) \<Longrightarrow> x \<in> set zs \<Longrightarrow> filter (\<lambda>y. f x = f y) zs = [x]" for x zs
    by (induction zs) (auto simp add: filter_empty_conv rev_image_eqI)
  have "mset (map f (sort_key f ys)) = mset (map f xs)" using assms(1) by simp
  then have y: "distinct (map f (sort_key f ys))" using assms(2) mset_eq_imp_distinct_iff by blast
  show "filter (\<lambda>x. f k = f x) (sort_key f ys) = filter (\<lambda>x. f k = f x) xs"
    using d[OF y, of k] d[OF assms(2), of k] \<open>k \<in> set (sort_key f ys)\<close> k by simp
qed

text \<open>
  The inventory id stands for the set of drawings and not for the
  order in which the file system lists them: whenever the paths differ after case folding, every
  order of the same items gives the same id. So a later page is refused only when the inventory
  really changed.
\<close>

theorem inventory_id_ignores_order:
  assumes id: "build_drawing_inventory_id env items = Inr i" and same: "mset items' = mset items"
    and paths: "distinct (map (\<lambda>item. be_casefold env (be_str env (get_item item ''path''))) items)"
  shows "build_drawing_inventory_id env items' = Inr i"
proof -
  let ?fold = "\<lambda>e. be_casefold env (fst e)"
  from id obtain entries where e: "collect (inventory_entry env) items = Inr entries"
    "hash_of env (PList (map (\<lambda>e. PDict (snd e)) (sort_key ?fold entries))) = Inr i"
    by (auto simp add: build_drawing_inventory_id_def bindR_eq_Inr)
  obtain entries' where e': "collect (inventory_entry env) items' = Inr entries'" "mset entries' = mset entries"
    using collect_mset[OF e(1)] same by metis
  have "map ?fold entries = map (\<lambda>item. be_casefold env (be_str env (get_item item ''path''))) items"
    using e(1) by (induction items arbitrary: entries)
      (auto simp add: bindR_eq_Inr inventory_entry_def get_item_def split: option.splits)
  then have "distinct (map ?fold entries)" using paths by simp
  then have "sort_key ?fold entries' = sort_key ?fold entries"
    using sort_key_mset[of entries entries'] e'(2) by (metis (no_types, lifting))
  with e e'(1) show ?thesis by (simp add: build_drawing_inventory_id_def)
qed

section \<open>Staging\<close>

lemma stage_item_total: "\<exists>i s'. stage_item env pb sb a s = (Inr i, s')"
  unfolding stage_item_def by (rule catchS_ret_total)

text \<open>What an item says of its approval.\<close>

definition staged_run ::
  "(pytext \<Rightarrow> ('s, py_dict) py) \<Rightarrow> (py_dict \<Rightarrow> pytext \<Rightarrow> ('s, py_dict) py) \<Rightarrow> plan_approval \<Rightarrow> py_dict \<Rightarrow> bool" where
  "staged_run pb sb a i \<longleftrightarrow> (\<exists>plan job s1 s2 s3. pb (pa_path a) s1 = (Inr plan, s2) \<and> get_item plan ''ready'' = PBool True
     \<and> get_item plan ''plan_id'' = PStr (pa_plan a) \<and> sb plan (pa_plan a) s2 = (Inr job, s3) \<and> get_item i ''job'' = PDict job)"

definition item_of_approval ::
  "(pytext \<Rightarrow> ('s, py_dict) py) \<Rightarrow> (py_dict \<Rightarrow> pytext \<Rightarrow> ('s, py_dict) py) \<Rightarrow> plan_approval \<Rightarrow> py_dict \<Rightarrow> bool" where
  "item_of_approval pb sb a i \<longleftrightarrow> get_item i ''drawing'' = PStr (pa_path a) \<and> get_item i ''approved_plan_id'' = PStr (pa_plan a)
     \<and> (has_text i ''status'' ''staged'' \<longrightarrow> staged_run pb sb a i)"

lemma pstr_eq [simp]: "pstr s = pstr t \<longleftrightarrow> s = t"
  by (auto simp add: pstr_def codes_def inj_map_eq_map[OF inj_of_char])

lemma stage_item_of_approval:
  assumes "stage_item env pb sb a s = (Inr i, s')"
  shows "item_of_approval pb sb a i"
proof -
  have head: "get_item (staged_head a status @ d) ''drawing'' = PStr (pa_path a)"
    "get_item (staged_head a status @ d) ''approved_plan_id'' = PStr (pa_plan a)"
    "get_item (staged_head a status @ d) ''status'' = pstr status"
    "get_item (staged_head a status @ [(''job'', v)]) ''job'' = v" for status d v
    by (simp_all add: staged_head_def get_item_def)
  from assms show ?thesis
    unfolding stage_item_def catchS_eq_Inr bindS_eq_Inr
    by (auto simp add: item_of_approval_def has_text_def head staged_run_def bindS_eq_Inr split: if_splits) blast
qed

lemma all_counted: "length (filter P xs) = length xs \<longleftrightarrow> list_all P xs"
proof (induction xs)
  case (Cons x xs)
  show ?case using Cons length_filter_le[of P xs] by (auto simp del: length_filter_le)
qed simp

text \<open>
  A batch that passes the approval checks answers for every approval, in
  order and under the approved path and plan id; an item is reported as staged only when the plan
  built now was ready and had exactly the approved id and staging it succeeded; and the batch is
  complete exactly when every item is staged, with counts that add up to the approvals.
\<close>

theorem staging_is_as_approved:
  assumes run: "stage_approved_batch env v pb sb s = (Inr report, s')"
  shows "\<exists>as items staged blocked errors. validate_approvals env v = Inr as \<and> get_item report ''items'' = PList (map PDict items)
    \<and> list_all2 (item_of_approval pb sb) as items
    \<and> get_item report ''summary'' = PDict [(''requested'', PInt (int (length as))), (''staged'', PInt staged), (''blocked'', PInt blocked), (''errors'', PInt errors)]
    \<and> staged + blocked + errors = int (length as) \<and> 0 \<le> errors
    \<and> (get_item report ''complete'' = PBool True \<longleftrightarrow> list_all (\<lambda>i. has_text i ''status'' ''staged'') items)"
proof -
  from run obtain as h items where as: "validate_approvals env v = Inr as" and g: "gather (stage_item env pb sb) as s = (Inr items, s')"
    and r: "report = staging_report h items"
    by (auto simp add: stage_approved_batch_def bindS_eq_Inr)
  let ?staged = "\<lambda>i. has_text i ''status'' ''staged''"
  let ?blocked = "\<lambda>i. has_text i ''status'' ''blocked'' \<or> has_text i ''status'' ''approval_mismatch''"
  have l: "length items = length as" by (rule gather_length[OF g])
  have a: "list_all2 (item_of_approval pb sb) as items" by (rule gather_all2[OF g stage_item_of_approval])
  have "length (filter ?staged items) + length (filter ?blocked items) \<le> length items"
    by (induction items) (auto simp add: has_text_def)
  moreover have "count_items ?staged items = int (length items) \<longleftrightarrow> list_all ?staged items"
    by (simp add: count_items_def all_counted)
  moreover have "get_item report ''items'' = PList (map PDict items)"
    "get_item report ''complete'' = PBool (count_items ?staged items = int (length items))"
    "get_item report ''summary'' = PDict [(''requested'', PInt (int (length items))), (''staged'', PInt (count_items ?staged items)),
       (''blocked'', PInt (count_items ?blocked items)),
       (''errors'', PInt (int (length items) - count_items ?staged items - count_items ?blocked items))]"
    by (simp_all add: r staging_report_def Let_def get_item_def)
  ultimately show ?thesis
    using as l a by (intro exI[of _ as] exI[of _ items] exI[of _ "count_items ?staged items"] exI[of _ "count_items ?blocked items"]
      exI[of _ "int (length items) - count_items ?staged items - count_items ?blocked items"]) (simp add: count_items_def)
qed


section \<open>Queueing\<close>

lemma get_item_put [simp]: "get_item (put_item k v d) k' = (if k' = k then v else get_item d k')"
proof -
  have "map_of (map (\<lambda>(a, b). (a, if a = k then v else b)) d) k' = (if k' = k \<and> k \<in> fst ` set d then Some v else map_of d k')"
  proof (induction d)
    case (Cons p d)
    then show ?case by (cases p; cases "k' = k"; simp)
  qed simp
  then show ?thesis
  proof (cases "k \<in> fst ` set d")
    case False
    then have "map_of d k = None" by (simp add: map_of_eq_None_iff)
    with False show ?thesis by (simp add: put_item_def get_item_def map_add_def split: option.split)
  qed (simp add: put_item_def get_item_def)
qed

lemma get_item_deferred [simp]:
  "get_item (merge_dicts d deferred_fields) ''queued'' = PBool False"
  "get_item (merge_dicts d deferred_fields) ''deferred'' = PBool True"
  "get_item (merge_dicts d deferred_fields) ''error'' = pstr ''queue_full''"
  by (simp_all add: merge_dicts_def deferred_fields_def)

definition full_answer :: "py_dict \<Rightarrow> bool" where
  "full_answer d \<longleftrightarrow> answer_error d = pstr ''queue_full''"

definition queued_item :: "queue_approval \<Rightarrow> py_dict \<Rightarrow> py_dict" where
  "queued_item a d = merge_dicts (queue_approval_dict a) d"

lemma saturated_loop:
  "queue_loop env qb True as s = (Inr (map (\<lambda>a. queued_item a deferred_fields) as), s)"
  by (induction as) (simp_all add: bindS_def queued_item_def)

lemma open_loop:
  assumes "gather (queue_answer env qb) as s = (Inr ds, s1)" and "\<not> list_ex full_answer ds"
    and "queue_loop env qb False bs s1 = (Inr items, s2)"
  shows "queue_loop env qb False (as @ bs) s = (Inr (map2 queued_item as ds @ items), s2)"
  using assms
proof (induction as arbitrary: s ds)
  case (Cons a as)
  from Cons.prems(1) obtain d ds' t where d: "queue_answer env qb a s = (Inr d, t)" "ds = d # ds'"
    and g: "gather (queue_answer env qb) as t = (Inr ds', s1)" unfolding gather_Inr_Cons by blast
  have "queue_loop env qb False (as @ bs) t = (Inr (map2 queued_item as ds' @ items), s2)"
    using Cons.IH[OF g _ Cons.prems(3)] Cons.prems(2) d(2) by simp
  then show ?case using d Cons.prems(2) by (simp add: bindS_def Let_def full_answer_def queued_item_def)
qed simp

text \<open>
  When the queue answers queue\_full, no later approval is offered to it:
  the state stays as that answer left it, the earlier answers are kept as they were, and the one
  that found the queue full and all later approvals are reported, in order, as deferred and not
  queued, so that they can be sent again.
\<close>

theorem queue_stops_when_full:
  assumes ok: "validate_queue_approvals env v = Inr (as @ a # bs)"
    and hash: "hash_of env (PList (map (\<lambda>a. PDict (queue_approval_dict a)) (as @ a # bs))) = Inr h"
    and before: "gather (queue_answer env qb) as s = (Inr ds, s1)" "\<not> list_ex full_answer ds"
    and full: "queue_answer env qb a s1 = (Inr d, s2)" "full_answer d"
  shows "queue_approved_batch env v qb s = (Inr (queue_report h (map2 queued_item as ds
        @ queued_item a (merge_dicts d deferred_fields) # map (\<lambda>b. queued_item b deferred_fields) bs)), s2)
    \<and> (\<forall>b \<in> set bs. get_item (queued_item b deferred_fields) ''queued'' = PBool False
        \<and> get_item (queued_item b deferred_fields) ''deferred'' = PBool True
        \<and> get_item (queued_item b deferred_fields) ''plan_id'' = PStr (qa_plan b))"
proof
  have "queue_loop env qb False (a # bs) s1
      = (Inr (queued_item a (merge_dicts d deferred_fields) # map (\<lambda>b. queued_item b deferred_fields) bs), s2)"
    using full by (simp add: bindS_def Let_def full_answer_def queued_item_def saturated_loop)
  from open_loop[OF before this] show "queue_approved_batch env v qb s = (Inr (queue_report h (map2 queued_item as ds
        @ queued_item a (merge_dicts d deferred_fields) # map (\<lambda>b. queued_item b deferred_fields) bs)), s2)"
    using ok hash by (simp add: queue_approved_batch_def bindS_def)
  have "get_item (queue_approval_dict b) ''plan_id'' = PStr (qa_plan b)" for b
    by (simp add: queue_approval_dict_def get_item_def)
  then show "\<forall>b \<in> set bs. get_item (queued_item b deferred_fields) ''queued'' = PBool False
        \<and> get_item (queued_item b deferred_fields) ''deferred'' = PBool True
        \<and> get_item (queued_item b deferred_fields) ''plan_id'' = PStr (qa_plan b)"
    by (auto simp add: queued_item_def) (simp_all add: merge_dicts_def deferred_fields_def)
qed

section \<open>Status\<close>

lemma bounded_text_length: "length (bounded_text env t) \<le> 256"
  by (simp add: bounded_text_def Let_def)

definition classified :: "py_dict \<Rightarrow> bool" where
  "classified i \<longleftrightarrow> is_job_state (get_item i ''job_state'') \<and> get_item i ''error'' = PNone \<or> get_item i ''job_state'' = PNone"

text \<open>An item of a status: what it says of its plan id, given the builder that was asked.\<close>

definition status_of :: "(pytext \<Rightarrow> ('s, py_value) py) \<Rightarrow> pytext \<Rightarrow> py_dict \<Rightarrow> bool" where
  "status_of sb pid i \<longleftrightarrow> get_item i ''plan_id'' = PStr pid
     \<and> (get_item i ''found'' = PBool True \<and> is_job_state (get_item i ''job_state'')
          \<and> (\<exists>d s1 s2. sb pid s1 = (Inr (PDict d), s2) \<and> live_state pid d
                \<and> get_item i ''job_state'' = get_item (dict_or_empty (get_item d ''plugin'')) ''jobState'')
        \<or> get_item i ''found'' = PBool False \<and> get_item i ''job_state'' = PNone
          \<and> (\<exists>t. get_item i ''error'' = PStr t \<and> length t \<le> 256))"

lemma live_state_job: "live_state pid d \<Longrightarrow> is_job_state (get_item (dict_or_empty (get_item d ''plugin'')) ''jobState'')"
  by (auto simp add: live_state_def dict_or_empty_def Let_def split: py_value.splits)

lemma not_live_item:
  "length t \<le> 256 \<Longrightarrow> classified (not_live env pid t) \<and> status_of sb pid (not_live env pid t)"
  by (simp add: classified_def status_of_def not_live_def get_item_def)

lemma exception_not_live: "\<not> live_state pid [(''found'', PBool False), (''error'', x)]"
  by (simp add: live_state_def get_item_def)

lemma status_item_result:
  assumes "status_item env sb pid s = (Inr i, s')"
  shows "classified i \<and> status_of sb pid i"
proof -
  from assms obtain response s1 where i: "i = normalize_live_status env pid response"
    and r: "sb pid s = (Inr response, s1) \<or> (\<exists>x. response = PDict [(''found'', PBool False), (''error'', x)])"
    by (auto simp add: status_item_def bindS_eq_Inr catchS_eq_Inr)
  show ?thesis
  proof (cases "\<exists>d. response = PDict d \<and> live_state pid d")
    case True
    then obtain d where d: "response = PDict d" "live_state pid d" by blast
    with r exception_not_live have run: "sb pid s = (Inr (PDict d), s1)" by blast
    have e: "i = [(''plan_id'', PStr pid), (''found'', PBool True), (''job_state'', get_item (dict_or_empty (get_item d ''plugin'')) ''jobState''),
        (''job_error'', get_item (dict_or_empty (get_item d ''plugin'')) ''jobError''), (''error'', PNone)]"
      using i d by (simp add: normalize_live_status_def Let_def)
    then have "get_item i ''job_state'' = get_item (dict_or_empty (get_item d ''plugin'')) ''jobState''"
      "get_item i ''plan_id'' = PStr pid" "get_item i ''found'' = PBool True" "get_item i ''error'' = PNone"
      by (simp_all add: get_item_def)
    with live_state_job[OF d(2)] run d(2) show ?thesis by (auto simp add: classified_def status_of_def)
  next
    case False
    have "length (codes ''invalid_status_response'') \<le> 256" by (simp add: codes_def)
    with False i show ?thesis
      by (auto simp add: normalize_live_status_def bounded_status_error_def intro!: not_live_item bounded_text_length split: py_value.split)
  qed
qed

lemma count_Cons [simp]: "count_items p (i # items) = (if p i then 1 else 0) + count_items p items" "count_items p [] = 0"
  by (simp_all add: count_items_def)

lemma summary_counts_all:
  assumes "list_all classified items"
  shows "sum_list (map snd (status_summary items)) = int (length items)"
  using assms
proof (induction items)
  case (Cons i items)
  have none: "PNone \<noteq> pstr s" for s by (simp add: pstr_def)
  from Cons.prems consider (live) s where "get_item i ''job_state'' = pstr s" "get_item i ''error'' = PNone"
      "s \<in> {''Cancelled'', ''Failed'', ''Pending'', ''Running'', ''Succeeded''}"
    | (dead) "get_item i ''job_state'' = PNone"
    by (auto simp add: classified_def is_job_state_def publish_job_states_def)
  then have "sum_list (map snd (status_summary (i # items))) = 1 + sum_list (map snd (status_summary items))"
  proof cases
    case live
    from live(3) show ?thesis
      by (elim insertE emptyE) (simp_all add: live(1,2) none none[symmetric] status_summary_def publish_job_states_def not_found_item_def has_text_def)
  next
    case dead
    then show ?thesis using none by (simp add: status_summary_def publish_job_states_def has_text_def)
  qed
  with Cons show ?case by simp
qed (simp add: status_summary_def publish_job_states_def)

lemma telemetry_natural: "telemetry_of d = Some q \<Longrightarrow> 0 \<le> qt_pending q \<and> 0 \<le> qt_available q \<and> 0 \<le> qt_running q"
  by (auto simp add: telemetry_of_def telemetry_values_def split: option.splits elim!: natural.elims split: if_splits)

text \<open>
  A status answers for every plan id in order; a job state is reported
  only as the plug-in gave it for that very plan id, and any other answer is an error text of at
  most 256 characters; the counts of the summary add up to the plan ids, so every job is counted
  once; and a queue sample is shown only when it is authenticated and its numbers fit together.
\<close>

theorem batch_status_is_consistent:
  assumes run: "build_publish_batch_status env v sb psb s = (Inr report, s')"
  shows "\<exists>ids items. validate_status_plan_ids v = Inr ids \<and> get_item report ''items'' = PList (map PDict items)
    \<and> list_all2 (status_of sb) ids items
    \<and> get_item report ''summary'' = PDict (map (\<lambda>(k, n). (k, PInt n)) (status_summary items))
    \<and> sum_list (map snd (status_summary items)) = int (length ids)
    \<and> (get_item report ''queue'' = PNone \<or> (\<exists>q. get_item report ''queue'' = PDict (telemetry_dict q) \<and> consistent_telemetry q
        \<and> 0 \<le> qt_pending q \<and> 0 \<le> qt_available q \<and> 0 \<le> qt_running q))"
proof -
  from run obtain ids items s1 sample s2 h where ids: "validate_status_plan_ids v = Inr ids"
    and g: "gather (status_item env sb) ids s = (Inr items, s1)" and q: "queue_sample env psb s1 = (Inr sample, s2)"
    and r: "report = (''status_batch_id'', PStr h) # status_payload items sample"
    by (auto simp add: build_publish_batch_status_def bindS_eq_Inr Let_def)
  have a: "list_all2 (\<lambda>pid i. classified i \<and> status_of sb pid i) ids items" by (rule gather_all2[OF g status_item_result])
  then have so: "list_all2 (status_of sb) ids items" by (rule list_all2_mono) blast
  from a have c: "list_all classified items" by (auto simp add: list_all2_conv_all_nth list_all_length)
  have "consistent_telemetry x \<and> 0 \<le> qt_pending x \<and> 0 \<le> qt_available x \<and> 0 \<le> qt_running x" if "sample = Inr x" for x
    using q that telemetry_natural
    by (auto simp add: queue_sample_def catchS_eq_Inr bindS_eq_Inr normalize_queue_telemetry_def
        split: sum.splits py_value.splits option.splits if_splits)
  moreover have "get_item report ''items'' = PList (map PDict items)"
    "get_item report ''summary'' = PDict (map (\<lambda>(k, n). (k, PInt n)) (status_summary items))"
    "get_item report ''queue'' = (case sample of Inl _ \<Rightarrow> PNone | Inr q \<Rightarrow> PDict (telemetry_dict q))"
    by (simp_all add: r status_payload_def get_item_def)
  moreover have "sum_list (map snd (status_summary items)) = int (length ids)"
    using summary_counts_all[OF c] list_all2_lengthD[OF so] by simp
  ultimately show ?thesis using ids so by (cases sample) auto
qed

section \<open>Examples\<close>

definition sample_env :: batch_env where
  "sample_env = \<lparr>be_dumps = (\<lambda>_. Inr [1]), be_sha256 = (\<lambda>_. replicate 32 7), be_casefold = map ascii_lower,
     be_str = (\<lambda>v. case v of PStr t \<Rightarrow> t | _ \<Rightarrow> []), be_message = (\<lambda>_. codes ''error''), be_type_name = (\<lambda>_. codes ''Error''),
     be_printable = (\<lambda>c. 32 \<le> c), be_resolve = Inr\<rparr>"

definition zero_hash :: pytext where
  "zero_hash = codes ''sha256:'' @ replicate 64 48"

lemma zero_hash_text: "hash_text zero_hash"
  by (simp add: hash_text_def digest_text_def zero_hash_def codes_def lower_hex_code_def list_all_iff)

lemma sample_hash_of: "hash_of sample_env v = Inr (codes (''sha256:'' @ hexdigest (replicate 32 7)))"
  by (simp add: hash_of_def sample_env_def)


theorem inventory_id_ignores_order_witness:
  "build_drawing_inventory_id sample_env [[(''path'', PStr [98])], [(''path'', PStr [65])]]
    = build_drawing_inventory_id sample_env [[(''path'', PStr [65])], [(''path'', PStr [98])]]"
proof -
  have "build_drawing_inventory_id sample_env [[(''path'', PStr [65])], [(''path'', PStr [98])]]
      = Inr (codes (''sha256:'' @ hexdigest (replicate 32 7)))"
    by (simp add: build_drawing_inventory_id_def inventory_entry_def sample_hash_of)
  from inventory_id_ignores_order[OF this, of "[[(''path'', PStr [98])], [(''path'', PStr [65])]]"] this show ?thesis
    by (simp add: sample_env_def get_item_def ascii_lower_def add_mset_commute)
qed

definition sample_approvals :: py_value where
  "sample_approvals = PList [PDict [(''path'', PStr [97]), (''plan_id'', PStr zero_hash)]]"

lemma sample_validated: "validate_approvals sample_env sample_approvals = Inr [\<lparr>pa_path = [97], pa_plan = zero_hash\<rparr>]"
  by (simp add: validate_approvals_def approval_list_def sample_approvals_def plan_approval_of_def get_item_def zero_hash_text
      path_keys_def sample_env_def py_strip_def py_space_def)

definition ready_plan :: py_dict where
  "ready_plan = [(''ready'', PBool True), (''plan_id'', PStr zero_hash)]"

lemma sample_staged:
  "\<exists>report. stage_approved_batch sample_env sample_approvals (\<lambda>_. ret ready_plan) (\<lambda>_ i. \<lambda>s. (Inr [], i # s)) []
    = (Inr report, [zero_hash]) \<and> get_item report ''complete'' = PBool True"
  by (simp add: stage_approved_batch_def sample_validated sample_hash_of bindS_def stage_item_def catchS_def ready_plan_def
      get_item_def staging_report_def Let_def staged_head_def count_items_def has_text_def)

theorem staging_is_as_approved_witness:
  "\<exists>report items. stage_approved_batch sample_env sample_approvals (\<lambda>_. ret ready_plan) (\<lambda>_ i. \<lambda>s. (Inr [], i # s)) []
      = (Inr report, [zero_hash]) \<and> get_item report ''items'' = PList (map PDict items) \<and> list_all (\<lambda>i. has_text i ''status'' ''staged'') items"
  using sample_staged staging_is_as_approved by (metis (no_types, lifting))


definition sample_queue :: py_value where
  "sample_queue = PList [PDict [(''manifest_path'', PStr [97]), (''plan_id'', PStr zero_hash), (''manifest_sha256'', PStr (replicate 64 48))],
     PDict [(''manifest_path'', PStr [98]), (''plan_id'', PStr (codes ''sha256:'' @ replicate 64 49)), (''manifest_sha256'', PStr (replicate 64 49))]]"

lemma sample_queue_validated:
  "validate_queue_approvals sample_env sample_queue = Inr ([] @ \<lparr>qa_manifest = [97], qa_plan = zero_hash, qa_sha256 = replicate 64 48\<rparr>
     # [\<lparr>qa_manifest = [98], qa_plan = codes ''sha256:'' @ replicate 64 49, qa_sha256 = replicate 64 49\<rparr>])"
proof -
  have h: "hash_text (codes ''sha256:'' @ replicate 64 49)" "digest_text (replicate 64 48)" "digest_text (replicate 64 49)"
    "zero_hash \<noteq> codes ''sha256:'' @ replicate 64 49"
    by (simp_all add: hash_text_def digest_text_def codes_def lower_hex_code_def zero_hash_def list_all_iff)
  moreover have "replicate 64 (48 :: nat) \<noteq> replicate 64 49" by simp
  ultimately show ?thesis
    by (simp add: validate_queue_approvals_def approval_list_def sample_queue_def queue_approval_of_def get_item_def zero_hash_text
        path_keys_def sample_env_def py_strip_def py_space_def ascii_lower_def insert_commute)
qed

theorem queue_stops_when_full_witness:
  "snd (queue_approved_batch sample_env sample_queue (\<lambda>a s. (Inr (PDict [(''error'', pstr ''queue_full'')]), qa_plan a # s)) []) = [zero_hash]"
proof -
  let ?qb = "\<lambda>a s. (Inr (PDict [(''error'', pstr ''queue_full'')]), qa_plan a # s)"
  let ?a = "\<lparr>qa_manifest = [97], qa_plan = zero_hash, qa_sha256 = replicate 64 48\<rparr>"
  have "queue_answer sample_env ?qb ?a [] = (Inr [(''error'', pstr ''queue_full'')], [zero_hash])"
    by (simp add: queue_answer_def bindS_def catchS_def)
  moreover have "full_answer [(''error'', pstr ''queue_full'')]" by (simp add: full_answer_def answer_error_def get_item_def pstr_def)
  moreover have "gather (queue_answer sample_env ?qb) [] [] = (Inr [], [])" by simp
  ultimately show ?thesis
    using queue_stops_when_full[OF sample_queue_validated sample_hash_of, of ?qb "[]" "[]" "[]"] by simp
qed

definition running_answer :: py_dict where
  "running_answer = [(''found'', PBool True), (''plugin'', PDict [(''ok'', PBool True), (''plan_id'', PStr zero_hash), (''jobState'', pstr ''Running'')])]"

theorem batch_status_is_consistent_witness:
  "\<exists>report. build_publish_batch_status sample_env (PList [PStr zero_hash]) (\<lambda>_. ret (PDict running_answer)) (raise (RuntimeError ''none'')) (0 :: nat)
      = (Inr report, 0) \<and> (\<exists>items. get_item report ''items'' = PList (map PDict items) \<and> sum_list (map snd (status_summary items)) = 1)"
proof -
  have v: "validate_status_plan_ids (PList [PStr zero_hash]) = Inr [zero_hash]"
    by (simp add: validate_status_plan_ids_def zero_hash_text)
  have "\<not> unhashable_state zero_hash (PDict running_answer)"
    by (simp add: unhashable_state_def running_answer_def get_item_def pstr_def)
  then have "\<exists>report. build_publish_batch_status sample_env (PList [PStr zero_hash]) (\<lambda>_. ret (PDict running_answer)) (raise (RuntimeError ''none''))
      (0 :: nat) = (Inr report, 0)"
    by (simp add: build_publish_batch_status_def v bindS_def status_item_def catchS_def queue_sample_def sample_hash_of Let_def)
  then obtain report where r: "build_publish_batch_status sample_env (PList [PStr zero_hash]) (\<lambda>_. ret (PDict running_answer))
      (raise (RuntimeError ''none'')) (0 :: nat) = (Inr report, 0)" by blast
  from batch_status_is_consistent[OF r] v show ?thesis using r by auto
qed

end
