(* ===== verification/Control_Database.thy ===== *)
theory Control_Database
  imports Worker_Ingress
begin

text \<open>
  The tables of the gateway's worker control and the stored functions over them
  (services/gateway/migrations/0002\_worker\_control.sql, 0003\_worker\_request\_credentials.sql,
  0004\_worker\_presence.sql). A table is a list of rows; a function is one step, as its locks make
  it, and takes the readings of clock\_timestamp() it makes as arguments. Row level security shows
  a transaction the rows of the tenant in its setting cadplot.tenant\_id only; every statement names
  that tenant in its own condition too.
\<close>

section \<open>Tables\<close>

text \<open>
  The jsonb documents of a dispatch are the objects they hold; created\_at and recorded\_at, which
  nothing reads, are left out.
\<close>

record dispatch_row =
  dr_tenant :: string
  dr_ws :: string
  dr_task :: string
  dr_operation :: string
  dr_user :: string
  dr_command :: string
  dr_idem :: string
  dr_nonce :: string
  dr_policy :: int
  dr_sha256 :: string
  dr_issued :: instant
  dr_expires :: instant
  dr_operation_expires :: instant
  dr_envelope :: "instant task_envelope"
  dr_correlation :: dispatch_correlation

text \<open>worker\_result\_replays: application\_id and its lease are both null or both set.\<close>

record replay_row =
  pr_key :: replay_key
  pr_value :: replay_value
  pr_application :: "(string \<times> instant) option"
  pr_applied :: "instant option"

record key_row =
  kr_tenant :: string
  kr_ws :: string
  kr_key :: string
  kr_algorithm :: string
  kr_public :: "nat list"
  kr_enabled :: bool
  kr_not_before :: instant
  kr_expires :: "instant option"
  kr_revoked :: "instant option"

text \<open>The columns of workstations that worker control reads or writes.\<close>

record station_row =
  sr_tenant :: string
  sr_ws :: string
  sr_enabled :: bool
  sr_online :: bool
  sr_last_seen :: "instant option"
  sr_presence :: "instant option"

record request_nonce_row =
  nr_tenant :: string
  nr_ws :: string
  nr_key :: string
  nr_nonce :: string
  nr_route :: string
  nr_body :: string
  nr_issued :: instant
  nr_consumed :: instant

text \<open>
  Of operations only what the foreign key of a dispatch refers to: tenant, operation, workstation,
  owner and idempotency key.
\<close>

type_synonym operation_identity = "string \<times> string \<times> string \<times> string \<times> string"

record control_db =
  cd_operations :: "operation_identity list"
  cd_dispatches :: "dispatch_row list"
  cd_replays :: "replay_row list"
  cd_keys :: "key_row list"
  cd_stations :: "station_row list"
  cd_nonces :: "request_nonce_row list"

section \<open>Dispatches\<close>

definition dispatch_row_of :: "string \<Rightarrow> signed_dispatch \<Rightarrow> dispatch_row" where
  "dispatch_row_of tenant d = (let c = sd_correlation d in
     \<lparr>dr_tenant = tenant, dr_ws = dc_device c, dr_task = dc_task c, dr_operation = dc_operation c, dr_user = dc_user c,
      dr_command = dc_command_id c, dr_idem = dc_idem c, dr_nonce = dc_nonce c, dr_policy = dc_policy c,
      dr_sha256 = dc_sha256 c, dr_issued = dc_issued c, dr_expires = dc_dispatch_expires c,
      dr_operation_expires = dc_operation_expires c, dr_envelope = sd_envelope d, dr_correlation = c\<rparr>)"

text \<open>worker\_dispatch\_deadline\_order, the policy check and worker\_dispatch\_json\_identity.\<close>

definition envelope_identity :: "dispatch_row \<Rightarrow> bool" where
  "envelope_identity r \<longleftrightarrow> (let e = dr_envelope r in
     te_tenant e = dr_tenant r \<and> te_user e = dr_user r \<and> te_device e = dr_ws r \<and> te_task e = dr_task r
     \<and> te_operation e = dr_operation r \<and> te_command_id e = dr_command r \<and> te_idem e = dr_idem r \<and> te_nonce e = dr_nonce r
     \<and> te_policy e = dr_policy r \<and> te_issued e = dr_issued r \<and> te_expires e = dr_expires r)"

definition correlation_identity :: "dispatch_row \<Rightarrow> bool" where
  "correlation_identity r \<longleftrightarrow> (let c = dr_correlation r in
     dc_tenant c = dr_tenant r \<and> dc_user c = dr_user r \<and> dc_device c = dr_ws r \<and> dc_task c = dr_task r
     \<and> dc_operation c = dr_operation r \<and> dc_command_id c = dr_command r \<and> dc_idem c = dr_idem r \<and> dc_nonce c = dr_nonce r
     \<and> dc_policy c = dr_policy r \<and> dc_sha256 c = dr_sha256 r \<and> dc_issued c = dr_issued r
     \<and> dc_dispatch_expires c = dr_expires r \<and> dc_operation_expires c = dr_operation_expires r)"

definition dispatch_checks :: "dispatch_row \<Rightarrow> bool" where
  "dispatch_checks r \<longleftrightarrow> 0 < dr_policy r \<and> dr_issued r < dr_expires r \<and> dr_expires r \<le> dr_operation_expires r
     \<and> envelope_identity r \<and> correlation_identity r \<and> te_command (dr_envelope r) = dc_command (dr_correlation r)"

definition dispatch_key :: "dispatch_row \<Rightarrow> string \<times> string \<times> string \<times> string" where
  "dispatch_key r = (dr_tenant r, dr_ws r, dr_task r, dr_operation r)"

definition replay_identity :: "dispatch_row \<Rightarrow> string \<times> string \<times> string \<times> string \<times> string" where
  "replay_identity r = (dr_tenant r, dr_ws r, dr_task r, dr_command r, dr_nonce r)"

definition find_row :: "string \<times> string \<times> string \<times> string \<Rightarrow> control_db \<Rightarrow> dispatch_row option" where
  "find_row key db = find (\<lambda>r. dispatch_key r = key) (cd_dispatches db)"

definition find_replay_dispatch :: "string \<times> string \<times> string \<times> string \<times> string \<Rightarrow> control_db \<Rightarrow> dispatch_row option" where
  "find_replay_dispatch identity db = find (\<lambda>r. replay_identity r = identity) (cd_dispatches db)"

text \<open>
  INSERT ... ON CONFLICT DO NOTHING RETURNING: the checks come first, a conflict with either unique
  key inserts nothing, and the foreign key is checked for a row that was inserted.
\<close>

definition insert_dispatch :: "dispatch_row \<Rightarrow> (control_db, dispatch_row option) py" where
  "insert_dispatch r = (\<lambda>db.
     if \<not> dispatch_checks r then (Inl (RuntimeError ''check_violation''), db)
     else if find_row (dispatch_key r) db \<noteq> None \<or> find_replay_dispatch (replay_identity r) db \<noteq> None then (Inr None, db)
     else if (dr_tenant r, dr_operation r, dr_ws r, dr_user r, dr_idem r) \<notin> set (cd_operations db)
     then (Inl (RuntimeError ''foreign_key_violation''), db)
     else (Inr (Some r), db\<lparr>cd_dispatches := cd_dispatches db @ [r]\<rparr>))"

section \<open>Result replays\<close>

text \<open>A function runs for the tenant of its transaction only.\<close>

definition in_scope :: "string \<Rightarrow> string \<Rightarrow> bool" where
  "in_scope setting tenant \<longleftrightarrow> setting \<noteq> [] \<and> tenant = setting"

definition find_replay :: "replay_key \<Rightarrow> control_db \<Rightarrow> replay_row option" where
  "find_replay key db = find (\<lambda>r. pr_key r = key) (cd_replays db)"

definition answer_of_row :: "replay_row option \<Rightarrow> replay_value \<Rightarrow> replay_classification" where
  "answer_of_row found v = (case found of None \<Rightarrow> ReplayUnseen
     | Some r \<Rightarrow> if pr_value r = v then ReplayExactMatch else ReplayConflict)"

definition sql_classify :: "string \<Rightarrow> replay_key \<Rightarrow> replay_value \<Rightarrow> control_db \<Rightarrow> replay_classification" where
  "sql_classify setting key v db =
     (if \<not> in_scope setting (fst key) then ReplayConflict else answer_of_row (find_replay key db) v)"

text \<open>
  The claim reads the clock after it has waited for its lock, and twice more in the condition of
  its INSERT. No other row of the key can come in between, so the INSERT has no conflict.
\<close>

definition new_replay :: "replay_key \<Rightarrow> replay_value \<Rightarrow> replay_row" where
  "new_replay key v = \<lparr>pr_key = key, pr_value = v, pr_application = None, pr_applied = None\<rparr>"

definition sql_claim ::
  "string \<Rightarrow> replay_key \<Rightarrow> replay_value \<Rightarrow> instant \<Rightarrow> instant \<Rightarrow> instant \<Rightarrow> instant \<Rightarrow> control_db
    \<Rightarrow> replay_classification \<times> control_db" where
  "sql_claim setting key v limit now now2 now3 db =
     (case (key, v) of ((tenant, ws, nonce), (task, command, sha, completed)) \<Rightarrow>
       (if limit < completed \<or> limit > completed + seconds 300 \<or> \<not> in_scope setting tenant then (ReplayConflict, db)
        else (case find_replay_dispatch (tenant, ws, task, command, nonce) db of
          None \<Rightarrow> (ReplayConflict, db)
        | Some d \<Rightarrow>
            (if completed < dr_issued d - seconds 30 \<or> completed > dr_operation_expires d \<or> limit > dr_operation_expires d
             then (ReplayConflict, db)
             else (case find_replay key db of
               Some r \<Rightarrow> (answer_of_row (Some r) v, db)
             | None \<Rightarrow>
                 (if now \<ge> limit \<or> now \<ge> dr_operation_expires d \<or> completed > now + seconds 30 then (ReplayUnseen, db)
                  else if now2 < limit \<and> now3 < dr_operation_expires d
                  then (ReplayFirstSeen, db\<lparr>cd_replays := cd_replays db @ [new_replay key v]\<rparr>)
                  else (answer_of_row (find_replay key db) v, db)))))))"

definition sql_application_applied :: "string \<Rightarrow> replay_key \<Rightarrow> replay_value \<Rightarrow> control_db \<Rightarrow> bool" where
  "sql_application_applied setting key v db \<longleftrightarrow> in_scope setting (fst key) \<and>
     (case find_replay key db of None \<Rightarrow> False | Some r \<Rightarrow> pr_value r = v \<and> pr_applied r \<noteq> None)"

definition update_replay :: "replay_key \<Rightarrow> (replay_row \<Rightarrow> replay_row) \<Rightarrow> control_db \<Rightarrow> control_db" where
  "update_replay key f db = db\<lparr>cd_replays := map (\<lambda>r. if pr_key r = key then f r else r) (cd_replays db)\<rparr>"

text \<open>Is the result leased to another application at this time?\<close>

definition held_by_other :: "replay_row \<Rightarrow> string \<Rightarrow> instant \<Rightarrow> bool" where
  "held_by_other r application now = (case pr_application r of
     None \<Rightarrow> False | Some (holder, until) \<Rightarrow> until > now \<and> holder \<noteq> application)"

definition sql_acquire ::
  "string \<Rightarrow> replay_key \<Rightarrow> replay_value \<Rightarrow> string \<Rightarrow> int \<Rightarrow> instant \<Rightarrow> control_db \<Rightarrow> application_status \<times> control_db" where
  "sql_acquire setting key v application lease_seconds now db =
     (if lease_seconds < 1 \<or> lease_seconds > 60 \<or> \<not> in_scope setting (fst key) then (ApplicationConflict, db)
      else (case find_replay key db of
        None \<Rightarrow> (ApplicationConflict, db)
      | Some r \<Rightarrow>
          (if pr_value r \<noteq> v then (ApplicationConflict, db)
           else if pr_applied r \<noteq> None then (ApplicationApplied, db)
           else if held_by_other r application now then (ApplicationBusy, db)
           else (ApplicationAcquired,
                 update_replay key (\<lambda>r. r\<lparr>pr_application := Some (application, now + seconds lease_seconds)\<rparr>) db))))"

definition held_by :: "replay_row \<Rightarrow> string \<Rightarrow> instant \<Rightarrow> bool" where
  "held_by r application now = (case pr_application r of
     None \<Rightarrow> False | Some (holder, until) \<Rightarrow> holder = application \<and> until > now)"

definition sql_mark_applied ::
  "string \<Rightarrow> replay_key \<Rightarrow> replay_value \<Rightarrow> string \<Rightarrow> instant \<Rightarrow> instant \<Rightarrow> control_db \<Rightarrow> bool \<times> control_db" where
  "sql_mark_applied setting key v application now now2 db =
     (if \<not> in_scope setting (fst key) then (False, db)
      else (case find_replay key db of
        None \<Rightarrow> (False, db)
      | Some r \<Rightarrow>
          (if pr_value r = v \<and> (pr_applied r \<noteq> None \<or> held_by r application now)
           then (True, update_replay key (\<lambda>r. r\<lparr>pr_applied := Some (case pr_applied r of Some t \<Rightarrow> t | None \<Rightarrow> now2)\<rparr>) db)
           else (False, db))))"

section \<open>Keys, request nonces and presence\<close>

definition find_key :: "string \<Rightarrow> string \<Rightarrow> string \<Rightarrow> control_db \<Rightarrow> key_row option" where
  "find_key tenant ws key db = find (\<lambda>k. kr_tenant k = tenant \<and> kr_ws k = ws \<and> kr_key k = key) (cd_keys db)"

definition find_station :: "string \<Rightarrow> string \<Rightarrow> control_db \<Rightarrow> station_row option" where
  "find_station tenant ws db = find (\<lambda>w. sr_tenant w = tenant \<and> sr_ws w = ws) (cd_stations db)"

text \<open>The join of worker\_verification\_keys and workstations.\<close>

definition find_credential :: "string \<Rightarrow> string \<Rightarrow> string \<Rightarrow> control_db \<Rightarrow> (key_row \<times> station_row) option" where
  "find_credential tenant ws key db = (case (find_key tenant ws key db, find_station tenant ws db) of
     (Some k, Some w) \<Rightarrow> Some (k, w) | _ \<Rightarrow> None)"

definition key_in_time :: "key_row \<Rightarrow> instant \<Rightarrow> bool" where
  "key_in_time k at \<longleftrightarrow> kr_not_before k \<le> at \<and> (case kr_expires k of None \<Rightarrow> True | Some e \<Rightarrow> at < e)"

definition credential_live :: "key_row \<Rightarrow> station_row \<Rightarrow> instant \<Rightarrow> bool" where
  "credential_live k w at \<longleftrightarrow> sr_enabled w \<and> kr_enabled k \<and> kr_algorithm k = ''ed25519'' \<and> kr_revoked k = None \<and> key_in_time k at"

definition has_nonce :: "string \<Rightarrow> string \<Rightarrow> string \<Rightarrow> string \<Rightarrow> control_db \<Rightarrow> bool" where
  "has_nonce tenant ws key nonce db \<longleftrightarrow>
     list_ex (\<lambda>n. nr_tenant n = tenant \<and> nr_ws n = ws \<and> nr_key n = key \<and> nr_nonce n = nonce) (cd_nonces db)"

definition sql_consume_nonce ::
  "string \<Rightarrow> string \<Rightarrow> string \<Rightarrow> string \<Rightarrow> string \<Rightarrow> string \<Rightarrow> string \<Rightarrow> instant \<Rightarrow> instant \<Rightarrow> control_db \<Rightarrow> bool \<times> control_db" where
  "sql_consume_nonce setting tenant ws key nonce route body issued now db =
     (if \<not> in_scope setting tenant then (False, db)
      else (case find_credential tenant ws key db of
        None \<Rightarrow> (False, db)
      | Some (k, w) \<Rightarrow>
          (if \<not> credential_live k w now \<or> length (kr_public k) \<noteq> 32 \<or> \<not> key_in_time k issued
              \<or> issued < now - seconds 60 \<or> issued > now + seconds 30
           then (False, db)
           else if has_nonce tenant ws key nonce db then (False, db)
           else (True, db\<lparr>cd_nonces := cd_nonces db @ [\<lparr>nr_tenant = tenant, nr_ws = ws, nr_key = key, nr_nonce = nonce,
                  nr_route = route, nr_body = body, nr_issued = issued, nr_consumed = now\<rparr>]\<rparr>))))"

definition see_station :: "instant \<Rightarrow> int \<Rightarrow> station_row \<Rightarrow> station_row" where
  "see_station now presence_seconds w =
     w\<lparr>sr_online := True, sr_last_seen := Some now, sr_presence := Some (now + seconds presence_seconds)\<rparr>"

definition sql_record_presence ::
  "string \<Rightarrow> string \<Rightarrow> string \<Rightarrow> string \<Rightarrow> int \<Rightarrow> instant \<Rightarrow> control_db \<Rightarrow> bool \<times> control_db" where
  "sql_record_presence setting tenant ws key presence_seconds now db =
     (if presence_seconds < 30 \<or> presence_seconds > 300 \<or> \<not> in_scope setting tenant then (False, db)
      else (case find_credential tenant ws key db of
        None \<Rightarrow> (False, db)
      | Some (k, w) \<Rightarrow>
          (if \<not> credential_live k w now \<or> length (kr_public k) \<noteq> 32 then (False, db)
           else (True, db\<lparr>cd_stations := map (\<lambda>w. if sr_tenant w = tenant \<and> sr_ws w = ws \<and> sr_enabled w
                  then see_station now presence_seconds w else w) (cd_stations db)\<rparr>))))"

text \<open>
  Whether the catalog takes a workstation for online (lock\_catalog\_rows): it is marked online and
  its presence lasts.
\<close>

definition seen_online :: "station_row \<Rightarrow> instant \<Rightarrow> bool" where
  "seen_online w now \<longleftrightarrow> sr_enabled w \<and> sr_online w \<and> sr_last_seen w \<noteq> None
     \<and> (case sr_presence w of None \<Rightarrow> False | Some until \<Rightarrow> until > now)"

end
