(* ===== verification/Control_Store.thy ===== *)
theory Control_Store
  imports Control_Database Worker_Routes "HOL-Library.List_Lexorder"
begin

text \<open>
  PostgresWorkerControlRepository (services/gateway/cadplot\_gateway/worker\_repository.py), the
  durable store of one tenant's dispatches, result replays, verification keys, request nonces and
  presence, over the tables and functions of Control\_Database.
\<close>

section \<open>Transactions\<close>

text \<open>
  A transaction that the database or its connection fails is rolled back, unless the connection is
  lost after the commit and before its answer. In both cases the caller sees repository\_failure.
  An exception of the body rolls back too; only the store's own errors keep their code.
\<close>

datatype db_fate = Commits | RollsBack | AnswerLost

definition repository_failure :: exn where
  "repository_failure = ControlRepositoryError ''repository_failure''"

fun bounded_error :: "exn \<Rightarrow> exn" where
  "bounded_error (ControlRepositoryError code) = ControlRepositoryError code"
| "bounded_error e = repository_failure"

definition with_cursor :: "db_fate \<Rightarrow> (control_db, 'a) py \<Rightarrow> (control_db, 'a) py" where
  "with_cursor fate body = (\<lambda>db.
     case fate of
       RollsBack \<Rightarrow> (Inl repository_failure, db)
     | Commits \<Rightarrow> (case body db of (Inl e, db') \<Rightarrow> (Inl (bounded_error e), db) | (Inr x, db') \<Rightarrow> (Inr x, db'))
     | AnswerLost \<Rightarrow> (case body db of (Inl e, db') \<Rightarrow> (Inl (bounded_error e), db) | (Inr x, db') \<Rightarrow> (Inl repository_failure, db')))"

text \<open>A function of the database, called for its value and its effect.\<close>

definition call_sql :: "(control_db \<Rightarrow> 'a \<times> control_db) \<Rightarrow> (control_db, 'a) py" where
  "call_sql f = (\<lambda>db. case f db of (x, db') \<Rightarrow> (Inr x, db'))"

definition read_sql :: "(control_db \<Rightarrow> 'a) \<Rightarrow> (control_db, 'a) py" where
  "read_sql f = (\<lambda>db. (Inr (f db), db))"

section \<open>Checked arguments\<close>

definition control_error :: "string \<Rightarrow> bool \<Rightarrow> unit res" where
  "control_error code ok = ensure ok (ControlRepositoryError code)"

definition control_repository_init :: "string \<Rightarrow> unit res" where
  "control_repository_init tenant = control_error ''invalid_tenant_scope'' (tenant_id_ok tenant)"

definition require_tenant :: "string \<Rightarrow> string \<Rightarrow> unit res" where
  "require_tenant own tenant =
     bindR (control_error ''invalid_identifier'' (tenant_id_ok tenant)) (\<lambda>_.
     control_error ''tenant_scope_mismatch'' (tenant = own))"

definition checked_identifier :: "(string \<Rightarrow> bool) \<Rightarrow> string \<Rightarrow> unit res" where
  "checked_identifier pattern s = control_error ''invalid_identifier'' (pattern s)"

definition replay_parameters :: "string \<Rightarrow> replay_key \<Rightarrow> replay_value \<Rightarrow> unit res" where
  "replay_parameters own key v = (case (key, v) of ((tenant, device, nonce), (task, command, sha, completed)) \<Rightarrow>
     bindR (require_tenant own tenant) (\<lambda>_.
     bindR (checked_identifier workstation_id_ok device) (\<lambda>_.
     bindR (checked_identifier nonce_pattern nonce) (\<lambda>_.
     bindR (checked_identifier remote_task_id task) (\<lambda>_.
     bindR (checked_identifier remote_command_id command) (\<lambda>_.
     checked_identifier sha256_hex sha))))))"

section \<open>Dispatches\<close>

record control_format =
  cf_sha256 :: "nat list \<Rightarrow> nat list"
  cf_stamp :: "instant \<Rightarrow> string"
  cf_storable :: "signed_dispatch \<Rightarrow> bool"

text \<open>
  cf\_storable says whether jsonb takes the two documents (it has no U+0000). Validation builds both
  parts anew; the comparison leaves out the correlation's last deadline, which the envelope has not.
\<close>

definition dispatch_matches :: "string \<Rightarrow> signed_dispatch \<Rightarrow> bool" where
  "dispatch_matches own d \<longleftrightarrow> (let e = sd_envelope d; c = sd_correlation d in
     te_tenant e = dc_tenant c \<and> dc_tenant c = own \<and> te_user e = dc_user c \<and> te_device e = dc_device c
     \<and> te_task e = dc_task c \<and> te_operation e = dc_operation c \<and> te_command_id e = dc_command_id c
     \<and> te_idem e = dc_idem c \<and> te_nonce e = dc_nonce c \<and> te_policy e = dc_policy c \<and> te_command e = dc_command c
     \<and> te_issued e = dc_issued c \<and> te_expires e = dc_dispatch_expires c)"

definition validated_dispatch :: "control_format \<Rightarrow> string \<Rightarrow> signed_dispatch \<Rightarrow> signed_dispatch res" where
  "validated_dispatch cf own d =
     bindR (control_error ''invalid_dispatch'' (valid_task_envelope (sd_envelope d) \<and> valid_correlation (sd_correlation d))) (\<lambda>_.
     bindR (task_signing_bytes (cf_stamp cf) (sd_envelope d)) (\<lambda>body.
     bindR (control_error ''invalid_dispatch'' (dispatch_matches own d
              \<and> dc_sha256 (sd_correlation d) = hexdigest (cf_sha256 cf body))) (\<lambda>_.
     Inr d)))"

definition dispatch_from_row :: "control_format \<Rightarrow> string \<Rightarrow> dispatch_row \<Rightarrow> signed_dispatch res" where
  "dispatch_from_row cf own r =
     bindR (validated_dispatch cf own \<lparr>sd_envelope = dr_envelope r, sd_correlation = dr_correlation r\<rparr>) (\<lambda>d.
     bindR (control_error ''invalid_dispatch'' (correlation_identity r)) (\<lambda>_.
     Inr d))"

definition store_dispatch :: "control_format \<Rightarrow> string \<Rightarrow> db_fate \<Rightarrow> signed_dispatch \<Rightarrow> (control_db, signed_dispatch) py" where
  "store_dispatch cf own fate dispatch =
     bindS (liftR (validated_dispatch cf own dispatch)) (\<lambda>validated.
     let c = sd_correlation validated in
     with_cursor fate
       (bindS (guardS (cf_storable cf validated) (RuntimeError ''untranslatable_character'')) (\<lambda>_.
        bindS (insert_dispatch (dispatch_row_of own validated)) (\<lambda>inserted.
        bindS (case inserted of
             Some row \<Rightarrow> ret row
           | None \<Rightarrow>
               bindS (read_sql (find_row (own, dc_device c, dc_task c, dc_operation c))) (\<lambda>found.
               case found of None \<Rightarrow> raise (ControlRepositoryError ''dispatch_conflict'') | Some row \<Rightarrow> ret row)) (\<lambda>row.
        bindS (liftR (dispatch_from_row cf own row)) (\<lambda>stored.
        bindS (guardS (stored = validated) (ControlRepositoryError ''dispatch_conflict'')) (\<lambda>_.
        ret stored)))))))"

definition get_dispatch ::
  "control_format \<Rightarrow> string \<Rightarrow> db_fate \<Rightarrow> string \<Rightarrow> string \<Rightarrow> string \<Rightarrow> (control_db, signed_dispatch option) py" where
  "get_dispatch cf own fate ws task oper =
     bindS (liftR (checked_identifier workstation_id_ok ws)) (\<lambda>_.
     bindS (liftR (checked_identifier remote_task_id task)) (\<lambda>_.
     bindS (liftR (checked_identifier operation_id_ok oper)) (\<lambda>_.
     with_cursor fate
       (bindS (read_sql (find_row (own, ws, task, oper))) (\<lambda>found.
        case found of None \<Rightarrow> ret None
        | Some row \<Rightarrow>
            bindS (liftR (dispatch_from_row cf own row)) (\<lambda>d.
            bindS (guardS (dc_device (sd_correlation d) = ws \<and> dc_task (sd_correlation d) = task
                     \<and> dc_operation (sd_correlation d) = oper) (ControlRepositoryError ''invalid_dispatch'')) (\<lambda>_.
            ret (Some d))))))))"

section \<open>The durable replay guard\<close>

text \<open>claim does not allow the answers of the other calls, nor classify a first claim.\<close>

definition allowed_classification :: "replay_classification list \<Rightarrow> replay_classification \<Rightarrow> replay_classification res" where
  "allowed_classification allowed c = bindR (ensure (List.member allowed c) repository_failure) (\<lambda>_. Inr c)"

definition control_classify :: "string \<Rightarrow> db_fate \<Rightarrow> replay_key \<Rightarrow> replay_value \<Rightarrow> (control_db, replay_classification) py" where
  "control_classify own fate key v =
     bindS (liftR (replay_parameters own key v)) (\<lambda>_.
     with_cursor fate (bindS (read_sql (sql_classify own key v)) (\<lambda>c.
       liftR (allowed_classification [ReplayUnseen, ReplayExactMatch, ReplayConflict] c))))"

definition claim_deadline :: "replay_value \<Rightarrow> py_datetime \<Rightarrow> instant res" where
  "claim_deadline v claim_expires_at = (case claim_expires_at of
     Naive _ \<Rightarrow> Inl (ControlRepositoryError ''invalid_replay'')
   | Aware limit \<Rightarrow> (case v of (task, command, sha, completed) \<Rightarrow>
       bindR (control_error ''invalid_replay'' (completed \<le> limit \<and> limit - completed \<le> seconds 300)) (\<lambda>_. Inr limit)))"

definition control_claim ::
  "string \<Rightarrow> db_fate \<Rightarrow> instant \<Rightarrow> instant \<Rightarrow> instant \<Rightarrow> replay_key \<Rightarrow> replay_value \<Rightarrow> py_datetime
    \<Rightarrow> (control_db, replay_classification) py" where
  "control_claim own fate now now2 now3 key v claim_expires_at =
     bindS (liftR (replay_parameters own key v)) (\<lambda>_.
     bindS (liftR (claim_deadline v claim_expires_at)) (\<lambda>limit.
     with_cursor fate (bindS (call_sql (sql_claim own key v limit now now2 now3)) (\<lambda>c.
       liftR (allowed_classification [ReplayUnseen, ReplayFirstSeen, ReplayExactMatch, ReplayConflict] c)))))"

definition control_application_applied :: "string \<Rightarrow> db_fate \<Rightarrow> replay_key \<Rightarrow> replay_value \<Rightarrow> (control_db, bool) py" where
  "control_application_applied own fate key v =
     bindS (liftR (replay_parameters own key v)) (\<lambda>_. with_cursor fate (read_sql (sql_application_applied own key v)))"

definition control_acquire ::
  "string \<Rightarrow> db_fate \<Rightarrow> instant \<Rightarrow> replay_key \<Rightarrow> replay_value \<Rightarrow> string \<Rightarrow> int \<Rightarrow> (control_db, application_status) py" where
  "control_acquire own fate now key v application lease_seconds =
     bindS (liftR (replay_parameters own key v)) (\<lambda>_.
     bindS (liftR (control_error ''invalid_replay''
              (uuid_version4 application \<and> 1 \<le> lease_seconds \<and> lease_seconds \<le> 60))) (\<lambda>_.
     with_cursor fate (call_sql (sql_acquire own key v application lease_seconds now))))"

definition control_mark_applied ::
  "string \<Rightarrow> db_fate \<Rightarrow> instant \<Rightarrow> instant \<Rightarrow> replay_key \<Rightarrow> replay_value \<Rightarrow> string \<Rightarrow> (control_db, bool) py" where
  "control_mark_applied own fate now now2 key v application =
     bindS (liftR (replay_parameters own key v)) (\<lambda>_.
     bindS (liftR (control_error ''invalid_replay'' (uuid_version4 application))) (\<lambda>_.
     with_cursor fate (call_sql (sql_mark_applied own key v application now now2))))"

text \<open>What one use of the guard meets: the fate of each call and the clocks the database reads.\<close>

record guard_inputs =
  gi_classify :: db_fate
  gi_claim :: db_fate
  gi_claim_now :: "instant \<times> instant \<times> instant"
  gi_acquire :: db_fate
  gi_acquire_now :: instant
  gi_mark :: db_fate
  gi_mark_now :: "instant \<times> instant"

definition durable_guard :: "string \<Rightarrow> guard_inputs \<Rightarrow> control_db replay_guard" where
  "durable_guard own gi =
     \<lparr>g_classify = control_classify own (gi_classify gi),
      g_claim = (case gi_claim_now gi of (n1, n2, n3) \<Rightarrow> control_claim own (gi_claim gi) n1 n2 n3),
      g_acquire = control_acquire own (gi_acquire gi) (gi_acquire_now gi),
      g_mark_applied = (case gi_mark_now gi of (n1, n2) \<Rightarrow> control_mark_applied own (gi_mark gi) n1 n2)\<rparr>"

section \<open>Verification keys\<close>

text \<open>
  resolve\_verification\_keys: the keys of an enabled workstation that are live now, the newest
  first, by key id among equals, eight at most; each row is validated as it is read. The texts of
  key ids differ in hexadecimal digits only, which every collation orders alike.
\<close>

definition key_rank :: "key_row \<Rightarrow> nat list" where
  "key_rank k = map of_char (kr_key k)"

definition live_keys :: "string \<Rightarrow> string \<Rightarrow> instant \<Rightarrow> control_db \<Rightarrow> key_row list" where
  "live_keys tenant ws now db = (case find_station tenant ws db of
     None \<Rightarrow> []
   | Some w \<Rightarrow> take 8 (sort_key (\<lambda>k. - kr_not_before k) (sort_key key_rank
       (filter (\<lambda>k. kr_tenant k = tenant \<and> kr_ws k = ws \<and> credential_live k w now) (cd_keys db)))))"

definition key_from_row :: "string \<Rightarrow> string \<Rightarrow> key_row \<Rightarrow> verification_key res" where
  "key_from_row own ws k =
     bindR (control_error ''invalid_key'' (tenant_id_ok (kr_tenant k) \<and> workstation_id_ok (kr_ws k) \<and> worker_key_id (kr_key k)
              \<and> kr_algorithm k = ''ed25519'' \<and> length (kr_public k) = 32
              \<and> (case kr_expires k of None \<Rightarrow> True | Some e \<Rightarrow> kr_not_before k < e))) (\<lambda>_.
     bindR (control_error ''invalid_key'' (kr_tenant k = own \<and> kr_ws k = ws)) (\<lambda>_.
     Inr \<lparr>vk_tenant = kr_tenant k, vk_ws = kr_ws k, vk_key = kr_public k\<rparr>))"

definition resolve_verification_keys :: "string \<Rightarrow> db_fate \<Rightarrow> instant \<Rightarrow> string \<Rightarrow> (control_db, verification_key list) py" where
  "resolve_verification_keys own fate now ws =
     bindS (liftR (checked_identifier workstation_id_ok ws)) (\<lambda>_.
     with_cursor fate (bindS (read_sql (live_keys own ws now)) (\<lambda>rows.
       liftR (collect (key_from_row own ws) rows))))"

definition live_key :: "string \<Rightarrow> string \<Rightarrow> string \<Rightarrow> instant \<Rightarrow> control_db \<Rightarrow> key_row option" where
  "live_key tenant ws key now db = (case find_credential tenant ws key db of
     Some (k, w) \<Rightarrow> if credential_live k w now then Some k else None | None \<Rightarrow> None)"

definition resolve_public_key ::
  "string \<Rightarrow> db_fate \<Rightarrow> instant \<Rightarrow> string \<Rightarrow> string \<Rightarrow> string \<Rightarrow> (control_db, nat list option) py" where
  "resolve_public_key own fate now tenant device key =
     bindS (liftR (require_tenant own tenant)) (\<lambda>_.
     bindS (liftR (checked_identifier workstation_id_ok device)) (\<lambda>_.
     bindS (liftR (checked_identifier worker_key_id key)) (\<lambda>_.
     with_cursor fate (bindS (read_sql (live_key own device key now)) (\<lambda>found.
       case found of None \<Rightarrow> ret None
       | Some k \<Rightarrow>
           bindS (guardS (kr_tenant k = own \<and> kr_ws k = device \<and> kr_key k = key) (ControlRepositoryError ''invalid_key'')) (\<lambda>_.
           bindS (guardS (length (kr_public k) = 32) (ControlRepositoryError ''invalid_key'')) (\<lambda>_.
           ret (Some (kr_public k)))))))))"

section \<open>Request nonces and presence\<close>

definition consume_request_nonce ::
  "string \<Rightarrow> db_fate \<Rightarrow> instant \<Rightarrow> string \<Rightarrow> string \<Rightarrow> string \<Rightarrow> string \<Rightarrow> string \<Rightarrow> string \<Rightarrow> instant \<Rightarrow> (control_db, bool) py" where
  "consume_request_nonce own fate now tenant device key nonce route body issued =
     bindS (liftR (require_tenant own tenant)) (\<lambda>_.
     bindS (liftR (checked_identifier workstation_id_ok device)) (\<lambda>_.
     bindS (liftR (checked_identifier worker_key_id key)) (\<lambda>_.
     bindS (liftR (checked_identifier nonce_pattern nonce)) (\<lambda>_.
     bindS (liftR (checked_identifier sha256_hex body)) (\<lambda>_.
     bindS (liftR (control_error ''invalid_request_proof'' (List.member worker_routes route))) (\<lambda>_.
     with_cursor fate (call_sql (sql_consume_nonce own own device key nonce route body issued now))))))))"

definition control_record_presence ::
  "string \<Rightarrow> db_fate \<Rightarrow> instant \<Rightarrow> string \<Rightarrow> string \<Rightarrow> int \<Rightarrow> (control_db, bool) py" where
  "control_record_presence own fate now ws key presence_seconds =
     bindS (liftR (checked_identifier workstation_id_ok ws)) (\<lambda>_.
     bindS (liftR (checked_identifier worker_key_id key)) (\<lambda>_.
     bindS (liftR (control_error ''invalid_request_proof'' (30 \<le> presence_seconds \<and> presence_seconds \<le> 300))) (\<lambda>_.
     with_cursor fate (call_sql (sql_record_presence own own ws key presence_seconds now)))))"

section \<open>What the gateway uses it as\<close>

text \<open>
  PostgresWorkerControlRepositoryFactory.for\_tenant as the authenticator's store: the fate of the
  two calls and the clock each reads are arguments.
\<close>

definition credentials_of :: "db_fate \<Rightarrow> instant \<Rightarrow> db_fate \<Rightarrow> instant \<Rightarrow> string \<Rightarrow> (control_db, control_db credential_store) py" where
  "credentials_of f1 n1 f2 n2 tenant =
     bindS (liftR (control_repository_init tenant)) (\<lambda>_.
     ret \<lparr>cs_resolve = resolve_public_key tenant f1 n1, cs_consume = consume_request_nonce tenant f2 n2\<rparr>)"

end
