(* ===== verification/Control_Guard.thy ===== *)
theory Control_Guard
  imports Control_Store Ingress_Properties
begin

text \<open>
  The database as a replay guard: the guard of a tenant's repository keeps the contract the ingress
  relies on, and the replay table refines an abstract register of results, whatever is called in
  whatever order, fails or loses its answer.
\<close>

section \<open>Transactions\<close>

lemma with_cursor_Inr: "with_cursor fate body db = (Inr x, db') \<longleftrightarrow> fate = Commits \<and> body db = (Inr x, db')"
  by (auto simp add: with_cursor_def split: db_fate.splits prod.splits sum.splits)

lemma with_cursor_cases:
  "with_cursor fate body db = (r, db') \<Longrightarrow> (\<exists>e. r = Inl e) \<and> db' = db
     \<or> (\<exists>x. body db = (Inr x, db') \<and> (r = Inr x \<and> fate = Commits \<or> (\<exists>e. r = Inl e)))"
  by (auto simp add: with_cursor_def split: db_fate.splits prod.splits sum.splits)

lemma keeps_with_cursor [keeps_rules]: "keeps P body \<Longrightarrow> keeps P (with_cursor fate body)"
  by (auto simp add: keeps_def with_cursor_def split: db_fate.splits prod.splits sum.splits)

lemma keeps_read_sql [keeps_rules]: "keeps P (read_sql f)"
  by (simp add: keeps_def read_sql_def)

lemma keeps_call_sql: "(\<And>db. P db \<Longrightarrow> P (snd (f db))) \<Longrightarrow> keeps P (call_sql f)"
  by (auto simp add: keeps_def call_sql_def split: prod.splits) (metis snd_conv)

lemma read_sql_apply [simp]: "read_sql f db = (Inr (f db), db)"
  by (simp add: read_sql_def)

lemma call_sql_eq [simp]: "call_sql f db = (r, db') \<longleftrightarrow> (\<exists>x. r = Inr x \<and> f db = (x, db'))"
  by (auto simp add: call_sql_def split: prod.splits)

lemma control_error_Inr [simp]: "control_error code ok = Inr u \<longleftrightarrow> ok"
  by (simp add: control_error_def)

lemma replay_parameters_own: "replay_parameters own key v = Inr u \<Longrightarrow> fst key = own"
  by (auto simp add: replay_parameters_def bindR_eq_Inr require_tenant_def split: prod.splits)

section \<open>The replay table\<close>

lemma find_snoc: "find P (xs @ [y]) = (case find P xs of None \<Rightarrow> if P y then Some y else None | Some x \<Rightarrow> Some x)"
  by (induction xs) simp_all

lemma find_map_same: "(\<And>x. P (f x) = P x) \<Longrightarrow> find P (map f xs) = map_option f (find P xs)"
  by (induction xs) simp_all

lemma new_replay_sel [simp]:
  "pr_key (new_replay key v) = key" "pr_value (new_replay key v) = v" "pr_application (new_replay key v) = None"
  "pr_applied (new_replay key v) = None"
  by (simp_all add: new_replay_def)

lemma find_replay_insert:
  "find_replay key db = None \<Longrightarrow>
    find_replay k (db\<lparr>cd_replays := cd_replays db @ [new_replay key v]\<rparr>) = (if k = key then Some (new_replay key v) else find_replay k db)"
  by (auto simp add: find_replay_def find_snoc split: option.splits)

lemma find_replay_update:
  assumes "\<And>r. pr_key (f r) = pr_key r"
  shows "find_replay k (update_replay key f db) = (if k = key then map_option f (find_replay k db) else find_replay k db)"
proof -
  have "find_replay k (update_replay key f db) = map_option (\<lambda>r. if pr_key r = key then f r else r) (find_replay k db)"
    unfolding find_replay_def update_replay_def by (simp add: find_map_same assms)
  moreover have "pr_key r = k" if "find_replay k db = Some r" for r
    using that by (auto simp add: find_replay_def find_Some_iff)
  ultimately show ?thesis by (cases "find_replay k db") auto
qed

definition claimed_in :: "control_db \<Rightarrow> replay_key \<Rightarrow> replay_value option" where
  "claimed_in db key = map_option pr_value (find_replay key db)"

definition applied_in :: "control_db \<Rightarrow> replay_key \<Rightarrow> bool" where
  "applied_in db key \<longleftrightarrow> (case find_replay key db of None \<Rightarrow> False | Some r \<Rightarrow> pr_applied r \<noteq> None)"

definition holder_in :: "control_db \<Rightarrow> replay_key \<Rightarrow> (string \<times> instant) option" where
  "holder_in db key = Option.bind (find_replay key db) pr_application"

text \<open>What each function of the database does to the three.\<close>

lemma sql_classify_value:
  "fst key = own \<Longrightarrow> own \<noteq> [] \<Longrightarrow> sql_classify own key v db = (case claimed_in db key of None \<Rightarrow> ReplayUnseen
     | Some w \<Rightarrow> if w = v then ReplayExactMatch else ReplayConflict)"
  by (simp add: sql_classify_def in_scope_def answer_of_row_def claimed_in_def split: option.splits)

lemma sql_claim_cases:
  assumes "sql_claim own key v limit n1 n2 n3 db = (c, db')"
  shows "c = ReplayFirstSeen \<and> claimed_in db key = None \<and> claimed_in db' = (claimed_in db)(key \<mapsto> v)
        \<and> applied_in db' = applied_in db \<and> holder_in db' = holder_in db
      \<or> c \<noteq> ReplayFirstSeen \<and> db' = db \<and> (c = ReplayExactMatch \<longrightarrow> claimed_in db key = Some v)"
proof -
  from assms have "c = ReplayFirstSeen \<and> find_replay key db = None \<and> db' = db\<lparr>cd_replays := cd_replays db @ [new_replay key v]\<rparr>
      \<or> c \<noteq> ReplayFirstSeen \<and> db' = db \<and> (c = ReplayExactMatch \<longrightarrow> claimed_in db key = Some v)"
    by (auto simp add: sql_claim_def answer_of_row_def claimed_in_def split: prod.splits option.splits if_splits)
  then show ?thesis
  proof (elim disjE conjE)
    assume n: "find_replay key db = None" and d: "db' = db\<lparr>cd_replays := cd_replays db @ [new_replay key v]\<rparr>"
    note f = find_replay_insert[OF n, of _ v]
    assume "c = ReplayFirstSeen"
    moreover have "claimed_in db' = (claimed_in db)(key \<mapsto> v)"
      by (rule ext) (simp add: claimed_in_def d f)
    moreover have "applied_in db' = applied_in db"
      by (rule ext) (simp add: applied_in_def d f n)
    moreover have "holder_in db' = holder_in db"
      by (rule ext) (simp add: holder_in_def d f n)
    ultimately show ?thesis using n by (simp add: claimed_in_def)
  qed simp
qed

lemma sql_acquire_cases:
  assumes "sql_acquire own key v a n now db = (st, db')"
  shows "st = ApplicationAcquired \<and> claimed_in db key = Some v \<and> \<not> applied_in db key \<and> 1 \<le> n \<and> n \<le> 60
        \<and> (\<forall>h u. holder_in db key = Some (h, u) \<longrightarrow> h = a \<or> u \<le> now)
        \<and> claimed_in db' = claimed_in db \<and> applied_in db' = applied_in db \<and> holder_in db' = (holder_in db)(key \<mapsto> (a, now + seconds n))
      \<or> st \<noteq> ApplicationAcquired \<and> db' = db \<and> (st = ApplicationApplied \<longrightarrow> claimed_in db key = Some v \<and> applied_in db key)"
proof -
  let ?f = "\<lambda>r. r\<lparr>pr_application := Some (a, now + seconds n)\<rparr>"
  from assms have "st = ApplicationAcquired \<and> 1 \<le> n \<and> n \<le> 60 \<and> db' = update_replay key ?f db
        \<and> (\<exists>r. find_replay key db = Some r \<and> pr_value r = v \<and> pr_applied r = None \<and> \<not> held_by_other r a now)
      \<or> st \<noteq> ApplicationAcquired \<and> db' = db \<and> (st = ApplicationApplied \<longrightarrow> claimed_in db key = Some v \<and> applied_in db key)"
    by (auto simp add: sql_acquire_def claimed_in_def applied_in_def split: option.splits if_splits)
  then show ?thesis
  proof (elim disjE conjE exE)
    fix r
    assume r: "find_replay key db = Some r" "pr_value r = v" "pr_applied r = None" "\<not> held_by_other r a now"
      and d: "db' = update_replay key ?f db" and "st = ApplicationAcquired" "1 \<le> n" "n \<le> 60"
    have f: "find_replay k db' = (if k = key then Some (?f r) else find_replay k db)" for k
      unfolding d using r(1) by (subst find_replay_update) auto
    have "claimed_in db' = claimed_in db" "applied_in db' = applied_in db" "holder_in db' = (holder_in db)(key \<mapsto> (a, now + seconds n))"
      by (simp_all add: fun_eq_iff claimed_in_def applied_in_def holder_in_def f r(1))
    moreover have "\<forall>h u. holder_in db key = Some (h, u) \<longrightarrow> h = a \<or> u \<le> now"
      using r(1,4) by (auto simp add: holder_in_def held_by_other_def)
    ultimately show ?thesis using r \<open>st = _\<close> \<open>1 \<le> n\<close> \<open>n \<le> 60\<close> by (simp add: claimed_in_def applied_in_def)
  qed simp
qed

lemma sql_mark_cases:
  assumes "sql_mark_applied own key v a n1 n2 db = (ok, db')"
  shows "ok \<and> claimed_in db key = Some v \<and> (applied_in db key \<or> (\<exists>u. holder_in db key = Some (a, u) \<and> n1 < u))
        \<and> claimed_in db' = claimed_in db \<and> applied_in db' = (applied_in db)(key := True) \<and> holder_in db' = holder_in db
      \<or> \<not> ok \<and> db' = db"
proof -
  let ?f = "\<lambda>r. r\<lparr>pr_applied := Some (case pr_applied r of Some t \<Rightarrow> t | None \<Rightarrow> n2)\<rparr>"
  from assms have "ok \<and> db' = update_replay key ?f db
        \<and> (\<exists>r. find_replay key db = Some r \<and> pr_value r = v \<and> (pr_applied r = None \<longrightarrow> held_by r a n1)) \<or> \<not> ok \<and> db' = db"
    by (auto simp add: sql_mark_applied_def split: option.splits if_splits)
  then show ?thesis
  proof (elim disjE conjE exE)
    fix r
    assume r: "find_replay key db = Some r" "pr_value r = v" and h: "pr_applied r = None \<longrightarrow> held_by r a n1"
      and d: "db' = update_replay key ?f db" and ok
    have f: "find_replay k db' = (if k = key then Some (?f r) else find_replay k db)" for k
      unfolding d using r(1) by (subst find_replay_update) auto
    have "claimed_in db' = claimed_in db" "applied_in db' = (applied_in db)(key := True)" "holder_in db' = holder_in db"
      by (simp_all add: fun_eq_iff claimed_in_def applied_in_def holder_in_def f r(1))
    moreover have "applied_in db key \<or> (\<exists>u. holder_in db key = Some (a, u) \<and> n1 < u)"
      using h r(1) by (auto simp add: applied_in_def holder_in_def held_by_def split: option.splits)
    ultimately show ?thesis using r \<open>ok\<close> by (simp add: claimed_in_def)
  qed simp
qed

section \<open>The durable guard keeps the contract\<close>

lemma control_classify_call:
  "control_classify own fate key v db = (r, db') \<Longrightarrow> db' = db
     \<and> (\<forall>c. r = Inr c \<longrightarrow> c = (case claimed_in db key of None \<Rightarrow> ReplayUnseen
          | Some w \<Rightarrow> if w = v then ReplayExactMatch else ReplayConflict))"
proof -
  assume call: "control_classify own fate key v db = (r, db')"
  have own: "own \<noteq> []" if "replay_parameters own key v = Inr u" for u
    using that by (auto simp add: replay_parameters_def require_tenant_def bindR_eq_Inr tenant_id_ok_def opaque_id_def
        match_classes_def split: prod.splits)
  from call show ?thesis
    by (auto simp add: control_classify_def bindS_liftR with_cursor_Inr bindS_def allowed_classification_def bindR_eq_Inr
        sql_classify_value[OF replay_parameters_own own] dest!: with_cursor_cases split: sum.splits)
qed

lemma control_claim_call:
  "control_claim own fate n1 n2 n3 key v limit db = (r, db') \<Longrightarrow> (\<exists>e. r = Inl e) \<and> db' = db
     \<or> (\<exists>l c. sql_claim own key v l n1 n2 n3 db = (c, db') \<and> (\<forall>x. r = Inr x \<longrightarrow> x = c))"
  by (auto simp add: control_claim_def bindS_liftR bindS_eq_Inr allowed_classification_def bindR_eq_Inr
      dest!: with_cursor_cases split: sum.splits)

lemma control_acquire_call:
  "control_acquire own fate now key v a n db = (r, db') \<Longrightarrow> (\<exists>e. r = Inl e) \<and> db' = db
     \<or> (\<exists>st. sql_acquire own key v a n now db = (st, db') \<and> (\<forall>x. r = Inr x \<longrightarrow> x = st))"
  by (auto simp add: control_acquire_def bindS_liftR dest!: with_cursor_cases split: sum.splits)

lemma control_mark_call:
  "control_mark_applied own fate n1 n2 key v a db = (r, db') \<Longrightarrow> (\<exists>e. r = Inl e) \<and> db' = db
     \<or> (\<exists>ok. sql_mark_applied own key v a n1 n2 db = (ok, db') \<and> (\<forall>x. r = Inr x \<longrightarrow> x = ok))"
  by (auto simp add: control_mark_applied_def bindS_liftR dest!: with_cursor_cases split: sum.splits)

lemma control_mark_view:
  "control_mark_applied own fate n1 n2 key v a db = (r, db') \<Longrightarrow> claimed_in db' = claimed_in db
     \<and> (applied_in db' = applied_in db \<and> r \<noteq> Inr True \<or> applied_in db' = (applied_in db)(key := True))"
  by (auto dest!: control_mark_call sql_mark_cases)

lemma durable_guard_calls:
  "g_classify (durable_guard own gi) = control_classify own (gi_classify gi)"
  "g_claim (durable_guard own gi) = control_claim own (gi_claim gi) (fst (gi_claim_now gi)) (fst (snd (gi_claim_now gi))) (snd (snd (gi_claim_now gi)))"
  "g_acquire (durable_guard own gi) = control_acquire own (gi_acquire gi) (gi_acquire_now gi)"
  "g_mark_applied (durable_guard own gi) = control_mark_applied own (gi_mark gi) (fst (gi_mark_now gi)) (snd (gi_mark_now gi))"
  by (simp_all add: durable_guard_def split: prod.splits)

interpretation dg: guard_contract "durable_guard own gi" claimed_in applied_in
  apply unfold_locales
  subgoal unfolding durable_guard_calls by (auto dest!: control_classify_call)
  subgoal unfolding durable_guard_calls by (auto dest!: control_claim_call sql_claim_cases)
  subgoal unfolding durable_guard_calls by (auto dest!: control_claim_call sql_claim_cases)
  subgoal unfolding durable_guard_calls by (auto dest!: control_claim_call sql_claim_cases)
  subgoal unfolding durable_guard_calls by (auto dest!: control_claim_call sql_claim_cases)
  subgoal unfolding durable_guard_calls by (auto dest!: control_acquire_call sql_acquire_cases)
  subgoal unfolding durable_guard_calls by (auto dest!: control_acquire_call sql_acquire_cases)
  subgoal unfolding durable_guard_calls by (auto dest!: control_acquire_call sql_acquire_cases)
  subgoal unfolding durable_guard_calls by (auto dest!: control_mark_view split: if_splits)
  subgoal unfolding durable_guard_calls by (auto dest!: control_mark_view)
  subgoal unfolding durable_guard_calls by (auto dest!: control_mark_view)
  subgoal unfolding durable_guard_calls by (metis control_classify_call prod.collapse)
  done

section \<open>Everything that can happen to the tables\<close>

text \<open>
  The calls of the gateway's repositories, each with the fate of its transaction and the clocks it
  reads, and what the caller is told. Keys and workstations are enrolled, revoked and disabled
  outside (in the control plane), so a history is also open to any change of those two tables.
\<close>

datatype control_call =
    StoreCall db_fate signed_dispatch
  | FindCall db_fate string string string
  | ClassifyCall db_fate replay_key replay_value
  | ClaimCall db_fate instant instant instant replay_key replay_value py_datetime
  | AppliedCall db_fate replay_key replay_value
  | AcquireCall db_fate instant replay_key replay_value string int
  | MarkCall db_fate instant instant replay_key replay_value string
  | KeysCall db_fate instant string
  | PublicKeyCall db_fate instant string string string
  | ConsumeCall db_fate instant string string string string string string instant
  | PresenceCall db_fate instant string string int

datatype control_reply =
    DispatchReply "signed_dispatch res"
  | FoundReply "signed_dispatch option res"
  | ClassReply "replay_classification res"
  | StatusReply "application_status res"
  | BoolReply "bool res"
  | KeysReply "verification_key list res"
  | KeyReply "nat list option res"

fun control_do :: "control_format \<Rightarrow> string \<Rightarrow> control_call \<Rightarrow> control_db \<Rightarrow> control_reply \<times> control_db" where
  "control_do cf own (StoreCall f d) db = apfst DispatchReply (store_dispatch cf own f d db)"
| "control_do cf own (FindCall f ws task oper) db = apfst FoundReply (get_dispatch cf own f ws task oper db)"
| "control_do cf own (ClassifyCall f key v) db = apfst ClassReply (control_classify own f key v db)"
| "control_do cf own (ClaimCall f n1 n2 n3 key v limit) db = apfst ClassReply (control_claim own f n1 n2 n3 key v limit db)"
| "control_do cf own (AppliedCall f key v) db = apfst BoolReply (control_application_applied own f key v db)"
| "control_do cf own (AcquireCall f now key v a n) db = apfst StatusReply (control_acquire own f now key v a n db)"
| "control_do cf own (MarkCall f n1 n2 key v a) db = apfst BoolReply (control_mark_applied own f n1 n2 key v a db)"
| "control_do cf own (KeysCall f now ws) db = apfst KeysReply (resolve_verification_keys own f now ws db)"
| "control_do cf own (PublicKeyCall f now tenant ws key) db = apfst KeyReply (resolve_public_key own f now tenant ws key db)"
| "control_do cf own (ConsumeCall f now tenant ws key nonce route body issued) db =
     apfst BoolReply (consume_request_nonce own f now tenant ws key nonce route body issued db)"
| "control_do cf own (PresenceCall f now ws key n) db = apfst BoolReply (control_record_presence own f now ws key n db)"

inductive control_runs ::
  "control_format \<Rightarrow> (string \<times> control_call \<times> control_reply) list \<Rightarrow> control_db \<Rightarrow> control_db \<Rightarrow> bool" for cf where
  runs_nil: "control_runs cf [] db db"
| runs_call: "control_do cf own call db = (reply, db1) \<Longrightarrow> control_runs cf trace db1 db2 \<Longrightarrow>
    control_runs cf ((own, call, reply) # trace) db db2"
| runs_enrol: "control_runs cf trace (db\<lparr>cd_keys := keys, cd_stations := stations\<rparr>) db2 \<Longrightarrow> control_runs cf trace db db2"

section \<open>The register of results\<close>

text \<open>
  What a replay guard is to the gateway: for each dispatch nonce the one result claimed for it, the
  application that holds it and until when, and whether it is finished.
\<close>

record replay_register =
  rg_claimed :: "replay_key \<Rightarrow> replay_value option"
  rg_done :: "replay_key \<Rightarrow> bool"
  rg_holder :: "replay_key \<Rightarrow> (string \<times> instant) option"

datatype guard_event =
    Claimed replay_key replay_value
  | Leased replay_key replay_value string instant instant
  | Finished replay_key replay_value string instant
  | Unchanged

inductive register_step :: "guard_event \<Rightarrow> replay_register \<Rightarrow> replay_register \<Rightarrow> bool" where
  step_claimed: "rg_claimed s key = None \<Longrightarrow>
    register_step (Claimed key v) s (s\<lparr>rg_claimed := (rg_claimed s)(key \<mapsto> v)\<rparr>)"
| step_leased: "rg_claimed s key = Some v \<Longrightarrow> \<not> rg_done s key \<Longrightarrow>
    (\<And>h u. rg_holder s key = Some (h, u) \<Longrightarrow> h = a \<or> u \<le> now) \<Longrightarrow> now < until \<Longrightarrow> until \<le> now + seconds 60 \<Longrightarrow>
    register_step (Leased key v a now until) s (s\<lparr>rg_holder := (rg_holder s)(key \<mapsto> (a, until))\<rparr>)"
| step_finished: "rg_claimed s key = Some v \<Longrightarrow> rg_done s key \<or> (\<exists>u. rg_holder s key = Some (a, u) \<and> now < u) \<Longrightarrow>
    register_step (Finished key v a now) s (s\<lparr>rg_done := (rg_done s)(key := True)\<rparr>)"
| step_unchanged: "register_step Unchanged s s"

text \<open>
  Which event a call may be, given what its caller is told: an answer is the truth about the
  register, an exception leaves open whether the event happened.
\<close>

fun told :: "control_call \<Rightarrow> control_reply \<Rightarrow> guard_event \<Rightarrow> replay_register \<Rightarrow> bool" where
  "told (ClassifyCall f key v) (ClassReply r) ev s \<longleftrightarrow> ev = Unchanged \<and> (\<forall>c. r = Inr c \<longrightarrow>
     c = (case rg_claimed s key of None \<Rightarrow> ReplayUnseen | Some w \<Rightarrow> if w = v then ReplayExactMatch else ReplayConflict))"
| "told (ClaimCall f n1 n2 n3 key v limit) (ClassReply r) ev s \<longleftrightarrow> (case r of
     Inl e \<Rightarrow> ev = Unchanged \<or> ev = Claimed key v
   | Inr c \<Rightarrow> if c = ReplayFirstSeen then ev = Claimed key v
       else ev = Unchanged \<and> (c = ReplayExactMatch \<longrightarrow> rg_claimed s key = Some v))"
| "told (AcquireCall f now key v a n) (StatusReply r) ev s \<longleftrightarrow> (case r of
     Inl e \<Rightarrow> ev = Unchanged \<or> ev = Leased key v a now (now + seconds n)
   | Inr c \<Rightarrow> if c = ApplicationAcquired then ev = Leased key v a now (now + seconds n)
       else ev = Unchanged \<and> (c = ApplicationApplied \<longrightarrow> rg_claimed s key = Some v \<and> rg_done s key))"
| "told (MarkCall f n1 n2 key v a) (BoolReply r) ev s \<longleftrightarrow> (case r of
     Inl e \<Rightarrow> ev = Unchanged \<or> ev = Finished key v a n1
   | Inr ok \<Rightarrow> ev = (if ok then Finished key v a n1 else Unchanged))"
| "told call reply ev s \<longleftrightarrow> ev = Unchanged"

inductive register_runs :: "(string \<times> control_call \<times> control_reply) list \<Rightarrow> replay_register \<Rightarrow> replay_register \<Rightarrow> bool" where
  register_nil: "register_runs [] s s"
| register_cons: "register_step ev s s1 \<Longrightarrow> told call reply ev s \<Longrightarrow> register_runs trace s1 s2 \<Longrightarrow>
    register_runs ((own, call, reply) # trace) s s2"

definition register_of :: "control_db \<Rightarrow> replay_register" where
  "register_of db = \<lparr>rg_claimed = claimed_in db, rg_done = applied_in db, rg_holder = holder_in db\<rparr>"

lemma register_of_replays: "cd_replays db' = cd_replays db \<Longrightarrow> register_of db' = register_of db"
  by (simp add: register_of_def claimed_in_def applied_in_def holder_in_def find_replay_def fun_eq_iff)

lemma insert_dispatch_cases:
  "insert_dispatch r db = (Inr (Some x), db') \<Longrightarrow> x = r \<and> db' = db\<lparr>cd_dispatches := cd_dispatches db @ [r]\<rparr> \<and> dispatch_checks r
     \<and> find_row (dispatch_key r) db = None \<and> find_replay_dispatch (replay_identity r) db = None
     \<and> (dr_tenant r, dr_operation r, dr_ws r, dr_user r, dr_idem r) \<in> set (cd_operations db)"
  "insert_dispatch r db = (Inr None, db') \<Longrightarrow> db' = db"
  "insert_dispatch r db = (Inl e, db') \<Longrightarrow> db' = db"
  by (auto simp add: insert_dispatch_def split: if_splits)

lemma keeps_insert_dispatch:
  "(\<And>db x. P db \<Longrightarrow> insert_dispatch r db = (Inr (Some r), db\<lparr>cd_dispatches := cd_dispatches db @ [r]\<rparr>) \<Longrightarrow>
    P (db\<lparr>cd_dispatches := cd_dispatches db @ [r]\<rparr>)) \<Longrightarrow> keeps P (insert_dispatch r)"
  by (rule keepsI) (auto simp add: insert_dispatch_def split: if_splits)

text \<open>
  The other calls leave alone what they are not about: a property of the tables that the functions
  of the database keep is kept by every call.
\<close>

lemma keeps_store_dispatch:
  assumes "\<And>d. keeps P (insert_dispatch (dispatch_row_of own d))"
  shows "keeps P (store_dispatch cf own fate d)"
  unfolding store_dispatch_def Let_def by (intro keeps_rules assms)

lemma keeps_reads [keeps_rules]:
  "keeps P (get_dispatch cf own fate ws task oper)" "keeps P (control_classify own fate key v)"
  "keeps P (control_application_applied own fate key v)" "keeps P (resolve_verification_keys own fate now ws)"
  "keeps P (resolve_public_key own fate now tenant ws k)"
  unfolding get_dispatch_def control_classify_def control_application_applied_def resolve_verification_keys_def
    resolve_public_key_def by (intro keeps_rules)+

lemma keeps_consume:
  assumes "\<And>db. P db \<Longrightarrow> P (snd (sql_consume_nonce own own ws k nonce route body issued now db))"
  shows "keeps P (consume_request_nonce own fate now tenant ws k nonce route body issued)"
  unfolding consume_request_nonce_def by (intro keeps_rules keeps_call_sql assms)

lemma keeps_presence:
  assumes "\<And>db. P db \<Longrightarrow> P (snd (sql_record_presence own own ws k n now db))"
  shows "keeps P (control_record_presence own fate now ws k n)"
  unfolding control_record_presence_def by (intro keeps_rules keeps_call_sql assms)

lemma apfst_eq [simp]: "apfst f p = (a, b) \<longleftrightarrow> (\<exists>x. p = (x, b) \<and> a = f x)"
  by (cases p) auto

lemma keeps_run: "keeps P m \<Longrightarrow> P db \<Longrightarrow> m db = (r, db') \<Longrightarrow> P db'"
  by (metis keepsD snd_conv)

lemma other_calls_keep_replays:
  "keeps (\<lambda>db. cd_replays db = R) (store_dispatch cf own f d)"
  "keeps (\<lambda>db. cd_replays db = R) (consume_request_nonce own f now tenant ws k nonce route body issued)"
  "keeps (\<lambda>db. cd_replays db = R) (control_record_presence own f now ws k n)"
  by (intro keeps_store_dispatch keeps_insert_dispatch keeps_consume keeps_presence;
      auto simp add: sql_consume_nonce_def sql_record_presence_def split: option.splits)+

lemma unchanged_replays:
  "keeps (\<lambda>d. cd_replays d = cd_replays db) m \<Longrightarrow> m db = (r, db') \<Longrightarrow> cd_replays db' = cd_replays db"
  using keeps_run[of "\<lambda>d. cd_replays d = cd_replays db" m db r db'] by simp

lemmas quiet_calls = other_calls_keep_replays[THEN unchanged_replays] keeps_reads(1,3,4,5)[THEN unchanged_replays]

lemma control_step_refines:
  assumes "control_do cf own call db = (reply, db1)"
  shows "\<exists>ev. register_step ev (register_of db) (register_of db1) \<and> told call reply ev (register_of db)"
proof -
  have same: "register_step Unchanged (register_of db) (register_of db1)" if "cd_replays db1 = cd_replays db"
    using register_of_replays[OF that] by (simp add: step_unchanged)
  have lease: "now < now + seconds n \<and> now + seconds n \<le> now + seconds 60" if "1 \<le> n" "n \<le> 60" for now n
    using that by (simp add: seconds_def)
  show ?thesis
  proof (cases call)
    case (ClaimCall f n1 n2 n3 key v limit)
    with assms obtain r where r: "reply = ClassReply r" "control_claim own f n1 n2 n3 key v limit db = (r, db1)" by auto
    from control_claim_call[OF r(2)] show ?thesis
    proof (elim disjE exE conjE)
      fix e assume "r = Inl e" "db1 = db"
      with r(1) ClaimCall show ?thesis by (auto intro: step_unchanged)
    next
      fix l c assume s: "sql_claim own key v l n1 n2 n3 db = (c, db1)"
        and a: "\<forall>x. r = Inr x \<longrightarrow> x = c"
      from sql_claim_cases[OF s] show ?thesis
      proof (elim disjE conjE)
        assume c: "c = ReplayFirstSeen" and n: "claimed_in db key = None" and t: "claimed_in db1 = (claimed_in db)(key \<mapsto> v)"
          "applied_in db1 = applied_in db" "holder_in db1 = holder_in db"
        have "register_step (Claimed key v) (register_of db) (register_of db1)"
          using step_claimed[of "register_of db" key v] n t by (simp add: register_of_def)
        with r(1) ClaimCall a c show ?thesis by (intro exI[of _ "Claimed key v"]) (cases r; auto)
      next
        assume "c \<noteq> ReplayFirstSeen" "db1 = db" "c = ReplayExactMatch \<longrightarrow> claimed_in db key = Some v"
        with r(1) ClaimCall a show ?thesis
          by (intro exI[of _ Unchanged]) (cases r; auto simp add: register_of_def intro: step_unchanged)
      qed
    qed
  next
    case (AcquireCall f now key v a n)
    with assms obtain r where r: "reply = StatusReply r" "control_acquire own f now key v a n db = (r, db1)" by auto
    from control_acquire_call[OF r(2)] show ?thesis
    proof (elim disjE exE conjE)
      fix e assume "r = Inl e" "db1 = db"
      with r(1) AcquireCall show ?thesis by (auto intro: step_unchanged)
    next
      fix st assume s: "sql_acquire own key v a n now db = (st, db1)" and e: "\<forall>x. r = Inr x \<longrightarrow> x = st"
      from sql_acquire_cases[OF s] show ?thesis
      proof (elim disjE[of "st = _ \<and> _"] conjE)
        assume st: "st = ApplicationAcquired" and c: "claimed_in db key = Some v" "\<not> applied_in db key" "1 \<le> n" "n \<le> 60"
          "\<forall>h u. holder_in db key = Some (h, u) \<longrightarrow> h = a \<or> u \<le> now" and t: "claimed_in db1 = claimed_in db"
          "applied_in db1 = applied_in db" "holder_in db1 = (holder_in db)(key \<mapsto> (a, now + seconds n))"
        have "register_step (Leased key v a now (now + seconds n)) (register_of db) (register_of db1)"
          using step_leased[of "register_of db" key v a now "now + seconds n"] c t lease[OF c(3,4), of now]
          by (simp add: register_of_def)
        with r(1) AcquireCall e st show ?thesis by (intro exI[of _ "Leased key v a now (now + seconds n)"]) (cases r; auto)
      next
        assume "st \<noteq> ApplicationAcquired" "db1 = db" "st = ApplicationApplied \<longrightarrow> claimed_in db key = Some v \<and> applied_in db key"
        with r(1) AcquireCall e show ?thesis
          by (intro exI[of _ Unchanged]) (cases r; auto simp add: register_of_def intro: step_unchanged)
      qed
    qed
  next
    case (MarkCall f n1 n2 key v a)
    with assms obtain r where r: "reply = BoolReply r" "control_mark_applied own f n1 n2 key v a db = (r, db1)" by auto
    from control_mark_call[OF r(2)] show ?thesis
    proof (elim disjE exE conjE)
      fix e assume "r = Inl e" "db1 = db"
      with r(1) MarkCall show ?thesis by (auto intro: step_unchanged)
    next
      fix ok assume s: "sql_mark_applied own key v a n1 n2 db = (ok, db1)" and e: "\<forall>x. r = Inr x \<longrightarrow> x = ok"
      from sql_mark_cases[OF s] show ?thesis
      proof (elim disjE[of "ok \<and> _"] conjE)
        assume ok: ok and c: "claimed_in db key = Some v" "applied_in db key \<or> (\<exists>u. holder_in db key = Some (a, u) \<and> n1 < u)"
          and t: "claimed_in db1 = claimed_in db" "applied_in db1 = (applied_in db)(key := True)" "holder_in db1 = holder_in db"
        have "register_step (Finished key v a n1) (register_of db) (register_of db1)"
          using step_finished[of "register_of db" key v a n1] c t by (simp add: register_of_def)
        with r(1) MarkCall e ok show ?thesis by (intro exI[of _ "Finished key v a n1"]) (cases r; auto)
      next
        assume "\<not> ok" "db1 = db"
        with r(1) MarkCall e show ?thesis by (intro exI[of _ Unchanged]) (cases r; auto intro: step_unchanged)
      qed
    qed
  next
    case (ClassifyCall f key v)
    with assms obtain r where "reply = ClassReply r" "control_classify own f key v db = (r, db1)" by auto
    with ClassifyCall show ?thesis
      by (intro exI[of _ Unchanged]) (auto simp add: register_of_def intro: step_unchanged dest!: control_classify_call)
  qed (use assms in \<open>auto intro!: exI[of _ Unchanged] same dest!: quiet_calls\<close>)
qed

lemma control_runs_register:
  assumes "control_runs cf trace db db'"
  shows "register_runs trace (register_of db) (register_of db')"
  using assms
proof (induction rule: control_runs.induct)
  case (runs_call own call db reply db1 trace db2)
  from control_step_refines[OF runs_call.hyps(1)] runs_call.IH show ?case by (blast intro: register_cons)
next
  case (runs_enrol trace stations keys db db2)
  have "register_of (db\<lparr>cd_keys := keys, cd_stations := stations\<rparr>) = register_of db" by (rule register_of_replays) simp
  with runs_enrol.IH show ?case by simp
qed (rule register_nil)

section \<open>One application at a time\<close>

inductive_cases register_runs_Cons: "register_runs ((own, call, reply) # trace) s t"

inductive_simps register_step_simps:
  "register_step (Claimed key v) s t" "register_step (Leased key v a now until) s t"
  "register_step (Finished key v a now) s t" "register_step Unchanged s t"

text \<open>
  The calls that come while the application a holds the key until u: the clocks they read are
  earlier, and where a renews its lease the new one does not end sooner.
\<close>

fun during :: "control_call \<Rightarrow> replay_key \<Rightarrow> string \<Rightarrow> instant \<Rightarrow> bool" where
  "during (AcquireCall f now key v b n) k a u \<longleftrightarrow> (k = key \<longrightarrow> now < u \<and> (b = a \<longrightarrow> u \<le> now + seconds n))"
| "during (MarkCall f n1 n2 key v b) k a u \<longleftrightarrow> (k = key \<longrightarrow> n1 < u)"
| "during call k a u \<longleftrightarrow> True"

fun acquires :: "control_call \<Rightarrow> control_reply \<Rightarrow> replay_key \<Rightarrow> string \<Rightarrow> bool" where
  "acquires (AcquireCall f now key v a n) (StatusReply r) k b \<longleftrightarrow> k = key \<and> b = a \<and> r = Inr ApplicationAcquired"
| "acquires call reply k b \<longleftrightarrow> False"

fun marks :: "control_call \<Rightarrow> replay_key \<Rightarrow> string \<Rightarrow> bool" where
  "marks (MarkCall f n1 n2 key v a) k b \<longleftrightarrow> k = key \<and> b = a"
| "marks call k b \<longleftrightarrow> False"

lemma told_event:
  assumes "told call reply ev s"
  shows "(acquires call reply k b \<longrightarrow> (\<exists>v now until. ev = Leased k v b now until))
    \<and> (\<forall>v c now until. ev = Leased k v c now until \<and> during call k a u \<longrightarrow> now < u \<and> (c = a \<longrightarrow> u \<le> until))
    \<and> (\<forall>v c now. ev = Finished k v c now \<longrightarrow> marks call k c \<and> (during call k a u \<longrightarrow> now < u))"
  using assms by (cases call; cases reply) (auto split: sum.splits if_splits)

lemma register_step_other:
  assumes "register_step ev s t" and "\<And>v b now until. ev \<noteq> Leased k v b now until" and "\<And>v b now. ev \<noteq> Finished k v b now"
  shows "rg_holder t k = rg_holder s k \<and> rg_done t k = rg_done s k"
  using assms(1)
proof cases
  case (step_leased key v a now until)
  then have "key \<noteq> k" using assms(2)[of v a now until] by blast
  with step_leased show ?thesis by simp
next
  case (step_finished key v a now)
  then have "key \<noteq> k" using assms(3)[of v a now] by blast
  with step_finished show ?thesis by simp
qed simp_all

lemma done_stays:
  assumes "register_step ev s t" and "rg_done s k"
  shows "rg_done t k \<and> (\<forall>v b now until. ev \<noteq> Leased k v b now until)"
  using assms by (cases ev) (auto simp add: register_step_simps)

lemma after_done:
  assumes "register_runs trace s t" and "rg_done s k" and "(own, call, reply) \<in> set trace"
  shows "\<not> acquires call reply k b"
  using assms
proof (induction rule: register_runs.induct)
  case (register_cons ev s s1 call' reply' trace s2 own')
  from done_stays[OF register_cons.hyps(1) register_cons.prems(1)] told_event[OF register_cons.hyps(2), of k b] register_cons
  show ?case by auto
qed simp

lemma while_held:
  assumes "register_runs trace s t" and "rg_holder s k = Some (a, u')" "u \<le> u'" and "\<not> rg_done s k"
    and "\<And>own call reply. (own, call, reply) \<in> set trace \<Longrightarrow> during call k a u"
  shows "(\<forall>(own, call, reply) \<in> set trace. \<forall>b. acquires call reply k b \<longrightarrow> b = a)
    \<and> (rg_done t k \<longrightarrow> (\<exists>(own, call, reply) \<in> set trace. marks call k a))"
  using assms
proof (induction arbitrary: u' rule: register_runs.induct)
  case (register_cons ev s s1 call reply trace s2 own)
  have d: "during call k a u" by (rule register_cons.prems(4)[of own call reply]) simp
  note e = told_event[OF register_cons.hyps(2), of k]
  show ?case
  proof (cases "\<exists>v b now. ev = Finished k v b now")
    case True
    then obtain v b now where f: "ev = Finished k v b now" by blast
    with e d have m: "marks call k b" "now < u" by blast+
    from f register_cons.hyps(1) register_cons.prems(1-3) m(2) have b: "b = a" and dn: "rg_done s1 k"
      by (auto simp add: register_step_simps)
    from after_done[OF register_cons.hyps(3) dn] have "\<forall>(own, call, reply) \<in> set trace. \<forall>b. acquires call reply k b \<longrightarrow> b = a"
      by blast
    moreover have "\<not> acquires call reply k b'" for b' using e f by blast
    ultimately show ?thesis using m(1) b by auto
  next
    case False
    have "\<exists>u''. rg_holder s1 k = Some (a, u'') \<and> u \<le> u'' \<and> \<not> rg_done s1 k
        \<and> (\<forall>b. acquires call reply k b \<longrightarrow> b = a)"
    proof (cases "\<exists>v b now until. ev = Leased k v b now until")
      case True
      then obtain v b now until where l: "ev = Leased k v b now until" by blast
      with e d have w: "now < u" "b = a \<longrightarrow> u \<le> until" by blast+
      from l register_cons.hyps(1) register_cons.prems(1-3) w(1) have "b = a" "rg_holder s1 k = Some (b, until)" "\<not> rg_done s1 k"
        by (auto simp add: register_step_simps)
      with w(2) e l show ?thesis by auto
    next
      case no: False
      with register_step_other[OF register_cons.hyps(1)] False register_cons.prems(1-3) e show ?thesis by metis
    qed
    then obtain u'' where n: "rg_holder s1 k = Some (a, u'')" "u \<le> u''" "\<not> rg_done s1 k"
      "\<forall>b. acquires call reply k b \<longrightarrow> b = a" by blast
    have d: "during call' k a u" if "(own', call', reply') \<in> set trace" for own' call' reply'
      by (rule register_cons.prems(4)[of own' call' reply']) (simp add: that)
    have "(\<forall>(own, call, reply) \<in> set trace. \<forall>b. acquires call reply k b \<longrightarrow> b = a)
       \<and> (rg_done s2 k \<longrightarrow> (\<exists>(own, call, reply) \<in> set trace. marks call k a))"
      by (rule register_cons.IH[OF n(1-3)]) (rule d)
    with n(4) show ?thesis by auto
  qed
qed simp

end
