(* ===== verification/Control_Properties.thy ===== *)
theory Control_Properties
  imports Control_Guard
begin

text \<open>
  What worker control promises: results claimed once and applied by one application at a time,
  requests authenticated once and by live keys, dispatches found as they were signed, and tables
  that stay consistent.
\<close>

section \<open>The register\<close>

text \<open>
  C5: The tables refine the register of results. Whatever the
  repositories of all tenants are called for, in any order, with any clocks, failing or losing their
  answers as they may, the register the tables stand for makes the same history: each call is one of
  its steps, or none, and tells its caller the truth about it. So a nonce has one result for ever, a
  lease of at most a minute is granted only for a claimed, unfinished result that no other
  application holds, and a result is finished only by the application that holds it.
\<close>

theorem durable_guard_refines_register:
  assumes "control_runs cf trace db db'"
  shows "register_runs trace (register_of db) (register_of db')"
  using assms by (rule control_runs_register)


section \<open>Results through the durable guard\<close>

abbreviation with_durable_guard :: "('s, 'g) worker_ingress \<Rightarrow> string \<Rightarrow> guard_inputs \<Rightarrow> ('s, control_db) worker_ingress" where
  "with_durable_guard ing own gi \<equiv>
     \<lparr>in_service = in_service ing, in_guard = durable_guard own gi, in_verify = in_verify ing,
      in_max_age = in_max_age ing, in_sha256 = in_sha256 ing, in_result_bytes = in_result_bytes ing,
      in_parse_result = in_parse_result ing, in_parse_start = in_parse_start ing\<rparr>"

interpretation di: ingress_contract "durable_guard own gi" claimed_in applied_in "with_durable_guard ing own gi"
  by unfold_locales simp

lemma with_durable_guard_same:
  "accepted (with_durable_guard ing own gi) c e = accepted ing c e"
  "replay_value_of (with_durable_guard ing own gi) c e = replay_value_of ing c e"
  by (simp_all add: accepted_def replay_value_of_def result_hash_def)


section \<open>What every history keeps\<close>

locale kept_by_calls =
  fixes P :: "control_db \<Rightarrow> bool"
  assumes kept_insert: "P db \<Longrightarrow> insert_dispatch r db = (Inr (Some x), db') \<Longrightarrow> P db'"
    and kept_claim: "P db \<Longrightarrow> sql_claim own key v limit n1 n2 n3 db = (c, db') \<Longrightarrow> P db'"
    and kept_acquire: "P db \<Longrightarrow> sql_acquire own key v a n now db = (st, db') \<Longrightarrow> P db'"
    and kept_mark: "P db \<Longrightarrow> sql_mark_applied own key v a n1 n2 db = (ok, db') \<Longrightarrow> P db'"
    and kept_consume: "P db \<Longrightarrow> sql_consume_nonce own own ws k nonce route body issued now db = (ok, db') \<Longrightarrow> P db'"
    and kept_presence: "P db \<Longrightarrow> sql_record_presence own own ws k n now db = (ok, db') \<Longrightarrow> P db'"
    and kept_enrol: "P db \<Longrightarrow> P (db\<lparr>cd_keys := keys, cd_stations := stations\<rparr>)"
begin

lemma keeps_insert: "keeps P (insert_dispatch r)"
proof (rule keepsI)
  fix db assume p: "P db"
  obtain q db' where q: "insert_dispatch r db = (q, db')" by (cases "insert_dispatch r db")
  show "P (snd (insert_dispatch r db))"
  proof (cases "\<exists>x. q = Inr (Some x)")
    case True
    with kept_insert[OF p] q show ?thesis by auto
  next
    case False
    then have "q = Inr None \<or> (\<exists>e. q = Inl e)" by (cases q) (auto simp add: not_Some_eq)
    with insert_dispatch_cases(2,3)[of r db] q p show ?thesis by auto
  qed
qed

lemma keeps_do: "P db \<Longrightarrow> control_do cf own call db = (reply, db') \<Longrightarrow> P db'"
proof -
  have claim: "keeps P (control_claim own f n1 n2 n3 key v limit)" for f n1 n2 n3 key v limit
    unfolding control_claim_def by (intro keeps_rules keeps_call_sql) (metis kept_claim prod.collapse)
  have acquire: "keeps P (control_acquire own f now key v a n)" for f now key v a n
    unfolding control_acquire_def by (intro keeps_rules keeps_call_sql) (metis kept_acquire prod.collapse)
  have mark: "keeps P (control_mark_applied own f n1 n2 key v a)" for f n1 n2 key v a
    unfolding control_mark_applied_def by (intro keeps_rules keeps_call_sql) (metis kept_mark prod.collapse)
  have consume: "keeps P (consume_request_nonce own f now tenant ws k nonce route body issued)"
    for f now tenant ws k nonce route body issued
    by (rule keeps_consume) (metis kept_consume prod.collapse)
  have presence: "keeps P (control_record_presence own f now ws k n)" for f now ws k n
    by (rule keeps_presence) (metis kept_presence prod.collapse)
  have store: "keeps P (store_dispatch cf own f d)" for f d by (rule keeps_store_dispatch) (rule keeps_insert)
  assume "P db" and "control_do cf own call db = (reply, db')"
  then show ?thesis
    by (cases call) (auto intro: claim[THEN keeps_run] acquire[THEN keeps_run] mark[THEN keeps_run] consume[THEN keeps_run]
        presence[THEN keeps_run] store[THEN keeps_run] keeps_reads[THEN keeps_run])
qed

lemma runs: "control_runs cf trace db db' \<Longrightarrow> P db \<Longrightarrow> P db'"
  by (induction rule: control_runs.induct) (auto intro: keeps_do kept_enrol)

end

lemma sql_tables:
  "sql_claim own key v limit n1 n2 n3 db = (c, db') \<Longrightarrow> cd_dispatches db' = cd_dispatches db \<and> cd_nonces db' = cd_nonces db
     \<and> cd_operations db' = cd_operations db"
  "sql_acquire own key v a n now db = (st, db') \<Longrightarrow> cd_dispatches db' = cd_dispatches db \<and> cd_nonces db' = cd_nonces db
     \<and> cd_operations db' = cd_operations db"
  "sql_mark_applied own key v a n1 n2 db = (ok, db') \<Longrightarrow> cd_dispatches db' = cd_dispatches db \<and> cd_nonces db' = cd_nonces db
     \<and> cd_operations db' = cd_operations db"
  "sql_record_presence own own ws k n now db = (ok, db') \<Longrightarrow> cd_dispatches db' = cd_dispatches db \<and> cd_nonces db' = cd_nonces db
     \<and> cd_replays db' = cd_replays db \<and> cd_operations db' = cd_operations db"
  by (auto simp add: sql_claim_def sql_acquire_def sql_mark_applied_def sql_record_presence_def update_replay_def
      split: prod.splits option.splits if_splits)

lemma sql_consume_cases:
  assumes "sql_consume_nonce own tenant ws k nonce route body issued now db = (ok, db')"
  shows "\<not> ok \<and> db' = db \<or> (\<exists>key w. ok \<and> tenant = own \<and> find_credential tenant ws k db = Some (key, w) \<and> credential_live key w now
     \<and> length (kr_public key) = 32 \<and> key_in_time key issued \<and> now - seconds 60 \<le> issued \<and> issued \<le> now + seconds 30
     \<and> \<not> has_nonce tenant ws k nonce db
     \<and> db' = db\<lparr>cd_nonces := cd_nonces db @ [\<lparr>nr_tenant = tenant, nr_ws = ws, nr_key = k, nr_nonce = nonce, nr_route = route,
          nr_body = body, nr_issued = issued, nr_consumed = now\<rparr>]\<rparr>)"
  using assms by (auto simp add: sql_consume_nonce_def in_scope_def split: option.splits if_splits)

interpretation nonces: kept_by_calls "has_nonce tenant ws k nonce"
  by unfold_locales (auto simp add: has_nonce_def dest!: sql_tables sql_consume_cases insert_dispatch_cases(1))

interpretation rows: kept_by_calls "\<lambda>db. find_row key db = Some r"
  by unfold_locales (auto simp add: find_row_def find_snoc dest!: sql_tables sql_consume_cases insert_dispatch_cases(1))

section \<open>Requests\<close>

lemma consume_request_nonce_Inr:
  "consume_request_nonce own f now tenant ws k nonce route body issued db = (Inr ok, db') \<Longrightarrow>
     tenant = own \<and> sql_consume_nonce own own ws k nonce route body issued now db = (ok, db')"
  by (auto simp add: consume_request_nonce_def bindS_eq_Inr with_cursor_Inr require_tenant_def bindR_eq_Inr)

lemma resolve_public_key_Inr:
  "resolve_public_key own f now tenant ws k db = (Inr found, db') \<Longrightarrow> db' = db \<and> tenant = own
     \<and> (\<forall>public. found = Some public \<longrightarrow> (\<exists>key w. find_credential own ws k db = Some (key, w) \<and> credential_live key w now \<and> public = kr_public key))"
  by (auto simp add: resolve_public_key_def bindS_eq_Inr with_cursor_Inr require_tenant_def bindR_eq_Inr live_key_def
      split: option.splits if_splits)

lemma authenticate_durable:
  assumes st: "au_store au = credentials_of f1 n1 f2 n2"
    and out: "authenticate au headers body method route clk db = (Inr (w, p), db')"
  shows "\<exists>key station payload. find_credential (rp_tenant p) (rp_device p) (rp_key p) db = Some (key, station)
     \<and> credential_live key station n1 \<and> proof_signing_bytes (au_stamp au) p method route = Inr payload
     \<and> verify_with_keys (au_ed25519 au) (Inr [kr_public key]) payload (rp_signature p) = Inr True
     \<and> sql_consume_nonce (rp_tenant p) (rp_tenant p) (rp_device p) (rp_key p) (rp_nonce p) route (rp_body p) (rp_issued p) n2 db = (True, db')"
  using out unfolding authenticate_def catchS_raise_eq_Inr
  by (auto simp add: bindS_eq_Inr st credentials_of_def auth_check_def bindR_eq_Inr
      dest!: resolve_public_key_Inr consume_request_nonce_Inr)

text \<open>
  C17: A request the gateway authenticates against its database carries a
  signature, over exactly this method and route, by a key that is enrolled for this workstation and
  live (enabled, not revoked, in its validity, on an enabled workstation) both when it is looked up
  and when the nonce is spent; the key was valid when the request was issued, at most a minute ago
  by the clock of the database; and its nonce was not spent before and is spent now.
\<close>

theorem authenticated_by_live_key:
  assumes st: "au_store au = credentials_of f1 n1 f2 n2"
    and out: "authenticate au headers body method route clk db = (Inr (w, p), db')"
  shows "\<exists>key station payload. find_credential (rp_tenant p) (rp_device p) (rp_key p) db = Some (key, station)
     \<and> credential_live key station n1 \<and> credential_live key station n2 \<and> key_in_time key (rp_issued p)
     \<and> n2 - seconds 60 \<le> rp_issued p \<and> rp_issued p \<le> n2 + seconds 30
     \<and> proof_signing_bytes (au_stamp au) p method route = Inr payload
     \<and> verify_with_keys (au_ed25519 au) (Inr [kr_public key]) payload (rp_signature p) = Inr True
     \<and> \<not> has_nonce (rp_tenant p) (rp_device p) (rp_key p) (rp_nonce p) db
     \<and> has_nonce (rp_tenant p) (rp_device p) (rp_key p) (rp_nonce p) db'"
  using authenticate_durable[OF assms] by (auto simp add: has_nonce_def dest!: sql_consume_cases)

text \<open>
  C14: After a request was authenticated, no request with the same key and
  nonce ever is, whatever all the gateways do with the database in between, with whatever failures,
  and even when keys are enrolled, revoked or replaced.
\<close>

theorem request_authenticated_once:
  assumes st: "au_store au = credentials_of f1 n1 f2 n2" and st': "au_store au' = credentials_of f3 n3 f4 n4"
    and first: "authenticate au headers body method route clk db = (Inr (w, p), db1)"
    and runs: "control_runs cf trace db1 db2"
    and second: "authenticate au' headers' body' method' route' clk' db2 = (Inr (w', p'), db3)"
  shows "(rp_tenant p', rp_device p', rp_key p', rp_nonce p') \<noteq> (rp_tenant p, rp_device p, rp_key p, rp_nonce p)"
proof -
  have "has_nonce (rp_tenant p) (rp_device p) (rp_key p) (rp_nonce p) db1"
    using authenticate_durable[OF st first] by (auto simp add: has_nonce_def dest!: sql_consume_cases)
  from nonces.runs[OF runs this] have "has_nonce (rp_tenant p) (rp_device p) (rp_key p) (rp_nonce p) db2" .
  moreover have "\<not> has_nonce (rp_tenant p') (rp_device p') (rp_key p') (rp_nonce p') db2"
    using authenticate_durable[OF st' second] by (auto dest!: sql_consume_cases)
  ultimately show ?thesis by auto
qed

section \<open>Dispatches\<close>

lemma validated_dispatch_Inr: "validated_dispatch cf own d = Inr d' \<Longrightarrow> d' = d \<and> valid_correlation (sd_correlation d)"
  by (auto simp add: validated_dispatch_def bindR_eq_Inr)

lemma store_dispatch_row:
  assumes "store_dispatch cf own f d db = (Inr d', db')"
  shows "d' = d \<and> valid_correlation (sd_correlation d) \<and> (let c = sd_correlation d in
    \<exists>r. find_row (own, dc_device c, dc_task c, dc_operation c) db' = Some r \<and> dispatch_from_row cf own r = Inr d)"
proof -
  let ?c = "sd_correlation d" and ?r = "dispatch_row_of own d"
  have key: "dispatch_key ?r = (own, dc_device ?c, dc_task ?c, dc_operation ?c)"
    by (simp add: dispatch_row_of_def dispatch_key_def Let_def)
  from assms have v: "validated_dispatch cf own d = Inr d"
    by (auto simp add: store_dispatch_def bindS_eq_Inr dest: validated_dispatch_Inr)
  with assms obtain inserted db1 row where i: "insert_dispatch ?r db = (Inr inserted, db1)"
    and row: "(case inserted of Some row \<Rightarrow> ret row
           | None \<Rightarrow> bindS (read_sql (find_row (own, dc_device ?c, dc_task ?c, dc_operation ?c))) (\<lambda>found.
               case found of None \<Rightarrow> raise (ControlRepositoryError ''dispatch_conflict'') | Some row \<Rightarrow> ret row)) db1 = (Inr row, db')"
    and fr: "dispatch_from_row cf own row = Inr d" "d' = d"
    unfolding store_dispatch_def
    by (auto simp add: bindS_eq_Inr with_cursor_Inr Let_def)
  have "find_row (own, dc_device ?c, dc_task ?c, dc_operation ?c) db' = Some row"
  proof (cases inserted)
    case None
    with row show ?thesis by (auto simp add: bindS_eq_Inr split: option.splits)
  next
    case (Some x)
    with i insert_dispatch_cases(1)[of ?r db x db1] row key show ?thesis
      by (auto simp add: find_row_def find_snoc)
  qed
  with fr validated_dispatch_Inr[OF v] show ?thesis by (auto simp add: Let_def)
qed

text \<open>
  C15: A dispatch the gateway stored, or had stored before, is found under its
  workstation, task and operation ever after, exactly as it was signed, with its correlation; so a
  start or a result is always checked against what was sent.
\<close>

theorem stored_dispatch_is_kept:
  assumes stored: "store_dispatch cf own f d db = (Inr d', db1)" and runs: "control_runs cf trace db1 db2"
  shows "d' = d \<and> get_dispatch cf own Commits (dc_device (sd_correlation d)) (dc_task (sd_correlation d)) (dc_operation (sd_correlation d)) db2
    = (Inr (Some d), db2)"
proof -
  let ?c = "sd_correlation d"
  from store_dispatch_row[OF stored] obtain r where d: "d' = d" and v: "valid_correlation ?c"
    and r: "find_row (own, dc_device ?c, dc_task ?c, dc_operation ?c) db1 = Some r" "dispatch_from_row cf own r = Inr d"
    by (auto simp add: Let_def)
  note kept = rows.runs[OF runs r(1)]
  from v have "workstation_id_ok (dc_device ?c)" "remote_task_id (dc_task ?c)" "operation_id_ok (dc_operation ?c)"
    by (simp_all add: valid_correlation_def correlation_fields_ok_def remote_device_id_def remote_operation_id_def
        workstation_id_ok_def operation_id_ok_def opaque_id_any)
  with d kept r(2) show ?thesis
    by (simp add: get_dispatch_def bindS_liftR checked_identifier_def control_error_def with_cursor_def bindS_def)
qed

lemma built_dispatch_validated:
  assumes built: "build_dispatch da oper clk uuid1 uuid2 nonce = Inr d"
    and cf: "cf_sha256 cf = da_sha256 da" "cf_stamp cf = da_stamp da"
  shows "validated_dispatch cf (o_tenant oper) d = Inr d \<and> dispatch_checks (dispatch_row_of (o_tenant oper) d)
    \<and> dispatch_from_row cf (o_tenant oper) (dispatch_row_of (o_tenant oper) d) = Inr d"
proof -
  from build_dispatch_ok[OF built] obtain now lease command sig body where
    e: "sd_envelope d = utc_times (dispatch_values da oper command now (min lease (now + max_task_lifetime)) uuid1 uuid2 nonce sig)
         now (min lease (now + max_task_lifetime))" "valid_task_envelope (sd_envelope d)"
      "task_signing_bytes (da_stamp da) (sd_envelope d) = Inr body"
    and c: "sd_correlation d = correlation_of da (sd_envelope d) body (o_expires oper)" "valid_correlation (sd_correlation d)" by blast
  have t: "te_tenant (sd_envelope d) = o_tenant oper" "te_policy (sd_envelope d) = da_policy da"
    unfolding e(1) by (simp_all add: utc_times_def dispatch_values_def)
  have m: "dispatch_matches (o_tenant oper) d" "dc_sha256 (sd_correlation d) = hexdigest (da_sha256 da body)"
    unfolding dispatch_matches_def Let_def c(1) by (simp_all add: correlation_of_def t)
  have v: "validated_dispatch cf (o_tenant oper) d = Inr d"
    using e(2,3) c(2) m cf by (simp add: validated_dispatch_def control_error_def)
  have r: "envelope_identity (dispatch_row_of (o_tenant oper) d)" "correlation_identity (dispatch_row_of (o_tenant oper) d)"
    unfolding envelope_identity_def correlation_identity_def dispatch_row_of_def Let_def c(1) by (simp_all add: correlation_of_def t)
  have "0 < dc_policy (sd_correlation d)" "dc_issued (sd_correlation d) < dc_dispatch_expires (sd_correlation d)"
    "dc_dispatch_expires (sd_correlation d) \<le> dc_operation_expires (sd_correlation d)"
    "te_command (sd_envelope d) = dc_command (sd_correlation d)"
    using c by (auto simp add: valid_correlation_def correlation_fields_ok_def policy_version_ok_def correlation_deadlines_def
        correlation_of_def split: if_splits)
  with r have "dispatch_checks (dispatch_row_of (o_tenant oper) d)"
    by (simp add: dispatch_checks_def) (simp add: dispatch_row_of_def Let_def)
  moreover have "\<lparr>sd_envelope = dr_envelope (dispatch_row_of (o_tenant oper) d),
      sd_correlation = dr_correlation (dispatch_row_of (o_tenant oper) d)\<rparr> = d"
    by (simp add: dispatch_row_of_def Let_def)
  then have "dispatch_from_row cf (o_tenant oper) (dispatch_row_of (o_tenant oper) d) = Inr d"
    using v r(2) by (simp add: dispatch_from_row_def control_error_def)
  ultimately show ?thesis using v by blast
qed

text \<open>So what the gateway issues for a stored operation, under new ids, it can store.\<close>

lemma built_dispatch_stored:
  assumes built: "build_dispatch da oper clk uuid1 uuid2 nonce = Inr d"
    and cf: "cf_sha256 cf = da_sha256 da" "cf_stamp cf = da_stamp da" "cf_storable cf d"
    and known: "(o_tenant oper, o_id oper, o_ws oper, o_owner oper, o_idem oper) \<in> set (cd_operations db)"
    and new: "find_row (dispatch_key (dispatch_row_of (o_tenant oper) d)) db = None"
      "find_replay_dispatch (replay_identity (dispatch_row_of (o_tenant oper) d)) db = None"
  shows "store_dispatch cf (o_tenant oper) Commits d db
    = (Inr d, db\<lparr>cd_dispatches := cd_dispatches db @ [dispatch_row_of (o_tenant oper) d]\<rparr>)"
proof -
  let ?r = "dispatch_row_of (o_tenant oper) d"
  note v = built_dispatch_validated[OF built cf(1,2)]
  from build_dispatch_ok[OF built] obtain now lease command sig body where
    e: "sd_envelope d = utc_times (dispatch_values da oper command now (min lease (now + max_task_lifetime)) uuid1 uuid2 nonce sig)
         now (min lease (now + max_task_lifetime))"
    and c: "sd_correlation d = correlation_of da (sd_envelope d) body (o_expires oper)" by blast
  have "(dr_tenant ?r, dr_operation ?r, dr_ws ?r, dr_user ?r, dr_idem ?r) = (o_tenant oper, o_id oper, o_ws oper, o_owner oper, o_idem oper)"
    unfolding dispatch_row_of_def Let_def c e by (simp add: correlation_of_def utc_times_def dispatch_values_def)
  with known new v have "insert_dispatch ?r db = (Inr (Some ?r), db\<lparr>cd_dispatches := cd_dispatches db @ [?r]\<rparr>)"
    by (simp add: insert_dispatch_def)
  with v cf(3) show ?thesis
    by (simp add: store_dispatch_def bindS_liftR with_cursor_def Let_def bindS_def)
qed

section \<open>The tables are consistent\<close>

definition nonce_key :: "request_nonce_row \<Rightarrow> string \<times> string \<times> string \<times> string" where
  "nonce_key n = (nr_tenant n, nr_ws n, nr_key n, nr_nonce n)"

text \<open>
  A replay belongs to a dispatch, was completed in its window, and is applied only by an application.
\<close>

definition replay_of_dispatch :: "replay_row \<Rightarrow> dispatch_row \<Rightarrow> bool" where
  "replay_of_dispatch r d \<longleftrightarrow> (case (pr_key r, pr_value r) of ((tenant, ws, nonce), (task, command, sha, completed)) \<Rightarrow>
     replay_identity d = (tenant, ws, task, command, nonce)
     \<and> dr_issued d - seconds 30 \<le> completed \<and> completed \<le> dr_operation_expires d)"

definition replay_row_ok :: "control_db \<Rightarrow> replay_row \<Rightarrow> bool" where
  "replay_row_ok db r \<longleftrightarrow> (\<exists>d \<in> set (cd_dispatches db). replay_of_dispatch r d) \<and> (pr_applied r \<noteq> None \<longrightarrow> pr_application r \<noteq> None)"

definition request_nonce_ok :: "request_nonce_row \<Rightarrow> bool" where
  "request_nonce_ok n \<longleftrightarrow> nr_consumed n - seconds 60 \<le> nr_issued n \<and> nr_issued n \<le> nr_consumed n + seconds 30"

definition dispatch_row_ok :: "control_db \<Rightarrow> dispatch_row \<Rightarrow> bool" where
  "dispatch_row_ok db d \<longleftrightarrow> dispatch_checks d \<and> (dr_tenant d, dr_operation d, dr_ws d, dr_user d, dr_idem d) \<in> set (cd_operations db)"

definition control_consistent :: "control_db \<Rightarrow> bool" where
  "control_consistent db \<longleftrightarrow> distinct (map dispatch_key (cd_dispatches db)) \<and> distinct (map replay_identity (cd_dispatches db))
     \<and> (\<forall>d \<in> set (cd_dispatches db). dispatch_row_ok db d)
     \<and> distinct (map pr_key (cd_replays db)) \<and> (\<forall>r \<in> set (cd_replays db). replay_row_ok db r)
     \<and> distinct (map nonce_key (cd_nonces db)) \<and> (\<forall>n \<in> set (cd_nonces db). request_nonce_ok n)"

lemma find_None_map: "find (\<lambda>r. f r = k) xs = None \<longleftrightarrow> k \<notin> f ` set xs"
  by (auto simp add: find_None_iff)

lemma map_pr_key_update:
  assumes "\<And>r. pr_key (f r) = pr_key r"
  shows "map pr_key (cd_replays (update_replay key f db)) = map pr_key (cd_replays db)"
  unfolding update_replay_def using assms by simp

lemma consistent_insert:
  assumes "control_consistent db" and "insert_dispatch r db = (Inr (Some x), db')"
  shows "control_consistent db'"
proof -
  from insert_dispatch_cases(1)[OF assms(2)] have r: "db' = db\<lparr>cd_dispatches := cd_dispatches db @ [r]\<rparr>" "dispatch_checks r"
    "dispatch_key r \<notin> dispatch_key ` set (cd_dispatches db)" "replay_identity r \<notin> replay_identity ` set (cd_dispatches db)"
    "(dr_tenant r, dr_operation r, dr_ws r, dr_user r, dr_idem r) \<in> set (cd_operations db)"
    by (simp_all add: find_row_def find_replay_dispatch_def find_None_map)
  with assms(1) show ?thesis
    by (auto simp add: control_consistent_def dispatch_row_ok_def replay_row_ok_def)
qed

lemma consistent_claim:
  assumes c: "control_consistent db" and run: "sql_claim own key v limit n1 n2 n3 db = (q, db')"
  shows "control_consistent db'"
proof -
  obtain tenant ws nonce task command sha completed where kv: "key = (tenant, ws, nonce)" "v = (task, command, sha, completed)"
    by (metis prod.exhaust)
  from run have "db' = db \<or> (find_replay key db = None \<and> db' = db\<lparr>cd_replays := cd_replays db @ [new_replay key v]\<rparr>
      \<and> (\<exists>d. find_replay_dispatch (tenant, ws, task, command, nonce) db = Some d
          \<and> dr_issued d - seconds 30 \<le> completed \<and> completed \<le> dr_operation_expires d))"
    by (auto simp add: sql_claim_def kv split: option.splits if_splits)
  then show ?thesis
  proof (elim disjE conjE exE)
    fix d
    assume n: "find_replay key db = None" and t: "db' = db\<lparr>cd_replays := cd_replays db @ [new_replay key v]\<rparr>"
      and d: "find_replay_dispatch (tenant, ws, task, command, nonce) db = Some d"
      and w: "dr_issued d - seconds 30 \<le> completed" "completed \<le> dr_operation_expires d"
    from d have "d \<in> set (cd_dispatches db)" "replay_identity d = (tenant, ws, task, command, nonce)"
      by (auto simp add: find_replay_dispatch_def find_Some_iff)
    with w have "replay_row_ok db (new_replay key v)" by (auto simp add: replay_row_ok_def replay_of_dispatch_def kv)
    moreover have "key \<notin> pr_key ` set (cd_replays db)" using n by (simp add: find_replay_def find_None_map)
    ultimately show ?thesis using c
      by (auto simp add: control_consistent_def t replay_row_ok_def dispatch_row_ok_def)
  qed (simp add: c)
qed

lemma consistent_update:
  assumes c: "control_consistent db" and f: "\<And>r. pr_key (f r) = pr_key r" "\<And>r. pr_value (f r) = pr_value r"
    and app: "\<And>r. r \<in> set (cd_replays db) \<Longrightarrow> pr_key r = key \<Longrightarrow> pr_applied (f r) \<noteq> None \<Longrightarrow> pr_application (f r) \<noteq> None"
  shows "control_consistent (update_replay key f db)"
proof -
  have "replay_row_ok (update_replay key f db) r'" if "r' \<in> set (cd_replays (update_replay key f db))" for r'
    using that c app by (auto simp add: update_replay_def control_consistent_def replay_row_ok_def replay_of_dispatch_def f)
  moreover have "distinct (map pr_key (cd_replays (update_replay key f db)))"
    using c map_pr_key_update[of f key db] f(1) by (simp add: control_consistent_def)
  ultimately show ?thesis using c by (simp add: control_consistent_def update_replay_def dispatch_row_ok_def)
qed

lemma consistent_mark:
  assumes c: "control_consistent db" and run: "sql_mark_applied own key v a n1 n2 db = (ok, db')"
  shows "control_consistent db'"
proof -
  let ?f = "\<lambda>r. r\<lparr>pr_applied := Some (case pr_applied r of Some t \<Rightarrow> t | None \<Rightarrow> n2)\<rparr>"
  from run have "db' = db \<or> (db' = update_replay key ?f db
      \<and> (\<exists>r. find_replay key db = Some r \<and> (pr_applied r \<noteq> None \<or> pr_application r \<noteq> None)))"
    by (auto simp add: sql_mark_applied_def held_by_def split: option.splits if_splits)
  then show ?thesis
  proof (elim disjE[of "db' = db"] conjE exE)
    fix r
    assume t: "db' = update_replay key ?f db" and r: "find_replay key db = Some r" and h: "pr_applied r \<noteq> None \<or> pr_application r \<noteq> None"
    from r have m: "r \<in> set (cd_replays db)" "pr_key r = key" by (auto simp add: find_replay_def find_Some_iff)
    with c h have a: "pr_application r \<noteq> None" by (auto simp add: control_consistent_def replay_row_ok_def)
    have "r' = r" if "r' \<in> set (cd_replays db)" "pr_key r' = key" for r'
      using c m that by (auto simp add: control_consistent_def distinct_map inj_on_def)
    then show ?thesis unfolding t using a by (intro consistent_update[OF c]) auto
  qed (simp add: c)
qed

lemma consistent_acquire:
  assumes c: "control_consistent db" and run: "sql_acquire own key v a n now db = (st, db')"
  shows "control_consistent db'"
proof -
  let ?f = "\<lambda>r. r\<lparr>pr_application := Some (a, now + seconds n)\<rparr>"
  from run have "db' = db \<or> db' = update_replay key ?f db" by (auto simp add: sql_acquire_def split: option.splits if_splits)
  with consistent_update[OF c, of ?f key] c show ?thesis by auto
qed

lemma consistent_consume:
  assumes c: "control_consistent db" and run: "sql_consume_nonce own own ws k nonce route body issued now db = (ok, db')"
  shows "control_consistent db'"
  using sql_consume_cases[OF run] c
  by (auto simp add: control_consistent_def request_nonce_ok_def nonce_key_def has_nonce_def list_ex_iff dispatch_row_ok_def replay_row_ok_def)

lemma consistent_same:
  "cd_operations db' = cd_operations db \<Longrightarrow> cd_dispatches db' = cd_dispatches db \<Longrightarrow> cd_replays db' = cd_replays db \<Longrightarrow>
    cd_nonces db' = cd_nonces db \<Longrightarrow> control_consistent db \<Longrightarrow> control_consistent db'"
  by (simp add: control_consistent_def dispatch_row_ok_def replay_row_ok_def)

interpretation tables: kept_by_calls control_consistent
proof unfold_locales
  show "control_consistent db \<Longrightarrow> control_consistent (db\<lparr>cd_keys := keys, cd_stations := stations\<rparr>)" for db keys stations
    by (rule consistent_same[of _ db]) simp_all
  show "control_consistent db \<Longrightarrow> sql_record_presence own own ws k n now db = (ok, db') \<Longrightarrow> control_consistent db'"
    for db own ws k n now ok db'
    using sql_tables(4) consistent_same by metis
qed (fact consistent_insert consistent_claim consistent_acquire consistent_mark consistent_consume)+

text \<open>
  C23: Whatever the repositories are called for, from tables that satisfy
  it: dispatches and nonces are unique by all their keys; every dispatch is that of a stored
  operation and agrees with its signed envelope and its correlation; every claimed result is one
  of a dispatch of the same tenant, workstation, task, command and nonce and was completed in its
  window; no result is applied without an application; and every request nonce was issued within
  its window.
\<close>

theorem control_tables_consistent:
  assumes "control_runs cf trace db db'" and "control_consistent db"
  shows "control_consistent db'"
  using assms by (rule tables.runs)

section \<open>Examples\<close>

definition sample_row :: dispatch_row where
  "sample_row = dispatch_row_of tid \<lparr>sd_envelope = sample_task, sd_correlation = sample_correlation\<rparr>"

definition sample_key_row :: key_row where
  "sample_key_row = \<lparr>kr_tenant = tid, kr_ws = wid, kr_key = sample_key_id, kr_algorithm = ''ed25519'', kr_public = replicate 32 1,
     kr_enabled = True, kr_not_before = 0, kr_expires = None, kr_revoked = None\<rparr>"

definition sample_db :: control_db where
  "sample_db = \<lparr>cd_operations = [(tid, o_id sample_leased, wid, uid, o_idem sample_leased)], cd_dispatches = [sample_row],
     cd_replays = [], cd_keys = [sample_key_row],
     cd_stations = [\<lparr>sr_tenant = tid, sr_ws = wid, sr_enabled = True, sr_online = False, sr_last_seen = None, sr_presence = None\<rparr>],
     cd_nonces = []\<rparr>"

definition sample_format :: control_format where
  "sample_format = \<lparr>cf_sha256 = (\<lambda>_. replicate 32 7), cf_stamp = dec_int, cf_storable = (\<lambda>_. True)\<rparr>"

definition sample_guard_inputs :: guard_inputs where
  "sample_guard_inputs = \<lparr>gi_classify = Commits, gi_claim = Commits, gi_claim_now = (21, 21, 21), gi_acquire = Commits,
     gi_acquire_now = 22, gi_mark = Commits, gi_mark_now = (24, 24)\<rparr>"

definition application_a :: string where "application_a = uuid_tail CHR ''a''"

definition application_b :: string where "application_b = uuid_tail CHR ''b''"

definition claimed_db :: control_db where
  "claimed_db = sample_db\<lparr>cd_replays := [\<lparr>pr_key = sample_key, pr_value = sample_value,
     pr_application = Some (application_a, 22 + seconds 30), pr_applied = None\<rparr>]\<rparr>"

lemma sample_mark: "control_do sample_format tid (MarkCall Commits 24 25 sample_key sample_value application_a) claimed_db
    = (BoolReply (Inr True), claimed_db\<lparr>cd_replays := [\<lparr>pr_key = sample_key, pr_value = sample_value,
     pr_application = Some (application_a, 22 + seconds 30), pr_applied = Some 25\<rparr>]\<rparr>)"
proof -
  have p: "replay_parameters tid sample_key sample_value = Inr ()" "uuid_version4 application_a" "tid \<noteq> []" "fst sample_key = tid"
    by code_simp+
  show ?thesis
    by (simp add: control_mark_applied_def bindS_liftR p(1,2) control_error_def with_cursor_def call_sql_def sql_mark_applied_def
        in_scope_def p(3,4) find_replay_def claimed_db_def held_by_def seconds_def update_replay_def)
qed

lemma sample_busy: "control_do sample_format tid (AcquireCall Commits 23 sample_key sample_value application_b 30) claimed_db
    = (StatusReply (Inr ApplicationBusy), claimed_db)"
proof -
  have p: "replay_parameters tid sample_key sample_value = Inr ()" "uuid_version4 application_b" "tid \<noteq> []" "fst sample_key = tid"
    "application_a \<noteq> application_b"
    by code_simp+
  show ?thesis
    by (simp add: control_acquire_def bindS_liftR p(1,2) control_error_def with_cursor_def call_sql_def sql_acquire_def
        in_scope_def p(3,4,5) find_replay_def claimed_db_def held_by_other_def seconds_def)
qed

lemma sample_history:
  "\<exists>db'. control_runs sample_format [(tid, AcquireCall Commits 23 sample_key sample_value application_b 30, StatusReply (Inr ApplicationBusy)),
     (tid, MarkCall Commits 24 25 sample_key sample_value application_a, BoolReply (Inr True))] claimed_db db'
     \<and> applied_in db' sample_key"
proof -
  have "applied_in (claimed_db\<lparr>cd_replays := [\<lparr>pr_key = sample_key, pr_value = sample_value,
     pr_application = Some (application_a, 22 + seconds 30), pr_applied = Some 25\<rparr>]\<rparr>) sample_key"
    by (simp add: applied_in_def find_replay_def)
  with runs_call[OF sample_busy runs_call[OF sample_mark runs_nil]] show ?thesis by blast
qed

theorem durable_guard_refines_register_witness:
  "\<exists>trace t. length trace = 2 \<and> register_runs trace (register_of claimed_db) t \<and> rg_done t sample_key"
proof -
  obtain db' where h: "control_runs sample_format [(tid, AcquireCall Commits 23 sample_key sample_value application_b 30, StatusReply (Inr ApplicationBusy)),
     (tid, MarkCall Commits 24 25 sample_key sample_value application_a, BoolReply (Inr True))] claimed_db db'"
    "applied_in db' sample_key" using sample_history by blast
  from durable_guard_refines_register[OF h(1)] h(2) show ?thesis
    by (intro exI conjI) (auto simp add: register_of_def)
qed


definition control_authenticator :: "control_db authenticator" where
  "control_authenticator = \<lparr>au_store = credentials_of Commits 45 Commits 50, au_max_age = seconds 60, au_future_skew = seconds 30,
     au_sha256 = (\<lambda>_. replicate 32 7), au_stamp = dec_int,
     au_parse_time = (\<lambda>s. if s = dec_int 40 then Inr (OffsetTime 0 40) else Inl (ValueError ''time'')),
     au_ed25519 = \<lparr>ed_verify = (\<lambda>_ d _. Inr (d = replicate 64 0)), load_pem = (\<lambda>_. Inr None)\<rparr>\<rparr>"

lemma sample_credential: "find_credential tid wid sample_key_id sample_db = Some (sample_key_row,
    \<lparr>sr_tenant = tid, sr_ws = wid, sr_enabled = True, sr_online = False, sr_last_seen = None, sr_presence = None\<rparr>)"
  by (simp add: find_credential_def find_key_def find_station_def sample_db_def sample_key_row_def)

lemma sample_live: "credential_live sample_key_row \<lparr>sr_tenant = tid, sr_ws = wid, sr_enabled = True, sr_online = False,
    sr_last_seen = None, sr_presence = None\<rparr> at \<longleftrightarrow> 0 \<le> at"
  by (simp add: credential_live_def key_in_time_def sample_key_row_def)

lemma control_authenticated:
  "\<exists>db'. authenticate control_authenticator (to_headers dec_int signed_proof) [] ''POST'' (worker_routes ! 0) (Aware 50) sample_db =
     (Inr (\<lparr>w_tenant = tid, w_ws = wid\<rparr>, signed_proof), db')"
proof -
  obtain b where b: "canonical_wire (proof_json dec_int signed_proof ''POST'' (worker_routes ! 0)) = Inr b"
    using canonical_wire_total[of "proof_json dec_int signed_proof ''POST'' (worker_routes ! 0)"]
    by (auto simp add: proof_json_def)
  have ne: "b \<noteq> []"
    using b by (auto simp add: canonical_wire_def utf8_encode_def proof_json_def codes_def utf8_char_def split: if_splits)
  have p: "parse_request_proof (au_parse_time control_authenticator) (to_headers dec_int signed_proof) = Inr signed_proof"
    using signed_proof_fields(1)
    by (simp add: parse_request_proof_def headers_lookup worker_request_proof_def require_utc_def proof_fields_ok_def
        control_authenticator_def signed_proof_def)
  have v: "verify_with_keys (au_ed25519 control_authenticator) (Inr [replicate 32 1]) b (replicate 86 CHR ''A'') = Inr True"
    using ne by (simp add: verify_with_keys_def signed_proof_fields(4) map_sum_def try_key_def control_authenticator_def)
  have f: "tid \<noteq> []" "worker_key_id sample_key_id" "nonce_pattern (replicate 22 CHR ''n'')" "sha256_hex (hexdigest (replicate 32 7))"
    "List.member worker_routes (worker_routes ! 0)"
    by code_simp+
  have k: "kr_tenant sample_key_row = tid" "kr_ws sample_key_row = wid" "kr_key sample_key_row = sample_key_id"
    "kr_public sample_key_row = replicate 32 1" by (simp_all add: sample_key_row_def)
  have rk: "resolve_public_key tid Commits 45 tid wid sample_key_id sample_db = (Inr (Some (replicate 32 1)), sample_db)"
    by (simp add: resolve_public_key_def bindS_liftR require_tenant_def checked_identifier_def control_error_def f signed_proof_fields
        with_cursor_def bindS_def live_key_def sample_credential sample_live k)
  have "\<exists>db'. consume_request_nonce tid Commits 50 tid wid sample_key_id (replicate 22 CHR ''n'') (worker_routes ! 0)
      (hexdigest (replicate 32 7)) 40 sample_db = (Inr True, db')"
    using f by (simp add: consume_request_nonce_def bindS_liftR require_tenant_def checked_identifier_def control_error_def signed_proof_fields
        with_cursor_def call_sql_def sql_consume_nonce_def in_scope_def sample_credential sample_live k)
      (simp add: key_in_time_def sample_key_row_def has_nonce_def sample_db_def seconds_def)
  then obtain db' where cn: "consume_request_nonce tid Commits 50 tid wid sample_key_id (replicate 22 CHR ''n'') (worker_routes ! 0)
      (hexdigest (replicate 32 7)) 40 sample_db = (Inr True, db')" by blast
  have a: "au_store control_authenticator tid = ret \<lparr>cs_resolve = resolve_public_key tid Commits 45, cs_consume = consume_request_nonce tid Commits 50\<rparr>"
    "au_max_age control_authenticator = seconds 60" "au_future_skew control_authenticator = seconds 30"
    "au_sha256 control_authenticator = (\<lambda>_. replicate 32 7)" "au_stamp control_authenticator = dec_int"
    by (simp_all add: control_authenticator_def credentials_of_def control_repository_init_def control_error_def signed_proof_fields
        bindS_def fun_eq_iff)
  have s: "rp_tenant signed_proof = tid" "rp_device signed_proof = wid" "rp_key signed_proof = sample_key_id" "rp_issued signed_proof = 40"
    "rp_nonce signed_proof = replicate 22 CHR ''n''" "rp_body signed_proof = hexdigest (replicate 32 7)"
    "rp_signature signed_proof = replicate 86 CHR ''A''" by (simp_all add: signed_proof_def)
  have pb: "proof_signing_bytes dec_int signed_proof ''POST'' (worker_routes ! 0) = Inr b"
    using b by (simp add: proof_signing_bytes_def worker_routes_def)
  have w: "worker_context_of tid wid = Inr \<lparr>w_tenant = tid, w_ws = wid\<rparr>"
    using signed_proof_fields(2,3) by (simp add: worker_context_of_def)
  have "authenticate control_authenticator (to_headers dec_int signed_proof) [] ''POST'' (worker_routes ! 0) (Aware 50) sample_db =
     (Inr (\<lparr>w_tenant = tid, w_ws = wid\<rparr>, signed_proof), db')"
    by (simp add: authenticate_def catchS_def bindS_def auth_now_def auth_check_def in_proof_window_def p a s pb v[unfolded One_nat_def] w rk cn seconds_def)
  then show ?thesis by blast
qed

theorem authenticated_by_live_key_witness:
  "\<exists>db'. has_nonce tid wid sample_key_id (replicate 22 CHR ''n'') db' \<and> \<not> has_nonce tid wid sample_key_id (replicate 22 CHR ''n'') sample_db"
proof -
  obtain db' where a: "authenticate control_authenticator (to_headers dec_int signed_proof) [] ''POST'' (worker_routes ! 0) (Aware 50)
      sample_db = (Inr (\<lparr>w_tenant = tid, w_ws = wid\<rparr>, signed_proof), db')" using control_authenticated by blast
  have "au_store control_authenticator = credentials_of Commits 45 Commits 50" by (simp add: control_authenticator_def)
  from authenticated_by_live_key[OF this a] show ?thesis by (auto simp add: signed_proof_def)
qed

theorem request_authenticated_once_witness:
  "\<exists>db'. \<forall>r s db3. authenticate control_authenticator (to_headers dec_int signed_proof) [] ''POST'' (worker_routes ! 0) (Aware 50) db'
     = (r, db3) \<longrightarrow> r \<noteq> Inr (\<lparr>w_tenant = tid, w_ws = wid\<rparr>, signed_proof)"
proof -
  obtain db' where a: "authenticate control_authenticator (to_headers dec_int signed_proof) [] ''POST'' (worker_routes ! 0) (Aware 50)
      sample_db = (Inr (\<lparr>w_tenant = tid, w_ws = wid\<rparr>, signed_proof), db')" using control_authenticated by blast
  have st: "au_store control_authenticator = credentials_of Commits 45 Commits 50" by (simp add: control_authenticator_def)
  from request_authenticated_once[OF st st a runs_nil] show ?thesis by blast
qed

theorem stored_dispatch_is_kept_witness:
  "\<exists>d db. get_dispatch sample_format tid Commits (dc_device (sd_correlation d)) (dc_task (sd_correlation d))
     (dc_operation (sd_correlation d)) db = (Inr (Some d), db)"
proof -
  obtain d where d: "build_dispatch sample_adapter sample_leased (Aware 12) (uuid_tail CHR ''a'') (uuid_tail CHR ''c'') (replicate 22 CHR ''n'') = Inr d"
    using sample_dispatch by blast
  have o: "o_tenant sample_leased = tid" "o_owner sample_leased = uid" "o_ws sample_leased = wid" by code_simp+
  let ?db = "sample_db\<lparr>cd_dispatches := []\<rparr>"
  have "\<exists>db1. store_dispatch sample_format tid Commits d ?db = (Inr d, db1)"
    using built_dispatch_stored[OF d, of sample_format ?db]
    by (simp add: o sample_format_def sample_adapter_def find_row_def find_replay_dispatch_def sample_db_def)
  then obtain db1 where "store_dispatch sample_format tid Commits d ?db = (Inr d, db1)" by blast
  from stored_dispatch_is_kept[OF this runs_nil] show ?thesis by blast
qed

theorem control_tables_consistent_witness:
  "\<exists>db'. control_consistent db' \<and> cd_nonces db' = [] \<and> cd_dispatches db' \<noteq> []"
proof -
  obtain d where d: "build_dispatch sample_adapter sample_leased (Aware 12) (uuid_tail CHR ''a'') (uuid_tail CHR ''c'') (replicate 22 CHR ''n'') = Inr d"
    using sample_dispatch by blast
  have o: "o_tenant sample_leased = tid" "o_owner sample_leased = uid" "o_ws sample_leased = wid" by code_simp+
  let ?db = "sample_db\<lparr>cd_dispatches := []\<rparr>"
  have s: "store_dispatch sample_format tid Commits d ?db = (Inr d, ?db\<lparr>cd_dispatches := [dispatch_row_of tid d]\<rparr>)"
    using built_dispatch_stored[OF d, of sample_format ?db]
    by (simp add: o sample_format_def sample_adapter_def find_row_def find_replay_dispatch_def sample_db_def)
  have c: "control_do sample_format tid (StoreCall Commits d) ?db = (DispatchReply (Inr d), ?db\<lparr>cd_dispatches := [dispatch_row_of tid d]\<rparr>)"
    using s by simp
  have "control_consistent ?db" by (simp add: control_consistent_def sample_db_def)
  from control_tables_consistent[OF runs_call[OF c runs_nil] this] show ?thesis
    by (intro exI conjI) (auto simp add: sample_db_def)
qed

lemma durable_unseen:
  assumes "parse_result_payload (in_parse_result ing) p = Inr e" and "require_worker_context worker c = Inr ()"
    and "require_result_binding e c = Inr ()" and "control_classify own Commits (replay_key_of c) (replay_value_of ing c e) db = (Inr ReplayUnseen, db)"
    and "in_guard ing = durable_guard own sample_guard_inputs"
  shows "ingress_complete ing worker c p inp (s, db) = claim_new_result ing worker c e inp (s, db)"
  using assms
  by (simp add: ingress_complete_def as_result_invalid_def bindS_liftR bindS_def[of "guarded _"] guarded_run
      durable_guard_calls sample_guard_inputs_def)

definition durable_ingress :: "(gateway_repo, control_db) worker_ingress" where
  "durable_ingress = with_durable_guard sample_ingress tid sample_guard_inputs"

lemma durable_claims: "is_ok (fst (claim_new_result durable_ingress sample_worker sample_correlation sample_result sample_inputs
    (env_store, sample_db)))"
  unfolding durable_ingress_def sample_ingress_def sample_service_def by code_simp


end
