(* ===== verification/Gateway_Database.thy ===== *)
theory Gateway_Database
  imports Repository_Properties Control_Store
begin

text \<open>
  The tables of the gateway's catalog and operations and the rules the database enforces on them
  (services/gateway/migrations/0001\_gateway\_repository.sql as changed by 0004\_worker\_presence.sql
  and 0005\_translation\_tasks.sql), with the statements that PostgresGatewayRepository
  (postgres\_repository.py) runs on them. A table is a list of rows, a new row goes last. The domains
  repeat the field patterns of the records, which the repository checks before it writes.
\<close>

section \<open>Tables\<close>

record workstation_row =
  wr_record :: workstation_record
  wr_seen :: "instant option"
  wr_presence :: "instant option"

record event_row =
  ev_tenant :: string
  ev_operation :: string
  ev_from :: "operation_state option"
  ev_to :: operation_state
  ev_at :: instant

text \<open>The jsonb columns task and result are the objects they hold.\<close>

record gateway_db =
  gd_stations :: "workstation_row list"
  gd_projects :: "project_record list"
  gd_drawings :: "drawing_record list"
  gd_operations :: "operation_record list"
  gd_events :: "event_row list"

definition station_is :: "string \<Rightarrow> string \<Rightarrow> workstation_row \<Rightarrow> bool" where
  "station_is tenant k w \<longleftrightarrow> ws_tenant (wr_record w) = tenant \<and> ws_id (wr_record w) = k"

definition project_is :: "string \<Rightarrow> string \<Rightarrow> project_record \<Rightarrow> bool" where
  "project_is tenant k p \<longleftrightarrow> prj_tenant p = tenant \<and> prj_id p = k"

definition drawing_is :: "string \<Rightarrow> string \<Rightarrow> drawing_record \<Rightarrow> bool" where
  "drawing_is tenant k d \<longleftrightarrow> drw_tenant d = tenant \<and> drw_id d = k"

definition operation_is :: "string \<Rightarrow> string \<Rightarrow> operation_record \<Rightarrow> bool" where
  "operation_is tenant k r \<longleftrightarrow> o_tenant r = tenant \<and> o_id r = k"

text \<open>A workstation is read as online while its presence lasts.\<close>

definition present_at :: "instant \<Rightarrow> workstation_row \<Rightarrow> bool" where
  "present_at now w \<longleftrightarrow> ws_online (wr_record w) \<and> wr_seen w \<noteq> None
     \<and> (case wr_presence w of None \<Rightarrow> False | Some until \<Rightarrow> until > now)"

definition read_station :: "instant \<Rightarrow> workstation_row \<Rightarrow> workstation_record" where
  "read_station now w = (wr_record w)\<lparr>ws_online := present_at now w\<rparr>"

section \<open>Catalog statements\<close>

text \<open>
  INSERT ... ON CONFLICT (key) DO UPDATE SET ... WHERE ... RETURNING: the new row, the row as
  changed, or none.
\<close>

definition upsert_row :: "('a \<Rightarrow> bool) \<Rightarrow> ('a \<Rightarrow> bool) \<Rightarrow> ('a \<Rightarrow> 'a) \<Rightarrow> 'a \<Rightarrow> 'a list \<Rightarrow> 'a option \<times> 'a list" where
  "upsert_row same_key allowed change new rows = (case find same_key rows of
     None \<Rightarrow> (Some new, rows @ [new])
   | Some old \<Rightarrow> if allowed old then (Some (change old), map (\<lambda>r. if same_key r then change r else r) rows)
       else (None, rows))"

definition upsert_station :: "workstation_record \<Rightarrow> (gateway_db, workstation_row option) py" where
  "upsert_station w = (\<lambda>db. case upsert_row (station_is (ws_tenant w) (ws_id w))
       (\<lambda>old. ws_owner (wr_record old) = ws_owner w)
       (\<lambda>old. old\<lparr>wr_record := (wr_record old)\<lparr>ws_name := ws_name w, ws_enabled := ws_enabled w, ws_online := ws_online w\<rparr>\<rparr>)
       \<lparr>wr_record = w, wr_seen = None, wr_presence = None\<rparr> (gd_stations db) of
     (found, rows) \<Rightarrow> (Inr found, db\<lparr>gd_stations := rows\<rparr>))"

text \<open>What record\_worker\_presence writes for a live credential.\<close>

definition see_workstation :: "string \<Rightarrow> string \<Rightarrow> instant \<Rightarrow> int \<Rightarrow> gateway_db \<Rightarrow> gateway_db" where
  "see_workstation tenant k now presence_seconds db = db\<lparr>gd_stations := map (\<lambda>w.
     if station_is tenant k w \<and> ws_enabled (wr_record w)
     then w\<lparr>wr_record := (wr_record w)\<lparr>ws_online := True\<rparr>, wr_seen := Some now, wr_presence := Some (now + seconds presence_seconds)\<rparr>
     else w) (gd_stations db)\<rparr>"

text \<open>projects\_owned\_workstation\_fk and drawings\_owned\_project\_fk.\<close>

definition owned_station :: "string \<Rightarrow> string \<Rightarrow> string \<Rightarrow> gateway_db \<Rightarrow> bool" where
  "owned_station tenant k owner db \<longleftrightarrow> list_ex (\<lambda>w. station_is tenant k w \<and> ws_owner (wr_record w) = owner) (gd_stations db)"

definition owned_project :: "string \<Rightarrow> string \<Rightarrow> string \<Rightarrow> string \<Rightarrow> gateway_db \<Rightarrow> bool" where
  "owned_project tenant k owner ws db \<longleftrightarrow>
     list_ex (\<lambda>p. project_is tenant k p \<and> prj_owner p = owner \<and> prj_ws p = ws) (gd_projects db)"

definition same_project_place :: "project_record \<Rightarrow> project_record \<Rightarrow> bool" where
  "same_project_place p old \<longleftrightarrow> prj_owner old = prj_owner p \<and> prj_ws old = prj_ws p"

definition same_drawing_place :: "drawing_record \<Rightarrow> drawing_record \<Rightarrow> bool" where
  "same_drawing_place d old \<longleftrightarrow> drw_owner old = drw_owner d \<and> drw_ws old = drw_ws d \<and> drw_prj old = drw_prj d"

definition write_project :: "project_record \<Rightarrow> (gateway_db, project_record option) py" where
  "write_project p = (\<lambda>db.
     if find (project_is (prj_tenant p) (prj_id p)) (gd_projects db) = None
        \<and> \<not> owned_station (prj_tenant p) (prj_ws p) (prj_owner p) db
     then (Inl (RuntimeError ''foreign_key_violation''), db)
     else (case upsert_row (project_is (prj_tenant p) (prj_id p)) (same_project_place p)
         (\<lambda>old. old\<lparr>prj_name := prj_name p, prj_enabled := prj_enabled p\<rparr>) p (gd_projects db) of
       (found, rows) \<Rightarrow> (Inr found, db\<lparr>gd_projects := rows\<rparr>)))"

definition write_drawing :: "drawing_record \<Rightarrow> (gateway_db, drawing_record option) py" where
  "write_drawing d = (\<lambda>db.
     if find (drawing_is (drw_tenant d) (drw_id d)) (gd_drawings db) = None
        \<and> \<not> owned_project (drw_tenant d) (drw_prj d) (drw_owner d) (drw_ws d) db
     then (Inl (RuntimeError ''foreign_key_violation''), db)
     else (case upsert_row (drawing_is (drw_tenant d) (drw_id d)) (same_drawing_place d)
         (\<lambda>old. old\<lparr>drw_name := drw_name d, drw_enabled := drw_enabled d\<rparr>) d (gd_drawings db) of
       (found, rows) \<Rightarrow> (Inr found, db\<lparr>gd_drawings := rows\<rparr>)))"

section \<open>lock\_catalog\_rows\<close>

datatype lock_kind = OwnedWorkstation | WorkerWorkstation | LockProjects | LockDrawings | LockDrawingChains

definition count_rows :: "('a \<Rightarrow> bool) \<Rightarrow> 'a list \<Rightarrow> nat" where
  "count_rows p rows = length (filter p rows)"

definition count_stations :: "string \<Rightarrow> string \<Rightarrow> (string \<Rightarrow> bool) \<Rightarrow> bool \<Rightarrow> instant \<Rightarrow> gateway_db \<Rightarrow> nat" where
  "count_stations tenant ws owner require_online now db = count_rows (\<lambda>w. station_is tenant ws w
     \<and> owner (ws_owner (wr_record w)) \<and> ws_enabled (wr_record w) \<and> (require_online \<longrightarrow> present_at now w)) (gd_stations db)"

definition enabled_parent :: "drawing_record \<Rightarrow> project_record \<Rightarrow> bool" where
  "enabled_parent d p \<longleftrightarrow> prj_tenant p = drw_tenant d \<and> prj_id p = drw_prj d \<and> prj_owner p = drw_owner d
     \<and> prj_ws p = drw_ws d \<and> prj_enabled p"

definition count_chains :: "string \<Rightarrow> string \<Rightarrow> string \<Rightarrow> string list \<Rightarrow> gateway_db \<Rightarrow> nat" where
  "count_chains tenant owner ws ids db =
     sum_list (map (\<lambda>d. count_rows (enabled_parent d) (gd_projects db))
       (filter (\<lambda>d. drw_tenant d = tenant \<and> drw_owner d = owner \<and> drw_ws d = ws \<and> drw_enabled d
          \<and> List.member ids (drw_id d)) (gd_drawings db)))"

definition lock_catalog_rows ::
  "string \<Rightarrow> lock_kind \<Rightarrow> string option \<Rightarrow> string \<Rightarrow> string list \<Rightarrow> string option \<Rightarrow> bool \<Rightarrow> instant \<Rightarrow> gateway_db \<Rightarrow> nat" where
  "lock_catalog_rows tenant lk owner ws ids prj require_online now db =
     (if \<not> in_scope tenant tenant \<or> ids = [] \<or> length ids > 500 then 0
      else (case lk of
        OwnedWorkstation \<Rightarrow> (case owner of None \<Rightarrow> 0
          | Some who \<Rightarrow> if ids \<noteq> [ws] then 0 else count_stations tenant ws (\<lambda>o'. o' = who) require_online now db)
      | WorkerWorkstation \<Rightarrow> if ids \<noteq> [ws] then 0 else count_stations tenant ws (\<lambda>o'. True) require_online now db
      | LockProjects \<Rightarrow> (case owner of None \<Rightarrow> 0
          | Some who \<Rightarrow> count_rows (\<lambda>p. prj_tenant p = tenant \<and> prj_owner p = who \<and> prj_ws p = ws \<and> prj_enabled p
              \<and> List.member ids (prj_id p)) (gd_projects db))
      | LockDrawings \<Rightarrow> (case owner of None \<Rightarrow> 0
          | Some who \<Rightarrow> count_rows (\<lambda>d. drw_tenant d = tenant \<and> drw_owner d = who \<and> drw_ws d = ws \<and> drw_enabled d
              \<and> List.member ids (drw_id d) \<and> (case prj of None \<Rightarrow> True | Some p \<Rightarrow> drw_prj d = p)) (gd_drawings db))
      | LockDrawingChains \<Rightarrow> (case owner of None \<Rightarrow> 0 | Some who \<Rightarrow> count_chains tenant who ws ids db)))"

section \<open>Operations\<close>

text \<open>The CHECK constraints of operations: deadlines first, then the shape of each state.\<close>

definition not_null :: "'a option \<Rightarrow> bool" where
  "not_null v \<longleftrightarrow> \<not> none v"

definition deadline_checks :: "operation_record \<Rightarrow> bool" where
  "deadline_checks r \<longleftrightarrow> o_expires r > o_created r
     \<and> (case o_lease r of None \<Rightarrow> True | Some l \<Rightarrow> l > o_created r \<and> l \<le> o_expires r)
     \<and> (case o_started r of None \<Rightarrow> True | Some t \<Rightarrow> t \<ge> o_created r \<and> t < o_expires r)
     \<and> (case o_completed r of None \<Rightarrow> True | Some c \<Rightarrow> c \<ge> o_created r
          \<and> (case o_started r of None \<Rightarrow> True | Some t \<Rightarrow> c \<ge> t))"

definition attention_codes :: "string list" where
  "attention_codes = [''lease_expired'', ''translation_attention_required'', ''worker_failure'']"

definition state_shape :: "operation_record \<Rightarrow> bool" where
  "state_shape r \<longleftrightarrow> (case o_state r of
     CREATED \<Rightarrow> none (o_lease r) \<and> none (o_started r) \<and> none (o_completed r) \<and> none (o_result r) \<and> none (o_error r)
   | LEASED \<Rightarrow> not_null (o_lease r) \<and> none (o_started r) \<and> none (o_completed r) \<and> none (o_result r) \<and> none (o_error r)
   | RUNNING \<Rightarrow> none (o_lease r) \<and> not_null (o_started r) \<and> none (o_completed r) \<and> none (o_result r) \<and> none (o_error r)
   | SUCCEEDED \<Rightarrow> none (o_lease r) \<and> not_null (o_started r) \<and> not_null (o_completed r)
       \<and> (case o_result r of None \<Rightarrow> False | Some v \<Rightarrow> result_command v = command_of (o_task r)) \<and> none (o_error r)
   | FAILED \<Rightarrow> none (o_lease r) \<and> not_null (o_started r) \<and> not_null (o_completed r) \<and> none (o_result r) \<and> not_null (o_error r)
   | EXPIRED \<Rightarrow> none (o_lease r) \<and> (case o_completed r of None \<Rightarrow> False | Some c \<Rightarrow> c \<ge> o_expires r)
       \<and> none (o_result r) \<and> o_error r = Some ''operation_expired''
   | ATTENTION_REQUIRED \<Rightarrow> none (o_lease r) \<and> not_null (o_completed r) \<and> none (o_result r)
       \<and> (case o_error r of None \<Rightarrow> False | Some c \<Rightarrow> List.member attention_codes c))"

definition operation_checks :: "operation_record \<Rightarrow> bool" where
  "operation_checks r \<longleftrightarrow> deadline_checks r \<and> state_shape r"

text \<open>The trigger enforce\_operation\_transition on every UPDATE.\<close>

definition known_edge :: "operation_state \<Rightarrow> operation_state \<Rightarrow> bool" where
  "known_edge a b \<longleftrightarrow> List.member [(CREATED, LEASED), (CREATED, EXPIRED), (LEASED, RUNNING), (LEASED, ATTENTION_REQUIRED),
     (RUNNING, SUCCEEDED), (RUNNING, FAILED), (RUNNING, EXPIRED), (RUNNING, ATTENTION_REQUIRED)] (a, b)"

definition deadline_guard :: "operation_record \<Rightarrow> operation_record \<Rightarrow> bool" where
  "deadline_guard old r \<longleftrightarrow>
     (o_state old = LEASED \<and> o_state r = RUNNING \<longrightarrow>
        (case (o_lease old, o_started r) of (Some l, Some t) \<Rightarrow> t < l | _ \<Rightarrow> False))
     \<and> (o_state old = LEASED \<and> o_state r = ATTENTION_REQUIRED \<longrightarrow>
        (case (o_lease old, o_completed r) of (Some l, Some c) \<Rightarrow> l \<le> c | _ \<Rightarrow> False))
     \<and> (o_state old = RUNNING \<and> (o_state r = SUCCEEDED \<or> o_state r = FAILED) \<longrightarrow>
        (case o_completed r of Some c \<Rightarrow> c < o_expires old | None \<Rightarrow> False))"

definition transition_guard :: "operation_record \<Rightarrow> operation_record \<Rightarrow> bool" where
  "transition_guard old r \<longleftrightarrow> same_identity old r
     \<and> (if o_state r = o_state old then r = old
        else known_edge (o_state old) (o_state r) \<and> deadline_guard old r)"

definition find_operation :: "string \<Rightarrow> string \<Rightarrow> gateway_db \<Rightarrow> operation_record option" where
  "find_operation tenant k db = find (operation_is tenant k) (gd_operations db)"

definition find_retry :: "operation_record \<Rightarrow> gateway_db \<Rightarrow> operation_record option" where
  "find_retry r db = find (\<lambda>x. idem_key x = idem_key r) (gd_operations db)"

text \<open>
  INSERT ... ON CONFLICT DO NOTHING RETURNING. jsonb does not hold every text; whether it takes
  the task is the first argument.
\<close>

definition insert_operation :: "bool \<Rightarrow> operation_record \<Rightarrow> (gateway_db, operation_record option) py" where
  "insert_operation storable r = (\<lambda>db.
     if \<not> storable then (Inl (RuntimeError ''untranslatable_character''), db)
     else if \<not> operation_checks r then (Inl (RuntimeError ''check_violation''), db)
     else if find_operation (o_tenant r) (o_id r) db \<noteq> None \<or> find_retry r db \<noteq> None then (Inr None, db)
     else if \<not> owned_station (o_tenant r) (o_ws r) (o_owner r) db
     then (Inl (RuntimeError ''foreign_key_violation''), db)
     else (Inr (Some r), db\<lparr>gd_operations := gd_operations db @ [r]\<rparr>))"

definition replace_operation :: "operation_record \<Rightarrow> gateway_db \<Rightarrow> gateway_db" where
  "replace_operation r db =
     db\<lparr>gd_operations := map (\<lambda>x. if operation_is (o_tenant r) (o_id r) x then r else x) (gd_operations db)\<rparr>"

text \<open>UPDATE operations SET ... WHERE tenant, id and state RETURNING.\<close>

definition update_operation ::
  "bool \<Rightarrow> string \<Rightarrow> string \<Rightarrow> operation_state \<Rightarrow> (operation_record \<Rightarrow> operation_record) \<Rightarrow> (gateway_db, operation_record option) py" where
  "update_operation storable tenant k st change = (\<lambda>db.
     if \<not> storable then (Inl (RuntimeError ''untranslatable_character''), db)
     else (case find (\<lambda>x. operation_is tenant k x \<and> o_state x = st) (gd_operations db) of
       None \<Rightarrow> (Inr None, db)
     | Some old \<Rightarrow>
         if \<not> transition_guard old (change old) \<or> \<not> operation_checks (change old)
         then (Inl (RuntimeError ''check_violation''), db)
         else (Inr (Some (change old)), replace_operation (change old) db)))"

definition add_events :: "event_row list \<Rightarrow> gateway_db \<Rightarrow> gateway_db" where
  "add_events es db = db\<lparr>gd_events := gd_events db @ es\<rparr>"

end
