(* ===== verification/Postgres_Repository.thy ===== *)
theory Postgres_Repository
  imports Gateway_Database
begin

text \<open>
  PostgresGatewayRepository (services/gateway/cadplot\_gateway/postgres\_repository.py): the durable
  catalog and operation store of one tenant over the tables of Gateway\_Database. Every method is one
  transaction; the clock readings of the database (clock\_timestamp()) are arguments, in the order in
  which the method makes them. The locks a method takes make it one step, except where the text says
  so. The functions ending in tx are the bodies of the transactions.
\<close>

section \<open>Transactions and checked arguments\<close>

record pg_repository =
  pg_tenant :: string
  pg_limit :: int
  pg_json_task :: "read_task \<Rightarrow> bool"
  pg_json_result :: "task_result \<Rightarrow> bool"

text \<open>
  pg\_json\_task and pg\_json\_result say which documents jsonb takes (it has no U+0000). Errors of the
  repository keep their code, every other exception becomes repository\_failure.
\<close>

abbreviation pg_error :: "string \<Rightarrow> bool \<Rightarrow> unit res" where
  "pg_error code ok \<equiv> ensure ok (RepositoryError code)"

fun pg_bounded :: "exn \<Rightarrow> exn" where
  "pg_bounded (RepositoryError code) = RepositoryError code"
| "pg_bounded e = RepositoryError ''repository_failure''"

definition pg_cursor :: "db_fate \<Rightarrow> (gateway_db, 'a) py \<Rightarrow> (gateway_db, 'a) py" where
  "pg_cursor fate body = (\<lambda>db.
     case fate of
       RollsBack \<Rightarrow> (Inl (RepositoryError ''repository_failure''), db)
     | Commits \<Rightarrow> (case body db of (Inl e, db') \<Rightarrow> (Inl (pg_bounded e), db) | (Inr x, db') \<Rightarrow> (Inr x, db'))
     | AnswerLost \<Rightarrow> (case body db of (Inl e, db') \<Rightarrow> (Inl (pg_bounded e), db)
         | (Inr x, db') \<Rightarrow> (Inl (RepositoryError ''repository_failure''), db')))"

definition pg_read :: "(gateway_db \<Rightarrow> 'a) \<Rightarrow> (gateway_db, 'a) py" where
  "pg_read f = (\<lambda>db. (Inr (f db), db))"

definition validate_active_limit :: "int \<Rightarrow> unit res" where
  "validate_active_limit n = pg_error ''invalid_record'' (1 \<le> n \<and> n \<le> 10000)"

definition pg_init :: "string \<Rightarrow> int \<Rightarrow> unit res" where
  "pg_init tenant limit =
     bindR (validate_active_limit limit) (\<lambda>_. pg_error ''invalid_tenant_scope'' (tenant_id_ok tenant))"

definition pg_require_tenant :: "pg_repository \<Rightarrow> string \<Rightarrow> unit res" where
  "pg_require_tenant rp tenant =
     bindR (pg_error ''invalid_tenant_scope'' (tenant_id_ok tenant)) (\<lambda>_.
     pg_error ''tenant_scope_mismatch'' (tenant = pg_tenant rp))"

definition pg_identifier :: "(string \<Rightarrow> bool) \<Rightarrow> string \<Rightarrow> unit res" where
  "pg_identifier pattern k = pg_error ''invalid_identifier'' (pattern k)"

fun pg_timestamp :: "py_datetime \<Rightarrow> instant res" where
  "pg_timestamp (Naive t) = Inl (RepositoryError ''invalid_timestamp'')"
| "pg_timestamp (Aware t) = Inr t"

definition valid_workstation_record :: "workstation_record \<Rightarrow> bool" where
  "valid_workstation_record w \<longleftrightarrow> workstation_id_ok (ws_id w) \<and> tenant_id_ok (ws_tenant w)
     \<and> subject_id_ok (ws_owner w) \<and> safe_display_name (ws_name w)"

definition pg_record :: "('a \<Rightarrow> bool) \<Rightarrow> 'a \<Rightarrow> unit res" where
  "pg_record valid r = pg_error ''invalid_record'' (valid r)"

text \<open>Rows are validated again when they are read.\<close>

definition from_row :: "('a \<Rightarrow> bool) \<Rightarrow> 'a \<Rightarrow> 'a res" where
  "from_row valid r = (if valid r then Inr r else Inl (ValidationError ''row''))"

definition pg_returned :: "('a \<Rightarrow> bool) \<Rightarrow> 'a option \<Rightarrow> (gateway_db, 'a) py" where
  "pg_returned valid found = (case found of
     None \<Rightarrow> raise (RepositoryError ''catalog_conflict'')
   | Some r \<Rightarrow> liftR (from_row valid r))"

definition pg_found :: "('a \<Rightarrow> 'b res) \<Rightarrow> 'a option \<Rightarrow> (gateway_db, 'b option) py" where
  "pg_found decode found = (case found of
     None \<Rightarrow> ret None
   | Some r \<Rightarrow> bindS (liftR (decode r)) (\<lambda>x. ret (Some x)))"

fun decode_rows :: "('a \<Rightarrow> 'b res) \<Rightarrow> 'a list \<Rightarrow> 'b list res" where
  "decode_rows decode [] = Inr []"
| "decode_rows decode (r # rs) = bindR (decode r) (\<lambda>x. bindR (decode_rows decode rs) (\<lambda>xs. Inr (x # xs)))"

definition station_from_row :: "instant \<Rightarrow> workstation_row \<Rightarrow> workstation_record res" where
  "station_from_row now w = from_row valid_workstation_record (read_station now w)"

section \<open>Catalog\<close>

definition pg_upsert_workstation :: "pg_repository \<Rightarrow> db_fate \<Rightarrow> instant \<Rightarrow> workstation_record \<Rightarrow> (gateway_db, workstation_record) py" where
  "pg_upsert_workstation rp fate now w =
     bindS (liftR (pg_record valid_workstation_record w)) (\<lambda>_.
     bindS (liftR (pg_require_tenant rp (ws_tenant w))) (\<lambda>_.
     pg_cursor fate (bindS (upsert_station w) (\<lambda>found.
       pg_returned valid_workstation_record (map_option (read_station now) found)))))"

definition pg_upsert_project :: "pg_repository \<Rightarrow> db_fate \<Rightarrow> project_record \<Rightarrow> (gateway_db, project_record) py" where
  "pg_upsert_project rp fate p =
     bindS (liftR (pg_record valid_project_record p)) (\<lambda>_.
     bindS (liftR (pg_require_tenant rp (prj_tenant p))) (\<lambda>_.
     pg_cursor fate (bindS (write_project p) (pg_returned valid_project_record))))"

definition pg_upsert_drawing :: "pg_repository \<Rightarrow> db_fate \<Rightarrow> drawing_record \<Rightarrow> (gateway_db, drawing_record) py" where
  "pg_upsert_drawing rp fate d =
     bindS (liftR (pg_record valid_drawing_record d)) (\<lambda>_.
     bindS (liftR (pg_require_tenant rp (drw_tenant d))) (\<lambda>_.
     pg_cursor fate (bindS (write_drawing d) (pg_returned valid_drawing_record))))"

definition set_online :: "string \<Rightarrow> string \<Rightarrow> bool \<Rightarrow> (gateway_db, workstation_row option) py" where
  "set_online tenant k online = (\<lambda>db.
     let change = (\<lambda>w. w\<lparr>wr_record := (wr_record w)\<lparr>ws_online := online\<rparr>\<rparr>) in
     (Inr (map_option change (find (station_is tenant k) (gd_stations db))),
      db\<lparr>gd_stations := map (\<lambda>w. if station_is tenant k w then change w else w) (gd_stations db)\<rparr>))"

definition pg_set_workstation_online ::
  "pg_repository \<Rightarrow> db_fate \<Rightarrow> instant \<Rightarrow> string \<Rightarrow> bool \<Rightarrow> (gateway_db, workstation_record option) py" where
  "pg_set_workstation_online rp fate now k online =
     bindS (liftR (pg_identifier workstation_id_ok k)) (\<lambda>_.
     pg_cursor fate (bindS (set_online (pg_tenant rp) k online) (pg_found (station_from_row now))))"

definition pg_list_workstations ::
  "pg_repository \<Rightarrow> db_fate \<Rightarrow> instant \<Rightarrow> string \<Rightarrow> string \<Rightarrow> (gateway_db, workstation_record list) py" where
  "pg_list_workstations rp fate now tenant owner =
     bindS (liftR (pg_require_tenant rp tenant)) (\<lambda>_.
     bindS (liftR (pg_identifier subject_id_ok owner)) (\<lambda>_.
     pg_cursor fate (bindS (pg_read (\<lambda>db. sort_key (\<lambda>w. ws_id (wr_record w))
         (filter (\<lambda>w. ws_tenant (wr_record w) = pg_tenant rp \<and> ws_owner (wr_record w) = owner \<and> ws_enabled (wr_record w))
           (gd_stations db)))) (\<lambda>rows. liftR (decode_rows (station_from_row now) rows)))))"

definition pg_get_workstation :: "pg_repository \<Rightarrow> db_fate \<Rightarrow> instant \<Rightarrow> string \<Rightarrow> (gateway_db, workstation_record option) py" where
  "pg_get_workstation rp fate now k =
     bindS (liftR (pg_identifier workstation_id_ok k)) (\<lambda>_.
     pg_cursor fate (bindS (pg_read (\<lambda>db. find (station_is (pg_tenant rp) k) (gd_stations db)))
       (pg_found (station_from_row now))))"

definition pg_list_projects ::
  "pg_repository \<Rightarrow> db_fate \<Rightarrow> string \<Rightarrow> string \<Rightarrow> string option \<Rightarrow> (gateway_db, project_record list) py" where
  "pg_list_projects rp fate tenant owner ws =
     bindS (liftR (pg_require_tenant rp tenant)) (\<lambda>_.
     bindS (liftR (pg_identifier subject_id_ok owner)) (\<lambda>_.
     bindS (liftR (case ws of None \<Rightarrow> Inr () | Some w \<Rightarrow> pg_identifier workstation_id_ok w)) (\<lambda>_.
     pg_cursor fate (bindS (pg_read (\<lambda>db. sort_key prj_id
         (filter (\<lambda>p. prj_tenant p = pg_tenant rp \<and> prj_owner p = owner \<and> (case ws of None \<Rightarrow> True | Some w \<Rightarrow> prj_ws p = w)
            \<and> prj_enabled p) (gd_projects db)))) (\<lambda>rows. liftR (decode_rows (from_row valid_project_record) rows))))))"

definition pg_get_project :: "pg_repository \<Rightarrow> db_fate \<Rightarrow> string \<Rightarrow> (gateway_db, project_record option) py" where
  "pg_get_project rp fate k =
     bindS (liftR (pg_identifier project_id_ok k)) (\<lambda>_.
     pg_cursor fate (bindS (pg_read (\<lambda>db. find (project_is (pg_tenant rp) k) (gd_projects db)))
       (pg_found (from_row valid_project_record))))"

definition pg_get_drawing :: "pg_repository \<Rightarrow> db_fate \<Rightarrow> string \<Rightarrow> (gateway_db, drawing_record option) py" where
  "pg_get_drawing rp fate k =
     bindS (liftR (pg_identifier drawing_id_ok k)) (\<lambda>_.
     pg_cursor fate (bindS (pg_read (\<lambda>db. find (drawing_is (pg_tenant rp) k) (gd_drawings db)))
       (pg_found (from_row valid_drawing_record))))"

section \<open>Locks\<close>

definition pg_lock_rows ::
  "pg_repository \<Rightarrow> lock_kind \<Rightarrow> string option \<Rightarrow> string \<Rightarrow> string list \<Rightarrow> string option \<Rightarrow> bool \<Rightarrow> instant \<Rightarrow> (gateway_db, nat) py" where
  "pg_lock_rows rp lk owner ws ids prj require_online now =
     pg_read (lock_catalog_rows (pg_tenant rp) lk owner ws ids prj require_online now)"

text \<open>Locks that do not ask for an online workstation read no clock; their time argument is idle.\<close>

definition lock_offline ::
  "pg_repository \<Rightarrow> lock_kind \<Rightarrow> string option \<Rightarrow> string \<Rightarrow> string list \<Rightarrow> string option \<Rightarrow> (gateway_db, nat) py" where
  "lock_offline rp lk owner ws ids prj = pg_lock_rows rp lk owner ws ids prj False 0"

definition lock_enqueue_workstation :: "pg_repository \<Rightarrow> instant \<Rightarrow> operation_record \<Rightarrow> (gateway_db, unit) py" where
  "lock_enqueue_workstation rp now r =
     bindS (pg_lock_rows rp OwnedWorkstation (Some (o_owner r)) (o_ws r) [o_ws r] None True now) (\<lambda>n.
     guardS (n = 1) (RepositoryError ''catalog_conflict''))"

definition lock_worker_workstation :: "pg_repository \<Rightarrow> string \<Rightarrow> string option \<Rightarrow> bool \<Rightarrow> instant \<Rightarrow> (gateway_db, unit) py" where
  "lock_worker_workstation rp ws owner online_required now =
     bindS (pg_lock_rows rp (if owner \<noteq> None then OwnedWorkstation else WorkerWorkstation) owner ws [ws] None online_required now) (\<lambda>n.
     guardS (n = 1) (RepositoryError ''catalog_conflict''))"

definition lock_operation :: "pg_repository \<Rightarrow> string \<Rightarrow> string option \<Rightarrow> (gateway_db, operation_record option) py" where
  "lock_operation rp k ws =
     bindS (pg_read (\<lambda>db. find (\<lambda>r. operation_is (pg_tenant rp) k r \<and> (case ws of None \<Rightarrow> True | Some w \<Rightarrow> o_ws r = w))
       (gd_operations db))) (pg_found model_validate)"

section \<open>Transitions\<close>

definition record_event ::
  "pg_repository \<Rightarrow> operation_record \<Rightarrow> operation_state option \<Rightarrow> operation_state \<Rightarrow> instant \<Rightarrow> (gateway_db, unit) py" where
  "record_event rp r from_state to_state at = (\<lambda>db. (Inr (),
     add_events [\<lparr>ev_tenant = pg_tenant rp, ev_operation = o_id r, ev_from = from_state, ev_to = to_state, ev_at = at\<rparr>] db))"

definition write_transition ::
  "pg_repository \<Rightarrow> operation_record \<Rightarrow> operation_state \<Rightarrow> instant option \<Rightarrow> instant option \<Rightarrow> instant option
    \<Rightarrow> task_result option \<Rightarrow> string option \<Rightarrow> instant \<Rightarrow> (gateway_db, operation_record) py" where
  "write_transition rp r st lease started completed result code at =
     bindS (update_operation (case result of None \<Rightarrow> True | Some v \<Rightarrow> pg_json_result rp v) (pg_tenant rp) (o_id r) (o_state r)
       (\<lambda>old. old\<lparr>o_state := st, o_lease := lease, o_started := started, o_completed := completed,
          o_result := result, o_error := code\<rparr>)) (\<lambda>row.
     case row of
       None \<Rightarrow> raise (RepositoryError ''repository_failure'')
     | Some row \<Rightarrow>
         bindS (liftR (model_validate row)) (\<lambda>updated.
         bindS (record_event rp updated (Some (o_state r)) st at) (\<lambda>_.
         ret updated)))"

definition lease_over :: "operation_record \<Rightarrow> instant \<Rightarrow> bool" where
  "lease_over r now \<longleftrightarrow> (case o_lease r of None \<Rightarrow> False | Some l \<Rightarrow> now \<ge> l)"

definition refresh_locked :: "pg_repository \<Rightarrow> operation_record \<Rightarrow> instant \<Rightarrow> (gateway_db, operation_record \<times> bool) py" where
  "refresh_locked rp r now =
     (if o_state r = CREATED \<and> now \<ge> o_expires r
      then bindS (write_transition rp r EXPIRED None (o_started r) (Some now) None (Some ''operation_expired'') now) (\<lambda>x. ret (x, True))
      else if o_state r = LEASED \<and> lease_over r now
      then bindS (write_transition rp r ATTENTION_REQUIRED None (o_started r) (Some now) None (Some ''lease_expired'') now)
             (\<lambda>x. ret (x, True))
      else if o_state r = RUNNING \<and> now \<ge> o_expires r
      then (let unknown_write = is_translation_apply (o_task r) in
            bindS (write_transition rp r (if unknown_write then ATTENTION_REQUIRED else EXPIRED) None (o_started r) (Some now) None
              (Some (if unknown_write then ''translation_attention_required'' else ''operation_expired'')) now) (\<lambda>x. ret (x, True)))
      else ret (r, False))"

section \<open>Creating operations\<close>

text \<open>A task is queued for rows of the catalog that are there, enabled and its owner's.\<close>

definition validate_enqueue_task :: "pg_repository \<Rightarrow> operation_record \<Rightarrow> (gateway_db, unit) py" where
  "validate_enqueue_task rp r =
     (let on_workstation = (\<lambda>w. guardS (w = o_ws r) (RepositoryError ''catalog_conflict''));
          locked = (\<lambda>lk k. bindS (lock_offline rp lk (Some (o_owner r)) (o_ws r) [k] None) (\<lambda>n.
             guardS (n = 1) (RepositoryError ''catalog_conflict''))) in
      case o_task r of
        ValidateEnvironmentTask w \<Rightarrow> on_workstation w
      | ListProjectsTask w \<Rightarrow> on_workstation w
      | ScanDrawingsTask p recursive limit \<Rightarrow> locked LockProjects p
      | InspectDrawingTask d \<Rightarrow> locked LockDrawingChains d
      | CreatePublishPlanTask d \<Rightarrow> locked LockDrawingChains d
      | TranslationTask d request \<Rightarrow> locked LockDrawingChains d)"

definition counts_as_active :: "instant \<Rightarrow> operation_record \<Rightarrow> bool" where
  "counts_as_active now r \<longleftrightarrow> o_state r = CREATED \<and> o_expires r > now
     \<or> o_state r = LEASED \<and> (case o_lease r of None \<Rightarrow> False | Some l \<Rightarrow> l > now)
     \<or> o_state r = RUNNING \<and> o_expires r > now"

definition active_count :: "operation_record \<Rightarrow> instant \<Rightarrow> gateway_db \<Rightarrow> nat" where
  "active_count r now db = count_rows (\<lambda>x. o_tenant x = o_tenant r \<and> o_owner x = o_owner r \<and> o_client x = o_client r
     \<and> o_ws x = o_ws r \<and> counts_as_active now x) (gd_operations db)"

definition existing_outcome :: "operation_record \<Rightarrow> operation_record \<Rightarrow> create_outcome" where
  "existing_outcome r existing =
     CreateOutcome (if o_fingerprint existing = o_fingerprint r then CreateExisting else CreateConflict) existing"

definition create_tx :: "pg_repository \<Rightarrow> instant \<Rightarrow> instant \<Rightarrow> operation_record \<Rightarrow> (gateway_db, create_outcome) py" where
  "create_tx rp lock_now now r =
     bindS (bindS (pg_read (find_retry r)) (pg_found model_validate)) (\<lambda>found.
     case found of
       Some existing \<Rightarrow> ret (existing_outcome r existing)
     | None \<Rightarrow>
         bindS (lock_enqueue_workstation rp lock_now r) (\<lambda>_.
         bindS (validate_enqueue_task rp r) (\<lambda>_.
         bindS (pg_read (active_count r now)) (\<lambda>n.
         bindS (guardS (int n < pg_limit rp) (RepositoryError ''active_operation_limit'')) (\<lambda>_.
         bindS (insert_operation (pg_json_task rp (o_task r))
                 (r\<lparr>o_created := now, o_expires := now + (o_expires r - o_created r)\<rparr>)) (\<lambda>inserted.
         case inserted of
           Some row \<Rightarrow>
             bindS (liftR (model_validate row)) (\<lambda>created.
             bindS (record_event rp created None CREATED (o_created created)) (\<lambda>_.
             ret (CreateOutcome CreateCreated created)))
         | None \<Rightarrow>
             bindS (bindS (pg_read (find_retry r)) (pg_found model_validate)) (\<lambda>found.
             case found of
               None \<Rightarrow> raise (RepositoryError ''operation_create_failed'')
             | Some existing \<Rightarrow> ret (existing_outcome r existing))))))))"

text \<open>An operation may run for half a minute to a day.\<close>

definition ttl_in_range :: "operation_record \<Rightarrow> bool" where
  "ttl_in_range r \<longleftrightarrow> seconds 30 \<le> o_expires r - o_created r \<and> o_expires r - o_created r \<le> seconds (24 * 60 * 60)"

definition pg_create_or_get_operation ::
  "pg_repository \<Rightarrow> db_fate \<Rightarrow> instant \<Rightarrow> instant \<Rightarrow> operation_record \<Rightarrow> (gateway_db, create_outcome) py" where
  "pg_create_or_get_operation rp fate lock_now now r =
     bindS (liftR (catchR (model_validate r) (\<lambda>_. Inl (RepositoryError ''invalid_record'')))) (\<lambda>validated.
     bindS (liftR (pg_require_tenant rp (o_tenant validated))) (\<lambda>_.
     bindS (liftR (pg_error ''invalid_record'' (o_state validated = CREATED))) (\<lambda>_.
     bindS (liftR (pg_error ''invalid_timestamp'' (ttl_in_range validated))) (\<lambda>_.
     pg_cursor fate (create_tx rp lock_now now validated)))))"

section \<open>Reading and refreshing\<close>

definition pg_get_operation :: "pg_repository \<Rightarrow> db_fate \<Rightarrow> string \<Rightarrow> (gateway_db, operation_record option) py" where
  "pg_get_operation rp fate k =
     bindS (liftR (pg_identifier operation_id_ok k)) (\<lambda>_.
     pg_cursor fate (bindS (pg_read (find_operation (pg_tenant rp) k)) (pg_found model_validate)))"

definition refresh_tx :: "pg_repository \<Rightarrow> instant \<Rightarrow> string \<Rightarrow> (gateway_db, operation_record option) py" where
  "refresh_tx rp now k =
     bindS (lock_operation rp k None) (\<lambda>found.
     case found of
       None \<Rightarrow> ret None
     | Some r \<Rightarrow> bindS (refresh_locked rp r now) (\<lambda>(refreshed, _). ret (Some refreshed)))"

definition pg_refresh_operation ::
  "pg_repository \<Rightarrow> db_fate \<Rightarrow> instant \<Rightarrow> string \<Rightarrow> py_datetime \<Rightarrow> (gateway_db, operation_record option) py" where
  "pg_refresh_operation rp fate now k caller_now =
     bindS (liftR (pg_identifier operation_id_ok k)) (\<lambda>_.
     bindS (liftR (pg_timestamp caller_now)) (\<lambda>_.
     pg_cursor fate (refresh_tx rp now k)))"

section \<open>Handing out a lease\<close>

text \<open>
  refresh\_sql closes every operation of the workstation that has run out, with one event each. Two
  leases of one workstation at the same time both pass the test for an active operation, because it
  locks nothing (two\_leases\_race in Postgres\_Properties); as one step the method is right when the polls
  of a workstation follow one another.
\<close>

definition sql_due :: "string \<Rightarrow> string \<Rightarrow> instant \<Rightarrow> operation_record \<Rightarrow> bool" where
  "sql_due tenant ws now r \<longleftrightarrow> o_tenant r = tenant \<and> o_ws r = ws \<and>
     (o_state r = CREATED \<and> o_expires r \<le> now \<or> o_state r = LEASED \<and> lease_over r now
      \<or> o_state r = RUNNING \<and> o_expires r \<le> now)"

definition sql_close :: "instant \<Rightarrow> operation_record \<Rightarrow> operation_record" where
  "sql_close now r =
     (let unknown_write = o_state r = RUNNING \<and> is_translation_apply (o_task r) in
      r\<lparr>o_state := if o_state r = LEASED \<or> unknown_write then ATTENTION_REQUIRED else EXPIRED,
        o_lease := None, o_completed := Some now, o_result := None,
        o_error := Some (if o_state r = LEASED then ''lease_expired''
          else if unknown_write then ''translation_attention_required'' else ''operation_expired'')\<rparr>)"

definition closing_event :: "instant \<Rightarrow> operation_record \<Rightarrow> event_row" where
  "closing_event now r = \<lparr>ev_tenant = o_tenant r, ev_operation = o_id r, ev_from = Some (o_state r),
     ev_to = o_state (sql_close now r), ev_at = now\<rparr>"

definition refresh_workstation :: "string \<Rightarrow> string \<Rightarrow> instant \<Rightarrow> (gateway_db, unit) py" where
  "refresh_workstation tenant ws now = (\<lambda>db.
     let due = filter (sql_due tenant ws now) (gd_operations db) in
     if \<not> list_all (\<lambda>r. transition_guard r (sql_close now r) \<and> operation_checks (sql_close now r)) due
     then (Inl (RuntimeError ''check_violation''), db)
     else (Inr (), add_events (map (closing_event now) due)
            (db\<lparr>gd_operations := map (\<lambda>r. if sql_due tenant ws now r then sql_close now r else r) (gd_operations db)\<rparr>)))"

definition has_active :: "string \<Rightarrow> string \<Rightarrow> gateway_db \<Rightarrow> bool" where
  "has_active tenant ws db \<longleftrightarrow> list_ex (\<lambda>r. o_tenant r = tenant \<and> o_ws r = ws
     \<and> List.member [LEASED, RUNNING] (o_state r)) (gd_operations db)"

definition queued_at :: "string \<Rightarrow> string \<Rightarrow> string \<Rightarrow> instant \<Rightarrow> operation_record \<Rightarrow> bool" where
  "queued_at tenant ws owner now r \<longleftrightarrow> o_tenant r = tenant \<and> o_ws r = ws \<and> o_owner r = owner
     \<and> o_state r = CREATED \<and> o_expires r > now"

definition oldest_queued :: "string \<Rightarrow> string \<Rightarrow> string \<Rightarrow> instant \<Rightarrow> gateway_db \<Rightarrow> operation_record option" where
  "oldest_queued tenant ws owner now db = (case filter (queued_at tenant ws owner now) (gd_operations db) of
     [] \<Rightarrow> None | r # rs \<Rightarrow> Some (min_by queue_key r rs))"

definition lease_checks :: "pg_repository \<Rightarrow> instant \<Rightarrow> instant \<Rightarrow> string \<Rightarrow> string \<Rightarrow> (gateway_db, bool) py" where
  "lease_checks rp lock_now refresh_now ws owner =
     bindS (lock_worker_workstation rp ws (Some owner) True lock_now) (\<lambda>_.
     bindS (refresh_workstation (pg_tenant rp) ws refresh_now) (\<lambda>_.
     pg_read (has_active (pg_tenant rp) ws)))"

definition lease_pick :: "pg_repository \<Rightarrow> instant \<Rightarrow> string \<Rightarrow> string \<Rightarrow> int \<Rightarrow> (gateway_db, operation_record option) py" where
  "lease_pick rp lease_now ws owner duration =
     bindS (bindS (pg_read (oldest_queued (pg_tenant rp) ws owner lease_now)) (pg_found model_validate)) (\<lambda>row.
     case row of
       None \<Rightarrow> ret None
     | Some selected \<Rightarrow>
         bindS (write_transition rp selected LEASED (Some (min (lease_now + duration) (o_expires selected))) None None None None lease_now)
           (\<lambda>x. ret (Some x)))"

definition lease_tx ::
  "pg_repository \<Rightarrow> instant \<Rightarrow> instant \<Rightarrow> instant \<Rightarrow> string \<Rightarrow> string \<Rightarrow> int \<Rightarrow> (gateway_db, operation_record option) py" where
  "lease_tx rp lock_now refresh_now lease_now ws owner duration =
     bindS (lease_checks rp lock_now refresh_now ws owner) (\<lambda>active.
     if active then ret None else lease_pick rp lease_now ws owner duration)"

definition pg_lease_next_operation ::
  "pg_repository \<Rightarrow> db_fate \<Rightarrow> instant \<Rightarrow> instant \<Rightarrow> instant \<Rightarrow> string \<Rightarrow> string \<Rightarrow> string \<Rightarrow> py_datetime \<Rightarrow> py_datetime
    \<Rightarrow> (gateway_db, operation_record option) py" where
  "pg_lease_next_operation rp fate lock_now refresh_now lease_now tenant ws owner caller_now caller_expiry =
     bindS (liftR (pg_require_tenant rp tenant)) (\<lambda>_.
     bindS (liftR (pg_identifier workstation_id_ok ws)) (\<lambda>_.
     bindS (liftR (pg_identifier subject_id_ok owner)) (\<lambda>_.
     bindS (liftR (pg_timestamp caller_now)) (\<lambda>from_time.
     bindS (liftR (pg_timestamp caller_expiry)) (\<lambda>until.
     bindS (liftR (pg_error ''invalid_timestamp'' (seconds 5 \<le> until - from_time \<and> until - from_time \<le> seconds (5 * 60)))) (\<lambda>_.
     pg_cursor fate (lease_tx rp lock_now refresh_now lease_now ws owner (until - from_time))))))))"

section \<open>Starting and finishing\<close>

definition start_tx :: "pg_repository \<Rightarrow> instant \<Rightarrow> string \<Rightarrow> string \<Rightarrow> (gateway_db, transition_outcome) py" where
  "start_tx rp now k ws =
     bindS (lock_worker_workstation rp ws None False 0) (\<lambda>_.
     bindS (lock_operation rp k (Some ws)) (\<lambda>found.
     case found of
       None \<Rightarrow> ret (TransitionOutcome TransNotFound None)
     | Some r \<Rightarrow>
         if o_state r = LEASED \<and> lease_over r now
         then bindS (write_transition rp r ATTENTION_REQUIRED None (o_started r) (Some now) None (Some ''lease_expired'') now)
                (\<lambda>x. ret (TransitionOutcome TransLeaseExpired (Some x)))
         else if o_state r \<noteq> LEASED then ret (TransitionOutcome TransInvalidState (Some r))
         else bindS (write_transition rp r RUNNING None (Some now) None None None now)
                (\<lambda>x. ret (TransitionOutcome TransUpdated (Some x)))))"

definition pg_start_operation ::
  "pg_repository \<Rightarrow> db_fate \<Rightarrow> instant \<Rightarrow> string \<Rightarrow> string \<Rightarrow> string \<Rightarrow> py_datetime \<Rightarrow> (gateway_db, transition_outcome) py" where
  "pg_start_operation rp fate now k tenant ws caller_now =
     bindS (liftR (pg_require_tenant rp tenant)) (\<lambda>_.
     bindS (liftR (pg_identifier operation_id_ok k)) (\<lambda>_.
     bindS (liftR (pg_identifier workstation_id_ok ws)) (\<lambda>_.
     bindS (liftR (pg_timestamp caller_now)) (\<lambda>_.
     pg_cursor fate (start_tx rp now k ws)))))"

text \<open>The rows a result names must be in the catalog, enabled and the operation's own.\<close>

definition require_catalog_ids ::
  "pg_repository \<Rightarrow> lock_kind \<Rightarrow> string list \<Rightarrow> operation_record \<Rightarrow> string option \<Rightarrow> (gateway_db, unit) py" where
  "require_catalog_ids rp lk ids r prj =
     (let expected = remdups ids in
      if expected = [] then ret ()
      else bindS (lock_offline rp lk (Some (o_owner r)) (o_ws r) expected prj) (\<lambda>n.
        guardS (n = length expected) (RepositoryError ''invalid_terminal_payload'')))"

definition terminal_payload :: "bool \<Rightarrow> (gateway_db, unit) py" where
  "terminal_payload ok = guardS ok (RepositoryError ''invalid_terminal_payload'')"

definition validate_binding_locked :: "pg_repository \<Rightarrow> operation_record \<Rightarrow> task_result option \<Rightarrow> (gateway_db, unit) py" where
  "validate_binding_locked rp r result = (case result of
     None \<Rightarrow> ret ()
   | Some (TranslationTaskResult d response) \<Rightarrow>
       (case o_task r of
          TranslationTask task_d request \<Rightarrow>
            bindS (terminal_payload (d = task_d \<and> is_ok (Translation_Protocol.require_matching_result request response))) (\<lambda>_.
            require_catalog_ids rp LockDrawings [d] r None)
        | _ \<Rightarrow> terminal_payload False)
   | Some v \<Rightarrow>
       bindS (terminal_payload (result_command v = command_of (o_task r))) (\<lambda>_.
       case v of
         ListProjectsResult ids \<Rightarrow> require_catalog_ids rp LockProjects ids r None
       | ScanDrawingsResult p ids truncated \<Rightarrow>
           (case o_task r of
              ScanDrawingsTask task_p recursive limit \<Rightarrow>
                bindS (terminal_payload (p = task_p)) (\<lambda>_.
                bindS (lock_offline rp LockProjects (Some (o_owner r)) (o_ws r) [task_p] None) (\<lambda>n.
                bindS (terminal_payload (n = 1)) (\<lambda>_.
                require_catalog_ids rp LockDrawings ids r (Some task_p))))
            | _ \<Rightarrow> terminal_payload False)
       | InspectDrawingResult d layouts sheets warnings \<Rightarrow>
           bindS (terminal_payload (o_task r = InspectDrawingTask d)) (\<lambda>_.
           require_catalog_ids rp LockDrawings [d] r None)
       | CreatePublishPlanResult d plan ready sheets warnings \<Rightarrow>
           bindS (terminal_payload (o_task r = CreatePublishPlanTask d)) (\<lambda>_.
           require_catalog_ids rp LockDrawings [d] r None)
       | _ \<Rightarrow> ret ()))"

definition finish_payload :: "operation_state \<Rightarrow> task_result option \<Rightarrow> string option \<Rightarrow> unit res" where
  "finish_payload st result code =
     bindR (pg_error ''invalid_terminal_state'' (List.member [SUCCEEDED, FAILED, ATTENTION_REQUIRED] st)) (\<lambda>_.
     pg_error ''invalid_terminal_payload''
       (if st = SUCCEEDED then (case result of None \<Rightarrow> False | Some v \<Rightarrow> none code \<and> valid_result v)
        else none result \<and> (case code of None \<Rightarrow> False | Some c \<Rightarrow> safe_code c)))"

definition finish_tx ::
  "pg_repository \<Rightarrow> instant \<Rightarrow> instant \<Rightarrow> string \<Rightarrow> string \<Rightarrow> operation_state \<Rightarrow> task_result option \<Rightarrow> string option
    \<Rightarrow> (gateway_db, transition_outcome) py" where
  "finish_tx rp now completion_now k ws st result code =
     bindS (lock_worker_workstation rp ws None False 0) (\<lambda>_.
     bindS (lock_operation rp k (Some ws)) (\<lambda>found.
     case found of
       None \<Rightarrow> ret (TransitionOutcome TransNotFound None)
     | Some r0 \<Rightarrow>
         bindS (refresh_locked rp r0 now) (\<lambda>(r, changed).
         if changed \<and> o_state r = EXPIRED then ret (TransitionOutcome TransOperationExpired (Some r))
         else if o_state r \<noteq> RUNNING then ret (TransitionOutcome TransInvalidState (Some r))
         else
           bindS (guardS (result \<noteq> None \<or> st = FAILED) AssertionError) (\<lambda>_.
           bindS (validate_binding_locked rp r result) (\<lambda>_.
           bindS (refresh_locked rp r completion_now) (\<lambda>(late, changed).
           if changed then ret (TransitionOutcome TransOperationExpired (Some late))
           else bindS (write_transition rp r st None (o_started r) (Some completion_now) result code completion_now)
                  (\<lambda>x. ret (TransitionOutcome TransUpdated (Some x)))))))))"

definition pg_finish_operation ::
  "pg_repository \<Rightarrow> db_fate \<Rightarrow> instant \<Rightarrow> instant \<Rightarrow> string \<Rightarrow> string \<Rightarrow> string \<Rightarrow> py_datetime
    \<Rightarrow> operation_state \<Rightarrow> task_result option \<Rightarrow> string option \<Rightarrow> (gateway_db, transition_outcome) py" where
  "pg_finish_operation rp fate now completion_now k tenant ws caller_now st result code =
     bindS (liftR (pg_require_tenant rp tenant)) (\<lambda>_.
     bindS (liftR (pg_identifier operation_id_ok k)) (\<lambda>_.
     bindS (liftR (pg_identifier workstation_id_ok ws)) (\<lambda>_.
     bindS (liftR (pg_timestamp caller_now)) (\<lambda>_.
     bindS (liftR (finish_payload st result code)) (\<lambda>_.
     pg_cursor fate (finish_tx rp now completion_now k ws st result code))))))"

section \<open>Applying a success\<close>

definition application_payload_ok :: "task_result \<Rightarrow> project_record list \<Rightarrow> drawing_record list \<Rightarrow> bool" where
  "application_payload_ok result projects drawings = (case result of
     ListProjectsResult ids \<Rightarrow> drawings = [] \<and> no_duplicates (map prj_id projects)
       \<and> map prj_id (filter prj_enabled projects) = ids
   | ScanDrawingsResult p ids truncated \<Rightarrow> projects = [] \<and> no_duplicates (map drw_id drawings)
       \<and> map drw_id drawings = ids \<and> list_all (\<lambda>d. drw_prj d = p) drawings
   | _ \<Rightarrow> projects = [] \<and> drawings = [])"

definition application_records_ok :: "pg_repository \<Rightarrow> operation_record \<Rightarrow> project_record list \<Rightarrow> drawing_record list \<Rightarrow> bool" where
  "application_records_ok rp r projects drawings \<longleftrightarrow>
     list_all (\<lambda>p. prj_tenant p = pg_tenant rp \<and> prj_tenant p = o_tenant r \<and> prj_owner p = o_owner r \<and> prj_ws p = o_ws r) projects
     \<and> list_all (\<lambda>d. drw_tenant d = pg_tenant rp \<and> drw_tenant d = o_tenant r \<and> drw_owner d = o_owner r \<and> drw_ws d = o_ws r) drawings"

fun write_rows :: "('a \<Rightarrow> (gateway_db, 'a option) py) \<Rightarrow> 'a list \<Rightarrow> (gateway_db, unit) py" where
  "write_rows write [] = ret ()"
| "write_rows write (x # xs) =
     bindS (write x) (\<lambda>found.
     bindS (guardS (\<not> none found) (RepositoryError ''catalog_conflict'')) (\<lambda>_.
     write_rows write xs))"

definition apply_tx ::
  "pg_repository \<Rightarrow> instant \<Rightarrow> instant \<Rightarrow> string \<Rightarrow> string \<Rightarrow> task_result \<Rightarrow> project_record list \<Rightarrow> drawing_record list
    \<Rightarrow> (gateway_db, transition_outcome) py" where
  "apply_tx rp now completion_now k ws result projects drawings =
     bindS (lock_worker_workstation rp ws None False 0) (\<lambda>_.
     bindS (lock_operation rp k (Some ws)) (\<lambda>found.
     case found of
       None \<Rightarrow> ret (TransitionOutcome TransNotFound None)
     | Some r0 \<Rightarrow>
         bindS (refresh_locked rp r0 now) (\<lambda>(r, changed).
         if changed \<and> o_state r = EXPIRED then ret (TransitionOutcome TransOperationExpired (Some r))
         else if o_state r = SUCCEEDED
         then ret (TransitionOutcome (if o_result r = Some result then TransUpdated else TransInvalidState) (Some r))
         else if o_state r \<noteq> RUNNING then ret (TransitionOutcome TransInvalidState (Some r))
         else
           bindS (terminal_payload (application_records_ok rp r projects drawings)) (\<lambda>_.
           bindS (write_rows write_project projects) (\<lambda>_.
           bindS (write_rows write_drawing drawings) (\<lambda>_.
           bindS (validate_binding_locked rp r (Some result)) (\<lambda>_.
           bindS (guardS (completion_now < o_expires r) (RepositoryError ''invalid_terminal_state'')) (\<lambda>_.
           bindS (write_transition rp r SUCCEEDED None (o_started r) (Some completion_now) (Some result) None completion_now)
             (\<lambda>x. ret (TransitionOutcome TransUpdated (Some x)))))))))))"

definition application_checked :: "task_result \<Rightarrow> project_record list \<Rightarrow> drawing_record list \<Rightarrow> unit res" where
  "application_checked result projects drawings =
     bindR (pg_error ''invalid_terminal_payload'' (valid_result result)) (\<lambda>_.
     bindR (pg_record (list_all valid_project_record) projects) (\<lambda>_.
     bindR (pg_record (list_all valid_drawing_record) drawings) (\<lambda>_.
     pg_error ''invalid_terminal_payload'' (application_payload_ok result projects drawings))))"

definition pg_apply_worker_success ::
  "pg_repository \<Rightarrow> db_fate \<Rightarrow> instant \<Rightarrow> instant \<Rightarrow> string \<Rightarrow> string \<Rightarrow> string \<Rightarrow> py_datetime
    \<Rightarrow> task_result \<Rightarrow> project_record list \<Rightarrow> drawing_record list \<Rightarrow> (gateway_db, transition_outcome) py" where
  "pg_apply_worker_success rp fate now completion_now k tenant ws caller_now result projects drawings =
     bindS (liftR (pg_require_tenant rp tenant)) (\<lambda>_.
     bindS (liftR (pg_identifier operation_id_ok k)) (\<lambda>_.
     bindS (liftR (pg_identifier workstation_id_ok ws)) (\<lambda>_.
     bindS (liftR (pg_timestamp caller_now)) (\<lambda>_.
     bindS (liftR (application_checked result projects drawings)) (\<lambda>_.
     pg_cursor fate (apply_tx rp now completion_now k ws result projects drawings))))))"

end
