(* ===== verification/Postgres_Refinement.thy ===== *)
theory Postgres_Refinement
  imports Postgres_Repository
begin

text \<open>
  The PostgreSQL repository refines the in-memory one: what a tenant sees of the tables is an
  in-memory store, and every transaction does to it what a method of that store does.
\<close>

declare map_of_eq_Some_iff [simp del]

declare Some_eq_map_of_iff [simp del]

section \<open>Rows and dicts\<close>

definition keyed_rows :: "('a \<Rightarrow> 'k) \<Rightarrow> 'a list \<Rightarrow> ('k \<times> 'a) list" where
  "keyed_rows f xs = map (\<lambda>x. (f x, x)) xs"

lemma keyed_keys [simp]: "map fst (keyed_rows f xs) = map f xs" "map snd (keyed_rows f xs) = xs"
  by (simp_all add: keyed_rows_def comp_def)

lemma keyed_find: "map_of (keyed_rows f xs) k = find (\<lambda>x. f x = k) xs"
  by (induction xs) (auto simp add: keyed_rows_def)

lemma keyed_add: "f y \<notin> f ` set xs \<Longrightarrow> AList.update (f y) y (keyed_rows f xs) = keyed_rows f (xs @ [y])"
  by (induction xs) (auto simp add: keyed_rows_def)

lemma replace_absent: "k \<notin> f ` set xs \<Longrightarrow> map (\<lambda>x. if f x = k then y else x) xs = xs"
  by (induction xs) auto

lemma keyed_replace:
  assumes "distinct (map f xs)" and "f y \<in> f ` set xs"
  shows "AList.update (f y) y (keyed_rows f xs) = keyed_rows f (map (\<lambda>x. if f x = f y then y else x) xs)"
  using assms
proof (induction xs)
  case (Cons x xs)
  show ?case
  proof (cases "f x = f y")
    case True
    with Cons.prems(1) have "f y \<notin> f ` set xs" by simp
    from replace_absent[OF this, of y] True show ?thesis by (simp add: keyed_rows_def)
  next
    case False
    with Cons show ?thesis by (simp add: keyed_rows_def)
  qed
qed simp

lemma filter_replace_own:
  "(\<And>y. P y \<Longrightarrow> Q y) \<Longrightarrow> (\<And>y. y \<in> set xs \<Longrightarrow> P y \<Longrightarrow> Q (g y)) \<Longrightarrow>
   filter Q (map (\<lambda>y. if P y then g y else y) xs) = map (\<lambda>y. if P y then g y else y) (filter Q xs)"
  by (induction xs) auto

lemma filter_replace_other:
  "(\<And>y. P y \<Longrightarrow> \<not> Q y) \<Longrightarrow> (\<And>y. y \<in> set xs \<Longrightarrow> P y \<Longrightarrow> \<not> Q (g y)) \<Longrightarrow> filter Q (map (\<lambda>y. if P y then g y else y) xs) = filter Q xs"
  by (induction xs) auto

lemma find_filter: "find P (filter Q xs) = find (\<lambda>x. Q x \<and> P x) xs"
  by (induction xs) auto

lemma find_map: "find P (map f xs) = map_option f (find (\<lambda>x. P (f x)) xs)"
  by (induction xs) auto

lemma find_cong_set: "(\<And>x. x \<in> set xs \<Longrightarrow> P x = Q x) \<Longrightarrow> find P xs = find Q xs"
  by (induction xs) auto

lemma find_SomeD: "find P xs = Some x \<Longrightarrow> x \<in> set xs \<and> P x"
  by (auto simp add: find_Some_iff)

lemma find_unique: "distinct (map f xs) \<Longrightarrow> x \<in> set xs \<Longrightarrow> f x = k \<Longrightarrow> find (\<lambda>x. f x = k) xs = Some x"
  by (induction xs) auto

section \<open>What a tenant sees\<close>

definition tenant_stations :: "string \<Rightarrow> gateway_db \<Rightarrow> workstation_record list" where
  "tenant_stations t db = filter (\<lambda>w. ws_tenant w = t) (map wr_record (gd_stations db))"

definition tenant_projects :: "string \<Rightarrow> gateway_db \<Rightarrow> project_record list" where
  "tenant_projects t db = filter (\<lambda>p. prj_tenant p = t) (gd_projects db)"

definition tenant_drawings :: "string \<Rightarrow> gateway_db \<Rightarrow> drawing_record list" where
  "tenant_drawings t db = filter (\<lambda>d. drw_tenant d = t) (gd_drawings db)"

definition tenant_operations :: "string \<Rightarrow> gateway_db \<Rightarrow> operation_record list" where
  "tenant_operations t db = filter (\<lambda>r. o_tenant r = t) (gd_operations db)"

definition tenant_store :: "string \<Rightarrow> gateway_db \<Rightarrow> gateway_repo" where
  "tenant_store t db = \<lparr>g_workstations = keyed_rows ws_id (tenant_stations t db), g_projects = keyed_rows prj_id (tenant_projects t db),
     g_drawings = keyed_rows drw_id (tenant_drawings t db), g_operations = keyed_rows o_id (tenant_operations t db),
     g_idempotency = map (\<lambda>r. (idem_key r, o_id r)) (tenant_operations t db)\<rparr>"

lemma tenant_store_sel:
  "g_workstations (tenant_store t db) = keyed_rows ws_id (tenant_stations t db)"
  "g_projects (tenant_store t db) = keyed_rows prj_id (tenant_projects t db)"
  "g_drawings (tenant_store t db) = keyed_rows drw_id (tenant_drawings t db)"
  "g_operations (tenant_store t db) = keyed_rows o_id (tenant_operations t db)"
  "g_idempotency (tenant_store t db) = map (\<lambda>r. (idem_key r, o_id r)) (tenant_operations t db)"
  by (simp_all add: tenant_store_def)

definition gateway_ok :: "gateway_db \<Rightarrow> bool" where
  "gateway_ok db \<longleftrightarrow> (\<forall>t. repo_wf (tenant_store t db))"

lemma tenant_find_op [simp]: "find_op (tenant_store t db) k = find_operation t k db"
  by (simp add: tenant_store_sel keyed_find tenant_operations_def find_filter find_operation_def operation_is_def[abs_def])

lemma tenant_find_prj [simp]: "find_prj (tenant_store t db) k = find (project_is t k) (gd_projects db)"
  by (simp add: tenant_store_sel keyed_find tenant_projects_def find_filter project_is_def[abs_def])

lemma tenant_find_drw [simp]: "find_drw (tenant_store t db) k = find (drawing_is t k) (gd_drawings db)"
  by (simp add: tenant_store_sel keyed_find tenant_drawings_def find_filter drawing_is_def[abs_def])

lemma tenant_find_ws [simp]: "find_ws (tenant_store t db) k = map_option wr_record (find (station_is t k) (gd_stations db))"
  by (simp add: tenant_store_sel keyed_find tenant_stations_def find_filter find_map station_is_def[abs_def])

lemma gateway_ok_keys:
  assumes "gateway_ok db"
  shows "distinct (map ws_id (tenant_stations t db))" "distinct (map prj_id (tenant_projects t db))"
    "distinct (map drw_id (tenant_drawings t db))" "distinct (map o_id (tenant_operations t db))"
  using assms[unfolded gateway_ok_def, rule_format, of t]
  by (simp_all add: repo_wf_def ops_wf_def catalog_wf_def tenant_store_sel)

lemma gateway_ok_op:
  assumes "gateway_ok db" and "r \<in> set (gd_operations db)"
  shows "find_operation (o_tenant r) (o_id r) db = Some r" "op_wf r"
proof -
  have "r \<in> set (tenant_operations (o_tenant r) db)" using assms(2) by (simp add: tenant_operations_def)
  from find_unique[OF gateway_ok_keys(4)[OF assms(1)] this refl]
  show f: "find_operation (o_tenant r) (o_id r) db = Some r"
    by (simp add: tenant_find_op[symmetric] tenant_store_sel keyed_find del: tenant_find_op)
  with assms(1) show "op_wf r" using repo_wf_op(2)[of "tenant_store (o_tenant r) db" "o_id r" r] by (simp add: gateway_ok_def)
qed

lemma find_operationD: "find_operation t k db = Some r \<Longrightarrow> r \<in> set (gd_operations db) \<and> o_tenant r = t \<and> o_id r = k"
  by (auto simp add: find_operation_def operation_is_def dest: find_SomeD)

lemma find_retry_tenant: "find_retry r db = find (\<lambda>x. idem_key x = idem_key r) (tenant_operations (o_tenant r) db)"
  by (auto simp add: find_retry_def tenant_operations_def find_filter idem_key_def intro!: find_cong_set)

lemma map_of_pairs: "map_of (map (\<lambda>r. (f r, g r)) xs) k = map_option g (find (\<lambda>r. f r = k) xs)"
  by (induction xs) auto

lemma tenant_idem: "map_of (g_idempotency (tenant_store (o_tenant r) db)) (idem_key r) = map_option o_id (find_retry r db)"
  by (simp add: tenant_store_sel map_of_pairs find_retry_tenant)

lemma no_retry: "find_retry r db = None \<longleftrightarrow> idem_key r \<notin> idem_key ` set (gd_operations db)"
  by (simp add: find_retry_def find_None_iff image_iff) (blast intro: sym)

section \<open>Changing one row\<close>

lemma replace_store:
  assumes ok: "gateway_ok db" and old: "find_operation (o_tenant x) (o_id x) db = Some r" and id: "idem_key x = idem_key r"
  shows "tenant_store t (replace_operation x db) =
    (if t = o_tenant x then put_op (o_id x) x (tenant_store t db) else tenant_store t db)"
proof (cases "t = o_tenant x")
  case True
  then have [simp]: "o_tenant x = t" by simp
  have r: "r \<in> set (tenant_operations t db)" "o_id r = o_id x"
    using old by (auto dest!: find_operationD simp add: tenant_operations_def)
  let ?c = "\<lambda>y. if o_id y = o_id x then x else y"
  have ops: "tenant_operations t (replace_operation x db) = map ?c (tenant_operations t db)"
    by (simp add: tenant_operations_def replace_operation_def)
      (subst filter_replace_own, auto simp add: operation_is_def)
  have one: "y = r" if "y \<in> set (tenant_operations t db)" "o_id y = o_id x" for y
    using gateway_ok_keys(4)[OF ok, of t] r that by (metis distinct_map inj_onD)
  have "keyed_rows o_id (map ?c (tenant_operations t db)) = AList.update (o_id x) x (keyed_rows o_id (tenant_operations t db))"
    using keyed_replace[OF gateway_ok_keys(4)[OF ok, of t], of x] r by (metis (no_types, lifting) imageI)
  moreover have "map (\<lambda>r. (idem_key r, o_id r)) (map ?c (tenant_operations t db)) = map (\<lambda>r. (idem_key r, o_id r)) (tenant_operations t db)"
    using id one r(2) by (auto simp add: comp_def)
  moreover have "tenant_stations t (replace_operation x db) = tenant_stations t db"
    "tenant_projects t (replace_operation x db) = tenant_projects t db"
    "tenant_drawings t (replace_operation x db) = tenant_drawings t db"
    by (simp_all add: tenant_stations_def tenant_projects_def tenant_drawings_def replace_operation_def)
  ultimately show ?thesis by (simp add: tenant_store_def ops put_op_def)
next
  case False
  have "tenant_operations t (replace_operation x db) = tenant_operations t db"
    using False by (simp add: tenant_operations_def replace_operation_def)
      (rule filter_replace_other, auto simp add: operation_is_def)
  then show ?thesis using False
    by (simp add: tenant_store_def tenant_stations_def tenant_projects_def tenant_drawings_def replace_operation_def)
qed

lemma tenant_store_events [simp]: "tenant_store t (add_events es db) = tenant_store t db"
  by (simp add: tenant_store_def tenant_stations_def tenant_projects_def tenant_drawings_def tenant_operations_def add_events_def)

lemma gateway_ok_events [simp]: "gateway_ok (add_events es db) = gateway_ok db"
  by (simp add: gateway_ok_def)

section \<open>One transition\<close>

text \<open>
  A transition replaces one operation by the next record of its life and logs it: its effect on
  the tenant's store is put\_op, no other tenant sees it.
\<close>

definition event_of :: "operation_record \<Rightarrow> operation_record \<Rightarrow> instant \<Rightarrow> event_row" where
  "event_of r x at = \<lparr>ev_tenant = o_tenant r, ev_operation = o_id r, ev_from = Some (o_state r), ev_to = o_state x, ev_at = at\<rparr>"

definition transitioned :: "operation_record \<Rightarrow> operation_record \<Rightarrow> instant \<Rightarrow> gateway_db \<Rightarrow> gateway_db \<Rightarrow> bool" where
  "transitioned r x at db db' \<longleftrightarrow> find_operation (o_tenant r) (o_id r) db = Some r \<and> op_wf x \<and> same_identity r x
     \<and> lifecycle_edge (o_state r) (o_state x) \<and> db' = add_events [event_of r x at] (replace_operation x db)"

lemma known_edge_iff: "known_edge a b \<longleftrightarrow> lifecycle_edge a b"
  by (auto simp add: known_edge_def lifecycle_edge.simps)

lemma transitioned_store:
  assumes "gateway_ok db" and "transitioned r x at db db'"
  shows "tenant_store (o_tenant r) db' = put_op (o_id r) x (tenant_store (o_tenant r) db)"
    "t \<noteq> o_tenant r \<Longrightarrow> tenant_store t db' = tenant_store t db"
  using replace_store[OF assms(1), of x r] assms(2)
  by (auto simp add: transitioned_def same_identity_def idem_key_def)

lemma transitioned_new: "transitioned r x at db db' \<Longrightarrow> x \<noteq> r"
  by (auto simp add: transitioned_def lifecycle_edge.simps)

text \<open>Reading a row whose error code is safe gives the row.\<close>

lemma model_validate_code:
  "model_validate r = Inr x \<Longrightarrow> (\<And>c. o_error r = Some c \<Longrightarrow> safe_code c) \<Longrightarrow> x = r \<and> op_wf x"
  by (drule model_validate_result) (cases "o_error r"; auto)

lemma write_transition_ok:
  assumes ok: "gateway_ok db" and r: "find_operation (pg_tenant rp) k db = Some r"
    and new: "o_state r \<noteq> st" and safe: "\<And>c. code = Some c \<Longrightarrow> safe_code c"
    and out: "write_transition rp r st lease started completed result code at db = (Inr x, db')"
  shows "x = r\<lparr>o_state := st, o_lease := lease, o_started := started, o_completed := completed, o_result := result, o_error := code\<rparr>"
    "transitioned r x at db db'" "operation_checks x"
proof -
  let ?x = "r\<lparr>o_state := st, o_lease := lease, o_started := started, o_completed := completed, o_result := result, o_error := code\<rparr>"
  note rk = find_operationD[OF r]
  have "find (\<lambda>y. operation_is (pg_tenant rp) (o_id r) y \<and> o_state y = o_state r) (gd_operations db) = Some r"
  proof -
    have "find (\<lambda>y. operation_is (pg_tenant rp) (o_id r) y \<and> o_state y = o_state r) (gd_operations db)
        = find (operation_is (pg_tenant rp) (o_id r)) (gd_operations db)"
      using gateway_ok_op(1)[OF ok] rk by (intro find_cong_set) (auto simp add: operation_is_def, metis option.inject)
    then show ?thesis using r rk by (simp add: find_operation_def)
  qed
  with out have u: "transition_guard r ?x" "operation_checks ?x" "model_validate ?x = Inr x"
    "db' = add_events [\<lparr>ev_tenant = pg_tenant rp, ev_operation = o_id x, ev_from = Some (o_state r), ev_to = st, ev_at = at\<rparr>]
       (replace_operation ?x db)"
    by (auto simp add: write_transition_def update_operation_def record_event_def bindS_eq_Inr split: if_splits option.splits)
  from model_validate_code[OF u(3)] safe have x: "x = ?x" "op_wf x" by auto
  show "x = ?x" by (rule x)
  show "operation_checks x" using u(2) by (simp only: x(1)[symmetric])
  show "transitioned r x at db db'"
    using u(1,4) x(2) rk r new unfolding x(1)
    by (auto simp add: transitioned_def event_of_def transition_guard_def same_identity_def known_edge_iff)
qed

lemma refreshed_pg:
  assumes "op_wf r"
  shows "o_state r = CREATED \<Longrightarrow> o_expires r \<le> now \<Longrightarrow> refreshed r now = r\<lparr>o_state := EXPIRED, o_lease := None,
      o_started := o_started r, o_completed := Some now, o_result := None, o_error := Some ''operation_expired''\<rparr>"
    "o_state r = LEASED \<Longrightarrow> lease_over r now \<Longrightarrow> refreshed r now = r\<lparr>o_state := ATTENTION_REQUIRED, o_lease := None,
      o_started := o_started r, o_completed := Some now, o_result := None, o_error := Some ''lease_expired''\<rparr>"
    "o_state r = RUNNING \<Longrightarrow> o_expires r \<le> now \<Longrightarrow> refreshed r now = r\<lparr>
      o_state := if is_translation_apply (o_task r) then ATTENTION_REQUIRED else EXPIRED, o_lease := None,
      o_started := o_started r, o_completed := Some now, o_result := None,
      o_error := Some (if is_translation_apply (o_task r) then ''translation_attention_required'' else ''operation_expired'')\<rparr>"
  using op_wfD(3)[OF assms]
  by (auto simp add: refreshed_def expired_record_def lost_record_def uncertain_record_def lease_over_def state_data_holds_def
      split: option.splits)

lemma not_due: "\<not> (o_state r = CREATED \<and> o_expires r \<le> now) \<Longrightarrow> \<not> (o_state r = LEASED \<and> lease_over r now) \<Longrightarrow>
    \<not> (o_state r = RUNNING \<and> o_expires r \<le> now) \<Longrightarrow> refreshed r now = r"
  by (auto simp add: refreshed_def lease_over_def)

lemma refresh_locked_ok:
  assumes ok: "gateway_ok db" and r: "find_operation (pg_tenant rp) k db = Some r"
    and out: "refresh_locked rp r now db = (Inr (x, changed), db')"
  shows "x = refreshed r now" "changed \<longleftrightarrow> x \<noteq> r" "if changed then transitioned r x now db db' else db' = db"
proof -
  have wf: "op_wf r" using gateway_ok_op(2)[OF ok] find_operationD[OF r] by blast
  note w = write_transition_ok[OF ok r]
  have "x = refreshed r now \<and> (changed \<longleftrightarrow> x \<noteq> r) \<and> (if changed then transitioned r x now db db' else db' = db)"
  proof (cases "o_state r = CREATED \<and> o_expires r \<le> now")
    case True
    with out have "write_transition rp r EXPIRED None (o_started r) (Some now) None (Some ''operation_expired'') now db = (Inr x, db')" "changed"
      by (auto simp add: refresh_locked_def bindS_eq_Inr)
    with w[OF _ _ this(1)] refreshed_pg(1)[OF wf] True show ?thesis by (simp add: transitioned_new)
  next
    case c: False
    show ?thesis
    proof (cases "o_state r = LEASED \<and> lease_over r now")
      case True
      with out have "write_transition rp r ATTENTION_REQUIRED None (o_started r) (Some now) None (Some ''lease_expired'') now db = (Inr x, db')" "changed"
        by (auto simp add: refresh_locked_def bindS_eq_Inr)
      with w[OF _ _ this(1)] refreshed_pg(2)[OF wf] True show ?thesis by (simp add: transitioned_new)
    next
      case l: False
      show ?thesis
      proof (cases "o_state r = RUNNING \<and> o_expires r \<le> now")
        case True
        with out have "write_transition rp r (if is_translation_apply (o_task r) then ATTENTION_REQUIRED else EXPIRED) None (o_started r) (Some now) None
           (Some (if is_translation_apply (o_task r) then ''translation_attention_required'' else ''operation_expired'')) now db = (Inr x, db')" "changed"
          by (auto simp add: refresh_locked_def bindS_eq_Inr Let_def)
        with w[OF _ _ this(1)] refreshed_pg(3)[OF wf] True show ?thesis
          by (cases "is_translation_apply (o_task r)") (simp_all add: transitioned_new)
      next
        case False
        with c l out not_due[of r now] show ?thesis by (auto simp add: refresh_locked_def)
      qed
    qed
  qed
  then show "x = refreshed r now" "changed \<longleftrightarrow> x \<noteq> r" "if changed then transitioned r x now db db' else db' = db" by auto
qed

text \<open>The refresh leaves the tenant's store as settle does, and keeps it well-formed.\<close>

lemma settled:
  assumes ok: "gateway_ok db" and r: "find_operation (pg_tenant rp) k db = Some r"
    and out: "refresh_locked rp r now db = (Inr (x, changed), db')"
  shows "tenant_store (pg_tenant rp) db' = settle k r now (tenant_store (pg_tenant rp) db)"
    "t \<noteq> pg_tenant rp \<Longrightarrow> tenant_store t db' = tenant_store t db"
  using refresh_locked_ok[OF assms] transitioned_store[OF ok, of r x now db'] find_operationD[OF r]
  by (auto simp add: settle_def split: if_splits)

lemma gateway_ok_step:
  assumes "gateway_ok db" and "good_step (tenant_store own db) (tenant_store own db')"
    and "\<And>t. t \<noteq> own \<Longrightarrow> tenant_store t db' = tenant_store t db"
  shows "gateway_ok db'"
  unfolding gateway_ok_def
proof
  fix t
  show "repo_wf (tenant_store t db')"
    using assms by (cases "t = own") (auto simp add: gateway_ok_def good_step_def)
qed

section \<open>Reading, refreshing, starting and finishing\<close>

definition row_moved :: "string \<Rightarrow> gateway_db \<Rightarrow> gateway_db \<Rightarrow> bool" where
  "row_moved own db db' \<longleftrightarrow> db' = db \<or> (\<exists>r x at. o_tenant r = own \<and> transitioned r x at db db')"

lemma moved_refl [simp]: "row_moved own db db"
  by (simp add: row_moved_def)

lemma moved_others:
  "gateway_ok db \<Longrightarrow> row_moved own db db' \<Longrightarrow> t \<noteq> own \<Longrightarrow> tenant_store t db' = tenant_store t db"
  unfolding row_moved_def using transitioned_store(2) by blast

lemma find_never [simp]: "find (\<lambda>x. False) xs = None"
  by (induction xs) auto

lemma lock_operation_eq:
  assumes ok: "gateway_ok db"
  shows "lock_operation rp k w db = (Inr (case find_operation (pg_tenant rp) k db of None \<Rightarrow> None
     | Some r \<Rightarrow> if (case w of None \<Rightarrow> True | Some v \<Rightarrow> o_ws r = v) then Some r else None), db)"
proof -
  let ?P = "\<lambda>r. case w of None \<Rightarrow> True | Some v \<Rightarrow> o_ws r = v"
  have one: "y = r" if "find_operation (pg_tenant rp) k db = Some r" "y \<in> set (gd_operations db)" "operation_is (pg_tenant rp) k y" for y r
    using gateway_ok_op(1)[OF ok that(2)] that(1,3) by (simp add: operation_is_def)
  have "find (\<lambda>r. operation_is (pg_tenant rp) k r \<and> ?P r) (gd_operations db) = (case find_operation (pg_tenant rp) k db of None \<Rightarrow> None
     | Some r \<Rightarrow> if ?P r then Some r else None)"
  proof (cases "find_operation (pg_tenant rp) k db")
    case None
    then have "find (\<lambda>r. operation_is (pg_tenant rp) k r \<and> ?P r) (gd_operations db) = None"
      by (auto simp add: find_operation_def find_None_iff)
    with None show ?thesis by simp
  next
    case (Some r)
    from one[OF Some] have "find (\<lambda>y. operation_is (pg_tenant rp) k y \<and> ?P y) (gd_operations db)
        = find (\<lambda>y. operation_is (pg_tenant rp) k y \<and> ?P r) (gd_operations db)"
      by (intro find_cong_set) auto
    with Some show ?thesis by (cases "?P r") (simp_all add: find_operation_def)
  qed
  moreover have "model_validate r = Inr r" if "find_operation (pg_tenant rp) k db = Some r" for r
    using gateway_ok_op(2)[OF ok] find_operationD[OF that] by (blast intro: op_wf_model_validate)
  ultimately show ?thesis
    by (auto simp add: lock_operation_def pg_read_def pg_found_def bindS_def liftR_def split: option.splits)
qed

lemma lock_worker_ok: "lock_worker_workstation rp ws owner online now db = (Inr u, db') \<Longrightarrow> db' = db"
  by (auto simp add: lock_worker_workstation_def pg_lock_rows_def pg_read_def bindS_eq_Inr)

lemma refresh_sim:
  assumes ok: "gateway_ok db" and out: "refresh_tx rp now k db = (Inr v, db')"
  shows "refresh_operation k now (tenant_store (pg_tenant rp) db) = (Inr v, tenant_store (pg_tenant rp) db')"
    "row_moved (pg_tenant rp) db db'"
proof -
  have "refresh_operation k now (tenant_store (pg_tenant rp) db) = (Inr v, tenant_store (pg_tenant rp) db') \<and> row_moved (pg_tenant rp) db db'"
  proof (cases "find_operation (pg_tenant rp) k db")
    case None
    with out show ?thesis by (auto simp add: refresh_tx_def lock_operation_eq[OF ok] bindS_eq_Inr refresh_operation_def)
  next
    case (Some r)
    with out obtain x changed where l: "refresh_locked rp r now db = (Inr (x, changed), db')" "v = Some x"
      by (auto simp add: refresh_tx_def lock_operation_eq[OF ok] bindS_eq_Inr)
    have rk: "o_id r = k" "o_tenant r = pg_tenant rp" "op_wf r"
      using find_operationD[OF Some] gateway_ok_op(2)[OF ok] by auto
    have "find_op (tenant_store (pg_tenant rp) db) k = Some r" using Some by simp
    then have "put_op k r (tenant_store (pg_tenant rp) db) = tenant_store (pg_tenant rp) db"
      by (rule put_same) (simp add: tenant_store_sel gateway_ok_keys(4)[OF ok])
    then have "settle k r now (tenant_store (pg_tenant rp) db) = put_op k (refreshed r now) (tenant_store (pg_tenant rp) db)"
      by (simp add: settle_def)
    with Some l(2) settled(1)[OF ok Some l(1)] refresh_locked_ok[OF ok Some l(1)] rk show ?thesis
      by (auto simp add: refresh_operation_def refresh_due_eq row_moved_def split: if_splits)
  qed
  then show "refresh_operation k now (tenant_store (pg_tenant rp) db) = (Inr v, tenant_store (pg_tenant rp) db')"
    "row_moved (pg_tenant rp) db db'" by simp_all
qed

lemma start_sim:
  assumes ok: "gateway_ok db" and out: "start_tx rp now k ws db = (Inr v, db')"
  shows "start_operation k (pg_tenant rp) ws now (tenant_store (pg_tenant rp) db) = (Inr v, tenant_store (pg_tenant rp) db')"
    "row_moved (pg_tenant rp) db db'"
proof -
  let ?own = "pg_tenant rp" and ?S = "tenant_store (pg_tenant rp) db"
  have "start_operation k ?own ws now ?S = (Inr v, tenant_store ?own db') \<and> row_moved ?own db db'"
  proof (cases "find_operation ?own k db")
    case None
    with out show ?thesis
      by (auto simp add: start_tx_def lock_operation_eq[OF ok] bindS_eq_Inr start_operation_def dest!: lock_worker_ok)
  next
    case (Some r)
    have rk: "o_id r = k" "o_tenant r = ?own" and wf: "op_wf r" using find_operationD[OF Some] gateway_ok_op(2)[OF ok] by auto
    have L: "lock_operation rp k (Some ws) db = (Inr (if o_ws r = ws then Some r else None), db)"
      using Some by (simp add: lock_operation_eq[OF ok])
    note w = write_transition_ok[OF ok Some] and t = transitioned_store(1)[OF ok]
    show ?thesis
    proof (cases "o_ws r = ws \<and> o_state r = LEASED")
      case False
      with L out have "db' = db \<and> v = (if o_ws r = ws then TransitionOutcome TransInvalidState (Some r) else TransitionOutcome TransNotFound None)"
        by (auto simp add: start_tx_def bindS_eq_Inr dest!: lock_worker_ok split: if_splits)
      with False Some show ?thesis by (auto simp add: start_operation_def worker_owns_def rk)
    next
      case leased: True
      show ?thesis
      proof (cases "lease_over r now")
        case True
        with leased L out obtain x where
          x: "write_transition rp r ATTENTION_REQUIRED None (o_started r) (Some now) None (Some ''lease_expired'') now db = (Inr x, db')"
          "v = TransitionOutcome TransLeaseExpired (Some x)"
          by (auto simp add: start_tx_def bindS_eq_Inr dest!: lock_worker_ok)
        from w[OF _ _ x(1)] leased have e: "x = refreshed r now" "transitioned r x now db db'"
          by (simp_all add: refreshed_pg(2)[OF wf _ True])
        from leased True have a: "attention_required r now = Inr x"
          using refresh_due_eq[OF wf, of now] by (auto simp add: refresh_due_def e(1) lease_over_def split: option.splits if_splits)
        from t[OF e(2)] rk leased True Some a show ?thesis
          using e(2) x(2) by (auto simp add: start_operation_def worker_owns_def lease_over_def row_moved_def split: option.splits)
      next
        case False
        with leased L out obtain x where
          x: "write_transition rp r RUNNING None (Some now) None None None now db = (Inr x, db')"
          "v = TransitionOutcome TransUpdated (Some x)"
          by (auto simp add: start_tx_def bindS_eq_Inr dest!: lock_worker_ok)
        from w[OF _ _ x(1)] leased have e: "x = r\<lparr>o_state := RUNNING, o_lease := None, o_started := Some now,
            o_completed := None, o_result := None, o_error := None\<rparr>" "transitioned r x now db db'" by simp_all
        then have "x = r\<lparr>o_state := RUNNING, o_lease := None, o_started := Some now\<rparr>"
          using op_wfD(3)[OF wf] leased by (simp add: state_data_holds_def)
        with e(2) have "model_validate (r\<lparr>o_state := RUNNING, o_lease := None, o_started := Some now\<rparr>) = Inr x"
          by (auto simp add: transitioned_def intro: op_wf_model_validate)
        with t[OF e(2)] rk leased False Some show ?thesis
          using e(2) x(2) by (auto simp add: start_operation_def worker_owns_def lease_over_def row_moved_def split: option.splits)
      qed
    qed
  qed
  then show "start_operation k ?own ws now ?S = (Inr v, tenant_store ?own db')" "row_moved ?own db db'" by simp_all
qed

text \<open>
  A finish reads the clock twice. It answers as the in-memory store does at the reading that
  decides, except that a write whose outcome became unknown between the two readings is reported as
  expired where the in-memory store says invalid state.
\<close>

definition same_answer :: "transition_outcome \<Rightarrow> transition_outcome \<Rightarrow> bool" where
  "same_answer v v' \<longleftrightarrow> v' = v \<or> (\<exists>r. o_state r = ATTENTION_REQUIRED
     \<and> v = TransitionOutcome TransOperationExpired (Some r) \<and> v' = TransitionOutcome TransInvalidState (Some r))"

lemma same_answer_refl [simp]: "same_answer v v"
  by (simp add: same_answer_def)

lemma validate_binding_ok: "validate_binding_locked rp r result db = (Inr u, db') \<Longrightarrow> db' = db"
  by (auto simp add: validate_binding_locked_def terminal_payload_def require_catalog_ids_def lock_offline_def pg_lock_rows_def
      pg_read_def bindS_eq_Inr Let_def split: option.splits task_result.splits read_task.splits if_splits)

lemma refreshed_states:
  "refreshed r now \<noteq> r \<Longrightarrow> o_state (refreshed r now) = EXPIRED \<or> o_state (refreshed r now) = ATTENTION_REQUIRED"
  by (auto simp add: refreshed_def split: if_splits)

lemma finished_record:
  assumes "op_wf r" and "o_state r = RUNNING"
  shows "r\<lparr>o_state := st, o_lease := None, o_completed := c, o_result := v, o_error := code\<rparr>
    = r\<lparr>o_state := st, o_completed := c, o_result := v, o_error := code\<rparr>"
  using op_wfD(3)[OF assms(1)] assms(2) by (simp add: state_data_holds_def)

lemma finish_payload_ok:
  assumes "finish_payload st result code = Inr u"
  shows "st = SUCCEEDED \<or> st = FAILED \<or> st = ATTENTION_REQUIRED" "code = Some c \<Longrightarrow> safe_code c"
    "st \<noteq> SUCCEEDED \<Longrightarrow> result = None"
  using assms by (auto simp add: finish_payload_def split: if_splits option.splits)

lemma finish_sim:
  assumes ok: "gateway_ok db" and pay: "finish_payload st result code = Inr u"
    and out: "finish_tx rp now later k ws st result code db = (Inr v, db')"
  shows "\<exists>t\<in>{now, later}. \<exists>v'. same_answer v v' \<and>
      finish_operation k (pg_tenant rp) ws t st result code (tenant_store (pg_tenant rp) db) = (Inr v', tenant_store (pg_tenant rp) db')"
    and "row_moved (pg_tenant rp) db db'"
proof -
  let ?own = "pg_tenant rp" and ?S = "tenant_store (pg_tenant rp) db" and ?T = "tenant_store (pg_tenant rp) db'"
  let ?sim = "(\<exists>t\<in>{now, later}. \<exists>v'. same_answer v v' \<and> finish_operation k ?own ws t st result code ?S = (Inr v', ?T)) \<and> row_moved ?own db db'"
  note pk = finish_payload_ok[OF pay]
  have ?sim
  proof (cases "find_operation ?own k db")
    case None
    with out pk(1) have "db' = db" "v = TransitionOutcome TransNotFound None" "finish_operation k ?own ws now st result code ?S = (Inr v, ?S)"
      by (auto simp add: finish_tx_def lock_operation_eq[OF ok] bindS_eq_Inr finish_operation_def dest!: lock_worker_ok)
    then show ?thesis by auto
  next
    case (Some r)
    have rk: "o_id r = k" "o_tenant r = ?own" and wf: "op_wf r" using find_operationD[OF Some] gateway_ok_op(2)[OF ok] by auto
    have L: "lock_operation rp k (Some ws) db = (Inr (if o_ws r = ws then Some r else None), db)"
      using Some by (simp add: lock_operation_eq[OF ok])
    show ?thesis
    proof (cases "o_ws r = ws")
      case False
      with L out have "db' = db" "v = TransitionOutcome TransNotFound None"
        by (auto simp add: finish_tx_def bindS_eq_Inr dest!: lock_worker_ok)
      moreover have "finish_operation k ?own ws now st result code ?S = (Inr (TransitionOutcome TransNotFound None), ?S)"
        using False Some pk(1) by (auto simp add: finish_operation_def worker_owns_def)
      ultimately show ?thesis by auto
    next
      case here: True
      with L out obtain x changed db1 where first: "refresh_locked rp r now db = (Inr (x, changed), db1)"
        and rest: "(if changed \<and> o_state x = EXPIRED then ret (TransitionOutcome TransOperationExpired (Some x))
           else if o_state x \<noteq> RUNNING then ret (TransitionOutcome TransInvalidState (Some x))
           else bindS (guardS (result \<noteq> None \<or> st = FAILED) AssertionError) (\<lambda>_.
             bindS (validate_binding_locked rp x result) (\<lambda>_.
             bindS (refresh_locked rp x later) (\<lambda>(late, changed).
             if changed then ret (TransitionOutcome TransOperationExpired (Some late))
             else bindS (write_transition rp x st None (o_started x) (Some later) result code later)
                    (\<lambda>x. ret (TransitionOutcome TransUpdated (Some x))))))) db1 = (Inr v, db')"
        by (auto simp add: finish_tx_def bindS_eq_Inr dest!: lock_worker_ok)
      note f = refresh_locked_ok[OF ok Some first] settled(1)[OF ok Some first]
      have fin: "finish_operation k ?own ws t st result code ?S = (let r' = refreshed r t; s' = settle k r t ?S in
          if r' \<noteq> r \<and> o_state r' = EXPIRED then (Inr (TransitionOutcome TransOperationExpired (Some r')), s')
          else if o_state r' \<noteq> RUNNING then (Inr (TransitionOutcome TransInvalidState (Some r')), s')
          else (case model_validate (r'\<lparr>o_state := st, o_completed := Some t, o_result := result, o_error := code\<rparr>) of
            Inl e \<Rightarrow> (Inl e, s') | Inr y \<Rightarrow> (Inr (TransitionOutcome TransUpdated (Some y)), put_op k y s')))" for t
        using Some pk(1) here rk by (auto simp add: finish_operation_def worker_owns_def refresh_due_eq[OF wf] settle_def Let_def)
      show ?thesis
      proof (cases "o_state x = RUNNING")
        case False
        with rest f have "db' = db1" "finish_operation k ?own ws now st result code ?S = (Inr v, tenant_store ?own db1)"
          by (auto simp add: fin Let_def split: if_splits)
        moreover have "row_moved ?own db db1" using f(3) rk by (auto simp add: row_moved_def split: if_splits)
        ultimately show ?thesis by auto
      next
        case running: True
        then have same: "x = r" "db1 = db" "o_state r = RUNNING"
          using f refreshed_states[of r now] by (auto split: if_splits)
        with rest running obtain y late db2 where second: "refresh_locked rp r later db = (Inr (y, late), db2)"
          and tail: "if late then db' = db2 \<and> v = TransitionOutcome TransOperationExpired (Some y)
            else \<exists>z. write_transition rp r st None (o_started r) (Some later) result code later db2 = (Inr z, db')
              \<and> v = TransitionOutcome TransUpdated (Some z)"
          by (auto simp add: bindS_eq_Inr dest!: validate_binding_ok split: if_splits)
        note g = refresh_locked_ok[OF ok Some second] settled(1)[OF ok Some second]
        show ?thesis
        proof (cases late)
          case True
          then have y: "y = refreshed r later" "y \<noteq> r" "transitioned r y later db db'" using g tail by auto
          then have "o_state y = EXPIRED \<or> o_state y = ATTENTION_REQUIRED" using refreshed_states[of r later] by simp
          then have "\<exists>v'. same_answer v v' \<and> finish_operation k ?own ws later st result code ?S = (Inr v', ?T)"
            using tail True y(1,2) g(4) refreshed_states[of r later] by (auto simp add: fin Let_def same_answer_def)
          moreover have "row_moved ?own db db'" using y(3) rk by (auto simp add: row_moved_def)
          ultimately show ?thesis by blast
        next
          case False
          with tail obtain z where z: "write_transition rp r st None (o_started r) (Some later) result code later db = (Inr z, db')"
            "v = TransitionOutcome TransUpdated (Some z)" using g(3) by auto
          from write_transition_ok[OF ok Some _ _ z(1)] same(3) pk(1,2)
          have w: "z = r\<lparr>o_state := st, o_completed := Some later, o_result := result, o_error := code\<rparr>" "transitioned r z later db db'"
            by (auto simp add: finished_record[OF wf same(3)])
          from w(2) have "model_validate z = Inr z" by (auto simp add: transitioned_def intro: op_wf_model_validate)
          moreover have "refreshed r later = r" using False g by simp
          ultimately have "finish_operation k ?own ws later st result code ?S = (Inr v, ?T)"
            using transitioned_store(1)[OF ok w(2)] rk same(3) z(2) by (simp add: fin settle_def w(1)[symmetric])
          moreover have "row_moved ?own db db'" using w(2) rk by (auto simp add: row_moved_def)
          ultimately show ?thesis by auto
        qed
      qed
    qed
  qed
  then show "\<exists>t\<in>{now, later}. \<exists>v'. same_answer v v' \<and> finish_operation k ?own ws t st result code ?S = (Inr v', ?T)" "row_moved ?own db db'"
    by simp_all
qed

end
