(* ===== verification/Postgres_Steps.thy ===== *)
theory Postgres_Steps
  imports Postgres_Refinement
begin

text \<open>
  Creating, leasing, catalog writes and the application of a success, as steps of a tenant's store;
  and the log of events, which tells the life of every operation.
\<close>

declare map_of_eq_Some_iff [simp del]

declare Some_eq_map_of_iff [simp del]


section \<open>Creating an operation\<close>

definition restamped :: "operation_record \<Rightarrow> instant \<Rightarrow> operation_record" where
  "restamped r now = r\<lparr>o_created := now, o_expires := now + (o_expires r - o_created r)\<rparr>"

lemma restamped_sel [simp]:
  "idem_key (restamped r now) = idem_key r" "o_fingerprint (restamped r now) = o_fingerprint r"
  "o_id (restamped r now) = o_id r" "o_tenant (restamped r now) = o_tenant r" "o_state (restamped r now) = o_state r"
  "o_task (restamped r now) = o_task r" "o_ws (restamped r now) = o_ws r" "o_error (restamped r now) = o_error r"
  by (simp_all add: restamped_def idem_key_def)

definition created :: "operation_record \<Rightarrow> gateway_db \<Rightarrow> gateway_db \<Rightarrow> bool" where
  "created x db db' \<longleftrightarrow> find_operation (o_tenant x) (o_id x) db = None \<and> find_retry x db = None \<and> op_wf x \<and> o_state x = CREATED
     \<and> db' = add_events [\<lparr>ev_tenant = o_tenant x, ev_operation = o_id x, ev_from = None, ev_to = CREATED, ev_at = o_created x\<rparr>]
         (db\<lparr>gd_operations := gd_operations db @ [x]\<rparr>)"

lemma update_fresh: "k \<notin> fst ` set xs \<Longrightarrow> AList.update k v xs = xs @ [(k, v)]"
  by (induction xs) auto

lemma created_store:
  assumes "created x db db'"
  shows "tenant_store (o_tenant x) db' = (put_op (o_id x) x (tenant_store (o_tenant x) db))
      \<lparr>g_idempotency := AList.update (idem_key x) (o_id x) (g_idempotency (tenant_store (o_tenant x) db))\<rparr>"
    "t \<noteq> o_tenant x \<Longrightarrow> tenant_store t db' = tenant_store t db"
proof -
  let ?t = "o_tenant x"
  have c: "find_operation ?t (o_id x) db = None" "find_retry x db = None"
    and db': "tenant_store u db' = tenant_store u (db\<lparr>gd_operations := gd_operations db @ [x]\<rparr>)" for u
    using assms by (auto simp add: created_def)
  from c(1) have "o_id x \<notin> o_id ` set (tenant_operations ?t db)"
    by (auto simp add: find_operation_def find_None_iff operation_is_def tenant_operations_def)
  from keyed_add[OF this] have k: "AList.update (o_id x) x (keyed_rows o_id (tenant_operations ?t db)) = keyed_rows o_id (tenant_operations ?t db @ [x])" .
  from c(2) have "idem_key x \<notin> fst ` set (map (\<lambda>r. (idem_key r, o_id r)) (tenant_operations ?t db))"
    by (auto simp add: no_retry tenant_operations_def)
  from update_fresh[OF this] k show "tenant_store ?t db' = (put_op (o_id x) x (tenant_store ?t db))
      \<lparr>g_idempotency := AList.update (idem_key x) (o_id x) (g_idempotency (tenant_store ?t db))\<rparr>"
    unfolding db' by (simp add: tenant_store_def put_op_def tenant_operations_def tenant_stations_def tenant_projects_def tenant_drawings_def)
  show "t \<noteq> ?t \<Longrightarrow> tenant_store t db' = tenant_store t db"
    unfolding db' by (simp add: tenant_store_def tenant_operations_def tenant_stations_def tenant_projects_def tenant_drawings_def)
qed

lemma pg_read_apply [simp]: "pg_read f db = (Inr (f db), db)"
  by (simp add: pg_read_def)

lemma pg_found_simps [simp]: "pg_found decode None = ret None"
  "pg_found decode (Some r) = bindS (liftR (decode r)) (\<lambda>x. ret (Some x))"
  by (simp_all add: pg_found_def)

lemma enqueue_checks_read:
  "lock_enqueue_workstation rp t r db = (Inr u, db') \<Longrightarrow> db' = db"
  "validate_enqueue_task rp r db = (Inr u, db') \<Longrightarrow> db' = db"
  by (auto simp add: lock_enqueue_workstation_def validate_enqueue_task_def lock_offline_def pg_lock_rows_def 
      bindS_eq_Inr Let_def split: read_task.splits)

definition task_fits :: "operation_record \<Rightarrow> bool" where
  "task_fits r \<longleftrightarrow> (case o_task r of ValidateEnvironmentTask w \<Rightarrow> w = o_ws r | ListProjectsTask w \<Rightarrow> w = o_ws r | _ \<Rightarrow> True)"

definition tasks_fit :: "gateway_db \<Rightarrow> bool" where
  "tasks_fit db \<longleftrightarrow> (\<forall>r\<in>set (gd_operations db). task_fits r)"

lemma enqueue_fits: "validate_enqueue_task rp r db = (Inr u, db') \<Longrightarrow> task_fits r"
  by (auto simp add: validate_enqueue_task_def task_fits_def Let_def split: read_task.splits)

lemma create_sim:
  assumes ok: "gateway_ok db" and own: "o_tenant r = pg_tenant rp" and st: "o_state r = CREATED" and wf: "op_wf r"
    and out: "create_tx rp lock_now now r db = (Inr v, db')"
  shows "create_or_get_operation (restamped r now) (tenant_store (pg_tenant rp) db) = (Inr v, tenant_store (pg_tenant rp) db')"
    "db' = db \<or> created (restamped r now) db db' \<and> task_fits r \<and> int (active_count r now db) < pg_limit rp"
proof -
  let ?S = "tenant_store (pg_tenant rp) db"
  have idem: "map_of (g_idempotency ?S) (idem_key r) = map_option o_id (find_retry r db)"
    using tenant_idem[of r db] own by simp
  have "create_or_get_operation (restamped r now) ?S = (Inr v, tenant_store (pg_tenant rp) db')
    \<and> (db' = db \<or> created (restamped r now) db db' \<and> task_fits r \<and> int (active_count r now db) < pg_limit rp)"
  proof (cases "find_retry r db")
    case (Some e)
    then have e: "e \<in> set (gd_operations db)" "idem_key e = idem_key r" unfolding find_retry_def by (auto dest: find_SomeD)
    then have f: "find_operation (pg_tenant rp) (o_id e) db = Some e" using gateway_ok_op(1)[OF ok e(1)] own by (simp add: idem_key_def)
    from Some e(1) out have "v = existing_outcome r e" "db' = db"
      by (auto simp add: create_tx_def bindS_eq_Inr op_wf_model_validate[OF gateway_ok_op(2)[OF ok]])
    with idem Some f show ?thesis by (simp add: create_or_get_operation_def existing_outcome_def)
  next
    case None
    with out obtain u u2 ins db1 dbl dbm where
      l: "lock_enqueue_workstation rp lock_now r db = (Inr u, dbl)" "validate_enqueue_task rp r dbl = (Inr u2, dbm)"
      and q: "int (active_count r now dbm) < pg_limit rp"
      and i: "insert_operation (pg_json_task rp (o_task r)) (restamped r now) dbm = (Inr ins, db1)"
      and rest: "(case ins of
           Some row \<Rightarrow>
             bindS (liftR (model_validate row)) (\<lambda>created.
             bindS (record_event rp created None CREATED (o_created created)) (\<lambda>_.
             ret (CreateOutcome CreateCreated created)))
         | None \<Rightarrow>
             bindS (bindS (pg_read (find_retry r)) (pg_found model_validate)) (\<lambda>found.
             case found of
               None \<Rightarrow> raise (RepositoryError ''operation_create_failed'')
             | Some existing \<Rightarrow> ret (existing_outcome r existing))) db1 = (Inr v, db')"
      by (auto simp add: create_tx_def bindS_eq_Inr restamped_def)
    from l have [simp]: "dbl = db" "dbm = db" by (auto dest: enqueue_checks_read)
    note locks = l[simplified] and quota = q[simplified] and ins = i[simplified]
    have nr: "find_retry (restamped r now) db = None" using None by (simp add: find_retry_def)
    from ins rest None have c: "ins = Some (restamped r now)" "find_operation (o_tenant r) (o_id r) db = None"
      "db1 = db\<lparr>gd_operations := gd_operations db @ [restamped r now]\<rparr>"
      by (auto simp add: insert_operation_def bindS_eq_Inr split: if_splits)
    have "o_error r = None" using op_wfD(3)[OF wf] st by (simp add: state_data_holds_def)
    with c rest have x: "v = CreateOutcome CreateCreated (restamped r now)" "created (restamped r now) db db'"
      using own st nr
      by (auto simp add: record_event_def bindS_eq_Inr created_def dest!: model_validate_code)
    from created_store(1)[OF x(2)] idem None own show ?thesis
      using x enqueue_fits[OF locks(2)] quota by (simp add: create_or_get_operation_def)
  qed
  then show "create_or_get_operation (restamped r now) ?S = (Inr v, tenant_store (pg_tenant rp) db')"
    "db' = db \<or> created (restamped r now) db db' \<and> task_fits r \<and> int (active_count r now db) < pg_limit rp" by simp_all
qed

section \<open>The steps a tenant's store makes\<close>

text \<open>
  A method of the in-memory store, or a lease. A lease in the database asks for the oldest queued
  operation at a second reading of the clock: what ran out since the first is skipped and closed
  later, where the in-memory store, with one reading, has closed it already.
\<close>

inductive tenant_step :: "gateway_repo \<Rightarrow> gateway_repo \<Rightarrow> bool" where
  by_method: "repo_step s t \<Longrightarrow> tenant_step s t"
| lease: "find_op s (o_id r) = Some r \<Longrightarrow> waiting tenant ws owner now r
    \<Longrightarrow> (\<And>k q. find_op s k = Some q \<Longrightarrow> waiting tenant ws owner now q \<Longrightarrow> queue_key r \<le> queue_key q)
    \<Longrightarrow> (\<And>k q. find_op s k = Some q \<Longrightarrow> at_workstation tenant ws q \<Longrightarrow> \<not> active q)
    \<Longrightarrow> model_validate (leased_record r until) = Inr x
    \<Longrightarrow> tenant_step s (put_op (o_id r) x s)"

lemma store_step_good:
  assumes "tenant_step s t" and "repo_wf s"
  shows "good_step s t"
  using assms
proof (induction rule: tenant_step.induct)
  case (lease s r tenant ws owner now until x)
  show ?case
  proof (rule good_step_put[OF lease.hyps(1,5)])
    show "lifecycle_edge (o_state r) (o_state (leased_record r until))"
      using lease.hyps(2) by (simp add: waiting_def lifecycle_edge.simps)
    show "active r \<or> (\<forall>k2 r2. find_op s k2 = Some r2 \<longrightarrow> active r2 \<longrightarrow> o_tenant r2 = o_tenant r \<longrightarrow> o_ws r2 = o_ws r \<longrightarrow> False)"
      using lease.hyps(2,4) by (auto simp add: waiting_def at_workstation_def)
  qed simp
qed (rule repo_step_good)

lemma store_steps_good: "tenant_step\<^sup>*\<^sup>* s t \<Longrightarrow> repo_wf s \<Longrightarrow> good_step s t"
proof (induction rule: rtranclp_induct)
  case (step t u)
  then have "repo_wf t" by (simp add: good_step_def)
  with step show ?case by (blast intro: good_step_trans store_step_good)
qed simp

lemma method_steps: "repo_step\<^sup>*\<^sup>* s t \<Longrightarrow> tenant_step\<^sup>*\<^sup>* s t"
  by (induction rule: rtranclp_induct) (auto intro: rtranclp.rtrancl_into_rtrancl tenant_step.by_method)

section \<open>Handing out a lease\<close>

lemma refresh_items_steps:
  assumes "g_operations s = keyed_rows o_id (pre @ xs)" and "distinct (map o_id (pre @ xs))" and "\<forall>r\<in>set xs. op_wf r"
  shows "repo_step\<^sup>*\<^sup>* s (s\<lparr>g_operations := keyed_rows o_id (pre @ map (refresh_item tenant ws now) xs)\<rparr>)"
  using assms
proof (induction xs arbitrary: pre s)
  case (Cons x xs)
  let ?y = "refresh_item tenant ws now x"
  let ?s = "s\<lparr>g_operations := keyed_rows o_id (pre @ ?y # xs)\<rparr>"
  have id: "o_id ?y = o_id x" by (simp add: refresh_item_def)
  have first: "repo_step\<^sup>*\<^sup>* s ?s"
  proof (cases "at_workstation tenant ws x")
    case True
    have "find_op s (o_id x) = Some x"
      using Cons.prems(1,2) find_unique[of o_id "pre @ x # xs" x "o_id x"] by (simp add: keyed_find)
    then have "snd (refresh_operation (o_id x) now s) = put_op (o_id x) ?y s"
      using Cons.prems(3) True by (simp add: refresh_operation_def refresh_due_eq refresh_item_def)
    moreover have "AList.update (o_id ?y) ?y (keyed_rows o_id (pre @ x # xs)) = keyed_rows o_id (pre @ ?y # xs)"
    proof -
      have "map (\<lambda>z. if o_id z = o_id ?y then ?y else z) (pre @ x # xs) = pre @ ?y # xs"
        using Cons.prems(2) by (auto simp add: id intro!: replace_absent)
      with keyed_replace[OF Cons.prems(2), of ?y] show ?thesis by (simp add: id)
    qed
    ultimately have "snd (refresh_operation (o_id x) now s) = ?s" using Cons.prems(1) by (simp add: put_op_def id)
    with st_refresh[of s "o_id x" now] show ?thesis by auto
  next
    case False
    with Cons.prems(1) have "?s = s" by (cases s) (simp add: refresh_item_def)
    then show ?thesis by simp
  qed
  have "repo_step\<^sup>*\<^sup>* ?s (?s\<lparr>g_operations := keyed_rows o_id ((pre @ [?y]) @ map (refresh_item tenant ws now) xs)\<rparr>)"
    using Cons.prems by (intro Cons.IH) (auto simp add: id)
  with first show ?case by simp
next
  case Nil
  then have "s\<lparr>g_operations := keyed_rows o_id (pre @ [])\<rparr> = s" by (cases s) simp
  then show ?case by simp
qed

lemma sql_close_refreshed:
  assumes "op_wf r"
  shows "(if sql_due tenant ws now r then sql_close now r else r) = refresh_item tenant ws now r"
proof (cases "at_workstation tenant ws r")
  case True
  then have due: "sql_due tenant ws now r \<longleftrightarrow> o_state r = CREATED \<and> o_expires r \<le> now \<or> o_state r = LEASED \<and> lease_over r now
      \<or> o_state r = RUNNING \<and> o_expires r \<le> now" by (simp add: sql_due_def at_workstation_def)
  note p = refreshed_pg[OF assms, of now]
  consider (created) "o_state r = CREATED" "o_expires r \<le> now" | (leased) "o_state r = LEASED" "lease_over r now"
    | (running) "o_state r = RUNNING" "o_expires r \<le> now" | (none) "\<not> sql_due tenant ws now r" using due by blast
  then have "(if sql_due tenant ws now r then sql_close now r else r) = refreshed r now"
  proof cases
    case created
    with p(1) due show ?thesis by (simp add: sql_close_def)
  next
    case leased
    with p(2) due show ?thesis by (simp add: sql_close_def)
  next
    case running
    with p(3) due show ?thesis by (cases "is_translation_apply (o_task r)") (simp_all add: sql_close_def)
  next
    case none
    with not_due[of r now] due show ?thesis by simp
  qed
  with True show ?thesis by (simp add: refresh_item_def)
qed (auto simp add: sql_due_def refresh_item_def at_workstation_def)

definition closed_at :: "string \<Rightarrow> string \<Rightarrow> instant \<Rightarrow> gateway_db \<Rightarrow> gateway_db" where
  "closed_at tenant ws now db = add_events (map (closing_event now) (filter (sql_due tenant ws now) (gd_operations db)))
     (db\<lparr>gd_operations := map (refresh_item tenant ws now) (gd_operations db)\<rparr>)"

lemma refresh_workstation_ok:
  assumes ok: "gateway_ok db" and out: "refresh_workstation tenant ws now db = (Inr u, db')"
  shows "db' = closed_at tenant ws now db"
proof -
  have eq: "map (\<lambda>r. if sql_due tenant ws now r then sql_close now r else r) (gd_operations db)
      = map (refresh_item tenant ws now) (gd_operations db)"
    using sql_close_refreshed gateway_ok_op(2)[OF ok] by auto
  from out have "db' = add_events (map (closing_event now) (filter (sql_due tenant ws now) (gd_operations db)))
     (db\<lparr>gd_operations := map (\<lambda>r. if sql_due tenant ws now r then sql_close now r else r) (gd_operations db)\<rparr>)"
    by (auto simp add: refresh_workstation_def Let_def split: if_splits)
  then show ?thesis unfolding closed_at_def by (simp only: eq)
qed

lemma refresh_item_sel [simp]:
  "o_id (refresh_item tenant ws now r) = o_id r" "o_tenant (refresh_item tenant ws now r) = o_tenant r"
  "idem_key (refresh_item tenant ws now r) = idem_key r" "o_task (refresh_item tenant ws now r) = o_task r"
  "o_ws (refresh_item tenant ws now r) = o_ws r"
  by (simp_all add: refresh_item_def)

lemma closed_store:
  assumes ok: "gateway_ok db"
  shows "tenant_step\<^sup>*\<^sup>* (tenant_store tenant db) (tenant_store tenant (closed_at tenant ws now db))"
    "t \<noteq> tenant \<Longrightarrow> tenant_store t (closed_at tenant ws now db) = tenant_store t db"
    "gateway_ok (closed_at tenant ws now db)"
proof -
  let ?f = "refresh_item tenant ws now" and ?db = "db\<lparr>gd_operations := map (refresh_item tenant ws now) (gd_operations db)\<rparr>"
  have st: "tenant_store u (closed_at tenant ws now db) = tenant_store u ?db" for u by (simp add: closed_at_def)
  have ops: "tenant_operations u ?db = map ?f (tenant_operations u db)" for u
    by (simp add: tenant_operations_def filter_map comp_def)
  have same: "tenant_store u ?db = (tenant_store u db)\<lparr>g_operations := keyed_rows o_id (map ?f (tenant_operations u db))\<rparr>" for u
    by (simp add: tenant_store_def ops comp_def tenant_stations_def tenant_projects_def tenant_drawings_def)
  have "repo_step\<^sup>*\<^sup>* (tenant_store tenant db) ((tenant_store tenant db)\<lparr>g_operations := keyed_rows o_id ([] @ map ?f (tenant_operations tenant db))\<rparr>)"
    using gateway_ok_keys(4)[OF ok] gateway_ok_op(2)[OF ok]
    by (intro refresh_items_steps) (auto simp add: tenant_store_sel tenant_operations_def)
  then show s: "tenant_step\<^sup>*\<^sup>* (tenant_store tenant db) (tenant_store tenant (closed_at tenant ws now db))"
    by (simp add: st same method_steps)
  have "map ?f (tenant_operations t db) = tenant_operations t db" if "t \<noteq> tenant" for t
    using that by (auto simp add: tenant_operations_def refresh_item_def at_workstation_def intro!: map_idI)
  then show o: "t \<noteq> tenant \<Longrightarrow> tenant_store t (closed_at tenant ws now db) = tenant_store t db" for t
    by (simp add: st same) (simp add: tenant_store_def)
  show "gateway_ok (closed_at tenant ws now db)"
    using ok store_steps_good[OF s] o by (intro gateway_ok_step[OF ok, of tenant]) (auto simp add: gateway_ok_def)
qed

lemma oldest_queued_ok:
  assumes ok: "gateway_ok db" and out: "oldest_queued tenant ws owner now db = Some r"
  shows "find_operation tenant (o_id r) db = Some r" "waiting tenant ws owner now r"
    "find_operation tenant k db = Some q \<Longrightarrow> waiting tenant ws owner now q \<Longrightarrow> queue_key r \<le> queue_key q"
proof -
  have w: "queued_at tenant ws owner now = waiting tenant ws owner now"
    by (auto simp add: queued_at_def waiting_def at_workstation_def)
  from out obtain e es where f: "filter (waiting tenant ws owner now) (gd_operations db) = e # es" "r = min_by queue_key e es"
    by (auto simp add: oldest_queued_def w split: list.splits)
  have "r \<in> set (filter (waiting tenant ws owner now) (gd_operations db))" unfolding f by (rule min_by_in)
  then have r: "r \<in> set (gd_operations db)" "waiting tenant ws owner now r" by auto
  then show "waiting tenant ws owner now r" by simp
  show "find_operation tenant (o_id r) db = Some r"
    using gateway_ok_op(1)[OF ok r(1)] r(2) by (simp add: waiting_def at_workstation_def)
  show "queue_key r \<le> queue_key q" if "find_operation tenant k db = Some q" "waiting tenant ws owner now q"
  proof -
    have "q \<in> set (filter (waiting tenant ws owner now) (gd_operations db))" using find_operationD[OF that(1)] that(2) by simp
    then have "q \<in> set (e # es)" by (simp only: f(1))
    then show ?thesis unfolding f(2) by (rule min_by_le)
  qed
qed

lemma lease_sim:
  assumes ok: "gateway_ok db" and out: "lease_tx rp lock_now refresh_now lease_now ws owner duration db = (Inr v, db')"
  shows "tenant_step\<^sup>*\<^sup>* (tenant_store (pg_tenant rp) db) (tenant_store (pg_tenant rp) db')"
    "row_moved (pg_tenant rp) (closed_at (pg_tenant rp) ws refresh_now db) db'"
    "v = Some x \<Longrightarrow> \<exists>r. x = leased_record r (lease_now + duration) \<and> waiting (pg_tenant rp) ws owner lease_now r
       \<and> find_operation (pg_tenant rp) (o_id x) db' = Some x"
proof -
  let ?own = "pg_tenant rp"
  let ?db1 = "closed_at (pg_tenant rp) ws refresh_now db"
  note s1 = closed_store[OF ok, where tenant = ?own and ws = ws and now = refresh_now]
  have F: "pg_found model_validate (oldest_queued ?own ws owner lease_now ?db1) ?db1 = (Inr (oldest_queued ?own ws owner lease_now ?db1), ?db1)"
  proof (cases "oldest_queued ?own ws owner lease_now ?db1")
    case (Some r)
    from find_operationD[OF oldest_queued_ok(1)[OF s1(3) Some]] have "model_validate r = Inr r"
      using gateway_ok_op(2)[OF s1(3)] by (blast intro: op_wf_model_validate)
    with Some show ?thesis by (simp add: bindS_def)
  qed simp
  have "tenant_step\<^sup>*\<^sup>* (tenant_store ?own ?db1) (tenant_store ?own db') \<and> row_moved ?own ?db1 db'
    \<and> (\<forall>x. v = Some x \<longrightarrow> (\<exists>r. x = leased_record r (lease_now + duration) \<and> waiting ?own ws owner lease_now r
       \<and> find_operation ?own (o_id x) db' = Some x))"
  proof (cases v)
    case None
    with out have "db' = ?db1"
      by (auto simp add: lease_tx_def lease_checks_def lease_pick_def bindS_eq_Inr dest!: lock_worker_ok refresh_workstation_ok[OF ok] simp: F split: if_splits option.splits)
    with None show ?thesis by simp
  next
    case (Some x)
    with out obtain r where idle: "\<not> has_active ?own ws ?db1" and r: "oldest_queued ?own ws owner lease_now ?db1 = Some r"
      and w: "write_transition rp r LEASED (Some (min (lease_now + duration) (o_expires r))) None None None None lease_now ?db1 = (Inr x, db')"
      by (auto simp add: lease_tx_def lease_checks_def lease_pick_def bindS_eq_Inr F dest!: lock_worker_ok refresh_workstation_ok[OF ok] split: if_splits option.splits)
    note q = oldest_queued_ok[OF s1(3) r]
    have rk: "o_tenant r = ?own" "o_state r = CREATED" "op_wf r"
      using q(2) gateway_ok_op(2)[OF s1(3)] find_operationD[OF q(1)] by (auto simp add: waiting_def at_workstation_def)
    from write_transition_ok[OF s1(3) q(1) _ _ w] rk
    have t: "transitioned r x lease_now ?db1 db'" and x: "x = leased_record r (lease_now + duration)"
      using op_wfD(3)[OF rk(3)] by (auto simp add: leased_record_def state_data_holds_def)
    have "tenant_step (tenant_store ?own ?db1) (put_op (o_id r) x (tenant_store ?own ?db1))"
    proof (rule tenant_step.lease)
      show "find_op (tenant_store ?own ?db1) (o_id r) = Some r" using q(1) by simp
      show "waiting ?own ws owner lease_now r" by (rule q(2))
      show "model_validate (leased_record r (lease_now + duration)) = Inr x"
        using t by (simp add: x[symmetric] transitioned_def op_wf_model_validate)
      show "queue_key r \<le> queue_key y" if "find_op (tenant_store ?own ?db1) k = Some y" "waiting ?own ws owner lease_now y" for k y
        using that q(3) by simp
      show "\<not> active y" if "find_op (tenant_store ?own ?db1) k = Some y" "at_workstation ?own ws y" for k y
        using that idle find_operationD[of ?own k ?db1 y]
        by (auto simp add: has_active_def list_ex_iff active_def at_workstation_def)
    qed
    moreover have "find_operation ?own (o_id x) db' = Some x"
      using transitioned_store(1)[OF s1(3) t] rk(1) x tenant_find_op[of ?own db' "o_id r"] by simp
    ultimately show ?thesis
      using transitioned_store(1)[OF s1(3) t] rk(1) t x q(2) Some by (auto simp add: row_moved_def)
  qed
  with s1(1) show "tenant_step\<^sup>*\<^sup>* (tenant_store ?own db) (tenant_store ?own db')" "row_moved ?own ?db1 db'"
    "v = Some x \<Longrightarrow> \<exists>r. x = leased_record r (lease_now + duration) \<and> waiting ?own ws owner lease_now r
       \<and> find_operation ?own (o_id x) db' = Some x"
    by auto
qed

section \<open>Catalog rows\<close>

text \<open>Only the catalog changed: operations and events are as before.\<close>

definition catalog_only :: "gateway_db \<Rightarrow> gateway_db \<Rightarrow> bool" where
  "catalog_only db db' \<longleftrightarrow> gd_operations db' = gd_operations db \<and> gd_events db' = gd_events db"

lemma catalog_only_refl [simp]: "catalog_only db db"
  by (simp add: catalog_only_def)

lemma catalog_only_trans: "catalog_only a b \<Longrightarrow> catalog_only b c \<Longrightarrow> catalog_only a c"
  by (simp add: catalog_only_def)

lemma catalog_only_find: "catalog_only db db' \<Longrightarrow> find_operation t k db' = find_operation t k db"
  by (simp add: catalog_only_def find_operation_def)

text \<open>An upsert on keyed rows is an update of the dict they are.\<close>

lemma upsert_keyed:
  assumes d: "distinct (map f (filter own rows))" and own: "own new"
    and same: "\<And>r. same_key r \<longleftrightarrow> own r \<and> f r = f new"
    and out: "upsert_row same_key allowed change new rows = (found, rows')"
    and change: "\<And>old. same_key old \<Longrightarrow> allowed old \<Longrightarrow> change old = new" and some: "found \<noteq> None"
  shows "found = Some new" "keyed_rows f (filter own rows') = AList.update (f new) new (keyed_rows f (filter own rows))"
    "(\<And>r. same_key r \<Longrightarrow> \<not> other r) \<Longrightarrow> \<not> other new \<Longrightarrow> filter other rows' = filter other rows"
    "find same_key rows = Some old \<Longrightarrow> allowed old"
proof -
  have "found = Some new \<and> keyed_rows f (filter own rows') = AList.update (f new) new (keyed_rows f (filter own rows))
    \<and> ((\<forall>r. same_key r \<longrightarrow> \<not> other r) \<longrightarrow> \<not> other new \<longrightarrow> filter other rows' = filter other rows)
    \<and> (find same_key rows = Some old \<longrightarrow> allowed old)"
  proof (cases "find same_key rows")
    case None
    with out have r: "found = Some new" "rows' = rows @ [new]" by (simp_all add: upsert_row_def)
    from None have "f new \<notin> f ` set (filter own rows)" by (auto simp add: find_None_iff same)
    from keyed_add[OF this] r None own show ?thesis by simp
  next
    case (Some old')
    with out some have a: "allowed old'" "found = Some (change old')" "rows' = map (\<lambda>r. if same_key r then change r else r) rows"
      by (auto simp add: upsert_row_def split: if_splits)
    from find_SomeD[OF Some] have o: "old' \<in> set (filter own rows)" "same_key old'" by (auto simp add: same)
    have one: "r = old'" if "r \<in> set rows" "same_key r" for r
    proof -
      have "r \<in> set (filter own rows)" "f r = f old'" using that o(2) by (simp_all add: same)
      with d o(1) show ?thesis unfolding distinct_map by (auto dest: inj_onD)
    qed
    have new: "change old' = new" by (rule change[OF o(2) a(1)])
    have r': "rows' = map (\<lambda>r. if same_key r then new else r) rows" unfolding a(3) using one new by auto
    have "filter own rows' = map (\<lambda>r. if same_key r then new else r) (filter own rows)"
      unfolding r' by (rule filter_replace_own) (auto simp add: same own)
    also have "\<dots> = map (\<lambda>r. if f r = f new then new else r) (filter own rows)" by (auto simp add: same)
    finally have "keyed_rows f (filter own rows') = AList.update (f new) new (keyed_rows f (filter own rows))"
      using keyed_replace[OF d, of new] o(1) o(2) by (metis (no_types, lifting) image_eqI same)
    moreover have "filter other rows' = filter other rows" if "\<forall>r. same_key r \<longrightarrow> \<not> other r" "\<not> other new"
      unfolding r' using that by (intro filter_replace_other) auto
    ultimately show ?thesis using a new Some by auto
  qed
  then show "found = Some new" "keyed_rows f (filter own rows') = AList.update (f new) new (keyed_rows f (filter own rows))"
    "(\<And>r. same_key r \<Longrightarrow> \<not> other r) \<Longrightarrow> \<not> other new \<Longrightarrow> filter other rows' = filter other rows"
    "find same_key rows = Some old \<Longrightarrow> allowed old" by auto
qed

lemma tenant_owned_station: "gateway_ok db \<Longrightarrow> owned_station t k who db \<longleftrightarrow>
    (\<exists>w. find_ws (tenant_store t db) k = Some w \<and> ws_tenant w = t \<and> ws_owner w = who)"
proof -
  assume ok: "gateway_ok db"
  have d: "distinct (map ws_id (tenant_stations t db))" by (rule gateway_ok_keys(1)[OF ok])
  have "owned_station t k who db \<longleftrightarrow> (\<exists>w\<in>set (tenant_stations t db). ws_id w = k \<and> ws_owner w = who)"
    by (auto simp add: owned_station_def list_ex_iff station_is_def tenant_stations_def)
  also have "\<dots> \<longleftrightarrow> (\<exists>w. find (\<lambda>w. ws_id w = k) (tenant_stations t db) = Some w \<and> ws_tenant w = t \<and> ws_owner w = who)"
    using find_unique[OF d] by (auto dest!: find_SomeD simp add: tenant_stations_def)
  also have "\<dots> \<longleftrightarrow> (\<exists>w. find_ws (tenant_store t db) k = Some w \<and> ws_tenant w = t \<and> ws_owner w = who)"
    by (simp add: tenant_store_sel keyed_find del: tenant_find_ws)
  finally show ?thesis .
qed

lemma tenant_owned_project: "gateway_ok db \<Longrightarrow> owned_project t k who ws db \<longleftrightarrow>
    (\<exists>p. find_prj (tenant_store t db) k = Some p \<and> prj_tenant p = t \<and> prj_owner p = who \<and> prj_ws p = ws)"
proof -
  assume ok: "gateway_ok db"
  have d: "distinct (map prj_id (tenant_projects t db))" by (rule gateway_ok_keys(2)[OF ok])
  have "owned_project t k who ws db \<longleftrightarrow> (\<exists>p\<in>set (tenant_projects t db). prj_id p = k \<and> prj_owner p = who \<and> prj_ws p = ws)"
    by (auto simp add: owned_project_def list_ex_iff project_is_def tenant_projects_def)
  also have "\<dots> \<longleftrightarrow> (\<exists>p. find (\<lambda>p. prj_id p = k) (tenant_projects t db) = Some p \<and> prj_tenant p = t \<and> prj_owner p = who \<and> prj_ws p = ws)"
    using find_unique[OF d] by (auto dest!: find_SomeD simp add: tenant_projects_def)
  also have "\<dots> \<longleftrightarrow> (\<exists>p. find_prj (tenant_store t db) k = Some p \<and> prj_tenant p = t \<and> prj_owner p = who \<and> prj_ws p = ws)"
    by (simp add: tenant_store_sel keyed_find del: tenant_find_prj)
  finally show ?thesis .
qed

lemma gateway_ok_catalog: "gateway_ok db \<Longrightarrow> catalog_wf (tenant_store t db)"
  by (simp add: gateway_ok_def repo_wf_def)

text \<open>A written row is one the in-memory store accepts, and the store changes as there.\<close>

lemma write_project_sim:
  assumes ok: "gateway_ok db" and own: "prj_tenant p = own" and out: "write_project p db = (Inr (Some q), db')"
  shows "q = p" "upsert_project p (tenant_store own db) = (Inr p, tenant_store own db')"
    "tenant_store own db' = put_prj p (tenant_store own db)"
    "t \<noteq> own \<Longrightarrow> tenant_store t db' = tenant_store t db" "catalog_only db db'"
proof -
  let ?key = "project_is (prj_tenant p) (prj_id p)"
  from out obtain rows where u: "upsert_row ?key (same_project_place p) (\<lambda>old. old\<lparr>prj_name := prj_name p, prj_enabled := prj_enabled p\<rparr>) p (gd_projects db)
      = (Some q, rows)" and db': "db' = db\<lparr>gd_projects := rows\<rparr>"
    and fk: "find ?key (gd_projects db) \<noteq> None \<or> owned_station (prj_tenant p) (prj_ws p) (prj_owner p) db"
    by (auto simp add: write_project_def split: if_splits prod.splits)
  have k: "distinct (map prj_id (filter (\<lambda>x. prj_tenant x = own) (gd_projects db)))"
    using gateway_ok_keys(2)[OF ok, of own] by (simp add: tenant_projects_def)
  have same: "\<And>r. project_is (prj_tenant p) (prj_id p) r \<longleftrightarrow> prj_tenant r = own \<and> prj_id r = prj_id p" by (simp add: project_is_def own)
  have ch: "old\<lparr>prj_name := prj_name p, prj_enabled := prj_enabled p\<rparr> = p" if "project_is (prj_tenant p) (prj_id p) old" "same_project_place p old" for old
    using that by (cases old; cases p) (simp add: project_is_def same_project_place_def)
  note s = upsert_keyed[OF k own same u ch]
  show "q = p" using s(1) by simp
  have w: "tenant_store u db' = (tenant_store u db)\<lparr>g_projects := keyed_rows prj_id (filter (\<lambda>x. prj_tenant x = u) rows)\<rparr>" for u
    by (simp add: db' tenant_store_def tenant_projects_def tenant_stations_def tenant_drawings_def tenant_operations_def)
  show put: "tenant_store own db' = put_prj p (tenant_store own db)"
    using s(2) by (simp add: w put_prj_def tenant_store_sel tenant_projects_def)
  have "filter (\<lambda>x. prj_tenant x = t) rows = tenant_projects t db" if "t \<noteq> own"
    unfolding tenant_projects_def using that own by (intro s(3)) (auto simp add: project_is_def)
  then show "t \<noteq> own \<Longrightarrow> tenant_store t db' = tenant_store t db"
    by (simp add: w) (simp add: tenant_store_def)
  show "catalog_only db db'" by (simp add: db' catalog_only_def)
  have place: "same_project_place p old" if "find ?key (gd_projects db) = Some old" for old using s(4)[of old] that by simp
  have parent: "\<exists>w. find_ws (tenant_store own db) (prj_ws p) = Some w \<and> ws_tenant w = own \<and> ws_owner w = prj_owner p"
  proof (cases "find ?key (gd_projects db)")
    case None
    with fk tenant_owned_station[OF ok] own show ?thesis by simp
  next
    case (Some old)
    then have f: "find_prj (tenant_store own db) (prj_id p) = Some old" by (simp add: own)
    from f gateway_ok_catalog[OF ok, of own] have "child_of_ws (tenant_store own db) old" "prj_tenant old = own"
      using find_SomeD[OF Some] by (auto simp add: catalog_wf_iff project_is_def own simp del: tenant_find_prj tenant_find_ws)
    with place[OF Some] show ?thesis by (auto simp add: child_of_ws_def same_project_place_def)
  qed
  have old: "prj_tenant old = own \<and> prj_owner old = prj_owner p \<and> prj_ws old = prj_ws p"
    if "find_prj (tenant_store own db) (prj_id p) = Some old" for old
  proof -
    have f: "find ?key (gd_projects db) = Some old" using that own by simp
    from place[OF f] find_SomeD[OF f] own show ?thesis by (simp add: same_project_place_def project_is_def)
  qed
  from parent obtain w where "find_ws (tenant_store own db) (prj_ws p) = Some w" "ws_tenant w = own" "ws_owner w = prj_owner p" by blast
  with old have "upsert_project p (tenant_store own db) = (Inr p, put_prj p (tenant_store own db))"
    by (cases "find_prj (tenant_store own db) (prj_id p)") (simp_all add: upsert_project_def own del: tenant_find_prj tenant_find_ws)
  then show "upsert_project p (tenant_store own db) = (Inr p, tenant_store own db')" by (simp add: put)
qed

lemma write_drawing_sim:
  assumes ok: "gateway_ok db" and own: "drw_tenant d = own" and out: "write_drawing d db = (Inr (Some q), db')"
  shows "q = d" "upsert_drawing d (tenant_store own db) = (Inr d, tenant_store own db')"
    "tenant_store own db' = put_drw d (tenant_store own db)"
    "t \<noteq> own \<Longrightarrow> tenant_store t db' = tenant_store t db" "catalog_only db db'"
proof -
  let ?key = "drawing_is (drw_tenant d) (drw_id d)"
  from out obtain rows where u: "upsert_row ?key (same_drawing_place d) (\<lambda>old. old\<lparr>drw_name := drw_name d, drw_enabled := drw_enabled d\<rparr>) d (gd_drawings db)
      = (Some q, rows)" and db': "db' = db\<lparr>gd_drawings := rows\<rparr>"
    and fk: "find ?key (gd_drawings db) \<noteq> None \<or> owned_project (drw_tenant d) (drw_prj d) (drw_owner d) (drw_ws d) db"
    by (auto simp add: write_drawing_def split: if_splits prod.splits)
  have k: "distinct (map drw_id (filter (\<lambda>x. drw_tenant x = own) (gd_drawings db)))"
    using gateway_ok_keys(3)[OF ok, of own] by (simp add: tenant_drawings_def)
  have same: "\<And>r. drawing_is (drw_tenant d) (drw_id d) r \<longleftrightarrow> drw_tenant r = own \<and> drw_id r = drw_id d" by (simp add: drawing_is_def own)
  have ch: "old\<lparr>drw_name := drw_name d, drw_enabled := drw_enabled d\<rparr> = d" if "drawing_is (drw_tenant d) (drw_id d) old" "same_drawing_place d old" for old
    using that by (cases old; cases d) (simp add: drawing_is_def same_drawing_place_def)
  note s = upsert_keyed[OF k own same u ch]
  show "q = d" using s(1) by simp
  have w: "tenant_store u db' = (tenant_store u db)\<lparr>g_drawings := keyed_rows drw_id (filter (\<lambda>x. drw_tenant x = u) rows)\<rparr>" for u
    by (simp add: db' tenant_store_def tenant_projects_def tenant_stations_def tenant_drawings_def tenant_operations_def)
  show put: "tenant_store own db' = put_drw d (tenant_store own db)"
    using s(2) by (simp add: w put_drw_def tenant_store_sel tenant_drawings_def)
  have "filter (\<lambda>x. drw_tenant x = t) rows = tenant_drawings t db" if "t \<noteq> own"
    unfolding tenant_drawings_def using that own by (intro s(3)) (auto simp add: drawing_is_def)
  then show "t \<noteq> own \<Longrightarrow> tenant_store t db' = tenant_store t db"
    by (simp add: w) (simp add: tenant_store_def)
  show "catalog_only db db'" by (simp add: db' catalog_only_def)
  have place: "same_drawing_place d old" if "find ?key (gd_drawings db) = Some old" for old using s(4)[of old] that by simp
  have parent: "\<exists>p. find_prj (tenant_store own db) (drw_prj d) = Some p \<and> prj_tenant p = own \<and> prj_owner p = drw_owner d \<and> prj_ws p = drw_ws d"
  proof (cases "find ?key (gd_drawings db)")
    case None
    with fk tenant_owned_project[OF ok] own show ?thesis by simp
  next
    case (Some old)
    then have f: "find_drw (tenant_store own db) (drw_id d) = Some old" by (simp add: own)
    from f gateway_ok_catalog[OF ok, of own] have "child_of_prj (tenant_store own db) old" "drw_tenant old = own"
      using find_SomeD[OF Some] by (auto simp add: catalog_wf_iff drawing_is_def own simp del: tenant_find_drw tenant_find_prj)
    with place[OF Some] show ?thesis by (auto simp add: child_of_prj_def same_drawing_place_def)
  qed
  have old: "drw_tenant old = own \<and> drw_owner old = drw_owner d \<and> drw_ws old = drw_ws d \<and> drw_prj old = drw_prj d"
    if "find_drw (tenant_store own db) (drw_id d) = Some old" for old
  proof -
    have f: "find ?key (gd_drawings db) = Some old" using that own by simp
    from place[OF f] find_SomeD[OF f] own show ?thesis by (simp add: same_drawing_place_def drawing_is_def)
  qed
  from parent obtain p where "find_prj (tenant_store own db) (drw_prj d) = Some p" "prj_tenant p = own" "prj_owner p = drw_owner d"
    "prj_ws p = drw_ws d" by blast
  with old have "upsert_drawing d (tenant_store own db) = (Inr d, put_drw d (tenant_store own db))"
    by (cases "find_drw (tenant_store own db) (drw_id d)") (simp_all add: upsert_drawing_def own del: tenant_find_prj tenant_find_drw)
  then show "upsert_drawing d (tenant_store own db) = (Inr d, tenant_store own db')" by (simp add: put)
qed

lemma upsert_row_map:
  assumes "\<And>r. same_key' (g r) = same_key r" and "\<And>r. allowed' (g r) = allowed r" and "\<And>r. g (change r) = change' (g r)"
    and "upsert_row same_key allowed change new rows = (found, rows')"
  shows "upsert_row same_key' allowed' change' (g new) (map g rows) = (map_option g found, map g rows')"
proof (cases "find same_key rows")
  case None
  then show ?thesis using assms by (auto simp add: upsert_row_def find_map)
next
  case (Some old)
  then show ?thesis using assms by (auto simp add: upsert_row_def find_map comp_def split: if_splits)
qed

lemma upsert_station_sim:
  assumes ok: "gateway_ok db" and own: "ws_tenant w = own" and out: "upsert_station w db = (Inr (Some q), db')"
  shows "wr_record q = w" "upsert_workstation w (tenant_store own db) = (Inr w, tenant_store own db')"
    "t \<noteq> own \<Longrightarrow> tenant_store t db' = tenant_store t db" "catalog_only db db'"
proof -
  let ?key = "\<lambda>r. ws_tenant r = ws_tenant w \<and> ws_id r = ws_id w"
  let ?change = "\<lambda>old. old\<lparr>ws_name := ws_name w, ws_enabled := ws_enabled w, ws_online := ws_online w\<rparr>"
  from out obtain rows where u: "upsert_row (station_is (ws_tenant w) (ws_id w)) (\<lambda>old. ws_owner (wr_record old) = ws_owner w)
       (\<lambda>old. old\<lparr>wr_record := ?change (wr_record old)\<rparr>) \<lparr>wr_record = w, wr_seen = None, wr_presence = None\<rparr> (gd_stations db)
      = (Some q, rows)" and db': "db' = db\<lparr>gd_stations := rows\<rparr>"
    by (auto simp add: upsert_station_def split: prod.splits)
  have m: "upsert_row ?key (\<lambda>old. ws_owner old = ws_owner w) ?change w (map wr_record (gd_stations db))
      = (Some (wr_record q), map wr_record rows)"
    using upsert_row_map[OF _ _ _ u, of ?key wr_record "\<lambda>old. ws_owner old = ws_owner w" ?change] by (simp add: station_is_def)
  have k: "distinct (map ws_id (filter (\<lambda>x. ws_tenant x = own) (map wr_record (gd_stations db))))"
    using gateway_ok_keys(1)[OF ok, of own] by (simp add: tenant_stations_def)
  have same: "\<And>r. ?key r \<longleftrightarrow> ws_tenant r = own \<and> ws_id r = ws_id w" by (simp add: own)
  have ch: "?change old = w" if "?key old" "ws_owner old = ws_owner w" for old
    using that by (cases old; cases w) simp
  note s = upsert_keyed[OF k own same m ch]
  show "wr_record q = w" using s(1) by simp
  have st: "tenant_store u db' = (tenant_store u db)\<lparr>g_workstations := keyed_rows ws_id (filter (\<lambda>x. ws_tenant x = u) (map wr_record rows))\<rparr>" for u
    by (simp add: db' tenant_store_def tenant_projects_def tenant_stations_def tenant_drawings_def tenant_operations_def)
  have put: "tenant_store own db' = put_ws (ws_id w) w (tenant_store own db)"
    using s(2) by (simp add: st put_ws_def tenant_store_sel tenant_stations_def)
  have "filter (\<lambda>x. ws_tenant x = t) (map wr_record rows) = tenant_stations t db" if "t \<noteq> own"
    unfolding tenant_stations_def using that own by (intro s(3)) auto
  then show "t \<noteq> own \<Longrightarrow> tenant_store t db' = tenant_store t db"
    by (simp add: st) (simp add: tenant_store_def)
  show "catalog_only db db'" by (simp add: db' catalog_only_def)
  have "ws_owner old = ws_owner w \<and> ws_tenant old = own" if "find_ws (tenant_store own db) (ws_id w) = Some old" for old
  proof -
    have "find ?key (map wr_record (gd_stations db)) = Some old"
      using that own by (simp add: find_map station_is_def[abs_def])
    with s(4)[of old] find_SomeD[OF this] own show ?thesis by simp
  qed
  then have "upsert_workstation w (tenant_store own db) = (Inr w, put_ws (ws_id w) w (tenant_store own db))"
    using own by (auto simp add: upsert_workstation_def split: option.splits simp del: tenant_find_ws)
  then show "upsert_workstation w (tenant_store own db) = (Inr w, tenant_store own db')" by (simp add: put)
qed

lemma set_online_sim:
  assumes ok: "gateway_ok db" and out: "set_online own k b db = (Inr found, db')"
  shows "tenant_store own db' = snd (set_workstation_online k b (tenant_store own db))"
    "t \<noteq> own \<Longrightarrow> tenant_store t db' = tenant_store t db" "catalog_only db db'"
proof -
  let ?c = "\<lambda>w. if ws_tenant w = own \<and> ws_id w = k then w\<lparr>ws_online := b\<rparr> else w"
  have db': "db' = db\<lparr>gd_stations := map (\<lambda>w. if station_is own k w then w\<lparr>wr_record := (wr_record w)\<lparr>ws_online := b\<rparr>\<rparr> else w) (gd_stations db)\<rparr>"
    using out by (simp add: set_online_def Let_def)
  have m: "map wr_record (gd_stations db') = map ?c (map wr_record (gd_stations db))"
    by (simp add: db' station_is_def)
  have ts: "tenant_stations own db' = map (\<lambda>w. if ws_id w = k then w\<lparr>ws_online := b\<rparr> else w) (tenant_stations own db)"
    unfolding tenant_stations_def m by (subst filter_replace_own) auto
  have other: "tenant_stations t db' = tenant_stations t db" if "t \<noteq> own" for t
    unfolding tenant_stations_def m using that by (intro filter_replace_other) auto
  have st: "tenant_store u db' = (tenant_store u db)\<lparr>g_workstations := keyed_rows ws_id (tenant_stations u db')\<rparr>" for u
    by (simp add: tenant_store_def) (simp add: db' tenant_projects_def tenant_drawings_def tenant_operations_def)
  show "tenant_store own db' = snd (set_workstation_online k b (tenant_store own db))"
  proof (cases "find (\<lambda>w. ws_id w = k) (tenant_stations own db)")
    case None
    then have "tenant_stations own db' = tenant_stations own db" unfolding ts by (auto simp add: find_None_iff intro!: map_idI)
    moreover have "find_ws (tenant_store own db) k = None" using None by (simp add: tenant_store_sel keyed_find del: tenant_find_ws)
    ultimately show ?thesis by (simp add: set_workstation_online_def st del: tenant_find_ws) (simp add: tenant_store_def)
  next
    case (Some w)
    note w = find_SomeD[OF Some]
    have d: "distinct (map ws_id (tenant_stations own db))" by (rule gateway_ok_keys(1)[OF ok])
    have eq: "map (\<lambda>x. if ws_id x = k then x\<lparr>ws_online := b\<rparr> else x) (tenant_stations own db)
        = map (\<lambda>x. if ws_id x = ws_id (w\<lparr>ws_online := b\<rparr>) then w\<lparr>ws_online := b\<rparr> else x) (tenant_stations own db)"
      using d w by (auto simp add: distinct_map dest: inj_onD)
    have "keyed_rows ws_id (tenant_stations own db') = AList.update (ws_id w) (w\<lparr>ws_online := b\<rparr>) (keyed_rows ws_id (tenant_stations own db))"
    proof -
      have "ws_id (w\<lparr>ws_online := b\<rparr>) \<in> ws_id ` set (tenant_stations own db)" using w by auto
      from keyed_replace[OF d this] show ?thesis unfolding ts eq by simp
    qed
    moreover have "find_ws (tenant_store own db) k = Some w" using Some by (simp add: tenant_store_sel keyed_find del: tenant_find_ws)
    ultimately show ?thesis using w by (simp add: set_workstation_online_def st put_ws_def tenant_store_sel del: tenant_find_ws)
  qed
  show "t \<noteq> own \<Longrightarrow> tenant_store t db' = tenant_store t db" by (simp add: st other) (simp add: tenant_store_def)
  show "catalog_only db db'" by (simp add: db' catalog_only_def)
qed

section \<open>Applying a success\<close>

lemma write_projects_sim:
  assumes "gateway_ok db" and "\<forall>p\<in>set ps. prj_tenant p = own" and "distinct (map prj_id ps)"
    and "write_rows write_project ps db = (Inr u, db')"
  shows "tenant_store own db' = put_projects ps (tenant_store own db) \<and> gateway_ok db' \<and> catalog_only db db'
    \<and> (\<forall>t. t \<noteq> own \<longrightarrow> tenant_store t db' = tenant_store t db)
    \<and> (\<forall>p\<in>set ps. child_of_ws (tenant_store own db) p
         \<and> (\<forall>old. find_prj (tenant_store own db) (prj_id p) = Some old \<longrightarrow> same_place old p))"
  using assms
proof (induction ps arbitrary: db)
  case (Cons p ps)
  from Cons.prems(4) obtain q db1 where w: "write_project p db = (Inr (Some q), db1)" "write_rows write_project ps db1 = (Inr u, db')"
    by (auto simp add: bindS_eq_Inr)
  have own: "prj_tenant p = own" using Cons.prems(2) by simp
  note s = write_project_sim[OF Cons.prems(1) own w(1)]
  have ok1: "gateway_ok db1"
    using upsert_project_step[of "tenant_store own db" p] s by (intro gateway_ok_step[OF Cons.prems(1), of own]) simp_all
  have p: "child_of_ws (tenant_store own db) p \<and> (\<forall>old. find_prj (tenant_store own db) (prj_id p) = Some old \<longrightarrow> same_place old p)"
    using s(2) by (auto simp add: upsert_project_def child_of_ws_def same_place_def split: option.splits if_splits simp del: tenant_find_prj tenant_find_ws)
  from Cons.IH[OF ok1 _ _ w(2)] Cons.prems(2,3)
  have ih: "tenant_store own db' = put_projects ps (tenant_store own db1)" "gateway_ok db'" "catalog_only db1 db'"
    "\<forall>t. t \<noteq> own \<longrightarrow> tenant_store t db' = tenant_store t db1"
    "\<forall>p\<in>set ps. child_of_ws (tenant_store own db1) p \<and> (\<forall>old. find_prj (tenant_store own db1) (prj_id p) = Some old \<longrightarrow> same_place old p)"
    by (simp_all del: tenant_find_prj)
  have rest: "child_of_ws (tenant_store own db) q \<and> (\<forall>old. find_prj (tenant_store own db) (prj_id q) = Some old \<longrightarrow> same_place old q)"
    if "q \<in> set ps" for q
  proof -
    from Cons.prems(3) imageI[OF that, of prj_id] have "prj_id q \<noteq> prj_id p" by auto
    with ih(5) that show ?thesis unfolding s(3) by (auto simp add: child_of_ws_def put_prj_def simp del: tenant_find_prj tenant_find_ws)
  qed
  have "\<forall>q\<in>set (p # ps). child_of_ws (tenant_store own db) q
      \<and> (\<forall>old. find_prj (tenant_store own db) (prj_id q) = Some old \<longrightarrow> same_place old q)"
    using p rest by (simp del: tenant_find_prj)
  with ih(2,4) s(4) catalog_only_trans[OF s(5) ih(3)] show ?case
    by (simp add: put_projects_def ih(1) s(3) del: tenant_find_prj)
qed (simp add: put_projects_def)

lemma write_drawings_sim:
  assumes "gateway_ok db" and "\<forall>d\<in>set ds. drw_tenant d = own" and "distinct (map drw_id ds)"
    and "write_rows write_drawing ds db = (Inr u, db')"
  shows "tenant_store own db' = put_drawings ds (tenant_store own db) \<and> gateway_ok db' \<and> catalog_only db db'
    \<and> (\<forall>t. t \<noteq> own \<longrightarrow> tenant_store t db' = tenant_store t db) \<and> gd_projects db' = gd_projects db
    \<and> (\<forall>d\<in>set ds. child_of_prj (tenant_store own db) d
         \<and> (\<forall>old. find_drw (tenant_store own db) (drw_id d) = Some old
              \<longrightarrow> drw_tenant old = drw_tenant d \<and> drw_owner old = drw_owner d \<and> drw_ws old = drw_ws d \<and> drw_prj old = drw_prj d))"
  using assms
proof (induction ds arbitrary: db)
  case (Cons d ds)
  from Cons.prems(4) obtain q db1 where w: "write_drawing d db = (Inr (Some q), db1)" "write_rows write_drawing ds db1 = (Inr u, db')"
    by (auto simp add: bindS_eq_Inr)
  have own: "drw_tenant d = own" using Cons.prems(2) by simp
  note s = write_drawing_sim[OF Cons.prems(1) own w(1)]
  have ok1: "gateway_ok db1"
    using upsert_drawing_step[of "tenant_store own db" d] s by (intro gateway_ok_step[OF Cons.prems(1), of own]) simp_all
  have pr: "gd_projects db1 = gd_projects db" using w(1) by (auto simp add: write_drawing_def split: if_splits prod.splits)
  have d: "child_of_prj (tenant_store own db) d \<and> (\<forall>old. find_drw (tenant_store own db) (drw_id d) = Some old
      \<longrightarrow> drw_tenant old = drw_tenant d \<and> drw_owner old = drw_owner d \<and> drw_ws old = drw_ws d \<and> drw_prj old = drw_prj d)"
    using s(2) by (auto simp add: upsert_drawing_def child_of_prj_def split: option.splits if_splits simp del: tenant_find_prj tenant_find_drw)
  from Cons.IH[OF ok1 _ _ w(2)] Cons.prems(2,3)
  have ih: "tenant_store own db' = put_drawings ds (tenant_store own db1)" "gateway_ok db'" "catalog_only db1 db'"
    "\<forall>t. t \<noteq> own \<longrightarrow> tenant_store t db' = tenant_store t db1" "gd_projects db' = gd_projects db1"
    "\<forall>d\<in>set ds. child_of_prj (tenant_store own db1) d \<and> (\<forall>old. find_drw (tenant_store own db1) (drw_id d) = Some old
      \<longrightarrow> drw_tenant old = drw_tenant d \<and> drw_owner old = drw_owner d \<and> drw_ws old = drw_ws d \<and> drw_prj old = drw_prj d)"
    by (simp_all del: tenant_find_drw)
  have rest: "child_of_prj (tenant_store own db) q \<and> (\<forall>old. find_drw (tenant_store own db) (drw_id q) = Some old
      \<longrightarrow> drw_tenant old = drw_tenant q \<and> drw_owner old = drw_owner q \<and> drw_ws old = drw_ws q \<and> drw_prj old = drw_prj q)"
    if "q \<in> set ds" for q
  proof -
    from Cons.prems(3) imageI[OF that, of drw_id] have "drw_id q \<noteq> drw_id d" by auto
    with ih(6) that show ?thesis unfolding s(3) by (auto simp add: child_of_prj_def put_drw_def simp del: tenant_find_prj tenant_find_drw)
  qed
  have "\<forall>q\<in>set (d # ds). child_of_prj (tenant_store own db) q \<and> (\<forall>old. find_drw (tenant_store own db) (drw_id q) = Some old
      \<longrightarrow> drw_tenant old = drw_tenant q \<and> drw_owner old = drw_owner q \<and> drw_ws old = drw_ws q \<and> drw_prj old = drw_prj q)"
    using d rest by (simp del: tenant_find_drw)
  with ih(2,4,5) s(4) pr catalog_only_trans[OF s(5) ih(3)] show ?case
    by (simp add: put_drawings_def ih(1) s(3) del: tenant_find_drw)
qed (simp add: put_drawings_def)

text \<open>What a validated result says of its task and of the catalog.\<close>

lemma locked_project:
  assumes ok: "gateway_ok db" and one: "lock_catalog_rows own LockProjects (Some who) ws [k] None False t db = 1"
  shows "\<exists>p. find_prj (tenant_store own db) k = Some p \<and> prj_enabled p"
proof -
  from one have "count_rows (\<lambda>p. prj_tenant p = own \<and> prj_owner p = who \<and> prj_ws p = ws \<and> prj_enabled p \<and> List.member [k] (prj_id p))
      (gd_projects db) \<noteq> 0"
    by (auto simp add: lock_catalog_rows_def split: if_splits)
  then obtain p where p: "p \<in> set (gd_projects db)" "prj_tenant p = own" "prj_enabled p" "prj_id p = k"
    by (auto simp add: count_rows_def filter_empty_conv)
  then have "p \<in> set (tenant_projects own db)" by (simp add: tenant_projects_def)
  from find_unique[OF gateway_ok_keys(2)[OF ok] this p(4)] p(3) show ?thesis
    by (auto simp add: tenant_store_sel keyed_find simp del: tenant_find_prj)
qed

lemma validated_binding:
  assumes ok: "gateway_ok db" and out: "validate_binding_locked rp r (Some v) db = (Inr u, db')"
  shows "result_command v = command_of (o_task r)"
    "v = ScanDrawingsResult p ids truncated \<Longrightarrow> (\<exists>recursive limit. o_task r = ScanDrawingsTask p recursive limit)
       \<and> (\<exists>q. find_prj (tenant_store (pg_tenant rp) db) p = Some q \<and> prj_enabled q)"
proof -
  show "result_command v = command_of (o_task r)"
    using out by (cases v; cases "o_task r"; simp add: validate_binding_locked_def terminal_payload_def bindS_eq_Inr)
  show "(\<exists>recursive limit. o_task r = ScanDrawingsTask p recursive limit)
       \<and> (\<exists>q. find_prj (tenant_store (pg_tenant rp) db) p = Some q \<and> prj_enabled q)"
    if "v = ScanDrawingsResult p ids truncated"
    using out that locked_project[OF ok, of "pg_tenant rp"]
    by (cases "o_task r") (auto simp add: validate_binding_locked_def terminal_payload_def bindS_eq_Inr lock_offline_def pg_lock_rows_def
        simp del: tenant_find_prj)
qed

text \<open>The catalog rows first, then the transition.\<close>

definition applied :: "string \<Rightarrow> gateway_db \<Rightarrow> gateway_db \<Rightarrow> bool" where
  "applied own db db' \<longleftrightarrow> (\<exists>db1. catalog_only db db1 \<and> gateway_ok db1 \<and> row_moved own db1 db')"

lemma moved_applied: "gateway_ok db \<Longrightarrow> row_moved own db db' \<Longrightarrow> applied own db db'"
  unfolding applied_def using catalog_only_refl by blast

lemma ids_distinct: "no_duplicates ids \<longleftrightarrow> distinct ids"
  by (metis no_duplicates_def length_remdups_eq remdups_id_iff_distinct)

lemma application_validates:
  assumes ok: "gateway_ok db1" and fits: "task_fits r"
    and pay: "application_payload_ok result ps ds" and rec: "application_records_ok rp r ps ds"
    and wp: "write_rows write_project ps db = (Inr u, db0)" "gateway_ok db" and wd: "write_rows write_drawing ds db0 = (Inr u2, db1)"
    and bind: "validate_binding_locked rp r (Some result) db1 = (Inr u3, db2)"
  shows "validate_worker_catalog_application r result ps ds (tenant_store (pg_tenant rp) db) = Inr ()"
    "tenant_store (pg_tenant rp) db1 = put_drawings ds (put_projects ps (tenant_store (pg_tenant rp) db))"
    "catalog_only db db1" "t \<noteq> pg_tenant rp \<Longrightarrow> tenant_store t db1 = tenant_store t db"
proof -
  let ?own = "pg_tenant rp" and ?S = "tenant_store (pg_tenant rp) db"
  have dist: "distinct (map prj_id ps)" "distinct (map drw_id ds)"
    using pay by (auto simp add: application_payload_ok_def ids_distinct split: task_result.splits)
  have tp: "\<forall>p\<in>set ps. prj_tenant p = ?own" and td: "\<forall>d\<in>set ds. drw_tenant d = ?own"
    using rec by (auto simp add: application_records_ok_def list_all_iff)
  note p = write_projects_sim[OF wp(2) tp dist(1) wp(1)]
  then have ok0: "gateway_ok db0" by simp
  note d = write_drawings_sim[OF ok0 td dist(2) wd]
  from p d show "tenant_store ?own db1 = put_drawings ds (put_projects ps ?S)" "catalog_only db db1"
    "t \<noteq> ?own \<Longrightarrow> tenant_store t db1 = tenant_store t db" by (auto intro: catalog_only_trans)
  note b = validated_binding[OF ok bind]
  have prows: "list_all (project_row_ok r ?S) ps"
    unfolding list_all_iff
  proof
    fix q assume q: "q \<in> set ps"
    with p have "child_of_ws ?S q" "\<forall>old. find_prj ?S (prj_id q) = Some old \<longrightarrow> same_place old q" by (simp_all del: tenant_find_prj)
    moreover have "prj_tenant q = o_tenant r" "prj_owner q = o_owner r" "prj_ws q = o_ws r"
      using rec q unfolding application_records_ok_def list_all_iff by metis+
    ultimately show "project_row_ok r ?S q"
      by (auto simp add: project_row_ok_def child_of_ws_def same_place_def split: option.splits simp del: tenant_find_prj tenant_find_ws)
  qed
  have S0: "tenant_store ?own db0 = put_projects ps ?S" using p by simp
  have drows: "list_all (drawing_row_ok r ?S ps) ds"
    unfolding list_all_iff
  proof
    fix q assume q: "q \<in> set ds"
    then obtain pid ids trunc where scan: "result = ScanDrawingsResult pid ids trunc" "drw_prj q = pid"
      using pay by (auto simp add: application_payload_ok_def list_all_iff split: task_result.splits)
    from b(2)[OF scan(1)] obtain e where "find_prj (tenant_store ?own db1) pid = Some e" "prj_enabled e" by blast
    with d have en: "find_prj (put_projects ps ?S) pid = Some e" unfolding S0[symmetric] by simp
    from d q have "child_of_prj (put_projects ps ?S) q" "\<forall>old. find_drw ?S (drw_id q) = Some old
        \<longrightarrow> drw_tenant old = drw_tenant q \<and> drw_owner old = drw_owner q \<and> drw_ws old = drw_ws q \<and> drw_prj old = drw_prj q"
      by (simp_all add: S0 del: tenant_find_drw)
    moreover have "drw_tenant q = o_tenant r" "drw_owner q = o_owner r" "drw_ws q = o_ws r"
      using rec q unfolding application_records_ok_def list_all_iff by metis+
    ultimately show "drawing_row_ok r ?S ps q"
      using en scan(2) \<open>prj_enabled e\<close>
      by (auto simp add: drawing_row_ok_def child_of_prj_def split: option.splits simp del: tenant_find_drw tenant_find_prj)
  qed
  have "catalog_payload_ok r result ps ds"
    using pay b(1) b(2) fits
    by (cases result; cases "o_task r")
      (auto simp add: application_payload_ok_def catalog_payload_ok_def task_fits_def ids_distinct)
  with b(1) prows drows show "validate_worker_catalog_application r result ps ds ?S = Inr ()"
    by (simp add: validate_worker_catalog_application_def)
qed

lemma apply_sim:
  assumes ok: "gateway_ok db" and fits: "tasks_fit db" and checked: "application_checked result ps ds = Inr u"
    and out: "apply_tx rp now later k ws result ps ds db = (Inr v, db')"
  shows "\<exists>t\<in>{now, later}. apply_worker_success k (pg_tenant rp) ws t result ps ds (tenant_store (pg_tenant rp) db)
      = (Inr v, tenant_store (pg_tenant rp) db')"
    and "applied (pg_tenant rp) db db'" and "t' \<noteq> pg_tenant rp \<Longrightarrow> tenant_store t' db' = tenant_store t' db"
proof -
  let ?own = "pg_tenant rp" and ?S = "tenant_store (pg_tenant rp) db" and ?T = "tenant_store (pg_tenant rp) db'"
  let ?sim = "(\<exists>t\<in>{now, later}. apply_worker_success k ?own ws t result ps ds ?S = (Inr v, ?T)) \<and> applied ?own db db'
    \<and> (\<forall>t'. t' \<noteq> ?own \<longrightarrow> tenant_store t' db' = tenant_store t' db)"
  have base: "applied ?own db db" by (rule moved_applied[OF ok moved_refl])
  have ?sim
  proof (cases "find_operation ?own k db")
    case None
    with out have "db' = db" "v = TransitionOutcome TransNotFound None" "apply_worker_success k ?own ws now result ps ds ?S = (Inr v, ?S)"
      by (auto simp add: apply_tx_def lock_operation_eq[OF ok] bindS_eq_Inr apply_worker_success_def dest!: lock_worker_ok)
    with base show ?thesis by auto
  next
    case (Some r)
    have rk: "o_id r = k" "o_tenant r = ?own" and wf: "op_wf r" using find_operationD[OF Some] gateway_ok_op(2)[OF ok] by auto
    have L: "lock_operation rp k (Some ws) db = (Inr (if o_ws r = ws then Some r else None), db)"
      using Some by (simp add: lock_operation_eq[OF ok])
    show ?thesis
    proof (cases "o_ws r = ws")
      case False
      with L out have "db' = db" "v = TransitionOutcome TransNotFound None"
        by (auto simp add: apply_tx_def bindS_eq_Inr dest!: lock_worker_ok)
      moreover have "apply_worker_success k ?own ws now result ps ds ?S = (Inr (TransitionOutcome TransNotFound None), ?S)"
        using False Some by (auto simp add: apply_worker_success_def worker_owns_def)
      ultimately show ?thesis using base by auto
    next
      case here: True
      with L out obtain x changed db1 where first: "refresh_locked rp r now db = (Inr (x, changed), db1)"
        and rest: "(if changed \<and> o_state x = EXPIRED then ret (TransitionOutcome TransOperationExpired (Some x))
          else if o_state x = SUCCEEDED
          then ret (TransitionOutcome (if o_result x = Some result then TransUpdated else TransInvalidState) (Some x))
          else if o_state x \<noteq> RUNNING then ret (TransitionOutcome TransInvalidState (Some x))
          else
           bindS (terminal_payload (application_records_ok rp x ps ds)) (\<lambda>_.
           bindS (write_rows write_project ps) (\<lambda>_.
           bindS (write_rows write_drawing ds) (\<lambda>_.
           bindS (validate_binding_locked rp x (Some result)) (\<lambda>_.
           bindS (guardS (later < o_expires x) (RepositoryError ''invalid_terminal_state'')) (\<lambda>_.
           bindS (write_transition rp x SUCCEEDED None (o_started x) (Some later) (Some result) None later)
             (\<lambda>x. ret (TransitionOutcome TransUpdated (Some x))))))))) db1 = (Inr v, db')"
        by (auto simp add: apply_tx_def bindS_eq_Inr dest!: lock_worker_ok)
      note f = refresh_locked_ok[OF ok Some first] settled(1)[OF ok Some first]
      have app: "apply_worker_success k ?own ws t result ps ds ?S = (let r' = refreshed r t; s' = settle k r t ?S in
          if r' \<noteq> r \<and> o_state r' = EXPIRED then (Inr (TransitionOutcome TransOperationExpired (Some r')), s')
          else if o_state r' = SUCCEEDED
          then (if o_result r' = Some result then (Inr (TransitionOutcome TransUpdated (Some r')), s')
                else (Inr (TransitionOutcome TransInvalidState (Some r')), s'))
          else if o_state r' \<noteq> RUNNING then (Inr (TransitionOutcome TransInvalidState (Some r')), s')
          else (case validate_worker_catalog_application r' result ps ds s' of
             Inl e \<Rightarrow> (Inl e, s')
           | Inr _ \<Rightarrow> (let s'' = put_drawings ds (put_projects ps s') in
               case model_validate (r'\<lparr>o_state := SUCCEEDED, o_completed := Some t, o_result := Some result, o_error := None\<rparr>) of
                 Inl e \<Rightarrow> (Inl e, s'')
               | Inr y \<Rightarrow> (Inr (TransitionOutcome TransUpdated (Some y)), put_op k y s''))))" for t
        using Some here rk by (simp add: apply_worker_success_def worker_owns_def refresh_due_eq[OF wf] settle_def Let_def)
      show ?thesis
      proof (cases "o_state x = RUNNING")
        case False
        with rest f have "db' = db1" "apply_worker_success k ?own ws now result ps ds ?S = (Inr v, tenant_store ?own db1)"
          by (auto simp add: app Let_def split: if_splits)
        moreover have m: "row_moved ?own db db1" using f(3) rk by (auto simp add: row_moved_def split: if_splits)
        ultimately show ?thesis using moved_applied[OF ok m] moved_others[OF ok m] by auto
      next
        case running: True
        then have same: "x = r" "db1 = db" "o_state r = RUNNING"
          using f refreshed_states[of r now] by (auto split: if_splits)
        with rest running obtain u1 u2 u3 dba dbb dbc z where
          w: "application_records_ok rp r ps ds" "write_rows write_project ps db = (Inr u1, dba)" "write_rows write_drawing ds dba = (Inr u2, dbb)"
            "validate_binding_locked rp r (Some result) dbb = (Inr u3, dbc)" "later < o_expires r"
            "write_transition rp r SUCCEEDED None (o_started r) (Some later) (Some result) None later dbc = (Inr z, db')"
          and v: "v = TransitionOutcome TransUpdated (Some z)"
          by (auto simp add: bindS_eq_Inr terminal_payload_def)
        have [simp]: "dbc = dbb" using w(4) by (rule validate_binding_ok)
        have pay: "application_payload_ok result ps ds" using checked by (simp add: application_checked_def)
        have okb: "gateway_ok dbb"
        proof -
          have "distinct (map prj_id ps)" "distinct (map drw_id ds)"
            using pay by (auto simp add: application_payload_ok_def ids_distinct split: task_result.splits)
          moreover have "\<forall>p\<in>set ps. prj_tenant p = ?own" "\<forall>d\<in>set ds. drw_tenant d = ?own"
            using w(1) by (auto simp add: application_records_ok_def list_all_iff)
          ultimately show ?thesis using write_projects_sim[OF ok _ _ w(2)] write_drawings_sim[OF _ _ _ w(3)] by blast
        qed
        have fit: "task_fits r" using fits find_operationD[OF Some] by (simp add: tasks_fit_def)
        note a = application_validates[OF okb fit pay w(1,2) ok w(3,4)]
        have rb: "find_operation ?own k dbb = Some r" using Some catalog_only_find[OF a(3)] by simp
        from write_transition_ok[OF okb rb _ _ w(6)[simplified]] same(3)
        have t: "z = r\<lparr>o_state := SUCCEEDED, o_completed := Some later, o_result := Some result, o_error := None\<rparr>"
          "transitioned r z later dbb db'"
          by (simp_all add: finished_record[OF wf same(3)])
        from t(2) have "model_validate z = Inr z" by (auto simp add: transitioned_def intro: op_wf_model_validate)
        moreover have "refreshed r later = r" using same(3) w(5) by (simp add: refreshed_def)
        ultimately have "apply_worker_success k ?own ws later result ps ds ?S = (Inr v, ?T)"
          using transitioned_store(1)[OF okb t(2)] rk same(3) v a(1,2) by (simp add: app settle_def t(1)[symmetric])
        moreover have m: "row_moved ?own dbb db'" using t(2) rk by (auto simp add: row_moved_def)
        ultimately show ?thesis using a(3,4) okb moved_others[OF okb m] by (auto simp add: applied_def)
      qed
    qed
  qed
  then show "\<exists>t\<in>{now, later}. apply_worker_success k ?own ws t result ps ds ?S = (Inr v, ?T)" "applied ?own db db'"
    "t' \<noteq> ?own \<Longrightarrow> tenant_store t' db' = tenant_store t' db" by simp_all
qed

section \<open>The log of events\<close>

definition events_of :: "string \<Rightarrow> string \<Rightarrow> gateway_db \<Rightarrow> event_row list" where
  "events_of t k db = filter (\<lambda>e. ev_tenant e = t \<and> ev_operation e = k) (gd_events db)"

text \<open>A log that begins after the state s (none for a new operation) and ends in a state.\<close>

fun follows :: "operation_state option \<Rightarrow> event_row list \<Rightarrow> operation_state \<Rightarrow> bool" where
  "follows s [] st \<longleftrightarrow> s = Some st"
| "follows s (e # es) st \<longleftrightarrow> ev_from e = s \<and> (case s of None \<Rightarrow> ev_to e = CREATED | Some a \<Rightarrow> known_edge a (ev_to e))
     \<and> follows (Some (ev_to e)) es st"

lemma follows_append: "follows s es a \<Longrightarrow> follows (Some a) fs b \<Longrightarrow> follows s (es @ fs) b"
  by (induction es arbitrary: s) auto

definition log_ok :: "gateway_db \<Rightarrow> bool" where
  "log_ok db \<longleftrightarrow> (\<forall>r\<in>set (gd_operations db). follows None (events_of (o_tenant r) (o_id r) db) (o_state r))
     \<and> (\<forall>e\<in>set (gd_events db). find_operation (ev_tenant e) (ev_operation e) db \<noteq> None)"

lemma find_operation_none: "find_operation t k db = None \<longleftrightarrow> (\<forall>r\<in>set (gd_operations db). \<not> (o_tenant r = t \<and> o_id r = k))"
  by (auto simp add: find_operation_def find_None_iff operation_is_def)

lemma history_catalog: "catalog_only db db' \<Longrightarrow> log_ok db \<Longrightarrow> log_ok db'"
  by (auto simp add: log_ok_def events_of_def catalog_only_def find_operation_def)

lemma history_created:
  assumes h: "log_ok db" and c: "created x db db'"
  shows "log_ok db'"
proof -
  let ?e = "\<lparr>ev_tenant = o_tenant x, ev_operation = o_id x, ev_from = None, ev_to = CREATED, ev_at = o_created x\<rparr>"
  have db': "gd_operations db' = gd_operations db @ [x]" "gd_events db' = gd_events db @ [?e]" and st: "o_state x = CREATED"
    and new: "find_operation (o_tenant x) (o_id x) db = None"
    using c by (auto simp add: created_def add_events_def)
  have none: "events_of (o_tenant x) (o_id x) db = []"
    using h new by (auto simp add: log_ok_def events_of_def filter_empty_conv)
  have other: "events_of (o_tenant r) (o_id r) db' = events_of (o_tenant r) (o_id r) db" if "r \<in> set (gd_operations db)" for r
    using that new by (auto simp add: events_of_def db' find_operation_none)
  have "events_of (o_tenant x) (o_id x) db' = [?e]" using none by (simp add: events_of_def db')
  with h other st show ?thesis
    by (auto simp add: log_ok_def db' find_operation_none)
qed

lemma history_transitioned:
  assumes ok: "gateway_ok db" and h: "log_ok db" and tr: "transitioned r x at db db'"
  shows "log_ok db'"
proof -
  have t: "find_operation (o_tenant r) (o_id r) db = Some r" "same_identity r x" "lifecycle_edge (o_state r) (o_state x)"
    and db': "gd_events db' = gd_events db @ [event_of r x at]"
      "gd_operations db' = map (\<lambda>y. if operation_is (o_tenant x) (o_id x) y then x else y) (gd_operations db)"
    using tr by (auto simp add: transitioned_def add_events_def replace_operation_def)
  have id: "o_tenant x = o_tenant r" "o_id x = o_id r" using t(2) by (simp_all add: same_identity_def)
  have old: "follows None (events_of (o_tenant r) (o_id r) db) (o_state r)"
    using h find_operationD[OF t(1)] by (auto simp add: log_ok_def)
  have "follows None (events_of (o_tenant y) (o_id y) db') (o_state y)" if y: "y \<in> set (gd_operations db')" for y
  proof (cases "o_tenant y = o_tenant r \<and> o_id y = o_id r")
    case True
    with y have "y = x" using id by (auto simp add: db' operation_is_def split: if_splits)
    moreover have "events_of (o_tenant r) (o_id r) db' = events_of (o_tenant r) (o_id r) db @ [event_of r x at]"
      by (simp add: events_of_def db' event_of_def)
    ultimately show ?thesis
      using follows_append[OF old, of "[event_of r x at]" "o_state x"] t(3) id by (simp add: event_of_def known_edge_iff)
  next
    case False
    with y id have "y \<in> set (gd_operations db)" by (auto simp add: db' split: if_splits)
    moreover have "events_of (o_tenant y) (o_id y) db' = events_of (o_tenant y) (o_id y) db"
      using False by (auto simp add: events_of_def db' event_of_def)
    ultimately show ?thesis using h by (simp add: log_ok_def)
  qed
  moreover have "find_operation (ev_tenant e) (ev_operation e) db' \<noteq> None" if "e \<in> set (gd_events db')" for e
  proof -
    have "find_operation (ev_tenant e) (ev_operation e) db \<noteq> None"
      using that h t(1) by (auto simp add: db' event_of_def log_ok_def)
    then obtain y where y: "y \<in> set (gd_operations db)" "o_tenant y = ev_tenant e" "o_id y = ev_operation e"
      by (auto simp add: find_operation_none)
    let ?y = "if operation_is (o_tenant x) (o_id x) y then x else y"
    have "?y \<in> set (gd_operations db')" using y(1) by (simp add: db')
    moreover have "o_tenant ?y = ev_tenant e" "o_id ?y = ev_operation e" using y(2,3) by (auto simp add: operation_is_def)
    ultimately show ?thesis unfolding find_operation_none by blast
  qed
  ultimately show ?thesis by (simp add: log_ok_def)
qed

lemma history_moved: "gateway_ok db \<Longrightarrow> log_ok db \<Longrightarrow> row_moved own db db' \<Longrightarrow> log_ok db'"
  unfolding row_moved_def using history_transitioned by blast

lemma operation_row_unique:
  assumes ok: "gateway_ok db" and y: "y \<in> set (gd_operations db)"
  shows "filter (\<lambda>r. o_tenant r = o_tenant y \<and> o_id r = o_id y) (gd_operations db) = [y]"
proof -
  have "distinct (map o_id xs) \<Longrightarrow> y \<in> set xs \<Longrightarrow> filter (\<lambda>r. o_id r = o_id y) xs = [y]" for xs
    by (induction xs) (auto simp add: filter_empty_conv, metis imageI)
  from this[OF gateway_ok_keys(4)[OF ok, of "o_tenant y"]] y show ?thesis
    by (simp add: tenant_operations_def conj_commute)
qed

lemma history_closed:
  assumes ok: "gateway_ok db" and h: "log_ok db"
  shows "log_ok (closed_at tenant ws now db)"
proof -
  let ?f = "refresh_item tenant ws now" and ?due = "sql_due tenant ws now" and ?db = "closed_at tenant ws now db"
  have db: "gd_operations ?db = map ?f (gd_operations db)" "gd_events ?db = gd_events db @ map (closing_event now) (filter ?due (gd_operations db))"
    by (simp_all add: closed_at_def add_events_def)
  have ev: "events_of (o_tenant y) (o_id y) ?db = events_of (o_tenant y) (o_id y) db @ (if ?due y then [closing_event now y] else [])"
    if y: "y \<in> set (gd_operations db)" for y
  proof -
    have "filter (\<lambda>e. ev_tenant e = o_tenant y \<and> ev_operation e = o_id y) (map (closing_event now) (filter ?due (gd_operations db)))
        = map (closing_event now) (filter ?due (filter (\<lambda>r. o_tenant r = o_tenant y \<and> o_id r = o_id y) (gd_operations db)))"
      by (simp add: filter_map comp_def closing_event_def conj_ac)
    then show ?thesis by (simp add: events_of_def db operation_row_unique[OF ok y])
  qed
  have "follows None (events_of (o_tenant (?f y)) (o_id (?f y)) ?db) (o_state (?f y))" if y: "y \<in> set (gd_operations db)" for y
  proof -
    have old: "follows None (events_of (o_tenant y) (o_id y) db) (o_state y)" using h y by (simp add: log_ok_def)
    note c = sql_close_refreshed[OF gateway_ok_op(2)[OF ok y], of tenant ws now]
    show ?thesis
    proof (cases "?due y")
      case True
      then have "known_edge (o_state y) (o_state (sql_close now y))"
        by (auto simp add: sql_due_def sql_close_def Let_def known_edge_iff lifecycle_edge.simps)
      with True c ev[OF y] follows_append[OF old, of "[closing_event now y]" "o_state (sql_close now y)"] show ?thesis
        by (simp add: closing_event_def)
    next
      case False
      with c ev[OF y] old show ?thesis by simp
    qed
  qed
  moreover have "find_operation (ev_tenant e) (ev_operation e) ?db \<noteq> None" if "e \<in> set (gd_events ?db)" for e
    using that h by (auto simp add: db log_ok_def find_operation_none closing_event_def)
  ultimately show ?thesis by (auto simp add: log_ok_def db)
qed

end
