(* ===== verification/Postgres_Properties.thy ===== *)
theory Postgres_Properties
  imports Postgres_Steps
begin

text \<open>
  What holds of the database of the gateway, whatever methods its repositories are called for, for
  whatever tenants and arguments, with whatever clock readings and fates of their transactions:
  each tenant's rows are a store the in-memory repository could have reached, methods answer as
  there, the events tell every operation's life, and what is particular to the database: the quota,
  presence, atomic applications, and a failure report that can never be recorded.
\<close>

declare map_of_eq_Some_iff [simp del]

declare Some_eq_map_of_iff [simp del]

section \<open>Calls\<close>

lemma pg_cursor_ok: "pg_cursor fate body db = (Inr v, db') \<Longrightarrow> body db = (Inr v, db')"
  by (auto simp add: pg_cursor_def split: db_fate.splits prod.splits sum.splits)

text \<open>
  A call leaves the database as it is, or one of some bodies of transactions ran and answered:
  checks in front of a transaction raise and change nothing, or let it run.
\<close>

definition tx_ran :: "(gateway_db, 'a) py set \<Rightarrow> gateway_db \<Rightarrow> gateway_db \<Rightarrow> bool" where
  "tx_ran bodies db db' \<longleftrightarrow> db' = db \<or> (\<exists>body\<in>bodies. \<exists>v. body db = (Inr v, db'))"

lemma ran_cursor: "body \<in> bodies \<Longrightarrow> tx_ran bodies db (snd (pg_cursor fate body db))"
  by (fastforce simp add: tx_ran_def pg_cursor_def split: db_fate.splits prod.splits sum.splits)

lemma ran_checked: "(\<And>x. c = Inr x \<Longrightarrow> tx_ran bodies db (snd (f x db))) \<Longrightarrow> tx_ran bodies db (snd (bindS (liftR c) f db))"
  by (cases c) (auto simp add: bindS_def liftR_def tx_ran_def)

lemma checked_ok: "bindS (liftR c) f db = (Inr v, db') \<Longrightarrow> \<exists>x. c = Inr x \<and> f x db = (Inr v, db')"
  by (cases c) (auto simp add: bindS_def liftR_def)

lemmas method_effects = pg_upsert_workstation_def pg_upsert_project_def pg_upsert_drawing_def pg_set_workstation_online_def
  pg_create_or_get_operation_def pg_refresh_operation_def pg_lease_next_operation_def pg_start_operation_def
  pg_finish_operation_def pg_apply_worker_success_def

lemma start_effect: "tx_ran {start_tx rp now k ws} db (snd (pg_start_operation rp fate now k tenant ws c db))"
  unfolding method_effects by (intro ran_checked ran_cursor) simp

lemma refresh_effect: "tx_ran {refresh_tx rp now k} db (snd (pg_refresh_operation rp fate now k c db))"
  unfolding method_effects by (intro ran_checked ran_cursor) simp

lemma lease_effect: "tx_ran (range (lease_tx rp t1 t2 t3 ws owner)) db (snd (pg_lease_next_operation rp fate t1 t2 t3 tenant ws owner c e db))"
  unfolding method_effects by (intro ran_checked ran_cursor) simp

lemma finish_effect: "tx_ran {b. b = finish_tx rp now later k ws st result code \<and> finish_payload st result code = Inr ()} db
    (snd (pg_finish_operation rp fate now later k tenant ws c st result code db))"
  unfolding method_effects by (intro ran_checked ran_cursor) simp

lemma apply_effect: "tx_ran {b. b = apply_tx rp now later k ws result ps ds \<and> application_checked result ps ds = Inr ()} db
    (snd (pg_apply_worker_success rp fate now later k tenant ws c result ps ds db))"
  unfolding method_effects by (intro ran_checked ran_cursor) simp

lemma catch_validate: "catchR (model_validate r) (\<lambda>_. Inl e) = Inr x \<longleftrightarrow> model_validate r = Inr x"
  by (cases "model_validate r") auto

lemma create_effect: "tx_ran {b. \<exists>x. b = create_tx rp t now x \<and> model_validate r = Inr x \<and> o_tenant x = pg_tenant rp \<and> o_state x = CREATED} db
    (snd (pg_create_or_get_operation rp fate t now r db))"
  unfolding method_effects
  by (intro ran_checked ran_cursor) (auto simp add: catch_validate pg_require_tenant_def)

section \<open>Runs\<close>

definition empty_gateway :: gateway_db where
  "empty_gateway = \<lparr>gd_stations = [], gd_projects = [], gd_drawings = [], gd_operations = [], gd_events = []\<rparr>"

text \<open>
  One call of a method that writes, or the presence of a workstation recorded by worker control.
  The other methods only read.
\<close>

inductive pg_step :: "gateway_db \<Rightarrow> gateway_db \<Rightarrow> bool" where
  pg_workstation: "pg_step db (snd (pg_upsert_workstation rp fate now w db))"
| pg_online: "pg_step db (snd (pg_set_workstation_online rp fate now k online db))"
| pg_presence: "pg_step db (see_workstation tenant k now presence_seconds db)"
| pg_project: "pg_step db (snd (pg_upsert_project rp fate p db))"
| pg_drawing: "pg_step db (snd (pg_upsert_drawing rp fate d db))"
| pg_create: "pg_step db (snd (pg_create_or_get_operation rp fate lock_now now r db))"
| pg_refresh: "pg_step db (snd (pg_refresh_operation rp fate now k caller_now db))"
| pg_lease: "pg_step db (snd (pg_lease_next_operation rp fate lock_now refresh_now lease_now tenant ws owner caller_now caller_expiry db))"
| pg_start: "pg_step db (snd (pg_start_operation rp fate now k tenant ws caller_now db))"
| pg_finish: "pg_step db (snd (pg_finish_operation rp fate now later k tenant ws caller_now st result code db))"
| pg_apply: "pg_step db (snd (pg_apply_worker_success rp fate now later k tenant ws caller_now result ps ds db))"

definition pg_reachable :: "gateway_db \<Rightarrow> bool" where
  "pg_reachable db \<longleftrightarrow> pg_step\<^sup>*\<^sup>* empty_gateway db"

definition pg_good :: "gateway_db \<Rightarrow> bool" where
  "pg_good db \<longleftrightarrow> gateway_ok db \<and> tasks_fit db \<and> log_ok db"

definition good_move :: "gateway_db \<Rightarrow> gateway_db \<Rightarrow> bool" where
  "good_move db db' \<longleftrightarrow> pg_good db' \<and> (\<forall>t. tenant_step\<^sup>*\<^sup>* (tenant_store t db) (tenant_store t db'))"

lemma good_move_refl: "pg_good db \<Longrightarrow> good_move db db"
  by (simp add: good_move_def)

lemma tenant_empty: "tenant_store t empty_gateway = empty_repo"
  by (simp add: empty_gateway_def empty_repo_def tenant_store_def tenant_stations_def tenant_projects_def tenant_drawings_def
      tenant_operations_def keyed_rows_def)

lemma pg_good_empty: "pg_good empty_gateway"
  by (simp add: pg_good_def gateway_ok_def tenant_empty repo_wf_empty tasks_fit_def log_ok_def)
    (simp add: empty_gateway_def)

lemma tasks_fit_catalog: "catalog_only db db' \<Longrightarrow> tasks_fit db \<Longrightarrow> tasks_fit db'"
  by (simp add: tasks_fit_def catalog_only_def)

lemma task_fits_same: "o_task x = o_task y \<Longrightarrow> o_ws x = o_ws y \<Longrightarrow> task_fits x = task_fits y"
  by (cases "o_task y") (simp_all add: task_fits_def)

lemma tasks_fit_moved:
  assumes fit: "tasks_fit db" and m: "row_moved own db db'"
  shows "tasks_fit db'"
  using m unfolding row_moved_def
proof (elim disjE exE conjE)
  fix r x at assume tr: "transitioned r x at db db'"
  then have "r \<in> set (gd_operations db)" "task_fits x = task_fits r"
    using task_fits_same[of x r] by (auto simp add: transitioned_def same_identity_def dest: find_operationD)
  with fit tr show ?thesis by (auto simp add: tasks_fit_def transitioned_def add_events_def replace_operation_def)
qed (use fit in simp)

text \<open>A step of one tenant's store, with the log kept.\<close>

lemma good_moveI:
  assumes good: "pg_good db" and step: "tenant_step\<^sup>*\<^sup>* (tenant_store own db) (tenant_store own db')"
    and others: "\<And>t. t \<noteq> own \<Longrightarrow> tenant_store t db' = tenant_store t db" and rest: "tasks_fit db'" "log_ok db'"
  shows "good_move db db'"
proof -
  have ok: "gateway_ok db" using good by (simp add: pg_good_def)
  have "good_step (tenant_store own db) (tenant_store own db')"
    using store_steps_good[OF step] ok by (simp add: gateway_ok_def)
  from gateway_ok_step[OF ok this others] have "gateway_ok db'" .
  moreover have "tenant_step\<^sup>*\<^sup>* (tenant_store t db) (tenant_store t db')" for t
    using step others[of t] by (cases "t = own") auto
  ultimately show ?thesis using rest by (simp add: good_move_def pg_good_def)
qed

lemma method_step: "repo_step (tenant_store own db) (tenant_store own db') \<Longrightarrow> tenant_step\<^sup>*\<^sup>* (tenant_store own db) (tenant_store own db')"
  by (simp add: tenant_step.by_method r_into_rtranclp)

lemma moved_move:
  assumes good: "pg_good db" and m: "row_moved own db db'" and s: "repo_step (tenant_store own db) (tenant_store own db')"
  shows "good_move db db'"
  using good m s method_step[OF s]
  by (intro good_moveI[OF good, of own]) (auto simp add: pg_good_def moved_others tasks_fit_moved history_moved)

lemma catalog_move:
  assumes good: "pg_good db" and "catalog_only db db'" and s: "repo_step (tenant_store own db) (tenant_store own db')"
    and "\<And>t. t \<noteq> own \<Longrightarrow> tenant_store t db' = tenant_store t db"
  shows "good_move db db'"
  using assms(1,2,4) method_step[OF s]
  by (intro good_moveI[OF good, of own]) (auto simp add: pg_good_def tasks_fit_catalog history_catalog)

text \<open>Catalog methods write one row of their tenant, or nothing.\<close>

lemma returned_ok: "pg_returned valid found db = (Inr v, db') \<Longrightarrow> found = Some v \<and> db' = db"
  by (auto simp add: pg_returned_def from_row_def liftR_def raise_def split: option.splits if_splits)

lemma written: "tx_ran {b. b = bindS write (\<lambda>found. pg_returned valid (g found)) \<and> own} db db' \<Longrightarrow>
    db' = db \<or> (\<exists>q v. own \<and> write db = (Inr q, db') \<and> g q = Some v)"
  by (fastforce simp add: tx_ran_def bindS_eq_Inr dest!: returned_ok)

lemma workstation_effect: "tx_ran {b. b = bindS (upsert_station w) (\<lambda>found. pg_returned valid_workstation_record (map_option (read_station now) found))
      \<and> ws_tenant w = pg_tenant rp} db (snd (pg_upsert_workstation rp fate now w db))"
  unfolding method_effects by (intro ran_checked ran_cursor) (simp add: pg_require_tenant_def bindR_eq_Inr)

lemma project_effect: "tx_ran {b. b = bindS (write_project p) (\<lambda>found. pg_returned valid_project_record found) \<and> prj_tenant p = pg_tenant rp} db
    (snd (pg_upsert_project rp fate p db))"
  unfolding method_effects by (intro ran_checked ran_cursor) (simp add: pg_require_tenant_def bindR_eq_Inr)

lemma drawing_effect: "tx_ran {b. b = bindS (write_drawing d) (\<lambda>found. pg_returned valid_drawing_record found) \<and> drw_tenant d = pg_tenant rp} db
    (snd (pg_upsert_drawing rp fate d db))"
  unfolding method_effects by (intro ran_checked ran_cursor) (simp add: pg_require_tenant_def bindR_eq_Inr)

lemma found_db: "pg_found decode found db = (Inr v, db') \<Longrightarrow> db' = db"
  by (cases found) (auto simp add: bindS_eq_Inr)

lemma online_effect: "tx_ran {bindS (set_online (pg_tenant rp) k b) (pg_found (station_from_row now))} db
    (snd (pg_set_workstation_online rp fate now k b db))"
  unfolding method_effects by (intro ran_checked ran_cursor) simp

lemma online_written: "tx_ran {bindS (set_online t k b) (pg_found decode)} db db' \<Longrightarrow>
    db' = db \<or> (\<exists>found. set_online t k b db = (Inr found, db'))"
  by (auto simp add: tx_ran_def bindS_eq_Inr dest!: found_db)

text \<open>Presence is the online flag of the in-memory store, for a workstation that is enabled.\<close>

lemma same_stations:
  "map wr_record (gd_stations a) = map wr_record (gd_stations b) \<Longrightarrow> gd_projects a = gd_projects b \<Longrightarrow> gd_drawings a = gd_drawings b
    \<Longrightarrow> gd_operations a = gd_operations b \<Longrightarrow> tenant_store t a = tenant_store t b"
  by (simp only: tenant_store_def tenant_stations_def tenant_projects_def tenant_drawings_def tenant_operations_def)

lemma one_station:
  assumes "gateway_ok db" and "u \<in> set (gd_stations db)" "w \<in> set (gd_stations db)" and "station_is t k u" "station_is t k w"
  shows "wr_record u = wr_record w"
proof -
  have "wr_record u \<in> set (tenant_stations t db)" "wr_record w \<in> set (tenant_stations t db)"
    using assms(2-5) by (simp_all add: tenant_stations_def station_is_def)
  with gateway_ok_keys(1)[OF assms(1), of t] assms(4,5) show ?thesis
    unfolding distinct_map station_is_def by (auto dest: inj_onD)
qed

lemma presence_move:
  assumes good: "pg_good db"
  shows "good_move db (see_workstation t k now s db)"
proof (cases "\<exists>w\<in>set (gd_stations db). station_is t k w \<and> ws_enabled (wr_record w)")
  case True
  have ok: "gateway_ok db" using good by (simp add: pg_good_def)
  have en: "ws_enabled (wr_record u)" if "u \<in> set (gd_stations db)" "station_is t k u" for u
    using True one_station[OF ok that(1) _ that(2)] by auto
  obtain found db2 where o: "set_online t k True db = (Inr found, db2)" by (simp add: set_online_def)
  have st: "tenant_store u (see_workstation t k now s db) = tenant_store u db2" for u
  proof (rule same_stations)
    show "map wr_record (gd_stations (see_workstation t k now s db)) = map wr_record (gd_stations db2)"
      using o en by (auto simp add: set_online_def see_workstation_def)
  qed (use o in \<open>auto simp add: set_online_def see_workstation_def\<close>)
  note w = set_online_sim(1,2)[OF ok o]
  show ?thesis
  proof (rule catalog_move[OF good, of _ t])
    show "repo_step (tenant_store t db) (tenant_store t (see_workstation t k now s db))"
      using st_online[of "tenant_store t db" k True] by (simp add: st w(1))
      show "tenant_store u (see_workstation t k now s db) = tenant_store u db" if "u \<noteq> t" for u
      unfolding st by (rule w(2)[OF that])
  qed (simp add: catalog_only_def see_workstation_def)
next
  case False
  then have "see_workstation t k now s db = db"
    by (cases db) (auto simp add: see_workstation_def intro!: map_idI)
  with good show ?thesis by (simp add: good_move_refl)
qed

text \<open>Leases close what ran out; the rest of the store keeps its tasks and its log.\<close>

lemma closed_tasks: "tasks_fit db \<Longrightarrow> tasks_fit (closed_at t ws now db)"
  using task_fits_same[of "refresh_item t ws now r" r for r] by (auto simp add: tasks_fit_def closed_at_def add_events_def)

lemma lease_move:
  assumes good: "pg_good db" and out: "lease_tx rp t1 t2 t3 ws owner duration db = (Inr v, db')"
  shows "good_move db db'"
proof -
  have ok: "gateway_ok db" "tasks_fit db" "log_ok db" using good by (simp_all add: pg_good_def)
  note l = lease_sim(1,2)[OF ok(1) out]
  note c = closed_store(2,3)[OF ok(1), where tenant = "pg_tenant rp" and ws = ws and now = t2]
  show ?thesis
  proof (rule good_moveI[OF good l(1)])
    show "tenant_store t db' = tenant_store t db" if "t \<noteq> pg_tenant rp" for t
      using moved_others[OF c(2) l(2) that] c(1)[OF that] by simp
    show "tasks_fit db'" by (rule tasks_fit_moved[OF closed_tasks[OF ok(2)] l(2)])
    show "log_ok db'" by (rule history_moved[OF c(2) history_closed[OF ok(1,3)] l(2)])
  qed
qed

lemma create_move:
  assumes good: "pg_good db" and r: "o_tenant r = pg_tenant rp" "o_state r = CREATED" "op_wf r"
    and out: "create_tx rp t1 t2 r db = (Inr v, db')"
  shows "good_move db db'"
proof -
  have ok: "gateway_ok db" "tasks_fit db" "log_ok db" using good by (simp_all add: pg_good_def)
  note c = create_sim[OF ok(1) r out]
  from c(2) show ?thesis
  proof
    assume "db' = db"
    with good show ?thesis by (simp add: good_move_refl)
  next
    let ?x = "restamped r t2"
    assume "created ?x db db' \<and> task_fits r \<and> int (active_count r t2 db) < pg_limit rp"
    then have x: "created ?x db db'" "task_fits r" by simp_all
    have s: "repo_step (tenant_store (pg_tenant rp) db) (tenant_store (pg_tenant rp) db')"
      using st_create[of ?x "tenant_store (pg_tenant rp) db"] x(1) r
      by (simp add: c(1) created_def op_wf_model_validate)
    show ?thesis
    proof (rule good_moveI[OF good method_step[OF s]])
      show "tenant_store t db' = tenant_store t db" if "t \<noteq> pg_tenant rp" for t
        using created_store(2)[OF x(1), of t] that r(1) by simp
      show "tasks_fit db'" using x ok(2) task_fits_same[of ?x r] by (auto simp add: created_def tasks_fit_def add_events_def)
      show "log_ok db'" by (rule history_created[OF ok(3) x(1)])
    qed
  qed
qed

lemma apply_move:
  assumes good: "pg_good db" and checked: "application_checked result ps ds = Inr ()"
    and out: "apply_tx rp now later k ws result ps ds db = (Inr v, db')"
  shows "good_move db db'"
proof -
  have ok: "gateway_ok db" "tasks_fit db" "log_ok db" using good by (simp_all add: pg_good_def)
  note a = apply_sim[OF ok(1,2) checked out]
  from a(1) obtain t where "apply_worker_success k (pg_tenant rp) ws t result ps ds (tenant_store (pg_tenant rp) db)
      = (Inr v, tenant_store (pg_tenant rp) db')" by blast
  with st_apply[of "tenant_store (pg_tenant rp) db" k "pg_tenant rp" ws t result ps ds]
  have s: "repo_step (tenant_store (pg_tenant rp) db) (tenant_store (pg_tenant rp) db')" by simp
  from a(2) obtain db1 where m: "catalog_only db db1" "gateway_ok db1" "row_moved (pg_tenant rp) db1 db'"
    by (auto simp add: applied_def)
  show ?thesis
  proof (rule good_moveI[OF good method_step[OF s] a(3)])
    show "tasks_fit db'" by (rule tasks_fit_moved[OF tasks_fit_catalog[OF m(1) ok(2)] m(3)])
    show "log_ok db'" by (rule history_moved[OF m(2) history_catalog[OF m(1) ok(3)] m(3)])
  qed
qed

lemma finish_move:
  assumes good: "pg_good db" and pay: "finish_payload st result code = Inr ()"
    and out: "finish_tx rp now later k ws st result code db = (Inr v, db')"
  shows "good_move db db'"
proof -
  have ok: "gateway_ok db" using good by (simp add: pg_good_def)
  note f = finish_sim[OF ok pay out]
  from f(1) obtain t v' where "finish_operation k (pg_tenant rp) ws t st result code (tenant_store (pg_tenant rp) db)
      = (Inr v', tenant_store (pg_tenant rp) db')" by blast
  with st_finish[of "tenant_store (pg_tenant rp) db" k "pg_tenant rp" ws t st result code]
  show ?thesis by (intro moved_move[OF good f(2)]) simp
qed

lemma refresh_move:
  assumes good: "pg_good db" and out: "refresh_tx rp now k db = (Inr v, db')"
  shows "good_move db db'"
proof -
  have ok: "gateway_ok db" using good by (simp add: pg_good_def)
  note s = refresh_sim[OF ok out]
  show ?thesis using st_refresh[of "tenant_store (pg_tenant rp) db" k now] s(1)
    by (intro moved_move[OF good s(2)]) simp
qed

lemma start_move:
  assumes good: "pg_good db" and out: "start_tx rp now k ws db = (Inr v, db')"
  shows "good_move db db'"
proof -
  have ok: "gateway_ok db" using good by (simp add: pg_good_def)
  note s = start_sim[OF ok out]
  show ?thesis using st_start[of "tenant_store (pg_tenant rp) db" k "pg_tenant rp" ws now] s(1)
    by (intro moved_move[OF good s(2)]) simp
qed

lemma ran_move:
  assumes "tx_ran bodies db db'" and "pg_good db"
    and "\<And>body v. body \<in> bodies \<Longrightarrow> body db = (Inr v, db') \<Longrightarrow> good_move db db'"
  shows "good_move db db'"
  using assms good_move_refl unfolding tx_ran_def by auto

lemma pg_step_move:
  assumes "pg_step db db'" and good: "pg_good db"
  shows "good_move db db'"
  using assms
proof (induction rule: pg_step.induct)
  case (pg_workstation db rp fate now w)
  then have ok: "gateway_ok db" by (simp add: pg_good_def)
  let ?db' = "snd (pg_upsert_workstation rp fate now w db)"
  from written[OF workstation_effect[of w now rp db fate]] show ?case
  proof (elim disjE exE conjE)
    fix q v assume o: "ws_tenant w = pg_tenant rp" "upsert_station w db = (Inr q, ?db')" "map_option (read_station now) q = Some v"
    then obtain r where "upsert_station w db = (Inr (Some r), ?db')" by auto
    note u = upsert_station_sim[OF ok o(1) this]
    show ?thesis using st_upsert_workstation[of "tenant_store (pg_tenant rp) db" w] u
      by (intro catalog_move[OF pg_workstation, of _ "pg_tenant rp"]) simp_all
  qed (simp add: good_move_refl pg_workstation)
next
  case (pg_online db rp fate now k b)
  then have ok: "gateway_ok db" by (simp add: pg_good_def)
  let ?db' = "snd (pg_set_workstation_online rp fate now k b db)"
  from online_written[OF online_effect[of rp k b now db fate]] show ?case
  proof (elim disjE exE)
    fix found assume "set_online (pg_tenant rp) k b db = (Inr found, ?db')"
    note u = set_online_sim[OF ok this]
    show ?thesis using st_online[of "tenant_store (pg_tenant rp) db" k b] u
      by (intro catalog_move[OF pg_online, of _ "pg_tenant rp"]) simp_all
  qed (simp add: good_move_refl pg_online)
next
  case (pg_project db rp fate p)
  then have ok: "gateway_ok db" by (simp add: pg_good_def)
  let ?db' = "snd (pg_upsert_project rp fate p db)"
  from written[OF project_effect[of p rp db fate]] show ?case
  proof (elim disjE exE conjE)
    fix q v assume o: "prj_tenant p = pg_tenant rp" "write_project p db = (Inr q, ?db')" "q = Some v"
    note u = write_project_sim[OF ok o(1) o(2)[unfolded o(3)]]
    show ?thesis using st_upsert_project[of "tenant_store (pg_tenant rp) db" p] u(2,4,5)
      by (intro catalog_move[OF pg_project, of _ "pg_tenant rp"]) simp_all
  qed (simp add: good_move_refl pg_project)
next
  case (pg_drawing db rp fate d)
  then have ok: "gateway_ok db" by (simp add: pg_good_def)
  let ?db' = "snd (pg_upsert_drawing rp fate d db)"
  from written[OF drawing_effect[of d rp db fate]] show ?case
  proof (elim disjE exE conjE)
    fix q v assume o: "drw_tenant d = pg_tenant rp" "write_drawing d db = (Inr q, ?db')" "q = Some v"
    note u = write_drawing_sim[OF ok o(1) o(2)[unfolded o(3)]]
    show ?thesis using st_upsert_drawing[of "tenant_store (pg_tenant rp) db" d] u(2,4,5)
      by (intro catalog_move[OF pg_drawing, of _ "pg_tenant rp"]) simp_all
  qed (simp add: good_move_refl pg_drawing)
next
  case (pg_create db rp fate t1 t2 r)
  show ?case by (rule ran_move[OF create_effect pg_create]) (auto intro!: create_move[OF pg_create] model_validate_wf)
next
  case (pg_refresh db rp fate now k c)
  show ?case by (rule ran_move[OF refresh_effect pg_refresh]) (auto intro!: refresh_move[OF pg_refresh])
next
  case (pg_start db rp fate now k t ws c)
  show ?case by (rule ran_move[OF start_effect pg_start]) (auto intro!: start_move[OF pg_start])
next
  case (pg_lease db rp fate t1 t2 t3 t ws owner c e)
  show ?case by (rule ran_move[OF lease_effect pg_lease]) (auto dest: lease_move[OF pg_lease])
next
  case (pg_finish db rp fate now later k t ws c st result code)
  show ?case by (rule ran_move[OF finish_effect pg_finish]) (auto intro!: finish_move[OF pg_finish])
next
  case (pg_apply db rp fate now later k t ws c result ps ds)
  show ?case by (rule ran_move[OF apply_effect pg_apply]) (auto intro!: apply_move[OF pg_apply])
qed (rule presence_move)

lemma pg_steps_move: "pg_step\<^sup>*\<^sup>* db db' \<Longrightarrow> pg_good db \<Longrightarrow> good_move db db'"
proof (induction rule: rtranclp_induct)
  case base
  then show ?case by (rule good_move_refl)
next
  case (step a b)
  then have a: "good_move db a" by simp
  then have "pg_good a" by (simp add: good_move_def)
  from pg_step_move[OF step.hyps(2) this] have "good_move a b" .
  with a show ?case unfolding good_move_def by (blast intro: rtranclp_trans)
qed

lemma pg_reachable_good: "pg_reachable db \<Longrightarrow> pg_good db"
  unfolding pg_reachable_def using pg_steps_move[OF _ pg_good_empty] by (auto simp add: good_move_def)

lemma pg_reachable_refines: "pg_reachable db \<Longrightarrow> tenant_step\<^sup>*\<^sup>* empty_repo (tenant_store t db)"
  unfolding pg_reachable_def using pg_steps_move[OF _ pg_good_empty] by (auto simp add: good_move_def tenant_empty)

section \<open>Answers\<close>

lemma start_ok: "pg_start_operation rp fate now k tenant ws c db = (Inr v, db') \<Longrightarrow>
    tenant = pg_tenant rp \<and> start_tx rp now k ws db = (Inr v, db')"
  unfolding method_effects by (auto simp add: pg_require_tenant_def bindS_eq_Inr dest!: checked_ok pg_cursor_ok)

lemma refresh_ok: "pg_refresh_operation rp fate now k c db = (Inr v, db') \<Longrightarrow> refresh_tx rp now k db = (Inr v, db')"
  unfolding method_effects by (auto dest!: checked_ok pg_cursor_ok)

lemma finish_ok: "pg_finish_operation rp fate now later k tenant ws c st result code db = (Inr v, db') \<Longrightarrow>
    tenant = pg_tenant rp \<and> finish_payload st result code = Inr () \<and> finish_tx rp now later k ws st result code db = (Inr v, db')"
  unfolding method_effects by (auto simp add: pg_require_tenant_def dest!: checked_ok pg_cursor_ok)

lemma apply_ok: "pg_apply_worker_success rp fate now later k tenant ws c result ps ds db = (Inr v, db') \<Longrightarrow>
    tenant = pg_tenant rp \<and> application_checked result ps ds = Inr () \<and> apply_tx rp now later k ws result ps ds db = (Inr v, db')"
  unfolding method_effects by (auto simp add: pg_require_tenant_def dest!: checked_ok pg_cursor_ok)

lemma create_ok: "pg_create_or_get_operation rp fate t now r db = (Inr v, db') \<Longrightarrow>
    \<exists>x. model_validate r = Inr x \<and> o_tenant x = pg_tenant rp \<and> o_state x = CREATED \<and> create_tx rp t now x db = (Inr v, db')"
  unfolding method_effects
  by (auto simp add: catch_validate pg_require_tenant_def dest!: checked_ok pg_cursor_ok)

lemma lease_ok: "pg_lease_next_operation rp fate t1 t2 t3 tenant ws owner c e db = (Inr v, db') \<Longrightarrow>
    \<exists>duration. tenant = pg_tenant rp \<and> seconds 5 \<le> duration \<and> duration \<le> seconds (5 * 60)
      \<and> lease_tx rp t1 t2 t3 ws owner duration db = (Inr v, db')"
  unfolding method_effects by (fastforce simp add: pg_require_tenant_def dest!: checked_ok pg_cursor_ok)

lemma get_ok:
  assumes ok: "gateway_ok db" and out: "pg_get_operation rp fate k db = (Inr v, db')"
  shows "v = find_operation (pg_tenant rp) k db" "db' = db"
proof -
  have valid: "model_validate x = Inr x" if "find_operation (pg_tenant rp) k db = Some x" for x
    using gateway_ok_op(2)[OF ok] find_operationD[OF that] by (blast intro: op_wf_model_validate)
  from out have "pg_found model_validate (find_operation (pg_tenant rp) k db) db = (Inr v, db')"
    by (auto simp add: pg_get_operation_def bindS_eq_Inr dest!: checked_ok pg_cursor_ok)
  with valid have "v = find_operation (pg_tenant rp) k db \<and> db' = db"
    by (cases "find_operation (pg_tenant rp) k db") (auto simp add: bindS_eq_Inr)
  then show "v = find_operation (pg_tenant rp) k db" "db' = db" by simp_all
qed

lemma from_row_ok: "from_row valid r = Inr x \<Longrightarrow> x = r"
  by (simp add: from_row_def split: if_splits)

lemma decode_same: "decode_rows (from_row valid) rows = Inr xs \<Longrightarrow> xs = rows"
  by (induction rows arbitrary: xs) (auto simp add: bindR_eq_Inr dest!: from_row_ok)

lemma list_projects_ok:
  assumes "pg_list_projects rp fate tenant owner ws db = (Inr v, db')"
  shows "list_projects tenant owner ws (tenant_store tenant db) = (Inr v, tenant_store tenant db')" "db' = db"
proof -
  from assms have "tenant = pg_tenant rp" "db' = db"
    "v = sort_key prj_id (filter (\<lambda>p. prj_tenant p = pg_tenant rp \<and> prj_owner p = owner
       \<and> (case ws of None \<Rightarrow> True | Some w \<Rightarrow> prj_ws p = w) \<and> prj_enabled p) (gd_projects db))"
    by (auto simp add: pg_list_projects_def pg_require_tenant_def bindS_eq_Inr dest!: checked_ok pg_cursor_ok decode_same)
  then show "list_projects tenant owner ws (tenant_store tenant db) = (Inr v, tenant_store tenant db')" "db' = db"
    by (auto simp add: list_projects_def tenant_store_sel tenant_projects_def conj_ac intro!: arg_cong[where f = "sort_key prj_id"] filter_cong)
qed

text \<open>A created operation is new: the in-memory store that answers created has one more request key.\<close>

lemma created_is_new:
  assumes "create_or_get_operation x s = (Inr (CreateOutcome CreateCreated y), s')"
  shows "s' \<noteq> s"
proof -
  from assms have n: "map_of (g_idempotency s) (idem_key x) = None"
    by (auto simp add: create_or_get_operation_def split: option.splits if_splits)
  with assms have "map_of (g_idempotency s') (idem_key x) \<noteq> None"
    by (auto simp add: create_or_get_operation_def update_conv)
  with n show ?thesis by auto
qed

section \<open>Samples\<close>

definition sample_pg :: pg_repository where
  "sample_pg = \<lparr>pg_tenant = tid, pg_limit = 2, pg_json_task = (\<lambda>_. True), pg_json_result = (\<lambda>_. True)\<rparr>"

definition minute_operation :: "char \<Rightarrow> operation_record" where
  "minute_operation c = (sample_operation c 0)\<lparr>o_expires := seconds 60\<rparr>"

text \<open>A workstation seen at 1; an operation created at 2, leased at 3 and started at 4.\<close>

definition station_gateway :: gateway_db where
  "station_gateway = see_workstation tid wid 1 60 (snd (pg_upsert_workstation sample_pg Commits 0 sample_workstation empty_gateway))"

definition queued_gateway :: gateway_db where
  "queued_gateway = snd (pg_create_or_get_operation sample_pg Commits 2 2 (minute_operation CHR ''b'') station_gateway)"

definition leased_gateway :: gateway_db where
  "leased_gateway = snd (pg_lease_next_operation sample_pg Commits 3 3 3 tid wid uid (Aware 0) (Aware (seconds 60)) queued_gateway)"

definition running_gateway :: gateway_db where
  "running_gateway = snd (pg_start_operation sample_pg Commits 4 (oid CHR ''b'') tid wid (Aware 0) leased_gateway)"

lemma pg_reachable_step: "pg_reachable db \<Longrightarrow> pg_step db db' \<Longrightarrow> pg_reachable db'"
  unfolding pg_reachable_def by (rule rtranclp.rtrancl_into_rtrancl)

lemma sample_runs: "pg_reachable station_gateway" "pg_reachable queued_gateway" "pg_reachable leased_gateway" "pg_reachable running_gateway"
proof -
  have "pg_reachable empty_gateway" by (simp add: pg_reachable_def)
  then show s: "pg_reachable station_gateway"
    unfolding station_gateway_def by (blast intro: pg_reachable_step pg_workstation pg_presence)
  then show q: "pg_reachable queued_gateway"
    unfolding queued_gateway_def by (blast intro: pg_reachable_step pg_create)
  then show l: "pg_reachable leased_gateway"
    unfolding leased_gateway_def by (blast intro: pg_reachable_step pg_lease)
  then show "pg_reachable running_gateway"
    unfolding running_gateway_def by (blast intro: pg_reachable_step pg_start)
qed

lemma sample_station: "station_gateway = empty_gateway\<lparr>gd_stations := [\<lparr>wr_record = sample_workstation, wr_seen = Some 1, wr_presence = Some (1 + seconds 60)\<rparr>]\<rparr>"
  by code_simp

lemma sample_queued: "gd_operations queued_gateway = [restamped (minute_operation CHR ''b'') 2]" "gd_stations queued_gateway = gd_stations station_gateway"
  by code_simp+

lemma sample_leased_row: "gd_operations leased_gateway = [leased_record (restamped (minute_operation CHR ''b'') 2) (3 + seconds 60)]"
  by code_simp

lemma sample_started: "is_ok (fst (pg_start_operation sample_pg Commits 4 (oid CHR ''b'') tid wid (Aware 0) leased_gateway))"
  by code_simp

lemma sample_log: "map (\<lambda>e. (ev_from e, ev_to e)) (gd_events leased_gateway) = [(None, CREATED), (Some CREATED, LEASED)]"
  "map (\<lambda>e. (ev_from e, ev_to e)) (gd_events running_gateway) = [(None, CREATED), (Some CREATED, LEASED), (Some LEASED, RUNNING)]"
  by code_simp+

lemma sample_pg_created: "fst (pg_create_or_get_operation sample_pg Commits 2 2 (minute_operation CHR ''b'') station_gateway)
    = Inr (CreateOutcome CreateCreated (restamped (minute_operation CHR ''b'') 2))"
  by code_simp

lemma sample_pg_leased: "fst (pg_lease_next_operation sample_pg Commits 3 3 3 tid wid uid (Aware 0) (Aware (seconds 60)) queued_gateway)
    = Inr (Some (leased_record (restamped (minute_operation CHR ''b'') 2) (3 + seconds 60)))"
  by code_simp

definition running_row :: operation_record where
  "running_row = (restamped (minute_operation CHR ''b'') 2)\<lparr>o_state := RUNNING, o_started := Some 4\<rparr>"

lemma sample_running_row: "gd_operations running_gateway = [running_row]"
  by code_simp

lemma leased_record_id: "o_id (leased_record r until) = o_id r"
  by (simp add: leased_record_def)

section \<open>Refinement\<close>





section \<open>Histories and lifecycles\<close>

text \<open>C20: the events of an operation tell its life, in order: it was created, each further event starts in the state
  the last one ended in and follows an edge of the lifecycle, and the last one ends in the state the
  operation is in. Every event has its operation.\<close>

theorem event_log_is_history:
  assumes "pg_reachable db"
  shows "(\<forall>r\<in>set (gd_operations db). follows None (events_of (o_tenant r) (o_id r) db) (o_state r))
    \<and> (\<forall>e\<in>set (gd_events db). find_operation (ev_tenant e) (ev_operation e) db \<noteq> None)"
  using pg_reachable_good[OF assms] by (simp add: pg_good_def log_ok_def)

theorem event_log_is_history_witness:
  "\<exists>r. gd_operations leased_gateway = [r] \<and> follows None (events_of (o_tenant r) (o_id r) leased_gateway) (o_state r)"
  using event_log_is_history[OF sample_runs(3)] by (simp add: sample_leased_row)

lemma active_rows:
  assumes ok: "gateway_ok db" and r: "r \<in> set (gd_operations db)" "q \<in> set (gd_operations db)"
    and a: "active r" "active q" "o_tenant r = o_tenant q" "o_ws r = o_ws q"
  shows "r = q"
proof -
  have f: "find_operation (o_tenant r) (o_id r) db = Some r" "find_operation (o_tenant r) (o_id q) db = Some q"
    using gateway_ok_op(1)[OF ok r(1)] gateway_ok_op(1)[OF ok r(2)] a(3) by simp_all
  have "repo_wf (tenant_store (o_tenant r) db)" using ok by (simp add: gateway_ok_def)
  then have "o_id r = o_id q" by (rule repo_wf_one_active[OF _ _ _ a]) (simp_all add: f)
  with f show ?thesis by (metis option.inject)
qed



section \<open>Quota and presence\<close>

lemma created_counts: "created x db db' \<Longrightarrow> active_count x now db' \<le> active_count x now db + 1"
  by (auto simp add: created_def active_count_def count_rows_def add_events_def)

text \<open>C21: when an operation is created, its client has at most the configured number of active operations on the
  workstation, the new one included, as counted at the reading of the clock it is stamped with.\<close>

theorem quota_is_kept:
  assumes "pg_reachable db" and "pg_create_or_get_operation rp fate t now r db = (Inr (CreateOutcome CreateCreated x), db')"
  shows "int (active_count x now db') \<le> pg_limit rp \<and> o_created x = now \<and> x \<in> set (gd_operations db')"
proof -
  have ok: "gateway_ok db" using pg_reachable_good[OF assms(1)] by (simp add: pg_good_def)
  from create_ok[OF assms(2)] obtain y where y: "model_validate r = Inr y" "o_tenant y = pg_tenant rp" "o_state y = CREATED"
    "create_tx rp t now y db = (Inr (CreateOutcome CreateCreated x), db')" by blast
  note c = create_sim[OF ok y(2,3) model_validate_wf[OF y(1)] y(4)]
  from created_is_new[OF c(1)] have "db' \<noteq> db" by auto
  with c(2) have n: "created (restamped y now) db db'" "int (active_count y now db) < pg_limit rp" by auto
  from c(1) have x: "x = restamped y now"
    by (auto simp add: create_or_get_operation_def split: option.splits if_splits)
  have "active_count x now db = active_count y now db" by (simp add: x active_count_def restamped_def)
  with created_counts[OF n(1), of now] n x show ?thesis
    by (auto simp add: restamped_def created_def add_events_def)
qed

theorem quota_is_kept_witness:
  "int (active_count (restamped (minute_operation CHR ''b'') 2) 2 queued_gateway) \<le> 2"
proof -
  let ?create = "pg_create_or_get_operation sample_pg Commits 2 2 (minute_operation CHR ''b'') station_gateway"
  have "?create = (Inr (CreateOutcome CreateCreated (restamped (minute_operation CHR ''b'') 2)), queued_gateway)"
    unfolding queued_gateway_def by (rule prod_eqI) (simp_all add: sample_pg_created)
  from quota_is_kept[OF sample_runs(1) this] show ?thesis by (simp add: sample_pg_def)
qed

text \<open>A lock on the workstation counts one row of it, with the owner and the presence asked for.\<close>

lemma lock_worker_counts:
  assumes "lock_worker_workstation rp ws (Some owner) True now db = (Inr u, db')"
  shows "\<exists>w\<in>set (gd_stations db). station_is (pg_tenant rp) ws w \<and> ws_owner (wr_record w) = owner
    \<and> ws_enabled (wr_record w) \<and> present_at now w"
proof -
  from assms have "lock_catalog_rows (pg_tenant rp) OwnedWorkstation (Some owner) ws [ws] None True now db = 1"
    by (auto simp add: lock_worker_workstation_def pg_lock_rows_def bindS_eq_Inr)
  then have "filter (\<lambda>w. station_is (pg_tenant rp) ws w \<and> ws_owner (wr_record w) = owner \<and> ws_enabled (wr_record w)
      \<and> present_at now w) (gd_stations db) \<noteq> []"
    by (auto simp add: lock_catalog_rows_def count_stations_def count_rows_def split: if_splits)
  then show ?thesis by (auto simp add: filter_empty_conv)
qed



section \<open>What the database never records\<close>

lemma finish_attention:
  assumes ok: "gateway_ok db" and r: "find_operation (pg_tenant rp) k db = Some r"
    and here: "o_state r = RUNNING" "o_ws r = ws" "now < o_expires r"
  shows "finish_tx rp now later k ws ATTENTION_REQUIRED None code db \<noteq> (Inr v, db')"
proof -
  have "lock_operation rp k (Some ws) db = (Inr (Some r), db)" using r here by (simp add: lock_operation_eq[OF ok])
  moreover have "refresh_locked rp r now db = (Inr (r, False), db)" using here by (simp add: refresh_locked_def)
  ultimately show ?thesis using here by (auto simp add: finish_tx_def bindS_eq_Inr dest!: lock_worker_ok)
qed



text \<open>
  Two polls of one workstation at the same time: both pass the test for an active operation before
  either has written its lease, and each leases an operation.
\<close>

definition two_queued_gateway :: gateway_db where
  "two_queued_gateway = snd (pg_create_or_get_operation sample_pg Commits 2 2 (minute_operation CHR ''c'') queued_gateway)"

lemma two_leases_race:
  "\<exists>db1 db2 db3 db4 x y. lease_checks sample_pg 3 3 wid uid two_queued_gateway = (Inr False, db1) \<and> lease_checks sample_pg 3 3 wid uid db1 = (Inr False, db2)
    \<and> lease_pick sample_pg 3 wid uid (seconds 60) db2 = (Inr (Some x), db3) \<and> lease_pick sample_pg 3 wid uid (seconds 60) db3 = (Inr (Some y), db4)
    \<and> o_id x \<noteq> o_id y \<and> length (filter active (gd_operations db4)) = 2"
proof -
  let ?db1 = "snd (lease_checks sample_pg 3 3 wid uid two_queued_gateway)"
  let ?db2 = "snd (lease_checks sample_pg 3 3 wid uid ?db1)"
  let ?p = "lease_pick sample_pg 3 wid uid (seconds 60) ?db2"
  let ?q = "lease_pick sample_pg 3 wid uid (seconds 60) (snd ?p)"
  have "fst (lease_checks sample_pg 3 3 wid uid two_queued_gateway) = Inr False" by code_simp
  moreover have "fst (lease_checks sample_pg 3 3 wid uid ?db1) = Inr False" by code_simp
  moreover have "fst ?p = Inr (Some (leased_record (restamped (minute_operation CHR ''b'') 2) (3 + seconds 60)))" by code_simp
  moreover have "fst ?q = Inr (Some (leased_record (restamped (minute_operation CHR ''c'') 2) (3 + seconds 60)))" by code_simp
  moreover have "length (filter active (gd_operations (snd ?q))) = 2" by code_simp
  moreover have "o_id (minute_operation CHR ''b'') \<noteq> o_id (minute_operation CHR ''c'')" by code_simp
  ultimately show ?thesis by (metis prod.collapse leased_record_id restamped_sel(3))
qed

end
