(* ===== verification/Spec2Isabelle.thy ===== *)
theory Spec2Isabelle
  imports Service_Approval Ingress_Properties Execution_Properties Worker_Routes Loop_Properties Batch_Properties
    Control_Properties Postgres_Properties
begin

text \<open>
  A verification development for cadplot-mcp: a gateway that lets chat clients plan and translate
  CAD drawings on licensed workstations, and the worker that runs on such a workstation.

  \<^bold>\<open>The program and its parts.\<close> A principal (tenant, subject, client) asks the gateway
  (services/gateway/cadplot\_gateway) to run a read task or a translation on a workstation.
  GatewayService checks the request against the catalog and stores an operation. The workstation
  polls: its request is authenticated, the service leases the oldest queued operation, the
  dispatch adapter signs it as a task, and the route answers with it. The workstation
  (src/cadplot\_mcp) authorises the task, executes its one command against its local references,
  AutoCAD or the translation backend, signs the result and delivers it; the gateway's ingress
  claims the result under a replay guard and applies it through the service to the operation and
  the catalog. The messages are those of packages/protocol.

  \<^bold>\<open>How the model is built.\<close> A class with state is a record of its fields and one definition per
  method; a Protocol is a record of operations over an abstract state, with its laws as a locale
  that the model's own implementation interprets. Code that only reads returns
  \<^typ>\<open>'a res\<close> (an exception or a value), code that writes is a function in
  \<^typ>\<open>('s, 'a) py\<close>: the state reached so far survives a raise, as in Python. The
  combinators, exceptions and identifier patterns are in Cad\_Prelude. Datetimes are UTC instants in
  microseconds, text is a list of code points or an ASCII string, a dict an association list where
  its order shows and a map where not. A method takes the clock readings it makes and the uuids it
  draws as arguments. A lock makes a method one step.

  \<^bold>\<open>The theories.\<close>
  \<^item> Cad\_Prelude: exceptions, the two result types with their rules, identifier patterns, lemmas.
  \<^item> Translation\_Protocol, Gateway\_Models, Remote\_Protocol, Worker\_Http: the messages
    (translation\_protocol.py, models.py, remote\_protocol.py, worker\_http\_protocol.py), request
    signatures (worker\_crypto.py) and WorkerRequestAuthenticator (worker\_auth.py). Wire\_Text and
    Json\_Canonical: UTF-8 and the canonical JSON that is hashed and signed, with proofs that the
    bytes determine the document.
  \<^item> Gateway\_Repository: InMemoryGatewayRepository (repositories.py). Repository\_Invariant,
    Repository\_Correctness, Repository\_Steps: the store invariant, its preservation, the store as a
    transition system. Repository\_Properties: what holds in every reachable store.
  \<^item> Gateway\_Service: GatewayService (service.py) over any store. Service\_Contract: the laws it
    relies on as locales, interpreted on the in-memory store. Service\_Properties,
    Service\_Approval, Service\_Workers: who may enqueue and read, what an approved application
    needs, that results fit their tasks.
  \<^item> Replay\_Guard, Worker\_Ingress (worker\_ingress.py): the guard against replayed results, the
    dispatch adapter, the ingress. Remote\_Properties, Dispatch\_Properties, Ingress\_Properties:
    signatures cover tasks, a dispatch is accepted by its workstation, an acknowledged result is
    stored, a replay changes nothing.
  \<^item> Control\_Database (migrations 0002 to 0004): the tables of worker control and the stored functions
    over them. Control\_Store (worker\_repository.py): the repository that calls them in transactions,
    each of which commits, rolls back or commits and loses its answer. Control\_Guard: it is a replay
    guard like the one in memory, and refines a register of results. Control\_Properties: what the
    ingress, the request authentication and the dispatches gain from it.
  \<^item> Gateway\_Database (migrations 0001, 0004, 0005): the tables of catalog, operations and events, with
    their checks, trigger and lock function. Postgres\_Repository (postgres\_repository.py): the durable
    repository of a tenant. Postgres\_Refinement, Postgres\_Steps: each method answers as the in-memory
    one on the tenant's rows, and the log of events follows. Postgres\_Properties: that in every
    reachable database, and the quota, presence, and two faults of the code.
  \<^item> Worker\_Routes (worker\_routes.py, composition.py): the HTTP boundary of poll, start and
    complete, composed of all of the above.
  \<^item> Worker\_Dispatch (worker\_dispatch.py): the execution of a task on the workstation.
  \<^item> Translation\_Text (translation.py), Translation\_Properties: cutting drawing text, the inventory
    of reviewable pieces, the plan, and what a plan may change.
  \<^item> Remote\_Translation (remote\_translation.py, translation\_service.py), Translation\_Execution: the
    durable reviews, plans and writes, and that an approved copy is written at most once.
    Execution\_Properties: every authorised task is answered by a result the gateway accepts.
  \<^item> Local\_References (local\_refs.py): the workstation's references, spent nonces and outbox.
    Local\_Properties: orders of its tables carried through every method by the rules of a locale, so
    that ids are stable, rows valid, paths inside their project and nonces spent once.
  \<^item> Worker\_Runner (worker\_transport.py, worker\_runner.py): the signed calls of the workstation and
    one iteration of its loop. Runner\_Properties: results are not lost, pending ones go first, a task
    runs once. Transport\_Properties: a signed call is authenticated, a completion acknowledged.
    Loop\_Properties (worker\_cli.py's loop): no iteration ends the loop, but a refused result stops it.
  \<^item> Batch\_Publish (batch.py): pages of plans, staging and queueing of approved plans, batch status.
    Batch\_Properties: pages cover the inventory, only approved plans are staged, a full queue stops
    the queueing, every job is counted once.

  \<^bold>\<open>Parameters and hypotheses.\<close> SHA-256, Ed25519, pydantic's JSON reader and writer and its text
  for datetimes, Unicode tables, the file system, AutoCAD and the database driver are parameters.
  A property that relies on one states it as a hypothesis (a digest is 32 bytes, a parser reads
  what the writer wrote, a signer returns text of the signature pattern) and has a witness with a
  concrete function in its place.

  \<^bold>\<open>Recursion and bounds.\<close> No definition of the code runs on fuel: loops are structural recursion over lists or
  functions with a termination proof (parts\_loop in Translation\_Text, by the text left). Only
  follow\_pages, the client of batch pages, counts its pages down; batch\_pages\_cover shows that one
  more than the quotient of drawings and limit is enough. The
  limits of the code (payload sizes, page limits, lease and dispatch lifetimes, text lengths) are
  the code's own numbers.

  \<^bold>\<open>Not modelled.\<close> Of PostgreSQL only what the stores rely on is modelled: tables, keys, checks,
  the stored functions, transactions and clock readings; row level security, roles and grants are
  not, as every statement names its tenant itself. Methods of the repositories are steps: locks that
  wait and snapshots of single statements are not modelled, and where that hides a race
  (two\_leases\_race in Postgres\_Properties) the interleaving is given as a sequence of its parts. The
  publish planner and paper profiles compute with binary floats. The COM backends, child
  processes, pipes, the C\# plug-in and PDF reading are operating system and AutoCAD behaviour.
  MCP tool registration, command lines, settings, health probes, token introspection, supply chain
  and acceptance evidence, scripts and demonstrations are glue or input and output around the
  modelled core.
\<close>

end
